(* ===== verification/Canon_Prelude.thy ===== *)
theory Canon_Prelude
  imports Complex_Main "HOL-Library.Word" "HOL-Library.AList" "HOL-Library.Sublist" "HOL-Library.Multiset"
begin

text \<open>
  Shared vocabulary of the development: the widths of the Rust integers, saturating and
  checked arithmetic, the parts of the standard string API that the modelled code calls, the
  value type of JSON documents, IEEE comparison of \<^verbatim>\<open>f32\<close> values, hash maps as association
  lists, and generic list lemmas the component theories share.

  Strings are lists of bytes (\<^typ>\<open>char\<close>), the representation behind Rust's UTF-8
  \<^verbatim>\<open>str\<close>; \<^verbatim>\<open>len\<close> counts bytes in both. A hash map is an association list with distinct
  keys: \<^const>\<open>map_of\<close> reads it, \<^const>\<open>AList.update\<close> and \<^const>\<open>AList.delete\<close> write it, and
  its list order stands for the iteration order, which Rust leaves open; a theorem about a
  function that iterates over a map is stated so that it does not depend on that order.
\<close>

named_theorems route_simps \<open>definitions of the routing and gating pipeline\<close>
named_theorems wire_simps \<open>classification tables of the event wire format\<close>
named_theorems tlog_simps \<open>definitions of the transaction log\<close>
named_theorems harness_simps \<open>definitions of the synthetic harnesses\<close>
named_theorems sched_simps \<open>definitions of the scheduler\<close>

section \<open>Machine integers\<close>

type_synonym u8 = "8 word"
type_synonym u16 = "16 word"
type_synonym u32 = "32 word"
type_synonym u64 = "64 word"
type_synonym usize = "64 word"

definition saturating_add :: "'a::len word \<Rightarrow> 'a word \<Rightarrow> 'a word" where
  "saturating_add a b = (if unat a + unat b < 2 ^ LENGTH('a) then a + b else - 1)"

definition saturating_sub :: "'a::len word \<Rightarrow> 'a word \<Rightarrow> 'a word" where
  "saturating_sub a b = (if b \<le> a then a - b else 0)"

text \<open>Addition with the overflow check of a debug build: \<^const>\<open>None\<close> is the panic.\<close>

definition checked_add :: "'a::len word \<Rightarrow> 'a word \<Rightarrow> 'a word option" where
  "checked_add a b = (if unat a + unat b < 2 ^ LENGTH('a) then Some (a + b) else None)"

lemma unat_saturating_add:
  fixes a b :: "'a::len word"
  shows "unat (saturating_add a b) = min (unat a + unat b) (2 ^ LENGTH('a) - 1)"
proof (cases "unat a + unat b < 2 ^ LENGTH('a)")
  case True
  then have "unat a + unat b \<le> 2 ^ LENGTH('a) - 1" by linarith
  with True show ?thesis
    by (simp add: saturating_add_def unat_word_ariths min_def)
next
  case False
  then have "min (unat a + unat b) (2 ^ LENGTH('a) - 1) = 2 ^ LENGTH('a) - 1" by linarith
  with False show ?thesis
    by (simp add: saturating_add_def unsigned_minus_1_eq_mask mask_eq_exp_minus_1)
qed

lemma unat_saturating_sub: "unat (saturating_sub a b) = unat a - unat b"
  by (simp add: saturating_sub_def unat_sub word_le_nat_alt)

text \<open>The range check behind \<^verbatim>\<open>i32\<close> arithmetic: an out-of-range result is a panic.\<close>

definition i32_ok :: "int \<Rightarrow> bool" where
  "i32_ok x \<longleftrightarrow> - (2 ^ 31) \<le> x \<and> x < 2 ^ 31"

definition checked_i32 :: "int \<Rightarrow> int option" where
  "checked_i32 x = (if i32_ok x then Some x else None)"

section \<open>Comparison of f32 values\<close>

text \<open>
  Only comparisons of \<^verbatim>\<open>f32\<close> values occur in the modelled code. A finite value is the
  rational it denotes (both zeros are 0, as they are equal to the comparison operators); a
  comparison with \<^verbatim>\<open>NaN\<close> is false.
\<close>

datatype f32 = Finite rat | Pos_Inf | Neg_Inf | NaN

fun f32_lt :: "f32 \<Rightarrow> f32 \<Rightarrow> bool" where
  "f32_lt (Finite a) (Finite b) = (a < b)"
| "f32_lt (Finite a) Pos_Inf = True"
| "f32_lt Neg_Inf (Finite b) = True"
| "f32_lt Neg_Inf Pos_Inf = True"
| "f32_lt _ _ = False"

definition f32_le :: "f32 \<Rightarrow> f32 \<Rightarrow> bool" where
  "f32_le a b \<longleftrightarrow> f32_lt a b \<or> (a = b \<and> a \<noteq> NaN)"

lemma f32_lt_irrefl [simp]: "\<not> f32_lt a a"
  by (cases a) auto

lemma f32_lt_NaN [simp]: "\<not> f32_lt NaN a" "\<not> f32_lt a NaN"
  by (cases a; simp)+

lemma f32_lt_trans: "f32_lt a b \<Longrightarrow> f32_lt b c \<Longrightarrow> f32_lt a c"
  by (cases a; cases b; cases c) auto

text \<open>The constants of the thresholds, as the exact values of their nearest \<^verbatim>\<open>f32\<close>.\<close>

abbreviation f32_0 :: f32 where "f32_0 \<equiv> Finite 0"
abbreviation f32_1 :: f32 where "f32_1 \<equiv> Finite 1"
abbreviation f32_neg_0_1 :: f32 where "f32_neg_0_1 \<equiv> Finite (- 13421773 / 134217728)"
abbreviation f32_0_1 :: f32 where "f32_0_1 \<equiv> Finite (13421773 / 134217728)"
abbreviation f32_0_2 :: f32 where "f32_0_2 \<equiv> Finite (13421773 / 67108864)"
abbreviation f32_0_3 :: f32 where "f32_0_3 \<equiv> Finite (5033165 / 16777216)"
abbreviation f32_0_4 :: f32 where "f32_0_4 \<equiv> Finite (13421773 / 33554432)"
abbreviation f32_0_5 :: f32 where "f32_0_5 \<equiv> Finite (1 / 2)"
abbreviation f32_0_6 :: f32 where "f32_0_6 \<equiv> Finite (5033165 / 8388608)"
abbreviation f32_0_7 :: f32 where "f32_0_7 \<equiv> Finite (11744051 / 16777216)"
abbreviation f32_0_8 :: f32 where "f32_0_8 \<equiv> Finite (13421773 / 16777216)"
abbreviation f32_0_9 :: f32 where "f32_0_9 \<equiv> Finite (15099494 / 16777216)"
abbreviation f32_0_95 :: f32 where "f32_0_95 \<equiv> Finite (15938355 / 16777216)"

section \<open>Strings\<close>

definition str_contains :: "string \<Rightarrow> string \<Rightarrow> bool" where
  "str_contains s pat \<longleftrightarrow> sublist pat s"

definition strip_prefix :: "string \<Rightarrow> string \<Rightarrow> string option" where
  "strip_prefix pat s = (if prefix pat s then Some (drop (length pat) s) else None)"

text \<open>UTF-8 encodings of the characters with the Unicode property White\_Space.\<close>

definition white_space :: "string list" where
  "white_space =
     [[CHR 0x09], [CHR 0x0A], [CHR 0x0B], [CHR 0x0C], [CHR 0x0D], [CHR 0x20],
      [CHR 0xC2, CHR 0x85], [CHR 0xC2, CHR 0xA0], [CHR 0xE1, CHR 0x9A, CHR 0x80],
      [CHR 0xE2, CHR 0x80, CHR 0x80], [CHR 0xE2, CHR 0x80, CHR 0x81],
      [CHR 0xE2, CHR 0x80, CHR 0x82], [CHR 0xE2, CHR 0x80, CHR 0x83],
      [CHR 0xE2, CHR 0x80, CHR 0x84], [CHR 0xE2, CHR 0x80, CHR 0x85],
      [CHR 0xE2, CHR 0x80, CHR 0x86], [CHR 0xE2, CHR 0x80, CHR 0x87],
      [CHR 0xE2, CHR 0x80, CHR 0x88], [CHR 0xE2, CHR 0x80, CHR 0x89],
      [CHR 0xE2, CHR 0x80, CHR 0x8A], [CHR 0xE2, CHR 0x80, CHR 0xA8],
      [CHR 0xE2, CHR 0x80, CHR 0xA9], [CHR 0xE2, CHR 0x80, CHR 0xAF],
      [CHR 0xE2, CHR 0x81, CHR 0x9F], [CHR 0xE3, CHR 0x80, CHR 0x80]]"

text \<open>Drop leading members of a set of separators; every separator is non-empty.\<close>

function strip_leading :: "string list \<Rightarrow> string \<Rightarrow> string" where
  "strip_leading ws s =
     (case find (\<lambda>w. w \<noteq> [] \<and> prefix w s) ws of
        None \<Rightarrow> s
      | Some w \<Rightarrow> strip_leading ws (drop (length w) s))"
  by pat_completeness auto
termination
proof (relation "measure (\<lambda>(ws, s). length s)")
  show "wf (measure (\<lambda>(ws, s). length s))" by simp
next
  fix ws s w
  assume "find (\<lambda>w. w \<noteq> [] \<and> prefix w s) ws = Some w"
  then have w: "w \<noteq> []" "prefix w s"
    by (auto simp: find_Some_iff)
  then have "0 < length w" "length w \<le> length s"
    by (auto dest: prefix_length_le)
  then have "length s - length w < length s" by linarith
  then show "((ws, drop (length w) s), ws, s) \<in> measure (\<lambda>(ws, s). length s)"
    by simp
qed

declare strip_leading.simps [simp del]

definition trim_start :: "string \<Rightarrow> string" where
  "trim_start s = strip_leading white_space s"

definition trim_end :: "string \<Rightarrow> string" where
  "trim_end s = rev (strip_leading (map rev white_space) (rev s))"

definition trim :: "string \<Rightarrow> string" where
  "trim s = trim_end (trim_start s)"

definition to_ascii_lowercase :: "string \<Rightarrow> string" where
  "to_ascii_lowercase s =
     map (\<lambda>c. if 65 \<le> (of_char c :: nat) \<and> (of_char c :: nat) \<le> 90
              then char_of ((of_char c :: nat) + 32) else c) s"

text \<open>\<^verbatim>\<open>str::lines\<close>: split at line feeds, drop one carriage return before each, no last
  empty line.\<close>

fun split_lf :: "string \<Rightarrow> string list" where
  "split_lf [] = [[]]"
| "split_lf (c # cs) =
     (if c = CHR 0x0A then [] # split_lf cs
      else (case split_lf cs of [] \<Rightarrow> [[c]] | l # ls \<Rightarrow> (c # l) # ls))"

definition strip_cr :: "string \<Rightarrow> string" where
  "strip_cr l = (if l \<noteq> [] \<and> last l = CHR 0x0D then butlast l else l)"

definition str_lines :: "string \<Rightarrow> string list" where
  "str_lines s =
     (let ls = split_lf s
      in map strip_cr (butlast ls) @ (if last ls = [] then [] else [last ls]))"

text \<open>\<^verbatim>\<open>Display\<close> of an unsigned integer.\<close>

fun decimal :: "nat \<Rightarrow> string" where
  "decimal n = (if n < 10 then [char_of (48 + n)] else decimal (n div 10) @ [char_of (48 + n mod 10)])"

declare decimal.simps [simp del]

text \<open>\<^verbatim>\<open>join\<close> of a slice of strings, \<^verbatim>\<open>str::find\<close> of a pattern, \<^verbatim>\<open>split\<close> at a character, \<^verbatim>\<open>ends_with\<close>.\<close>

fun join :: "string \<Rightarrow> string list \<Rightarrow> string" where
  "join sep [] = ''''"
| "join sep [x] = x"
| "join sep (x # xs) = x @ sep @ join sep xs"

fun str_find :: "string \<Rightarrow> string \<Rightarrow> nat option" where
  "str_find pat [] = (if pat = [] then Some 0 else None)"
| "str_find pat (c # cs) =
     (if prefix pat (c # cs) then Some 0 else map_option Suc (str_find pat cs))"

fun split_char :: "char \<Rightarrow> string \<Rightarrow> string list" where
  "split_char d [] = [[]]"
| "split_char d (c # cs) =
     (if c = d then [] # split_char d cs
      else (case split_char d cs of [] \<Rightarrow> [[c]] | l # ls \<Rightarrow> (c # l) # ls))"

definition ends_with :: "string \<Rightarrow> string \<Rightarrow> bool" where
  "ends_with s pat \<longleftrightarrow> suffix pat s"

text \<open>\<^verbatim>\<open>parse\<close> of an unsigned integer below a bound: an optional plus sign, then digits.\<close>

definition digit_value :: "char \<Rightarrow> nat option" where
  "digit_value c =
     (let n = (of_char c :: nat) in if 48 \<le> n \<and> n \<le> 57 then Some (n - 48) else None)"

fun parse_digits :: "nat \<Rightarrow> string \<Rightarrow> nat option" where
  "parse_digits acc [] = Some acc"
| "parse_digits acc (c # cs) =
     (case digit_value c of None \<Rightarrow> None | Some d \<Rightarrow> parse_digits (10 * acc + d) cs)"

definition parse_unsigned :: "nat \<Rightarrow> string \<Rightarrow> nat option" where
  "parse_unsigned bound s =
     (let digits = (case s of [] \<Rightarrow> [] | c # cs \<Rightarrow> if c = CHR ''+'' then cs else s)
      in if digits = [] then None
         else Option.bind (parse_digits 0 digits) (\<lambda>n. if n < bound then Some n else None))"

definition show_bool :: "bool \<Rightarrow> string" where
  "show_bool b = (if b then ''true'' else ''false'')"

text \<open>Paths are their text; \<^verbatim>\<open>join\<close> replaces the base by an absolute path and puts a separator
  after a base that has none.\<close>

type_synonym path = string

definition is_absolute :: "path \<Rightarrow> bool" where
  "is_absolute p \<longleftrightarrow> prefix ''/'' p"

definition path_join :: "path \<Rightarrow> path \<Rightarrow> path" where
  "path_join base p =
     (if is_absolute p then p
      else if base = [] \<or> last base = CHR ''/'' then base @ p
      else base @ ''/'' @ p)"

definition or_else :: "'a option \<Rightarrow> 'a \<Rightarrow> 'a" where
  "or_else m d = (case m of Some x \<Rightarrow> x | None \<Rightarrow> d)"

lemma or_else_simps [simp]: "or_else (Some x) d = x" "or_else None d = d"
  by (simp_all add: or_else_def)

definition nl :: string where
  "nl = [CHR 0x0A]"

lemma show_bool_eq [simp]: "show_bool b = ''true'' \<longleftrightarrow> b"
  by (simp add: show_bool_def)

lemma parse_digits_append:
  "parse_digits acc (xs @ ys) = Option.bind (parse_digits acc xs) (\<lambda>n. parse_digits n ys)"
  by (induction xs arbitrary: acc) (auto split: option.splits)

lemma digit_value_char: "n < 10 \<Longrightarrow> digit_value (char_of (48 + n)) = Some n"
  by (simp add: digit_value_def)

lemma parse_digits_decimal: "parse_digits 0 (decimal n) = Some n"
proof (induction n rule: decimal.induct)
  case (1 n)
  show ?case
  proof (cases "n < 10")
    case True
    then show ?thesis by (simp add: decimal.simps [of n] digit_value_char)
  next
    case False
    have "digit_value (char_of (48 + n mod 10)) = Some (n mod 10)"
      by (rule digit_value_char) simp
    with False 1 show ?thesis
      by (simp add: decimal.simps [of n] parse_digits_append)
  qed
qed

lemma decimal_not_Nil [simp]: "decimal n \<noteq> []"
  by (subst decimal.simps) simp

lemma plus_code: "(of_char (CHR ''+'') :: nat) = 43"
  by simp

lemma decimal_hd: "hd (decimal n) \<noteq> CHR ''+''"
proof (induction n rule: decimal.induct)
  case (1 n)
  have "(of_char (char_of (48 + n) :: char) :: nat) \<noteq> 43" if "n < 10" using that by simp
  then have "(char_of (48 + n) :: char) \<noteq> CHR ''+''" if "n < 10"
    using that by (metis (no_types, lifting) plus_code)
  with 1 show ?case by (subst decimal.simps) auto
qed

lemma parse_unsigned_decimal [simp]: "n < bound \<Longrightarrow> parse_unsigned bound (decimal n) = Some n"
  using parse_digits_decimal [of n] decimal_hd [of n]
  by (cases "decimal n") (auto simp: parse_unsigned_def Let_def)

text \<open>A pattern that ends in a character it has nowhere else is found at its first occurrence when
  the text before it does not contain it.\<close>

lemma str_find_skip:
  assumes "e \<notin> set p" and "\<not> sublist (p @ [e]) a"
  shows "str_find (p @ [e]) (a @ p @ [e] @ b) = Some (length a)"
  using assms(2)
proof (induction a)
  case Nil
  obtain c cs where cs: "p @ [e] @ b = c # cs" by (cases "p @ [e] @ b") auto
  then have "prefix (p @ [e]) (c # cs)" by (metis append.assoc prefixI)
  with cs show ?case by simp
next
  case (Cons c a)
  have "\<not> prefix (p @ [e]) ((c # a) @ p @ [e] @ b)"
  proof
    assume pre: "prefix (p @ [e]) ((c # a) @ p @ [e] @ b)"
    show False
    proof (cases "length (p @ [e]) \<le> length (c # a)")
      case True
      with pre have "prefix (p @ [e]) (c # a)"
        by (metis prefix_append prefix_length_prefix prefixI)
      with Cons.prems show False by (meson prefix_imp_sublist)
    next
      case False
      from pre obtain zs where zs: "(c # a) @ p @ [e] @ b = p @ [e] @ zs" by (auto simp: prefix_def)
      then have "((c # a) @ p @ [e] @ b) ! length p = e" by (simp add: nth_append)
      moreover have "((c # a) @ p @ [e] @ b) ! length p = p ! (length p - length (c # a))"
        using False by (subst nth_append) (auto simp: nth_append)
      moreover have "length p - length (c # a) < length p" using False by (cases p) auto
      ultimately show False using assms(1) nth_mem by metis
    qed
  qed
  moreover have "\<not> sublist (p @ [e]) a"
    using Cons.prems by (meson sublist_Cons_right)
  ultimately show ?case using Cons.IH by simp
qed

lemma length_strip_leading: "length (strip_leading ws s) \<le> length s"
proof (induction ws s rule: strip_leading.induct)
  case (1 ws s)
  show ?case
  proof (cases "find (\<lambda>w. w \<noteq> [] \<and> prefix w s) ws")
    case None
    then show ?thesis by (simp add: strip_leading.simps [of ws s])
  next
    case (Some w)
    then have "length (strip_leading ws (drop (length w) s)) \<le> length (drop (length w) s)"
      by (rule "1.IH")
    with Some show ?thesis by (simp add: strip_leading.simps [of ws s])
  qed
qed

lemma split_join:
  "ts \<noteq> [] \<Longrightarrow> list_all (\<lambda>t. d \<notin> set t) ts \<Longrightarrow> split_char d (join [d] ts) = ts"
proof (induction ts)
  case (Cons x ts)
  have last: "d \<notin> set x \<Longrightarrow> split_char d x = [x]" by (induction x) auto
  have step: "d \<notin> set x \<Longrightarrow> split_char d (x @ [d] @ zs) = x # split_char d zs" for zs
    by (induction x) auto
  show ?case
  proof (cases ts)
    case Nil
    with Cons.prems last show ?thesis by simp
  next
    case (Cons y ys)
    with Cons.IH Cons.prems step [of "join [d] ts"] show ?thesis by simp
  qed
qed simp

lemma split_lf_split_char: "split_lf = split_char (CHR 0x0A)"
proof
  show "split_lf s = split_char (CHR 0x0A) s" for s by (induction s) auto
qed

lemma lines_of_join:
  assumes "ls \<noteq> []" and "list_all (\<lambda>l. CHR 0x0A \<notin> set l) ls"
    and "list_all (\<lambda>l. l = [] \<or> last l \<noteq> CHR 0x0D) ls" and "last ls \<noteq> []"
  shows "str_lines (join nl ls) = ls"
proof -
  have "split_lf (join nl ls) = ls"
    using split_join [OF assms(1,2)] by (simp add: split_lf_split_char nl_def)
  moreover have "map strip_cr (butlast ls) = butlast ls"
    using assms(3) by (intro map_idI) (auto simp: strip_cr_def list_all_iff dest: in_set_butlastD)
  ultimately show ?thesis using assms(1,4) by (simp add: str_lines_def)
qed

lemma strip_leading_solid:
  assumes "\<forall>w\<in>set ws. w \<noteq> [] \<longrightarrow> hd w \<noteq> c"
  shows "strip_leading ws (c # s) = c # s"
proof -
  have "find (\<lambda>w. w \<noteq> [] \<and> prefix w (c # s)) ws = None"
    using assms by (auto simp: find_None_iff prefix_Cons)
  then show ?thesis by (subst strip_leading.simps) simp
qed

text \<open>A text that starts or ends with a byte that no white space character starts or ends with.\<close>

lemma trim_start_solid: "\<forall>w\<in>set white_space. hd w \<noteq> c \<Longrightarrow> trim_start (c # s) = c # s"
  by (simp add: trim_start_def strip_leading_solid)

lemma trim_end_solid: "\<forall>w\<in>set white_space. last w \<noteq> c \<Longrightarrow> trim_end (s @ [c]) = s @ [c]"
  by (simp add: trim_end_def strip_leading_solid hd_rev)

lemma trim_end_no_cr:
  assumes "trim_end l = l" and "l \<noteq> []"
  shows "last l \<noteq> CHR 0x0D"
proof
  assume cr: "last l = CHR 0x0D"
  obtain r where l: "l = r @ [CHR 0x0D]" using assms(2) cr by (metis append_butlast_last_id)
  obtain w where w: "find (\<lambda>w. w \<noteq> [] \<and> prefix w (rev l)) (map rev white_space) = Some w"
    unfolding l by (auto simp: white_space_def)
  then have "w \<noteq> []" by (auto simp: find_Some_iff)
  have "length (strip_leading (map rev white_space) (rev l)) \<le> length (drop (length w) (rev l))"
    using w length_strip_leading [of "map rev white_space" "drop (length w) (rev l)"]
    by (subst strip_leading.simps) simp
  also have "\<dots> < length l" using \<open>w \<noteq> []\<close> assms(2) by simp
  finally show False using assms(1) by (metis length_rev nat_less_le trim_end_def)
qed

section \<open>JSON values\<close>

datatype json_number = PosInt u64 | NegInt int | JFloat rat

datatype json =
    JNull
  | JBool bool
  | JNumber json_number
  | JString string
  | JArray "json list"
  | JObject "(string \<times> json) list"

fun json_get :: "json \<Rightarrow> string \<Rightarrow> json option" where
  "json_get (JObject m) k = map_of m k"
| "json_get _ k = None"

fun json_as_str :: "json \<Rightarrow> string option" where
  "json_as_str (JString s) = Some s"
| "json_as_str _ = None"

fun json_is_null :: "json \<Rightarrow> bool" where
  "json_is_null JNull = True"
| "json_is_null _ = False"

definition json_get_str :: "json \<Rightarrow> string \<Rightarrow> string option" where
  "json_get_str v k = Option.bind (json_get v k) json_as_str"

section \<open>Generic lemmas\<close>

lemma map_of_update_eq [simp]:
  "map_of (AList.update k v m) k' = (if k' = k then Some v else map_of m k')"
  by (simp add: update_conv')

lemma map_of_delete_eq [simp]:
  "map_of (AList.delete k m) k' = (if k' = k then None else map_of m k')"
  by (simp add: delete_conv')

lemma option_filter_Some: "(x = Some y) \<Longrightarrow> (case x of None \<Rightarrow> a | Some z \<Rightarrow> f z) = f y"
  by simp

lemma sum_list_map_const: "sum_list (map (\<lambda>_. n) xs) = length xs * (n :: nat)"
  by (induction xs) auto

text \<open>\<^verbatim>\<open>collect()\<close> into a hash map: a later pair overrides an earlier one.\<close>

definition collect_map :: "('k \<times> 'v) list \<Rightarrow> ('k \<times> 'v) list" where
  "collect_map xs = fold (\<lambda>(k, v) m. AList.update k v m) xs []"

lemma map_of_fold_update:
  "map_of (fold (\<lambda>(k, v) m. AList.update k v m) xs m) = map_of m ++ map_of (rev xs)"
  by (induction xs arbitrary: m) (auto simp: fun_eq_iff map_add_def split: option.splits)

lemma map_of_collect: "map_of (collect_map xs) = map_of (rev xs)"
  by (simp add: collect_map_def map_of_fold_update)

lemma map_of_rev_distinct: "distinct (map fst xs) \<Longrightarrow> map_of (rev xs) = map_of xs"
  by (rule map_of_inject_set [THEN iffD2]) (simp_all add: rev_map [symmetric])

lemma map_of_collect_distinct: "distinct (map fst xs) \<Longrightarrow> map_of (collect_map xs) = map_of xs"
  by (simp add: map_of_collect map_of_rev_distinct)

lemma distinct_fold_update:
  "distinct (map fst m) \<Longrightarrow> distinct (map fst (fold (\<lambda>(k, v) m. AList.update k v m) xs m))"
  by (induction xs arbitrary: m) (auto simp: distinct_update)

lemma distinct_collect: "distinct (map fst (collect_map xs))"
  by (simp add: collect_map_def distinct_fold_update)

lemma saturating_add_mono:
  fixes c :: "'a::len word"
  shows "c \<le> saturating_add c 1"
proof -
  have "unat c < 2 ^ LENGTH('a)" by simp
  then have "unat c \<le> 2 ^ LENGTH('a) - 1" by linarith
  then show ?thesis
    by (simp add: word_le_nat_alt unat_saturating_add)
qed

section \<open>Enumerations over bit patterns\<close>

unbundle bit_operations_syntax

text \<open>The test \<^verbatim>\<open>bits & (1 << k) != 0\<close>.\<close>

definition bit_set :: "u16 \<Rightarrow> nat \<Rightarrow> bool" where
  "bit_set bits k \<longleftrightarrow> bits AND push_bit k 1 \<noteq> 0"

lemma bit_set_iff: "bit_set w k \<longleftrightarrow> bit w k"
  by (simp add: bit_set_def and_exp_eq_0_iff_not_bit)

lemma bit_of_nat_u16: "bit (of_nat n :: u16) k \<longleftrightarrow> k < 16 \<and> bit n k"
proof -
  have "bit (of_nat n :: u16) k \<longleftrightarrow> bit (unat (of_nat n :: u16)) k"
    by (simp add: bit_unsigned_iff)
  then show ?thesis by (simp add: unsigned_of_nat bit_take_bit_iff)
qed

text \<open>Counters that every step of a fold moves by the same amount.\<close>

lemma fold_adds:
  assumes "\<And>x m. x \<in> set xs \<Longrightarrow> g (f x m) = g m + (c :: nat)"
  shows "g (fold f xs m) = g m + length xs * c"
  using assms by (induction xs arbitrary: m) auto

section \<open>Machines driven by events\<close>

text \<open>
  The contract of a component that is driven by a sequence of events: a predicate on start
  states, a step, and an invariant the start states satisfy and every step keeps. Its client
  facts hold of every run.
\<close>

locale event_machine =
  fixes init :: "'s \<Rightarrow> bool"
    and step :: "'s \<Rightarrow> 'e \<Rightarrow> 's"
    and inv :: "'s \<Rightarrow> bool"
  assumes init_inv: "init s \<Longrightarrow> inv s"
    and step_inv: "inv s \<Longrightarrow> inv (step s e)"
begin

lemma run_keeps_inv: "inv s \<Longrightarrow> inv (foldl step s es)"
  by (induction es arbitrary: s) (auto intro: step_inv)

lemma run_inv: "init s \<Longrightarrow> inv (foldl step s es)"
  by (rule run_keeps_inv) (rule init_inv)

end

end
