(* ===== verification/Control_Harness.thy ===== *)
theory Control_Harness
  imports Canon_Prelude
begin

unbundle bit_operations_syntax

text \<open>
  The synthetic control-plane harness of
  \<^verbatim>\<open>canon-utils/canon-invariant/src/control_harness.rs\<close>: the control state, its events, the
  transition function, the classification of a state into a control decision, the enumerated
  seed space with its metrics, and the exhaustive trace walk.
\<close>

section \<open>State, events, transition\<close>

record ControlState =
  c_pending_request :: bool
  c_pending_required_successor_route_selected :: bool
  c_route_emitted_for_current_control :: bool
  c_has_cached_route :: bool
  c_cached_route_is_observe :: bool
  c_can_emit_route_selected :: bool
  c_force_fresh_route_once :: bool
  c_halted :: bool

datatype ControlDecision =
    Suppress string
  | ReplayCachedRoute
  | RequestFreshRoute
  | EmitRoute
  | ControlViolation string

datatype ControlEvent =
    RouteSelectedEmitted
  | PendingRequestStarted
  | PendingRequestCleared
  | AwaitingControlSuccessorSet
  | AwaitingControlSuccessorCleared
  | ForceFreshRouteOnce
  | CachedObserveRouteStored
  | CachedNonObserveRouteStored
  | CachedRouteCleared
  | PromptDispatched
  | PromptCleared
  | ConcludeEmitted

fun step_control_state :: "ControlState \<Rightarrow> ControlEvent \<Rightarrow> ControlState" where
  "step_control_state s RouteSelectedEmitted =
     s\<lparr>c_route_emitted_for_current_control := True,
       c_pending_required_successor_route_selected := False\<rparr>"
| "step_control_state s PendingRequestStarted = s\<lparr>c_pending_request := True\<rparr>"
| "step_control_state s PendingRequestCleared = s\<lparr>c_pending_request := False\<rparr>"
| "step_control_state s AwaitingControlSuccessorSet = s"
| "step_control_state s AwaitingControlSuccessorCleared = s"
| "step_control_state s ForceFreshRouteOnce = s\<lparr>c_force_fresh_route_once := True\<rparr>"
| "step_control_state s CachedObserveRouteStored =
     s\<lparr>c_has_cached_route := True, c_cached_route_is_observe := True\<rparr>"
| "step_control_state s CachedNonObserveRouteStored =
     s\<lparr>c_has_cached_route := True, c_cached_route_is_observe := False\<rparr>"
| "step_control_state s CachedRouteCleared =
     s\<lparr>c_has_cached_route := False, c_cached_route_is_observe := False\<rparr>"
| "step_control_state s PromptDispatched = s\<lparr>c_pending_request := True\<rparr>"
| "step_control_state s PromptCleared = s\<lparr>c_pending_request := False\<rparr>"
| "step_control_state s ConcludeEmitted = s\<lparr>c_halted := True\<rparr>"

definition evaluate_control_state :: "ControlState \<Rightarrow> ControlDecision" where
  "evaluate_control_state s =
     (if c_halted s then Suppress ''halted''
      else if c_pending_request s then Suppress ''pending_request''
      else if c_route_emitted_for_current_control s
      then Suppress ''duplicate_route_for_current_control''
      else if c_force_fresh_route_once s then RequestFreshRoute
      else if c_pending_required_successor_route_selected s \<and> \<not> c_can_emit_route_selected s \<and>
              \<not> c_force_fresh_route_once s
      then ControlViolation ''missing_required_route_selected_successor''
      else if c_has_cached_route s \<and> c_can_emit_route_selected s
      then (if c_cached_route_is_observe s
            then (if c_pending_required_successor_route_selected s then RequestFreshRoute
                  else ReplayCachedRoute)
            else ReplayCachedRoute)
      else if c_can_emit_route_selected s then EmitRoute
      else Suppress ''cannot_emit_route_selected'')"

fun control_decision_as_str :: "ControlDecision \<Rightarrow> string" where
  "control_decision_as_str (Suppress reason) = reason"
| "control_decision_as_str ReplayCachedRoute = ''replay_cached_route''"
| "control_decision_as_str RequestFreshRoute = ''request_fresh_route''"
| "control_decision_as_str EmitRoute = ''emit_route''"
| "control_decision_as_str (ControlViolation reason) = reason"

section \<open>Seed space and metrics\<close>

text \<open>Bit 2 belonged to a removed field and is read by nothing.\<close>

definition control_state_of_bits :: "u16 \<Rightarrow> ControlState" where
  "control_state_of_bits bits =
     \<lparr> c_pending_request = bit_set bits 0,
       c_pending_required_successor_route_selected = bit_set bits 1,
       c_route_emitted_for_current_control = bit_set bits 3,
       c_has_cached_route = bit_set bits 4,
       c_cached_route_is_observe = bit_set bits 5,
       c_can_emit_route_selected = bit_set bits 6,
       c_force_fresh_route_once = bit_set bits 7,
       c_halted = bit_set bits 8 \<rparr>"

definition control_seed_ok :: "ControlState \<Rightarrow> bool" where
  "control_seed_ok s \<longleftrightarrow>
     \<not> (c_cached_route_is_observe s \<and> \<not> c_has_cached_route s) \<and>
     \<not> (c_pending_request s \<and> c_pending_required_successor_route_selected s)"

definition synthetic_control_seed_space :: "ControlState list" where
  "synthetic_control_seed_space =
     filter control_seed_ok (map (\<lambda>n. control_state_of_bits (of_nat n)) [0..<2 ^ 9])"

definition synthetic_control_seed_states :: "ControlState list" where
  "synthetic_control_seed_states = synthetic_control_seed_space"

record SyntheticControlMetrics =
  cm_states_explored :: nat
  cm_suppressed :: nat
  cm_replayed_cached_route :: nat
  cm_requested_fresh_route :: nat
  cm_emitted_route :: nat
  cm_invariant_violations :: nat

definition count_control_state :: "ControlState \<Rightarrow> SyntheticControlMetrics \<Rightarrow> SyntheticControlMetrics" where
  "count_control_state s m =
     (let m1 = m\<lparr>cm_states_explored := cm_states_explored m + 1\<rparr> in
      case evaluate_control_state s of
        Suppress _ \<Rightarrow> m1\<lparr>cm_suppressed := cm_suppressed m1 + 1\<rparr>
      | ReplayCachedRoute \<Rightarrow> m1\<lparr>cm_replayed_cached_route := cm_replayed_cached_route m1 + 1\<rparr>
      | RequestFreshRoute \<Rightarrow> m1\<lparr>cm_requested_fresh_route := cm_requested_fresh_route m1 + 1\<rparr>
      | EmitRoute \<Rightarrow> m1\<lparr>cm_emitted_route := cm_emitted_route m1 + 1\<rparr>
      | ControlViolation _ \<Rightarrow> m1\<lparr>cm_invariant_violations := cm_invariant_violations m1 + 1\<rparr>)"

definition synthetic_control_metrics :: SyntheticControlMetrics where
  "synthetic_control_metrics =
     fold count_control_state synthetic_control_seed_space
       \<lparr> cm_states_explored = 0, cm_suppressed = 0, cm_replayed_cached_route = 0,
         cm_requested_fresh_route = 0, cm_emitted_route = 0, cm_invariant_violations = 0 \<rparr>"

section \<open>Trace walk\<close>

definition synthetic_control_events :: "ControlEvent list" where
  "synthetic_control_events =
     [RouteSelectedEmitted, PendingRequestStarted, PendingRequestCleared,
      AwaitingControlSuccessorSet, AwaitingControlSuccessorCleared, ForceFreshRouteOnce,
      CachedObserveRouteStored, CachedNonObserveRouteStored, CachedRouteCleared, ConcludeEmitted]"

record SyntheticControlTraceMetrics =
  tm_start_states :: nat
  tm_traces_explored :: nat
  tm_suppressed_terminal :: nat
  tm_replay_terminal :: nat
  tm_fresh_route_terminal :: nat
  tm_emit_terminal :: nat
  tm_invariant_terminal :: nat

definition count_terminal :: "ControlState \<Rightarrow> SyntheticControlTraceMetrics \<Rightarrow> SyntheticControlTraceMetrics" where
  "count_terminal s m =
     (let m1 = m\<lparr>tm_traces_explored := tm_traces_explored m + 1\<rparr> in
      case evaluate_control_state s of
        Suppress _ \<Rightarrow> m1\<lparr>tm_suppressed_terminal := tm_suppressed_terminal m1 + 1\<rparr>
      | ReplayCachedRoute \<Rightarrow> m1\<lparr>tm_replay_terminal := tm_replay_terminal m1 + 1\<rparr>
      | RequestFreshRoute \<Rightarrow> m1\<lparr>tm_fresh_route_terminal := tm_fresh_route_terminal m1 + 1\<rparr>
      | EmitRoute \<Rightarrow> m1\<lparr>tm_emit_terminal := tm_emit_terminal m1 + 1\<rparr>
      | ControlViolation _ \<Rightarrow> m1\<lparr>tm_invariant_terminal := tm_invariant_terminal m1 + 1\<rparr>)"

fun walk :: "nat \<Rightarrow> ControlState \<Rightarrow> SyntheticControlTraceMetrics \<Rightarrow> SyntheticControlTraceMetrics" where
  "walk 0 s m = count_terminal s m"
| "walk (Suc depth) s m =
     fold (\<lambda>event. walk depth (step_control_state s event)) synthetic_control_events m"

definition synthetic_control_trace_metrics :: "nat \<Rightarrow> SyntheticControlTraceMetrics" where
  "synthetic_control_trace_metrics depth =
     fold (walk depth) synthetic_control_seed_space
       \<lparr> tm_start_states = length synthetic_control_seed_space, tm_traces_explored = 0,
         tm_suppressed_terminal = 0, tm_replay_terminal = 0, tm_fresh_route_terminal = 0,
         tm_emit_terminal = 0, tm_invariant_terminal = 0 \<rparr>"

text \<open>The one-step table: every seed under every event, with the decision in the next state.\<close>

definition reachability_table ::
  "(ControlState \<times> ControlEvent \<rightharpoonup> ControlState) \<times> (ControlState \<times> ControlEvent \<rightharpoonup> ControlDecision)" where
  "reachability_table =
     fold (\<lambda>s. fold (\<lambda>e (states, decisions).
              let nxt = step_control_state s e
              in (states((s, e) \<mapsto> nxt), decisions((s, e) \<mapsto> evaluate_control_state nxt)))
            synthetic_control_events)
       synthetic_control_seed_states (Map.empty, Map.empty)"

section \<open>Runs\<close>

abbreviation control_run :: "ControlState \<Rightarrow> ControlEvent list \<Rightarrow> ControlState" where
  "control_run \<equiv> foldl step_control_state"

text \<open>A cached route is only marked as observe while there is one.\<close>

definition cache_consistent :: "ControlState \<Rightarrow> bool" where
  "cache_consistent s \<longleftrightarrow> (c_cached_route_is_observe s \<longrightarrow> c_has_cached_route s)"

interpretation ctl: event_machine control_seed_ok step_control_state cache_consistent
proof
  show "control_seed_ok s \<Longrightarrow> cache_consistent s" for s
    by (auto simp: control_seed_ok_def cache_consistent_def)
  show "cache_consistent s \<Longrightarrow> cache_consistent (step_control_state s e)" for s e
    by (cases e) (simp_all add: cache_consistent_def)
qed

lemma step_monotone_flags:
  "c_halted s \<Longrightarrow> c_halted (step_control_state s e)"
  "c_route_emitted_for_current_control s \<Longrightarrow>
     c_route_emitted_for_current_control (step_control_state s e)"
  "c_force_fresh_route_once s \<Longrightarrow> c_force_fresh_route_once (step_control_state s e)"
  "c_can_emit_route_selected (step_control_state s e) = c_can_emit_route_selected s"
  "c_pending_required_successor_route_selected (step_control_state s e) \<Longrightarrow>
     c_pending_required_successor_route_selected s"
  by (cases e; simp)+

lemma run_monotone_flags:
  "c_halted s \<Longrightarrow> c_halted (control_run s es)"
  "c_route_emitted_for_current_control s \<Longrightarrow> c_route_emitted_for_current_control (control_run s es)"
  "c_force_fresh_route_once s \<Longrightarrow> c_force_fresh_route_once (control_run s es)"
  "c_can_emit_route_selected (control_run s es) = c_can_emit_route_selected s"
  by (induction es arbitrary: s) (simp_all add: step_monotone_flags(1-4))

lemma run_required:
  "c_pending_required_successor_route_selected (control_run s es) \<Longrightarrow>
     c_pending_required_successor_route_selected s"
  by (induction es arbitrary: s) (auto dest: step_monotone_flags(5))

lemma run_emitted:
  assumes "RouteSelectedEmitted \<in> set es"
  shows "c_route_emitted_for_current_control (control_run s es) \<and>
         \<not> c_pending_required_successor_route_selected (control_run s es)"
proof -
  obtain xs ys where es: "es = xs @ RouteSelectedEmitted # ys"
    using assms by (auto dest: split_list)
  show ?thesis
    unfolding es
    using run_monotone_flags(2) [of "step_control_state (control_run s xs) RouteSelectedEmitted" ys]
      run_required [of "step_control_state (control_run s xs) RouteSelectedEmitted" ys]
    by auto
qed

lemma suppressed_iff:
  "(\<exists>why. evaluate_control_state s = Suppress why) \<longleftrightarrow>
     c_halted s \<or> c_pending_request s \<or> c_route_emitted_for_current_control s \<or>
     (\<not> c_force_fresh_route_once s \<and> \<not> c_pending_required_successor_route_selected s \<and>
      \<not> c_can_emit_route_selected s)"
  by (auto simp: evaluate_control_state_def)

lemma violation_iff:
  "evaluate_control_state s = ControlViolation why \<longleftrightarrow>
     why = ''missing_required_route_selected_successor'' \<and>
     \<not> c_halted s \<and> \<not> c_pending_request s \<and> \<not> c_route_emitted_for_current_control s \<and>
     \<not> c_force_fresh_route_once s \<and> c_pending_required_successor_route_selected s \<and>
     \<not> c_can_emit_route_selected s"
  by (auto simp: evaluate_control_state_def)

section \<open>Properties of runs\<close>

text \<open>Exactly-once emission: whatever else happens before and after, once a route-selected event
  is in the trace every later state suppresses routing (no route is emitted, replayed or
  requested again), and the successor obligation stays discharged.\<close>

theorem emitted_route_suppresses_forever:
  assumes "RouteSelectedEmitted \<in> set es"
  shows "\<exists>why. evaluate_control_state (control_run s es) = Suppress why"
  using run_emitted [OF assms] by (auto simp: suppressed_iff)

theorem emitted_route_suppresses_forever_witness:
  "\<exists>why. evaluate_control_state
     (control_run (control_state_of_bits 64) [RouteSelectedEmitted, ForceFreshRouteOnce]) = Suppress why"
  by (rule emitted_route_suppresses_forever) simp

text \<open>A run that ends in an invariant violation started with an open route-selected obligation
  and without the capacity to emit: no event creates the obligation or takes the capacity
  away, so the violation is never caused by the events themselves, and none of them was a
  route emission, a forced fresh route or a conclude.\<close>

theorem violation_is_inherited:
  assumes "evaluate_control_state (control_run s es) = ControlViolation why"
  shows "c_pending_required_successor_route_selected s \<and> \<not> c_can_emit_route_selected s \<and>
    set es \<inter> {RouteSelectedEmitted, ForceFreshRouteOnce, ConcludeEmitted} = {}"
proof -
  have end_state: "\<not> c_halted (control_run s es)" "\<not> c_route_emitted_for_current_control (control_run s es)"
    "\<not> c_force_fresh_route_once (control_run s es)"
    "c_pending_required_successor_route_selected (control_run s es)"
    "\<not> c_can_emit_route_selected (control_run s es)"
    using assms by (simp_all add: violation_iff)
  have "e \<notin> {RouteSelectedEmitted, ForceFreshRouteOnce, ConcludeEmitted}" if mem: "e \<in> set es" for e
  proof -
    obtain xs ys where es: "es = xs @ e # ys" using split_list [OF mem] by blast
    let ?u = "step_control_state (control_run s xs) e"
    have run: "control_run s es = control_run ?u ys" by (simp add: es)
    have "\<not> c_halted ?u" "\<not> c_route_emitted_for_current_control ?u" "\<not> c_force_fresh_route_once ?u"
      using end_state(1-3) run_monotone_flags(1-3) [of ?u ys] unfolding run by blast+
    then show ?thesis by (cases e) simp_all
  qed
  moreover have "c_pending_required_successor_route_selected s" "\<not> c_can_emit_route_selected s"
    using end_state(4,5) run_required [of s es] run_monotone_flags(4) [of s es] by blast+
  ultimately show ?thesis by blast
qed

theorem violation_is_inherited_witness:
  "c_pending_required_successor_route_selected (control_state_of_bits 2) \<and>
   set [CachedRouteCleared] \<inter> {RouteSelectedEmitted, ForceFreshRouteOnce, ConcludeEmitted} = {}"
proof -
  have "evaluate_control_state (control_run (control_state_of_bits 2) [CachedRouteCleared]) =
      ControlViolation ''missing_required_route_selected_successor''"
    by (simp add: violation_iff control_state_of_bits_def bit_set_def)
  from violation_is_inherited [OF this] show ?thesis by blast
qed

section \<open>Properties of the seed space and its metrics\<close>

lemma control_state_of_bits_eq_iff:
  "control_state_of_bits v = control_state_of_bits w \<longleftrightarrow>
     (\<forall>k \<in> {0, 1, 3, 4, 5, 6, 7, 8}. bit v k = bit w k)"
  by (simp add: control_state_of_bits_def bit_set_iff)

text \<open>The numbers below 512 whose bit 2 is clear, one for each state, and their mirror images.\<close>

definition half_range :: "nat list" where
  "half_range = filter (\<lambda>n. even (n div 4)) [0..<512]"

lemma range_split: "mset [0..<512] = mset half_range + mset (map (\<lambda>n. n + 4) half_range)"
proof -
  have up: "n + 4 < 512 \<and> odd ((n + 4) div 4)" if "n < 512" "even (n div 4)" for n :: nat
    using that by presburger
  have down: "n \<in> (\<lambda>n. n + 4) ` {n. n < 512 \<and> even (n div 4)}" if "n < 512" "odd (n div 4)" for n :: nat
  proof (rule image_eqI)
    show "n = (n - 4) + 4" and "n - 4 \<in> {n. n < 512 \<and> even (n div 4)}"
      using that by (presburger, simp, presburger)
  qed
  have "set (filter (\<lambda>n. odd (n div 4)) [0..<512]) = set (map (\<lambda>n. n + 4) half_range)"
    using up down by (auto simp: half_range_def)
  then have "mset (filter (\<lambda>n. odd (n div 4)) [0..<512]) = mset (map (\<lambda>n. n + 4) half_range)"
    by (subst set_eq_iff_mset_eq_distinct [symmetric]) (auto simp: half_range_def distinct_map inj_on_def)
  then show ?thesis
    by (metis half_range_def mset_filter multiset_partition)
qed

lemma mirror_bits:
  assumes "even (n div 4)"
  shows "control_state_of_bits (of_nat (n + 4)) = control_state_of_bits (of_nat n)"
proof -
  have "\<not> bit n 2" using assms by (simp add: bit_iff_odd)
  then have "n AND 4 = 0" using and_exp_eq_0_iff_not_bit [of n 2] by simp
  then have "n + 4 = n OR 4" by (rule disjunctive_add_eq_or)
  then have "bit (n + 4) k = bit n k" if "k \<noteq> 2" for k
    using that bit_exp_iff [of 2 k, where ?'a = nat] by (simp add: bit_or_iff)
  then show ?thesis
    by (simp only: control_state_of_bits_eq_iff bit_of_nat_u16) auto
qed

text \<open>A number whose bits spell a given state, with bit 2 clear.\<close>

definition bits_of_control_state :: "ControlState \<Rightarrow> nat" where
  "bits_of_control_state s =
     of_bool (c_pending_request s) + 2 * of_bool (c_pending_required_successor_route_selected s) +
     8 * of_bool (c_route_emitted_for_current_control s) + 16 * of_bool (c_has_cached_route s) +
     32 * of_bool (c_cached_route_is_observe s) + 64 * of_bool (c_can_emit_route_selected s) +
     128 * of_bool (c_force_fresh_route_once s) + 256 * of_bool (c_halted s)"

lemma bits_of_control_state_half: "bits_of_control_state s \<in> set half_range"
  by (cases s) (simp add: bits_of_control_state_def half_range_def of_bool_def)

lemma control_state_of_bits_of: "control_state_of_bits (of_nat (bits_of_control_state s)) = s"
  by (cases s) (simp add: bits_of_control_state_def control_state_of_bits_def bit_set_def of_bool_def)

lemma half_range_inj: "inj_on (\<lambda>n. control_state_of_bits (of_nat n)) (set half_range)"
proof (rule inj_onI)
  fix m n
  assume mn: "m \<in> set half_range" "n \<in> set half_range"
    and eq: "control_state_of_bits (of_nat m) = control_state_of_bits (of_nat n)"
  have zero: "\<not> bit j k" if "j \<in> set half_range" "k = 2 \<or> 9 \<le> k" for j k
  proof -
    have "j < 512" "even (j div 4)" using that(1) by (auto simp: half_range_def)
    moreover have "9 \<le> k \<Longrightarrow> (512::nat) \<le> 2 ^ k"
      using power_increasing [of 9 k "2::nat"] by simp
    ultimately show ?thesis using that(2) by (auto simp: bit_iff_odd)
  qed
  show "m = n"
  proof (rule bit_eqI)
    fix k :: nat
    consider "k = 2 \<or> 9 \<le> k" | "k \<in> {0, 1, 3, 4, 5, 6, 7, 8}" by force
    then show "bit m k = bit n k"
    proof cases
      case 1
      with mn zero show ?thesis by blast
    next
      case 2
      then have "k < 16" by auto
      with 2 eq show ?thesis
        by (simp only: control_state_of_bits_eq_iff bit_of_nat_u16) blast
    qed
  qed
qed

lemma count_half:
  "count (mset (map (\<lambda>n. control_state_of_bits (of_nat n)) half_range)) s = 1"
proof -
  let ?xs = "map (\<lambda>n. control_state_of_bits (of_nat n)) half_range"
  have "distinct ?xs"
    using half_range_inj by (simp add: distinct_map half_range_def)
  moreover have "s \<in> set ?xs"
    using bits_of_control_state_half control_state_of_bits_of by (metis image_eqI set_map)
  ultimately show ?thesis by (simp add: distinct_count_atmost_1)
qed

text \<open>The enumerated seed space holds every admissible control state, exactly twice: the loop
  still runs over nine bits although one of them lost its field, so each state is visited for
  both values of the unused bit and every harness metric is doubled.\<close>

theorem seed_space_visits_each_state_twice:
  "count_list synthetic_control_seed_space s = (if control_seed_ok s then 2 else 0)"
proof -
  let ?f = "\<lambda>n. control_state_of_bits (of_nat n)"
  have mirror: "map ?f (map (\<lambda>n. n + 4) half_range) = map ?f half_range"
    using mirror_bits by (simp add: half_range_def del: of_nat_add)
  have "mset (map ?f [0..<512]) = mset (map ?f half_range) + mset (map ?f half_range)"
    by (simp only: mset_map range_split image_mset_union) (simp only: mset_map [symmetric] mirror)
  then have "count (mset (map ?f [0..<512])) s = 2"
    by (simp only: count_union count_half)
  then show ?thesis
    by (simp add: synthetic_control_seed_space_def count_mset [symmetric])
qed

lemma count_control_state_fold:
  "let m' = fold count_control_state ss m in
     cm_states_explored m' = cm_states_explored m + length ss \<and>
     (cm_suppressed m' + cm_replayed_cached_route m' + cm_requested_fresh_route m' +
      cm_emitted_route m' + cm_invariant_violations m') + cm_states_explored m =
     (cm_suppressed m + cm_replayed_cached_route m + cm_requested_fresh_route m +
      cm_emitted_route m + cm_invariant_violations m) + cm_states_explored m'"
proof (induction ss arbitrary: m)
  case Nil
  then show ?case by simp
next
  case (Cons s ss)
  show ?case
    using Cons [of "count_control_state s m"]
    by (auto simp: count_control_state_def Let_def split: ControlDecision.splits)
qed

text \<open>Terminal buckets of a trace metric, and what one walk adds to them.\<close>

definition tm_terminals :: "SyntheticControlTraceMetrics \<Rightarrow> nat" where
  "tm_terminals m = tm_suppressed_terminal m + tm_replay_terminal m + tm_fresh_route_terminal m +
     tm_emit_terminal m + tm_invariant_terminal m"

lemma tm_terminals_start [simp]:
  "tm_terminals \<lparr> tm_start_states = n, tm_traces_explored = 0,
         tm_suppressed_terminal = 0, tm_replay_terminal = 0, tm_fresh_route_terminal = 0,
         tm_emit_terminal = 0, tm_invariant_terminal = 0 \<rparr> = 0"
  by (simp add: tm_terminals_def)

lemma walk_adds:
  "tm_traces_explored (walk d s m) = tm_traces_explored m + 10 ^ d \<and>
   tm_terminals (walk d s m) = tm_terminals m + 10 ^ d \<and>
   tm_start_states (walk d s m) = tm_start_states m"
proof (induction d arbitrary: s m)
  case 0
  then show ?case
    by (auto simp: count_terminal_def tm_terminals_def Let_def split: ControlDecision.split)
next
  case (Suc d)
  have len: "length synthetic_control_events = 10" by (simp add: synthetic_control_events_def)
  show ?case
    using fold_adds [where xs = synthetic_control_events and c = "10 ^ d" and m = m
        and g = tm_traces_explored and f = "\<lambda>e. walk d (step_control_state s e)"]
      fold_adds [where xs = synthetic_control_events and c = "10 ^ d" and m = m
        and g = tm_terminals and f = "\<lambda>e. walk d (step_control_state s e)"]
      fold_adds [where xs = synthetic_control_events and c = 0 and m = m
        and g = tm_start_states and f = "\<lambda>e. walk d (step_control_state s e)"]
      Suc len by simp
qed

text \<open>The exhaustive trace walk visits \<open>10^depth\<close> traces from every seed and classifies each of
  them once: the terminal counters add up to the traces explored, at every depth.\<close>

theorem trace_walk_is_exhaustive:
  "let m = synthetic_control_trace_metrics depth in
     tm_start_states m = length synthetic_control_seed_space \<and>
     tm_traces_explored m = tm_start_states m * 10 ^ depth \<and>
     tm_terminals m = tm_traces_explored m"
  using fold_adds [where xs = synthetic_control_seed_space and c = "10 ^ depth" and f = "walk depth"
      and g = tm_traces_explored]
    fold_adds [where xs = synthetic_control_seed_space and c = "10 ^ depth" and f = "walk depth"
      and g = tm_terminals]
    fold_adds [where xs = synthetic_control_seed_space and c = 0 and f = "walk depth"
      and g = tm_start_states]
  by (simp add: walk_adds synthetic_control_trace_metrics_def Let_def)

lemma control_metrics_total:
  "cm_states_explored synthetic_control_metrics = length synthetic_control_seed_space \<and>
   cm_suppressed synthetic_control_metrics + cm_replayed_cached_route synthetic_control_metrics +
   cm_requested_fresh_route synthetic_control_metrics + cm_emitted_route synthetic_control_metrics +
   cm_invariant_violations synthetic_control_metrics = cm_states_explored synthetic_control_metrics"
  using count_control_state_fold [of synthetic_control_seed_space
      "\<lparr> cm_states_explored = 0, cm_suppressed = 0, cm_replayed_cached_route = 0,
         cm_requested_fresh_route = 0, cm_emitted_route = 0, cm_invariant_violations = 0 \<rparr>"]
  by (simp add: synthetic_control_metrics_def Let_def)

end
