(* ===== verification/Constraint_Engine.thy ===== *)
theory Constraint_Engine
  imports Canon_Prelude
begin

text \<open>
  The constraint engine of \<^verbatim>\<open>canon-utils/canon-invariant/src/lib.rs\<close>: routes, actions, the
  observed workspace state, the evaluation of a proposed route or action against the
  meta-invariants, the precedence of decision sources, and the meta-invariant predicates on
  planned actions, verifier outcomes, verifier sequencing and trajectories.

  Tracing output (\<^verbatim>\<open>eprintln!\<close> and the trace counter of \<^verbatim>\<open>decide\<close>) has no effect on the
  results and is not modelled. Record fields carry a short prefix, since several structs of the
  source share field names.
\<close>

section \<open>Data\<close>

datatype PlannedActionClass = PassiveDiscovery | Verification | Mutation | UnknownClass

datatype ConstraintRoute = R_Observe | R_Plan | R_Act | R_Verify | R_Conclude

fun route_as_str :: "ConstraintRoute \<Rightarrow> string" where
  "route_as_str R_Observe = ''observe''"
| "route_as_str R_Plan = ''plan''"
| "route_as_str R_Act = ''act''"
| "route_as_str R_Verify = ''verify''"
| "route_as_str R_Conclude = ''conclude''"

datatype Decision = D_Observe | D_Plan | D_Act | D_Verify

datatype ConstraintAction =
    CargoInit | CargoNew | RepairLocalized | RepairWorkspace | Validation | OtherAction

record ConstraintState =
  cs_semantic_path_exists :: bool
  cs_semantic_cargo_project :: bool
  cs_real_path_exists :: bool
  cs_real_cargo_project :: bool
  cs_actionable_failure :: bool
  cs_validation_blocked :: bool
  cs_entrypoint_missing :: bool
  cs_module_gaps_present :: bool
  cs_recent_no_semantic_progress :: bool
  cs_failure_class_no_actionable :: bool
  cs_failure_scope_localized :: bool
  cs_failure_scope_workspace :: bool
  cs_failure_scope_tooling :: bool
  cs_route_objective_contradiction :: bool
  cs_has_plan :: bool

definition default_constraint_state :: ConstraintState where
  "default_constraint_state =
     \<lparr> cs_semantic_path_exists = False, cs_semantic_cargo_project = False,
       cs_real_path_exists = False, cs_real_cargo_project = False,
       cs_actionable_failure = False, cs_validation_blocked = False,
       cs_entrypoint_missing = False, cs_module_gaps_present = False,
       cs_recent_no_semantic_progress = False, cs_failure_class_no_actionable = False,
       cs_failure_scope_localized = False, cs_failure_scope_workspace = False,
       cs_failure_scope_tooling = False, cs_route_objective_contradiction = False,
       cs_has_plan = False \<rparr>"

record DecisionState =
  ds_has_plan :: bool

definition has_state_drift :: "ConstraintState \<Rightarrow> bool" where
  "has_state_drift s \<longleftrightarrow>
     cs_semantic_path_exists s \<noteq> cs_real_path_exists s \<or>
     cs_semantic_cargo_project s \<noteq> cs_real_cargo_project s"

record ConstraintContext =
  ctx_state :: ConstraintState
  ctx_route :: "ConstraintRoute option"
  ctx_action :: "ConstraintAction option"
  ctx_deterministic_route :: "ConstraintRoute option"

datatype ConstraintDecision =
    Allow
  | Forbid string
  | RewriteAction ConstraintAction string
  | RewriteRoute ConstraintRoute string

section \<open>Decision and precedence\<close>

definition decide :: "DecisionState \<Rightarrow> Decision" where
  "decide s = (if \<not> ds_has_plan s then D_Observe else D_Act)"

datatype ConstraintDecisionSource = MetaInvariant | DiscoveredInvariantSource | Deterministic

fun decision_source_as_str :: "ConstraintDecisionSource \<Rightarrow> string" where
  "decision_source_as_str MetaInvariant = ''meta_invariant''"
| "decision_source_as_str DiscoveredInvariantSource = ''discovered_invariant''"
| "decision_source_as_str Deterministic = ''deterministic''"

fun resolve_constraint_decision_precedence ::
  "ConstraintDecision option \<Rightarrow> ConstraintDecision option \<Rightarrow> ConstraintDecision option
     \<Rightarrow> (ConstraintDecisionSource \<times> ConstraintDecision) option" where
  "resolve_constraint_decision_precedence (Some d) discovered deterministic =
     Some (MetaInvariant, d)"
| "resolve_constraint_decision_precedence None (Some d) deterministic =
     Some (DiscoveredInvariantSource, d)"
| "resolve_constraint_decision_precedence None None (Some d) = Some (Deterministic, d)"
| "resolve_constraint_decision_precedence None None None = None"

section \<open>Evaluation of a constraint context\<close>

definition reason_deterministic_authority :: string where
  "reason_deterministic_authority =
     ''meta_invariant_deterministic_route_authority: deterministic routes cannot be overridden''"

definition reason_no_actionable_failure :: string where
  "reason_no_actionable_failure =
     ''meta_invariant_no_actionable_failure: repair actions are forbidden because there is no actionable failure''"

definition reason_scope_localized :: string where
  "reason_scope_localized =
     ''meta_invariant_failure_scope: localized repair actions require localized failure scope''"

definition reason_scope_too_broad :: string where
  "reason_scope_too_broad =
     ''meta_invariant_failure_scope: workspace repair actions are too broad for localized failures''"

definition reason_validation_preconditions :: string where
  "reason_validation_preconditions =
     ''meta_invariant_validation_timing: validation actions are forbidden while planning preconditions remain unresolved''"

definition reason_bootstrap_required :: string where
  "reason_bootstrap_required =
     ''meta_invariant_bootstrap_required: validation actions are forbidden while the target workspace is missing''"

definition reason_validation_files :: string where
  "reason_validation_files =
     ''meta_invariant_validation_timing: validation actions are forbidden while required files are still missing''"

definition reason_needs_cargo_new :: string where
  "reason_needs_cargo_new =
     ''meta_invariant_tool_selection_correctness: missing target requires cargo new''"

definition reason_needs_cargo_init :: string where
  "reason_needs_cargo_init =
     ''meta_invariant_tool_selection_correctness: existing non-Cargo directory requires cargo init''"

definition reason_bootstrap_forbidden :: string where
  "reason_bootstrap_forbidden =
     ''meta_invariant_tool_selection_correctness: bootstrap commands are forbidden for existing Cargo projects''"

text \<open>The second block of the function, the \<^verbatim>\<open>match action\<close> with its guarded arms in order.\<close>

fun evaluate_action :: "ConstraintState \<Rightarrow> ConstraintAction \<Rightarrow> ConstraintDecision" where
  "evaluate_action s RepairLocalized =
     (if cs_failure_class_no_actionable s \<or> \<not> cs_actionable_failure s
      then Forbid reason_no_actionable_failure
      else if \<not> cs_failure_scope_localized s then Forbid reason_scope_localized
      else Allow)"
| "evaluate_action s RepairWorkspace =
     (if cs_failure_class_no_actionable s \<or> \<not> cs_actionable_failure s
      then Forbid reason_no_actionable_failure
      else if cs_failure_scope_localized s then Forbid reason_scope_too_broad
      else Allow)"
| "evaluate_action s Validation =
     (if cs_validation_blocked s then Forbid reason_validation_preconditions
      else if \<not> cs_real_path_exists s then Forbid reason_bootstrap_required
      else if cs_entrypoint_missing s \<or> cs_module_gaps_present s
      then Forbid reason_validation_files
      else Allow)"
| "evaluate_action s CargoInit =
     (if \<not> cs_real_path_exists s then RewriteAction CargoNew reason_needs_cargo_new
      else if cs_real_cargo_project s then Forbid reason_bootstrap_forbidden
      else Allow)"
| "evaluate_action s CargoNew =
     (if cs_real_path_exists s \<and> \<not> cs_real_cargo_project s
      then RewriteAction CargoInit reason_needs_cargo_init
      else if cs_real_cargo_project s then Forbid reason_bootstrap_forbidden
      else Allow)"
| "evaluate_action s OtherAction = Allow"

text \<open>
  The early returns of the route block. The block for the route \<^verbatim>\<open>Plan\<close> under repeated
  no-progress only traces, so it has no clause here.
\<close>

definition route_returns_allow :: "ConstraintState \<Rightarrow> ConstraintRoute \<Rightarrow> bool" where
  "route_returns_allow s r \<longleftrightarrow>
     (has_state_drift s \<and> r \<noteq> R_Observe) \<or>
     (\<not> cs_real_path_exists s \<and> r \<noteq> R_Plan) \<or>
     (r \<in> {R_Verify, R_Conclude} \<and> (cs_validation_blocked s \<or> cs_actionable_failure s)) \<or>
     (r \<in> {R_Verify, R_Conclude} \<and> (cs_entrypoint_missing s \<or> cs_module_gaps_present s)) \<or>
     (r \<in> {R_Verify, R_Conclude} \<and> cs_route_objective_contradiction s)"

definition evaluate_constraint_context :: "ConstraintContext \<Rightarrow> ConstraintDecision" where
  "evaluate_constraint_context ctx =
     (if (case (ctx_deterministic_route ctx, ctx_route ctx) of
            (Some expected, Some actual) \<Rightarrow> expected \<noteq> actual
          | _ \<Rightarrow> False)
      then Forbid reason_deterministic_authority
      else if (case ctx_route ctx of None \<Rightarrow> False
               | Some r \<Rightarrow> route_returns_allow (ctx_state ctx) r)
      then Allow
      else (case ctx_action ctx of None \<Rightarrow> Allow
            | Some a \<Rightarrow> evaluate_action (ctx_state ctx) a))"

section \<open>Harness capabilities\<close>

datatype HarnessPrimitiveCapability =
    ReadSearch | StructuredEdit | ApplyPatch | RunVerifier | ObserveDiagnostics

definition MINIMAL_SELF_REPAIR_SET :: "HarnessPrimitiveCapability list" where
  "MINIMAL_SELF_REPAIR_SET =
     [ReadSearch, StructuredEdit, ApplyPatch, RunVerifier, ObserveDiagnostics]"

fun capability_as_str :: "HarnessPrimitiveCapability \<Rightarrow> string" where
  "capability_as_str ReadSearch = ''read_search''"
| "capability_as_str StructuredEdit = ''structured_edit''"
| "capability_as_str ApplyPatch = ''apply_patch''"
| "capability_as_str RunVerifier = ''run_verifier''"
| "capability_as_str ObserveDiagnostics = ''observe_diagnostics''"

record HarnessCapabilityState =
  hc_read_search :: bool
  hc_structured_edit :: bool
  hc_apply_patch :: bool
  hc_run_verifier :: bool
  hc_observe_diagnostics :: bool

fun has_capability :: "HarnessCapabilityState \<Rightarrow> HarnessPrimitiveCapability \<Rightarrow> bool" where
  "has_capability s ReadSearch = hc_read_search s"
| "has_capability s StructuredEdit = hc_structured_edit s"
| "has_capability s ApplyPatch = hc_apply_patch s"
| "has_capability s RunVerifier = hc_run_verifier s"
| "has_capability s ObserveDiagnostics = hc_observe_diagnostics s"

definition self_repair_missing_capabilities ::
  "HarnessCapabilityState \<Rightarrow> HarnessPrimitiveCapability list" where
  "self_repair_missing_capabilities s = filter (\<lambda>c. \<not> has_capability s c) MINIMAL_SELF_REPAIR_SET"

definition self_repair_ready :: "HarnessCapabilityState \<Rightarrow> bool" where
  "self_repair_ready s \<longleftrightarrow> self_repair_missing_capabilities s = []"

section \<open>Planned actions\<close>

datatype BootstrapToolChoice = BT_CargoNew | BT_CargoInit

fun bootstrap_tool_as_str :: "BootstrapToolChoice \<Rightarrow> string" where
  "bootstrap_tool_as_str BT_CargoNew = ''cargo_new''"
| "bootstrap_tool_as_str BT_CargoInit = ''cargo_init''"

definition classify_command :: "string \<Rightarrow> PlannedActionClass" where
  "classify_command cmd =
     (if str_contains cmd ''cargo check'' \<or> str_contains cmd ''cargo build'' \<or>
         str_contains cmd ''cargo test''
      then Verification else Mutation)"

definition classify_planned_action_class :: "string \<Rightarrow> json \<Rightarrow> PlannedActionClass" where
  "classify_planned_action_class action_kind payload =
     (if action_kind \<in> {''read_file'', ''list_dir'', ''search_files''} then PassiveDiscovery
      else if action_kind = ''run_command''
      then (case json_get_str payload ''cmd'' of None \<Rightarrow> UnknownClass
            | Some cmd \<Rightarrow> classify_command cmd)
      else if action_kind \<in> {''write_file'', ''patch_file'', ''apply_patch'',
              ''edit.rename_symbol'', ''edit.move_symbol'', ''edit.add_import'',
              ''edit.define_symbol_stub'', ''edit.create_module_file''} then Mutation
      else UnknownClass)"

definition is_localized_repair_action :: "string \<Rightarrow> bool" where
  "is_localized_repair_action action_kind \<longleftrightarrow>
     action_kind \<in> {''edit.add_import'', ''edit.define_symbol_stub'', ''edit.rename_symbol'',
                    ''apply_patch''}"

definition all_failures_typed :: "string option \<Rightarrow> string option \<Rightarrow> bool" where
  "all_failures_typed failure_class failure_scope \<longleftrightarrow>
     (case failure_class of None \<Rightarrow> False | Some v \<Rightarrow> trim v \<noteq> []) \<and>
     (case failure_scope of None \<Rightarrow> False
      | Some v \<Rightarrow> v \<in> {''localized'', ''workspace'', ''tooling'', ''none''})"

definition any_action_cites_failure :: "json \<Rightarrow> string option \<Rightarrow> bool" where
  "any_action_cites_failure payload active =
     (case active of
        None \<Rightarrow> True
      | Some expected \<Rightarrow>
          if trim expected \<noteq> [] then json_get_str payload ''failure_class'' = Some expected
          else True)"

definition is_mutating_action :: "string \<Rightarrow> json \<Rightarrow> bool" where
  "is_mutating_action action_kind payload \<longleftrightarrow>
     classify_planned_action_class action_kind payload = Mutation"

definition expected_verifier :: "string \<Rightarrow> json \<Rightarrow> string option" where
  "expected_verifier action_kind payload =
     (if \<not> is_mutating_action action_kind payload then None
      else if action_kind \<in> {''edit.rename_symbol'', ''edit.move_symbol'', ''edit.add_import'',
              ''edit.define_symbol_stub'', ''edit.create_module_file''} then Some ''graph_proof''
      else Some ''cargo_check'')"

definition action_must_declare_verifier :: "string \<Rightarrow> json \<Rightarrow> bool" where
  "action_must_declare_verifier action_kind payload =
     (case expected_verifier action_kind payload of
        None \<Rightarrow> True
      | Some expected \<Rightarrow>
          (case json_get_str payload ''verifier'' of
             None \<Rightarrow> False
           | Some v \<Rightarrow> trim v \<noteq> [] \<and> v = expected))"

definition classify_bootstrap_tool :: "string \<Rightarrow> BootstrapToolChoice option" where
  "classify_bootstrap_tool cmd =
     (if str_contains cmd ''cargo new'' then Some BT_CargoNew
      else if str_contains cmd ''cargo init'' then Some BT_CargoInit
      else None)"

definition tool_selection_correctness :: "string \<Rightarrow> string \<Rightarrow> json \<Rightarrow> bool" where
  "tool_selection_correctness expected_tool_choice action_kind payload =
     (if action_kind \<noteq> ''run_command'' then False
      else (case json_get_str payload ''cmd'' of
              None \<Rightarrow> False
            | Some cmd \<Rightarrow>
                (case classify_bootstrap_tool cmd of
                   None \<Rightarrow> False
                 | Some tool \<Rightarrow> bootstrap_tool_as_str tool = expected_tool_choice)))"

section \<open>Failure pressure\<close>

definition has_actionable_failure :: "bool \<Rightarrow> bool \<Rightarrow> nat \<Rightarrow> nat \<Rightarrow> nat \<Rightarrow> bool" where
  "has_actionable_failure validation_blocked compiler_repair_required preconditions_len hints_len gaps_len
     \<longleftrightarrow> validation_blocked \<or> compiler_repair_required \<or> preconditions_len > 0 \<or> hints_len > 0 \<or>
         gaps_len > 0"

definition failure_scope_is_sufficient :: "bool \<Rightarrow> nat \<Rightarrow> string option \<Rightarrow> bool" where
  "failure_scope_is_sufficient compiler_repair_required hints_len scope =
     (if \<not> compiler_repair_required \<or> hints_len = 0 then True
      else scope \<in> {Some ''localized'', Some ''workspace'', Some ''tooling''})"

definition high_invalid_plan_requires_simple_batch :: "f32 \<Rightarrow> u32 \<Rightarrow> bool" where
  "high_invalid_plan_requires_simple_batch rate attempts \<longleftrightarrow>
     f32_lt f32_0_5 rate \<and> 3 \<le> attempts"

definition no_progress_forces_change :: "u32 \<Rightarrow> PlannedActionClass \<Rightarrow> bool" where
  "no_progress_forces_change streak cls \<longleftrightarrow>
     2 \<le> streak \<and> cls \<in> {PassiveDiscovery, Verification}"

section \<open>Verifier outcomes\<close>

datatype VerifierOutcome = Passed | CompilerFailure | FailedNoCompilerSignal

record PolicyUpdate =
  pu_verifier_outcome :: VerifierOutcome
  pu_retry_policy :: string
  pu_reward_bias :: string
  pu_actionable_failure :: bool

definition looks_like_compiler_failure :: "string \<Rightarrow> bool" where
  "looks_like_compiler_failure text \<longleftrightarrow>
     str_contains text ''error[E'' \<or> str_contains text ''could not compile'' \<or>
     str_contains text ''allow(dead_code) incompatible with previous forbid'' \<or>
     str_contains text (''file not found for module '' @ [CHR 0x60]) \<or>
     str_contains text ''cargo_check_failed''"

definition classify_verifier_outcome :: "bool \<Rightarrow> bool \<Rightarrow> string list \<Rightarrow> VerifierOutcome" where
  "classify_verifier_outcome passed compiler_clean diagnostics =
     (if passed \<and> compiler_clean then Passed
      else if list_ex looks_like_compiler_failure diagnostics then CompilerFailure
      else FailedNoCompilerSignal)"

definition all_results_update_policy :: "bool \<Rightarrow> bool \<Rightarrow> string list \<Rightarrow> PolicyUpdate" where
  "all_results_update_policy passed compiler_clean diagnostics =
     (let o1 = classify_verifier_outcome passed compiler_clean diagnostics in
      case o1 of
        Passed \<Rightarrow> \<lparr> pu_verifier_outcome = o1, pu_retry_policy = ''none'',
                    pu_reward_bias = ''positive'', pu_actionable_failure = False \<rparr>
      | _ \<Rightarrow> \<lparr> pu_verifier_outcome = o1, pu_retry_policy = ''corrective_retry'',
                    pu_reward_bias = ''negative'', pu_actionable_failure = True \<rparr>)"

section \<open>Verifier sequencing\<close>

datatype VerifierSequenceStep = Step_LoopVerified | Step_VerifierPolicyUpdated | Step_LoopRewarded

definition reason_verify_first :: string where
  "reason_verify_first =
     ''route_selected(verify) must be followed by loop_verified before verifier_policy_updated''"

definition reason_policy_second :: string where
  "reason_policy_second =
     ''loop_verified must be followed by verifier_policy_updated before loop_rewarded''"

definition reason_reward_last :: string where
  "reason_reward_last =
     ''loop_rewarded must follow verifier_policy_updated, except for direct conclude routing''"

fun verifier_sequence_contract ::
  "VerifierSequenceStep \<Rightarrow> string option \<Rightarrow> string option \<Rightarrow> bool \<Rightarrow> string option" where
  "verifier_sequence_contract Step_LoopVerified last_kind pending has_last_verified =
     (if last_kind = Some ''route_selected'' \<and> pending = Some ''verifier_policy_updated''
      then None else Some reason_verify_first)"
| "verifier_sequence_contract Step_VerifierPolicyUpdated last_kind pending has_last_verified =
     (if last_kind = Some ''loop_verified'' \<and> has_last_verified
      then None else Some reason_policy_second)"
| "verifier_sequence_contract Step_LoopRewarded last_kind pending has_last_verified =
     (let l = map_option to_ascii_lowercase last_kind;
          p = map_option to_ascii_lowercase pending
      in if l = Some ''verifier_policy_updated'' \<and> p = Some ''loop_rewarded'' then None
         else if l = Some ''route_selected'' \<and> p = Some ''loop_rewarded'' then None
         else Some reason_reward_last)"

section \<open>Trajectory scoring\<close>

record TrajectoryStep =
  ts_semantic_progress :: int
  ts_no_progress :: bool
  ts_invalid_action :: bool

record TrajectoryScore =
  tr_total :: int
  tr_progress :: int
  tr_penalties :: int

text \<open>The fields are \<^verbatim>\<open>i32\<close>; an overflow panics, which is \<^const>\<open>None\<close> here.\<close>

fun score_loop :: "TrajectoryStep list \<Rightarrow> int \<Rightarrow> int \<Rightarrow> (int \<times> int) option" where
  "score_loop [] progress penalties = Some (progress, penalties)"
| "score_loop (s # steps) progress penalties =
     Option.bind (checked_i32 (progress + ts_semantic_progress s)) (\<lambda>progress'.
     Option.bind (if ts_no_progress s then checked_i32 (penalties + 1) else Some penalties) (\<lambda>p1.
     Option.bind (if ts_invalid_action s then checked_i32 (p1 + 2) else Some p1) (\<lambda>p2.
       score_loop steps progress' p2)))"

definition score_trajectory :: "TrajectoryStep list \<Rightarrow> TrajectoryScore option" where
  "score_trajectory steps =
     Option.bind (score_loop steps 0 0) (\<lambda>(progress, penalties).
     Option.bind (checked_i32 (progress - penalties)) (\<lambda>total.
       Some \<lparr> tr_total = total, tr_progress = progress, tr_penalties = penalties \<rparr>))"

section \<open>Properties\<close>

definition penalty :: "TrajectoryStep \<Rightarrow> int" where
  "penalty s = (if ts_no_progress s then 1 else 0) + (if ts_invalid_action s then 2 else 0)"

abbreviation progress_sum :: "TrajectoryStep list \<Rightarrow> int" where
  "progress_sum steps \<equiv> sum_list (map ts_semantic_progress steps)"

abbreviation penalty_sum :: "TrajectoryStep list \<Rightarrow> int" where
  "penalty_sum steps \<equiv> sum_list (map penalty steps)"

text \<open>A bounded partial sum stays in range; \<open>B\<close> bounds one step's progress.\<close>

lemma score_loop_defined:
  assumes "\<forall>s \<in> set steps. \<bar>ts_semantic_progress s\<bar> \<le> B"
    and "\<bar>p\<bar> + int (length steps) * B < 2 ^ 31"
    and "0 \<le> q" and "q + int (length steps) * 3 < 2 ^ 31"
  shows "score_loop steps p q = Some (p + progress_sum steps, q + penalty_sum steps)"
  using assms
proof (induction steps arbitrary: p q)
  case Nil
  then show ?case by simp
next
  case (Cons s steps)
  let ?p = "p + ts_semantic_progress s" and ?q = "q + penalty s"
  have B: "\<bar>ts_semantic_progress s\<bar> \<le> B" using Cons.prems(1) by simp
  have len: "int (length (s # steps)) * B = int (length steps) * B + B"
    by (simp add: algebra_simps)
  have p: "\<bar>?p\<bar> + int (length steps) * B < 2 ^ 31"
    using Cons.prems(2) B len by linarith
  have nn: "0 \<le> int (length steps) * B"
    using B by (metis abs_ge_zero mult_nonneg_nonneg of_nat_0_le_iff order_trans)
  have q: "0 \<le> ?q" "?q + int (length steps) * 3 < 2 ^ 31" "penalty s \<in> {0, 1, 2, 3}"
    using Cons.prems(3,4) by (auto simp: penalty_def)
  have "i32_ok ?p"
    unfolding i32_ok_def using p nn by linarith
  then have "checked_i32 ?p = Some ?p"
    by (simp add: checked_i32_def)
  moreover have "score_loop steps ?p ?q = Some (?p + progress_sum steps, ?q + penalty_sum steps)"
    using Cons.IH [of ?p ?q] Cons.prems(1) p q by simp
  ultimately show ?case
    using Cons.prems(3,4) q by (auto simp: penalty_def [of s] checked_i32_def i32_ok_def add.assoc)
qed

lemma penalty_sum_bounds: "0 \<le> penalty_sum steps \<and> penalty_sum steps \<le> 3 * int (length steps)"
  by (induction steps) (auto simp: penalty_def)

lemma progress_sum_bound:
  "\<forall>s \<in> set steps. \<bar>ts_semantic_progress s\<bar> \<le> B \<Longrightarrow> \<bar>progress_sum steps\<bar> \<le> int (length steps) * B"
  by (induction steps) (auto simp: algebra_simps)

lemmas constraint_simps =
  evaluate_constraint_context_def route_returns_allow_def has_state_drift_def

text \<open>Scoring a trajectory whose steps each move by at most \<open>B\<close> and that is short enough
  (\<open>length * (B + 3) < 2^31\<close>) never overflows, and returns the summed progress, one penalty
  point per stalled step plus two per invalid action, and their difference as the total.\<close>

theorem score_trajectory_correct:
  assumes "\<forall>s \<in> set steps. \<bar>ts_semantic_progress s\<bar> \<le> B"
    and "0 \<le> B" and "int (length steps) * (B + 3) < 2 ^ 31"
  shows "score_trajectory steps =
     Some \<lparr> tr_total = progress_sum steps - penalty_sum steps,
            tr_progress = progress_sum steps, tr_penalties = penalty_sum steps \<rparr>"
proof -
  have split: "int (length steps) * (B + 3) = int (length steps) * B + int (length steps) * 3"
    by (simp add: algebra_simps)
  have nn: "0 \<le> int (length steps) * B" using assms(2) by simp
  have "score_loop steps 0 0 = Some (0 + progress_sum steps, 0 + penalty_sum steps)"
    by (rule score_loop_defined [OF assms(1)]) (use assms(3) split nn in auto)
  moreover have "i32_ok (progress_sum steps - penalty_sum steps)"
    using progress_sum_bound [OF assms(1)] penalty_sum_bounds [of steps] assms(3) split
    by (auto simp: i32_ok_def)
  ultimately show ?thesis
    by (simp add: score_trajectory_def checked_i32_def)
qed

theorem score_trajectory_correct_witness:
  "score_trajectory
     [\<lparr> ts_semantic_progress = 2, ts_no_progress = False, ts_invalid_action = True \<rparr>,
      \<lparr> ts_semantic_progress = 1, ts_no_progress = True, ts_invalid_action = False \<rparr>]
   = Some \<lparr> tr_total = 0, tr_progress = 3, tr_penalties = 3 \<rparr>"
  using score_trajectory_correct [of
     "[\<lparr> ts_semantic_progress = 2, ts_no_progress = False, ts_invalid_action = True \<rparr>,
       \<lparr> ts_semantic_progress = 1, ts_no_progress = True, ts_invalid_action = False \<rparr>]" 2]
  by (simp add: penalty_def)

text \<open>An action rewrite is final: when the engine rewrites a bootstrap command, evaluating
  the same context with the rewritten action allows it, provided the observed workspace is
  consistent (a Cargo project only exists at an existing path).\<close>

theorem rewrite_action_is_fixpoint:
  assumes "evaluate_constraint_context ctx = RewriteAction a why"
    and "cs_real_cargo_project (ctx_state ctx) \<longrightarrow> cs_real_path_exists (ctx_state ctx)"
  shows "evaluate_constraint_context (ctx\<lparr>ctx_action := Some a\<rparr>) = Allow"
proof -
  obtain a0 where a0: "ctx_action ctx = Some a0"
      "evaluate_action (ctx_state ctx) a0 = RewriteAction a why"
    using assms(1) by (auto simp: evaluate_constraint_context_def split: if_splits option.splits)
  have "evaluate_action (ctx_state ctx) a = Allow"
    using a0(2) assms(2) by (cases a0) (auto split: if_splits)
  with assms(1) a0(1) show ?thesis
    by (auto simp: evaluate_constraint_context_def split: if_splits)
qed

theorem rewrite_action_is_fixpoint_witness:
  "evaluate_constraint_context
     \<lparr> ctx_state = default_constraint_state, ctx_route = None, ctx_action = Some CargoNew,
       ctx_deterministic_route = None \<rparr> = Allow"
  using rewrite_action_is_fixpoint [of
    "\<lparr> ctx_state = default_constraint_state, ctx_route = None, ctx_action = Some CargoInit,
       ctx_deterministic_route = None \<rparr>" CargoNew reason_needs_cargo_new]
  by (simp add: evaluate_constraint_context_def default_constraint_state_def)

text \<open>Once the route is verify or conclude and agrees with the deterministic route, the
  engine allows a validation action in every workspace state: each state that would forbid
  validation (unresolved preconditions, missing target, missing files) is a state in which the
  route block has already returned.\<close>

theorem verify_route_never_forbids_validation:
  assumes "ctx_route ctx = Some r" and "r \<in> {R_Verify, R_Conclude}"
    and "ctx_deterministic_route ctx \<in> {None, Some r}"
    and "ctx_action ctx = Some Validation"
  shows "evaluate_constraint_context ctx = Allow"
  using assms by (auto simp: constraint_simps)

theorem verify_route_never_forbids_validation_witness:
  "evaluate_constraint_context
     \<lparr> ctx_state = default_constraint_state\<lparr>cs_validation_blocked := True\<rparr>,
       ctx_route = Some R_Verify, ctx_action = Some Validation,
       ctx_deterministic_route = None \<rparr> = Allow \<and>
   evaluate_constraint_context
     \<lparr> ctx_state = default_constraint_state\<lparr>cs_validation_blocked := True\<rparr>,
       ctx_route = None, ctx_action = Some Validation,
       ctx_deterministic_route = None \<rparr> = Forbid reason_validation_preconditions"
  using verify_route_never_forbids_validation [of
    "\<lparr> ctx_state = default_constraint_state\<lparr>cs_validation_blocked := True\<rparr>,
       ctx_route = Some R_Verify, ctx_action = Some Validation,
       ctx_deterministic_route = None \<rparr>" R_Verify]
  by (simp add: evaluate_constraint_context_def)

lemma evaluate_never_rewrites_route: "evaluate_constraint_context ctx \<noteq> RewriteRoute r why"
proof (cases "ctx_action ctx")
  case None
  then show ?thesis by (simp add: evaluate_constraint_context_def)
next
  case (Some a)
  then show ?thesis by (cases a) (simp_all add: evaluate_constraint_context_def)
qed

lemma self_repair_ready_iff: "self_repair_ready s \<longleftrightarrow> (\<forall>c. has_capability s c)"
proof -
  have all: "(\<forall>c. P c) \<longleftrightarrow> P ReadSearch \<and> P StructuredEdit \<and> P ApplyPatch \<and> P RunVerifier \<and>
      P ObserveDiagnostics" for P
    by (metis HarnessPrimitiveCapability.exhaust)
  show ?thesis
    unfolding all
    by (simp add: self_repair_ready_def self_repair_missing_capabilities_def
        MINIMAL_SELF_REPAIR_SET_def)
qed

end
