(* ===== verification/Joint_Harness.thy ===== *)
theory Joint_Harness
  imports Control_Harness Constraint_Engine
begin

text \<open>
  The constraint harness (\<^verbatim>\<open>constraint_harness.rs\<close>) and the breadth-first exploration of the
  product of control state and constraint state (\<^verbatim>\<open>cross_product_harness.rs\<close>). The
  exploration keeps a FIFO queue of states with their depth and a table from (state, event) to
  successor; a successor is queued only when its table entry is new. The model keeps the loop
  (a recursive function with a termination proof) and the order of the events.
\<close>

section \<open>Constraint harness\<close>

record ConstraintSeed =
  seed_state :: ConstraintState
  seed_route :: ConstraintRoute

datatype HarnessConstraintDecision = HC_Allow | HC_Block string | HC_Repair | HC_Escalate

definition constraint_seed_states :: "ConstraintSeed list" where
  "constraint_seed_states =
     map (\<lambda>route. \<lparr> seed_state = default_constraint_state, seed_route = route \<rparr>)
       [R_Observe, R_Plan, R_Act, R_Verify, R_Conclude]"

definition evaluate_constraint_state ::
  "ConstraintState \<Rightarrow> ConstraintRoute \<Rightarrow> HarnessConstraintDecision" where
  "evaluate_constraint_state state route = HC_Allow"

definition step_constraint_state ::
  "ConstraintState \<Rightarrow> ConstraintRoute \<Rightarrow> ConstraintAction \<Rightarrow> ConstraintState" where
  "step_constraint_state state route action = state"

definition constraint_events :: "ConstraintAction list" where
  "constraint_events = [CargoInit, CargoNew, RepairLocalized, RepairWorkspace, Validation, OtherAction]"

definition constraint_reachability_table :: "ConstraintSeed \<times> ConstraintAction \<rightharpoonup> ConstraintSeed" where
  "constraint_reachability_table =
     fold (\<lambda>seed. fold (\<lambda>action table.
              table((seed, action) \<mapsto>
                \<lparr> seed_state = step_constraint_state (seed_state seed) (seed_route seed) action,
                  seed_route = seed_route seed \<rparr>)) constraint_events)
       constraint_seed_states Map.empty"

section \<open>Joint exploration\<close>

record JointState =
  j_control :: ControlState
  j_constraint :: ConstraintSeed

datatype JointEvent = JControl ControlEvent | JConstraint ConstraintAction

definition derive_route :: "ControlState \<Rightarrow> ConstraintRoute" where
  "derive_route cs = R_Observe"

fun step_joint :: "JointState \<Rightarrow> JointEvent \<Rightarrow> JointState" where
  "step_joint s (JControl e) =
     \<lparr> j_control = step_control_state (j_control s) e, j_constraint = j_constraint s \<rparr>"
| "step_joint s (JConstraint a) =
     (let route = derive_route (j_control s);
          next_state = step_constraint_state (seed_state (j_constraint s)) route a
      in \<lparr> j_control = j_control s,
           j_constraint = \<lparr> seed_state = next_state, seed_route = route \<rparr> \<rparr>)"

definition joint_seed_states :: "JointState list" where
  "joint_seed_states =
     concat (map (\<lambda>cs. map (\<lambda>ks. \<lparr> j_control = cs, j_constraint = ks \<rparr>) constraint_seed_states)
       synthetic_control_seed_states)"

definition joint_events :: "JointEvent list" where
  "joint_events = map JControl synthetic_control_events @ map JConstraint constraint_events"

type_synonym joint_table = "JointState \<times> JointEvent \<rightharpoonup> JointState"

text \<open>The body of the loop for one popped state: one table insertion per event.\<close>

fun visit_state ::
  "JointState \<Rightarrow> nat \<Rightarrow> JointEvent list \<Rightarrow> joint_table \<Rightarrow> (JointState \<times> nat) list
     \<Rightarrow> joint_table \<times> (JointState \<times> nat) list" where
  "visit_state s depth [] table queue = (table, queue)"
| "visit_state s depth (e # es) table queue =
     (let nxt = step_joint s e
      in visit_state s depth es (table((s, e) \<mapsto> nxt))
           (if table (s, e) = None then queue @ [(nxt, depth + 1)] else queue))"

lemma visit_state_queue:
  "\<exists>added. snd (visit_state s d es table queue) = queue @ added \<and> length added \<le> length es \<and>
     (\<forall>x \<in> set added. snd x = d + 1)"
proof (induction es arbitrary: table queue)
  case Nil
  then show ?case by simp
next
  case (Cons e es)
  let ?q = "if table (s, e) = None then queue @ [(step_joint s e, d + 1)] else queue"
  obtain added where
      "snd (visit_state s d es (table((s, e) \<mapsto> step_joint s e)) ?q) = ?q @ added"
      "length added \<le> length es" "\<forall>x \<in> set added. snd x = d + 1"
    using Cons by blast
  then show ?case
    by (cases "table (s, e) = None")
      (auto simp: Let_def intro: exI [of _ "(step_joint s e, d + 1) # added"] exI [of _ added])
qed

definition queue_weight :: "nat \<Rightarrow> (JointState \<times> nat) list \<Rightarrow> nat" where
  "queue_weight max_depth queue = sum_list (map (\<lambda>x. 17 ^ (Suc max_depth - snd x)) queue)"

lemma queue_weight_append [simp]:
  "queue_weight m (xs @ ys) = queue_weight m xs + queue_weight m ys"
  by (simp add: queue_weight_def)

lemma queue_weight_const:
  "\<forall>x \<in> set xs. snd x = d \<Longrightarrow> queue_weight m xs = length xs * 17 ^ (Suc m - d)"
  by (induction xs) (auto simp: queue_weight_def)

lemma length_joint_events: "length joint_events = 16"
  by (simp add: joint_events_def synthetic_control_events_def constraint_events_def)

lemma visit_decreases:
  assumes "d < max_depth"
  shows "queue_weight max_depth (snd (visit_state s d joint_events table queue))
      < queue_weight max_depth ((s, d) # queue)"
proof -
  obtain added where a: "snd (visit_state s d joint_events table queue) = queue @ added"
      "length added \<le> 16" "\<forall>x \<in> set added. snd x = d + 1"
    using visit_state_queue [of s d joint_events table queue] length_joint_events by auto
  have "queue_weight max_depth added \<le> 16 * 17 ^ (max_depth - d)"
    using queue_weight_const [OF a(3), of max_depth] a(2) by (simp add: mult_le_mono)
  also have "\<dots> < 17 ^ (Suc max_depth - d)"
    using assms by (simp add: Suc_diff_le)
  finally show ?thesis
    by (simp add: a(1) queue_weight_def)
qed

function joint_loop :: "nat \<Rightarrow> (JointState \<times> nat) list \<Rightarrow> joint_table \<Rightarrow> joint_table" where
  "joint_loop max_depth [] table = table"
| "joint_loop max_depth ((s, depth) # queue) table =
     (if max_depth \<le> depth then joint_loop max_depth queue table
      else (let r = visit_state s depth joint_events table queue
            in joint_loop max_depth (snd r) (fst r)))"
  by pat_completeness auto
termination
proof (relation "measure (\<lambda>(m, queue, table). queue_weight m queue)")
  show "wf (measure (\<lambda>(m, queue, table). queue_weight m queue))" by simp
next
  show "((max_depth, queue, table), max_depth, (s, depth) # queue, table)
      \<in> measure (\<lambda>(m, queue, table). queue_weight m queue)" for max_depth s depth queue table
    by (simp add: queue_weight_def)
next
  show "((max_depth, snd r, fst r), max_depth, (s, depth) # queue, table)
      \<in> measure (\<lambda>(m, queue, table). queue_weight m queue)"
    if "\<not> max_depth \<le> depth" "r = visit_state s depth joint_events table queue"
    for max_depth s depth queue table r
    using that visit_decreases [of depth max_depth s table queue] by simp
qed

definition joint_reachability_table :: "nat \<Rightarrow> joint_table" where
  "joint_reachability_table max_depth =
     joint_loop max_depth (map (\<lambda>s. (s, 0)) joint_seed_states) Map.empty"

section \<open>The table is exactly the bounded reachable set\<close>

text \<open>States reachable from the seeds in at most \<open>n\<close> steps of the explored events.\<close>

fun reach_within :: "nat \<Rightarrow> JointState set" where
  "reach_within 0 = set joint_seed_states"
| "reach_within (Suc n) =
     reach_within n \<union> {step_joint s e | s e. s \<in> reach_within n \<and> e \<in> set joint_events}"

definition expanded :: "joint_table \<Rightarrow> JointState set" where
  "expanded table = {s. \<forall>e \<in> set joint_events. (s, e) \<in> dom table}"

definition sound_table :: "joint_table \<Rightarrow> bool" where
  "sound_table table \<longleftrightarrow>
     (\<forall>s e v. table (s, e) = Some v \<longrightarrow> v = step_joint s e \<and> e \<in> set joint_events) \<and>
     (\<forall>s e e'. (s, e) \<in> dom table \<longrightarrow> e' \<in> set joint_events \<longrightarrow> (s, e') \<in> dom table)"

text \<open>Successors of expanded states are expanded or queued.\<close>

definition closed_upto :: "joint_table \<Rightarrow> JointState set \<Rightarrow> bool" where
  "closed_upto table pending \<longleftrightarrow>
     (\<forall>s \<in> expanded table. \<forall>e \<in> set joint_events. step_joint s e \<in> expanded table \<union> pending)"

lemma visit_state_table:
  "fst (visit_state s d es table queue) =
     (\<lambda>p. if fst p = s \<and> snd p \<in> set es then Some (step_joint s (snd p)) else table p)"
  by (induction es arbitrary: table queue) (auto simp: Let_def fun_eq_iff)

lemma visit_state_old:
  assumes "\<forall>e \<in> set es. (s, e) \<in> dom table"
  shows "snd (visit_state s d es table queue) = queue"
  using assms
proof (induction es arbitrary: table)
  case Nil
  then show ?case by simp
next
  case (Cons e es)
  let ?table = "table((s, e) \<mapsto> step_joint s e)"
  have "\<forall>e' \<in> set es. (s, e') \<in> dom ?table"
    using Cons.prems by auto
  then have "snd (visit_state s d es ?table queue) = queue"
    by (rule Cons.IH [of ?table])
  moreover have "table (s, e) \<noteq> None" using Cons.prems by auto
  ultimately show ?case by (simp only: visit_state.simps Let_def if_False)
qed

lemma visit_state_new:
  assumes "\<forall>e \<in> set es. (s, e) \<notin> dom table" and "distinct es"
  shows "snd (visit_state s d es table queue) = queue @ map (\<lambda>e. (step_joint s e, d + 1)) es"
  using assms
proof (induction es arbitrary: table queue)
  case Nil
  then show ?case by simp
next
  case (Cons e es)
  let ?table = "table((s, e) \<mapsto> step_joint s e)"
  let ?queue = "queue @ [(step_joint s e, d + 1)]"
  have "\<forall>e' \<in> set es. (s, e') \<notin> dom ?table" "distinct es" using Cons.prems by auto
  then have "snd (visit_state s d es ?table ?queue) = ?queue @ map (\<lambda>e. (step_joint s e, d + 1)) es"
    by (rule Cons.IH [of ?table ?queue])
  moreover have "table (s, e) = None" using Cons.prems by auto
  ultimately show ?case
    by (simp only: visit_state.simps Let_def if_True simp_thms list.map append_assoc append.simps)
qed

lemma distinct_joint_events: "distinct joint_events"
  by (simp add: joint_events_def synthetic_control_events_def constraint_events_def)

lemma joint_events_nonempty: "\<exists>e. e \<in> set joint_events"
proof
  show "JConstraint Validation \<in> set joint_events"
    by (simp add: joint_events_def constraint_events_def)
qed

lemma expanded_visit:
  "expanded (fst (visit_state s d joint_events table queue)) = insert s (expanded table)"
  by (auto simp: expanded_def visit_state_table dom_def)

lemma sound_visit:
  assumes "sound_table table"
  shows "sound_table (fst (visit_state s d joint_events table queue))"
  unfolding sound_table_def visit_state_table
proof (intro conjI allI impI)
  fix s' e v
  assume "(if fst (s', e) = s \<and> snd (s', e) \<in> set joint_events
      then Some (step_joint s (snd (s', e))) else table (s', e)) = Some v"
  then show "v = step_joint s' e" "e \<in> set joint_events"
    using assms by (auto simp: sound_table_def split: if_splits)
next
  fix s' e e'
  assume "(s', e) \<in> dom (\<lambda>p. if fst p = s \<and> snd p \<in> set joint_events
        then Some (step_joint s (snd p)) else table p)" "e' \<in> set joint_events"
  then show "(s', e') \<in> dom (\<lambda>p. if fst p = s \<and> snd p \<in> set joint_events
        then Some (step_joint s (snd p)) else table p)"
    using assms unfolding sound_table_def by (cases "s' = s") (simp_all add: dom_def, blast)
qed

lemma sound_expanded:
  "sound_table table \<Longrightarrow> (s, e) \<in> dom table \<Longrightarrow> s \<in> expanded table"
  unfolding sound_table_def expanded_def by blast

text \<open>Processing one queued state: it becomes expanded, its successors are expanded or queued.\<close>

lemma visit_new_queue:
  assumes "sound_table table"
  shows "\<exists>added. snd (visit_state s d joint_events table queue) = queue @ added \<and>
     (\<forall>x \<in> set added. snd x = d + 1) \<and>
     fst ` set added = (if s \<in> expanded table then {} else step_joint s ` set joint_events)"
proof (cases "s \<in> expanded table")
  case True
  then have "snd (visit_state s d joint_events table queue) = queue"
    by (intro visit_state_old) (simp add: expanded_def)
  with True show ?thesis by simp
next
  case False
  with assms have "\<forall>e \<in> set joint_events. (s, e) \<notin> dom table"
    using sound_expanded by blast
  then have "snd (visit_state s d joint_events table queue) =
      queue @ map (\<lambda>e. (step_joint s e, d + 1)) joint_events"
    using distinct_joint_events by (rule visit_state_new)
  with False show ?thesis by (simp add: image_image)
qed

text \<open>
  The state of the search while level \<open>d\<close> is being processed: \<open>q1\<close> is what is left of level
  \<open>d\<close>, \<open>q2\<close> what has been queued for level \<open>d + 1\<close>.
\<close>

definition level_inv ::
  "nat \<Rightarrow> joint_table \<Rightarrow> (JointState \<times> nat) list \<Rightarrow> (JointState \<times> nat) list \<Rightarrow> bool" where
  "level_inv d table q1 q2 \<longleftrightarrow>
     sound_table table \<and>
     (\<forall>x \<in> set q1. snd x = d) \<and> (\<forall>x \<in> set q2. snd x = d + 1) \<and>
     reach_within d \<subseteq> expanded table \<union> fst ` set q1 \<and>
     closed_upto table (fst ` set q1 \<union> fst ` set q2) \<and>
     expanded table \<union> fst ` set q1 \<subseteq> reach_within d \<and> fst ` set q2 \<subseteq> reach_within (Suc d)"

lemma level_inv_visit:
  assumes "level_inv d table ((s, d) # q1) q2"
  shows "\<exists>q2'. snd (visit_state s d joint_events table (q1 @ q2)) = q1 @ q2' \<and>
     level_inv d (fst (visit_state s d joint_events table (q1 @ q2))) q1 q2'"
proof -
  have sound: "sound_table table" using assms by (simp add: level_inv_def)
  obtain added where a: "snd (visit_state s d joint_events table (q1 @ q2)) = (q1 @ q2) @ added"
      "\<forall>x \<in> set added. snd x = d + 1"
      "fst ` set added = (if s \<in> expanded table then {} else step_joint s ` set joint_events)"
    using visit_new_queue [OF sound] by blast
  have s: "s \<in> reach_within d" using assms by (simp add: level_inv_def)
  then have succ: "step_joint s ` set joint_events \<subseteq> reach_within (Suc d)" by auto
  have closed: "closed_upto (fst (visit_state s d joint_events table (q1 @ q2)))
      (fst ` set q1 \<union> fst ` set (q2 @ added))"
    unfolding closed_upto_def expanded_visit
  proof (intro ballI)
    fix s' e
    assume s': "s' \<in> insert s (expanded table)" and e: "e \<in> set joint_events"
    show "step_joint s' e \<in> insert s (expanded table) \<union> (fst ` set q1 \<union> fst ` set (q2 @ added))"
    proof (cases "s' \<in> expanded table")
      case True
      with e assms have "step_joint s' e \<in> expanded table \<union> (fst ` set ((s, d) # q1) \<union> fst ` set q2)"
        unfolding level_inv_def closed_upto_def by blast
      then show ?thesis by auto
    next
      case False
      with s' a(3) have "fst ` set added = step_joint s ` set joint_events" and "s' = s" by auto
      with e show ?thesis by (metis UnCI image_Un image_eqI set_append)
    qed
  qed
  have "level_inv d (fst (visit_state s d joint_events table (q1 @ q2))) q1 (q2 @ added)"
    unfolding level_inv_def
  proof (intro conjI)
    show "sound_table (fst (visit_state s d joint_events table (q1 @ q2)))"
      by (rule sound_visit [OF sound])
    show "closed_upto (fst (visit_state s d joint_events table (q1 @ q2)))
      (fst ` set q1 \<union> fst ` set (q2 @ added))" by (rule closed)
    have "fst ` set added \<subseteq> reach_within (Suc d)"
      unfolding a(3) using succ by simp
    moreover have "fst ` set q2 \<subseteq> reach_within (Suc d)"
      using assms unfolding level_inv_def by blast
    ultimately show "fst ` set (q2 @ added) \<subseteq> reach_within (Suc d)"
      by (simp only: set_append image_Un Un_least)
  qed (use assms a(2) s in \<open>auto simp: level_inv_def expanded_visit\<close>)
  with a(1) show ?thesis by auto
qed

lemma level_inv_next:
  assumes "level_inv d table [] q2"
  shows "level_inv (Suc d) table q2 []"
proof -
  have exp: "expanded table = reach_within d" using assms by (auto simp: level_inv_def)
  have "reach_within (Suc d) \<subseteq> expanded table \<union> fst ` set q2"
    using assms exp by (fastforce simp: level_inv_def closed_upto_def)
  with assms show ?thesis by (auto simp: level_inv_def)
qed

lemma joint_loop_skips:
  "\<forall>x \<in> set queue. max_depth \<le> snd x \<Longrightarrow> joint_loop max_depth queue table = table"
  by (induction queue) auto

lemma joint_loop_level:
  "d < max_depth \<Longrightarrow> level_inv d table q1 q2 \<Longrightarrow>
   \<exists>table' q2'. joint_loop max_depth (q1 @ q2) table = joint_loop max_depth q2' table' \<and>
     level_inv (Suc d) table' q2' [] \<and> expanded table' = reach_within d"
proof (induction q1 arbitrary: table q2)
  case Nil
  then have "expanded table = reach_within d" by (auto simp: level_inv_def)
  with Nil show ?case using level_inv_next by (metis append_Nil)
next
  case (Cons x q1)
  obtain s where x: "x = (s, d)" using Cons.prems(2) by (cases x) (simp add: level_inv_def)
  obtain q2' where q: "snd (visit_state s d joint_events table (q1 @ q2)) = q1 @ q2'"
      "level_inv d (fst (visit_state s d joint_events table (q1 @ q2))) q1 q2'"
    using level_inv_visit Cons.prems(2) unfolding x by blast
  from Cons.IH [OF Cons.prems(1) q(2)] show ?case
    using Cons.prems(1) q(1) by (simp add: x Let_def)
qed

lemma level_inv_start: "level_inv 0 Map.empty (map (\<lambda>s. (s, 0)) joint_seed_states) []"
proof -
  have "expanded Map.empty = {}"
    using joint_events_nonempty by (auto simp: expanded_def)
  then show ?thesis
    by (simp add: level_inv_def sound_table_def closed_upto_def image_image)
qed

lemma joint_loop_prefix:
  "k \<le> m \<Longrightarrow> \<exists>q t. joint_reachability_table m = joint_loop m q t \<and> level_inv k t q []"
proof (induction k)
  case 0
  then show ?case using level_inv_start unfolding joint_reachability_table_def by blast
next
  case (Suc k)
  then obtain q t where *: "joint_reachability_table m = joint_loop m q t" "level_inv k t q []"
    by auto
  from joint_loop_level [OF _ *(2), of m] Suc.prems *(1) show ?case by auto
qed

text \<open>C15: The breadth-first exploration terminates and is exact: with depth bound \<open>n + 1\<close> the table
  has an entry for a state and an event precisely when the state is reachable from the seed
  states in at most \<open>n\<close> steps and the event is one of the sixteen explored ones, and the entry is
  the successor under the joint step.\<close>

theorem joint_table_is_exact:
  "joint_reachability_table (Suc n) (s, e) =
     (if s \<in> reach_within n \<and> e \<in> set joint_events then Some (step_joint s e) else None)"
proof -
  obtain q0 t0 where t0: "joint_reachability_table (Suc n) = joint_loop (Suc n) q0 t0"
      "level_inv n t0 q0 []"
    using joint_loop_prefix [of n "Suc n"] by auto
  from joint_loop_level [OF lessI t0(2)] obtain t q where
    t: "joint_reachability_table (Suc n) = joint_loop (Suc n) q t" "level_inv (Suc n) t q []"
      "expanded t = reach_within n"
    using t0(1) by auto
  have table: "joint_reachability_table (Suc n) = t"
    using t(1,2) by (simp add: joint_loop_skips level_inv_def)
  have sound: "sound_table t" using t(2) by (simp add: level_inv_def)
  show ?thesis
  proof (cases "(s, e) \<in> dom t")
    case True
    then obtain v where v: "t (s, e) = Some v" by blast
    with sound have "v = step_joint s e" "e \<in> set joint_events"
      by (auto simp: sound_table_def)
    with v sound_expanded [OF sound True] t(3) table show ?thesis by simp
  next
    case False
    with t(3) have "\<not> (s \<in> reach_within n \<and> e \<in> set joint_events)"
      by (auto simp: expanded_def)
    with False table show ?thesis by (auto simp: domIff)
  qed
qed

end
