(* ===== verification/Invariant_Discovery.thy ===== *)
theory Invariant_Discovery
  imports Constraint_Engine
begin

text \<open>
  Discovery, promotion, demotion and persistence of invariants, from
  \<^verbatim>\<open>canon-utils/canon-invariant/src/lib.rs\<close>. The process-wide state (the mutex-guarded
  \<^verbatim>\<open>InvariantDiscoveryState\<close>, the pending store events and the store file) is the record
  \<open>DiscoveryWorld\<close>, passed explicitly. A mutex is poisoned only when a holder panics, and no
  holder here can, so the lock results are always \<^verbatim>\<open>Ok\<close>.

  The serialisation of the store (serde) and the success of the file operations are the
  parameter \<open>StoreEnv\<close>; what the code relies on is \<open>faithful_codec\<close>: reading back what was
  written gives the same vectors.
\<close>

section \<open>Data\<close>

datatype FailureKind = InvalidPlanBatch | RouteRewriteFailure

record FailureFingerprint =
  ff_kind :: FailureKind
  ff_route :: "ConstraintRoute option"
  ff_state :: ConstraintState

definition fp_invalid_plan_batch ::
  "ConstraintRoute option \<Rightarrow> ConstraintState \<Rightarrow> FailureFingerprint" where
  "fp_invalid_plan_batch route state =
     \<lparr> ff_kind = InvalidPlanBatch, ff_route = route, ff_state = state \<rparr>"

definition fp_route_rewrite :: "ConstraintRoute \<Rightarrow> ConstraintState \<Rightarrow> FailureFingerprint" where
  "fp_route_rewrite route state =
     \<lparr> ff_kind = RouteRewriteFailure, ff_route = Some route, ff_state = state \<rparr>"

datatype DiscoveredInvariant =
    ForcePlanWhenMissingTarget
  | ForcePlanWhenValidationBlocked
  | ForcePlanWhenObjectiveContradiction
  | ForceObserveWhenNoActionableFailure

fun feature_name :: "DiscoveredInvariant \<Rightarrow> string" where
  "feature_name ForcePlanWhenMissingTarget = ''discovered:force_plan_missing_target''"
| "feature_name ForcePlanWhenValidationBlocked = ''discovered:force_plan_validation_blocked''"
| "feature_name ForcePlanWhenObjectiveContradiction =
     ''discovered:force_plan_objective_contradiction''"
| "feature_name ForceObserveWhenNoActionableFailure =
     ''discovered:force_observe_refresh_on_repeated_noop''"

record InvariantPromotion =
  ip_invariant :: DiscoveredInvariant
  ip_support :: u32
  ip_fingerprint :: FailureFingerprint

datatype StoreEventKind = Loaded | Updated

record StoreEvent =
  se_kind :: StoreEventKind
  se_path :: string
  se_support_entries :: nat
  se_promoted_entries :: nat
  se_reason :: string

record InvariantDiscoveryState =
  ids_threshold :: u32
  ids_supports :: "(FailureFingerprint \<times> u32) list"
  ids_promoted :: "(DiscoveredInvariant \<times> u32) list"
  ids_negative_evidence :: "(DiscoveredInvariant \<times> u32) list"

record Persisted =
  ps_supports :: "(FailureFingerprint \<times> u32) list"
  ps_promoted :: "(DiscoveredInvariant \<times> u32) list"

record StoreEnv =
  env_path :: "string option"
  env_dir_ready :: bool
  env_write_ok :: bool
  env_encode :: "Persisted \<Rightarrow> string option"
  env_decode :: "string \<Rightarrow> Persisted option"

record DiscoveryWorld =
  dw_state :: InvariantDiscoveryState
  dw_events :: "StoreEvent list"
  dw_disk :: "string option"

section \<open>Store\<close>

definition invariant_store_path :: "bool \<Rightarrow> string option \<Rightarrow> string option" where
  "invariant_store_path cfg_test env_var =
     (if cfg_test then None
      else Some (case env_var of Some p \<Rightarrow> p
                 | None \<Rightarrow> ''/workspace/ai_sandbox/canon/state/discovered_invariants.json''))"

definition record_persisted_store_event ::
  "StoreEventKind \<Rightarrow> string \<Rightarrow> nat \<Rightarrow> nat \<Rightarrow> string \<Rightarrow> DiscoveryWorld \<Rightarrow> DiscoveryWorld" where
  "record_persisted_store_event kind path n m reason w =
     w\<lparr>dw_events := dw_events w @
        [\<lparr> se_kind = kind, se_path = path, se_support_entries = n, se_promoted_entries = m,
           se_reason = reason \<rparr>]\<rparr>"

definition drain_persisted_store_events :: "DiscoveryWorld \<Rightarrow> StoreEvent list \<times> DiscoveryWorld" where
  "drain_persisted_store_events w = (dw_events w, w\<lparr>dw_events := []\<rparr>)"

definition load_from_disk :: "StoreEnv \<Rightarrow> DiscoveryWorld \<Rightarrow> DiscoveryWorld" where
  "load_from_disk env w =
     (case env_path env of None \<Rightarrow> w
      | Some path \<Rightarrow>
     (case dw_disk w of None \<Rightarrow> w
      | Some raw \<Rightarrow>
     (case env_decode env raw of None \<Rightarrow> w
      | Some p \<Rightarrow>
          let supps = collect_map (ps_supports p); proms = collect_map (ps_promoted p)
          in record_persisted_store_event Loaded path (length supps) (length proms) ''store_loaded''
               (w\<lparr>dw_state := (dw_state w)\<lparr>ids_supports := supps, ids_promoted := proms\<rparr>\<rparr>))))"

definition save_to_disk :: "StoreEnv \<Rightarrow> string \<Rightarrow> DiscoveryWorld \<Rightarrow> DiscoveryWorld" where
  "save_to_disk env reason w =
     (case env_path env of None \<Rightarrow> w
      | Some path \<Rightarrow>
     (if \<not> env_dir_ready env then w else
     (let st = dw_state w in
      case env_encode env \<lparr> ps_supports = ids_supports st, ps_promoted = ids_promoted st \<rparr> of
        None \<Rightarrow> w
      | Some json \<Rightarrow>
          if env_write_ok env
          then record_persisted_store_event Updated path (length (ids_supports st))
                 (length (ids_promoted st)) reason (w\<lparr>dw_disk := Some json\<rparr>)
          else w)))"

definition with_threshold :: "StoreEnv \<Rightarrow> u32 option \<Rightarrow> DiscoveryWorld \<Rightarrow> DiscoveryWorld" where
  "with_threshold env parsed w =
     (let threshold = (case parsed of Some v \<Rightarrow> if 0 < v then v else 3 | None \<Rightarrow> 3)
      in load_from_disk env
           (w\<lparr>dw_state := \<lparr> ids_threshold = threshold, ids_supports = [], ids_promoted = [],
                            ids_negative_evidence = [] \<rparr>\<rparr>))"

definition reload_discovered_invariants_from_disk :: "StoreEnv \<Rightarrow> DiscoveryWorld \<Rightarrow> DiscoveryWorld" where
  "reload_discovered_invariants_from_disk env w =
     load_from_disk env
       (w\<lparr>dw_state := \<lparr> ids_threshold = ids_threshold (dw_state w), ids_supports = [],
                        ids_promoted = [], ids_negative_evidence = [] \<rparr>\<rparr>)"

definition clear_discovered_invariants_store :: "StoreEnv \<Rightarrow> DiscoveryWorld \<Rightarrow> DiscoveryWorld" where
  "clear_discovered_invariants_store env w =
     (case env_path env of None \<Rightarrow> w | Some _ \<Rightarrow> w\<lparr>dw_disk := None\<rparr>)"

section \<open>Discovery\<close>

definition fingerprint_pattern :: "FailureFingerprint \<Rightarrow> DiscoveredInvariant option" where
  "fingerprint_pattern fp =
     (let s = ff_state fp in
      case ff_route fp of
        Some R_Observe \<Rightarrow>
          if \<not> cs_real_path_exists s then Some ForcePlanWhenMissingTarget else None
      | Some R_Plan \<Rightarrow>
          if cs_failure_class_no_actionable s \<or>
             (cs_recent_no_semantic_progress s \<and> \<not> cs_actionable_failure s \<and>
              \<not> cs_validation_blocked s \<and> \<not> cs_entrypoint_missing s \<and>
              \<not> cs_module_gaps_present s \<and> cs_real_path_exists s)
          then Some ForceObserveWhenNoActionableFailure else None
      | Some R_Act \<Rightarrow> None
      | None \<Rightarrow> None
      | Some _ \<Rightarrow>
          if cs_validation_blocked s \<or> cs_entrypoint_missing s \<or> cs_module_gaps_present s
          then Some ForcePlanWhenValidationBlocked
          else if cs_route_objective_contradiction s
          then Some ForcePlanWhenObjectiveContradiction
          else None)"

definition promotion_threshold :: "u32 \<Rightarrow> DiscoveredInvariant \<Rightarrow> u32" where
  "promotion_threshold threshold i =
     (case i of ForcePlanWhenMissingTarget \<Rightarrow> 3
      | ForceObserveWhenNoActionableFailure \<Rightarrow> 3
      | _ \<Rightarrow> threshold)"

definition entry_count :: "('k \<times> u32) list \<Rightarrow> 'k \<Rightarrow> u32" where
  "entry_count m k = (case map_of m k of None \<Rightarrow> 0 | Some c \<Rightarrow> c)"

definition observe_failure_fingerprint ::
  "StoreEnv \<Rightarrow> FailureFingerprint \<Rightarrow> DiscoveryWorld \<Rightarrow> InvariantPromotion option \<times> DiscoveryWorld" where
  "observe_failure_fingerprint env fp w =
     (case fingerprint_pattern fp of
        None \<Rightarrow> (None, w)
      | Some i \<Rightarrow>
          let st = dw_state w;
              support = saturating_add (entry_count (ids_supports st) fp) 1;
              w1 = save_to_disk env ''support_observed''
                     (w\<lparr>dw_state := st\<lparr>ids_supports := AList.update fp support (ids_supports st)\<rparr>\<rparr>);
              st1 = dw_state w1
          in if support < promotion_threshold (ids_threshold st1) i then (None, w1)
             else (Some \<lparr> ip_invariant = i, ip_support = support, ip_fingerprint = fp \<rparr>,
                   save_to_disk env ''promotion''
                     (w1\<lparr>dw_state := st1\<lparr>ids_promoted := AList.update i support (ids_promoted st1),
                           ids_negative_evidence := AList.delete i (ids_negative_evidence st1)\<rparr>\<rparr>)))"

definition discovered_invariants :: "DiscoveryWorld \<Rightarrow> DiscoveredInvariant list" where
  "discovered_invariants w = map fst (ids_promoted (dw_state w))"

definition record_negative_evidence ::
  "StoreEnv \<Rightarrow> DiscoveredInvariant \<Rightarrow> DiscoveryWorld \<Rightarrow> DiscoveryWorld" where
  "record_negative_evidence env i w =
     (let st = dw_state w;
          n = saturating_add (entry_count (ids_negative_evidence st) i) 1;
          st1 = st\<lparr>ids_negative_evidence := AList.update i n (ids_negative_evidence st)\<rparr>
      in if 3 \<le> n
         then save_to_disk env ''demotion''
                (w\<lparr>dw_state := st1\<lparr>ids_promoted := AList.delete i (ids_promoted st1),
                      ids_negative_evidence := AList.delete i (ids_negative_evidence st1)\<rparr>\<rparr>)
         else w\<lparr>dw_state := st1\<rparr>)"

definition reset_discovered_invariants_for_tests ::
  "StoreEnv \<Rightarrow> u32 option \<Rightarrow> DiscoveryWorld \<Rightarrow> DiscoveryWorld" where
  "reset_discovered_invariants_for_tests env parsed w =
     clear_discovered_invariants_store env (with_threshold env parsed w)"

text \<open>The body of the loop of \<^verbatim>\<open>evaluate_discovered_invariants\<close>: whether it returns.\<close>

definition discovered_fires :: "ConstraintContext \<Rightarrow> DiscoveredInvariant \<Rightarrow> bool" where
  "discovered_fires ctx i =
     (let s = ctx_state ctx; vc = ctx_route ctx \<in> {Some R_Verify, Some R_Conclude} in
      case i of
        ForcePlanWhenMissingTarget \<Rightarrow> \<not> cs_real_path_exists s \<and> ctx_route ctx \<noteq> Some R_Plan
      | ForceObserveWhenNoActionableFailure \<Rightarrow> False
      | ForcePlanWhenValidationBlocked \<Rightarrow>
          vc \<and> cs_actionable_failure s \<and>
          (cs_validation_blocked s \<or> cs_entrypoint_missing s \<or> cs_module_gaps_present s)
      | ForcePlanWhenObjectiveContradiction \<Rightarrow>
          vc \<and> cs_actionable_failure s \<and> cs_route_objective_contradiction s)"

fun evaluate_discovered_loop ::
  "ConstraintContext \<Rightarrow> DiscoveredInvariant list \<Rightarrow> ConstraintDecision option" where
  "evaluate_discovered_loop ctx [] = None"
| "evaluate_discovered_loop ctx (i # is) =
     (if discovered_fires ctx i then Some Allow else evaluate_discovered_loop ctx is)"

definition evaluate_discovered_invariants ::
  "DiscoveryWorld \<Rightarrow> ConstraintContext \<Rightarrow> ConstraintDecision option" where
  "evaluate_discovered_invariants w ctx =
     (if \<not> cs_actionable_failure (ctx_state ctx) then None
      else evaluate_discovered_loop ctx (discovered_invariants w))"

section \<open>Frame lemmas\<close>

definition faithful_codec :: "StoreEnv \<Rightarrow> bool" where
  "faithful_codec env \<longleftrightarrow> (\<forall>p raw. env_encode env p = Some raw \<longrightarrow> env_decode env raw = Some p)"

lemma save_to_disk_state [simp]: "dw_state (save_to_disk env reason w) = dw_state w"
  by (simp add: save_to_disk_def record_persisted_store_event_def Let_def split: option.split)

lemma save_to_disk_disk:
  "dw_disk (save_to_disk env reason w) = dw_disk w \<or>
   (\<exists>raw. dw_disk (save_to_disk env reason w) = Some raw \<and>
      env_encode env \<lparr> ps_supports = ids_supports (dw_state w),
                       ps_promoted = ids_promoted (dw_state w) \<rparr> = Some raw)"
  by (auto simp: save_to_disk_def record_persisted_store_event_def Let_def split: option.split)

lemma load_from_disk_frame [simp]:
  "ids_threshold (dw_state (load_from_disk env w)) = ids_threshold (dw_state w)"
  "ids_negative_evidence (dw_state (load_from_disk env w)) = ids_negative_evidence (dw_state w)"
  "dw_disk (load_from_disk env w) = dw_disk w"
  by (auto simp: load_from_disk_def record_persisted_store_event_def Let_def split: option.split)

lemma load_from_disk_cases:
  "dw_state (load_from_disk env w) = dw_state w \<or>
   (\<exists>raw p. dw_disk w = Some raw \<and> env_decode env raw = Some p \<and>
      dw_state (load_from_disk env w) =
        (dw_state w)\<lparr>ids_supports := collect_map (ps_supports p),
                     ids_promoted := collect_map (ps_promoted p)\<rparr>)"
  by (auto simp: load_from_disk_def record_persisted_store_event_def Let_def split: option.split)

section \<open>The discovery machine\<close>

datatype DiscoveryEvent =
    ObserveFailure FailureFingerprint
  | NegativeEvidence DiscoveredInvariant
  | ReloadStore
  | ClearStore
  | DrainEvents

fun discovery_step :: "StoreEnv \<Rightarrow> DiscoveryWorld \<Rightarrow> DiscoveryEvent \<Rightarrow> DiscoveryWorld" where
  "discovery_step env w (ObserveFailure fp) = snd (observe_failure_fingerprint env fp w)"
| "discovery_step env w (NegativeEvidence i) = record_negative_evidence env i w"
| "discovery_step env w ReloadStore = reload_discovered_invariants_from_disk env w"
| "discovery_step env w ClearStore = clear_discovered_invariants_store env w"
| "discovery_step env w DrainEvents = snd (drain_persisted_store_events w)"

definition discovery_init :: "StoreEnv \<Rightarrow> DiscoveryWorld \<Rightarrow> bool" where
  "discovery_init env w \<longleftrightarrow>
     (\<exists>parsed w0. dw_disk w0 = None \<and> w = with_threshold env parsed w0)"

text \<open>Every promoted invariant is backed by an observed fingerprint of its pattern.\<close>

definition supported ::
  "u32 \<Rightarrow> (FailureFingerprint \<times> u32) list \<Rightarrow> (DiscoveredInvariant \<times> u32) list \<Rightarrow> bool" where
  "supported threshold supps proms \<longleftrightarrow>
     (\<forall>i s. map_of proms i = Some s \<longrightarrow>
        promotion_threshold threshold i \<le> s \<and>
        (\<exists>fp c. fingerprint_pattern fp = Some i \<and> map_of supps fp = Some c \<and> s \<le> c))"

definition disk_supported :: "StoreEnv \<Rightarrow> u32 \<Rightarrow> string option \<Rightarrow> bool" where
  "disk_supported env threshold disk \<longleftrightarrow>
     (\<forall>raw p. disk = Some raw \<longrightarrow> env_decode env raw = Some p \<longrightarrow>
        supported threshold (collect_map (ps_supports p)) (collect_map (ps_promoted p)))"

definition discovery_inv :: "StoreEnv \<Rightarrow> DiscoveryWorld \<Rightarrow> bool" where
  "discovery_inv env w \<longleftrightarrow>
     (let st = dw_state w in
      distinct (map fst (ids_supports st)) \<and> distinct (map fst (ids_promoted st)) \<and>
      supported (ids_threshold st) (ids_supports st) (ids_promoted st) \<and>
      disk_supported env (ids_threshold st) (dw_disk w))"

lemma supported_empty [simp]: "supported t supps []"
  by (simp add: supported_def)

lemma supported_cong: "map_of supps = map_of supps' \<Longrightarrow> map_of proms = map_of proms' \<Longrightarrow>
    supported t supps proms = supported t supps' proms'"
  by (simp add: supported_def)

lemma supported_delete: "supported t supps proms \<Longrightarrow> supported t supps (AList.delete i proms)"
  by (auto simp: supported_def)

lemma supported_observe:
  assumes "supported t supps proms" and "entry_count supps fp \<le> c"
  shows "supported t (AList.update fp c supps) proms"
  unfolding supported_def
proof (intro allI impI conjI)
  fix i s
  assume i: "map_of proms i = Some s"
  with assms(1) show "promotion_threshold t i \<le> s" by (auto simp: supported_def)
  from i assms(1) obtain fp' c' where w: "fingerprint_pattern fp' = Some i"
      "map_of supps fp' = Some c'" "s \<le> c'"
    unfolding supported_def by blast
  show "\<exists>fp' c'. fingerprint_pattern fp' = Some i \<and>
      map_of (AList.update fp c supps) fp' = Some c' \<and> s \<le> c'"
  proof (cases "fp' = fp")
    case True
    with w assms(2) have "s \<le> c" by (auto simp: entry_count_def)
    with w True show ?thesis by (intro exI [of _ fp'] exI [of _ c]) simp
  next
    case False
    with w show ?thesis by (intro exI [of _ fp'] exI [of _ c']) simp
  qed
qed

lemma supported_promote:
  assumes "supported t supps proms" and "fingerprint_pattern fp = Some i"
    and "map_of supps fp = Some c" and "promotion_threshold t i \<le> c"
  shows "supported t supps (AList.update i c proms)"
  using assms by (auto simp: supported_def)

text \<open>Saving keeps the invariant: the file holds the current, supported, vectors.\<close>

lemma save_keeps_inv:
  assumes "faithful_codec env" and "discovery_inv env w"
  shows "discovery_inv env (save_to_disk env reason w)"
  using save_to_disk_disk [of env reason w]
proof
  assume "dw_disk (save_to_disk env reason w) = dw_disk w"
  with assms(2) show ?thesis by (simp add: discovery_inv_def Let_def)
next
  assume "\<exists>raw. dw_disk (save_to_disk env reason w) = Some raw \<and>
      env_encode env \<lparr> ps_supports = ids_supports (dw_state w),
                       ps_promoted = ids_promoted (dw_state w) \<rparr> = Some raw"
  then obtain raw where raw: "dw_disk (save_to_disk env reason w) = Some raw"
      "env_decode env raw = Some \<lparr> ps_supports = ids_supports (dw_state w),
                       ps_promoted = ids_promoted (dw_state w) \<rparr>"
    using assms(1) by (auto simp: faithful_codec_def)
  with assms(2) show ?thesis
    by (auto simp: discovery_inv_def Let_def disk_supported_def map_of_collect_distinct
        cong: supported_cong)
qed

lemma observe_keeps_inv:
  assumes "faithful_codec env" and "discovery_inv env w"
  shows "discovery_inv env (snd (observe_failure_fingerprint env fp w))"
proof (cases "fingerprint_pattern fp")
  case None
  with assms(2) show ?thesis by (simp add: observe_failure_fingerprint_def)
next
  case (Some i)
  let ?st = "dw_state w"
  let ?c = "saturating_add (entry_count (ids_supports ?st) fp) 1"
  let ?w1 = "w\<lparr>dw_state := ?st\<lparr>ids_supports := AList.update fp ?c (ids_supports ?st)\<rparr>\<rparr>"
  let ?w2 = "save_to_disk env ''support_observed'' ?w1"
  have inv1: "discovery_inv env ?w1"
    using assms(2) saturating_add_mono [of "entry_count (ids_supports ?st) fp"]
    by (auto simp: discovery_inv_def Let_def distinct_update supported_observe)
  have inv2: "discovery_inv env ?w2"
    by (rule save_keeps_inv [OF assms(1) inv1])
  let ?w3 = "?w2\<lparr>dw_state := (dw_state ?w2)
      \<lparr>ids_promoted := AList.update i ?c (ids_promoted (dw_state ?w2)),
       ids_negative_evidence := AList.delete i (ids_negative_evidence (dw_state ?w2))\<rparr>\<rparr>"
  have inv3: "\<not> ?c < promotion_threshold (ids_threshold ?st) i \<Longrightarrow> discovery_inv env ?w3"
    using inv2 Some supported_promote [of _ _ _ fp i ?c]
    by (auto simp: discovery_inv_def Let_def distinct_update not_less)
  show ?thesis
    using Some inv2 save_keeps_inv [OF assms(1) inv3]
    by (auto simp: observe_failure_fingerprint_def Let_def)
qed

lemma negative_keeps_inv:
  assumes "faithful_codec env" and "discovery_inv env w"
  shows "discovery_inv env (record_negative_evidence env i w)"
proof -
  let ?st = "dw_state w"
  let ?n = "saturating_add (entry_count (ids_negative_evidence ?st) i) 1"
  let ?st1 = "?st\<lparr>ids_negative_evidence := AList.update i ?n (ids_negative_evidence ?st)\<rparr>"
  have keep: "discovery_inv env (w\<lparr>dw_state := ?st1\<rparr>)"
    using assms(2) by (simp add: discovery_inv_def Let_def)
  have drop: "discovery_inv env
      (w\<lparr>dw_state := ?st1\<lparr>ids_promoted := AList.delete i (ids_promoted ?st1),
          ids_negative_evidence := AList.delete i (ids_negative_evidence ?st1)\<rparr>\<rparr>)"
    using assms(2) by (simp add: discovery_inv_def Let_def supported_delete distinct_delete)
  show ?thesis
    unfolding record_negative_evidence_def Let_def
    using keep save_keeps_inv [OF assms(1) drop] by simp
qed

lemma reload_keeps_inv:
  assumes "discovery_inv env w"
  shows "discovery_inv env (reload_discovered_invariants_from_disk env w)"
  using assms load_from_disk_cases [of env "w\<lparr>dw_state := \<lparr> ids_threshold = ids_threshold (dw_state w),
      ids_supports = [], ids_promoted = [], ids_negative_evidence = [] \<rparr>\<rparr>"]
  by (auto simp: reload_discovered_invariants_from_disk_def discovery_inv_def Let_def
      distinct_collect disk_supported_def)

lemma clear_keeps_inv:
  "discovery_inv env w \<Longrightarrow> discovery_inv env (clear_discovered_invariants_store env w)"
  by (auto simp: clear_discovered_invariants_store_def discovery_inv_def Let_def
      disk_supported_def split: option.split)

lemma drain_keeps_inv:
  "discovery_inv env w \<Longrightarrow> discovery_inv env (snd (drain_persisted_store_events w))"
  by (simp add: drain_persisted_store_events_def discovery_inv_def Let_def)

lemma discovery_step_keeps_inv:
  "faithful_codec env \<Longrightarrow> discovery_inv env w \<Longrightarrow> discovery_inv env (discovery_step env w e)"
  by (cases e) (simp_all add: observe_keeps_inv negative_keeps_inv reload_keeps_inv
      clear_keeps_inv drain_keeps_inv)

lemma discovery_init_inv: "discovery_init env w \<Longrightarrow> discovery_inv env w"
  using load_from_disk_cases
  by (auto simp: discovery_init_def with_threshold_def discovery_inv_def Let_def load_from_disk_def
      disk_supported_def split: option.splits)

interpretation disc: event_machine "discovery_init env" "discovery_step env"
    "\<lambda>w. faithful_codec env \<longrightarrow> discovery_inv env w" for env
  by unfold_locales (auto intro: discovery_init_inv discovery_step_keeps_inv)

section \<open>Effects of the operations\<close>

lemma observe_support:
  assumes "fingerprint_pattern fp = Some i"
  shows "entry_count (ids_supports (dw_state (snd (observe_failure_fingerprint env fp w)))) fp =
     saturating_add (entry_count (ids_supports (dw_state w)) fp) 1"
  using assms by (simp add: observe_failure_fingerprint_def Let_def entry_count_def)

lemma observe_threshold [simp]:
  "ids_threshold (dw_state (snd (observe_failure_fingerprint env fp w))) =
   ids_threshold (dw_state w)"
  by (simp add: observe_failure_fingerprint_def Let_def split: option.split)

lemma observe_promotes:
  assumes "fingerprint_pattern fp = Some i"
    and "promotion_threshold (ids_threshold (dw_state w)) i
         \<le> saturating_add (entry_count (ids_supports (dw_state w)) fp) 1"
  shows "map_of (ids_promoted (dw_state (snd (observe_failure_fingerprint env fp w)))) i =
     Some (saturating_add (entry_count (ids_supports (dw_state w)) fp) 1)"
  using assms by (simp add: observe_failure_fingerprint_def Let_def not_less [symmetric])

abbreviation observes :: "StoreEnv \<Rightarrow> FailureFingerprint \<Rightarrow> nat \<Rightarrow> DiscoveryWorld \<Rightarrow> DiscoveryWorld" where
  "observes env fp n w \<equiv> ((\<lambda>w. snd (observe_failure_fingerprint env fp w)) ^^ n) w"

lemma observes_threshold [simp]:
  "ids_threshold (dw_state (observes env fp n w)) = ids_threshold (dw_state w)"
  by (induction n) simp_all

lemma observes_support:
  assumes "fingerprint_pattern fp = Some i" and "n < 2 ^ 32"
  shows "n \<le> unat (entry_count (ids_supports (dw_state (observes env fp n w))) fp)"
  using assms(2)
proof (induction n)
  case 0
  then show ?case by simp
next
  case (Suc n)
  then have "n \<le> unat (entry_count (ids_supports (dw_state (observes env fp n w))) fp)" by simp
  with Suc.prems show ?case
    by (simp add: observe_support [OF assms(1)] unat_saturating_add)
qed

lemma negative_supports [simp]:
  "ids_supports (dw_state (record_negative_evidence env i w)) = ids_supports (dw_state w)"
  "ids_threshold (dw_state (record_negative_evidence env i w)) = ids_threshold (dw_state w)"
  by (simp_all add: record_negative_evidence_def Let_def)

abbreviation negatives :: "StoreEnv \<Rightarrow> DiscoveredInvariant \<Rightarrow> nat \<Rightarrow> DiscoveryWorld \<Rightarrow> DiscoveryWorld" where
  "negatives env i n w \<equiv> (record_negative_evidence env i ^^ n) w"

lemma negatives_supports [simp]:
  "ids_supports (dw_state (negatives env i n w)) = ids_supports (dw_state w)"
  "ids_threshold (dw_state (negatives env i n w)) = ids_threshold (dw_state w)"
  by (induction n) simp_all

lemma negative_never_promotes:
  "map_of (ids_promoted (dw_state w)) i = None \<Longrightarrow>
   map_of (ids_promoted (dw_state (record_negative_evidence env j w))) i = None"
  by (simp add: record_negative_evidence_def Let_def)

text \<open>Each report either counts one more, or demotes.\<close>

lemma negative_demotes:
  "3 \<le> saturating_add (entry_count (ids_negative_evidence (dw_state w)) i) 1 \<Longrightarrow>
   map_of (ids_promoted (dw_state (record_negative_evidence env i w))) i = None"
  by (simp add: record_negative_evidence_def Let_def)

lemma negative_counts:
  assumes "\<not> 3 \<le> saturating_add (entry_count (ids_negative_evidence (dw_state w)) i) 1"
  shows "unat (entry_count (ids_negative_evidence (dw_state (record_negative_evidence env i w))) i) =
     Suc (unat (entry_count (ids_negative_evidence (dw_state w)) i)) \<and>
   unat (entry_count (ids_negative_evidence (dw_state (record_negative_evidence env i w))) i) < 3"
proof -
  let ?c = "saturating_add (entry_count (ids_negative_evidence (dw_state w)) i) 1"
  have eq: "entry_count (ids_negative_evidence (dw_state (record_negative_evidence env i w))) i = ?c"
    using assms by (simp add: record_negative_evidence_def Let_def entry_count_def)
  have lt: "unat ?c < 3"
    using assms word_less_nat_alt [of ?c 3] by (simp add: linorder_not_le)
  then have "unat ?c = Suc (unat (entry_count (ids_negative_evidence (dw_state w)) i))"
    by (simp add: unat_saturating_add min_def split: if_splits)
  with eq lt show ?thesis by simp
qed

lemma negatives_count:
  "map_of (ids_promoted (dw_state (negatives env i n w))) i = None \<or>
   n \<le> unat (entry_count (ids_negative_evidence (dw_state (negatives env i n w))) i)"
proof (induction n)
  case 0
  then show ?case by simp
next
  case (Suc n)
  define v where "v = negatives env i n w"
  have step: "negatives env i (Suc n) w = record_negative_evidence env i v"
    by (simp add: v_def)
  show ?case
    unfolding step
    using Suc [folded v_def] negative_never_promotes [of v i env i] negative_demotes [of v i env]
      negative_counts [of v i env]
    by linarith
qed

lemma three_negatives_demote: "map_of (ids_promoted (dw_state (negatives env i 3 w))) i = None"
proof -
  define v where "v = negatives env i 2 w"
  have step: "negatives env i 3 w = record_negative_evidence env i v"
    by (simp add: v_def numeral_3_eq_3 numeral_2_eq_2)
  show ?thesis
    using negatives_count [where env = env and i = i and n = 3 and w = w] negative_demotes [of v i env] negative_counts [of v i env]
    unfolding step by linarith
qed

section \<open>Properties\<close>

text \<open>C16: In every state the process can reach from an empty store, by any interleaving of failure
  observations, negative evidence, store reloads, store clears and event drains, each promoted
  invariant carries a support count of at least its promotion threshold, and that count is
  backed by a recorded fingerprint whose pattern is this invariant. The serialiser is assumed
  to read back what it wrote.\<close>

theorem promoted_invariants_are_supported:
  assumes "faithful_codec env" and "discovery_init env w"
    and "map_of (ids_promoted (dw_state (foldl (discovery_step env) w es))) i = Some s"
  shows "promotion_threshold (ids_threshold (dw_state (foldl (discovery_step env) w es))) i \<le> s \<and>
    (\<exists>fp c. fingerprint_pattern fp = Some i \<and>
       map_of (ids_supports (dw_state (foldl (discovery_step env) w es))) fp = Some c \<and> s \<le> c)"
proof -
  have "discovery_inv env (foldl (discovery_step env) w es)"
    using disc.run_inv [OF assms(2)] assms(1) by blast
  with assms(3) show ?thesis
    unfolding discovery_inv_def Let_def supported_def by blast
qed

definition sample_env :: StoreEnv where
  "sample_env = \<lparr> env_path = None, env_dir_ready = True, env_write_ok = True,
                  env_encode = \<lambda>_. None, env_decode = \<lambda>_. None \<rparr>"

definition sample_world :: DiscoveryWorld where
  "sample_world = with_threshold sample_env None
     \<lparr> dw_state = \<lparr> ids_threshold = 0, ids_supports = [], ids_promoted = [],
                    ids_negative_evidence = [] \<rparr>, dw_events = [], dw_disk = None \<rparr>"

definition sample_fp :: FailureFingerprint where
  "sample_fp = fp_route_rewrite R_Observe default_constraint_state"

lemmas sample_simps = sample_env_def sample_world_def sample_fp_def fp_route_rewrite_def
  default_constraint_state_def with_threshold_def load_from_disk_def save_to_disk_def
  observe_failure_fingerprint_def fingerprint_pattern_def entry_count_def saturating_add_def
  promotion_threshold_def Let_def

lemma sample_world_init: "discovery_init sample_env sample_world"
  unfolding discovery_init_def sample_world_def by (intro exI conjI) simp_all

lemma sample_env_faithful: "faithful_codec sample_env"
  by (simp add: faithful_codec_def sample_env_def)

lemma sample_run_promotes:
  "map_of (ids_promoted (dw_state (foldl (discovery_step sample_env) sample_world
     [ObserveFailure sample_fp, ObserveFailure sample_fp, ObserveFailure sample_fp])))
     ForcePlanWhenMissingTarget = Some 3"
  by (simp add: sample_simps)

theorem promoted_invariants_are_supported_witness:
  "\<exists>fp c. fingerprint_pattern fp = Some ForcePlanWhenMissingTarget \<and>
     map_of (ids_supports (dw_state (foldl (discovery_step sample_env) sample_world
       [ObserveFailure sample_fp, ObserveFailure sample_fp, ObserveFailure sample_fp]))) fp
       = Some c \<and> 3 \<le> c"
  using promoted_invariants_are_supported
    [OF sample_env_faithful sample_world_init sample_run_promotes]
  by blast

text \<open>Promotion is live: observing the same matching fingerprint as often as the promotion
  threshold says promotes its invariant, from any state of the store.\<close>

theorem repeated_failure_is_promoted:
  assumes "fingerprint_pattern fp = Some i"
    and "unat (promotion_threshold (ids_threshold (dw_state w)) i) \<le> Suc n"
    and "Suc n < 2 ^ 32"
  shows "map_of (ids_promoted (dw_state (observes env fp (Suc n) w))) i \<noteq> None"
proof -
  have "n \<le> unat (entry_count (ids_supports (dw_state (observes env fp n w))) fp)"
    using assms(1,3) by (intro observes_support) simp_all
  then have "promotion_threshold (ids_threshold (dw_state w)) i
      \<le> saturating_add (entry_count (ids_supports (dw_state (observes env fp n w))) fp) 1"
    using assms(2,3) by (simp add: word_le_nat_alt unat_saturating_add)
  then show ?thesis
    using observe_promotes [OF assms(1), of "observes env fp n w" env] by simp
qed

theorem repeated_failure_is_promoted_witness:
  "map_of (ids_promoted (dw_state (observes sample_env sample_fp (Suc 2) sample_world)))
     ForcePlanWhenMissingTarget \<noteq> None"
proof (rule repeated_failure_is_promoted)
  show "fingerprint_pattern sample_fp = Some ForcePlanWhenMissingTarget"
    by (simp add: sample_simps)
qed (simp_all add: promotion_threshold_def)

text \<open>Three reports of negative evidence demote an invariant, from any state; but the supports
  are kept, so an invariant whose fingerprint is already past its threshold is promoted again by
  the next single observation, no matter how much negative evidence was recorded.\<close>

theorem demotion_is_prompt_but_not_sticky:
  "map_of (ids_promoted (dw_state (negatives env i 3 w))) i = None \<and>
   (fingerprint_pattern fp = Some i \<longrightarrow>
    promotion_threshold (ids_threshold (dw_state w)) i \<le> entry_count (ids_supports (dw_state w)) fp \<longrightarrow>
    map_of (ids_promoted (dw_state
      (snd (observe_failure_fingerprint env fp (negatives env i n w))))) i \<noteq> None)"
proof (intro conjI impI)
  show "map_of (ids_promoted (dw_state (negatives env i 3 w))) i = None"
    by (rule three_negatives_demote)
next
  assume fp: "fingerprint_pattern fp = Some i"
    and "promotion_threshold (ids_threshold (dw_state w)) i \<le> entry_count (ids_supports (dw_state w)) fp"
  then have "promotion_threshold (ids_threshold (dw_state (negatives env i n w))) i
      \<le> saturating_add (entry_count (ids_supports (dw_state (negatives env i n w))) fp) 1"
    using saturating_add_mono order_trans by (simp, blast)
  then show "map_of (ids_promoted (dw_state
      (snd (observe_failure_fingerprint env fp (negatives env i n w))))) i \<noteq> None"
    using observe_promotes [OF fp] by simp
qed

theorem demotion_is_prompt_but_not_sticky_witness:
  "map_of (ids_promoted (dw_state (snd (observe_failure_fingerprint sample_env sample_fp
     (negatives sample_env ForcePlanWhenMissingTarget 5
       (observes sample_env sample_fp 3 sample_world)))))) ForcePlanWhenMissingTarget \<noteq> None"
proof -
  have "fingerprint_pattern sample_fp = Some ForcePlanWhenMissingTarget"
    by (simp add: sample_simps)
  moreover have "promotion_threshold (ids_threshold (dw_state
      (observes sample_env sample_fp 3 sample_world))) ForcePlanWhenMissingTarget
      \<le> entry_count (ids_supports (dw_state (observes sample_env sample_fp 3 sample_world))) sample_fp"
    using observes_support [OF calculation, of 3]
    by (simp add: promotion_threshold_def word_le_nat_alt)
  ultimately show ?thesis
    using demotion_is_prompt_but_not_sticky by blast
qed

text \<open>C17: Persistence is a round trip: a state that was just saved (path configured, directory and
  file writable, serialiser faithful) is restored by a reload with the same supports and
  promotions; negative evidence is not persisted and starts again from nothing.\<close>

theorem save_then_reload_restores:
  assumes "faithful_codec env" and "env_path env = Some path" and "env_dir_ready env"
    and "env_write_ok env"
    and "env_encode env \<lparr> ps_supports = ids_supports (dw_state w),
                          ps_promoted = ids_promoted (dw_state w) \<rparr> = Some raw"
    and "distinct (map fst (ids_supports (dw_state w)))"
    and "distinct (map fst (ids_promoted (dw_state w)))"
  shows "let st = dw_state (reload_discovered_invariants_from_disk env (save_to_disk env reason w))
     in map_of (ids_supports st) = map_of (ids_supports (dw_state w)) \<and>
        map_of (ids_promoted st) = map_of (ids_promoted (dw_state w)) \<and>
        ids_threshold st = ids_threshold (dw_state w) \<and> ids_negative_evidence st = []"
proof -
  have "env_decode env raw = Some \<lparr> ps_supports = ids_supports (dw_state w),
                          ps_promoted = ids_promoted (dw_state w) \<rparr>"
    using assms(1,5) by (simp add: faithful_codec_def)
  with assms show ?thesis
    by (simp add: reload_discovered_invariants_from_disk_def save_to_disk_def load_from_disk_def
        record_persisted_store_event_def Let_def map_of_collect_distinct)
qed

text \<open>A codec for stores with at most one promotion, enough to run the round trip.\<close>

definition tiny_env :: StoreEnv where
  "tiny_env = \<lparr> env_path = Some ''store.json'', env_dir_ready = True, env_write_ok = True,
     env_encode = \<lambda>p. if p = \<lparr> ps_supports = [], ps_promoted = [(ForcePlanWhenMissingTarget, 3)] \<rparr>
                      then Some ''p3'' else None,
     env_decode = \<lambda>raw. if raw = ''p3''
        then Some \<lparr> ps_supports = [], ps_promoted = [(ForcePlanWhenMissingTarget, 3)] \<rparr> else None \<rparr>"

theorem save_then_reload_restores_witness:
  "map_of (ids_promoted (dw_state (reload_discovered_invariants_from_disk tiny_env
     (save_to_disk tiny_env ''promotion''
       \<lparr> dw_state = \<lparr> ids_threshold = 3, ids_supports = [],
                      ids_promoted = [(ForcePlanWhenMissingTarget, 3)],
                      ids_negative_evidence = [(ForcePlanWhenMissingTarget, 1)] \<rparr>,
         dw_events = [], dw_disk = None \<rparr>)))) ForcePlanWhenMissingTarget = Some 3"
proof -
  let ?w = "\<lparr> dw_state = \<lparr> ids_threshold = 3, ids_supports = [],
                      ids_promoted = [(ForcePlanWhenMissingTarget, 3)],
                      ids_negative_evidence = [(ForcePlanWhenMissingTarget, 1)] \<rparr>,
         dw_events = [], dw_disk = None \<rparr>"
  have "faithful_codec tiny_env"
    by (simp add: faithful_codec_def tiny_env_def)
  then show ?thesis
    using save_then_reload_restores [of tiny_env "''store.json''" ?w "''p3''" "''promotion''"]
    by (simp add: tiny_env_def Let_def)
qed

text \<open>The verdict of the discovered invariants is \<open>Allow\<close> or nothing, never a forbid or a
  rewrite, needs an actionable failure, and does not depend on the order in which the hash map
  of promoted invariants is iterated.\<close>

theorem discovered_verdict_only_allows:
  "evaluate_discovered_invariants w ctx =
     (if cs_actionable_failure (ctx_state ctx) \<and>
         (\<exists>i \<in> set (discovered_invariants w). discovered_fires ctx i)
      then Some Allow else None)"
proof -
  have "evaluate_discovered_loop ctx is =
      (if \<exists>i \<in> set is. discovered_fires ctx i then Some Allow else None)" for "is"
    by (induction "is") auto
  then show ?thesis by (simp add: evaluate_discovered_invariants_def)
qed

end
