(* ===== verification/Request_Lifecycle.thy ===== *)
theory Request_Lifecycle
  imports Canon_Prelude
begin

text \<open>
  The request lifecycle harness (\<^verbatim>\<open>canon-invariant/src/request_lifecycle_harness.rs\<close>): what is
  known of one outstanding request to the language model is a record of flags, projected from
  an observation of the artifact store and the event log; the decision function says whether
  to wait, to accept a result or a failure, or that the lifecycle was violated. A second
  decision function covers a sequence of retries. The seed space enumerates ten bits.
\<close>

section \<open>Data\<close>

record RequestLifecycleState =
  rl_pending_request :: bool
  rl_artifact_pending :: bool
  rl_artifact_finalized :: bool
  rl_completed_received :: bool
  rl_failed_received :: bool
  rl_matched_request_id :: bool
  rl_payload_metadata_only :: bool
  rl_payload_valid_actions :: bool
  rl_timeout_elapsed :: bool
  rl_duplicate_terminal_event :: bool

datatype RequestLifecycleDecision =
    RL_Suppress string
  | Await
  | AcceptCompleted
  | AcceptSalvagedCompleted
  | IgnoreMetadataOnly
  | AcceptFailure
  | RL_InvariantViolation string

fun rl_decision_as_str :: "RequestLifecycleDecision \<Rightarrow> string" where
  "rl_decision_as_str (RL_Suppress reason) = reason"
| "rl_decision_as_str Await = ''await''"
| "rl_decision_as_str AcceptCompleted = ''accept_completed''"
| "rl_decision_as_str AcceptSalvagedCompleted = ''accept_salvaged_completed''"
| "rl_decision_as_str IgnoreMetadataOnly = ''ignore_metadata_only''"
| "rl_decision_as_str AcceptFailure = ''accept_failure''"
| "rl_decision_as_str (RL_InvariantViolation reason) = reason"

record SyntheticRequestLifecycleMetrics =
  rm_states_explored :: nat
  rm_suppressed :: nat
  rm_awaiting :: nat
  rm_accepted_completed :: nat
  rm_accepted_salvaged_completed :: nat
  rm_ignored_metadata_only :: nat
  rm_accepted_failures :: nat
  rm_invariant_violations :: nat

record RequestLifecycleObservation =
  ro_request_dispatched :: bool
  ro_artifact_status_pending :: bool
  ro_artifact_status_failed :: bool
  ro_artifact_finalized :: bool
  ro_completed_received :: bool
  ro_failed_received :: bool
  ro_matched_request_id :: bool
  ro_payload_metadata_only :: bool
  ro_payload_valid_actions :: bool
  ro_timeout_elapsed :: bool
  ro_duplicate_terminal_event :: bool

record RetrySequenceObservation =
  rs_attempts_dispatched :: u8
  rs_current_attempt_pending :: bool
  rs_prior_attempt_completed_valid :: bool
  rs_prior_attempt_metadata_only :: bool
  rs_current_attempt_completed_valid :: bool
  rs_current_attempt_failed :: bool
  rs_timeout_elapsed :: bool
  rs_duplicate_terminal_event :: bool

datatype RetrySequenceDecision =
    RS_Suppress string
  | AwaitCurrentAttempt
  | AcceptCurrentAttempt
  | AcceptPriorSalvagedAttempt
  | IgnorePriorMetadataOnly
  | AcceptFailedCurrentAttempt
  | RS_InvariantViolation string

fun retry_decision_as_str :: "RetrySequenceDecision \<Rightarrow> string" where
  "retry_decision_as_str (RS_Suppress reason) = reason"
| "retry_decision_as_str AwaitCurrentAttempt = ''await_current_attempt''"
| "retry_decision_as_str AcceptCurrentAttempt = ''accept_current_attempt''"
| "retry_decision_as_str AcceptPriorSalvagedAttempt = ''accept_prior_salvaged_attempt''"
| "retry_decision_as_str IgnorePriorMetadataOnly = ''ignore_prior_metadata_only''"
| "retry_decision_as_str AcceptFailedCurrentAttempt = ''accept_failed_current_attempt''"
| "retry_decision_as_str (RS_InvariantViolation reason) = reason"

section \<open>Decisions\<close>

definition project_request_lifecycle_observation ::
  "RequestLifecycleObservation \<Rightarrow> RequestLifecycleState" where
  "project_request_lifecycle_observation ob =
     \<lparr> rl_pending_request = ro_request_dispatched ob,
       rl_artifact_pending = ro_artifact_status_pending ob,
       rl_artifact_finalized = (ro_artifact_finalized ob \<or> ro_artifact_status_failed ob),
       rl_completed_received = ro_completed_received ob,
       rl_failed_received = ro_failed_received ob,
       rl_matched_request_id = ro_matched_request_id ob,
       rl_payload_metadata_only = ro_payload_metadata_only ob,
       rl_payload_valid_actions = ro_payload_valid_actions ob,
       rl_timeout_elapsed = ro_timeout_elapsed ob,
       rl_duplicate_terminal_event = ro_duplicate_terminal_event ob \<rparr>"

definition retry_timeout_reason :: string where
  "retry_timeout_reason = ''retry_sequence_timeout_without_terminal_current_attempt''"

text \<open>The second half of the retry decision, reached when the metadata-only block falls through.\<close>

definition evaluate_current_attempt :: "RetrySequenceObservation \<Rightarrow> RetrySequenceDecision" where
  "evaluate_current_attempt ob =
     (if rs_current_attempt_completed_valid ob then AcceptCurrentAttempt
      else if rs_current_attempt_failed ob then AcceptFailedCurrentAttempt
      else if rs_timeout_elapsed ob \<and> rs_current_attempt_pending ob
        then RS_InvariantViolation retry_timeout_reason
      else if rs_current_attempt_pending ob then AwaitCurrentAttempt
      else RS_Suppress ''retry_sequence_idle'')"

definition evaluate_retry_sequence :: "RetrySequenceObservation \<Rightarrow> RetrySequenceDecision" where
  "evaluate_retry_sequence ob =
     (if rs_attempts_dispatched ob = 0 then RS_Suppress ''no_attempts_dispatched''
      else if rs_duplicate_terminal_event ob
        then RS_InvariantViolation ''retry_sequence_duplicate_terminal_event''
      else if rs_prior_attempt_completed_valid ob \<and> rs_current_attempt_completed_valid ob
        then RS_InvariantViolation ''retry_sequence_multiple_valid_completions''
      else if rs_prior_attempt_completed_valid ob then AcceptPriorSalvagedAttempt
      else if rs_prior_attempt_metadata_only ob then
        (if rs_current_attempt_completed_valid ob then AcceptCurrentAttempt
         else if rs_current_attempt_failed ob then AcceptFailedCurrentAttempt
         else if rs_current_attempt_pending ob then IgnorePriorMetadataOnly
         else if rs_timeout_elapsed ob then RS_InvariantViolation retry_timeout_reason
         else evaluate_current_attempt ob)
      else evaluate_current_attempt ob)"

definition evaluate_request_lifecycle_state ::
  "RequestLifecycleState \<Rightarrow> RequestLifecycleDecision" where
  "evaluate_request_lifecycle_state s =
     (if \<not> rl_pending_request s then RL_Suppress ''idle''
      else if rl_completed_received s \<and> rl_failed_received s
        then RL_InvariantViolation ''multiple_terminal_results_for_same_request''
      else if rl_duplicate_terminal_event s \<and> (rl_completed_received s \<or> rl_failed_received s)
        then RL_InvariantViolation ''duplicate_terminal_event''
      else if rl_artifact_finalized s \<and> \<not> rl_completed_received s \<and> \<not> rl_failed_received s
        then RL_InvariantViolation ''artifact_finalized_without_terminal_event''
      else if rl_completed_received s then
        (if \<not> rl_artifact_finalized s
           then RL_InvariantViolation ''completed_without_artifact_finalization''
         else if rl_payload_metadata_only s \<and> rl_payload_valid_actions s
           then RL_InvariantViolation ''metadata_only_payload_cannot_also_be_valid_actions''
         else if rl_payload_valid_actions s then
           (if rl_matched_request_id s then AcceptCompleted else AcceptSalvagedCompleted)
         else if rl_payload_metadata_only s then IgnoreMetadataOnly
         else RL_InvariantViolation ''completed_without_actionable_payload'')
      else if rl_failed_received s then
        (if \<not> rl_artifact_finalized s
           then RL_InvariantViolation ''failed_without_artifact_finalization''
         else AcceptFailure)
      else if rl_timeout_elapsed s then
        (if rl_artifact_pending s \<or> \<not> rl_artifact_finalized s
           then RL_InvariantViolation ''timeout_must_finalize_request''
         else AcceptFailure)
      else Await)"

section \<open>Seed space and metrics\<close>

definition request_state_of_bits :: "u16 \<Rightarrow> RequestLifecycleState" where
  "request_state_of_bits bits =
     \<lparr> rl_pending_request = bit_set bits 0,
       rl_artifact_pending = bit_set bits 1,
       rl_artifact_finalized = bit_set bits 2,
       rl_completed_received = bit_set bits 3,
       rl_failed_received = bit_set bits 4,
       rl_matched_request_id = bit_set bits 5,
       rl_payload_metadata_only = bit_set bits 6,
       rl_payload_valid_actions = bit_set bits 7,
       rl_timeout_elapsed = bit_set bits 8,
       rl_duplicate_terminal_event = bit_set bits 9 \<rparr>"

text \<open>The five \<^verbatim>\<open>continue\<close> guards.\<close>

definition request_seed_ok :: "RequestLifecycleState \<Rightarrow> bool" where
  "request_seed_ok s \<longleftrightarrow>
     \<not> (\<not> rl_pending_request s \<and> (rl_artifact_pending s \<or> rl_artifact_finalized s \<or>
          rl_completed_received s \<or> rl_failed_received s \<or> rl_timeout_elapsed s)) \<and>
     \<not> (rl_artifact_pending s \<and> rl_artifact_finalized s) \<and>
     \<not> (\<not> rl_completed_received s \<and> (rl_matched_request_id s \<or> rl_payload_metadata_only s \<or>
          rl_payload_valid_actions s)) \<and>
     \<not> (rl_failed_received s \<and> (rl_payload_metadata_only s \<or> rl_payload_valid_actions s)) \<and>
     \<not> (rl_completed_received s \<and> rl_failed_received s \<and> \<not> rl_duplicate_terminal_event s)"

definition synthetic_request_lifecycle_seed_space :: "RequestLifecycleState list" where
  "synthetic_request_lifecycle_seed_space =
     filter request_seed_ok (map (\<lambda>n. request_state_of_bits (of_nat n)) [0..<2 ^ 10])"

definition count_request_state ::
  "RequestLifecycleState \<Rightarrow> SyntheticRequestLifecycleMetrics \<Rightarrow> SyntheticRequestLifecycleMetrics" where
  "count_request_state s m =
     (let m1 = m\<lparr>rm_states_explored := rm_states_explored m + 1\<rparr> in
      case evaluate_request_lifecycle_state s of
        RL_Suppress _ \<Rightarrow> m1\<lparr>rm_suppressed := rm_suppressed m1 + 1\<rparr>
      | Await \<Rightarrow> m1\<lparr>rm_awaiting := rm_awaiting m1 + 1\<rparr>
      | AcceptCompleted \<Rightarrow> m1\<lparr>rm_accepted_completed := rm_accepted_completed m1 + 1\<rparr>
      | AcceptSalvagedCompleted \<Rightarrow>
          m1\<lparr>rm_accepted_salvaged_completed := rm_accepted_salvaged_completed m1 + 1\<rparr>
      | IgnoreMetadataOnly \<Rightarrow> m1\<lparr>rm_ignored_metadata_only := rm_ignored_metadata_only m1 + 1\<rparr>
      | AcceptFailure \<Rightarrow> m1\<lparr>rm_accepted_failures := rm_accepted_failures m1 + 1\<rparr>
      | RL_InvariantViolation _ \<Rightarrow> m1\<lparr>rm_invariant_violations := rm_invariant_violations m1 + 1\<rparr>)"

definition no_request_metrics :: SyntheticRequestLifecycleMetrics where
  "no_request_metrics =
     \<lparr> rm_states_explored = 0, rm_suppressed = 0, rm_awaiting = 0, rm_accepted_completed = 0,
       rm_accepted_salvaged_completed = 0, rm_ignored_metadata_only = 0, rm_accepted_failures = 0,
       rm_invariant_violations = 0 \<rparr>"

definition synthetic_request_lifecycle_metrics :: SyntheticRequestLifecycleMetrics where
  "synthetic_request_lifecycle_metrics =
     fold count_request_state synthetic_request_lifecycle_seed_space no_request_metrics"

section \<open>Properties\<close>



text \<open>A dispatched request without a terminal event never resolves by itself: when its timeout has
  elapsed, or its artifact was finalised or marked failed, the observation is an invariant
  violation, and otherwise the harness waits. So a failed artifact that produced no event is
  reported as a violation and not as a failure.\<close>

theorem unanswered_request_waits_or_violates:
  assumes "ro_request_dispatched ob" and "\<not> ro_completed_received ob" and "\<not> ro_failed_received ob"
  shows "evaluate_request_lifecycle_state (project_request_lifecycle_observation ob) =
    (if ro_artifact_finalized ob \<or> ro_artifact_status_failed ob
     then RL_InvariantViolation ''artifact_finalized_without_terminal_event''
     else if ro_timeout_elapsed ob then RL_InvariantViolation ''timeout_must_finalize_request''
     else Await)"
  using assms
  by (simp add: evaluate_request_lifecycle_state_def project_request_lifecycle_observation_def)

theorem unanswered_request_waits_or_violates_witness:
  "evaluate_request_lifecycle_state (project_request_lifecycle_observation
     \<lparr> ro_request_dispatched = True, ro_artifact_status_pending = False,
       ro_artifact_status_failed = True, ro_artifact_finalized = False,
       ro_completed_received = False, ro_failed_received = False, ro_matched_request_id = False,
       ro_payload_metadata_only = False, ro_payload_valid_actions = False,
       ro_timeout_elapsed = True, ro_duplicate_terminal_event = False \<rparr>) =
   RL_InvariantViolation ''artifact_finalized_without_terminal_event''"
  by (subst unanswered_request_waits_or_violates) simp_all

text \<open>In a retry sequence the accepted attempt is unique: a valid completion of a prior attempt is
  accepted exactly when the current one has none, the current one exactly when no prior one has,
  both together are a violation. But after a metadata-only attempt a pending retry is never
  timed out: with the timeout elapsed it is answered as \<open>IgnorePriorMetadataOnly\<close>, while the
  same retry without the metadata-only attempt is a violation.\<close>

theorem retry_acceptance_is_unique_and_timeout_masked:
  assumes "rs_attempts_dispatched ob \<noteq> 0" and "\<not> rs_duplicate_terminal_event ob"
  shows "(evaluate_retry_sequence ob = AcceptPriorSalvagedAttempt \<longleftrightarrow>
            rs_prior_attempt_completed_valid ob \<and> \<not> rs_current_attempt_completed_valid ob) \<and>
         (evaluate_retry_sequence ob = AcceptCurrentAttempt \<longleftrightarrow>
            rs_current_attempt_completed_valid ob \<and> \<not> rs_prior_attempt_completed_valid ob) \<and>
         (rs_timeout_elapsed ob \<and> rs_current_attempt_pending ob \<and>
          \<not> rs_prior_attempt_completed_valid ob \<and> \<not> rs_current_attempt_completed_valid ob \<and>
          \<not> rs_current_attempt_failed ob \<longrightarrow>
            evaluate_retry_sequence ob =
              (if rs_prior_attempt_metadata_only ob then IgnorePriorMetadataOnly
               else RS_InvariantViolation retry_timeout_reason))"
  using assms unfolding evaluate_retry_sequence_def evaluate_current_attempt_def by auto

theorem retry_acceptance_is_unique_and_timeout_masked_witness:
  "evaluate_retry_sequence
     \<lparr> rs_attempts_dispatched = 2, rs_current_attempt_pending = True,
       rs_prior_attempt_completed_valid = False, rs_prior_attempt_metadata_only = True,
       rs_current_attempt_completed_valid = False, rs_current_attempt_failed = False,
       rs_timeout_elapsed = True, rs_duplicate_terminal_event = False \<rparr> = IgnorePriorMetadataOnly"
  using retry_acceptance_is_unique_and_timeout_masked [of
    "\<lparr> rs_attempts_dispatched = 2, rs_current_attempt_pending = True,
       rs_prior_attempt_completed_valid = False, rs_prior_attempt_metadata_only = True,
       rs_current_attempt_completed_valid = False, rs_current_attempt_failed = False,
       rs_timeout_elapsed = True, rs_duplicate_terminal_event = False \<rparr>"]
  by simp

text \<open>The ten bits and the ten flags are in bijection.\<close>

definition bits_of_request_state :: "RequestLifecycleState \<Rightarrow> nat" where
  "bits_of_request_state s =
     horner_sum of_bool 2
       [rl_pending_request s, rl_artifact_pending s, rl_artifact_finalized s,
        rl_completed_received s, rl_failed_received s, rl_matched_request_id s,
        rl_payload_metadata_only s, rl_payload_valid_actions s, rl_timeout_elapsed s,
        rl_duplicate_terminal_event s]"

lemma bits_of_request_state_less: "bits_of_request_state s < 1024"
  using horner_sum_of_bool_2_less [where ?'a = nat and bs = "[rl_pending_request s,
        rl_artifact_pending s, rl_artifact_finalized s, rl_completed_received s,
        rl_failed_received s, rl_matched_request_id s, rl_payload_metadata_only s,
        rl_payload_valid_actions s, rl_timeout_elapsed s, rl_duplicate_terminal_event s]"]
  by (simp only: bits_of_request_state_def) simp

lemma bits_of_request_state_bit:
  "bit (bits_of_request_state s) k \<longleftrightarrow> k < 10 \<and>
     [rl_pending_request s, rl_artifact_pending s, rl_artifact_finalized s,
        rl_completed_received s, rl_failed_received s, rl_matched_request_id s,
        rl_payload_metadata_only s, rl_payload_valid_actions s, rl_timeout_elapsed s,
        rl_duplicate_terminal_event s] ! k"
  unfolding bits_of_request_state_def by (subst bit_horner_sum_bit_iff) (simp add: eval_nat_numeral)

lemma request_state_of_bits_of: "request_state_of_bits (of_nat (bits_of_request_state s)) = s"
  by (simp add: request_state_of_bits_def bit_set_iff bit_of_nat_u16 bits_of_request_state_bit)

lemma request_bits_inj: "inj_on (\<lambda>n. request_state_of_bits (of_nat n)) {0..<1024}"
proof (rule inj_onI)
  fix m n :: nat
  assume mn: "m \<in> {0..<1024}" "n \<in> {0..<1024}"
    and eq: "request_state_of_bits (of_nat m) = request_state_of_bits (of_nat n)"
  have high: "\<not> bit j k" if "j < 1024" "10 \<le> k" for j k :: nat
    using that power_increasing [of 10 k "2::nat"] by (simp add: bit_iff_odd)
  have low: "bit m k = bit n k" if "k \<in> {0, 1, 2, 3, 4, 5, 6, 7, 8, 9}" for k
    using that eq by (auto simp: request_state_of_bits_def bit_set_iff bit_of_nat_u16)
  show "m = n"
  proof (rule bit_eqI)
    fix k :: nat
    show "bit m k = bit n k"
    proof (cases "10 \<le> k")
      case True
      with mn high show ?thesis by auto
    next
      case False
      then have "k \<in> {0, 1, 2, 3, 4, 5, 6, 7, 8, 9}" by force
      then show ?thesis by (rule low)
    qed
  qed
qed

definition rm_classified :: "SyntheticRequestLifecycleMetrics \<Rightarrow> nat" where
  "rm_classified m = rm_suppressed m + rm_awaiting m + rm_accepted_completed m +
     rm_accepted_salvaged_completed m + rm_ignored_metadata_only m + rm_accepted_failures m +
     rm_invariant_violations m"

lemma no_request_metrics_zero:
  "rm_states_explored no_request_metrics = 0" "rm_classified no_request_metrics = 0"
  by (simp_all add: no_request_metrics_def rm_classified_def)

lemma count_request_state_adds:
  "rm_states_explored (count_request_state s m) = rm_states_explored m + 1"
  "rm_classified (count_request_state s m) = rm_classified m + 1"
  by (auto simp: count_request_state_def rm_classified_def Let_def
      split: RequestLifecycleDecision.split)

text \<open>The enumerated seed space holds every admissible request state exactly once and nothing
  else, and the metrics classify each of its states into exactly one bucket.\<close>

theorem request_seed_space_is_exact:
  "count_list synthetic_request_lifecycle_seed_space s = (if request_seed_ok s then 1 else 0) \<and>
   rm_states_explored synthetic_request_lifecycle_metrics =
     length synthetic_request_lifecycle_seed_space \<and>
   rm_classified synthetic_request_lifecycle_metrics =
     rm_states_explored synthetic_request_lifecycle_metrics"
proof -
  let ?xs = "map (\<lambda>n. request_state_of_bits (of_nat n)) [0..<1024]"
  have "distinct ?xs" using request_bits_inj by (simp add: distinct_map)
  moreover have "s \<in> set ?xs"
    using bits_of_request_state_less request_state_of_bits_of
    by (metis atLeastLessThan_iff image_eqI set_map set_upt zero_le)
  ultimately have "count (mset ?xs) s = 1" by (simp add: distinct_count_atmost_1)
  then have one: "count_list synthetic_request_lifecycle_seed_space s =
      (if request_seed_ok s then 1 else 0)"
    by (simp add: synthetic_request_lifecycle_seed_space_def count_mset [symmetric])
  have "rm_states_explored synthetic_request_lifecycle_metrics =
      length synthetic_request_lifecycle_seed_space"
    "rm_classified synthetic_request_lifecycle_metrics =
      length synthetic_request_lifecycle_seed_space"
    using fold_adds [where xs = synthetic_request_lifecycle_seed_space and f = count_request_state
        and c = 1 and m = no_request_metrics and g = rm_states_explored]
      fold_adds [where xs = synthetic_request_lifecycle_seed_space and f = count_request_state
        and c = 1 and m = no_request_metrics and g = rm_classified]
    by (simp_all add: count_request_state_adds synthetic_request_lifecycle_metrics_def
        no_request_metrics_zero)
  with one show ?thesis by simp
qed

end
