(* ===== verification/Event_Wire.thy ===== *)
theory Event_Wire
  imports Canon_Prelude
begin

text \<open>
  The wire format of runtime events (\<^verbatim>\<open>canon-runtime-events/src/wire.rs\<close>): the event kinds
  with their wire names, the two event classes, the control-flow graph \<open>allowed_next\<close>, and
  the event record with its constructors. A constructor that asserts returns an option;
  \<^const>\<open>None\<close> is the panic. An event identifier is its string.
\<close>

section \<open>Event kinds\<close>

datatype EventKind =
    LoopObserved | LoopPlanned | PlanningCompleted | LoopActed | LoopVerified |
    VerifierPolicyUpdated | LoopRewarded | GoodnessSnapshot | InvariantDiscovered | RouteTick |
    RouteSelected | CapabilityInvoked | CapabilityResolved | CapabilityCompleted |
    CapabilityFailed | CapabilityRequested | GoalNodeCreated | GoalNodeRetracted |
    GoalNodeRewritten | GoalEdgeDefined | GoalGraphCheckpointed | GoalSelected | ToolCall |
    ToolResult | ToolBatchSettled | AgentRegistered | SubTaskResult | Cargo | File | Bash |
    Analysis | Llm | RuntimeStarted | RuntimeStateUpdated | PolicyBaselineUpdated |
    SystemConfigLoaded | PromptLoaded | RustcCaptureStarted | RustcGraphArtifactWritten |
    RustcCaptureCompleted | RustcCaptureFailed | NodeReady | NodeStarted | NodeCompleted |
    NodeFailed | Tick | Code | Edit | Debug | ErrorOccurred | SupervisorEvent

datatype EventClass = Control | Effect

fun as_str :: "EventKind \<Rightarrow> string" where
  "as_str LoopObserved = ''loop_observed''"
| "as_str LoopPlanned = ''loop_planned''"
| "as_str PlanningCompleted = ''planning_completed''"
| "as_str LoopActed = ''loop_acted''"
| "as_str LoopVerified = ''loop_verified''"
| "as_str VerifierPolicyUpdated = ''verifier_policy_updated''"
| "as_str LoopRewarded = ''loop_rewarded''"
| "as_str GoodnessSnapshot = ''goodness_snapshot''"
| "as_str InvariantDiscovered = ''invariant_discovered''"
| "as_str RouteTick = ''route_tick''"
| "as_str RouteSelected = ''route_selected''"
| "as_str CapabilityInvoked = ''capability_invoked''"
| "as_str CapabilityResolved = ''capability_resolved''"
| "as_str CapabilityCompleted = ''capability_completed''"
| "as_str CapabilityFailed = ''capability_failed''"
| "as_str CapabilityRequested = ''capability_requested''"
| "as_str GoalNodeCreated = ''goal_node_created''"
| "as_str GoalNodeRetracted = ''goal_node_retracted''"
| "as_str GoalNodeRewritten = ''goal_node_rewritten''"
| "as_str GoalEdgeDefined = ''goal_edge_defined''"
| "as_str GoalGraphCheckpointed = ''goal_graph_checkpointed''"
| "as_str GoalSelected = ''goal_selected''"
| "as_str ToolCall = ''tool_call''"
| "as_str ToolResult = ''tool_result''"
| "as_str ToolBatchSettled = ''tool_batch_settled''"
| "as_str AgentRegistered = ''agent_registered''"
| "as_str SubTaskResult = ''sub_task_result''"
| "as_str Cargo = ''cargo''"
| "as_str File = ''file''"
| "as_str Bash = ''bash''"
| "as_str Analysis = ''analysis''"
| "as_str Llm = ''llm''"
| "as_str RuntimeStarted = ''runtime_started''"
| "as_str RuntimeStateUpdated = ''runtime_state_updated''"
| "as_str PolicyBaselineUpdated = ''policy_baseline_updated''"
| "as_str SystemConfigLoaded = ''system_config_loaded''"
| "as_str PromptLoaded = ''prompt_loaded''"
| "as_str RustcCaptureStarted = ''rustc_capture_started''"
| "as_str RustcGraphArtifactWritten = ''rustc_graph_artifact_written''"
| "as_str RustcCaptureCompleted = ''rustc_capture_completed''"
| "as_str RustcCaptureFailed = ''rustc_capture_failed''"
| "as_str NodeReady = ''node_ready''"
| "as_str NodeStarted = ''node_started''"
| "as_str NodeCompleted = ''node_completed''"
| "as_str NodeFailed = ''node_failed''"
| "as_str Tick = ''tick''"
| "as_str Code = ''code''"
| "as_str Edit = ''edit''"
| "as_str Debug = ''debug''"
| "as_str ErrorOccurred = ''error_occurred''"
| "as_str SupervisorEvent = ''supervisor_event''"

fun event_class :: "EventKind \<Rightarrow> EventClass" where
  "event_class Tick = Control"
| "event_class RouteTick = Control"
| "event_class RouteSelected = Control"
| "event_class LoopObserved = Control"
| "event_class PlanningCompleted = Control"
| "event_class LoopActed = Control"
| "event_class LoopVerified = Control"
| "event_class VerifierPolicyUpdated = Control"
| "event_class LoopRewarded = Control"
| "event_class _ = Effect"

fun allowed_next :: "EventKind \<Rightarrow> EventKind list" where
  "allowed_next Tick = [RouteTick]"
| "allowed_next RouteTick = [RouteSelected, LoopObserved]"
| "allowed_next RouteSelected =
     [LoopObserved, PlanningCompleted, LoopActed, LoopVerified, VerifierPolicyUpdated, LoopRewarded]"
| "allowed_next LoopObserved = [RouteSelected]"
| "allowed_next PlanningCompleted = [RouteSelected]"
| "allowed_next LoopActed = [RouteSelected, LoopVerified]"
| "allowed_next LoopVerified = [VerifierPolicyUpdated]"
| "allowed_next VerifierPolicyUpdated = [LoopRewarded]"
| "allowed_next LoopRewarded = [RouteSelected, LoopObserved]"
| "allowed_next _ = []"

text \<open>The arms of \<^verbatim>\<open>FromStr\<close>, in order; alternatives of one arm are separate rows.\<close>

definition from_str_table :: "(string \<times> EventKind) list" where
  "from_str_table =
    [(''loop_observed'', LoopObserved), (''loop_planned'', LoopPlanned),
     (''planning_completed'', PlanningCompleted), (''loop_acted'', LoopActed),
     (''loop_verified'', LoopVerified), (''verifier_policy_updated'', VerifierPolicyUpdated),
     (''loop_rewarded'', LoopRewarded), (''goodness_snapshot'', GoodnessSnapshot),
     (''route_tick'', RouteTick), (''route_selected'', RouteSelected),
     (''capability_invoked'', CapabilityInvoked), (''capability_resolved'', CapabilityResolved),
     (''capability_completed'', CapabilityCompleted), (''capability_failed'', CapabilityFailed),
     (''capability_requested'', CapabilityRequested), (''goal_node_created'', GoalNodeCreated),
     (''goal_node_retracted'', GoalNodeRetracted), (''goal_node_rewritten'', GoalNodeRewritten),
     (''goal_edge_defined'', GoalEdgeDefined),
     (''goal_graph_checkpointed'', GoalGraphCheckpointed), (''goal_selected'', GoalSelected),
     (''tool_call'', ToolCall), (''tool_result'', ToolResult),
     (''tool_batch_settled'', ToolBatchSettled), (''agent_registered'', AgentRegistered),
     (''sub_task_result'', SubTaskResult), (''cargo'', Cargo), (''file'', File),
     (''bash'', Bash), (''analysis'', Analysis), (''llm'', Llm), (''llm_call'', Llm),
     (''runtime_started'', RuntimeStarted), (''runtime_state_updated'', RuntimeStateUpdated),
     (''runtime_state.updated'', RuntimeStateUpdated),
     (''policy_baseline_updated'', PolicyBaselineUpdated),
     (''system_config_loaded'', SystemConfigLoaded), (''prompt_loaded'', PromptLoaded),
     (''rustc_capture_started'', RustcCaptureStarted),
     (''rustc_graph_artifact_written'', RustcGraphArtifactWritten),
     (''rustc_capture_completed'', RustcCaptureCompleted),
     (''rustc_capture_failed'', RustcCaptureFailed), (''node_ready'', NodeReady),
     (''node_started'', NodeStarted), (''node_completed'', NodeCompleted),
     (''node_failed'', NodeFailed), (''tick'', Tick), (''code'', Code), (''rustc_event'', Code),
     (''edit'', Edit), (''edit_event'', Edit), (''debug'', Debug),
     (''error_occurred'', ErrorOccurred), (''supervisor_event'', SupervisorEvent)]"

definition from_str :: "string \<Rightarrow> EventKind option" where
  "from_str s = map_of from_str_table s"

section \<open>Events\<close>

type_synonym EventId = string

record CanonPayloadMeta =
  pm_file :: string
  pm_line :: u32

record CanonPayload =
  pl_input :: json
  pl_output :: json
  pl_delta :: json
  pl_meta :: CanonPayloadMeta
  pl_data :: json

definition payload_from_data ::
  "json \<Rightarrow> json \<Rightarrow> json \<Rightarrow> CanonPayloadMeta \<Rightarrow> json \<Rightarrow> CanonPayload option" where
  "payload_from_data inp outp dlt meta dat =
     (if json_is_null inp \<or> json_is_null outp \<or> json_is_null dlt then None
      else Some \<lparr> pl_input = inp, pl_output = outp, pl_delta = dlt, pl_meta = meta, pl_data = dat \<rparr>)"

record CanonEvent =
  ev_id :: EventId
  ev_parent_ids :: "EventId list"
  ev_actor :: string
  ev_kind :: EventKind
  ev_ts :: u64
  ev_payload :: CanonPayload
  ev_prev_event_id :: "EventId option"

definition new_event ::
  "EventId \<Rightarrow> EventId list \<Rightarrow> string \<Rightarrow> EventKind \<Rightarrow> u64 \<Rightarrow> CanonPayload \<Rightarrow> bool \<Rightarrow> CanonEvent option" where
  "new_event eid parents actor kind ts payload is_root =
     (if \<not> is_root \<and> parents = [] then None
      else Some \<lparr> ev_id = eid, ev_parent_ids = parents, ev_actor = actor, ev_kind = kind,
                  ev_ts = ts, ev_payload = payload, ev_prev_event_id = None \<rparr>)"

definition event_from_parent ::
  "CanonEvent \<Rightarrow> EventId \<Rightarrow> string \<Rightarrow> EventKind \<Rightarrow> u64 \<Rightarrow> CanonPayload \<Rightarrow> CanonEvent" where
  "event_from_parent parent eid actor kind ts payload =
     \<lparr> ev_id = eid, ev_parent_ids = [ev_id parent], ev_actor = actor, ev_kind = kind,
       ev_ts = ts, ev_payload = payload, ev_prev_event_id = None \<rparr>"

definition new_root_event ::
  "EventId \<Rightarrow> string \<Rightarrow> EventKind \<Rightarrow> u64 \<Rightarrow> CanonPayload \<Rightarrow> CanonEvent" where
  "new_root_event eid actor kind ts payload =
     \<lparr> ev_id = eid, ev_parent_ids = [], ev_actor = actor, ev_kind = kind,
       ev_ts = ts, ev_payload = payload, ev_prev_event_id = None \<rparr>"

section \<open>Properties\<close>

lemma event_class_allowed_next: "k' \<in> set (allowed_next k) \<Longrightarrow> event_class k' = Control"
  by (cases k) auto

lemma allowed_next_control: "allowed_next k \<noteq> [] \<longleftrightarrow> event_class k = Control"
  by (cases k) auto

lemma no_kind_allows_tick: "Tick \<notin> set (allowed_next k)"
  by (cases k) auto

lemma route_tick_only_after_tick: "RouteTick \<in> set (allowed_next k) \<longleftrightarrow> k = Tick"
  by (cases k) auto

lemma loop_rewarded_after:
  "LoopRewarded \<in> set (allowed_next k) \<longleftrightarrow> k \<in> {RouteSelected, VerifierPolicyUpdated}"
  by (cases k) auto

text \<open>The table is the list of wire names in enum order, with the aliases of old logs added.\<close>

fun aliases :: "EventKind \<Rightarrow> string list" where
  "aliases Llm = [''llm_call'']"
| "aliases RuntimeStateUpdated = [''runtime_state.updated'']"
| "aliases Code = [''rustc_event'']"
| "aliases Edit = [''edit_event'']"
| "aliases _ = []"

definition parsed_kinds :: "EventKind list" where
  "parsed_kinds =
     [LoopObserved, LoopPlanned, PlanningCompleted, LoopActed, LoopVerified,
      VerifierPolicyUpdated, LoopRewarded, GoodnessSnapshot, RouteTick,
      RouteSelected, CapabilityInvoked, CapabilityResolved, CapabilityCompleted,
      CapabilityFailed, CapabilityRequested, GoalNodeCreated, GoalNodeRetracted,
      GoalNodeRewritten, GoalEdgeDefined, GoalGraphCheckpointed, GoalSelected, ToolCall,
      ToolResult, ToolBatchSettled, AgentRegistered, SubTaskResult, Cargo, File, Bash,
      Analysis, Llm, RuntimeStarted, RuntimeStateUpdated, PolicyBaselineUpdated,
      SystemConfigLoaded, PromptLoaded, RustcCaptureStarted, RustcGraphArtifactWritten,
      RustcCaptureCompleted, RustcCaptureFailed, NodeReady, NodeStarted, NodeCompleted,
      NodeFailed, Tick, Code, Edit, Debug, ErrorOccurred, SupervisorEvent]"

lemma parsed_kinds_complete: "k \<noteq> InvariantDiscovered \<Longrightarrow> k \<in> set parsed_kinds"
  by (cases k) (simp_all add: parsed_kinds_def)

lemma from_str_table_eq:
  "from_str_table = concat (map (\<lambda>k. (as_str k, k) # map (\<lambda>s. (s, k)) (aliases k)) parsed_kinds)"
  unfolding from_str_table_def parsed_kinds_def
  by (simp only: list.map concat.simps as_str.simps aliases.simps append.simps)

lemma from_str_table_distinct: "distinct (map fst from_str_table)"
  by code_simp

lemma from_str_unknown: "from_str (as_str InvariantDiscovered) = None"
  by code_simp

lemma from_str_as_str:
  "from_str (as_str k) = (if k = InvariantDiscovered then None else Some k)"
proof (cases "k = InvariantDiscovered")
  case True
  then show ?thesis using from_str_unknown by simp
next
  case False
  then have "(as_str k, k) \<in> set from_str_table"
    using parsed_kinds_complete unfolding from_str_table_eq by force
  with False from_str_table_distinct show ?thesis
    by (simp add: from_str_def del: as_str.simps)
qed

text \<open>Wire names round trip: parsing the wire name of a kind gives the kind back, for every kind
  but \<open>InvariantDiscovered\<close>, which \<^verbatim>\<open>FromStr\<close> does not know; so a logged event of that
  kind cannot be read back by name. Wire names are distinct.\<close>

theorem wire_name_round_trip:
  "from_str (as_str k) = (if k = InvariantDiscovered then None else Some k) \<and>
   (as_str k = as_str k' \<longleftrightarrow> k = k')"
proof -
  have parse: "from_str (as_str k) = (if k = InvariantDiscovered then None else Some k)" for k
    by (rule from_str_as_str)
  have "k = k'" if "as_str k = as_str k'"
    using that parse [of k] parse [of k'] by (metis option.distinct(1) option.inject)
  with parse [of k] show ?thesis by blast
qed

end
