(* ===== verification/Segment_Reader.thy ===== *)
theory Segment_Reader
  imports Event_Wire
begin

text \<open>
  Reading of binary log segments (\<^verbatim>\<open>canon-storage-eventlog/src/binary_reader.rs\<close>). A segment is
  an optional four-byte magic number followed by frames, each a little-endian \<^verbatim>\<open>u32\<close> length and
  that many bytes of JSON. A file is its list of bytes. The JSON decoders of serde and the
  generator of event identifiers are parameters (\<open>ReaderEnv\<close>); the validation of UTF-8 is the
  standard library's and is written out.
\<close>

unbundle bit_operations_syntax

type_synonym bytes = "u8 list"

section \<open>Little-endian integers\<close>

definition u32_le_bytes :: "u32 \<Rightarrow> bytes" where
  "u32_le_bytes w = [ucast w, ucast (drop_bit 8 w), ucast (drop_bit 16 w), ucast (drop_bit 24 w)]"

definition u64_le_bytes :: "u64 \<Rightarrow> bytes" where
  "u64_le_bytes w = map (\<lambda>k. ucast (drop_bit (8 * k) w)) [0..<8]"

definition read_u32 :: "bytes \<Rightarrow> u32" where
  "read_u32 buf =
     ucast (buf ! 0) OR push_bit 8 (ucast (buf ! 1)) OR push_bit 16 (ucast (buf ! 2)) OR
     push_bit 24 (ucast (buf ! 3))"

definition read_u64 :: "bytes \<Rightarrow> u64" where
  "read_u64 buf = fold (\<lambda>k acc. acc OR push_bit (8 * k) (ucast (buf ! k))) [0..<8] 0"

lemma length_u32_le_bytes [simp]: "length (u32_le_bytes w) = 4"
  by (simp add: u32_le_bytes_def)

lemma length_u64_le_bytes [simp]: "length (u64_le_bytes w) = 8"
  by (simp add: u64_le_bytes_def)

lemma read_u32_le_bytes [simp]: "read_u32 (u32_le_bytes w @ rest) = w"
proof (rule bit_word_eqI)
  fix n assume "n < LENGTH(32)"
  then have "n < 8 \<or> (8 \<le> n \<and> n < 16) \<or> (16 \<le> n \<and> n < 24) \<or> (24 \<le> n \<and> n < 32)" by auto
  then show "bit (read_u32 (u32_le_bytes w @ rest)) n = bit w n"
    by (auto simp: read_u32_def u32_le_bytes_def bit_simps)
qed

lemma bit_fold_or:
  fixes f :: "nat \<Rightarrow> u64"
  assumes "n < 64"
  shows "bit (fold (\<lambda>k acc. acc OR push_bit (8 * k) (f k)) ks a) n \<longleftrightarrow>
    bit a n \<or> (\<exists>k \<in> set ks. 8 * k \<le> n \<and> bit (f k) (n - 8 * k))"
  using assms by (induction ks arbitrary: a) (auto simp: bit_or_iff bit_push_bit_iff)

lemma read_u64_le_bytes [simp]: "read_u64 (u64_le_bytes w @ rest) = w"
proof (rule bit_word_eqI)
  fix n assume n: "n < LENGTH(64)"
  have byte: "(u64_le_bytes w @ rest) ! k = ucast (drop_bit (8 * k) w)" if "k < 8" for k
    using that by (simp add: u64_le_bytes_def nth_append)
  have "bit (read_u64 (u64_le_bytes w @ rest)) n \<longleftrightarrow>
      (\<exists>k \<in> {0..<8}. 8 * k \<le> n \<and> bit (ucast ((u64_le_bytes w @ rest) ! k) :: u64) (n - 8 * k))"
    unfolding read_u64_def using n by (subst bit_fold_or) simp_all
  also have "\<dots> \<longleftrightarrow> (\<exists>k \<in> {0..<8}. 8 * k \<le> n \<and> n - 8 * k < 8 \<and> bit w n)"
    using byte n by (intro bex_cong refl) (auto simp: bit_simps)
  also have "\<dots> \<longleftrightarrow> bit w n"
    using n by (auto intro!: bexI [of _ "n div 8"])
  finally show "bit (read_u64 (u64_le_bytes w @ rest)) n = bit w n" .
qed

section \<open>UTF-8\<close>

definition continuation :: "u8 \<Rightarrow> bool" where
  "continuation b \<longleftrightarrow> 0x80 \<le> b \<and> b \<le> 0xBF"

fun utf8_valid :: "bytes \<Rightarrow> bool" where
  "utf8_valid [] = True"
| "utf8_valid (a # bs) =
     (if a \<le> 0x7F then utf8_valid bs
      else if 0xC2 \<le> a \<and> a \<le> 0xDF then
        (case bs of b # rest \<Rightarrow> continuation b \<and> utf8_valid rest | _ \<Rightarrow> False)
      else if 0xE0 \<le> a \<and> a \<le> 0xEF then
        (case bs of
           b # c # rest \<Rightarrow>
             continuation b \<and> (a = 0xE0 \<longrightarrow> 0xA0 \<le> b) \<and> (a = 0xED \<longrightarrow> b \<le> 0x9F) \<and>
             continuation c \<and> utf8_valid rest
         | _ \<Rightarrow> False)
      else if 0xF0 \<le> a \<and> a \<le> 0xF4 then
        (case bs of
           b # c # d # rest \<Rightarrow>
             continuation b \<and> (a = 0xF0 \<longrightarrow> 0x90 \<le> b) \<and> (a = 0xF4 \<longrightarrow> b \<le> 0x8F) \<and>
             continuation c \<and> continuation d \<and> utf8_valid rest
         | _ \<Rightarrow> False)
      else False)"

definition string_of_bytes :: "bytes \<Rightarrow> string" where
  "string_of_bytes bs = map (\<lambda>b. char_of (unat b)) bs"

definition from_utf8 :: "bytes \<Rightarrow> string option" where
  "from_utf8 bs = (if utf8_valid bs then Some (string_of_bytes bs) else None)"

section \<open>Records\<close>

record LegacyEventMeta =
  lm_ts :: u64
  lm_source :: string
  lm_file :: string
  lm_line :: u32

record LegacyCanonEvent =
  le_event_id :: "u64 option"
  le_meta :: LegacyEventMeta
  le_kind :: string
  le_data :: "json option"

record ReaderEnv =
  rd_event_from_str :: "string \<Rightarrow> CanonEvent option"
  rd_legacy_from_str :: "string \<Rightarrow> LegacyCanonEvent option"
  rd_kind_from_str :: "string \<Rightarrow> EventKind option"
  rd_new_event_id :: string

definition upgrade_legacy_event :: "ReaderEnv \<Rightarrow> LegacyCanonEvent \<Rightarrow> CanonEvent" where
  "upgrade_legacy_event env old =
     \<lparr> ev_id = (case le_event_id old of
                 Some v \<Rightarrow> decimal (unat v) | None \<Rightarrow> rd_new_event_id env),
       ev_parent_ids = [],
       ev_actor = lm_source (le_meta old),
       ev_kind = (case rd_kind_from_str env (''\"'' @ le_kind old @ ''\"'') of
                    Some k \<Rightarrow> k | None \<Rightarrow> Debug),
       ev_ts = lm_ts (le_meta old),
       ev_payload =
         \<lparr> pl_input = JObject [], pl_output = JObject [], pl_delta = JObject [],
           pl_meta = \<lparr> pm_file = lm_file (le_meta old), pm_line = lm_line (le_meta old) \<rparr>,
           pl_data = (case le_data old of Some d \<Rightarrow> d | None \<Rightarrow> JObject []) \<rparr>,
       ev_prev_event_id = None \<rparr>"

definition decode_record :: "ReaderEnv \<Rightarrow> bytes \<Rightarrow> CanonEvent option" where
  "decode_record env record =
     (case from_utf8 record of
        None \<Rightarrow> None
      | Some s \<Rightarrow>
          (case rd_event_from_str env s of
             Some e \<Rightarrow> Some e
           | None \<Rightarrow> map_option (upgrade_legacy_event env) (rd_legacy_from_str env s)))"

section \<open>Segments\<close>

definition MAGIC :: u32 where
  "MAGIC = 0x544C4F47"

definition is_binary_magic :: "bytes \<Rightarrow> bool" where
  "is_binary_magic bs \<longleftrightarrow> 4 \<le> length bs \<and> read_u32 bs = MAGIC"

definition strip_magic :: "bytes \<Rightarrow> bytes" where
  "strip_magic bs = (if is_binary_magic bs \<and> 4 < length bs then drop 4 bs else bs)"

text \<open>The frame loop: the records of a region, up to the first incomplete frame.\<close>

function scan_frames :: "bytes \<Rightarrow> bytes list" where
  "scan_frames bs =
     (if length bs < 4 then []
      else let len = unat (read_u32 bs); rest = drop 4 bs
           in if length rest < len then [] else take len rest # scan_frames (drop len rest))"
  by pat_completeness auto
termination by (relation "measure length") auto

declare scan_frames.simps [simp del]

definition read_events :: "ReaderEnv \<Rightarrow> bytes \<Rightarrow> CanonEvent list" where
  "read_events env region = List.map_filter (decode_record env) (scan_frames region)"

definition read_binary_events :: "ReaderEnv \<Rightarrow> bytes \<Rightarrow> CanonEvent list" where
  "read_binary_events env bs = read_events env (strip_magic bs)"

text \<open>The index: pairs of sequence number and byte position; the last one not past \<open>start_seq\<close>.\<close>

function index_position :: "u64 \<Rightarrow> bytes \<Rightarrow> u64 \<Rightarrow> u64" where
  "index_position start_seq idx start_pos =
     (if length idx < 16 then start_pos
      else if read_u64 idx \<le> start_seq
        then index_position start_seq (drop 16 idx) (read_u64 (drop 8 idx))
      else start_pos)"
  by pat_completeness auto
termination by (relation "measure (\<lambda>(_, idx, _). length idx)") auto

declare index_position.simps [simp del]

definition read_binary_events_from_segment_with_start_seq ::
  "ReaderEnv \<Rightarrow> bytes option \<Rightarrow> bytes \<Rightarrow> u64 \<Rightarrow> CanonEvent list" where
  "read_binary_events_from_segment_with_start_seq env idx bs start_seq =
     (let start_pos = (case idx of Some ib \<Rightarrow> index_position start_seq ib 0 | None \<Rightarrow> 0);
          base = strip_magic bs;
          relevant = (if unat start_pos \<le> length base then drop (unat start_pos) base else base)
      in read_events env relevant)"

section \<open>Frames\<close>

text \<open>The frame of a payload, as the writer builds it.\<close>

definition frame :: "bytes \<Rightarrow> bytes" where
  "frame payload = u32_le_bytes (of_nat (length payload)) @ payload"

abbreviation frames :: "bytes list \<Rightarrow> bytes" where
  "frames ps \<equiv> concat (map frame ps)"

abbreviation sized :: "bytes \<Rightarrow> bool" where
  "sized payload \<equiv> length payload < 2 ^ 32"

lemma length_frame [simp]: "length (frame p) = 4 + length p"
  by (simp add: frame_def)

lemma unat_frame_len: "sized p \<Longrightarrow> unat (of_nat (length p) :: u32) = length p"
  by (simp add: unat_of_nat)

lemma scan_frame_cons:
  assumes "sized p"
  shows "scan_frames (frame p @ rest) = p # scan_frames rest"
  using assms
  by (subst scan_frames.simps) (simp add: frame_def Let_def unat_frame_len)

lemma scan_short: "length bs < 4 \<Longrightarrow> scan_frames bs = []"
  by (subst scan_frames.simps) simp

lemma scan_frames_append:
  assumes "\<forall>p \<in> set ps. sized p"
  shows "scan_frames (frames ps @ rest) = ps @ scan_frames rest"
  using assms by (induction ps) (simp_all add: scan_frame_cons)

lemma scan_frames_frames: "\<forall>p \<in> set ps. sized p \<Longrightarrow> scan_frames (frames ps) = ps"
  using scan_frames_append [of ps "[]"] by (simp add: scan_short)

lemma scan_partial_frame:
  assumes "sized p" and "n < length (frame p)"
  shows "scan_frames (take n (frame p)) = []"
proof (cases "n < 4")
  case True
  then show ?thesis by (intro scan_short) simp
next
  case False
  then have "take n (frame p) = u32_le_bytes (of_nat (length p)) @ take (n - 4) p"
    by (simp add: frame_def)
  with assms False show ?thesis
    by (subst scan_frames.simps) (simp add: Let_def unat_frame_len)
qed

text \<open>A cut log yields a prefix of its records.\<close>

lemma scan_frames_take:
  assumes "\<forall>p \<in> set ps. sized p"
  shows "\<exists>k. scan_frames (take n (frames ps)) = take k ps"
  using assms
proof (induction ps arbitrary: n)
  case Nil
  then show ?case by (simp add: scan_short)
next
  case (Cons p ps)
  show ?case
  proof (cases "n < length (frame p)")
    case True
    then have "scan_frames (take n (frames (p # ps))) = take 0 (p # ps)"
      using Cons.prems scan_partial_frame [of p n] by simp
    then show ?thesis by blast
  next
    case False
    then have "take n (frames (p # ps)) = frame p @ take (n - length (frame p)) (frames ps)" by simp
    moreover obtain k where "scan_frames (take (n - length (frame p)) (frames ps)) = take k ps"
      using Cons by fastforce
    ultimately have "scan_frames (take n (frames (p # ps))) = take (Suc k) (p # ps)"
      using Cons.prems by (simp add: scan_frame_cons)
    then show ?thesis by blast
  qed
qed

lemma strip_magic_header:
  assumes "rest \<noteq> []"
  shows "strip_magic (u32_le_bytes MAGIC @ rest) = rest"
  using assms by (simp add: strip_magic_def is_binary_magic_def)

lemma scan_magic_only: "scan_frames (u32_le_bytes MAGIC) = []"
  using read_u32_le_bytes [of MAGIC "[]"]
  by (subst scan_frames.simps) (simp add: Let_def MAGIC_def)

section \<open>Properties\<close>

text \<open>
  What the reader relies on of the codec: a payload the writer produced for an event is decoded
  to that event.
\<close>

definition encodes :: "ReaderEnv \<Rightarrow> bytes \<Rightarrow> CanonEvent \<Rightarrow> bool" where
  "encodes env payload e \<longleftrightarrow> sized payload \<and> decode_record env payload = Some e"

lemma encodes_decode:
  "list_all2 (encodes env) ps es \<Longrightarrow> List.map_filter (decode_record env) ps = es"
  by (induction rule: list_all2_induct) (auto simp: encodes_def map_filter_simps)

lemma encodes_sized: "list_all2 (encodes env) ps es \<Longrightarrow> \<forall>p \<in> set ps. sized p"
  by (induction rule: list_all2_induct) (auto simp: encodes_def)

lemma map_filter_take:
  "list_all2 (encodes env) ps es \<Longrightarrow> List.map_filter (decode_record env) (take k ps) = take k es"
  by (rule encodes_decode) (rule list_all2_takeI)

lemma read_frames:
  assumes "list_all2 (encodes env) ps es"
  shows "read_events env (frames ps) = es"
  using encodes_decode [OF assms] encodes_sized [OF assms]
  by (simp add: read_events_def scan_frames_frames)

text \<open>C10: Crash consistency of a segment: cut at any byte (a torn write, a partial flush), a segment
  with magic number and frames is read back as a prefix of the events written, never as an event
  that was not written; uncut, it is read back whole. The codec is assumed to decode the
  payloads to the events they encode.\<close>

theorem torn_segment_reads_prefix:
  assumes "list_all2 (encodes env) ps es"
  shows "read_binary_events env (u32_le_bytes MAGIC @ frames ps) = es \<and>
    (\<exists>k. read_binary_events env (take n (u32_le_bytes MAGIC @ frames ps)) = take k es)"
proof
  show "read_binary_events env (u32_le_bytes MAGIC @ frames ps) = es"
  proof (cases ps)
    case Nil
    with assms show ?thesis
      by (simp add: read_binary_events_def read_events_def strip_magic_def scan_magic_only map_filter_simps)
  next
    case (Cons p ps')
    then have "frames ps \<noteq> []" by (simp add: frame_def u32_le_bytes_def)
    with read_frames [OF assms] show ?thesis
      by (simp add: read_binary_events_def strip_magic_header)
  qed
next
  have "\<exists>k. scan_frames (strip_magic (take n (u32_le_bytes MAGIC @ frames ps))) = take k ps"
  proof (cases "take (n - 4) (frames ps) = []")
    case True
    then have cut: "take n (u32_le_bytes MAGIC @ frames ps) = take n (u32_le_bytes MAGIC)" by simp
    have "scan_frames (take n (u32_le_bytes MAGIC)) = []"
      using scan_magic_only scan_short [of "take n (u32_le_bytes MAGIC)"]
      by (cases "n < 4") simp_all
    then have "scan_frames (strip_magic (take n (u32_le_bytes MAGIC @ frames ps))) = take 0 ps"
      unfolding cut by (simp add: strip_magic_def)
    then show ?thesis by blast
  next
    case False
    then have "4 \<le> n" by (cases "4 \<le> n") auto
    then have "take n (u32_le_bytes MAGIC @ frames ps) = u32_le_bytes MAGIC @ take (n - 4) (frames ps)"
      by simp
    with False scan_frames_take [OF encodes_sized [OF assms]] show ?thesis
      by (simp add: strip_magic_header)
  qed
  with map_filter_take [OF assms] show
    "\<exists>k. read_binary_events env (take n (u32_le_bytes MAGIC @ frames ps)) = take k es"
    unfolding read_binary_events_def read_events_def by force
qed

definition any_event :: CanonEvent where
  "any_event = new_root_event ''e'' ''test'' Debug 1
     \<lparr> pl_input = JObject [], pl_output = JObject [], pl_delta = JArray [JNull],
       pl_meta = \<lparr> pm_file = ''f'', pm_line = 1 \<rparr>, pl_data = JNull \<rparr>"

definition any_reader :: ReaderEnv where
  "any_reader =
     \<lparr> rd_event_from_str = (\<lambda>s. Some any_event), rd_legacy_from_str = (\<lambda>_. None),
       rd_kind_from_str = (\<lambda>_. None), rd_new_event_id = ''new'' \<rparr>"

theorem torn_segment_reads_prefix_witness:
  "\<exists>k. read_binary_events any_reader (take 11 (u32_le_bytes MAGIC @ frames [[0x31], [0x32, 0x33]])) =
     take k [any_event, any_event]"
proof -
  have "from_utf8 [0x31] \<noteq> None" "from_utf8 [0x32, 0x33] \<noteq> None" by (simp_all add: from_utf8_def)
  then have "list_all2 (encodes any_reader) [[0x31], [0x32, 0x33]] [any_event, any_event]"
    by (auto simp: encodes_def decode_record_def any_reader_def)
  from torn_segment_reads_prefix [OF this, of 11] show ?thesis by blast
qed

end
