(* ===== verification/Event_Invariants.thy ===== *)
theory Event_Invariants
  imports Event_Wire
begin

text \<open>
  The invariants the event log enforces (\<^verbatim>\<open>canon-runtime-events/src/invariants.rs\<close>):
  well-formedness of a single event, legality of two adjacent control events, and the
  successor obligation a control event leaves behind. A check that \<^verbatim>\<open>bail!\<close>s returns
  \<^term>\<open>Some message\<close>; \<^const>\<open>None\<close> is \<^verbatim>\<open>Ok(())\<close>.
\<close>

section \<open>Checks\<close>

fun is_zero_delta :: "json \<Rightarrow> bool" where
  "is_zero_delta JNull = True"
| "is_zero_delta (JArray v) = (v = [])"
| "is_zero_delta (JObject m) = (m = [])"
| "is_zero_delta _ = False"

definition validate_event :: "CanonEvent \<Rightarrow> string option" where
  "validate_event e =
     (if ev_id e = '''' then Some ''invariant violation: id is empty''
      else if json_is_null (pl_input (ev_payload e)) \<or> json_is_null (pl_output (ev_payload e)) \<or>
              json_is_null (pl_delta (ev_payload e))
        then Some ''invariant violation: payload input/output/delta must be non-null''
      else if is_zero_delta (pl_delta (ev_payload e)) then
        (if ev_kind e \<in> {Tick, RouteTick, RouteSelected} then None
         else Some ''invariant violation: delta is zero / empty'')
      else None)"

definition route_selected_target :: "CanonEvent \<Rightarrow> string option" where
  "route_selected_target e =
     (case json_get_str (pl_data (ev_payload e)) ''approved_route'' of
        Some r \<Rightarrow> Some r
      | None \<Rightarrow> json_get_str (pl_output (ev_payload e)) ''approved_route'')"

definition route_successor :: "string \<Rightarrow> EventKind option" where
  "route_successor approved =
     (if approved = ''observe'' then Some LoopObserved
      else if approved = ''plan'' then Some PlanningCompleted
      else if approved = ''act'' then Some LoopActed
      else if approved = ''verify'' then Some LoopVerified
      else if approved = ''conclude'' then Some LoopRewarded
      else None)"

definition required_successor_kind :: "EventKind \<Rightarrow> string option \<Rightarrow> EventKind option" where
  "required_successor_kind kind approved_route =
     (if event_class kind \<noteq> Control then None
      else (case kind of
          RouteTick \<Rightarrow> Some RouteSelected
        | RouteSelected \<Rightarrow> Option.bind approved_route route_successor
        | LoopObserved \<Rightarrow> Some RouteSelected
        | PlanningCompleted \<Rightarrow> Some RouteSelected
        | LoopActed \<Rightarrow> Some RouteSelected
        | LoopVerified \<Rightarrow> Some VerifierPolicyUpdated
        | VerifierPolicyUpdated \<Rightarrow> Some LoopRewarded
        | LoopRewarded \<Rightarrow> Some RouteSelected
        | _ \<Rightarrow> None))"

definition validate_transition :: "CanonEvent \<Rightarrow> CanonEvent \<Rightarrow> string option" where
  "validate_transition prev next =
     (if event_class (ev_kind prev) \<noteq> Control \<or> event_class (ev_kind next) \<noteq> Control then None
      else if ev_kind next \<in> set (allowed_next (ev_kind prev)) then None
      else Some (''invariant violation: illegal transition '' @ as_str (ev_kind prev) @ '' -> '' @
                 as_str (ev_kind next)))"

record PendingTransition =
  pt_expected :: EventKind
  pt_parent :: EventId
  pt_source_kind :: EventKind
  pt_note :: string

definition is_recovery_event :: "CanonEvent \<Rightarrow> bool" where
  "is_recovery_event e \<longleftrightarrow>
     ev_kind e \<in> {ErrorOccurred, Debug} \<and>
     json_get_str (pl_data (ev_payload e)) ''kind'' \<in>
       {Some ''recovery_event'', Some ''reset_event'', Some ''override_event''}"

fun successor_note :: "EventKind \<Rightarrow> string" where
  "successor_note LoopObserved = ''post-observe routing''"
| "successor_note PlanningCompleted = ''post-plan routing''"
| "successor_note LoopActed = ''post-act routing''"
| "successor_note LoopVerified = ''verifier policy update must follow verify''"
| "successor_note VerifierPolicyUpdated = ''reward must follow verifier policy update''"
| "successor_note LoopRewarded = ''post-reward routing''"
| "successor_note _ = ''''"

definition required_successor :: "CanonEvent \<Rightarrow> PendingTransition option" where
  "required_successor e =
     (if event_class (ev_kind e) \<noteq> Control then None
      else if ev_kind e = RouteTick then
        Some \<lparr> pt_expected = LoopObserved, pt_parent = ev_id e, pt_source_kind = ev_kind e,
               pt_note = ''route tick must open exactly one observe cycle before route selection'' \<rparr>
      else if ev_kind e = RouteSelected then
        (case route_selected_target e of
           None \<Rightarrow> None
         | Some approved \<Rightarrow>
             (case required_successor_kind (ev_kind e) (Some approved) of
                None \<Rightarrow> None
              | Some expected \<Rightarrow>
                  Some \<lparr> pt_expected = expected, pt_parent = ev_id e, pt_source_kind = ev_kind e,
                         pt_note = ''approved_route='' @ approved \<rparr>))
      else if ev_kind e \<in> {LoopObserved, PlanningCompleted, LoopActed, LoopVerified,
                          VerifierPolicyUpdated, LoopRewarded} then
        (case required_successor_kind (ev_kind e) None of
           None \<Rightarrow> None
         | Some expected \<Rightarrow>
             Some \<lparr> pt_expected = expected, pt_parent = ev_id e, pt_source_kind = ev_kind e,
                    pt_note = successor_note (ev_kind e) \<rparr>)
      else None)"

section \<open>Properties\<close>

lemmas successor_defs = required_successor_def required_successor_kind_def route_successor_def

lemma required_successor_expected:
  "map_option pt_expected (required_successor e) =
     (if ev_kind e = RouteTick then Some LoopObserved
      else required_successor_kind (ev_kind e) (route_selected_target e))"
  by (cases "ev_kind e"; cases "route_selected_target e")
    (auto simp: successor_defs split: option.splits)

lemma required_successor_kind_allowed:
  "required_successor_kind k r = Some k' \<Longrightarrow> k' \<in> set (allowed_next k)"
  by (cases k; cases r) (auto simp: successor_defs split: if_splits)

text \<open>C27: A successor obligation can always be met: the kind it expects is a legal next control event
  of the event that created it, so the strict obligation never contradicts the transition check,
  and it names that event as parent and source. The two definitions of the obligation agree but
  for the route tick, after which \<open>required_successor\<close> expects the observation and
  \<open>required_successor_kind\<close> the route selection.\<close>

theorem obligation_is_dischargeable:
  "(\<forall>p. required_successor e = Some p \<longrightarrow>
      pt_expected p \<in> set (allowed_next (ev_kind e)) \<and> event_class (pt_expected p) = Control \<and>
      pt_parent p = ev_id e \<and> pt_source_kind p = ev_kind e) \<and>
   (map_option pt_expected (required_successor e) =
      required_successor_kind (ev_kind e) (route_selected_target e) \<longleftrightarrow> ev_kind e \<noteq> RouteTick)"
proof (intro conjI allI impI)
  fix p assume p: "required_successor e = Some p"
  then have exp: "pt_expected p \<in> set (allowed_next (ev_kind e))"
    using required_successor_expected [of e] required_successor_kind_allowed
    by (auto split: if_splits dest: sym)
  then show "pt_expected p \<in> set (allowed_next (ev_kind e))" .
  show "event_class (pt_expected p) = Control" by (rule event_class_allowed_next [OF exp])
  show "pt_parent p = ev_id e" "pt_source_kind p = ev_kind e"
    using p by (auto simp: required_successor_def split: if_splits option.splits)
next
  show "map_option pt_expected (required_successor e) =
      required_successor_kind (ev_kind e) (route_selected_target e) \<longleftrightarrow> ev_kind e \<noteq> RouteTick"
    by (subst required_successor_expected) (simp add: required_successor_kind_def)
qed

definition sample_payload :: "json \<Rightarrow> CanonPayload" where
  "sample_payload dat =
     \<lparr> pl_input = JObject [(''x'', JNumber (PosInt 1))], pl_output = JObject [(''y'', JNumber (PosInt 1))],
       pl_delta = JObject [(''z'', JNumber (PosInt 1))], pl_meta = \<lparr> pm_file = ''test'', pm_line = 1 \<rparr>,
       pl_data = dat \<rparr>"

theorem obligation_is_dischargeable_witness:
  "map_option pt_expected (required_successor
     (new_root_event ''r'' ''test'' RouteSelected 1
        (sample_payload (JObject [(''approved_route'', JString ''plan'')])))) = Some PlanningCompleted"
proof -
  let ?e = "new_root_event ''r'' ''test'' RouteSelected 1
        (sample_payload (JObject [(''approved_route'', JString ''plan'')]))"
  have "map_option pt_expected (required_successor ?e) =
      required_successor_kind RouteSelected (route_selected_target ?e)"
    using obligation_is_dischargeable [of ?e] by (simp add: new_root_event_def)
  also have "\<dots> = Some PlanningCompleted"
    by (simp add: successor_defs route_selected_target_def new_root_event_def sample_payload_def
        json_get_str_def)
  finally show ?thesis .
qed

text \<open>The control graph has one entry: in any sequence of control events whose adjacent pairs pass
  the transition check, a tick can only be the first and a route tick only the first or the
  second event. A log therefore holds at most one uninterrupted tick chain, and every later tick
  is only accepted after an intervening effect event.\<close>

theorem ticks_only_at_the_start:
  assumes "\<forall>e \<in> set es. event_class (ev_kind e) = Control"
    and "successively (\<lambda>a b. validate_transition a b = None) es"
    and "i < length es"
  shows "(ev_kind (es ! i) = Tick \<longrightarrow> i = 0) \<and> (ev_kind (es ! i) = RouteTick \<longrightarrow> i \<le> 1)"
proof (cases i)
  case 0
  then show ?thesis by simp
next
  case (Suc j)
  have step: "ev_kind (es ! Suc j) \<in> set (allowed_next (ev_kind (es ! j)))" if "Suc j < length es" for j
  proof -
    have "validate_transition (es ! j) (es ! Suc j) = None"
      using assms(2) that by (simp add: successively_conv_nth)
    with assms(1) that show ?thesis by (auto simp: validate_transition_def split: if_splits)
  qed
  have "ev_kind (es ! i) \<noteq> Tick"
    using step [of j] assms(3) no_kind_allows_tick by (auto simp: Suc)
  moreover have "j = 0" if "ev_kind (es ! i) = RouteTick"
  proof (rule ccontr)
    assume "j \<noteq> 0"
    then obtain k where j: "j = Suc k" by (cases j) auto
    have "ev_kind (es ! j) = Tick"
      using step [of j] assms(3) that route_tick_only_after_tick by (auto simp: Suc)
    then show False using step [of k] assms(3) no_kind_allows_tick by (auto simp: Suc j)
  qed
  ultimately show ?thesis by (auto simp: Suc)
qed

theorem ticks_only_at_the_start_witness:
  "let e = \<lambda>k. new_root_event ''e'' ''test'' k 1 (sample_payload (JObject []));
       es = [e Tick, e RouteTick, e LoopObserved]
   in ev_kind (es ! 1) = RouteTick \<and> (ev_kind (es ! 1) = RouteTick \<longrightarrow> (1::nat) \<le> 1)"
  using ticks_only_at_the_start [of "map (\<lambda>k. new_root_event ''e'' ''test'' k 1 (sample_payload (JObject [])))
      [Tick, RouteTick, LoopObserved]" 1]
  by (simp add: new_root_event_def validate_transition_def)

end
