(* ===== verification/Dedup_Cache.thy ===== *)
theory Dedup_Cache
  imports Canon_Prelude
begin

text \<open>
  The two bounded duplicate filters of the log writer
  (\<^verbatim>\<open>canon-runtime-events/src/tlog/binary.rs\<close>): \<open>DedupCache\<close> over content hashes and
  \<open>DedupCacheEdges\<close> over rejected edges. Each pairs a hash set with a FIFO queue of at most
  \<open>cap\<close> entries. Their common contract is the locale \<open>bounded_dedup\<close>, interpreted on both.
\<close>

section \<open>The caches\<close>

record DedupCache =
  dc_seen :: "u64 set"
  dc_order :: "u64 list"
  dc_cap :: nat

record RejectedEdge =
  re_parent :: string
  re_kind :: string
  re_fingerprint :: u64

record DedupCacheEdges =
  de_seen :: "RejectedEdge set"
  de_order :: "RejectedEdge list"
  de_cap :: nat

definition new_dedup_edges :: "nat \<Rightarrow> DedupCacheEdges" where
  "new_dedup_edges cap = \<lparr> de_seen = {}, de_order = [], de_cap = cap \<rparr>"

definition edges_insert_if_new :: "RejectedEdge \<Rightarrow> DedupCacheEdges \<Rightarrow> bool \<times> DedupCacheEdges" where
  "edges_insert_if_new edge c =
     (if edge \<in> de_seen c then (False, c)
      else let seen = insert edge (de_seen c); order = de_order c @ [edge]
           in if de_cap c < length order
              then (case order of
                      [] \<Rightarrow> (True, c\<lparr>de_seen := seen, de_order := order\<rparr>)
                    | old # rest \<Rightarrow> (True, c\<lparr>de_seen := seen - {old}, de_order := rest\<rparr>))
              else (True, c\<lparr>de_seen := seen, de_order := order\<rparr>))"

definition new_dedup :: "nat \<Rightarrow> DedupCache" where
  "new_dedup cap = \<lparr> dc_seen = {}, dc_order = [], dc_cap = cap \<rparr>"

definition dedup_insert_if_new :: "u64 \<Rightarrow> DedupCache \<Rightarrow> bool \<times> DedupCache" where
  "dedup_insert_if_new h c =
     (if h \<in> dc_seen c then (False, c)
      else let seen = insert h (dc_seen c); order = dc_order c @ [h]
           in if dc_cap c < length order
              then (case order of
                      [] \<Rightarrow> (True, c\<lparr>dc_seen := seen, dc_order := order\<rparr>)
                    | old # rest \<Rightarrow> (True, c\<lparr>dc_seen := seen - {old}, dc_order := rest\<rparr>))
              else (True, c\<lparr>dc_seen := seen, dc_order := order\<rparr>))"

section \<open>The contract of a bounded duplicate filter\<close>

text \<open>
  The laws a filter promises: what an insertion does to the queue and to the set, for a known
  and for a new element. Everything a client relies on follows from them.
\<close>

locale bounded_dedup =
  fixes seen :: "'c \<Rightarrow> 'a set"
    and order :: "'c \<Rightarrow> 'a list"
    and cap :: "'c \<Rightarrow> nat"
    and ins :: "'a \<Rightarrow> 'c \<Rightarrow> bool \<times> 'c"
  assumes ins_known: "x \<in> seen c \<Longrightarrow> ins x c = (False, c)"
    and ins_fresh: "x \<notin> seen c \<Longrightarrow> fst (ins x c)"
    and ins_cap: "cap (snd (ins x c)) = cap c"
    and ins_order: "x \<notin> seen c \<Longrightarrow> order (snd (ins x c)) =
        (if cap c < Suc (length (order c)) then tl (order c @ [x]) else order c @ [x])"
    and ins_seen: "x \<notin> seen c \<Longrightarrow> seen (snd (ins x c)) =
        (if cap c < Suc (length (order c)) then insert x (seen c) - {hd (order c @ [x])}
         else insert x (seen c))"
begin

definition wf :: "'c \<Rightarrow> bool" where
  "wf c \<longleftrightarrow> seen c = set (order c) \<and> distinct (order c) \<and> length (order c) \<le> cap c"

definition inserts :: "'a list \<Rightarrow> 'c \<Rightarrow> 'c" where
  "inserts xs c = fold (\<lambda>x c. snd (ins x c)) xs c"

lemma flag_iff: "fst (ins x c) \<longleftrightarrow> x \<notin> seen c"
  using ins_known [of x c] ins_fresh [of x c] by auto

lemma wf_ins:
  assumes "wf c"
  shows "wf (snd (ins x c))"
proof (cases "x \<in> seen c")
  case True
  with assms show ?thesis by (simp add: ins_known)
next
  case False
  obtain y ys where ys: "order c @ [x] = y # ys" by (cases "order c") auto
  have d: "distinct (y # ys)" "set (y # ys) = insert x (seen c)"
    using assms False unfolding ys [symmetric] wf_def by auto
  have "length (y # ys) = Suc (length (order c))" by (simp add: ys [symmetric])
  with d assms ins_order [OF False] ins_seen [OF False] show ?thesis
    unfolding wf_def ys by (auto simp: ins_cap)
qed

lemma wf_inserts: "wf c \<Longrightarrow> wf (inserts xs c)"
  unfolding inserts_def by (induction xs arbitrary: c) (auto intro: wf_ins)

text \<open>
  The age of an element: how many entries lie in the queue at or after it. One insertion makes
  it at most one older, so it survives until \<open>cap\<close> further insertions.
\<close>

lemma survives_one:
  assumes wf: "wf c" and o: "order c = pre @ x # post" and room: "length post < cap c - 1"
  shows "\<exists>pre' post'. order (snd (ins y c)) = pre' @ x # post' \<and> length post' \<le> Suc (length post)"
proof (cases "y \<in> seen c")
  case True
  with o show ?thesis by (intro exI [of _ pre] exI [of _ post]) (simp add: ins_known)
next
  case False
  show ?thesis
  proof (cases "cap c < Suc (length (order c))")
    case True
    have "pre \<noteq> []"
      using wf True room o unfolding wf_def by auto
    then obtain p ps where "pre = p # ps" by (cases pre) auto
    with True ins_order [OF False] o have "order (snd (ins y c)) = ps @ x # post @ [y]" by simp
    then show ?thesis by (intro exI [of _ ps] exI [of _ "post @ [y]"]) simp
  next
    case no: False
    with ins_order [OF False] o have "order (snd (ins y c)) = pre @ x # post @ [y]" by simp
    then show ?thesis by (intro exI [of _ pre] exI [of _ "post @ [y]"]) simp
  qed
qed

lemma survives:
  assumes "wf c" and "order c = pre @ x # post" and "length post + length ys < cap c"
  shows "x \<in> seen (inserts ys c)"
  using assms
proof (induction ys arbitrary: c pre post)
  case Nil
  then show ?case by (simp add: inserts_def wf_def)
next
  case (Cons y ys)
  from Cons.prems have "length post < cap c - 1" by simp
  from survives_one [OF Cons.prems(1,2) this, of y] obtain pre' post' where
    o: "order (snd (ins y c)) = pre' @ x # post'" "length post' \<le> Suc (length post)" by blast
  have "x \<in> seen (inserts ys (snd (ins y c)))"
    using Cons.prems(3) o by (intro Cons.IH [OF wf_ins [OF Cons.prems(1)] o(1)]) (simp add: ins_cap)
  then show ?case by (simp add: inserts_def)
qed

text \<open>A fresh element is remembered during the next \<open>cap - 1\<close> insertions, whatever they are.\<close>

lemma remembered:
  assumes "wf c" and "x \<notin> seen c" and "length ys < cap c"
  shows "\<not> fst (ins x (inserts (x # ys) c))"
proof -
  have o: "\<exists>pre. order (snd (ins x c)) = pre @ [x]"
    using ins_order [OF assms(2)] assms(1,3) by (cases "order c") (auto simp: wf_def)
  then obtain pre where pre: "order (snd (ins x c)) = pre @ x # []" by auto
  have "x \<in> seen (inserts ys (snd (ins x c)))"
    using assms(3) by (intro survives [OF wf_ins [OF assms(1)] pre]) (simp add: ins_cap)
  then show ?thesis by (simp add: flag_iff inserts_def)
qed

end

interpretation hashes: bounded_dedup dc_seen dc_order dc_cap dedup_insert_if_new
  by unfold_locales (auto simp: dedup_insert_if_new_def Let_def split: list.splits)

interpretation edges: bounded_dedup de_seen de_order de_cap edges_insert_if_new
  by unfold_locales (auto simp: edges_insert_if_new_def Let_def split: list.splits)

lemma wf_new_dedup: "hashes.wf (new_dedup cap)"
  by (simp add: hashes.wf_def new_dedup_def)

lemma wf_new_dedup_edges: "edges.wf (new_dedup_edges cap)"
  by (simp add: edges.wf_def new_dedup_edges_def)

section \<open>Properties\<close>

text \<open>C28: The content-hash filter is a bounded memory that never forgets early: after any sequence of
  insertions its set and its queue agree and hold at most \<open>cap\<close> hashes, and a hash it has just
  accepted is rejected again as long as fewer than \<open>cap\<close> insertions lie in between.\<close>

theorem dedup_window:
  assumes "c = fold (\<lambda>h c. snd (dedup_insert_if_new h c)) hs (new_dedup cap)"
    and "h \<notin> dc_seen c" and "length hs' < cap"
  shows "dc_seen c = set (dc_order c) \<and> length (dc_order c) \<le> cap \<and>
    fst (dedup_insert_if_new h c) \<and>
    \<not> fst (dedup_insert_if_new h (fold (\<lambda>h c. snd (dedup_insert_if_new h c)) (h # hs') c))"
proof -
  have cap: "dc_cap (fold (\<lambda>h c. snd (dedup_insert_if_new h c)) hs c') = dc_cap c'" for hs c'
    by (induction hs arbitrary: c') (simp_all add: hashes.ins_cap)
  have "hashes.wf c"
    using hashes.wf_inserts [OF wf_new_dedup [of cap], of hs] assms(1)
    by (simp add: hashes.inserts_def)
  moreover have "dc_cap c = cap" using cap assms(1) by (simp add: new_dedup_def)
  ultimately show ?thesis
    using hashes.remembered [of c h hs'] assms(2,3) hashes.flag_iff
    by (simp add: hashes.inserts_def hashes.wf_def)
qed

theorem dedup_window_witness:
  "let c = fold (\<lambda>h c. snd (dedup_insert_if_new h c)) [1, 2, 3] (new_dedup 2)
   in dc_seen c = set (dc_order c) \<and> length (dc_order c) \<le> 2 \<and> fst (dedup_insert_if_new 7 c) \<and>
      \<not> fst (dedup_insert_if_new 7 (fold (\<lambda>h c. snd (dedup_insert_if_new h c)) [7, 8] c))"
proof -
  let ?c = "fold (\<lambda>h c. snd (dedup_insert_if_new h c)) [1, 2, 3] (new_dedup 2)"
  have "7 \<notin> dc_seen ?c"
    by (simp add: dedup_insert_if_new_def new_dedup_def Let_def)
  from dedup_window [OF refl this, of "[8]"] show ?thesis by (simp add: Let_def)
qed

end
