(* ===== verification/Tlog_Writer.thy ===== *)
theory Tlog_Writer
  imports Segment_Reader Event_Invariants Dedup_Cache
begin

text \<open>
  The binary segment writer (\<^verbatim>\<open>canon-runtime-events/src/tlog/binary.rs\<close>): opening a log
  directory with recovery of its last segment, the invariant gate in front of every write, the
  successor obligation, the duplicate filter, the rejected edges, and the append itself with
  magic number, rotation, index and time entries.

  The directory is an association list from the number in the file name to the three files of
  the segment. The buffered writers are flushed before every return, so a write goes straight
  to the files; a system call that fails is not modelled. Serialisation and the content hash
  are parameters (\<open>WriterEnv\<close>), as are the clock and the identifier generator of one call
  (\<open>Ambient\<close>). A mutex of the standard library is not reentrant: the append takes the lock of
  \<open>last_event\<close>, so a caller that already holds it never returns, which is the outcome
  \<open>Deadlock\<close>.
\<close>

section \<open>Data\<close>

record SegmentConfig =
  sc_max_bytes :: u64
  sc_index_stride :: u32
  sc_time_bucket_ms :: u64
  sc_retain_segments :: "nat option"

definition default_segment_config :: SegmentConfig where
  "default_segment_config =
     \<lparr> sc_max_bytes = 64 * 1024 * 1024, sc_index_stride = 256, sc_time_bucket_ms = 5000,
       sc_retain_segments = None \<rparr>"

record Segment =
  sg_log :: bytes
  sg_idx :: bytes
  sg_time :: bytes

type_synonym directory = "(u64 \<times> Segment) list"

record SegmentFiles =
  sf_base :: u64
  sf_size :: u64
  sf_last_time_bucket :: "u64 option"
  sf_records :: u32

record PendingState =
  ps_expected :: EventKind
  ps_parent :: EventId
  ps_source_kind :: EventKind
  ps_note :: string

record BinarySegmentWriter =
  bw_dir :: directory
  bw_config :: SegmentConfig
  bw_seq :: u64
  bw_last_ts :: u64
  bw_inner :: SegmentFiles
  bw_dedup :: DedupCache
  bw_rejected_edges :: DedupCacheEdges
  bw_last_event :: "CanonEvent option"
  bw_pending :: "PendingState option"

record WriterEnv =
  we_reader :: ReaderEnv
  we_to_vec :: "CanonEvent \<Rightarrow> bytes option"
  we_hash :: "EventKind \<Rightarrow> json \<Rightarrow> json \<Rightarrow> u64"

record Ambient =
  am_now :: u64
  am_parent_id :: EventId
  am_event_id :: EventId
  am_meta :: CanonPayloadMeta

datatype WriteError =
    Rejected string
  | NonMonotonic u64 u64
  | NullPayload
  | SerializeError

datatype Outcome = Done | Failed WriteError | Panicked | Deadlock

abbreviation pending_of :: "PendingTransition \<Rightarrow> PendingState" where
  "pending_of p \<equiv>
     \<lparr> ps_expected = pt_expected p, ps_parent = pt_parent p, ps_source_kind = pt_source_kind p,
       ps_note = pt_note p \<rparr>"

section \<open>Segment files\<close>

definition segment_log :: "directory \<Rightarrow> u64 \<Rightarrow> bytes" where
  "segment_log dir base = (case map_of dir base of None \<Rightarrow> [] | Some sg \<Rightarrow> sg_log sg)"

definition open_new_segment_files :: "directory \<Rightarrow> u64 \<Rightarrow> directory \<times> SegmentFiles" where
  "open_new_segment_files dir base =
     (AList.update base \<lparr> sg_log = segment_log dir base, sg_idx = [], sg_time = [] \<rparr> dir,
      \<lparr> sf_base = base, sf_size = of_nat (length (segment_log dir base)),
        sf_last_time_bucket = None, sf_records = 0 \<rparr>)"

definition find_latest_segment :: "directory \<Rightarrow> u64 option" where
  "find_latest_segment dir =
     fold (\<lambda>(seq, _) m. case m of None \<Rightarrow> Some seq | Some v \<Rightarrow> Some (max v seq)) dir None"

definition apply_retention :: "directory \<Rightarrow> nat \<Rightarrow> directory" where
  "apply_retention dir keep =
     (if keep = 0 then dir
      else let seqs = sort (map fst dir)
           in if length seqs \<le> keep then dir
              else filter (\<lambda>(seq, _). seq \<notin> set (take (length seqs - keep) seqs)) dir)"

definition retain :: "SegmentConfig \<Rightarrow> directory \<Rightarrow> directory" where
  "retain cfg dir =
     (case sc_retain_segments cfg of None \<Rightarrow> dir | Some keep \<Rightarrow> apply_retention dir keep)"

definition update_segment :: "u64 \<Rightarrow> (Segment \<Rightarrow> Segment) \<Rightarrow> directory \<Rightarrow> directory" where
  "update_segment base f dir = map (\<lambda>(seq, sg). (seq, if seq = base then f sg else sg)) dir"

section \<open>Append\<close>

definition auto_delta :: json where
  "auto_delta = JObject [(''_auto'', JBool True)]"

definition fix_delta :: "CanonEvent \<Rightarrow> CanonEvent" where
  "fix_delta e =
     (if pl_delta (ev_payload e) = JObject [] \<or>
         pl_delta (ev_payload e) = JObject [(''graph_version'', JNumber (PosInt 0))]
      then e\<lparr>ev_payload := (ev_payload e)\<lparr>pl_delta := auto_delta\<rparr>\<rparr> else e)"

text \<open>
  The critical section of the append: magic number, rotation, frame, index and time entry. The
  remainder and the quotient panic on a zero divisor.
\<close>

definition append_record ::
  "SegmentConfig \<Rightarrow> u64 \<Rightarrow> u64 \<Rightarrow> bytes \<Rightarrow> directory \<Rightarrow> SegmentFiles \<Rightarrow> bool \<times> directory \<times> SegmentFiles" where
  "append_record cfg seq ts fr dir files =
     (let line_len = of_nat (length fr);
          dir1 = (if sf_size files = 0
                  then update_segment (sf_base files) (\<lambda>sg. sg\<lparr>sg_log := sg_log sg @ u32_le_bytes MAGIC\<rparr>) dir
                  else dir);
          files1 = (if sf_size files = 0 then files\<lparr>sf_size := sf_size files + 4\<rparr> else files);
          rotated = sc_max_bytes cfg < sf_size files1 + line_len;
          opened = open_new_segment_files dir1 seq;
          dir2 = (if rotated then retain cfg (fst opened) else dir1);
          files2 = (if rotated then snd opened else files1);
          pos = sf_size files2;
          dir3 = update_segment (sf_base files2) (\<lambda>sg. sg\<lparr>sg_log := sg_log sg @ fr\<rparr>) dir2;
          files3 = files2\<lparr>sf_size := saturating_add (sf_size files2) line_len,
                          sf_records := saturating_add (sf_records files2) 1\<rparr>
      in if sc_index_stride cfg = 0 \<or> sc_time_bucket_ms cfg = 0 then (False, dir3, files3)
         else
           (let dir4 = (if sf_records files3 mod sc_index_stride cfg = 0
                        then update_segment (sf_base files3)
                               (\<lambda>sg. sg\<lparr>sg_idx := sg_idx sg @ u64_le_bytes seq @ u64_le_bytes pos\<rparr>) dir3
                        else dir3);
                bucket = ts div sc_time_bucket_ms cfg
            in if sf_last_time_bucket files3 \<noteq> Some bucket
               then (True,
                     update_segment (sf_base files3)
                       (\<lambda>sg. sg\<lparr>sg_time := sg_time sg @ u64_le_bytes bucket @ u64_le_bytes pos\<rparr>) dir4,
                     files3\<lparr>sf_last_time_bucket := Some bucket\<rparr>)
               else (True, dir4, files3)))"

text \<open>\<open>held\<close>: the caller holds the lock of \<open>last_event\<close>.\<close>

definition write_canon_event_inner ::
  "WriterEnv \<Rightarrow> bool \<Rightarrow> CanonEvent \<Rightarrow> BinarySegmentWriter \<Rightarrow> Outcome \<times> BinarySegmentWriter" where
  "write_canon_event_inner env held e w =
     (let prev = bw_last_ts w;
          w1 = w\<lparr>bw_last_ts := max prev (ev_ts e)\<rparr>
      in if ev_ts e < prev then (Failed (NonMonotonic (ev_ts e) prev), w1)
         else if json_is_null (pl_input (ev_payload e)) \<or> json_is_null (pl_output (ev_payload e)) \<or>
                 json_is_null (pl_delta (ev_payload e)) then (Failed NullPayload, w1)
         else
           (let e' = fix_delta e
            in case we_to_vec env e' of
                 None \<Rightarrow> (Failed SerializeError, w1)
               | Some payload \<Rightarrow>
                   (let (ok, dir, files) =
                          append_record (bw_config w1) (bw_seq w1) (ev_ts e) (frame payload)
                            (bw_dir w1) (bw_inner w1);
                        w2 = w1\<lparr>bw_seq := bw_seq w1 + 1, bw_dir := dir, bw_inner := files\<rparr>
                    in if \<not> ok then (Panicked, w2)
                       else if held then (Deadlock, w2)
                       else (Done, w2\<lparr>bw_last_event := Some e'\<rparr>))))"

section \<open>Rejection\<close>

definition event_content_hash :: "WriterEnv \<Rightarrow> CanonEvent \<Rightarrow> u64" where
  "event_content_hash env e = we_hash env (ev_kind e) (pl_data (ev_payload e)) (pl_delta (ev_payload e))"

definition is_invariant_violation_event :: "CanonEvent \<Rightarrow> bool" where
  "is_invariant_violation_event e \<longleftrightarrow>
     Option.bind (Option.bind (json_get (pl_data (ev_payload e)) ''delta'') (\<lambda>d. json_get d ''event''))
       (\<lambda>v. json_get v ''InvariantViolation'') \<noteq> None"

text \<open>The serialised violation and the serialised default state of the rustc graph.\<close>

definition violation_value :: "string \<Rightarrow> json" where
  "violation_value message =
     JObject [(''InvariantViolation'',
        JObject [(''message'', JString message), (''recorded'', JBool True)])]"

definition default_state_value :: json where
  "default_state_value =
     JObject [(''tick'', JNumber (PosInt 0)), (''phase'', JString ''''),
       (''last_event_id'', JNumber (PosInt 0)), (''invariant_hash'', JString ''''),
       (''graph_version'', JNumber (PosInt 0)), (''known_symbols'', JObject []),
       (''known_edges'', JArray []), (''known_files'', JArray []),
       (''removed_symbols'', JArray []), (''removed_edges'', JArray [])]"

definition build_invariant_violation_event_with_parent ::
  "Ambient \<Rightarrow> CanonEvent \<Rightarrow> string \<Rightarrow> EventId \<Rightarrow> CanonEvent" where
  "build_invariant_violation_event_with_parent am rejected message parent =
     (let meta = pl_meta (ev_payload rejected);
          full_message = message @ ''; rejected_kind='' @ as_str (ev_kind rejected) @
            ''; rejected_id='' @ ev_id rejected @ ''; rejected_actor='' @ ev_actor rejected @
            ''; rejected_meta_file='' @ pm_file meta @
            ''; rejected_meta_line='' @ decimal (unat (pm_line meta));
          delta_value = JObject [(''id'', JNumber (PosInt 0)), (''tick'', JNumber (PosInt 0)),
            (''event'', violation_value full_message)]
      in \<lparr> ev_id = am_event_id am, ev_parent_ids = [parent], ev_actor = ''writer'', ev_kind = Code,
           ev_ts = am_now am,
           ev_payload =
             \<lparr> pl_input = JObject [(''tick'', JNumber (PosInt 0)), (''id'', JNumber (PosInt 0))],
               pl_output = violation_value full_message,
               pl_delta = JObject [(''graph_version'', JNumber (PosInt 0))],
               pl_meta = am_meta am,
               pl_data = JObject
                 [(''rejected'', JObject
                     [(''id'', JString (ev_id rejected)), (''kind'', JString (as_str (ev_kind rejected))),
                      (''actor'', JString (ev_actor rejected)), (''meta_file'', JString (pm_file meta)),
                      (''meta_line'', JNumber (PosInt (ucast (pm_line meta))))]),
                  (''delta'', delta_value), (''state'', default_state_value)] \<rparr>,
           ev_prev_event_id = None \<rparr>)"

definition record_rejected_edge ::
  "WriterEnv \<Rightarrow> Ambient \<Rightarrow> bool \<Rightarrow> CanonEvent \<Rightarrow> string \<Rightarrow> EventId option \<Rightarrow> BinarySegmentWriter
     \<Rightarrow> Outcome \<times> BinarySegmentWriter" where
  "record_rejected_edge env am held e message parent w =
     (if is_invariant_violation_event e then (Done, w)
      else
        (let parent_for_violation =
               (case parent of
                  Some p \<Rightarrow> p
                | None \<Rightarrow> (case ev_parent_ids e of p # _ \<Rightarrow> p | [] \<Rightarrow> am_parent_id am));
             violation = build_invariant_violation_event_with_parent am e message parent_for_violation;
             edge = \<lparr> re_parent = (case ev_parent_ids violation of p # _ \<Rightarrow> p | [] \<Rightarrow> ''''),
                      re_kind = as_str (ev_kind e), re_fingerprint = event_content_hash env e \<rparr>;
             (is_new, cache) = edges_insert_if_new edge (bw_rejected_edges w);
             w1 = w\<lparr>bw_rejected_edges := cache\<rparr>
         in if is_new then write_canon_event_inner env held violation w1 else (Done, w1)))"

text \<open>The rejection of an event: \<^verbatim>\<open>record_rejected_edge(..)?; return Err(err)\<close>.\<close>

definition reject ::
  "WriterEnv \<Rightarrow> Ambient \<Rightarrow> bool \<Rightarrow> CanonEvent \<Rightarrow> string \<Rightarrow> EventId option \<Rightarrow> BinarySegmentWriter
     \<Rightarrow> Outcome \<times> BinarySegmentWriter" where
  "reject env am held e message parent w =
     (let (r, w1) = record_rejected_edge env am held e message parent w
      in case r of Done \<Rightarrow> (Failed (Rejected message), w1) | _ \<Rightarrow> (r, w1))"

definition check_invalid_retry ::
  "WriterEnv \<Rightarrow> Ambient \<Rightarrow> CanonEvent \<Rightarrow> BinarySegmentWriter \<Rightarrow> (Outcome \<times> BinarySegmentWriter) option" where
  "check_invalid_retry env am e w =
     (if is_recovery_event e \<or> is_invariant_violation_event e then None
      else (case ev_parent_ids e of
              [] \<Rightarrow> None
            | parent # _ \<Rightarrow>
                if \<lparr> re_parent = parent, re_kind = as_str (ev_kind e),
                     re_fingerprint = event_content_hash env e \<rparr> \<in> de_seen (bw_rejected_edges w)
                then Some (reject env am False e
                       (''invariant violation: invalid_retry parent='' @ parent @ ''; kind='' @
                        as_str (ev_kind e) @
                        ''; blocked until recovery_event/reset_event/override_event'') (Some parent) w)
                else None))"

section \<open>The gate in front of a write\<close>

definition notify_replayed_event :: "CanonEvent \<Rightarrow> BinarySegmentWriter \<Rightarrow> BinarySegmentWriter" where
  "notify_replayed_event e w =
     (if event_class (ev_kind e) \<noteq> Control then w
      else w\<lparr>bw_pending := map_option pending_of (required_successor e)\<rparr>)"

text \<open>
  The obligation block: it either rejects the event, with the error and the obligation
  dropped, or lets it pass with the override flag.
\<close>

datatype PendingVerdict = Pass bool | Violates PendingState

definition pending_verdict :: "CanonEvent \<Rightarrow> PendingState option \<Rightarrow> PendingVerdict" where
  "pending_verdict e pending =
     (case pending of
        None \<Rightarrow> Pass False
      | Some req \<Rightarrow>
          if event_class (ev_kind e) = Effect then Pass False
          else if ev_kind e \<noteq> ps_expected req then
            (if ps_source_kind req = RouteTick \<and> ev_kind e = LoopObserved then Pass True
             else if ps_source_kind req = RouteTick \<and> ev_kind e = RouteSelected then Pass True
             else Violates req)
          else Pass True)"

definition missing_successor_message :: "PendingState \<Rightarrow> CanonEvent \<Rightarrow> string" where
  "missing_successor_message req e =
     ''invariant violation: missing required successor after '' @ as_str (ps_source_kind req) @
     '' id='' @ ps_parent req @ ''; expected='' @ as_str (ps_expected req) @ ''; got='' @
     as_str (ev_kind e) @ ''; note='' @ ps_note req"

text \<open>The part of the write after the gate: duplicate filter, append, next obligation.\<close>

definition persist ::
  "WriterEnv \<Rightarrow> CanonEvent \<Rightarrow> bool \<Rightarrow> BinarySegmentWriter \<Rightarrow> Outcome \<times> BinarySegmentWriter" where
  "persist env e required_successor_override w =
     (let filtered = \<not> required_successor_override \<and> event_class (ev_kind e) \<noteq> Control;
          (fresh, cache) = dedup_insert_if_new (event_content_hash env e) (bw_dedup w);
          w1 = (if filtered then w\<lparr>bw_dedup := cache\<rparr> else w)
      in if filtered \<and> \<not> fresh then (Done, w1)
         else
           (let (r, w2) = write_canon_event_inner env False e w1
            in if r \<noteq> Done then (r, w2)
               else if as_str (ev_kind e) = ''loop_observed'' then (Done, w2\<lparr>bw_pending := None\<rparr>)
               else if event_class (ev_kind e) = Control
                 then (Done, w2\<lparr>bw_pending := map_option pending_of (required_successor e)\<rparr>)
               else (Done, w2)))"

text \<open>
  A rejection for a missing successor drops the obligation after the violation was recorded;
  when recording fails the \<^verbatim>\<open>?\<close> returns before that.
\<close>

definition reject_missing_successor ::
  "WriterEnv \<Rightarrow> Ambient \<Rightarrow> CanonEvent \<Rightarrow> PendingState \<Rightarrow> BinarySegmentWriter
     \<Rightarrow> Outcome \<times> BinarySegmentWriter" where
  "reject_missing_successor env am e req w =
     (let (r, w1) = record_rejected_edge env am False e (missing_successor_message req e)
                      (Some (ps_parent req)) w
      in case r of
           Done \<Rightarrow> (Failed (Rejected (missing_successor_message req e)), w1\<lparr>bw_pending := None\<rparr>)
         | _ \<Rightarrow> (r, w1))"

definition write_canon_event ::
  "WriterEnv \<Rightarrow> Ambient \<Rightarrow> CanonEvent \<Rightarrow> BinarySegmentWriter \<Rightarrow> Outcome \<times> BinarySegmentWriter" where
  "write_canon_event env am e w =
     (case check_invalid_retry env am e w of
        Some result \<Rightarrow> result
      | None \<Rightarrow>
          (case validate_event e of
             Some err \<Rightarrow> reject env am False e err None w
           | None \<Rightarrow>
               (case Option.bind (bw_last_event w)
                       (\<lambda>prev. map_option (Pair prev) (validate_transition prev e)) of
                  Some (prev, err) \<Rightarrow> reject env am True e err (Some (ev_id prev)) w
                | None \<Rightarrow>
                    (case pending_verdict e (bw_pending w) of
                       Violates req \<Rightarrow> reject_missing_successor env am e req w
                     | Pass True \<Rightarrow> persist env e True (w\<lparr>bw_pending := None\<rparr>)
                     | Pass False \<Rightarrow> persist env e False w))))"

section \<open>Recovery and opening\<close>

record Recovered =
  rc_size :: u64
  rc_records :: u32
  rc_last_seq :: "u64 option"
  rc_last_time_bucket :: "u64 option"
  rc_last_event :: "CanonEvent option"
  rc_seq :: u64
  rc_byte_pos :: u64
  rc_idx :: bytes
  rc_time :: bytes

definition recover_delta :: "CanonEvent \<Rightarrow> CanonEvent" where
  "recover_delta e =
     (if pl_delta (ev_payload e) = JObject []
      then e\<lparr>ev_payload := (ev_payload e)\<lparr>pl_delta := auto_delta\<rparr>\<rparr> else e)"

text \<open>The loop over the lines of a JSONL segment; \<^const>\<open>None\<close> is the panic of a zero divisor.\<close>

fun recover_lines ::
  "WriterEnv \<Rightarrow> SegmentConfig \<Rightarrow> string list \<Rightarrow> Recovered \<Rightarrow> Recovered option" where
  "recover_lines env cfg [] st = Some st"
| "recover_lines env cfg (raw_line # lines) st =
     (if trim raw_line = [] then
        recover_lines env cfg lines
          (st\<lparr>rc_byte_pos := saturating_add (rc_byte_pos st) (of_nat (length raw_line) + 1)\<rparr>)
      else
        (case rd_event_from_str (we_reader env) (trim raw_line) of
           None \<Rightarrow> Some st
         | Some event0 \<Rightarrow>
             (let event = recover_delta event0;
                  line_end = saturating_add (rc_byte_pos st) (of_nat (length raw_line) + 1);
                  records = saturating_add (rc_records st) 1;
                  bucket = ev_ts event div sc_time_bucket_ms cfg
              in if sc_index_stride cfg = 0 \<or> sc_time_bucket_ms cfg = 0 then None
                 else recover_lines env cfg lines
                   (st\<lparr>rc_size := line_end, rc_records := records, rc_last_seq := Some (rc_seq st),
                      rc_last_event := Some event,
                      rc_idx := rc_idx st @
                        (if records mod sc_index_stride cfg = 0
                         then u64_le_bytes (rc_seq st) @ u64_le_bytes (rc_byte_pos st) else []),
                      rc_time := rc_time st @
                        (if rc_last_time_bucket st \<noteq> Some bucket
                         then u64_le_bytes bucket @ u64_le_bytes (rc_byte_pos st) else []),
                      rc_last_time_bucket := Some bucket,
                      rc_seq := saturating_add (rc_seq st) 1, rc_byte_pos := line_end\<rparr>))))"

definition recover_segment ::
  "WriterEnv \<Rightarrow> directory \<Rightarrow> u64 \<Rightarrow> SegmentConfig
     \<Rightarrow> (directory \<times> SegmentFiles \<times> u64 option \<times> CanonEvent option) option" where
  "recover_segment env dir base cfg =
     (case map_of dir base of
        None \<Rightarrow> (let (dir', files) = open_new_segment_files dir base in Some (dir', files, None, None))
      | Some sg \<Rightarrow>
          if is_binary_magic (sg_log sg) then
            (let dir1 = AList.update base \<lparr> sg_log = [], sg_idx = [], sg_time = [] \<rparr> dir;
                 (dir', files) = open_new_segment_files dir1 base
             in Some (dir', files, None, None))
          else
            (let content = (case from_utf8 (sg_log sg) of Some s \<Rightarrow> s | None \<Rightarrow> '''')
             in case recover_lines env cfg (split_lf content)
                       \<lparr> rc_size = 0, rc_records = 0, rc_last_seq = None, rc_last_time_bucket = None,
                         rc_last_event = None, rc_seq = base, rc_byte_pos = 0, rc_idx = [], rc_time = [] \<rparr> of
                  None \<Rightarrow> None
                | Some st \<Rightarrow>
                    Some (AList.update base
                            \<lparr> sg_log = (if unat (rc_size st) < length (sg_log sg)
                                        then take (unat (rc_size st)) (sg_log sg) else sg_log sg),
                              sg_idx = rc_idx st, sg_time = rc_time st \<rparr> dir,
                          \<lparr> sf_base = base, sf_size = rc_size st,
                            sf_last_time_bucket = rc_last_time_bucket st, sf_records = rc_records st \<rparr>,
                          rc_last_seq st, rc_last_event st)))"

definition open_with_config ::
  "WriterEnv \<Rightarrow> directory \<Rightarrow> SegmentConfig \<Rightarrow> BinarySegmentWriter option" where
  "open_with_config env dir cfg =
     (let base_seq = (case find_latest_segment dir of Some found \<Rightarrow> found | None \<Rightarrow> 0)
      in case recover_segment env dir base_seq cfg of
           None \<Rightarrow> None
         | Some (dir1, _, recovered_seq, last_event) \<Rightarrow>
             (let seq = (case recovered_seq of Some s \<Rightarrow> s | None \<Rightarrow> base_seq);
                  (dir2, files2) = open_new_segment_files dir1 seq;
                  (dir3, files3) = (if sf_size files2 = 0 then open_new_segment_files dir2 seq
                                    else (dir2, files2));
                  pending = Option.bind last_event (\<lambda>e. map_option pending_of (required_successor e));
                  next_seq = (case recovered_seq of Some s \<Rightarrow> saturating_add s 1 | None \<Rightarrow> base_seq);
                  (dir4, files4) = (if sc_max_bytes cfg \<le> sf_size files3
                                    then open_new_segment_files dir3 next_seq else (dir3, files3))
              in Some
                \<lparr> bw_dir = retain cfg dir4, bw_config = cfg, bw_seq = next_seq, bw_last_ts = 0,
                  bw_inner = files4, bw_dedup = new_dedup 1024,
                  bw_rejected_edges = new_dedup_edges 1024, bw_last_event = last_event,
                  bw_pending = pending \<rparr>))"

end
