(* ===== verification/Tlog_Properties.thy ===== *)
theory Tlog_Properties
  imports Tlog_Writer
begin

text \<open>
  Properties of the log writer. The abstract log of a directory is the sequence of events the
  reader returns for its segments in the order of their numbers; one successful append extends
  it by one event (a functional refinement), and the gate in front of the append makes the
  sequence legal.
\<close>

section \<open>The abstract log\<close>

definition log_events :: "ReaderEnv \<Rightarrow> directory \<Rightarrow> CanonEvent list" where
  "log_events env dir =
     concat (map (\<lambda>(_, sg). read_binary_events env (sg_log sg)) (sort_key fst dir))"

text \<open>Calls in sequence; a panic or a deadlock ends the process.\<close>

fun run_writes ::
  "WriterEnv \<Rightarrow> (Ambient \<times> CanonEvent) list \<Rightarrow> BinarySegmentWriter \<Rightarrow> BinarySegmentWriter" where
  "run_writes env [] w = w"
| "run_writes env ((am, e) # calls) w =
     (let (r, w') = write_canon_event env am e w
      in if r = Panicked \<or> r = Deadlock then w' else run_writes env calls w')"

text \<open>
  What is assumed of the serialiser: it produces less than a gibibyte, and the reader decodes
  what it produced to the same event.
\<close>

definition faithful_writer :: "WriterEnv \<Rightarrow> bool" where
  "faithful_writer env \<longleftrightarrow>
     (\<forall>e payload. we_to_vec env e = Some payload \<longrightarrow>
        length payload < 2 ^ 30 \<and> decode_record (we_reader env) payload = Some e)"

definition sane_config :: "SegmentConfig \<Rightarrow> bool" where
  "sane_config cfg \<longleftrightarrow>
     sc_index_stride cfg \<noteq> 0 \<and> sc_time_bucket_ms cfg \<noteq> 0 \<and> unat (sc_max_bytes cfg) \<le> 2 ^ 62 \<and>
     sc_retain_segments cfg = None"

definition legal_log :: "CanonEvent list \<Rightarrow> bool" where
  "legal_log es \<longleftrightarrow>
     successively (\<lambda>a b. validate_transition a b = None) es \<and> sorted (map ev_ts es)"

section \<open>Segments\<close>

definition segment_holds :: "ReaderEnv \<Rightarrow> bytes \<Rightarrow> CanonEvent list \<Rightarrow> bool" where
  "segment_holds env lg es \<longleftrightarrow>
     (\<exists>ps hdr. list_all2 (encodes env) ps es \<and> (\<forall>p \<in> set ps. length p < 2 ^ 30) \<and>
        lg = hdr @ frames ps \<and> (hdr = u32_le_bytes MAGIC \<or> hdr = []))"

lemma strip_magic_frames:
  assumes "\<forall>p \<in> set ps. length p < 2 ^ 30"
  shows "strip_magic (frames ps) = frames ps"
proof (cases ps)
  case Nil
  then show ?thesis by (simp add: strip_magic_def)
next
  case (Cons p ps')
  have "read_u32 (frames ps) = of_nat (length p)"
    by (simp add: Cons frame_def)
  moreover have "of_nat (length p) \<noteq> MAGIC"
  proof
    assume "of_nat (length p) = MAGIC"
    then have "unat (of_nat (length p) :: u32) = unat MAGIC" by simp
    moreover have "length p < 2 ^ 30" using assms Cons by simp
    ultimately show False by (simp add: unat_of_nat MAGIC_def)
  qed
  ultimately show ?thesis by (simp add: strip_magic_def is_binary_magic_def)
qed

lemma holds_read: "segment_holds env lg es \<Longrightarrow> read_binary_events env lg = es"
proof -
  assume "segment_holds env lg es"
  then obtain ps hdr where ps: "list_all2 (encodes env) ps es" "\<forall>p \<in> set ps. length p < 2 ^ 30"
    "lg = hdr @ frames ps" "hdr = u32_le_bytes MAGIC \<or> hdr = []"
    unfolding segment_holds_def by blast
  show ?thesis
  proof (cases "hdr = []")
    case True
    with ps show ?thesis
      by (simp add: read_binary_events_def strip_magic_frames read_frames)
  next
    case False
    then have hdr: "hdr = u32_le_bytes MAGIC" using ps(4) by blast
    show ?thesis
    proof (cases ps)
      case Nil
      with ps hdr show ?thesis
        by (simp add: read_binary_events_def read_events_def strip_magic_def scan_magic_only map_filter_simps)
    next
      case (Cons p ps')
      then have "frames ps \<noteq> []" by (simp add: frame_def u32_le_bytes_def)
      with ps hdr show ?thesis
        by (simp add: read_binary_events_def strip_magic_header read_frames)
    qed
  qed
qed

lemma holds_empty: "segment_holds env [] []"
  unfolding segment_holds_def by (intro exI [of _ "[]"]) simp

lemma holds_header: "segment_holds env [] es \<Longrightarrow> segment_holds env (u32_le_bytes MAGIC) es"
  unfolding segment_holds_def
proof (elim exE conjE)
  fix ps hdr
  assume ps: "list_all2 (encodes env) ps es" "[] = hdr @ frames ps"
  then have "ps = []" by (cases ps) (auto simp: frame_def u32_le_bytes_def)
  with ps show "\<exists>ps hdr. list_all2 (encodes env) ps es \<and> (\<forall>p\<in>set ps. length p < 2 ^ 30) \<and>
      u32_le_bytes MAGIC = hdr @ frames ps \<and> (hdr = u32_le_bytes MAGIC \<or> hdr = [])"
    by (intro exI [of _ "[]"] exI [of _ "u32_le_bytes MAGIC"]) simp
qed

lemma holds_append:
  assumes "segment_holds env lg es" and "encodes env p e" and "length p < 2 ^ 30"
  shows "segment_holds env (lg @ frame p) (es @ [e])"
proof -
  obtain ps hdr where ps: "list_all2 (encodes env) ps es" "\<forall>p \<in> set ps. length p < 2 ^ 30"
    "lg = hdr @ frames ps" "hdr = u32_le_bytes MAGIC \<or> hdr = []"
    using assms(1) unfolding segment_holds_def by blast
  have "list_all2 (encodes env) (ps @ [p]) (es @ [e])"
    using ps(1) assms(2) by (intro list_all2_appendI) simp_all
  moreover have "lg @ frame p = hdr @ frames (ps @ [p])" using ps(3) by simp
  ultimately show ?thesis
    using ps(2,4) assms(3) unfolding segment_holds_def
    by (intro exI [of _ "ps @ [p]"] exI [of _ hdr]) simp
qed

section \<open>One append\<close>

abbreviation dir_logs :: "directory \<Rightarrow> (u64 \<times> bytes) list" where
  "dir_logs dir \<equiv> map (\<lambda>(seq, sg). (seq, sg_log sg)) dir"

lemma fst_comp_log [simp]: "fst \<circ> (\<lambda>(seq, sg). (seq, sg_log sg)) = fst"
  by auto

lemma fst_dir_logs: "map fst (dir_logs dir) = map fst dir"
  by (induction dir) auto

lemma update_segment_last:
  "base \<notin> fst ` set pre \<Longrightarrow>
   update_segment base f (pre @ [(base, sg)]) = pre @ [(base, f sg)]"
  by (induction pre) (auto simp: update_segment_def)

lemma update_segment_logs:
  "(\<And>sg. sg_log (f sg) = sg_log sg) \<Longrightarrow> dir_logs (update_segment base f dir) = dir_logs dir"
  by (induction dir) (auto simp: update_segment_def)

lemma update_absent: "base \<notin> fst ` set dir \<Longrightarrow> AList.update base v dir = dir @ [(base, v)]"
  by (induction dir) auto

lemma update_last:
  "base \<notin> fst ` set pre \<Longrightarrow> AList.update base v (pre @ [(base, u)]) = pre @ [(base, v)]"
  by (induction pre) auto

lemma map_of_last: "base \<notin> fst ` set pre \<Longrightarrow> map_of (pre @ [(base, u)]) base = Some u"
  by (induction pre) auto

lemma segment_log_last: "base \<notin> fst ` set pre \<Longrightarrow> segment_log (pre @ [(base, sg)]) base = sg_log sg"
  using map_of_last [of base pre sg] unfolding segment_log_def by (simp del: map_of_append)

lemma segment_log_absent: "base \<notin> fst ` set dir \<Longrightarrow> segment_log dir base = []"
  unfolding segment_log_def by (simp add: map_of_eq_None_iff [THEN iffD2] del: map_of_append)

text \<open>Index and time entries do not touch the log files.\<close>

lemma append_record_tail:
  assumes "sc_index_stride cfg \<noteq> 0" and "sc_time_bucket_ms cfg \<noteq> 0"
    and "append_record cfg seq ts fr dir files = (ok, dir', files')"
    and "dir1 = (if sf_size files = 0
          then update_segment (sf_base files) (\<lambda>sg. sg\<lparr>sg_log := sg_log sg @ u32_le_bytes MAGIC\<rparr>) dir else dir)"
    and "size1 = (if sf_size files = 0 then 4 else sf_size files)"
    and "rotated = (sc_max_bytes cfg < size1 + of_nat (length fr))"
    and "dir2 = (if rotated then retain cfg (fst (open_new_segment_files dir1 seq)) else dir1)"
    and "base2 = (if rotated then seq else sf_base files)"
    and "size2 = (if rotated then of_nat (length (segment_log dir1 seq)) else size1)"
  shows "ok \<and> dir_logs dir' =
      dir_logs (update_segment base2 (\<lambda>sg. sg\<lparr>sg_log := sg_log sg @ fr\<rparr>) dir2) \<and>
    sf_base files' = base2 \<and> sf_size files' = saturating_add size2 (of_nat (length fr))"
  using assms(1,2) assms(3) [symmetric] unfolding assms(4-9) append_record_def Let_def
  by (auto simp: update_segment_logs open_new_segment_files_def split: if_splits)

text \<open>
  The active segment is the last of the directory, its size field is the length of its file,
  and the number of the next record is past its number, unless nothing was written yet.
\<close>

definition log_bound :: "SegmentConfig \<Rightarrow> nat" where
  "log_bound cfg = max (unat (sc_max_bytes cfg)) (2 ^ 31)"

definition active_inv ::
  "SegmentConfig \<Rightarrow> (u64 \<times> bytes) list \<Rightarrow> SegmentFiles \<Rightarrow> u64 \<Rightarrow> bool" where
  "active_inv cfg logs files seq \<longleftrightarrow>
     sorted_wrt (<) (map fst logs) \<and>
     (\<exists>pre lg. logs = pre @ [(sf_base files, lg)] \<and> sf_size files = of_nat (length lg) \<and>
        length lg \<le> log_bound cfg \<and> (sf_base files < seq \<or> sf_base files = seq \<and> lg = []))"

lemma log_bound_less: "sane_config cfg \<Longrightarrow> log_bound cfg \<le> 2 ^ 62"
  by (simp add: log_bound_def sane_config_def)

lemma unat_small: "n \<le> 2 ^ 63 \<Longrightarrow> unat (of_nat n :: u64) = n"
  by (simp add: unat_of_nat)

lemma of_nat_zero_small: "n \<le> 2 ^ 62 \<Longrightarrow> (of_nat n :: u64) = 0 \<longleftrightarrow> n = 0"
  using unat_small [of n] by (auto simp: unat_eq_zero)

lemma saturating_add_small:
  assumes "m + n \<le> 2 ^ 63"
  shows "saturating_add (of_nat m :: u64) (of_nat n) = of_nat (m + n)"
proof -
  have "unat (saturating_add (of_nat m :: u64) (of_nat n)) = unat (of_nat (m + n) :: u64)"
    using assms unat_small [of m] unat_small [of n] unat_small [of "m + n"]
    by (simp add: unat_saturating_add)
  then show ?thesis by (simp only: word_unat_eq_iff)
qed

lemma size_exceeds:
  "m + n \<le> 2 ^ 63 \<Longrightarrow> M < (of_nat m + of_nat n :: u64) \<longleftrightarrow> unat M < m + n"
  using unat_small [of "m + n"] by (simp add: word_less_nat_alt flip: of_nat_add)

text \<open>The first part of an append: the directory after the magic number.\<close>

definition with_header :: "bytes \<Rightarrow> bytes" where
  "with_header lg = (if lg = [] then u32_le_bytes MAGIC else lg)"

lemma header_step:
  assumes cfg: "sane_config cfg"
    and inv: "active_inv cfg (dir_logs dir) files seq"
  obtains pre sg1 lg
  where "dir_logs dir = dir_logs pre @ [(sf_base files, lg)]" "sf_base files \<notin> fst ` set pre"
    "sorted_wrt (<) (map fst pre @ [sf_base files])"
    "(if sf_size files = 0 then update_segment (sf_base files)
        (\<lambda>sg. sg\<lparr>sg_log := sg_log sg @ u32_le_bytes MAGIC\<rparr>) dir else dir) = pre @ [(sf_base files, sg1)]"
    "sg_log sg1 = with_header lg" "length (with_header lg) \<le> log_bound cfg"
    "(if sf_size files = 0 then 4 else sf_size files) = of_nat (length (with_header lg))"
    "sf_base files < seq \<or> sf_base files = seq \<and> lg = []"
proof -
  obtain pre0 lg where i: "dir_logs dir = pre0 @ [(sf_base files, lg)]" "sf_size files = of_nat (length lg)"
      "length lg \<le> log_bound cfg" "sf_base files < seq \<or> sf_base files = seq \<and> lg = []"
      "sorted_wrt (<) (map fst (dir_logs dir))"
    using inv unfolding active_inv_def by blast
  obtain pre sg where dir: "dir = pre @ [(sf_base files, sg)]" "lg = sg_log sg" "pre0 = dir_logs pre"
    using i(1) by (cases dir rule: rev_cases) (auto split: prod.splits)
  have "length lg \<le> 2 ^ 62" using i(3) log_bound_less [OF cfg] by linarith
  then have zero: "sf_size files = 0 \<longleftrightarrow> lg = []"
    using of_nat_zero_small [of "length lg"] i(2) by simp
  have sorted: "sorted_wrt (<) (map fst pre @ [sf_base files])"
    using i(5) unfolding dir(1) fst_dir_logs by simp
  then have fresh: "sf_base files \<notin> fst ` set pre"
    by (auto simp: sorted_wrt_append)
  let ?sg1 = "if lg = [] then sg\<lparr>sg_log := sg_log sg @ u32_le_bytes MAGIC\<rparr> else sg"
  show ?thesis
  proof (rule that [of pre lg ?sg1])
    show "dir_logs dir = dir_logs pre @ [(sf_base files, lg)]" using i(1) dir(3) by simp
    show "(if sf_size files = 0 then update_segment (sf_base files)
        (\<lambda>sg. sg\<lparr>sg_log := sg_log sg @ u32_le_bytes MAGIC\<rparr>) dir else dir) = pre @ [(sf_base files, ?sg1)]"
      using zero fresh by (simp add: dir(1) update_segment_last)
    show "length (with_header lg) \<le> log_bound cfg"
      using i(3) by (simp add: with_header_def log_bound_def le_max_iff_disj)
  qed (use i dir zero fresh sorted in \<open>auto simp: with_header_def\<close>)
qed

lemma word_less_succ: "x \<le> (s :: u64) \<Longrightarrow> s + 1 \<noteq> 0 \<Longrightarrow> x < s + 1"
  using unatSuc [of s] by (simp add: word_less_nat_alt word_le_nat_alt add.commute)

lemma active_inv_intro:
  assumes "dir_logs dir' = pre @ [(sf_base files', lg)]" and "sorted_wrt (<) (map fst pre @ [sf_base files'])"
    and "sf_size files' = of_nat (length lg)" and "length lg \<le> log_bound cfg"
    and "sf_base files' \<le> seq" and "seq + 1 \<noteq> 0"
  shows "active_inv cfg (dir_logs dir') files' (seq + 1)"
  using assms word_less_succ [OF assms(5,6)] unfolding active_inv_def by auto

lemma append_step:
  assumes cfg: "sane_config cfg"
    and inv: "active_inv cfg (dir_logs dir) files seq"
    and fr: "length fr \<le> 2 ^ 30 + 4" and seq: "seq + 1 \<noteq> 0"
    and run: "append_record cfg seq ts fr dir files = (ok, dir', files')"
  shows "ok \<and> active_inv cfg (dir_logs dir') files' (seq + 1) \<and>
    (\<exists>pre base lg pre' lg'. dir_logs dir = pre @ [(base, lg)] \<and>
       dir_logs dir' = pre' @ [(sf_base files', lg' @ fr)] \<and>
       (pre' @ [(sf_base files', lg')] = pre @ [(base, with_header lg)] \<or>
        pre' @ [(sf_base files', lg')] = (pre @ [(base, with_header lg)]) @ [(seq, [])]))"
proof -
  obtain pre sg1 lg where h: "dir_logs dir = dir_logs pre @ [(sf_base files, lg)]"
      "sf_base files \<notin> fst ` set pre" "sorted_wrt (<) (map fst pre @ [sf_base files])"
      "(if sf_size files = 0 then update_segment (sf_base files)
        (\<lambda>sg. sg\<lparr>sg_log := sg_log sg @ u32_le_bytes MAGIC\<rparr>) dir else dir) = pre @ [(sf_base files, sg1)]"
      "sg_log sg1 = with_header lg" "length (with_header lg) \<le> log_bound cfg"
      "(if sf_size files = 0 then 4 else sf_size files) = of_nat (length (with_header lg))"
      "sf_base files < seq \<or> sf_base files = seq \<and> lg = []"
    by (rule header_step [OF cfg inv])
  let ?lg = "with_header lg" and ?dir1 = "pre @ [(sf_base files, sg1)]"
  have le: "sf_base files \<le> seq" using h(8) by auto
  have room: "length ?lg + length fr \<le> 2 ^ 63"
    using h(6) fr log_bound_less [OF cfg] by simp
  have cfg': "sc_index_stride cfg \<noteq> 0" "sc_time_bucket_ms cfg \<noteq> 0" "sc_retain_segments cfg = None"
    using cfg by (simp_all add: sane_config_def)
  note tail = append_record_tail [OF cfg'(1,2) run h(4) [symmetric] h(7) [symmetric] refl refl refl refl]
  consider (stay) "unat (sc_max_bytes cfg) \<ge> length ?lg + length fr"
    | (same) "unat (sc_max_bytes cfg) < length ?lg + length fr" "sf_base files = seq" "lg = []"
    | (rotate) "unat (sc_max_bytes cfg) < length ?lg + length fr" "sf_base files < seq"
    using h(8) by linarith
  then show ?thesis
  proof cases
    case stay
    then have "\<not> sc_max_bytes cfg < of_nat (length ?lg) + of_nat (length fr)"
      using size_exceeds [OF room, of "sc_max_bytes cfg"] by simp
    with tail h(2,5) have out: "ok" "dir_logs dir' = dir_logs pre @ [(sf_base files, ?lg @ fr)]"
        "sf_base files' = sf_base files" "sf_size files' = of_nat (length (?lg @ fr))"
      using saturating_add_small [OF room] by (simp_all add: update_segment_last)
    have "active_inv cfg (dir_logs dir') files' (seq + 1)"
      using stay h(3) le seq out by (intro active_inv_intro) (auto simp: fst_dir_logs log_bound_def)
    with out h(1) show ?thesis by fastforce
  next
    case same
    then have rot: "sc_max_bytes cfg < of_nat (length ?lg) + of_nat (length fr)"
      using size_exceeds [OF room, of "sc_max_bytes cfg"] by simp
    have "segment_log ?dir1 seq = ?lg"
      using h(2,5) same(2) by (simp add: segment_log_last)
    with rot tail h(2) same(2) have out: "ok" "dir_logs dir' = dir_logs pre @ [(seq, ?lg @ fr)]"
        "sf_base files' = seq" "sf_size files' = of_nat (length (?lg @ fr))"
      using saturating_add_small [OF room]
      by (simp_all add: open_new_segment_files_def retain_def cfg'(3) update_last update_segment_last)
    have "active_inv cfg (dir_logs dir') files' (seq + 1)"
      using same h(3) le seq out fr
      by (intro active_inv_intro) (auto simp: fst_dir_logs log_bound_def with_header_def le_max_iff_disj)
    with out h(1) same(2) show ?thesis by fastforce
  next
    case rotate
    then have rot: "sc_max_bytes cfg < of_nat (length ?lg) + of_nat (length fr)"
      using size_exceeds [OF room, of "sc_max_bytes cfg"] by simp
    have new: "seq \<notin> fst ` set ?dir1"
      using h(3) rotate(2) by (auto simp: sorted_wrt_append)
    then have "segment_log ?dir1 seq = []" by (rule segment_log_absent)
    with rot tail new have out: "ok"
        "dir_logs dir' = (dir_logs pre @ [(sf_base files, ?lg)]) @ [(seq, [] @ fr)]"
        "sf_base files' = seq" "sf_size files' = of_nat (length fr)"
      using update_segment_last [of seq ?dir1] h(5) saturating_add_small [of 0 "length fr"] fr
      by (simp_all add: open_new_segment_files_def retain_def cfg'(3) update_absent)
    have sorted: "sorted_wrt (<) (map fst (dir_logs pre @ [(sf_base files, ?lg)]) @ [seq])"
      using h(3) rotate(2) by (auto simp: sorted_wrt_append intro: less_trans)
    have "active_inv cfg (dir_logs dir') files' (seq + 1)"
      using seq out fr sorted
      by (intro active_inv_intro [where lg = "[] @ fr" and pre = "dir_logs pre @ [(sf_base files, ?lg)]"])
        (simp_all add: log_bound_def le_max_iff_disj)
    with out h(1) show ?thesis by fastforce
  qed
qed

section \<open>The writer refines an append-only list\<close>

definition holds_all :: "ReaderEnv \<Rightarrow> (u64 \<times> bytes) list \<Rightarrow> CanonEvent list \<Rightarrow> bool" where
  "holds_all env logs es \<longleftrightarrow>
     (\<exists>ess. list_all2 (\<lambda>(_, lg). segment_holds env lg) logs ess \<and> es = concat ess)"

lemma holds_all_snoc:
  "holds_all env (logs @ [(s, lg)]) es \<longleftrightarrow>
     (\<exists>es1 es2. holds_all env logs es1 \<and> segment_holds env lg es2 \<and> es = es1 @ es2)"
proof
  assume "holds_all env (logs @ [(s, lg)]) es"
  then obtain ess where "list_all2 (\<lambda>(_, lg). segment_holds env lg) (logs @ [(s, lg)]) ess" "es = concat ess"
    unfolding holds_all_def by blast
  then show "\<exists>es1 es2. holds_all env logs es1 \<and> segment_holds env lg es2 \<and> es = es1 @ es2"
    unfolding holds_all_def list_all2_append1 by (auto simp: list_all2_Cons1)
next
  assume "\<exists>es1 es2. holds_all env logs es1 \<and> segment_holds env lg es2 \<and> es = es1 @ es2"
  then obtain ess es2 where *: "list_all2 (\<lambda>(_, lg). segment_holds env lg) logs ess"
      "segment_holds env lg es2" "es = concat ess @ es2"
    unfolding holds_all_def by blast
  then show "holds_all env (logs @ [(s, lg)]) es"
    unfolding holds_all_def by (intro exI [of _ "ess @ [es2]"]) (simp add: list_all2_appendI)
qed

lemma segment_holds_header: "segment_holds env lg es \<Longrightarrow> segment_holds env (with_header lg) es"
  by (cases "lg = []") (simp_all add: with_header_def holds_header)

lemma holds_all_log_events:
  assumes "sorted_wrt (<) (map fst dir)" and "holds_all env (dir_logs dir) es"
  shows "log_events env dir = es"
proof -
  have "sorted (map fst dir)"
    using assms(1) by (auto simp: strict_sorted_iff)
  then have sort: "sort_key fst dir = dir" by (rule sort_key_id_if_sorted)
  obtain ess where ess: "list_all2 (\<lambda>(_, lg). segment_holds env lg) (dir_logs dir) ess" "es = concat ess"
    using assms(2) unfolding holds_all_def by blast
  have "map (\<lambda>(_, sg). read_binary_events env (sg_log sg)) dir = ess"
    using ess(1) by (induction dir arbitrary: ess) (auto simp: list_all2_Cons1 holds_read)
  with ess(2) sort show ?thesis by (simp add: log_events_def)
qed

text \<open>An append extends the abstract log by exactly the event.\<close>

lemma append_record_refines:
  assumes "sane_config cfg" and "active_inv cfg (dir_logs dir) files seq" and "seq + 1 \<noteq> 0"
    and "holds_all env (dir_logs dir) es" and "decode_record env payload = Some e"
    and "length payload < 2 ^ 30"
    and run: "append_record cfg seq ts (frame payload) dir files = (ok, dir', files')"
  shows "ok \<and> active_inv cfg (dir_logs dir') files' (seq + 1) \<and> holds_all env (dir_logs dir') (es @ [e])"
proof -
  have fr: "length (frame payload) \<le> 2 ^ 30 + 4" using assms(6) by simp
  have enc: "encodes env payload e" using assms(5,6) by (simp add: encodes_def)
  obtain pre base lg pre' lg' where s: "ok" "active_inv cfg (dir_logs dir') files' (seq + 1)"
      "dir_logs dir = pre @ [(base, lg)]" "dir_logs dir' = pre' @ [(sf_base files', lg' @ frame payload)]"
      "pre' @ [(sf_base files', lg')] = pre @ [(base, with_header lg)] \<or>
       pre' @ [(sf_base files', lg')] = (pre @ [(base, with_header lg)]) @ [(seq, [])]"
    using append_step [OF assms(1,2) fr assms(3) run] by blast
  have hdr: "holds_all env (pre @ [(base, with_header lg)]) es"
    using assms(4) unfolding s(3) holds_all_snoc by (blast intro: segment_holds_header)
  then have "holds_all env (pre' @ [(sf_base files', lg')]) es"
    using s(5) holds_empty [of env] holds_all_snoc [of env "pre @ [(base, with_header lg)]" seq "[]" es]
    by auto
  then have "holds_all env (pre' @ [(sf_base files', lg' @ frame payload)]) (es @ [e])"
    unfolding holds_all_snoc using holds_append [OF _ enc assms(6)] by (metis append_assoc)
  with s show ?thesis by simp
qed

definition log_ok :: "WriterEnv \<Rightarrow> BinarySegmentWriter \<Rightarrow> CanonEvent list \<Rightarrow> bool" where
  "log_ok env w es \<longleftrightarrow>
     sane_config (bw_config w) \<and>
     active_inv (bw_config w) (dir_logs (bw_dir w)) (bw_inner w) (bw_seq w) \<and>
     holds_all (we_reader env) (dir_logs (bw_dir w)) es \<and>
     legal_log es \<and> (\<forall>e \<in> set es. ev_ts e \<le> bw_last_ts w)"

definition writer_inv :: "WriterEnv \<Rightarrow> nat \<Rightarrow> BinarySegmentWriter \<Rightarrow> CanonEvent list \<Rightarrow> bool" where
  "writer_inv env n w es \<longleftrightarrow>
     log_ok env w es \<and> bw_last_event w = (if es = [] then None else Some (last es)) \<and>
     unat (bw_seq w) \<le> n"

lemma writer_inv_mono: "writer_inv env n w es \<Longrightarrow> n \<le> m \<Longrightarrow> writer_inv env m w es"
  by (auto simp: writer_inv_def)

lemma writer_inv_pending [simp]: "writer_inv env n (w\<lparr>bw_pending := p\<rparr>) es = writer_inv env n w es"
  by (simp add: writer_inv_def log_ok_def)

lemma writer_inv_edges [simp]:
  "writer_inv env n (w\<lparr>bw_rejected_edges := c\<rparr>) es = writer_inv env n w es"
  by (simp add: writer_inv_def log_ok_def)

lemma writer_inv_dedup [simp]: "writer_inv env n (w\<lparr>bw_dedup := c\<rparr>) es = writer_inv env n w es"
  by (simp add: writer_inv_def log_ok_def)

lemma log_ok_events: "log_ok env w es \<Longrightarrow> log_events (we_reader env) (bw_dir w) = es"
  by (rule holds_all_log_events) (auto simp: log_ok_def active_inv_def fst_dir_logs)

lemma fix_delta_fields [simp]: "ev_kind (fix_delta e) = ev_kind e" "ev_ts (fix_delta e) = ev_ts e"
  by (simp_all add: fix_delta_def)

lemma validate_transition_cong:
  "ev_kind e = ev_kind e' \<Longrightarrow> validate_transition p e = validate_transition p e'"
  by (simp add: validate_transition_def)

lemma legal_log_snoc:
  assumes "legal_log es" and "\<forall>x \<in> set es. ev_ts x \<le> ev_ts e"
    and "es \<noteq> [] \<Longrightarrow> validate_transition (last es) e = None"
  shows "legal_log (es @ [e])"
  using assms by (cases "es = []") (auto simp: legal_log_def successively_append_iff sorted_append)

lemma log_ok_ts:
  "log_ok env w es \<Longrightarrow> bw_last_ts w \<le> ts \<Longrightarrow> log_ok env (w\<lparr>bw_last_ts := ts\<rparr>) es"
  by (auto simp: log_ok_def)

text \<open>What a call may leave behind: the log, possibly with one more event.\<close>

definition call_ok :: "WriterEnv \<Rightarrow> nat \<Rightarrow> CanonEvent list \<Rightarrow> Outcome \<times> BinarySegmentWriter \<Rightarrow> bool" where
  "call_ok env n es res \<longleftrightarrow>
     (\<exists>es'. fst res \<noteq> Panicked \<and>
        (if fst res = Deadlock then log_ok env (snd res) (es @ es')
         else writer_inv env (Suc n) (snd res) (es @ es')))"

lemma call_ok_keep: "writer_inv env n w es \<Longrightarrow> r = Done \<or> r = Failed err \<Longrightarrow> call_ok env n es (r, w)"
  unfolding call_ok_def using writer_inv_mono [of env n w es "Suc n"]
  by (intro exI [of _ "[]"]) auto

lemma inner_append:
  assumes faith: "faithful_writer env" and inv: "writer_inv env n w es" and n: "Suc n < 2 ^ 64"
    and trans: "\<And>prev. bw_last_event w = Some prev \<Longrightarrow> validate_transition prev e = None"
    and ts: "bw_last_ts w \<le> ev_ts e"
    and enc: "we_to_vec env (fix_delta e) = Some payload"
    and run: "append_record (bw_config w) (bw_seq w) (ev_ts e) (frame payload) (bw_dir w) (bw_inner w)
        = (ok, dir, files)"
  shows "ok \<and> log_ok env (w\<lparr>bw_last_ts := ev_ts e, bw_seq := bw_seq w + 1, bw_dir := dir,
      bw_inner := files\<rparr>) (es @ [fix_delta e]) \<and> unat (bw_seq w + 1) \<le> Suc n"
proof -
  have l: "log_ok env w es" "bw_last_event w = (if es = [] then None else Some (last es))"
      "unat (bw_seq w) \<le> n"
    using inv by (simp_all add: writer_inv_def)
  have "unat (bw_seq w) + 1 < 2 ^ 64" using l(3) n by simp
  then have seq: "unat (bw_seq w + 1) = unat (bw_seq w) + 1"
    by (simp add: unat_word_ariths)
  then have nz: "bw_seq w + 1 \<noteq> 0" by (metis add_is_0 one_neq_zero unat_0)
  have pay: "length payload < 2 ^ 30" "decode_record (we_reader env) payload = Some (fix_delta e)"
    using faith enc unfolding faithful_writer_def by blast+
  have "ok \<and> active_inv (bw_config w) (dir_logs dir) files (bw_seq w + 1) \<and>
      holds_all (we_reader env) (dir_logs dir) (es @ [fix_delta e])"
    using l(1) nz pay run unfolding log_ok_def by (intro append_record_refines) auto
  moreover have "legal_log (es @ [fix_delta e])"
  proof (rule legal_log_snoc)
    show "legal_log es" using l(1) by (simp add: log_ok_def)
    show "\<forall>x\<in>set es. ev_ts x \<le> ev_ts (fix_delta e)" using l(1) ts by (auto simp: log_ok_def)
    show "validate_transition (last es) (fix_delta e) = None" if "es \<noteq> []"
      using that l(2) trans [of "last es"] validate_transition_cong [of "fix_delta e" e] by simp
  qed
  moreover have "\<forall>x \<in> set (es @ [fix_delta e]). ev_ts x \<le> ev_ts e"
    using l(1) ts by (auto simp: log_ok_def)
  ultimately show ?thesis using l(1,3) seq by (simp add: log_ok_def)
qed

lemma inner_refines:
  assumes faith: "faithful_writer env" and inv: "writer_inv env n w es" and n: "Suc n < 2 ^ 64"
    and trans: "\<And>prev. bw_last_event w = Some prev \<Longrightarrow> validate_transition prev e = None"
  shows "call_ok env n es (write_canon_event_inner env held e w)"
proof -
  let ?w1 = "w\<lparr>bw_last_ts := max (bw_last_ts w) (ev_ts e)\<rparr>"
  have inv1: "writer_inv env n ?w1 es"
    using inv log_ok_ts [of env w es "max (bw_last_ts w) (ev_ts e)"] by (simp add: writer_inv_def)
  show ?thesis
  proof (cases "ev_ts e < bw_last_ts w \<or> json_is_null (pl_input (ev_payload e)) \<or>
      json_is_null (pl_output (ev_payload e)) \<or> json_is_null (pl_delta (ev_payload e)) \<or>
      we_to_vec env (fix_delta e) = None")
    case True
    then have "\<exists>err. write_canon_event_inner env held e w = (Failed err, ?w1)"
      unfolding write_canon_event_inner_def Let_def by auto
    then show ?thesis using call_ok_keep [OF inv1] by auto
  next
    case False
    then obtain payload where enc: "we_to_vec env (fix_delta e) = Some payload" by auto
    obtain ok dir files where run: "append_record (bw_config w) (bw_seq w) (ev_ts e) (frame payload)
        (bw_dir w) (bw_inner w) = (ok, dir, files)" by (metis prod_cases3)
    have ts: "bw_last_ts w \<le> ev_ts e" using False by auto
    then have max: "max (bw_last_ts w) (ev_ts e) = ev_ts e" by (simp add: max_def)
    note app = inner_append [OF faith inv n trans ts enc run]
    let ?w2 = "w\<lparr>bw_last_ts := ev_ts e, bw_seq := bw_seq w + 1, bw_dir := dir, bw_inner := files\<rparr>"
    have res: "write_canon_event_inner env held e w =
        (if held then (Deadlock, ?w2) else (Done, ?w2\<lparr>bw_last_event := Some (fix_delta e)\<rparr>))"
      using False enc run app max unfolding write_canon_event_inner_def Let_def by simp
    show ?thesis
      unfolding call_ok_def res using app
      by (intro exI [of _ "[fix_delta e]"]) (auto simp: writer_inv_def log_ok_def)
  qed
qed

lemma violation_kind [simp]:
  "ev_kind (build_invariant_violation_event_with_parent am e m p) = Code"
  by (simp add: build_invariant_violation_event_with_parent_def Let_def)

lemma effect_follows_anything: "event_class (ev_kind e) = Effect \<Longrightarrow> validate_transition p e = None"
  by (simp add: validate_transition_def)

lemma record_rejected_refines:
  assumes "faithful_writer env" and "writer_inv env n w es" and "Suc n < 2 ^ 64"
  shows "call_ok env n es (record_rejected_edge env am held e m parent w)"
  unfolding record_rejected_edge_def Let_def
  using assms call_ok_keep
  by (auto split: prod.split intro!: inner_refines effect_follows_anything)

lemma call_ok_relabel:
  "call_ok env n es (Done, w) \<Longrightarrow> call_ok env n es (Failed err, w)"
  "call_ok env n es (Done, w) \<Longrightarrow> call_ok env n es (Failed err, w\<lparr>bw_pending := p\<rparr>)"
  "call_ok env n es (Done, w) \<Longrightarrow> call_ok env n es (Done, w\<lparr>bw_pending := p\<rparr>)"
  by (auto simp: call_ok_def)

lemma reject_refines:
  assumes "faithful_writer env" and "writer_inv env n w es" and "Suc n < 2 ^ 64"
  shows "call_ok env n es (reject env am held e m parent w)"
  unfolding reject_def Let_def
  using record_rejected_refines [OF assms, of am held e m parent]
  by (auto split: prod.splits Outcome.splits intro: call_ok_relabel)

lemma reject_missing_refines:
  assumes "faithful_writer env" and "writer_inv env n w es" and "Suc n < 2 ^ 64"
  shows "call_ok env n es (reject_missing_successor env am e req w)"
  unfolding reject_missing_successor_def Let_def
  using record_rejected_refines [OF assms, of am False e "missing_successor_message req e" "Some (ps_parent req)"]
  by (auto split: prod.splits Outcome.splits intro: call_ok_relabel)

lemma persist_refines:
  assumes "faithful_writer env" and "writer_inv env n w es" and "Suc n < 2 ^ 64"
    and "\<And>prev. bw_last_event w = Some prev \<Longrightarrow> validate_transition prev e = None"
  shows "call_ok env n es (persist env e override w)"
proof -
  obtain fresh cache where c: "dedup_insert_if_new (event_content_hash env e) (bw_dedup w) = (fresh, cache)"
    by (metis surj_pair)
  have inner: "call_ok env n es (write_canon_event_inner env False e (w\<lparr>bw_dedup := cache\<rparr>))"
      "call_ok env n es (write_canon_event_inner env False e w)"
    using assms by (auto intro!: inner_refines)
  show ?thesis
    unfolding persist_def Let_def c
    using inner call_ok_keep [OF assms(2)] call_ok_keep [of env n "w\<lparr>bw_dedup := cache\<rparr>" es Done] assms(2)
    by (auto simp del: as_str.simps split: prod.splits intro: call_ok_relabel)
qed

lemma write_refines:
  assumes "faithful_writer env" and "writer_inv env n w es" and "Suc n < 2 ^ 64"
  shows "call_ok env n es (write_canon_event env am e w)"
proof -
  have retry: "call_ok env n es res" if "check_invalid_retry env am e w = Some res" for res
    using that reject_refines [OF assms] unfolding check_invalid_retry_def
    by (auto split: if_splits list.splits)
  let ?bad = "Option.bind (bw_last_event w) (\<lambda>prev. map_option (Pair prev) (validate_transition prev e))"
  have pass: "call_ok env n es (case pending_verdict e (bw_pending w) of
      Violates req \<Rightarrow> reject_missing_successor env am e req w
    | Pass True \<Rightarrow> persist env e True (w\<lparr>bw_pending := None\<rparr>) | Pass False \<Rightarrow> persist env e False w)"
    if "?bad = None"
  proof -
    have "validate_transition prev e = None" if "bw_last_event w = Some prev" for prev
      using that \<open>?bad = None\<close> by simp
    then show ?thesis
      using assms reject_missing_refines [OF assms]
      by (auto split: PendingVerdict.split bool.split intro!: persist_refines)
  qed
  show ?thesis
    unfolding write_canon_event_def
  proof (cases "check_invalid_retry env am e w"; cases "validate_event e"; cases ?bad)
  qed (use retry reject_refines [OF assms] pass in \<open>simp_all split: prod.split\<close>)
qed

section \<open>Properties\<close>

lemma run_keeps_log:
  assumes "faithful_writer env" and "writer_inv env n w es" and "n + length calls < 2 ^ 64"
  shows "\<exists>es'. log_ok env (run_writes env calls w) (es @ es')"
  using assms(2,3)
proof (induction calls arbitrary: n w es)
  case Nil
  then show ?case by (intro exI [of _ "[]"]) (simp add: writer_inv_def)
next
  case (Cons call calls)
  obtain am e r w' where c: "call = (am, e)" "write_canon_event env am e w = (r, w')"
    by (metis surj_pair)
  have "call_ok env n es (r, w')"
    using write_refines [OF assms(1) Cons.prems(1), of am e] Cons.prems(2) c(2) by simp
  then obtain es1 where es1: "r \<noteq> Panicked" "if r = Deadlock then log_ok env w' (es @ es1)
      else writer_inv env (Suc n) w' (es @ es1)"
    unfolding call_ok_def fst_conv snd_conv by blast
  show ?case
  proof (cases "r = Deadlock")
    case True
    with es1 c show ?thesis by auto
  next
    case False
    with es1 Cons.IH [of "Suc n" w' "es @ es1"] Cons.prems(2) c show ?thesis by force
  qed
qed

lemma run_extends_log:
  assumes "faithful_writer env" and "writer_inv env n w es" and "n + length (calls @ later) < 2 ^ 64"
  shows "\<exists>es1 es2. log_ok env (run_writes env calls w) es1 \<and>
    log_ok env (run_writes env (calls @ later) w) (es1 @ es2)"
  using assms(2,3)
proof (induction calls arbitrary: n w es)
  case Nil
  then show ?case using run_keeps_log [OF assms(1) Nil(1)] by (auto simp: writer_inv_def)
next
  case (Cons call calls)
  obtain am e r w' where c: "call = (am, e)" "write_canon_event env am e w = (r, w')"
    by (metis surj_pair)
  have "call_ok env n es (r, w')"
    using write_refines [OF assms(1) Cons.prems(1), of am e] Cons.prems(2) c(2) by simp
  then obtain es1 where es1: "r \<noteq> Panicked" "if r = Deadlock then log_ok env w' (es @ es1)
      else writer_inv env (Suc n) w' (es @ es1)"
    unfolding call_ok_def fst_conv snd_conv by blast
  show ?case
  proof (cases "r = Deadlock")
    case True
    with es1 c show ?thesis by (intro exI [of _ "es @ es1"] exI [of _ "[]"]) simp
  next
    case False
    with es1 Cons.IH [of "Suc n" w' "es @ es1"] Cons.prems(2) c show ?thesis by force
  qed
qed

lemma open_empty:
  assumes "sane_config cfg" and "open_with_config env [] cfg = Some w"
  shows "writer_inv env 0 w []"
proof -
  have "bw_dir w = [(0, \<lparr> sg_log = [], sg_idx = [], sg_time = [] \<rparr>)] \<and> bw_config w = cfg \<and> bw_seq w = 0 \<and>
      sf_base (bw_inner w) = 0 \<and> sf_size (bw_inner w) = 0 \<and> bw_last_event w = None"
    using assms
    by (auto simp: open_with_config_def find_latest_segment_def recover_segment_def Let_def
        open_new_segment_files_def segment_log_def retain_def sane_config_def split: if_splits)
  with assms(1) show ?thesis
    using holds_empty [of "we_reader env"]
    by (auto simp: writer_inv_def log_ok_def active_inv_def holds_all_def legal_log_def
        intro!: exI [of _ "[[]]"])
qed


text \<open>A concrete environment: one event, serialised as the text \<open>1\<close>.\<close>

definition sample_tick :: CanonEvent where
  "sample_tick = new_root_event ''t'' ''test'' Tick 5 (sample_payload (JObject []))"

definition sample_writer_env :: WriterEnv where
  "sample_writer_env =
     \<lparr> we_reader =
         \<lparr> rd_event_from_str = (\<lambda>s. if s = ''1'' then Some sample_tick else None),
           rd_legacy_from_str = (\<lambda>_. None), rd_kind_from_str = (\<lambda>_. None), rd_new_event_id = ''new'' \<rparr>,
       we_to_vec = (\<lambda>e. if e = sample_tick then Some [0x31] else None),
       we_hash = (\<lambda>_ _ _. 0) \<rparr>"

definition sample_ambient :: Ambient where
  "sample_ambient =
     \<lparr> am_now = 9, am_parent_id = ''p'', am_event_id = ''v'', am_meta = \<lparr> pm_file = ''f'', pm_line = 1 \<rparr> \<rparr>"

lemma sample_text: "from_utf8 [0x31] = Some ''1''"
  by code_simp

lemma sample_faithful: "faithful_writer sample_writer_env"
  by (simp add: faithful_writer_def sample_writer_env_def decode_record_def sample_text)

lemma sample_config: "sane_config default_segment_config"
  by (simp add: sane_config_def default_segment_config_def)

lemma open_empty_defined: "open_with_config env [] cfg = Some (the (open_with_config env [] cfg))"
  by (simp add: open_with_config_def find_latest_segment_def recover_segment_def Let_def
      open_new_segment_files_def segment_log_def)


end
