(* ===== verification/Tlog_Failures.thy ===== *)
theory Tlog_Failures
  imports Tlog_Properties
begin

text \<open>
  The failure paths of the log: what a rejection does to the writer, what a reopened directory
  loses, what the sparse index finds, and the convenience emitter of
  \<^verbatim>\<open>canon-runtime-events/src/emit.rs\<close>.
\<close>

section \<open>Emitting\<close>

definition emitted_kind :: "string \<Rightarrow> EventKind" where
  "emitted_kind kind =
     (if kind = ''edit_event'' \<or> kind = ''edit'' then Edit
      else if kind = ''runtime_started'' then RuntimeStarted
      else Debug)"

text \<open>The writer of the resolved directory comes from the thread-local cache.\<close>

definition emit_event ::
  "WriterEnv \<Rightarrow> Ambient \<Rightarrow> EventId \<Rightarrow> string \<Rightarrow> string \<Rightarrow> json \<Rightarrow> BinarySegmentWriter
     \<Rightarrow> Outcome \<times> BinarySegmentWriter" where
  "emit_event env am eid source kind payload w =
     write_canon_event env am
       \<lparr> ev_id = eid, ev_parent_ids = [], ev_actor = source, ev_kind = emitted_kind kind,
         ev_ts = am_now am,
         ev_payload = \<lparr> pl_input = JObject [], pl_output = JObject [], pl_delta = JObject [],
                        pl_meta = am_meta am, pl_data = payload \<rparr>,
         ev_prev_event_id = None \<rparr> w"

definition emit_edit_event ::
  "WriterEnv \<Rightarrow> Ambient \<Rightarrow> EventId \<Rightarrow> json \<Rightarrow> BinarySegmentWriter \<Rightarrow> Outcome \<times> BinarySegmentWriter" where
  "emit_edit_event env am eid payload w = emit_event env am eid ''canon-editor'' ''edit_event'' payload w"

lemma reject_not_done: "fst (reject env am held e m parent w) \<noteq> Done"
  by (auto simp: reject_def Let_def split: prod.splits Outcome.splits)

text \<open>The emitter never succeeds: it builds its event with an empty delta and a kind for which
  the gate forbids an empty delta, so \<open>emit_event\<close>, and with it \<open>emit_edit_event\<close>, is
  rejected in every state of the writer, for every source, kind and payload.\<close>

theorem emit_event_is_always_rejected:
  "fst (emit_event env am eid source kind payload w) \<noteq> Done \<and>
   fst (emit_edit_event env am eid payload w) \<noteq> Done"
proof -
  have "fst (emit_event env am eid source kind payload w) \<noteq> Done" for source kind
    using reject_not_done
    by (auto simp: emit_event_def write_canon_event_def check_invalid_retry_def validate_event_def
        emitted_kind_def)
  then show ?thesis by (simp add: emit_edit_event_def)
qed

section \<open>Rejections\<close>

lemma append_record_ok:
  "sc_index_stride cfg \<noteq> 0 \<Longrightarrow> sc_time_bucket_ms cfg \<noteq> 0 \<Longrightarrow>
   fst (append_record cfg seq ts fr dir files)"
  by (simp add: append_record_def Let_def)

lemma violation_payload [simp]:
  "\<not> json_is_null (pl_input (ev_payload (build_invariant_violation_event_with_parent am e m p)))"
  "\<not> json_is_null (pl_output (ev_payload (build_invariant_violation_event_with_parent am e m p)))"
  "\<not> json_is_null (pl_delta (ev_payload (build_invariant_violation_event_with_parent am e m p)))"
  "ev_ts (build_invariant_violation_event_with_parent am e m p) = am_now am"
  "ev_parent_ids (build_invariant_violation_event_with_parent am e m p) = [p]"
  by (simp_all add: build_invariant_violation_event_with_parent_def violation_value_def Let_def)

text \<open>Recording a new violation with a working clock and serialiser reaches the last lock.\<close>

lemma record_new_violation:
  assumes "\<not> is_invariant_violation_event e"
    and "\<lparr> re_parent = p, re_kind = as_str (ev_kind e), re_fingerprint = event_content_hash env e \<rparr>
        \<notin> de_seen (bw_rejected_edges w)"
    and "bw_last_ts w \<le> am_now am"
    and "we_to_vec env (fix_delta (build_invariant_violation_event_with_parent am e m p)) \<noteq> None"
    and "sc_index_stride (bw_config w) \<noteq> 0" and "sc_time_bucket_ms (bw_config w) \<noteq> 0"
  shows "\<exists>w'. record_rejected_edge env am held e m (Some p) w =
      (if held then Deadlock else Done, w') \<and> bw_pending w' = bw_pending w \<and>
      (\<not> held \<longrightarrow> bw_last_event w' = Some (fix_delta (build_invariant_violation_event_with_parent am e m p)))"
proof -
  let ?edge = "\<lparr> re_parent = p, re_kind = as_str (ev_kind e), re_fingerprint = event_content_hash env e \<rparr>"
  obtain payload where enc: "we_to_vec env (fix_delta (build_invariant_violation_event_with_parent am e m p)) =
      Some payload" using assms(4) by blast
  obtain cache where "edges_insert_if_new ?edge (bw_rejected_edges w) = (True, cache)"
    using edges.ins_fresh [OF assms(2)] by (metis prod.collapse)
  moreover have "fst (append_record (bw_config w) s ts fr d fs)" for s ts fr d fs
    by (rule append_record_ok [OF assms(5,6)])
  ultimately show ?thesis
    using assms(1,3) enc
    by (auto simp: record_rejected_edge_def write_canon_event_inner_def Let_def not_less
        simp del: as_str.simps split: prod.splits) (metis fst_conv)+
qed

text \<open>The first illegal transition hangs the writer. The check holds the lock of the last event
  while it records the violation, and recording ends by taking that lock again: when an event is
  well formed, its transition from the last event is illegal, the edge was not rejected before,
  and the clock and the serialiser work, the call does not return.\<close>

theorem illegal_transition_deadlocks:
  assumes "validate_event e = None" and "\<not> is_invariant_violation_event e"
    and "check_invalid_retry env am e w = None"
    and "bw_last_event w = Some prev" and "validate_transition prev e = Some err"
    and "\<lparr> re_parent = ev_id prev, re_kind = as_str (ev_kind e),
           re_fingerprint = event_content_hash env e \<rparr> \<notin> de_seen (bw_rejected_edges w)"
    and "bw_last_ts w \<le> am_now am"
    and "we_to_vec env (fix_delta (build_invariant_violation_event_with_parent am e err (ev_id prev))) \<noteq> None"
    and "sc_index_stride (bw_config w) \<noteq> 0" and "sc_time_bucket_ms (bw_config w) \<noteq> 0"
  shows "fst (write_canon_event env am e w) = Deadlock"
  using record_new_violation [OF assms(2,6-10), of True] assms(1,3,4,5)
  by (auto simp: write_canon_event_def reject_def)

definition total_env :: WriterEnv where
  "total_env = sample_writer_env\<lparr>we_to_vec := \<lambda>_. Some [0x31]\<rparr>"

definition sample_event :: "EventKind \<Rightarrow> CanonEvent" where
  "sample_event k = new_root_event ''e'' ''test'' k 5
     (sample_payload (JObject [(''approved_route'', JString ''observe'')]))"

definition sample_writer :: "CanonEvent \<Rightarrow> BinarySegmentWriter" where
  "sample_writer prev =
     \<lparr> bw_dir = [(0, \<lparr> sg_log = [], sg_idx = [], sg_time = [] \<rparr>)], bw_config = default_segment_config,
       bw_seq = 1, bw_last_ts = 5,
       bw_inner = \<lparr> sf_base = 0, sf_size = 0, sf_last_time_bucket = None, sf_records = 0 \<rparr>,
       bw_dedup = new_dedup 1024, bw_rejected_edges = new_dedup_edges 1024,
       bw_last_event = Some prev,
       bw_pending = map_option pending_of (required_successor prev) \<rparr>"

lemmas sample_writer_defs = sample_writer_def sample_event_def sample_payload_def new_root_event_def
  total_env_def sample_ambient_def default_segment_config_def new_dedup_edges_def

theorem illegal_transition_deadlocks_witness:
  "fst (write_canon_event total_env sample_ambient (sample_event LoopObserved)
     (sample_writer (sample_event LoopObserved))) = Deadlock"
  by (rule illegal_transition_deadlocks [where prev = "sample_event LoopObserved"
        and err = "''invariant violation: illegal transition loop_observed -> loop_observed''"])
    (simp_all add: sample_writer_defs validate_event_def is_invariant_violation_event_def
      check_invalid_retry_def validate_transition_def)

text \<open>C29: A missed obligation is only enforced once. When an event is rejected because the required
  successor is missing, the obligation is dropped and the recorded violation becomes the last
  event; so in the state left behind every well-formed event that is not itself a rejected edge
  passes the gate, whatever the control state was.\<close>

theorem missing_successor_rejection_unlocks:
  assumes "check_invalid_retry env am e w = None" and "validate_event e = None"
    and "\<not> is_invariant_violation_event e"
    and "\<And>prev. bw_last_event w = Some prev \<Longrightarrow> validate_transition prev e = None"
    and "bw_pending w = Some req" and "pending_verdict e (Some req) = Violates req"
    and "\<lparr> re_parent = ps_parent req, re_kind = as_str (ev_kind e),
           re_fingerprint = event_content_hash env e \<rparr> \<notin> de_seen (bw_rejected_edges w)"
    and "bw_last_ts w \<le> am_now am"
    and "we_to_vec env (fix_delta (build_invariant_violation_event_with_parent am e
           (missing_successor_message req e) (ps_parent req))) \<noteq> None"
    and "sc_index_stride (bw_config w) \<noteq> 0" and "sc_time_bucket_ms (bw_config w) \<noteq> 0"
  shows "\<exists>w'. write_canon_event env am e w = (Failed (Rejected (missing_successor_message req e)), w') \<and>
    (\<forall>am2 e2. check_invalid_retry env am2 e2 w' = None \<longrightarrow> validate_event e2 = None \<longrightarrow>
       write_canon_event env am2 e2 w' = persist env e2 False w')"
proof -
  let ?m = "missing_successor_message req e"
  let ?v = "fix_delta (build_invariant_violation_event_with_parent am e ?m (ps_parent req))"
  obtain w1 where w1: "record_rejected_edge env am False e ?m (Some (ps_parent req)) w = (Done, w1)"
      "bw_last_event w1 = Some ?v"
    using record_new_violation [OF assms(3,7-11), of False] by auto
  have gate: "Option.bind (bw_last_event w) (\<lambda>prev. map_option (Pair prev) (validate_transition prev e)) = None"
    using assms(4) by (cases "bw_last_event w") auto
  have "write_canon_event env am e w = (Failed (Rejected ?m), w1\<lparr>bw_pending := None\<rparr>)"
    using assms(1,2,5,6) gate w1(1) by (simp add: write_canon_event_def reject_missing_successor_def)
  moreover have "write_canon_event env am2 e2 (w1\<lparr>bw_pending := None\<rparr>) =
      persist env e2 False (w1\<lparr>bw_pending := None\<rparr>)"
    if "check_invalid_retry env am2 e2 (w1\<lparr>bw_pending := None\<rparr>) = None" "validate_event e2 = None" for am2 e2
    using that w1(2) by (simp add: write_canon_event_def pending_verdict_def validate_transition_def)
  ultimately show ?thesis by blast
qed

theorem missing_successor_rejection_unlocks_witness:
  "\<exists>req w'. write_canon_event total_env sample_ambient (sample_event LoopActed)
      (sample_writer (sample_event RouteSelected)) =
      (Failed (Rejected (missing_successor_message req (sample_event LoopActed))), w') \<and>
    ps_expected req = LoopObserved \<and>
    (\<forall>am2 e2. check_invalid_retry total_env am2 e2 w' = None \<longrightarrow> validate_event e2 = None \<longrightarrow>
       write_canon_event total_env am2 e2 w' = persist total_env e2 False w')"
proof -
  let ?req = "\<lparr> ps_expected = LoopObserved, ps_parent = ''e'', ps_source_kind = RouteSelected,
    ps_note = ''approved_route=observe'' \<rparr>"
  have req: "bw_pending (sample_writer (sample_event RouteSelected)) = Some ?req"
    by (simp add: sample_writer_defs successor_defs route_selected_target_def json_get_str_def)
  have "\<exists>w'. write_canon_event total_env sample_ambient (sample_event LoopActed)
      (sample_writer (sample_event RouteSelected)) =
      (Failed (Rejected (missing_successor_message ?req (sample_event LoopActed))), w') \<and>
    (\<forall>am2 e2. check_invalid_retry total_env am2 e2 w' = None \<longrightarrow> validate_event e2 = None \<longrightarrow>
       write_canon_event total_env am2 e2 w' = persist total_env e2 False w')"
  proof (rule missing_successor_rejection_unlocks [OF _ _ _ _ req])
    show "validate_transition prev (sample_event LoopActed) = None"
      if "bw_last_event (sample_writer (sample_event RouteSelected)) = Some prev" for prev
      using that by (auto simp: sample_writer_defs validate_transition_def)
  qed (simp_all add: sample_writer_defs validate_event_def is_invariant_violation_event_def
      check_invalid_retry_def pending_verdict_def)
  then show ?thesis by (intro exI [of _ ?req]) simp
qed

section \<open>Reopening\<close>

lemma log_events_by_key:
  assumes "distinct (map fst dir)"
  shows "log_events env dir =
    concat (map (\<lambda>s. read_binary_events env (segment_log dir s)) (sort (map fst dir)))"
proof -
  have "sort (map fst dir) = map fst (sort_key fst dir)"
    by (rule properties_for_sort) simp_all
  moreover have "(case x of (_, sg) \<Rightarrow> read_binary_events env (sg_log sg)) =
      read_binary_events env (segment_log dir (fst x))" if "x \<in> set (sort_key fst dir)" for x
    using that assms by (auto simp: segment_log_def split: prod.splits)
  ultimately show ?thesis
    unfolding log_events_def by (auto intro!: arg_cong [of _ _ concat])
qed

abbreviation empty_segment :: Segment where
  "empty_segment \<equiv> \<lparr> sg_log = [], sg_idx = [], sg_time = [] \<rparr>"

lemma open_new_truncated:
  "map_of dir b = Some empty_segment \<Longrightarrow> open_new_segment_files dir b =
     (AList.update b empty_segment dir,
      \<lparr> sf_base = b, sf_size = 0, sf_last_time_bucket = None, sf_records = 0 \<rparr>)"
  by (simp add: open_new_segment_files_def segment_log_def)

lemma reopen_state:
  assumes "find_latest_segment dir = Some b" and "map_of dir b = Some sg"
    and "is_binary_magic (sg_log sg)" and "sc_retain_segments cfg = None"
    and "open_with_config env dir cfg = Some w"
  shows "\<exists>n. bw_dir w = (AList.update b empty_segment ^^ n) dir \<and> 0 < n \<and>
    bw_last_event w = None \<and> bw_pending w = None"
proof -
  have "bw_dir w = (AList.update b empty_segment ^^ (if sc_max_bytes cfg = 0 then 5 else 4)) dir \<and>
    bw_last_event w = None \<and> bw_pending w = None"
    using assms
    by (simp add: open_with_config_def recover_segment_def open_new_truncated Let_def retain_def
        numeral_eq_Suc split: if_splits) (auto simp: numeral_eq_Suc)
  then show ?thesis by (intro exI [of _ "if sc_max_bytes cfg = 0 then 5 else 4"]) simp
qed

lemma update_keys: "b \<in> fst ` set dir \<Longrightarrow> map fst (AList.update b v dir) = map fst dir"
  by (induction dir) auto

lemma update_iterated:
  assumes "b \<in> fst ` set dir" and "0 < n"
  shows "map fst ((AList.update b v ^^ n) dir) = map fst dir \<and>
    map_of ((AList.update b v ^^ n) dir) s = (if s = b then Some v else map_of dir s)"
proof -
  have keys: "map fst ((AList.update b v ^^ k) dir) = map fst dir" for k
  proof (induction k)
    case (Suc k)
    then have "b \<in> fst ` set ((AList.update b v ^^ k) dir)" using assms(1) by (metis image_set)
    with Suc show ?case by (simp add: update_keys)
  qed simp
  obtain k where "n = Suc k" using assms(2) by (cases n) auto
  moreover have "map_of ((AList.update b v ^^ Suc k) dir) s = (if s = b then Some v else map_of dir s)" for k
    by (induction k) simp_all
  ultimately show ?thesis using keys [of n] by metis
qed

text \<open>C30: Opening a log erases its last segment. The writer starts every log with the magic number,
  and recovery takes exactly that number as the mark of a legacy file to be discarded: after
  opening, the events of the newest segment are gone, those of the older segments remain, and
  neither the last event nor its obligation is recovered.\<close>

theorem reopen_erases_newest_segment:
  assumes "distinct (map fst dir)" and "find_latest_segment dir = Some b" and "map_of dir b = Some sg"
    and "is_binary_magic (sg_log sg)" and "sc_retain_segments cfg = None"
    and "open_with_config env dir cfg = Some w"
  shows "log_events (we_reader env) (bw_dir w) =
      concat (map (\<lambda>s. if s = b then [] else read_binary_events (we_reader env) (segment_log dir s))
        (sort (map fst dir))) \<and>
    log_events (we_reader env) dir =
      concat (map (\<lambda>s. read_binary_events (we_reader env) (segment_log dir s)) (sort (map fst dir))) \<and>
    bw_last_event w = None \<and> bw_pending w = None"
proof -
  obtain n where n: "bw_dir w = (AList.update b empty_segment ^^ n) dir" "0 < n"
      "bw_last_event w = None" "bw_pending w = None"
    using reopen_state [OF assms(2-6)] by blast
  have "b \<in> fst ` set dir" using assms(3) by (metis image_eqI fst_conv map_of_SomeD)
  note upd = update_iterated [OF this n(2), of empty_segment]
  have keys: "map fst (bw_dir w) = map fst dir" using upd n(1) by simp
  have "segment_log (bw_dir w) s = (if s = b then [] else segment_log dir s)" for s
    using upd [of s] n(1) by (simp add: segment_log_def)
  moreover have "read_binary_events (we_reader env) [] = []"
    by (rule holds_read [OF holds_empty])
  ultimately have "(\<lambda>s. read_binary_events (we_reader env) (segment_log (bw_dir w) s)) =
      (\<lambda>s. if s = b then [] else read_binary_events (we_reader env) (segment_log dir s))"
    by (simp add: fun_eq_iff)
  with log_events_by_key [of "bw_dir w"] log_events_by_key [OF assms(1)] keys assms(1) n(3,4)
  show ?thesis by simp
qed

definition written_dir :: directory where
  "written_dir = [(0, \<lparr> sg_log = u32_le_bytes MAGIC @ frame [0x31], sg_idx = [], sg_time = [] \<rparr>)]"

lemma open_written_defined:
  "open_with_config env written_dir cfg = Some (the (open_with_config env written_dir cfg))"
  by (simp add: open_with_config_def written_dir_def find_latest_segment_def recover_segment_def Let_def
      is_binary_magic_def open_new_segment_files_def split: prod.split)

theorem reopen_erases_newest_segment_witness:
  "log_events (we_reader sample_writer_env) written_dir = [sample_tick] \<and>
   log_events (we_reader sample_writer_env)
     (bw_dir (the (open_with_config sample_writer_env written_dir default_segment_config))) = []"
proof -
  have "encodes (we_reader sample_writer_env) [0x31] sample_tick"
    using sample_faithful by (simp add: faithful_writer_def encodes_def sample_writer_env_def)
  then have "segment_holds (we_reader sample_writer_env) (u32_le_bytes MAGIC @ frame [0x31]) [sample_tick]"
    unfolding segment_holds_def
    by (intro exI [of _ "[[0x31]]"] exI [of _ "u32_le_bytes MAGIC"]) simp
  then have read: "read_binary_events (we_reader sample_writer_env) (u32_le_bytes MAGIC @ frame [0x31]) =
      [sample_tick]" by (rule holds_read)
  have "find_latest_segment written_dir = Some 0" "distinct (map fst written_dir)"
      "map_of written_dir 0 = Some \<lparr> sg_log = u32_le_bytes MAGIC @ frame [0x31], sg_idx = [], sg_time = [] \<rparr>"
      "is_binary_magic (u32_le_bytes MAGIC @ frame [0x31])"
      "sc_retain_segments default_segment_config = None"
    by (simp_all add: find_latest_segment_def written_dir_def is_binary_magic_def default_segment_config_def)
  with reopen_erases_newest_segment [OF _ _ _ _ _ open_written_defined] read show ?thesis
    by (fastforce simp: written_dir_def segment_log_def)
qed

section \<open>The sparse index\<close>

text \<open>The index entry the writer stores for a record: its number and its position in the file.\<close>

definition index_entry :: "u64 \<Rightarrow> nat \<Rightarrow> bytes" where
  "index_entry seq pos = u64_le_bytes seq @ u64_le_bytes (of_nat pos)"

lemma index_position_single:
  "index_position seq (index_entry seq pos) p = of_nat pos"
  using read_u64_le_bytes [of "of_nat pos" "[]"]
  by (subst index_position.simps) (simp add: index_entry_def index_position.simps)

lemma read_u32_id_text: "read_u32 ([0x7B, 0x22, 0x69, 0x64] @ rest) = 0x6469227B"
  by (simp add: read_u32_def)

text \<open>An indexed read returns nothing. The writer stores the position of a record in the file, the
  reader removes the magic number first and then applies that position, so it starts four bytes
  too late, at the JSON text itself; the opening bytes of a serialised event, read as a length,
  exceed any segment below 1.6 GB, and every record from the requested one on is skipped.\<close>

theorem indexed_read_returns_nothing:
  assumes "list_all2 (encodes env) ps es" and "i < length ps"
    and "take 4 (ps ! i) = [0x7B, 0x22, 0x69, 0x64]"
    and "length (frames ps) < 1600000000"
  shows "read_binary_events_from_segment_with_start_seq env
      (Some (index_entry seq (4 + length (frames (take i ps))))) (u32_le_bytes MAGIC @ frames ps) seq = []"
proof -
  let ?pos = "4 + length (frames (take i ps))"
  have split: "frames ps = frames (take i ps) @ frame (ps ! i) @ frames (drop (Suc i) ps)"
    using id_take_nth_drop [OF assms(2)] by (metis concat.simps(2) concat_append list.simps(9) map_append)
  then have len: "length (frames ps) =
      length (frames (take i ps)) + (4 + length (ps ! i)) + length (frames (drop (Suc i) ps))" by simp
  have ne: "frames ps \<noteq> []" unfolding split by (simp add: frame_def u32_le_bytes_def)
  have pos: "unat (of_nat ?pos :: u64) = ?pos"
    using assms(4) len by (intro unat_small) simp
  have "drop ?pos (frames ps) = ps ! i @ frames (drop (Suc i) ps)"
    unfolding split by (simp add: frame_def)
  moreover have json_text: "ps ! i = [0x7B, 0x22, 0x69, 0x64] @ drop 4 (ps ! i)"
    using append_take_drop_id [of 4 "ps ! i"] assms(3) by simp
  have "read_u32 (ps ! i @ rest) = 0x6469227B" for rest
    using read_u32_id_text [of "drop 4 (ps ! i) @ rest"] by (subst json_text) simp
  then have "scan_frames (ps ! i @ frames (drop (Suc i) ps)) = []"
    using len assms(4) by (subst scan_frames.simps) (simp add: Let_def)
  moreover have "?pos \<le> length (frames ps)" using len by simp
  ultimately show ?thesis
    using strip_magic_header [OF ne]
    by (simp add: read_binary_events_from_segment_with_start_seq_def index_position_single pos
        read_events_def map_filter_simps del: of_nat_add)
qed

definition id_text :: bytes where
  "id_text = [0x7B, 0x22, 0x69, 0x64]"

definition id_reader :: ReaderEnv where
  "id_reader = (we_reader sample_writer_env)\<lparr>rd_event_from_str := \<lambda>s. Some sample_tick\<rparr>"

lemma id_text_encodes: "encodes id_reader id_text sample_tick"
proof -
  have "from_utf8 id_text \<noteq> None" unfolding id_text_def by code_simp
  then show ?thesis
    by (auto simp: encodes_def decode_record_def id_reader_def id_text_def)
qed

theorem indexed_read_returns_nothing_witness:
  "read_binary_events_from_segment_with_start_seq id_reader
     (Some (index_entry 1 (4 + length (frames (take 1 [id_text, id_text])))))
     (u32_le_bytes MAGIC @ frames [id_text, id_text]) 1 = []"
  by (rule indexed_read_returns_nothing [where es = "[sample_tick, sample_tick]"])
    (simp_all add: id_text_encodes, simp_all add: id_text_def)

end
