(* ===== verification/Route_Gate.thy ===== *)
theory Route_Gate
  imports Canon_Prelude
begin

text \<open>
  Choosing and gating a route: the parsing of the router's answer
  (\<^verbatim>\<open>canon-decision/src/lib.rs\<close>) and the gatekeeper that reviews the chosen route against the
  runtime signals (\<^verbatim>\<open>canon-judgment/src/lib.rs\<close>). The decoders of serde are parameters. The
  conversion of JSON numbers to \<^verbatim>\<open>f32\<close> signals and the prompt text are not modelled.
\<close>

section \<open>Routes and their selection\<close>

datatype RouteKind = Observe | Plan | Act | Verify | Conclude | Decompose

fun route_kind_as_str :: "RouteKind \<Rightarrow> string" where
  "route_kind_as_str Observe = ''observe''"
| "route_kind_as_str Plan = ''plan''"
| "route_kind_as_str Act = ''act''"
| "route_kind_as_str Verify = ''verify''"
| "route_kind_as_str Conclude = ''conclude''"
| "route_kind_as_str Decompose = ''decompose''"

record RouteSelection =
  sel_route :: RouteKind
  sel_rationale :: string
  sel_confidence :: "f32 option"
  sel_signals :: json

datatype SelectionError =
    EmptyRationale
  | RouteNotAllowed RouteKind
  | ConfidenceOutOfRange
  | NotASelection
  | NotJson

text \<open>The lines between a pair of fences, trimmed, for every pair.\<close>

fun fenced_loop :: "string list \<Rightarrow> bool \<Rightarrow> string \<Rightarrow> string list" where
  "fenced_loop [] in_fence current = []"
| "fenced_loop (line # lines) in_fence current =
     (if \<not> in_fence then
        (if prefix ''```'' (trim_start line) then fenced_loop lines True ''''
         else fenced_loop lines False current)
      else if prefix ''```'' (trim_start line) then trim current # fenced_loop lines False ''''
      else fenced_loop lines True (current @ line @ [CHR 0x0A]))"

definition extract_fenced_blocks :: "string \<Rightarrow> string list" where
  "extract_fenced_blocks txt = fenced_loop (str_lines txt) False ''''"

definition parse_json_candidates :: "(string \<Rightarrow> json option) \<Rightarrow> string \<Rightarrow> json list" where
  "parse_json_candidates from_json raw =
     (let trimmed = trim raw
      in (case from_json trimmed of Some v \<Rightarrow> [v] | None \<Rightarrow> []) @
         List.map_filter from_json (extract_fenced_blocks trimmed))"

text \<open>One iteration: an error to remember, or the selection to return.\<close>

definition check_selection :: "RouteKind list \<Rightarrow> RouteSelection option \<Rightarrow> SelectionError + RouteSelection" where
  "check_selection allowed parsed =
     (case parsed of
        None \<Rightarrow> Inl NotASelection
      | Some sel \<Rightarrow>
          if trim (sel_rationale sel) = [] then Inl EmptyRationale
          else if sel_route sel \<notin> set allowed then Inl (RouteNotAllowed (sel_route sel))
          else if (case sel_confidence sel of
                     None \<Rightarrow> False
                   | Some c \<Rightarrow> \<not> (f32_le f32_0 c \<and> f32_le c f32_1)) then Inl ConfidenceOutOfRange
          else Inr (if json_is_null (sel_signals sel) then sel\<lparr>sel_signals := JObject []\<rparr> else sel))"

fun selection_loop ::
  "(json \<Rightarrow> RouteSelection option) \<Rightarrow> RouteKind list \<Rightarrow> json list \<Rightarrow> SelectionError option
     \<Rightarrow> SelectionError + RouteSelection" where
  "selection_loop from_value allowed [] last_err =
     Inl (case last_err of Some err \<Rightarrow> err | None \<Rightarrow> NotJson)"
| "selection_loop from_value allowed (v # vs) last_err =
     (case check_selection allowed (from_value v) of
        Inl err \<Rightarrow> selection_loop from_value allowed vs (Some err)
      | Inr sel \<Rightarrow> Inr sel)"

definition parse_route_selection ::
  "(string \<Rightarrow> json option) \<Rightarrow> (json \<Rightarrow> RouteSelection option) \<Rightarrow> string \<Rightarrow> RouteKind list
     \<Rightarrow> SelectionError + RouteSelection" where
  "parse_route_selection from_json from_value raw allowed =
     selection_loop from_value allowed (parse_json_candidates from_json raw) None"

section \<open>The gatekeeper\<close>

record LlmSignals =
  ls_goal_alignment_score :: f32
  ls_confidence :: f32
  ls_task_completion_likelihood :: f32
  ls_error_likelihood :: f32
  ls_plan_validity :: f32
  ls_state_consistency :: f32
  ls_action_effectiveness :: f32
  ls_progress_score :: f32
  ls_blocking_severity :: f32
  ls_ambiguity_level :: f32
  ls_context_completeness :: f32
  ls_plan_optimality :: f32
  ls_redundancy_level :: f32
  ls_recovery_difficulty :: f32
  ls_tool_reliability :: f32
  ls_execution_risk :: f32
  ls_verification_coverage :: f32
  ls_change_impact :: f32
  ls_stability_score :: f32
  ls_iteration_efficiency :: f32
  ls_novelty_score :: f32
  ls_dependency_health :: f32
  ls_resource_efficiency :: f32
  ls_termination_readiness :: f32

record GuardConfig =
  gc_max_cycles :: u32
  gc_max_repeat_lane :: u32
  gc_minimum_confidence :: "f32 option"
  gc_fallback_lane :: RouteKind

definition default_guard_config :: GuardConfig where
  "default_guard_config =
     \<lparr> gc_max_cycles = 64, gc_max_repeat_lane = 3, gc_minimum_confidence = Some f32_0_2,
       gc_fallback_lane = Observe \<rparr>"

record RuntimeSignals =
  rs_context_ready :: bool
  rs_has_queued_plan :: bool
  rs_performed_recently :: bool
  rs_repair_stalled :: bool
  rs_repair_pressure_score :: u32
  rs_finish_ready :: bool
  rs_last_action_kind :: string
  rs_llm_signals :: "LlmSignals option"
  rs_goodness :: "f32 option"
  rs_delta_g :: "f32 option"

record GateState =
  gs_cycle_count :: u32
  gs_previous_lane :: "RouteKind option"
  gs_repeat_count :: u32

definition default_gate_state :: GateState where
  "default_gate_state = \<lparr> gs_cycle_count = 0, gs_previous_lane = None, gs_repeat_count = 0 \<rparr>"

record GateResult =
  gr_lane :: RouteKind
  gr_changed :: bool
  gr_note :: string
  gr_should_stop :: bool

record Gatekeeper =
  gk_cfg :: GuardConfig
  gk_state :: GateState

definition new_gatekeeper :: "GuardConfig \<Rightarrow> Gatekeeper" where
  "new_gatekeeper cfg = \<lparr> gk_cfg = cfg, gk_state = default_gate_state \<rparr>"

text \<open>The variables \<open>lane\<close>, \<open>changed\<close> and \<open>notes\<close> of a review, and a rule that fires.\<close>

record Review =
  rv_lane :: RouteKind
  rv_changed :: bool
  rv_notes :: "string list"

definition redirect :: "RouteKind \<Rightarrow> string \<Rightarrow> Review \<Rightarrow> Review" where
  "redirect lane note r = r\<lparr>rv_lane := lane, rv_changed := True, rv_notes := rv_notes r @ [note]\<rparr>"

text \<open>The UTF-8 bytes of the arrow and of the dash in the notes.\<close>

definition arrow :: string where
  "arrow = [CHR 0xE2, CHR 0x86, CHR 0x92]"

definition en_dash :: string where
  "en_dash = [CHR 0xE2, CHR 0x80, CHR 0x93]"

text \<open>The signal rules in source order: guard over signals and current lane, target, note.\<close>

definition signal_rules ::
  "((LlmSignals \<Rightarrow> RuntimeSignals \<Rightarrow> RouteKind \<Rightarrow> bool) \<times> RouteKind \<times> string) list" where
  "signal_rules =
     [(\<lambda>s sg lane. f32_lt (ls_goal_alignment_score s) f32_0_3, Plan,
        ''sig:goal_align<0.3[critical] '' @ arrow @ '' plan''),
      (\<lambda>s sg lane. f32_lt (ls_state_consistency s) f32_0_4, Observe,
        ''sig:state_consistency<0.4[critical] '' @ arrow @ '' observe''),
      (\<lambda>s sg lane. f32_lt (ls_plan_validity s) f32_0_5 \<and>
         \<not> rs_has_queued_plan sg, Plan,
        ''sig:plan_validity<0.5[critical] '' @ arrow @ '' plan''),
      (\<lambda>s sg lane. f32_lt f32_0_8 (ls_blocking_severity s), Observe,
        ''sig:blocking_severity>0.8[critical] '' @ arrow @ '' observe''),
      (\<lambda>s sg lane. f32_lt (ls_context_completeness s) f32_0_3, Observe,
        ''sig:context_completeness<0.3[critical] '' @ arrow @ '' observe''),
      (\<lambda>s sg lane. f32_lt f32_0_8 (ls_execution_risk s), Plan,
        ''sig:execution_risk>0.8[critical] '' @ arrow @ '' plan''),
      (\<lambda>s sg lane. f32_lt f32_0_8 (ls_recovery_difficulty s), Verify,
        ''sig:recovery_difficulty>0.8[critical] '' @ arrow @ '' verify''),
      (\<lambda>s sg lane. f32_lt (ls_goal_alignment_score s) f32_0_5 \<and>
         f32_le f32_0_3 (ls_goal_alignment_score s) \<and> \<not> rs_has_queued_plan sg, Plan,
        ''sig:goal_align 0.3'' @ en_dash @ ''0.5[warning] '' @ arrow @ '' plan''),
      (\<lambda>s sg lane. f32_lt (ls_confidence s) f32_0_4 \<and> lane = Act, Observe,
        ''sig:confidence<0.4[critical] '' @ arrow @ '' observe''),
      (\<lambda>s sg lane. f32_le f32_0_4 (ls_confidence s) \<and>
         f32_lt (ls_confidence s) f32_0_6 \<and> lane = Act, Verify,
        ''sig:confidence 0.4'' @ en_dash @ ''0.6[warning] '' @ arrow @ '' verify''),
      (\<lambda>s sg lane. f32_le f32_0_6 (ls_execution_risk s) \<and>
         f32_le (ls_execution_risk s) f32_0_8 \<and> lane = Act, Verify,
        ''sig:execution_risk 0.6'' @ en_dash @ ''0.8[warning] '' @ arrow @ '' verify''),
      (\<lambda>s sg lane. f32_lt f32_0_7 (ls_error_likelihood s) \<and> lane = Act, Verify,
        ''sig:error_likelihood>0.7[critical] '' @ arrow @ '' verify''),
      (\<lambda>s sg lane. f32_le f32_0_5 (ls_error_likelihood s) \<and>
         f32_le (ls_error_likelihood s) f32_0_7 \<and> lane = Act, Verify,
        ''sig:error_likelihood 0.5'' @ en_dash @ ''0.7[warning] '' @ arrow @ '' verify''),
      (\<lambda>s sg lane. f32_le f32_0_6 (ls_blocking_severity s) \<and>
         f32_le (ls_blocking_severity s) f32_0_8 \<and> lane = Act, Observe,
        ''sig:blocking_severity 0.6'' @ en_dash @ ''0.8[warning] '' @ arrow @ '' observe''),
      (\<lambda>s sg lane. f32_le f32_0_3 (ls_context_completeness s) \<and>
         f32_lt (ls_context_completeness s) f32_0_5 \<and> lane = Act, Observe,
        ''sig:context_completeness 0.3'' @ en_dash @ ''0.5[warning] '' @ arrow @ '' observe''),
      (\<lambda>s sg lane. f32_lt (ls_novelty_score s) f32_0_1 \<and>
         \<not> rs_has_queued_plan sg, Plan,
        ''sig:novelty<0.1[critical] '' @ arrow @ '' plan''),
      (\<lambda>s sg lane. f32_le f32_0_1 (ls_novelty_score s) \<and>
         f32_lt (ls_novelty_score s) f32_0_3 \<and> lane = Act, Plan,
        ''sig:novelty 0.1'' @ en_dash @ ''0.3[warning] '' @ arrow @ '' plan''),
      (\<lambda>s sg lane. f32_lt (ls_verification_coverage s) f32_0_3 \<and> lane = Act, Verify,
        ''sig:verify_coverage<0.3[critical] '' @ arrow @ '' verify''),
      (\<lambda>s sg lane. f32_lt f32_0_8 (ls_change_impact s) \<and> lane = Act, Verify,
        ''sig:change_impact>0.8[critical] '' @ arrow @ '' verify''),
      (\<lambda>s sg lane. f32_le f32_0_6 (ls_recovery_difficulty s) \<and>
         f32_le (ls_recovery_difficulty s) f32_0_8 \<and> lane = Act, Verify,
        ''sig:recovery_difficulty 0.6'' @ en_dash @ ''0.8[warning] '' @ arrow @ '' verify''),
      (\<lambda>s sg lane. f32_lt (ls_progress_score s) f32_0_2 \<and>
         f32_lt (ls_novelty_score s) f32_0_3, Plan,
        ''sig:stagnation(progress+novelty)[critical] '' @ arrow @ '' plan''),
      (\<lambda>s sg lane. f32_lt f32_0_95 (ls_termination_readiness s) \<and>
         f32_lt (ls_verification_coverage s) f32_0_5, Verify,
        ''sig:term_ready>0.95+coverage_low '' @ arrow @ '' verify''),
      (\<lambda>s sg lane. f32_lt f32_0_9 (ls_termination_readiness s) \<and>
         f32_le f32_0_7 (ls_verification_coverage s) \<and> rs_finish_ready sg, Conclude,
        ''sig:term_ready>0.9+coverage_ok '' @ arrow @ '' conclude'')]"

definition apply_rule ::
  "LlmSignals \<Rightarrow> RuntimeSignals \<Rightarrow> (LlmSignals \<Rightarrow> RuntimeSignals \<Rightarrow> RouteKind \<Rightarrow> bool) \<times> RouteKind \<times> string
     \<Rightarrow> Review \<Rightarrow> Review" where
  "apply_rule s sg rule r =
     (case rule of (guard, lane, note) \<Rightarrow> if guard s sg (rv_lane r) then redirect lane note r else r)"

definition apply_signals :: "RuntimeSignals \<Rightarrow> Review \<Rightarrow> Review" where
  "apply_signals sg r =
     (case rs_llm_signals sg of None \<Rightarrow> r | Some s \<Rightarrow> fold (apply_rule s sg) signal_rules r)"

definition delta_gate :: "RuntimeSignals \<Rightarrow> Review \<Rightarrow> Review" where
  "delta_gate sg r =
     (case rs_delta_g sg of
        None \<Rightarrow> r
      | Some delta_g \<Rightarrow>
          if f32_lt delta_g f32_0 \<and> \<not> rs_has_queued_plan sg
          then redirect Plan (''delta_g<0 '' @ arrow @ '' plan'') r else r)"

definition finish_gate :: "RuntimeSignals \<Rightarrow> Review \<Rightarrow> Review" where
  "finish_gate sg r =
     (if rs_finish_ready sg \<and> \<not> rs_has_queued_plan sg
      then redirect Conclude (''finish_ready=true '' @ arrow @ '' conclude'') r else r)"

definition confidence_gate :: "GuardConfig \<Rightarrow> RouteSelection \<Rightarrow> Review \<Rightarrow> Review" where
  "confidence_gate cfg pick r =
     (case (gc_minimum_confidence cfg, sel_confidence pick) of
        (Some minimum, Some confidence) \<Rightarrow>
          if f32_lt confidence minimum then redirect (gc_fallback_lane cfg) ''low confidence'' r else r
      | _ \<Rightarrow> r)"

definition repeat_gate :: "GuardConfig \<Rightarrow> GateState \<Rightarrow> RuntimeSignals \<Rightarrow> Review \<Rightarrow> Review" where
  "repeat_gate cfg st sg r =
     (if gc_max_repeat_lane cfg < gs_repeat_count st \<and> \<not> rs_has_queued_plan sg then
        (if rs_performed_recently sg
         then redirect Verify ''repeat limit reached under unverified state; forcing verify'' r
         else redirect (gc_fallback_lane cfg) ''repeat limit reached'' r)
      else r)"

definition unverified_gate :: "RuntimeSignals \<Rightarrow> Review \<Rightarrow> Review" where
  "unverified_gate sg r =
     (if rs_performed_recently sg \<and> \<not> rs_has_queued_plan sg \<and> rv_lane r \<noteq> Verify
      then redirect Verify ''acted_unverified=true requires verify'' r else r)"

definition stalled_gate :: "RuntimeSignals \<Rightarrow> Review \<Rightarrow> Review" where
  "stalled_gate sg r =
     (if rs_repair_stalled sg \<and> \<not> rs_has_queued_plan sg \<and> \<not> rs_performed_recently sg \<and> rv_lane r \<noteq> Plan
      then redirect Plan ''repair loop stalled requires plan for replan'' r else r)"

definition pressure_gate :: "RuntimeSignals \<Rightarrow> Review \<Rightarrow> Review" where
  "pressure_gate sg r =
     (if 0 < rs_repair_pressure_score sg \<and> \<not> rs_has_queued_plan sg \<and> rv_lane r \<in> {Verify, Conclude}
      then redirect Plan ''repair pressure requires plan'' r else r)"

definition queued_gate :: "RuntimeSignals \<Rightarrow> Review \<Rightarrow> Review" where
  "queued_gate sg r =
     (if rs_has_queued_plan sg \<and> rv_lane r \<noteq> Act then redirect Act ''queued plan requires act'' r else r)"

definition act_gate :: "RuntimeSignals \<Rightarrow> Review \<Rightarrow> Review" where
  "act_gate sg r =
     (if rv_lane r = Act \<and> \<not> rs_has_queued_plan sg
      then redirect Plan ''act blocked: no queued plan; select plan to produce one'' r
      else if rv_lane r = Act \<and> \<not> (rs_context_ready sg \<or> rs_has_queued_plan sg)
      then redirect Observe ''act requires context_ready or queued plan'' r
      else r)"

definition verify_gate :: "RuntimeSignals \<Rightarrow> Review \<Rightarrow> Review" where
  "verify_gate sg r =
     (if rv_lane r = Verify \<and>
         \<not> (rs_performed_recently sg \<or> rs_last_action_kind sg = ''done'' \<or> rs_finish_ready sg)
      then redirect Plan ''verify requires recent execution, done action, or finish_ready'' r else r)"

definition conclude_gate :: "RuntimeSignals \<Rightarrow> Review \<Rightarrow> Review" where
  "conclude_gate sg r =
     (if rv_lane r = Conclude \<and> \<not> rs_finish_ready sg
      then redirect Verify ''conclude requires finish_ready'' r else r)"

text \<open>The rules of a review, after the cycle cap.\<close>

definition apply_gates :: "GuardConfig \<Rightarrow> GateState \<Rightarrow> RouteSelection \<Rightarrow> RuntimeSignals \<Rightarrow> Review" where
  "apply_gates cfg st pick sg =
     (conclude_gate sg \<circ> verify_gate sg \<circ> act_gate sg \<circ> queued_gate sg \<circ> pressure_gate sg \<circ>
      stalled_gate sg \<circ> unverified_gate sg \<circ> repeat_gate cfg st sg \<circ> confidence_gate cfg pick \<circ>
      finish_gate sg \<circ> delta_gate sg \<circ> apply_signals sg)
       \<lparr> rv_lane = sel_route pick, rv_changed = False, rv_notes = [] \<rparr>"

definition track_repeat :: "RouteKind \<Rightarrow> GateState \<Rightarrow> GateState" where
  "track_repeat lane st =
     st\<lparr>gs_repeat_count :=
          (case gs_previous_lane st of
             Some previous \<Rightarrow> if previous = lane then saturating_add (gs_repeat_count st) 1 else 1
           | None \<Rightarrow> 1),
        gs_previous_lane := Some lane\<rparr>"

definition review :: "Gatekeeper \<Rightarrow> RouteSelection \<Rightarrow> RuntimeSignals \<Rightarrow> GateResult \<times> Gatekeeper" where
  "review gk pick sg =
     (let cfg = gk_cfg gk;
          st1 = (gk_state gk)\<lparr>gs_cycle_count := saturating_add (gs_cycle_count (gk_state gk)) 1\<rparr>;
          capped = gc_max_cycles cfg < gs_cycle_count st1
      in if capped \<and> \<not> rs_has_queued_plan sg then
           (\<lparr> gr_lane = Conclude, gr_changed = True, gr_note = ''cycle cap reached; forcing conclude'',
              gr_should_stop = True \<rparr>, gk\<lparr>gk_state := st1\<rparr>)
         else
           (let st2 = (if capped then st1\<lparr>gs_cycle_count := 0\<rparr> else st1);
                r = apply_gates cfg st2 pick sg
            in (\<lparr> gr_lane = rv_lane r, gr_changed = rv_changed r,
                  gr_note = (if rv_notes r = [] then ''accepted'' else join ''; '' (rv_notes r)),
                  gr_should_stop = (rv_lane r = Conclude) \<rparr>,
                gk\<lparr>gk_state := track_repeat (rv_lane r) st2\<rparr>)))"

section \<open>Properties\<close>

text \<open>What each gate does to the lane.\<close>

lemma rv_lane_redirect [simp]: "rv_lane (redirect l n r) = l"
  by (simp add: redirect_def)

named_theorems lane_simps \<open>the lane after a gate\<close>

lemma lane_queued [lane_simps]:
  "rv_lane (queued_gate sg r) = (if rs_has_queued_plan sg then Act else rv_lane r)"
  by (simp add: queued_gate_def)

lemma lane_act [lane_simps]:
  "rv_lane (act_gate sg r) = (if rv_lane r = Act \<and> \<not> rs_has_queued_plan sg then Plan else rv_lane r)"
  by (simp add: act_gate_def)

lemma lane_verify [lane_simps]:
  "rv_lane (verify_gate sg r) =
     (if rv_lane r = Verify \<and>
         \<not> (rs_performed_recently sg \<or> rs_last_action_kind sg = ''done'' \<or> rs_finish_ready sg)
      then Plan else rv_lane r)"
  by (simp add: verify_gate_def)

lemma lane_conclude [lane_simps]:
  "rv_lane (conclude_gate sg r) =
     (if rv_lane r = Conclude \<and> \<not> rs_finish_ready sg then Verify else rv_lane r)"
  by (simp add: conclude_gate_def)

text \<open>The last four gates decide everything that does not depend on the earlier rules.\<close>

lemma final_gates:
  fixes r :: Review and sg :: RuntimeSignals
  defines "r' \<equiv> conclude_gate sg (verify_gate sg (act_gate sg (queued_gate sg r)))"
  shows "rv_lane r' = Act \<longleftrightarrow> rs_has_queued_plan sg"
    and "rv_lane r' = Conclude \<Longrightarrow> rs_finish_ready sg \<and> \<not> rs_has_queued_plan sg"
    and "rv_lane r' = Verify \<Longrightarrow> rs_performed_recently sg \<or> rs_last_action_kind sg = ''done'' \<or>
      rs_finish_ready sg \<or> rv_lane r = Conclude"
  unfolding r'_def by (simp_all add: lane_simps split: if_splits)

lemma apply_gates_final:
  "\<exists>r. apply_gates cfg st pick sg = conclude_gate sg (verify_gate sg (act_gate sg (queued_gate sg r)))"
  unfolding apply_gates_def comp_def by blast

text \<open>C8: What the gate guarantees to the executor: it answers \<open>act\<close> exactly when a plan is queued,
  whatever the router picked and the signals say; it stops exactly on \<open>conclude\<close>, and concludes
  only without a queued plan and when the work is ready to finish or the cycle cap is exceeded.\<close>

theorem gate_guards_act_and_conclude:
  "let res = fst (review gk pick sg) in
     (gr_lane res = Act \<longleftrightarrow> rs_has_queued_plan sg) \<and>
     (gr_should_stop res \<longleftrightarrow> gr_lane res = Conclude) \<and>
     (gr_lane res = Conclude \<longrightarrow> \<not> rs_has_queued_plan sg \<and>
        (rs_finish_ready sg \<or>
         gc_max_cycles (gk_cfg gk) < saturating_add (gs_cycle_count (gk_state gk)) 1))"
proof -
  have final: "rv_lane (apply_gates cfg st pick sg) = Act \<longleftrightarrow> rs_has_queued_plan sg"
      "rv_lane (apply_gates cfg st pick sg) = Conclude \<Longrightarrow> rs_finish_ready sg \<and> \<not> rs_has_queued_plan sg"
    for cfg st
    using apply_gates_final [of cfg st pick sg] final_gates [of sg] by auto
  then show ?thesis by (auto simp: review_def Let_def)
qed

theorem gate_guards_act_and_conclude_witness:
  "let sg = \<lparr> rs_context_ready = False, rs_has_queued_plan = True, rs_performed_recently = True,
       rs_repair_stalled = True, rs_repair_pressure_score = 3, rs_finish_ready = True,
       rs_last_action_kind = '''', rs_llm_signals = None, rs_goodness = None, rs_delta_g = None \<rparr>
   in gr_lane (fst (review (new_gatekeeper default_guard_config)
        \<lparr> sel_route = Conclude, sel_rationale = ''r'', sel_confidence = None, sel_signals = JNull \<rparr> sg)) = Act"
  using gate_guards_act_and_conclude [of "new_gatekeeper default_guard_config"
      "\<lparr> sel_route = Conclude, sel_rationale = ''r'', sel_confidence = None, sel_signals = JNull \<rparr>"
      "\<lparr> rs_context_ready = False, rs_has_queued_plan = True, rs_performed_recently = True,
       rs_repair_stalled = True, rs_repair_pressure_score = 3, rs_finish_ready = True,
       rs_last_action_kind = '''', rs_llm_signals = None, rs_goodness = None, rs_delta_g = None \<rparr>"]
  by (simp add: Let_def)

text \<open>Reviews in sequence.\<close>

fun run_reviews ::
  "Gatekeeper \<Rightarrow> (RouteSelection \<times> RuntimeSignals) list \<Rightarrow> GateResult list \<times> Gatekeeper" where
  "run_reviews gk [] = ([], gk)"
| "run_reviews gk ((pick, sg) # xs) =
     (let (res, gk1) = review gk pick sg; (ress, gk2) = run_reviews gk1 xs in (res # ress, gk2))"

lemma review_cfg [simp]: "gk_cfg (snd (review gk pick sg)) = gk_cfg gk"
  by (simp add: review_def Let_def)

lemma review_count:
  "\<not> rs_has_queued_plan sg \<Longrightarrow>
   gs_cycle_count (gk_state (snd (review gk pick sg))) = saturating_add (gs_cycle_count (gk_state gk)) 1"
  by (simp add: review_def Let_def track_repeat_def)

lemma review_capped:
  "\<not> rs_has_queued_plan sg \<Longrightarrow>
   gc_max_cycles (gk_cfg gk) < saturating_add (gs_cycle_count (gk_state gk)) 1 \<Longrightarrow>
   gr_should_stop (fst (review gk pick sg))"
  by (simp add: review_def Let_def)

lemma cycle_cap_reached:
  assumes "\<forall>x \<in> set xs. \<not> rs_has_queued_plan (snd x)" and "unat (gc_max_cycles (gk_cfg gk)) < 2 ^ 32 - 1"
    and "unat (gc_max_cycles (gk_cfg gk)) < unat (gs_cycle_count (gk_state gk)) + length xs" and "xs \<noteq> []"
  shows "\<exists>res \<in> set (fst (run_reviews gk xs)). gr_should_stop res"
  using assms
proof (induction xs arbitrary: gk)
  case Nil
  then show ?case by simp
next
  case (Cons x xs)
  obtain pick sg where x: "x = (pick, sg)" by (cases x)
  let ?c = "gs_cycle_count (gk_state gk)" and ?gk = "snd (review gk pick sg)"
  have free: "\<not> rs_has_queued_plan sg" using Cons.prems(1) x by simp
  have head: "fst (review gk pick sg) \<in> set (fst (run_reviews gk (x # xs)))"
    and tail: "set (fst (run_reviews ?gk xs)) \<subseteq> set (fst (run_reviews gk (x # xs)))"
    by (auto simp: x Let_def split: prod.splits)
  have sat: "unat (saturating_add ?c 1) = min (2 ^ 32 - 1) (unat ?c + 1)"
    by (simp add: unat_saturating_add)
  show ?case
  proof (cases "gc_max_cycles (gk_cfg gk) < saturating_add ?c 1")
    case True
    with review_capped [OF free True] head show ?thesis by blast
  next
    case False
    then have le: "unat ?c + 1 \<le> unat (gc_max_cycles (gk_cfg gk))"
      using sat Cons.prems(2) by (simp add: word_less_nat_alt not_less min_def split: if_splits)
    then have "unat (gs_cycle_count (gk_state ?gk)) = unat ?c + 1"
      using sat Cons.prems(2) review_count [OF free, of gk pick] by simp
    moreover have "xs \<noteq> []" using le Cons.prems(3) by auto
    ultimately have "\<exists>res \<in> set (fst (run_reviews ?gk xs)). gr_should_stop res"
      using Cons.prems by (intro Cons.IH) auto
    with tail show ?thesis by blast
  qed
qed

text \<open>C31: The loop cannot run forever without work: from any state of the gatekeeper, among
  \<open>max_cycles + 1\<close> consecutive reviews without a queued plan at least one answers stop,
  whatever the router picks and the signals say.\<close>

theorem cycle_cap_stops_idle_loop:
  assumes "\<forall>x \<in> set xs. \<not> rs_has_queued_plan (snd x)"
    and "unat (gc_max_cycles (gk_cfg gk)) < length xs"
    and "unat (gc_max_cycles (gk_cfg gk)) < 2 ^ 32 - 1"
  shows "\<exists>res \<in> set (fst (run_reviews gk xs)). gr_should_stop res"
  using assms by (intro cycle_cap_reached) auto

definition idle_signals :: RuntimeSignals where
  "idle_signals =
     \<lparr> rs_context_ready = True, rs_has_queued_plan = False, rs_performed_recently = False,
       rs_repair_stalled = False, rs_repair_pressure_score = 0, rs_finish_ready = False,
       rs_last_action_kind = '''', rs_llm_signals = None, rs_goodness = None, rs_delta_g = None \<rparr>"

definition plain_pick :: "RouteKind \<Rightarrow> RouteSelection" where
  "plain_pick k = \<lparr> sel_route = k, sel_rationale = ''r'', sel_confidence = None, sel_signals = JNull \<rparr>"

theorem cycle_cap_stops_idle_loop_witness:
  "\<exists>res \<in> set (fst (run_reviews (new_gatekeeper (default_guard_config\<lparr>gc_max_cycles := 2\<rparr>))
     [(plain_pick Plan, idle_signals), (plain_pick Observe, idle_signals), (plain_pick Plan, idle_signals)])).
     gr_should_stop res"
  by (rule cycle_cap_stops_idle_loop) (simp_all add: idle_signals_def new_gatekeeper_def default_guard_config_def)

text \<open>A review that changed nothing.\<close>

definition untouched :: "RouteKind \<Rightarrow> Review \<Rightarrow> bool" where
  "untouched p r \<longleftrightarrow> rv_changed r \<or> rv_lane r = p \<and> rv_notes r = []"

lemma untouched_redirect [simp]: "untouched p (redirect l n r)"
  by (simp add: untouched_def redirect_def)

lemma untouched_rules: "untouched p r \<Longrightarrow> untouched p (fold (apply_rule s sg) rules r)"
  by (induction rules arbitrary: r) (auto simp: apply_rule_def split: prod.splits)

lemma untouched_gates: "untouched (sel_route pick) (apply_gates cfg st pick sg)"
proof -
  note defs = conclude_gate_def verify_gate_def act_gate_def queued_gate_def pressure_gate_def
    stalled_gate_def unverified_gate_def repeat_gate_def finish_gate_def confidence_gate_def
    delta_gate_def apply_signals_def
  have step: "untouched p r \<Longrightarrow> untouched p (conclude_gate sg r)"
      "untouched p r \<Longrightarrow> untouched p (verify_gate sg r)" "untouched p r \<Longrightarrow> untouched p (act_gate sg r)"
      "untouched p r \<Longrightarrow> untouched p (queued_gate sg r)" "untouched p r \<Longrightarrow> untouched p (pressure_gate sg r)"
      "untouched p r \<Longrightarrow> untouched p (stalled_gate sg r)" "untouched p r \<Longrightarrow> untouched p (unverified_gate sg r)"
      "untouched p r \<Longrightarrow> untouched p (repeat_gate cfg st sg r)" "untouched p r \<Longrightarrow> untouched p (finish_gate sg r)"
      "untouched p r \<Longrightarrow> untouched p (confidence_gate cfg pick r)" "untouched p r \<Longrightarrow> untouched p (delta_gate sg r)"
      "untouched p r \<Longrightarrow> untouched p (apply_signals sg r)" for p r
    by (simp_all add: defs untouched_rules split: option.split)
  show ?thesis
    unfolding apply_gates_def comp_def by (intro step) (simp add: untouched_def)
qed

lemma idle_review:
  "fst (review (new_gatekeeper default_guard_config) (plain_pick k) idle_signals) =
     (case k of
        Act \<Rightarrow> \<lparr> gr_lane = Plan, gr_changed = True,
          gr_note = ''act blocked: no queued plan; select plan to produce one'', gr_should_stop = False \<rparr>
      | Verify \<Rightarrow> \<lparr> gr_lane = Plan, gr_changed = True,
          gr_note = ''verify requires recent execution, done action, or finish_ready'', gr_should_stop = False \<rparr>
      | Conclude \<Rightarrow> \<lparr> gr_lane = Verify, gr_changed = True, gr_note = ''conclude requires finish_ready'',
          gr_should_stop = False \<rparr>
      | _ \<Rightarrow> \<lparr> gr_lane = k, gr_changed = False, gr_note = ''accepted'', gr_should_stop = False \<rparr>)"
  by (cases k)
    (simp_all add: review_def apply_gates_def conclude_gate_def verify_gate_def act_gate_def queued_gate_def
      pressure_gate_def stalled_gate_def unverified_gate_def repeat_gate_def finish_gate_def
      confidence_gate_def delta_gate_def apply_signals_def redirect_def idle_signals_def plain_pick_def
      new_gatekeeper_def default_guard_config_def default_gate_state_def saturating_add_def Let_def)

text \<open>A review reports its interventions: when it does not set the changed flag, the lane is the
  router's pick and the note is \<open>accepted\<close>; and the demotion of an unready conclude comes after
  the check that verify needs recent work, so with quiet signals a picked conclude is answered by
  a verify that the verify rule itself would have refused.\<close>

theorem review_is_transparent_but_conclude_bypasses_verify_rule:
  "(\<not> gr_changed (fst (review gk pick sg)) \<longrightarrow>
      gr_lane (fst (review gk pick sg)) = sel_route pick \<and> gr_note (fst (review gk pick sg)) = ''accepted'') \<and>
   gr_lane (fst (review (new_gatekeeper default_guard_config) (plain_pick Conclude) idle_signals)) = Verify \<and>
   gr_lane (fst (review (new_gatekeeper default_guard_config) (plain_pick Verify) idle_signals)) = Plan"
proof (intro conjI impI)
  assume "\<not> gr_changed (fst (review gk pick sg))"
  then show "gr_lane (fst (review gk pick sg)) = sel_route pick"
    "gr_note (fst (review gk pick sg)) = ''accepted''"
    using untouched_gates [of pick "gk_cfg gk" _ sg]
    by (auto simp: review_def Let_def untouched_def split: if_splits)
next
  show "gr_lane (fst (review (new_gatekeeper default_guard_config) (plain_pick Conclude) idle_signals)) = Verify"
    "gr_lane (fst (review (new_gatekeeper default_guard_config) (plain_pick Verify) idle_signals)) = Plan"
    by (simp_all add: idle_review)
qed

theorem review_is_transparent_but_conclude_bypasses_verify_rule_witness:
  "gr_lane (fst (review (new_gatekeeper default_guard_config) (plain_pick Plan) idle_signals)) = Plan"
proof -
  have "\<not> gr_changed (fst (review (new_gatekeeper default_guard_config) (plain_pick Plan) idle_signals))"
    by (simp add: idle_review)
  with review_is_transparent_but_conclude_bypasses_verify_rule [of "new_gatekeeper default_guard_config"
      "plain_pick Plan" idle_signals] show ?thesis by (simp add: plain_pick_def)
qed

section \<open>Parsing\<close>

text \<open>The router's answer is taken from the first acceptable JSON candidate, whole text first, then
  the fenced blocks: a result is returned exactly when some candidate passes, it is the first that
  does, its route is among the allowed ones, its rationale is not blank, its confidence lies in
  the unit interval (so it is no NaN) and its signals are not null.\<close>

theorem parsed_selection_is_first_acceptable:
  "(parse_route_selection from_json from_value raw allowed = Inr sel \<longleftrightarrow>
      (\<exists>pre v post. parse_json_candidates from_json raw = pre @ v # post \<and>
         (\<forall>u \<in> set pre. \<exists>err. check_selection allowed (from_value u) = Inl err) \<and>
         check_selection allowed (from_value v) = Inr sel)) \<and>
   (parse_route_selection from_json from_value raw allowed = Inr sel \<longrightarrow>
      sel_route sel \<in> set allowed \<and> trim (sel_rationale sel) \<noteq> [] \<and> \<not> json_is_null (sel_signals sel) \<and>
      (\<forall>c. sel_confidence sel = Some c \<longrightarrow> f32_le f32_0 c \<and> f32_le c f32_1))"
proof -
  have loop: "selection_loop from_value allowed vs e = Inr sel \<longleftrightarrow>
      (\<exists>pre v post. vs = pre @ v # post \<and>
         (\<forall>u \<in> set pre. \<exists>err. check_selection allowed (from_value u) = Inl err) \<and>
         check_selection allowed (from_value v) = Inr sel)" for vs e
  proof (induction vs arbitrary: e)
    case (Cons w ws)
    show ?case
    proof (cases "check_selection allowed (from_value w)")
      case (Inl err)
      then show ?thesis using Cons [of "Some err"]
        by (auto simp: Cons_eq_append_conv) (metis Inl append_Cons set_ConsD)+
    next
      case (Inr s)
      have "\<exists>pre v post. w # ws = pre @ v # post \<and>
         (\<forall>u \<in> set pre. \<exists>err. check_selection allowed (from_value u) = Inl err) \<and>
         check_selection allowed (from_value v) = Inr s"
        using Inr by (intro exI [of _ "[]"] exI [of _ w] exI [of _ ws]) simp
      then show ?thesis using Inr by (auto simp: Cons_eq_append_conv)
    qed
  qed simp
  have "check_selection allowed p = Inr sel \<Longrightarrow>
      sel_route sel \<in> set allowed \<and> trim (sel_rationale sel) \<noteq> [] \<and> \<not> json_is_null (sel_signals sel) \<and>
      (\<forall>c. sel_confidence sel = Some c \<longrightarrow> f32_le f32_0 c \<and> f32_le c f32_1)" for p
    by (auto simp: check_selection_def split: option.splits if_splits)
  with loop show ?thesis unfolding parse_route_selection_def by blast
qed

theorem parsed_selection_is_first_acceptable_witness:
  "parse_route_selection (\<lambda>_. Some JNull) (\<lambda>_. Some (plain_pick Plan)) ''x'' [Plan] =
     Inr ((plain_pick Plan)\<lparr>sel_signals := JObject []\<rparr>) \<and> Plan \<in> set [Plan]"
proof -
  have "parse_route_selection (\<lambda>_. Some JNull) (\<lambda>_. Some (plain_pick Plan)) ''x'' [Plan] =
     Inr ((plain_pick Plan)\<lparr>sel_signals := JObject []\<rparr>)"
    by code_simp
  with parsed_selection_is_first_acceptable [of "\<lambda>_. Some JNull" "\<lambda>_. Some (plain_pick Plan)" "''x''"
      "[Plan]" "(plain_pick Plan)\<lparr>sel_signals := JObject []\<rparr>"] show ?thesis
    by (simp add: plain_pick_def)
qed

end
