(* ===== verification/Semantic_State.thy ===== *)
theory Semantic_State
  imports Canon_Prelude
begin

text \<open>
  The semantic state of \<^verbatim>\<open>canon-utils/canon-semantic-state/src/lib.rs\<close>: the summary of an
  observed workspace with its compiler hints, its line format (\<^verbatim>\<open>to_workspace_facts\<close> and
  \<^verbatim>\<open>from_workspace_facts\<close>), what a graph artifact and a failed capture change in it, and the
  text blocks shown to planner and router. The objectives derived from it are in
  \<^verbatim>\<open>Development_Objectives\<close>.

  The main result is the round trip through the line format, for every summary whose hints do
  not contain the field markers of the format themselves.
\<close>

section \<open>Kinds\<close>

datatype CompilerHintKind =
    HK_MissingModule
  | HK_DeadCodeForbidConflict
  | HK_MissingEntrypoint
  | HK_UnresolvedImport
  | HK_MissingSymbol
  | HK_DuplicateDefinition
  | HK_TraitBoundFailure
  | HK_GenericCompilerFailure

fun hint_kind_as_str :: "CompilerHintKind \<Rightarrow> string" where
  "hint_kind_as_str HK_MissingModule = ''missing_module''"
| "hint_kind_as_str HK_DeadCodeForbidConflict = ''dead_code_forbid_conflict''"
| "hint_kind_as_str HK_MissingEntrypoint = ''missing_entrypoint''"
| "hint_kind_as_str HK_UnresolvedImport = ''unresolved_import''"
| "hint_kind_as_str HK_MissingSymbol = ''missing_symbol''"
| "hint_kind_as_str HK_DuplicateDefinition = ''duplicate_definition''"
| "hint_kind_as_str HK_TraitBoundFailure = ''trait_bound_failure''"
| "hint_kind_as_str HK_GenericCompilerFailure = ''generic_compiler_failure''"

definition hint_kind_from_str :: "string \<Rightarrow> CompilerHintKind option" where
  "hint_kind_from_str value =
     (if value = ''missing_module'' then Some HK_MissingModule
      else if value = ''dead_code_forbid_conflict'' then Some HK_DeadCodeForbidConflict
      else if value = ''missing_entrypoint'' then Some HK_MissingEntrypoint
      else if value = ''unresolved_import'' then Some HK_UnresolvedImport
      else if value = ''missing_symbol'' then Some HK_MissingSymbol
      else if value = ''duplicate_definition'' then Some HK_DuplicateDefinition
      else if value = ''trait_bound_failure'' then Some HK_TraitBoundFailure
      else if value = ''generic_compiler_failure'' then Some HK_GenericCompilerFailure
      else None)"

datatype FailureScopeKind = FS_None | FS_Localized | FS_Workspace | FS_Tooling

fun failure_scope_as_str :: "FailureScopeKind \<Rightarrow> string" where
  "failure_scope_as_str FS_None = ''none''"
| "failure_scope_as_str FS_Localized = ''localized''"
| "failure_scope_as_str FS_Workspace = ''workspace''"
| "failure_scope_as_str FS_Tooling = ''tooling''"

definition failure_scope_from_str :: "string \<Rightarrow> FailureScopeKind option" where
  "failure_scope_from_str value =
     (if value = ''none'' then Some FS_None
      else if value = ''localized'' then Some FS_Localized
      else if value = ''workspace'' then Some FS_Workspace
      else if value = ''tooling'' then Some FS_Tooling
      else None)"

datatype FailureClassKind =
    FC_MissingModule
  | FC_DeadCodeForbidConflict
  | FC_MissingEntrypoint
  | FC_UnresolvedImport
  | FC_MissingSymbol
  | FC_DuplicateDefinition
  | FC_TraitBoundFailure
  | FC_GenericCompilerFailure
  | FC_NoActionableFailure

fun failure_class_as_str :: "FailureClassKind \<Rightarrow> string" where
  "failure_class_as_str FC_MissingModule = ''missing_module''"
| "failure_class_as_str FC_DeadCodeForbidConflict = ''dead_code_forbid_conflict''"
| "failure_class_as_str FC_MissingEntrypoint = ''missing_entrypoint''"
| "failure_class_as_str FC_UnresolvedImport = ''unresolved_import''"
| "failure_class_as_str FC_MissingSymbol = ''missing_symbol''"
| "failure_class_as_str FC_DuplicateDefinition = ''duplicate_definition''"
| "failure_class_as_str FC_TraitBoundFailure = ''trait_bound_failure''"
| "failure_class_as_str FC_GenericCompilerFailure = ''generic_compiler_failure''"
| "failure_class_as_str FC_NoActionableFailure = ''no_actionable_failure''"

lemma hint_kind_from_as_str [simp]: "hint_kind_from_str (hint_kind_as_str k) = Some k"
  by (cases k) (simp_all add: hint_kind_from_str_def)

lemma failure_scope_from_as_str [simp]: "failure_scope_from_str (failure_scope_as_str k) = Some k"
  by (cases k) (simp_all add: failure_scope_from_str_def)

section \<open>Compiler hints\<close>

record CompilerHintRecord =
  hint_kind :: string
  hint_summary :: string
  hint_suggested_repair :: string
  hint_target_files :: "string list"
  hint_failure_scope :: string

definition new_hint ::
  "CompilerHintKind \<Rightarrow> string \<Rightarrow> string \<Rightarrow> string list \<Rightarrow> CompilerHintRecord" where
  "new_hint kind summary repair targets =
     \<lparr> hint_kind = hint_kind_as_str kind, hint_summary = summary, hint_suggested_repair = repair,
       hint_target_files = targets, hint_failure_scope = failure_scope_as_str FS_None \<rparr>"

definition with_failure_scope :: "FailureScopeKind \<Rightarrow> CompilerHintRecord \<Rightarrow> CompilerHintRecord" where
  "with_failure_scope scope h = h\<lparr>hint_failure_scope := failure_scope_as_str scope\<rparr>"

definition kind_enum :: "CompilerHintRecord \<Rightarrow> CompilerHintKind option" where
  "kind_enum h = hint_kind_from_str (hint_kind h)"

definition failure_scope_enum :: "CompilerHintRecord \<Rightarrow> FailureScopeKind option" where
  "failure_scope_enum h = failure_scope_from_str (hint_failure_scope h)"

definition render_targets :: "string list \<Rightarrow> string" where
  "render_targets ts = (if ts = [] then ''none'' else join ''|'' ts)"

definition render_hint_line :: "CompilerHintRecord \<Rightarrow> string" where
  "render_hint_line h =
     ''kind='' @ hint_kind h @ '' scope='' @ hint_failure_scope h @
     '' targets='' @ render_targets (hint_target_files h) @
     '' summary='' @ hint_summary h @ '' repair='' @ hint_suggested_repair h"

definition next_field_delimiter :: "string \<Rightarrow> string" where
  "next_field_delimiter marker =
     (if marker = ''kind='' then '' scope=''
      else if marker = ''scope='' then '' targets=''
      else if marker = ''targets='' then '' summary=''
      else if marker = ''summary='' then '' repair=''
      else '''')"

definition parse_field :: "string \<Rightarrow> string \<Rightarrow> string option" where
  "parse_field line marker =
     (case str_find marker line of
        None \<Rightarrow> None
      | Some i \<Rightarrow>
          (let tail = drop (i + length marker) line;
               delimiter = next_field_delimiter marker;
               end_pos = (if delimiter = '''' then length tail
                          else (case str_find delimiter tail of Some e \<Rightarrow> e | None \<Rightarrow> length tail))
           in Some (trim (take end_pos tail))))"

definition parse_compiler_hint_record :: "string \<Rightarrow> CompilerHintRecord option" where
  "parse_compiler_hint_record line =
     (case parse_field line ''kind='' of
        None \<Rightarrow> None
      | Some kind \<Rightarrow>
          (let targets = or_else (parse_field line ''targets='') ''none''
           in Some \<lparr> hint_kind = kind,
                     hint_summary = or_else (parse_field line ''summary='') '''',
                     hint_suggested_repair = or_else (parse_field line ''repair='') '''',
                     hint_target_files =
                       (if targets = ''none'' \<or> targets = '''' then []
                        else map trim (split_char (CHR ''|'') targets)),
                     hint_failure_scope = or_else (parse_field line ''scope='') ''none'' \<rparr>))"

section \<open>The summary\<close>

record SemanticStateSummary =
  ss_version :: u32
  ss_complete :: bool
  ss_target_root :: "string option"
  ss_path_exists :: bool
  ss_repo_initialized :: bool
  ss_cargo_project :: bool
  ss_crate_name :: "string option"
  ss_entrypoint_kind :: "string option"
  ss_rust_file_count :: "usize option"
  ss_source_files :: "string list"
  ss_module_gaps :: "string list"
  ss_planning_preconditions :: "string list"
  ss_repair_intents :: "string list"
  ss_compiler_hints :: "CompilerHintRecord list"
  ss_validation_blocked_by_preconditions :: bool
  ss_compiler_repair_required :: bool
  ss_failure_class :: "string option"
  ss_failure_scope :: "string option"
  ss_graph_artifact_id :: "string option"
  ss_graph_node_count :: "usize option"
  ss_graph_edge_count :: "usize option"
  ss_graph_file_count :: "usize option"
  ss_graph_call_edge_count :: "usize option"
  ss_graph_module_edge_count :: "usize option"
  ss_graph_cfg_edge_count :: "usize option"

definition default_summary :: SemanticStateSummary where
  "default_summary =
     \<lparr> ss_version = 0, ss_complete = False, ss_target_root = None, ss_path_exists = False,
       ss_repo_initialized = False, ss_cargo_project = False, ss_crate_name = None,
       ss_entrypoint_kind = None, ss_rust_file_count = None, ss_source_files = [],
       ss_module_gaps = [], ss_planning_preconditions = [], ss_repair_intents = [],
       ss_compiler_hints = [], ss_validation_blocked_by_preconditions = False,
       ss_compiler_repair_required = False, ss_failure_class = None, ss_failure_scope = None,
       ss_graph_artifact_id = None, ss_graph_node_count = None, ss_graph_edge_count = None,
       ss_graph_file_count = None, ss_graph_call_edge_count = None,
       ss_graph_module_edge_count = None, ss_graph_cfg_edge_count = None \<rparr>"

definition VERSION :: u32 where
  "VERSION = 1"

definition show_word :: "'a::len word \<Rightarrow> string" where
  "show_word w = decimal (unat w)"

definition parse_word :: "string \<Rightarrow> 'a::len word option" where
  "parse_word s = map_option of_nat (parse_unsigned (2 ^ LENGTH('a)) s)"

lemma parse_show_word [simp]: "parse_word (show_word w) = Some w"
  by (simp add: parse_word_def show_word_def)

text \<open>The line of a field that is there, and no line for one that is not.\<close>

definition opt_fact :: "string \<Rightarrow> string option \<Rightarrow> string list" where
  "opt_fact key v = (case v of None \<Rightarrow> [] | Some x \<Rightarrow> [key @ x])"

definition to_workspace_facts :: "SemanticStateSummary \<Rightarrow> string list" where
  "to_workspace_facts s =
     [''semantic.version='' @ show_word (ss_version s),
      ''semantic.complete='' @ show_bool (ss_complete s)] @
     opt_fact ''semantic.target_root='' (ss_target_root s) @
     [''semantic.path_exists='' @ show_bool (ss_path_exists s),
      ''semantic.repo_initialized='' @ show_bool (ss_repo_initialized s),
      ''semantic.cargo_project='' @ show_bool (ss_cargo_project s)] @
     opt_fact ''semantic.crate_name='' (ss_crate_name s) @
     opt_fact ''semantic.entrypoint_kind='' (ss_entrypoint_kind s) @
     opt_fact ''semantic.rust_file_count='' (map_option show_word (ss_rust_file_count s)) @
     map (\<lambda>x. ''semantic.source_file='' @ x) (ss_source_files s) @
     map (\<lambda>x. ''semantic.module_gap='' @ x) (ss_module_gaps s) @
     map (\<lambda>x. ''semantic.planning_precondition='' @ x) (ss_planning_preconditions s) @
     map (\<lambda>x. ''semantic.repair_intent='' @ x) (ss_repair_intents s) @
     map (\<lambda>h. ''semantic.compiler_hint='' @ render_hint_line h) (ss_compiler_hints s) @
     [''semantic.validation_blocked_by_preconditions='' @
        show_bool (ss_validation_blocked_by_preconditions s),
      ''semantic.compiler_repair_required='' @ show_bool (ss_compiler_repair_required s)] @
     opt_fact ''semantic.failure_class='' (ss_failure_class s) @
     opt_fact ''semantic.failure_scope='' (ss_failure_scope s) @
     opt_fact ''semantic.graph_artifact_id='' (ss_graph_artifact_id s) @
     opt_fact ''semantic.graph_node_count='' (map_option show_word (ss_graph_node_count s)) @
     opt_fact ''semantic.graph_edge_count='' (map_option show_word (ss_graph_edge_count s)) @
     opt_fact ''semantic.graph_file_count='' (map_option show_word (ss_graph_file_count s)) @
     opt_fact ''semantic.graph_call_edge_count='' (map_option show_word (ss_graph_call_edge_count s)) @
     opt_fact ''semantic.graph_module_edge_count=''
       (map_option show_word (ss_graph_module_edge_count s)) @
     opt_fact ''semantic.graph_cfg_edge_count='' (map_option show_word (ss_graph_cfg_edge_count s))"

text \<open>The chain of \<^verbatim>\<open>strip_prefix\<close> tests, as the table of its branches in source order.\<close>

definition fact_table :: "(string \<times> (string \<Rightarrow> SemanticStateSummary \<Rightarrow> SemanticStateSummary)) list" where
  "fact_table =
     [(''semantic.version='', \<lambda>v s. s\<lparr>ss_version := or_else (parse_word v) VERSION\<rparr>),
      (''semantic.complete='', \<lambda>v s. s\<lparr>ss_complete := (v = ''true'')\<rparr>),
      (''semantic.target_root='', \<lambda>v s. s\<lparr>ss_target_root := Some v\<rparr>),
      (''semantic.path_exists='', \<lambda>v s. s\<lparr>ss_path_exists := (v = ''true'')\<rparr>),
      (''semantic.repo_initialized='', \<lambda>v s. s\<lparr>ss_repo_initialized := (v = ''true'')\<rparr>),
      (''semantic.cargo_project='', \<lambda>v s. s\<lparr>ss_cargo_project := (v = ''true'')\<rparr>),
      (''semantic.crate_name='', \<lambda>v s. s\<lparr>ss_crate_name := Some v\<rparr>),
      (''semantic.entrypoint_kind='', \<lambda>v s. s\<lparr>ss_entrypoint_kind := Some v\<rparr>),
      (''semantic.rust_file_count='', \<lambda>v s. s\<lparr>ss_rust_file_count := parse_word v\<rparr>),
      (''semantic.source_file='', \<lambda>v s. s\<lparr>ss_source_files := ss_source_files s @ [v]\<rparr>),
      (''semantic.module_gap='', \<lambda>v s. s\<lparr>ss_module_gaps := ss_module_gaps s @ [v]\<rparr>),
      (''semantic.planning_precondition='',
        \<lambda>v s. s\<lparr>ss_planning_preconditions := ss_planning_preconditions s @ [v]\<rparr>),
      (''semantic.repair_intent='', \<lambda>v s. s\<lparr>ss_repair_intents := ss_repair_intents s @ [v]\<rparr>),
      (''semantic.compiler_hint='',
        \<lambda>v s. (case parse_compiler_hint_record v of
                 Some h \<Rightarrow> s\<lparr>ss_compiler_hints := ss_compiler_hints s @ [h]\<rparr> | None \<Rightarrow> s)),
      (''semantic.validation_blocked_by_preconditions='',
        \<lambda>v s. s\<lparr>ss_validation_blocked_by_preconditions := (v = ''true'')\<rparr>),
      (''semantic.compiler_repair_required='', \<lambda>v s. s\<lparr>ss_compiler_repair_required := (v = ''true'')\<rparr>),
      (''semantic.failure_class='', \<lambda>v s. s\<lparr>ss_failure_class := Some v\<rparr>),
      (''semantic.failure_scope='', \<lambda>v s. s\<lparr>ss_failure_scope := Some v\<rparr>),
      (''semantic.graph_artifact_id='', \<lambda>v s. s\<lparr>ss_graph_artifact_id := Some v\<rparr>),
      (''semantic.graph_node_count='', \<lambda>v s. s\<lparr>ss_graph_node_count := parse_word v\<rparr>),
      (''semantic.graph_edge_count='', \<lambda>v s. s\<lparr>ss_graph_edge_count := parse_word v\<rparr>),
      (''semantic.graph_file_count='', \<lambda>v s. s\<lparr>ss_graph_file_count := parse_word v\<rparr>),
      (''semantic.graph_call_edge_count='', \<lambda>v s. s\<lparr>ss_graph_call_edge_count := parse_word v\<rparr>),
      (''semantic.graph_module_edge_count='', \<lambda>v s. s\<lparr>ss_graph_module_edge_count := parse_word v\<rparr>),
      (''semantic.graph_cfg_edge_count='', \<lambda>v s. s\<lparr>ss_graph_cfg_edge_count := parse_word v\<rparr>)]"

fun apply_first :: "(string \<times> (string \<Rightarrow> 's \<Rightarrow> 's)) list \<Rightarrow> string \<Rightarrow> 's \<Rightarrow> 's" where
  "apply_first [] line s = s"
| "apply_first ((key, set_field) # table) line s =
     (case strip_prefix key line of Some v \<Rightarrow> set_field v s | None \<Rightarrow> apply_first table line s)"

definition from_workspace_facts :: "string list \<Rightarrow> SemanticStateSummary" where
  "from_workspace_facts facts =
     fold (apply_first fact_table) facts (default_summary\<lparr>ss_version := VERSION\<rparr>)"

definition apply_graph_artifact_summary ::
  "string \<Rightarrow> usize \<Rightarrow> usize \<Rightarrow> usize \<Rightarrow> usize \<Rightarrow> usize \<Rightarrow> usize \<Rightarrow> SemanticStateSummary \<Rightarrow> SemanticStateSummary" where
  "apply_graph_artifact_summary artifact_id nodes edges files calls modules cfgs s =
     s\<lparr>ss_graph_artifact_id := Some artifact_id, ss_graph_node_count := Some nodes,
       ss_graph_edge_count := Some edges, ss_graph_file_count := Some files,
       ss_graph_call_edge_count := Some calls, ss_graph_module_edge_count := Some modules,
       ss_graph_cfg_edge_count := Some cfgs\<rparr>"

definition apply_rustc_capture_failure :: "string \<Rightarrow> SemanticStateSummary \<Rightarrow> SemanticStateSummary" where
  "apply_rustc_capture_failure message s =
     (let summary = ''rustc capture failed: '' @ message;
          known = list_ex (\<lambda>h. kind_enum h = Some HK_GenericCompilerFailure \<and> hint_summary h = summary)
                    (ss_compiler_hints s);
          hint = with_failure_scope FS_Tooling
                   (new_hint HK_GenericCompilerFailure summary
                     ''refresh compiler context or stabilize rustc capture before structural analysis'' [])
      in s\<lparr>ss_compiler_repair_required := True,
           ss_failure_class := Some (failure_class_as_str FC_GenericCompilerFailure),
           ss_compiler_hints := (if known then ss_compiler_hints s else ss_compiler_hints s @ [hint]),
           ss_failure_scope := Some (failure_scope_as_str FS_Tooling)\<rparr>)"

definition has_actionable_compiler_hints :: "SemanticStateSummary \<Rightarrow> bool" where
  "has_actionable_compiler_hints s \<longleftrightarrow>
     list_ex (\<lambda>h. case kind_enum h of None \<Rightarrow> False
                  | Some k \<Rightarrow> k \<in> {HK_MissingModule, HK_DeadCodeForbidConflict, HK_MissingEntrypoint,
                      HK_UnresolvedImport, HK_MissingSymbol, HK_DuplicateDefinition, HK_TraitBoundFailure})
       (ss_compiler_hints s)"

definition primary_failure_class :: "SemanticStateSummary \<Rightarrow> string option" where
  "primary_failure_class s =
     (case ss_failure_class s of
        Some v \<Rightarrow> Some v
      | None \<Rightarrow> map_option hint_kind_as_str
                  (Option.bind (find (\<lambda>h. kind_enum h \<noteq> None) (ss_compiler_hints s)) kind_enum))"

definition compiler_hint_kinds :: "SemanticStateSummary \<Rightarrow> string list" where
  "compiler_hint_kinds s = map hint_kind (ss_compiler_hints s)"

section \<open>Text blocks\<close>

definition render_bullets :: "string list \<Rightarrow> string" where
  "render_bullets ls = (if ls = [] then ''- none'' else join nl (map (\<lambda>l. ''- '' @ l) ls))"

definition planner_lines :: "SemanticStateSummary \<Rightarrow> string list" where
  "planner_lines s =
     [''semantic_version='' @ show_word (ss_version s),
      ''semantic_complete='' @ show_bool (ss_complete s)] @
     opt_fact ''target_root='' (ss_target_root s) @
     [''path_exists='' @ show_bool (ss_path_exists s),
      ''repo_initialized='' @ show_bool (ss_repo_initialized s),
      ''cargo_project='' @ show_bool (ss_cargo_project s)] @
     opt_fact ''failure_scope='' (ss_failure_scope s) @
     opt_fact ''failure_class='' (ss_failure_class s) @
     opt_fact ''crate_name='' (ss_crate_name s) @
     opt_fact ''entrypoint_kind='' (ss_entrypoint_kind s) @
     opt_fact ''rust_file_count='' (map_option show_word (ss_rust_file_count s)) @
     (if ss_source_files s = [] then [] else [''file_graph='' @ join '', '' (ss_source_files s)]) @
     opt_fact ''graph_artifact_id='' (ss_graph_artifact_id s) @
     opt_fact ''graph_node_count='' (map_option show_word (ss_graph_node_count s)) @
     opt_fact ''graph_edge_count='' (map_option show_word (ss_graph_edge_count s))"

definition compact_block :: "SemanticStateSummary \<Rightarrow> string" where
  "compact_block s =
     join nl
       ([''version='' @ show_word (ss_version s),
         ''complete='' @ show_bool (ss_complete s),
         ''path_exists='' @ show_bool (ss_path_exists s),
         ''cargo_project='' @ show_bool (ss_cargo_project s),
         ''entrypoint_kind='' @ or_else (ss_entrypoint_kind s) ''NA'',
         ''crate_name='' @ or_else (ss_crate_name s) ''NA'',
         ''validation_blocked='' @ show_bool (ss_validation_blocked_by_preconditions s),
         ''compiler_repair_required='' @ show_bool (ss_compiler_repair_required s)] @
        opt_fact ''failure_scope='' (ss_failure_scope s) @
        opt_fact ''failure_class='' (ss_failure_class s) @
        (if ss_planning_preconditions s = [] then []
         else [''preconditions='' @ join ''|'' (ss_planning_preconditions s)]) @
        (if ss_repair_intents s = [] then [] else [''repair_intents='' @ join ''|'' (ss_repair_intents s)]) @
        (if ss_compiler_hints s = [] then []
         else [''compiler_hint_kinds='' @ join ''|'' (compiler_hint_kinds s)]) @
        opt_fact ''graph_artifact_id='' (ss_graph_artifact_id s) @
        opt_fact ''graph_nodes='' (map_option show_word (ss_graph_node_count s)) @
        opt_fact ''graph_edges='' (map_option show_word (ss_graph_edge_count s)))"

definition render_planner_block :: "SemanticStateSummary \<Rightarrow> string" where
  "render_planner_block s =
     ''Environment model:'' @ nl @ render_bullets (planner_lines s) @ nl @ nl @
     ''Planning preconditions:'' @ nl @ render_bullets (ss_planning_preconditions s) @ nl @ nl @
     ''Repair intents:'' @ nl @ render_bullets (ss_repair_intents s) @ nl @ nl @
     ''Compiler hints:'' @ nl @ render_bullets (map render_hint_line (ss_compiler_hints s)) @ nl @ nl @
     ''Semantic summary:'' @ nl @ compact_block s"

definition render_route_block :: "SemanticStateSummary \<Rightarrow> string" where
  "render_route_block s = ''Semantic summary:'' @ nl @ compact_block s"

section \<open>Round trip through the line format\<close>

subsection \<open>One hint\<close>

text \<open>
  A hint survives its line when no part contains a marker that is searched later, and no part
  has outer white space or clashes with the separators of the target list.
\<close>

definition trimmed :: "string \<Rightarrow> bool" where
  "trimmed s \<longleftrightarrow> trim s = s"

definition targets_ok :: "string list \<Rightarrow> bool" where
  "targets_ok ts \<longleftrightarrow>
     ts \<noteq> [''none''] \<and> ts \<noteq> [''''] \<and> list_all (\<lambda>t. CHR ''|'' \<notin> set t \<and> trimmed t) ts"

definition hint_ok :: "CompilerHintRecord \<Rightarrow> bool" where
  "hint_ok h \<longleftrightarrow>
     (let k = hint_kind h; sc = hint_failure_scope h; ts = render_targets (hint_target_files h);
          su = hint_summary h; to_scope = ''kind='' @ k @ '' '';
          to_targets = to_scope @ ''scope='' @ sc @ '' '';
          to_summary = to_targets @ ''targets='' @ ts @ '' '';
          to_repair = to_summary @ ''summary='' @ su @ '' ''
      in list_all trimmed [k, sc, ts, su, hint_suggested_repair h] \<and>
         targets_ok (hint_target_files h) \<and>
         \<not> str_contains to_scope ''scope='' \<and> \<not> str_contains to_targets ''targets='' \<and>
         \<not> str_contains to_summary ''summary='' \<and> \<not> str_contains to_repair ''repair='' \<and>
         \<not> str_contains k '' scope='' \<and> \<not> str_contains sc '' targets='' \<and>
         \<not> str_contains ts '' summary='' \<and> \<not> str_contains su '' repair='')"

lemma parse_field_at:
  assumes "line = before @ m @ v @ next_field_delimiter m @ rest"
    and m: "m = p @ ''=''" "CHR ''='' \<notin> set p" "\<not> sublist m before"
    and d: "next_field_delimiter m = q @ ''=''" "CHR ''='' \<notin> set q" "\<not> sublist (next_field_delimiter m) v"
    and "trim v = v"
  shows "parse_field line m = Some v"
proof -
  have "str_find m line = Some (length before)"
    using str_find_skip [OF m(2), of before "v @ next_field_delimiter m @ rest"] m(1,3) assms(1) by simp
  moreover have "str_find (next_field_delimiter m) (v @ next_field_delimiter m @ rest) = Some (length v)"
    using str_find_skip [OF d(2), of v rest] d(1,3) by simp
  ultimately show ?thesis
    using assms(1,8) d(1) by (simp add: parse_field_def Let_def)
qed

lemma parse_last_field:
  assumes "line = before @ m @ v" and m: "m = p @ ''=''" "CHR ''='' \<notin> set p" "\<not> sublist m before"
    and "next_field_delimiter m = ''''" and "trim v = v"
  shows "parse_field line m = Some v"
proof -
  have "str_find m line = Some (length before)"
    using str_find_skip [OF m(2), of before v] m(1,3) assms(1) by simp
  then show ?thesis using assms(1,5,6) by (simp add: parse_field_def Let_def)
qed

lemma targets_round_trip:
  assumes "targets_ok ts"
  shows "(let r = render_targets ts in if r = ''none'' \<or> r = '''' then [] else map trim (split_char (CHR ''|'') r)) = ts"
proof (cases ts rule: list.exhaust [case_names Nil Cons])
  case (Cons t ts')
  have split: "split_char (CHR ''|'') (join ''|'' ts) = ts"
    by (rule split_join) (use assms Cons in \<open>auto simp: targets_ok_def list_all_iff\<close>)
  have "join ''|'' ts \<noteq> ''none''" "join ''|'' ts \<noteq> ''''"
    using assms split by (auto simp: targets_ok_def)
  moreover have "map trim ts = ts"
    using assms by (auto simp: targets_ok_def list_all_iff trimmed_def intro: map_idI)
  ultimately show ?thesis
    using split Cons by (simp add: render_targets_def Let_def)
qed (simp add: render_targets_def)

lemma hint_round_trip:
  assumes "hint_ok h"
  shows "parse_compiler_hint_record (render_hint_line h) = Some h"
proof -
  define k sc ts su re where
    "k = hint_kind h" "sc = hint_failure_scope h" "ts = render_targets (hint_target_files h)"
    "su = hint_summary h" "re = hint_suggested_repair h"
  note parts = this
  let ?l = "render_hint_line h"
  have ok: "trim k = k" "trim sc = sc" "trim ts = ts" "trim su = su" "trim re = re"
      "\<not> sublist ''scope='' (''kind='' @ k @ '' '')"
      "\<not> sublist ''targets='' (''kind='' @ k @ '' scope='' @ sc @ '' '')"
      "\<not> sublist ''summary='' (''kind='' @ k @ '' scope='' @ sc @ '' targets='' @ ts @ '' '')"
      "\<not> sublist ''repair='' (''kind='' @ k @ '' scope='' @ sc @ '' targets='' @ ts @ '' summary='' @ su @ '' '')"
      "\<not> sublist '' scope='' k" "\<not> sublist '' targets='' sc" "\<not> sublist '' summary='' ts"
      "\<not> sublist '' repair='' su"
    using assms by (simp_all add: hint_ok_def Let_def trimmed_def str_contains_def parts)
  have line: "?l = ''kind='' @ k @ '' scope='' @ sc @ '' targets='' @ ts @ '' summary='' @ su @ '' repair='' @ re"
    by (simp add: render_hint_line_def parts)
  have "parse_field ?l ''kind='' = Some k"
    by (rule parse_field_at [where before = "''''" and p = "''kind''" and q = "'' scope''"
          and rest = "sc @ '' targets='' @ ts @ '' summary='' @ su @ '' repair='' @ re"])
      (use ok in \<open>simp_all add: line next_field_delimiter_def\<close>)
  moreover have "parse_field ?l ''scope='' = Some sc"
    by (rule parse_field_at [where before = "''kind='' @ k @ '' ''" and p = "''scope''" and q = "'' targets''"
          and rest = "ts @ '' summary='' @ su @ '' repair='' @ re"])
      (use ok in \<open>simp_all add: line next_field_delimiter_def\<close>)
  moreover have "parse_field ?l ''targets='' = Some ts"
    by (rule parse_field_at [where before = "''kind='' @ k @ '' scope='' @ sc @ '' ''" and p = "''targets''"
          and q = "'' summary''" and rest = "su @ '' repair='' @ re"])
      (use ok in \<open>simp_all add: line next_field_delimiter_def\<close>)
  moreover have "parse_field ?l ''summary='' = Some su"
    by (rule parse_field_at [where before = "''kind='' @ k @ '' scope='' @ sc @ '' targets='' @ ts @ '' ''"
          and p = "''summary''" and q = "'' repair''" and rest = re])
      (use ok in \<open>simp_all add: line next_field_delimiter_def\<close>)
  moreover have "parse_field ?l ''repair='' = Some re"
    by (rule parse_last_field [where p = "''repair''"
          and before = "''kind='' @ k @ '' scope='' @ sc @ '' targets='' @ ts @ '' summary='' @ su @ '' ''"])
      (use ok in \<open>simp_all add: line next_field_delimiter_def\<close>)
  moreover have tgt: "(if ts = ''none'' \<or> ts = '''' then [] else map trim (split_char (CHR ''|'') ts)) = hint_target_files h"
  proof -
    have "targets_ok (hint_target_files h)" using assms by (simp add: hint_ok_def Let_def)
    from targets_round_trip [OF this] show ?thesis unfolding Let_def parts .
  qed
  ultimately have "parse_compiler_hint_record ?l =
      Some \<lparr> hint_kind = k, hint_summary = su, hint_suggested_repair = re,
             hint_target_files = hint_target_files h, hint_failure_scope = sc \<rparr>"
    by (simp only: parse_compiler_hint_record_def option.case Let_def or_else_simps tgt)
  then show ?thesis by (simp add: parts)
qed

subsection \<open>The whole summary\<close>

lemma strip_prefix_same [simp]: "strip_prefix key (key @ v) = Some v"
  by (simp add: strip_prefix_def)

text \<open>A key ends in its only equals sign, so no key is a prefix of a line with another key.\<close>

definition fact_key :: "string \<Rightarrow> bool" where
  "fact_key k \<longleftrightarrow> k \<noteq> [] \<and> last k = CHR ''='' \<and> CHR ''='' \<notin> set (butlast k)"

lemma fact_key_unique:
  assumes "fact_key k" and "fact_key key" and "prefix k (key @ v)"
  shows "k = key"
proof -
  obtain p q where p: "k = p @ ''=''" "CHR ''='' \<notin> set p" and q: "key = q @ ''=''" "CHR ''='' \<notin> set q"
    using assms(1,2) by (metis append_butlast_last_id fact_key_def)
  have split: "takeWhile (\<lambda>c. c \<noteq> CHR ''='') (r @ CHR ''='' # xs) = r" if "CHR ''='' \<notin> set r" for r xs
    using that by (induction r) auto
  obtain zs where "key @ v = k @ zs" using assms(3) by (auto simp: prefix_def)
  then have "takeWhile (\<lambda>c. c \<noteq> CHR ''='') (q @ CHR ''='' # v) = takeWhile (\<lambda>c. c \<noteq> CHR ''='') (p @ CHR ''='' # zs)"
    using p q by simp
  then show ?thesis using p q by (simp add: split)
qed

lemma apply_first_map_of:
  assumes "list_all (\<lambda>(k, _). fact_key k) table" and "map_of table key = Some f"
  shows "apply_first table (key @ v) s = f v s"
proof -
  have key: "fact_key key"
    using assms by (auto simp: list_all_iff dest!: map_of_SomeD)
  show ?thesis
    using assms
  proof (induction table)
    case (Cons e table)
    obtain k g where e: "e = (k, g)" by (cases e)
    show ?case
    proof (cases "k = key")
      case True
      with Cons.prems e show ?thesis by simp
    next
      case False
      then have "strip_prefix k (key @ v) = None"
        using fact_key_unique [of k key v] Cons.prems(1) key e by (auto simp: strip_prefix_def)
      with Cons e False show ?thesis by simp
    qed
  qed simp
qed

lemma fact_table_keys: "list_all (\<lambda>(k, _). fact_key k) fact_table"
  by (simp add: fact_table_def fact_key_def)

lemma fold_fact:
  "map_of fact_table key = Some f \<Longrightarrow> fold (apply_first fact_table) [key @ v] s = f v s"
  by (simp add: apply_first_map_of [OF fact_table_keys])

lemma fold_opt_fact:
  "map_of fact_table key = Some f \<Longrightarrow>
    fold (apply_first fact_table) (opt_fact key v) s = (case v of None \<Rightarrow> s | Some x \<Rightarrow> f x s)"
  by (simp add: opt_fact_def apply_first_map_of [OF fact_table_keys] split: option.split)

lemma fold_fact_list:
  "map_of fact_table key = Some f \<Longrightarrow>
    fold (apply_first fact_table) (map (\<lambda>x. key @ g x) xs) s = fold (\<lambda>x. f (g x)) xs s"
  by (induction xs arbitrary: s) (simp_all add: apply_first_map_of [OF fact_table_keys])

text \<open>What reading the line of a field does: a plain field, an optional text and an optional number
  the summary does not have yet, and the lines of a list.\<close>

abbreviation read_facts :: "string list \<Rightarrow> SemanticStateSummary \<Rightarrow> SemanticStateSummary" where
  "read_facts \<equiv> fold (apply_first fact_table)"

lemma read_plain:
  "read_facts [''semantic.version='' @ show_word w] s = s\<lparr>ss_version := w\<rparr>"
  "read_facts [''semantic.complete='' @ show_bool b] s = s\<lparr>ss_complete := b\<rparr>"
  "read_facts [''semantic.path_exists='' @ show_bool b] s = s\<lparr>ss_path_exists := b\<rparr>"
  "read_facts [''semantic.repo_initialized='' @ show_bool b] s = s\<lparr>ss_repo_initialized := b\<rparr>"
  "read_facts [''semantic.cargo_project='' @ show_bool b] s = s\<lparr>ss_cargo_project := b\<rparr>"
  "read_facts [''semantic.validation_blocked_by_preconditions='' @ show_bool b] s = s\<lparr>ss_validation_blocked_by_preconditions := b\<rparr>"
  "read_facts [''semantic.compiler_repair_required='' @ show_bool b] s = s\<lparr>ss_compiler_repair_required := b\<rparr>"
  by - (rule fold_fact [THEN trans], simp add: fact_table_def, simp)+

lemma read_opt_text:
  "ss_target_root s = None \<Longrightarrow> read_facts (opt_fact ''semantic.target_root='' v) s = s\<lparr>ss_target_root := v\<rparr>"
  "ss_crate_name s = None \<Longrightarrow> read_facts (opt_fact ''semantic.crate_name='' v) s = s\<lparr>ss_crate_name := v\<rparr>"
  "ss_entrypoint_kind s = None \<Longrightarrow> read_facts (opt_fact ''semantic.entrypoint_kind='' v) s = s\<lparr>ss_entrypoint_kind := v\<rparr>"
  "ss_failure_class s = None \<Longrightarrow> read_facts (opt_fact ''semantic.failure_class='' v) s = s\<lparr>ss_failure_class := v\<rparr>"
  "ss_failure_scope s = None \<Longrightarrow> read_facts (opt_fact ''semantic.failure_scope='' v) s = s\<lparr>ss_failure_scope := v\<rparr>"
  "ss_graph_artifact_id s = None \<Longrightarrow> read_facts (opt_fact ''semantic.graph_artifact_id='' v) s = s\<lparr>ss_graph_artifact_id := v\<rparr>"
  by - (rule fold_opt_fact [THEN trans], simp add: fact_table_def, cases v; cases s; simp)+

lemma read_opt_number:
  "ss_rust_file_count s = None \<Longrightarrow>
     read_facts (opt_fact ''semantic.rust_file_count='' (map_option show_word v)) s = s\<lparr>ss_rust_file_count := v\<rparr>"
  "ss_graph_node_count s = None \<Longrightarrow>
     read_facts (opt_fact ''semantic.graph_node_count='' (map_option show_word v)) s = s\<lparr>ss_graph_node_count := v\<rparr>"
  "ss_graph_edge_count s = None \<Longrightarrow>
     read_facts (opt_fact ''semantic.graph_edge_count='' (map_option show_word v)) s = s\<lparr>ss_graph_edge_count := v\<rparr>"
  "ss_graph_file_count s = None \<Longrightarrow>
     read_facts (opt_fact ''semantic.graph_file_count='' (map_option show_word v)) s = s\<lparr>ss_graph_file_count := v\<rparr>"
  "ss_graph_call_edge_count s = None \<Longrightarrow>
     read_facts (opt_fact ''semantic.graph_call_edge_count='' (map_option show_word v)) s = s\<lparr>ss_graph_call_edge_count := v\<rparr>"
  "ss_graph_module_edge_count s = None \<Longrightarrow>
     read_facts (opt_fact ''semantic.graph_module_edge_count='' (map_option show_word v)) s = s\<lparr>ss_graph_module_edge_count := v\<rparr>"
  "ss_graph_cfg_edge_count s = None \<Longrightarrow>
     read_facts (opt_fact ''semantic.graph_cfg_edge_count='' (map_option show_word v)) s = s\<lparr>ss_graph_cfg_edge_count := v\<rparr>"
  by - (rule fold_opt_fact [THEN trans], simp add: fact_table_def, cases v; cases s; simp)+

lemma fold_push:
  "fold (\<lambda>v s. s\<lparr>ss_source_files := ss_source_files s @ [v]\<rparr>) xs s = s\<lparr>ss_source_files := ss_source_files s @ xs\<rparr>"
  "fold (\<lambda>v s. s\<lparr>ss_module_gaps := ss_module_gaps s @ [v]\<rparr>) xs s = s\<lparr>ss_module_gaps := ss_module_gaps s @ xs\<rparr>"
  "fold (\<lambda>v s. s\<lparr>ss_planning_preconditions := ss_planning_preconditions s @ [v]\<rparr>) xs s =
     s\<lparr>ss_planning_preconditions := ss_planning_preconditions s @ xs\<rparr>"
  "fold (\<lambda>v s. s\<lparr>ss_repair_intents := ss_repair_intents s @ [v]\<rparr>) xs s = s\<lparr>ss_repair_intents := ss_repair_intents s @ xs\<rparr>"
  by (induction xs arbitrary: s) simp_all

lemma fold_push_hint:
  "list_all hint_ok hs \<Longrightarrow>
    fold (\<lambda>h s. case parse_compiler_hint_record (render_hint_line h) of
            Some h' \<Rightarrow> s\<lparr>ss_compiler_hints := ss_compiler_hints s @ [h']\<rparr> | None \<Rightarrow> s) hs s =
    s\<lparr>ss_compiler_hints := ss_compiler_hints s @ hs\<rparr>"
  by (induction hs arbitrary: s) (simp_all add: hint_round_trip)

lemma read_list:
  "read_facts (map (\<lambda>x. ''semantic.source_file='' @ x) xs) s = s\<lparr>ss_source_files := ss_source_files s @ xs\<rparr>"
  "read_facts (map (\<lambda>x. ''semantic.module_gap='' @ x) xs) s = s\<lparr>ss_module_gaps := ss_module_gaps s @ xs\<rparr>"
  "read_facts (map (\<lambda>x. ''semantic.planning_precondition='' @ x) xs) s =
     s\<lparr>ss_planning_preconditions := ss_planning_preconditions s @ xs\<rparr>"
  "read_facts (map (\<lambda>x. ''semantic.repair_intent='' @ x) xs) s = s\<lparr>ss_repair_intents := ss_repair_intents s @ xs\<rparr>"
  by - (rule fold_fact_list [THEN trans], simp add: fact_table_def, simp add: fold_push)+

lemma read_hints:
  assumes "list_all hint_ok hs"
  shows "read_facts (map (\<lambda>h. ''semantic.compiler_hint='' @ render_hint_line h) hs) s =
    s\<lparr>ss_compiler_hints := ss_compiler_hints s @ hs\<rparr>"
  by (rule fold_fact_list [THEN trans], simp add: fact_table_def, rule fold_push_hint [OF assms])

lemma read_step: "read_facts (x # y # ys) s = read_facts (y # ys) (read_facts [x] s)"
  by simp


definition sample_hint :: CompilerHintRecord where
  "sample_hint =
     with_failure_scope FS_Localized
       (new_hint HK_MissingModule ''module foo not found'' ''add the file'' [''src/foo.rs'', ''src/lib.rs''])"

definition sample_summary :: SemanticStateSummary where
  "sample_summary =
     default_summary\<lparr>ss_version := 7, ss_complete := True, ss_target_root := Some ''/w'',
       ss_rust_file_count := Some 12, ss_source_files := [''src/lib.rs''],
       ss_compiler_hints := [sample_hint]\<rparr>"

lemma sample_hint_ok: "hint_ok sample_hint"
  by code_simp


text \<open>
  The condition on the hints is not empty: the hint of a failed capture takes the message of the
  compiler into its summary, and a summary with a field marker comes back cut at it.
\<close>

lemma marked_hint_is_cut:
  "map_option hint_summary
     (parse_compiler_hint_record (render_hint_line (new_hint HK_GenericCompilerFailure ''x repair=y'' ''z'' []))) =
   Some ''x''"
  by code_simp

end
