(* ===== verification/Kernel_Graph.thy ===== *)
theory Kernel_Graph
  imports Canon_Prelude
begin

text \<open>
  The compiler events and the graph state they build
  (\<^verbatim>\<open>canon-types/src/kernel_types.rs\<close>; \<^verbatim>\<open>apply_delta\<close>, \<^verbatim>\<open>empty_state\<close> and the kernel
  processor of \<^verbatim>\<open>canon-runtime/src/lib.rs\<close>). A hash set is a set, a vector a list, the
  symbol map an association list. The hash of the counts is a parameter.
\<close>

section \<open>Compiler events\<close>

record SessionStart =
  se_project :: string
  se_schema :: u64
  se_byte_offset :: u64

record NodeDefined =
  nd_symbol :: string
  nd_kind :: string
  nd_file :: string
  nd_line :: u32
  nd_col :: u32
  nd_lo :: u32
  nd_hi :: u32

record NodeUpdated =
  nu_symbol :: string
  nu_kind :: string
  nu_file :: string
  nu_line :: u32
  nu_col :: u32
  nu_lo :: u32
  nu_hi :: u32

record NodeRemoved =
  nr_symbol :: string
  nr_removed :: bool

record EdgeDefined =
  ed_src :: string
  ed_dst :: string
  ed_kind :: string
  ed_defined :: bool

record EdgeRemoved =
  er_src :: string
  er_dst :: string
  er_kind :: string
  er_removed :: bool

record FileSeen =
  fs_path :: string
  fs_seen :: bool

record CallsiteObserved =
  co_kind :: string
  co_resolved :: bool

record SymbolDefined =
  sd_symbol :: string
  sd_kind :: string
  sd_defined :: bool

record SpanDefined =
  sp_symbol :: string
  sp_file :: string
  sp_line :: u32
  sp_col :: u32
  sp_lo :: u32
  sp_hi :: u32

record PanicSymbol =
  psy_symbol :: string
  psy_file :: "string option"
  psy_line :: "u32 option"

record PanicFrame =
  pf_frame_index :: usize
  pf_symbols :: "PanicSymbol list"

record PanicCaptured =
  pc_def_id :: string
  pc_message :: string
  pc_mir_variant :: "string option"
  pc_lowering_stage :: "string option"
  pc_file :: "string option"
  pc_span :: "string option"
  pc_frames :: "PanicFrame list"

record WarningCaptured =
  wc_message :: string
  wc_captured :: bool

record CompilationUnitFinished =
  cu_crate_name :: string
  cu_finished :: bool

record InvariantViolation =
  iv_message :: string
  iv_recorded :: bool

datatype RustcEvent =
    RSessionStart SessionStart
  | RNodeDefined NodeDefined
  | RNodeUpdated NodeUpdated
  | RNodeRemoved NodeRemoved
  | REdgeDefined EdgeDefined
  | REdgeRemoved EdgeRemoved
  | RFileSeen FileSeen
  | RCallsiteObserved CallsiteObserved
  | RSymbolDefined SymbolDefined
  | RSpanDefined SpanDefined
  | RPanicCaptured PanicCaptured
  | RWarningCaptured WarningCaptured
  | RCompilationUnitFinished CompilationUnitFinished
  | RInvariantViolation InvariantViolation

record EventDelta =
  dl_id :: u64
  dl_tick :: u64
  dl_event :: RustcEvent

definition default_event_delta :: EventDelta where
  "default_event_delta =
     \<lparr> dl_id = 0, dl_tick = 0,
       dl_event = RSessionStart \<lparr> se_project = '''', se_schema = 0, se_byte_offset = 0 \<rparr> \<rparr>"

type_synonym edge = "string \<times> string \<times> string"

record RustcState =
  ks_tick :: u64
  ks_phase :: string
  ks_last_event_id :: u64
  ks_invariant_hash :: string
  ks_graph_version :: u64
  ks_known_symbols :: "(string \<times> string) list"
  ks_known_edges :: "edge list"
  ks_known_files :: "string set"
  ks_removed_symbols :: "string set"
  ks_removed_edges :: "edge list"

definition default_rustc_state :: RustcState where
  "default_rustc_state =
     \<lparr> ks_tick = 0, ks_phase = '''', ks_last_event_id = 0, ks_invariant_hash = '''',
       ks_graph_version = 0, ks_known_symbols = [], ks_known_edges = [], ks_known_files = {},
       ks_removed_symbols = {}, ks_removed_edges = [] \<rparr>"

definition empty_state :: RustcState where
  "empty_state =
     \<lparr> ks_tick = 0, ks_phase = ''init'', ks_last_event_id = 0, ks_invariant_hash = '''',
       ks_graph_version = 2, ks_known_symbols = [], ks_known_edges = [], ks_known_files = {},
       ks_removed_symbols = {}, ks_removed_edges = [] \<rparr>"

section \<open>Applying an event\<close>

fun is_session_start :: "RustcEvent \<Rightarrow> bool" where
  "is_session_start (RSessionStart _) = True"
| "is_session_start _ = False"

fun update_graph :: "RustcEvent \<Rightarrow> RustcState \<Rightarrow> RustcState" where
  "update_graph (RNodeDefined n) s =
     s\<lparr>ks_known_symbols := AList.update (nd_symbol n) (nd_kind n) (ks_known_symbols s),
       ks_removed_symbols := ks_removed_symbols s - {nd_symbol n}\<rparr>"
| "update_graph (RNodeUpdated n) s =
     s\<lparr>ks_known_symbols := AList.update (nu_symbol n) (nu_kind n) (ks_known_symbols s),
       ks_removed_symbols := ks_removed_symbols s - {nu_symbol n}\<rparr>"
| "update_graph (RNodeRemoved n) s =
     s\<lparr>ks_known_symbols := AList.delete (nr_symbol n) (ks_known_symbols s),
       ks_removed_symbols := insert (nr_symbol n) (ks_removed_symbols s)\<rparr>"
| "update_graph (REdgeDefined e) s =
     (let x = (ed_src e, ed_dst e, ed_kind e)
      in s\<lparr>ks_known_edges := ks_known_edges s @ [x],
           ks_removed_edges := filter (\<lambda>y. y \<noteq> x) (ks_removed_edges s)\<rparr>)"
| "update_graph (REdgeRemoved e) s =
     (let x = (er_src e, er_dst e, er_kind e)
      in s\<lparr>ks_known_edges := filter (\<lambda>y. y \<noteq> x) (ks_known_edges s),
           ks_removed_edges := ks_removed_edges s @ [x]\<rparr>)"
| "update_graph (RFileSeen f) s = s\<lparr>ks_known_files := insert (fs_path f) (ks_known_files s)\<rparr>"
| "update_graph (RSessionStart _) s =
     s\<lparr>ks_last_event_id := 0, ks_known_symbols := [], ks_known_edges := [], ks_known_files := {},
       ks_removed_symbols := {}, ks_removed_edges := []\<rparr>"
| "update_graph (RCompilationUnitFinished _) s = s\<lparr>ks_phase := ''finished''\<rparr>"
| "update_graph _ s = s"

type_synonym count_hash = "u64 \<Rightarrow> u64 \<Rightarrow> u64 \<Rightarrow> string"

definition apply_delta :: "count_hash \<Rightarrow> EventDelta \<Rightarrow> RustcState \<Rightarrow> string + RustcState" where
  "apply_delta compute_invariant_hash delta s =
     (if dl_id delta \<le> ks_last_event_id s \<and> \<not> is_session_start (dl_event delta)
      then Inl (''event id must be monotonic id='' @ decimal (unat (dl_id delta)) @
                '' last_event_id='' @ decimal (unat (ks_last_event_id s)))
      else
        (let s1 = update_graph (dl_event delta)
                    (s\<lparr>ks_tick := dl_tick delta, ks_last_event_id := dl_id delta\<rparr>)
         in Inr (s1\<lparr>ks_invariant_hash :=
                   compute_invariant_hash (of_nat (length (ks_known_symbols s1)))
                     (of_nat (length (ks_known_edges s1))) 2\<rparr>)))"

section \<open>The kernel processor\<close>

text \<open>
  The thread that feeds compiler events of the log into a graph of its own. One message is one
  turn of its loop; the analysis requests it emits are returned as (request identifier, crate)
  pairs, the request for the whole workspace without a crate. A message that carries no
  compiler event is skipped, which is the value \<open>Event None\<close>.
\<close>

datatype KernelMsg = Event "RustcEvent option" | Reset

record Kernel =
  kn_state :: RustcState
  kn_tick :: u64

definition new_kernel :: Kernel where
  "new_kernel = \<lparr> kn_state = empty_state, kn_tick = 0 \<rparr>"

fun analysis_crate :: "RustcEvent \<Rightarrow> string option" where
  "analysis_crate (RCompilationUnitFinished cu) = Some (cu_crate_name cu)"
| "analysis_crate _ = None"

fun kernel_step :: "count_hash \<Rightarrow> KernelMsg \<Rightarrow> Kernel \<Rightarrow> (string \<times> string option) list \<times> Kernel" where
  "kernel_step h Reset k = ([], new_kernel)"
| "kernel_step h (Event None) k = ([], k)"
| "kernel_step h (Event (Some e)) k =
     (let state1 = (if is_session_start e then empty_state else kn_state k);
          tick1 = (if is_session_start e then 0 else saturating_add (kn_tick k) 1);
          state2 = (case apply_delta h \<lparr> dl_id = tick1, dl_tick = tick1, dl_event = e \<rparr> state1 of
                      Inl _ \<Rightarrow> state1 | Inr s \<Rightarrow> s);
          emitted = (case analysis_crate e of
                       None \<Rightarrow> []
                     | Some c \<Rightarrow>
                         [(''analysis-k-'' @ c @ ''-'' @ decimal (unat tick1), Some c),
                          (''analysis-workspace-k-'' @ decimal (unat tick1), None)])
      in (emitted, \<lparr> kn_state = state2, kn_tick = tick1 \<rparr>))"

fun kernel_run ::
  "count_hash \<Rightarrow> KernelMsg list \<Rightarrow> Kernel \<Rightarrow> (string \<times> string option) list \<times> Kernel" where
  "kernel_run h [] k = ([], k)"
| "kernel_run h (m # ms) k =
     (let (out1, k1) = kernel_step h m k; (out2, k2) = kernel_run h ms k1 in (out1 @ out2, k2))"

section \<open>The graph is what the session last said\<close>

text \<open>
  Reference semantics: the events of the running session, and what the last of them says about a
  symbol and about an edge.
\<close>

fun session_step :: "KernelMsg \<Rightarrow> RustcEvent list \<Rightarrow> RustcEvent list" where
  "session_step Reset es = []"
| "session_step (Event None) es = es"
| "session_step (Event (Some e)) es = (if is_session_start e then [] else es @ [e])"

definition session :: "KernelMsg list \<Rightarrow> RustcEvent list" where
  "session ms = fold session_step ms []"

fun node_write :: "RustcEvent \<Rightarrow> (string \<times> string option) option" where
  "node_write (RNodeDefined n) = Some (nd_symbol n, Some (nd_kind n))"
| "node_write (RNodeUpdated n) = Some (nu_symbol n, Some (nu_kind n))"
| "node_write (RNodeRemoved n) = Some (nr_symbol n, None)"
| "node_write _ = None"

fun edge_write :: "RustcEvent \<Rightarrow> (edge \<times> bool) option" where
  "edge_write (REdgeDefined e) = Some ((ed_src e, ed_dst e, ed_kind e), True)"
| "edge_write (REdgeRemoved e) = Some ((er_src e, er_dst e, er_kind e), False)"
| "edge_write _ = None"

definition last_write :: "(RustcEvent \<Rightarrow> ('a \<times> 'b) option) \<Rightarrow> RustcEvent list \<Rightarrow> 'a \<Rightarrow> 'b option" where
  "last_write w es x =
     fold (\<lambda>e acc. case w e of Some (y, v) \<Rightarrow> if y = x then Some v else acc | None \<Rightarrow> acc) es None"

definition files_of :: "RustcEvent list \<Rightarrow> string set" where
  "files_of es = {fs_path f | f. RFileSeen f \<in> set es}"

definition finished_in :: "RustcEvent list \<Rightarrow> bool" where
  "finished_in es \<longleftrightarrow> (\<exists>cu. RCompilationUnitFinished cu \<in> set es)"

definition graph_of :: "RustcEvent list \<Rightarrow> RustcState \<Rightarrow> bool" where
  "graph_of es s \<longleftrightarrow>
     (\<forall>x. map_of (ks_known_symbols s) x = Option.bind (last_write node_write es x) id) \<and>
     (\<forall>x. x \<in> ks_removed_symbols s \<longleftrightarrow> last_write node_write es x = Some None) \<and>
     (\<forall>y. y \<in> set (ks_known_edges s) \<longleftrightarrow> last_write edge_write es y = Some True) \<and>
     (\<forall>y. y \<in> set (ks_removed_edges s) \<longleftrightarrow> last_write edge_write es y = Some False) \<and>
     ks_known_files s = files_of es \<and>
     ks_phase s = (if finished_in es then ''finished'' else ''init'')"

lemma last_write_simps [simp]:
  "last_write w [] x = None"
  "last_write w (es @ [e]) x =
     (case w e of Some (y, v) \<Rightarrow> if y = x then Some v else last_write w es x | None \<Rightarrow> last_write w es x)"
  by (simp_all add: last_write_def split: option.split prod.split)

lemma files_of_simps [simp]:
  "files_of [] = {}"
  "files_of (es @ [e]) = (case e of RFileSeen f \<Rightarrow> insert (fs_path f) (files_of es) | _ \<Rightarrow> files_of es)"
  by (auto simp: files_of_def split: RustcEvent.split)

lemma finished_in_simps [simp]:
  "\<not> finished_in []"
  "finished_in (es @ [e]) \<longleftrightarrow> (case e of RCompilationUnitFinished cu \<Rightarrow> True | _ \<Rightarrow> finished_in es)"
  by (auto simp: finished_in_def split: RustcEvent.split)

lemma graph_of_empty: "graph_of [] empty_state"
  by (simp add: graph_of_def empty_state_def)

lemma graph_of_counters [simp]:
  "graph_of es (s\<lparr>ks_tick := t\<rparr>) = graph_of es s"
  "graph_of es (s\<lparr>ks_last_event_id := i\<rparr>) = graph_of es s"
  "graph_of es (s\<lparr>ks_invariant_hash := h\<rparr>) = graph_of es s"
  by (simp_all add: graph_of_def)

lemma graph_of_update:
  assumes "graph_of es s" and "\<not> is_session_start e"
  shows "graph_of (es @ [e]) (update_graph e s)"
  using assms by (cases e) (auto simp: graph_of_def Let_def update_conv' delete_conv' restrict_map_def)

lemma update_graph_counters [simp]:
  "\<not> is_session_start e \<Longrightarrow> ks_last_event_id (update_graph e s) = ks_last_event_id s"
  "ks_tick (update_graph e s) = ks_tick s"
  by (cases e; simp add: Let_def)+

text \<open>What holds between two messages; the ids are the ticks, so none is rejected.\<close>

definition kernel_ok :: "RustcEvent list \<Rightarrow> Kernel \<Rightarrow> bool" where
  "kernel_ok es k \<longleftrightarrow>
     graph_of es (kn_state k) \<and> kn_tick k = of_nat (length es) \<and>
     ks_last_event_id (kn_state k) = kn_tick k \<and> ks_tick (kn_state k) = kn_tick k"

lemma next_tick:
  assumes "Suc n < 2 ^ LENGTH('a::len)"
  shows "saturating_add (of_nat n) (1 :: 'a word) = of_nat (Suc n)"
    and "\<not> of_nat (Suc n) \<le> (of_nat n :: 'a word)"
proof -
  have u: "unat (of_nat n :: 'a word) = n" "unat (of_nat (Suc n) :: 'a word) = Suc n"
    using assms by (simp_all add: unat_of_nat take_bit_nat_eq_self del: of_nat_Suc)
  show "\<not> of_nat (Suc n) \<le> (of_nat n :: 'a word)"
    by (simp add: word_le_nat_alt u del: of_nat_Suc)
  have "unat (1 :: 'a word) = 1" by simp
  with u(1) assms show "saturating_add (of_nat n) (1 :: 'a word) = of_nat (Suc n)"
    by (simp add: saturating_add_def add.commute)
qed

lemma next_tick_u64:
  assumes "Suc n < 2 ^ 64"
  shows "saturating_add (of_nat n) (1 :: u64) = of_nat (Suc n)"
    and "\<not> of_nat (Suc n) \<le> (of_nat n :: u64)"
  using assms by (auto intro!: next_tick simp del: of_nat_Suc)

lemma kernel_ok_step:
  assumes "kernel_ok es k" and "Suc (length es) < 2 ^ 64"
  shows "kernel_ok (session_step m es) (snd (kernel_step h m k))"
proof (cases m)
  case Reset
  then show ?thesis
    by (simp add: kernel_ok_def new_kernel_def graph_of_empty) (simp add: empty_state_def)
next
  case (Event e)
  note m = this
  show ?thesis
  proof (cases e)
    case None
    with m assms show ?thesis by simp
  next
    case (Some r)
    show ?thesis
    proof (cases "is_session_start r")
      case True
      then obtain p where "r = RSessionStart p" by (cases r) auto
      with m Some show ?thesis
        by (simp add: kernel_ok_def Let_def apply_delta_def) (simp add: graph_of_def empty_state_def)
    next
      case False
      have ok: "graph_of es (kn_state k)" "kn_tick k = of_nat (length es)"
        "ks_last_event_id (kn_state k) = of_nat (length es)"
        using assms(1) by (simp_all add: kernel_ok_def)
      from graph_of_update [OF _ False, of es
        "(kn_state k)\<lparr>ks_tick := of_nat (Suc (length es)), ks_last_event_id := of_nat (Suc (length es))\<rparr>"]
      show ?thesis
        using m Some False ok next_tick_u64 [OF assms(2)]
        by (simp add: kernel_ok_def Let_def apply_delta_def)
    qed
  qed
qed

lemma session_length: "length (fold session_step ms es) \<le> length es + length ms"
proof (induction ms arbitrary: es)
  case (Cons m ms)
  have "length (session_step m es) \<le> Suc (length es)" by (cases "(m, es)" rule: session_step.cases) auto
  with Cons [of "session_step m es"] show ?case by simp
qed simp

lemma kernel_ok_run:
  assumes "kernel_ok es k" and "length es + length ms < 2 ^ 64"
  shows "kernel_ok (fold session_step ms es) (snd (kernel_run h ms k))"
  using assms
proof (induction ms arbitrary: es k)
  case (Cons m ms)
  have "length (session_step m es) \<le> Suc (length es)" by (cases "(m, es)" rule: session_step.cases) auto
  with Cons.prems(2) have "length (session_step m es) + length ms < 2 ^ 64" by simp
  from Cons.IH [OF kernel_ok_step this, of k h] Cons.prems show ?case
    by (simp add: Let_def split_beta)
qed simp

text \<open>C32: The graph of the kernel processor is what its log last said: after any messages, fewer than
  \<open>2\<^sup>6\<^sup>4\<close>, a symbol is known with a kind exactly when the last event of the session about it
  defined or updated it with that kind, removed exactly when that event removed it, and likewise
  for edges; the files are those seen, and every event was accepted, so the identifier and the
  tick count the events of the session. A reset and a session start forget everything before.\<close>

theorem kernel_graph_is_last_write:
  assumes "length ms < 2 ^ 64" and "kernel_run h ms new_kernel = (out, k)"
  shows "graph_of (session ms) (kn_state k) \<and>
    ks_last_event_id (kn_state k) = of_nat (length (session ms)) \<and>
    ks_tick (kn_state k) = of_nat (length (session ms)) \<and>
    dom (map_of (ks_known_symbols (kn_state k))) \<inter> ks_removed_symbols (kn_state k) = {} \<and>
    set (ks_known_edges (kn_state k)) \<inter> set (ks_removed_edges (kn_state k)) = {}"
proof -
  have "kernel_ok [] new_kernel"
    by (simp add: kernel_ok_def new_kernel_def graph_of_empty) (simp add: empty_state_def)
  from kernel_ok_run [OF this, of ms h] assms have ok: "kernel_ok (session ms) k"
    by (simp add: session_def)
  moreover from ok have "graph_of (session ms) (kn_state k)" by (simp add: kernel_ok_def)
  then have "dom (map_of (ks_known_symbols (kn_state k))) \<inter> ks_removed_symbols (kn_state k) = {}"
    "set (ks_known_edges (kn_state k)) \<inter> set (ks_removed_edges (kn_state k)) = {}"
    by (auto simp: graph_of_def)
  ultimately show ?thesis by (simp add: kernel_ok_def)
qed

definition sample_messages :: "KernelMsg list" where
  "sample_messages =
     [Event (Some (RNodeDefined \<lparr> nd_symbol = ''old'', nd_kind = ''fn'', nd_file = '''', nd_line = 1,
                     nd_col = 1, nd_lo = 0, nd_hi = 1 \<rparr>)),
      Event (Some (RSessionStart \<lparr> se_project = ''p'', se_schema = 2, se_byte_offset = 0 \<rparr>)),
      Event None,
      Event (Some (REdgeDefined \<lparr> ed_src = ''a'', ed_dst = ''b'', ed_kind = ''call'', ed_defined = True \<rparr>)),
      Event (Some (REdgeRemoved \<lparr> er_src = ''a'', er_dst = ''b'', er_kind = ''call'', er_removed = True \<rparr>))]"

lemma sample_session: "length sample_messages = 5" "length (session sample_messages) = 2"
  by (simp_all add: sample_messages_def session_def)

theorem kernel_graph_is_last_write_witness:
  "graph_of (session sample_messages) (kn_state (snd (kernel_run (\<lambda>_ _ _. '''') sample_messages new_kernel))) \<and>
   ks_last_event_id (kn_state (snd (kernel_run (\<lambda>_ _ _. '''') sample_messages new_kernel))) = 2"
  using kernel_graph_is_last_write [of sample_messages "\<lambda>_ _ _. ''''", OF _ surjective_pairing]
  by (simp add: sample_session)

text \<open>
  The runtime numbers compiler events with its own counter, which starts at zero, while an
  identifier must exceed the last one, which starts at zero too: the first event of a fresh
  runtime is refused.
\<close>

lemma zero_id_is_refused:
  "\<not> is_session_start e \<Longrightarrow>
   \<exists>msg. apply_delta h \<lparr> dl_id = 0, dl_tick = 1, dl_event = e \<rparr> empty_state = Inl msg"
  by (simp add: apply_delta_def)

end
