(* ===== verification/Runtime_Events.thy ===== *)
theory Runtime_Events
  imports Event_Wire Semantic_State Kernel_Graph
begin

text \<open>
  The typed events of the runtime (\<^verbatim>\<open>canon-runtime-events/src/events.rs\<close>): a record per
  \<^verbatim>\<open>canon_event_struct!\<close> with its fields in source order, the event enums, the mask of
  compiler events, filters, consumer outcomes and capability results, and the names the macros
  of \<^verbatim>\<open>canon-proc-macros/src/lib.rs\<close> derive from the variants. A constructor of
  \<^verbatim>\<open>RuntimeEvent\<close> carries the prefix \<open>Ev\<close>, because the event kinds have the same names. The
  locations \<^verbatim>\<open>file!()\<close> and \<^verbatim>\<open>line!()\<close> are part of an outcome as in the source.
\<close>

text \<open>A double is represented like a single: by its value, an infinity or not a number.\<close>

type_synonym f64 = f32

definition EVENT_SCHEMA_VERSION :: string where
  "EVENT_SCHEMA_VERSION = ''1''"

section \<open>Edit events\<close>

record CapabilityRequested =
  cpq_request_id :: string
  cpq_name :: string
  cpq_args :: json
  cpq_requested :: bool

record RenameSymbol =
  rns_project :: string
  rns_old :: string
  rns_new :: string

record MoveSymbol =
  mvs_project :: string
  mvs_symbol :: string
  mvs_module :: string

record DeleteSymbol =
  dls_project :: string
  dls_symbol :: string
  dls_success :: bool

record RenameModule =
  rnm_project :: string
  rnm_old :: string
  rnm_new :: string

record RenameDir =
  rnd_project :: string
  rnd_old :: path
  rnd_new :: path

record InlineModule =
  ilm_project :: string
  ilm_module :: string
  ilm_success :: bool

record ExtractModule =
  exm_project :: string
  exm_symbol :: string
  exm_module :: string

datatype EditEvent =
    EdRenameSymbol RenameSymbol
  | EdMoveSymbol MoveSymbol
  | EdDeleteSymbol DeleteSymbol
  | EdRenameModule RenameModule
  | EdRenameDir RenameDir
  | EdInlineModule InlineModule
  | EdExtractModule ExtractModule

section \<open>Mask of compiler events\<close>

type_synonym EventMask = u16

definition NODE_DEFINED :: EventMask where "NODE_DEFINED = push_bit 0 1"
definition EDGE_DEFINED :: EventMask where "EDGE_DEFINED = push_bit 1 1"
definition FILE_SEEN :: EventMask where "FILE_SEEN = push_bit 2 1"
definition NODE_UPDATED :: EventMask where "NODE_UPDATED = push_bit 3 1"
definition NODE_REMOVED :: EventMask where "NODE_REMOVED = push_bit 4 1"
definition EDGE_REMOVED :: EventMask where "EDGE_REMOVED = push_bit 5 1"
definition PANIC_CAPTURED :: EventMask where "PANIC_CAPTURED = push_bit 6 1"
definition WARNING_CAPTURED :: EventMask where "WARNING_CAPTURED = push_bit 7 1"
definition SESSION_START :: EventMask where "SESSION_START = push_bit 8 1"
definition COMPILATION_UNIT_FINISHED :: EventMask where "COMPILATION_UNIT_FINISHED = push_bit 9 1"
definition INVARIANT_VIOLATION :: EventMask where "INVARIANT_VIOLATION = push_bit 10 1"
definition CALLSITE_OBSERVED :: EventMask where "CALLSITE_OBSERVED = push_bit 11 1"
definition SYMBOL_DEFINED :: EventMask where "SYMBOL_DEFINED = push_bit 12 1"
definition SPAN_DEFINED :: EventMask where "SPAN_DEFINED = push_bit 13 1"

unbundle bit_operations_syntax

definition mask_all :: EventMask where
  "mask_all =
     NODE_DEFINED OR EDGE_DEFINED OR FILE_SEEN OR NODE_UPDATED OR NODE_REMOVED OR EDGE_REMOVED OR
     PANIC_CAPTURED OR WARNING_CAPTURED OR SESSION_START OR COMPILATION_UNIT_FINISHED OR
     INVARIANT_VIOLATION OR CALLSITE_OBSERVED OR SYMBOL_DEFINED OR SPAN_DEFINED"

definition mask_contains :: "EventMask \<Rightarrow> EventMask \<Rightarrow> bool" where
  "mask_contains a b \<longleftrightarrow> a AND b = b"

fun mask_for_event :: "RustcEvent \<Rightarrow> EventMask" where
  "mask_for_event (RNodeDefined _) = NODE_DEFINED"
| "mask_for_event (RNodeUpdated _) = NODE_UPDATED"
| "mask_for_event (RNodeRemoved _) = NODE_REMOVED"
| "mask_for_event (REdgeDefined _) = EDGE_DEFINED"
| "mask_for_event (REdgeRemoved _) = EDGE_REMOVED"
| "mask_for_event (RFileSeen _) = FILE_SEEN"
| "mask_for_event (RCallsiteObserved _) = CALLSITE_OBSERVED"
| "mask_for_event (RSymbolDefined _) = SYMBOL_DEFINED"
| "mask_for_event (RSpanDefined _) = SPAN_DEFINED"
| "mask_for_event (RPanicCaptured _) = PANIC_CAPTURED"
| "mask_for_event (RWarningCaptured _) = WARNING_CAPTURED"
| "mask_for_event (RSessionStart _) = SESSION_START"
| "mask_for_event (RCompilationUnitFinished _) = COMPILATION_UNIT_FINISHED"
| "mask_for_event (RInvariantViolation _) = INVARIANT_VIOLATION"

section \<open>Runtime and loop events\<close>

record Code =
  cd_delta :: EventDelta
  cd_state :: RustcState

definition default_code :: Code where
  "default_code = \<lparr> cd_delta = default_event_delta, cd_state = default_rustc_state \<rparr>"

record DebugEvent =
  dbg_source :: string
  dbg_kind :: string
  dbg_payload :: json

record ErrorOccurred =
  err_kind :: string
  err_source :: string
  err_message :: string
  err_severity :: string
  err_context :: json
  err_trace_id :: "string option"
  err_error_id :: "string option"
  err_captured :: bool

text \<open>The identifier of an error is a fresh UUID, an argument here.\<close>

definition new_error_occurred ::
  "string \<Rightarrow> string \<Rightarrow> string \<Rightarrow> string \<Rightarrow> string \<Rightarrow> json \<Rightarrow> string option \<Rightarrow> ErrorOccurred" where
  "new_error_occurred uuid kind source message severity context trace_id =
     \<lparr> err_kind = kind, err_source = source, err_message = message, err_severity = severity,
       err_context = context, err_trace_id = trace_id, err_error_id = Some uuid, err_captured = True \<rparr>"

record Tick =
  tk_tick :: u64
  tk_emitted :: bool

record LoopObserved =
  lo_tick :: u64
  lo_error_count :: usize
  lo_warning_count :: usize
  lo_compiler_errors :: "json list"
  lo_goal_text :: "string option"
  lo_semantic_summary :: SemanticStateSummary
  lo_observe_diagnostics :: "string list"

record LoopPlanned =
  lp_tick :: u64
  lp_action_kind :: string
  lp_action_payload :: json
  lp_reason :: string
  lp_llm_request_id :: "string option"
  lp_signals :: "json option"
  lp_trace_id :: "string option"
  lp_execution_id :: "string option"
  lp_span_id :: "string option"
  lp_parent_span_id :: "string option"
  lp_plan_id :: "string option"
  lp_plan_step_id :: "string option"
  lp_action_id :: "string option"
  lp_depends_on :: "string list"

record PlanningCompleted =
  plc_tick :: u64
  plc_llm_request_id :: "string option"
  plc_planned_count :: usize
  plc_status :: string

record LoopActed =
  la_tick :: u64
  la_action_kind :: string
  la_capability_request_id :: string
  la_tool_call_id :: "string option"
  la_tool_result_id :: "string option"
  la_stdout :: string
  la_stderr :: string
  la_exit_code :: "int option"
  la_duration_ms :: u64
  la_success :: bool
  la_trace_id :: "string option"
  la_execution_id :: "string option"
  la_span_id :: "string option"
  la_parent_span_id :: "string option"
  la_plan_id :: "string option"
  la_plan_step_id :: "string option"
  la_action_id :: "string option"

record LoopVerified =
  lv_tick :: u64
  lv_passed :: bool
  lv_compiler_clean :: bool
  lv_tlog_clean :: bool
  lv_error_count :: usize
  lv_diagnostics :: "string list"
  lv_trace_id :: "string option"
  lv_execution_id :: "string option"
  lv_span_id :: "string option"
  lv_parent_span_id :: "string option"

record VerifierPolicyUpdated =
  vpu_tick :: u64
  vpu_verifier_outcome :: string
  vpu_retry_policy :: string
  vpu_reward_bias :: string
  vpu_actionable_failure :: bool
  vpu_trace_id :: "string option"
  vpu_execution_id :: "string option"
  vpu_span_id :: "string option"
  vpu_parent_span_id :: "string option"

record LoopRewarded =
  lr_tick :: u64
  lr_errors_before :: usize
  lr_errors_after :: usize
  lr_stagnant_ticks :: u32
  lr_halt :: bool
  lr_goodness :: f32
  lr_reward :: f32
  lr_delta_g :: f32
  lr_trace_id :: "string option"
  lr_execution_id :: "string option"
  lr_span_id :: "string option"
  lr_parent_span_id :: "string option"

record GoodnessSnapshot =
  gds_tick :: u64
  gds_g :: f32
  gds_delta_g :: f32
  gds_metrics :: json

record InvariantDiscovered =
  ivd_feature :: string
  ivd_confidence :: f64
  ivd_support :: u64

section \<open>Routing and state events\<close>

record RouteTick =
  rtk_tick :: u64
  rtk_emitted :: bool

record RouteSelected =
  rsel_tick :: u64
  rsel_suggested_route :: string
  rsel_prompt :: string
  rsel_approved_route :: string
  rsel_rationale :: string
  rsel_confidence :: "f32 option"
  rsel_gate_note :: string
  rsel_gate_rules_fired :: "string list"
  rsel_gate_changed :: bool
  rsel_gate_should_stop :: bool
  rsel_model_json :: string

record RuntimeStateUpdated =
  rsu_payload :: json

record PolicyBaselineUpdated =
  pbu_payload :: json

record GoalSelected =
  gsl_payload :: json

record SystemConfigLoaded =
  scl_payload :: json

record AgentRegistered =
  agr_payload :: json

record PromptLoaded =
  prl_payload :: json

record RustcCaptureStarted =
  rcs_crate_name :: string
  rcs_capture_mode :: string
  rcs_started :: bool

record RustcGraphArtifactWritten =
  rga_crate_name :: string
  rga_artifact_id :: string
  rga_artifact_path :: string
  rga_artifact_written :: bool
  rga_artifact_id_out :: string
  rga_file_count :: u64
  rga_node_count :: u64
  rga_edge_count :: u64
  rga_call_edge_count :: u64
  rga_module_edge_count :: u64
  rga_cfg_edge_count :: u64

record RustcCaptureCompleted =
  rcc_crate_name :: string
  rcc_artifact_id :: string
  rcc_completed :: bool

record RustcCaptureFailed =
  rcf_crate_name :: string
  rcf_failed :: bool
  rcf_message :: string

section \<open>Tool, goal and capability events\<close>

record ToolCall =
  tc_node_id :: string
  tc_tool_call_id :: string
  tc_request_id :: string
  tc_kind :: string
  tc_payload :: json
  tc_accepted :: bool

record ToolResult =
  tr_node_id :: string
  tr_tool_call_id :: string
  tr_tool_result_id :: string
  tr_request_id :: string
  tr_kind :: string
  tr_output :: json
  tr_success :: bool

record ToolBatchSettled =
  tbs_tick :: u64
  tbs_result_count :: u32
  tbs_any_failed :: bool

record GoalNodeCreated =
  gnc_node_id :: string
  gnc_description :: string
  gnc_deps :: "string list"
  gnc_caps :: "string list"
  gnc_node_type :: string
  gnc_priority :: u8
  gnc_budget :: "u32 option"
  gnc_created :: bool

record GoalNodeRetracted =
  gnr_node_id :: string
  gnr_retracted :: bool

record GoalNodeRewritten =
  gnw_node_id :: string
  gnw_new_description :: string
  gnw_new_caps :: "string list"

record GoalEdgeDefined =
  ged_from_node_id :: string
  ged_to_node_id :: string
  ged_created :: bool

record GoalGraphCheckpointed =
  ggc_tlog_seq :: u64
  ggc_checkpointed :: bool

record CapabilityInvoked =
  cpi_capability_id :: string
  cpi_capability :: string
  cpi_node_id :: string
  cpi_invoked :: bool

record CapabilityResolved =
  cpr_capability_id :: string
  cpr_success :: bool
  cpr_duration_ms :: u64

record CargoBuild =
  cgb_request_id :: string
  cgb_crate_name :: string
  cgb_queued :: bool

record CargoRun =
  cgr_request_id :: string
  cgr_crate_name :: string
  cgr_bin :: "string option"
  cgr_args :: "string list"
  cgr_queued :: bool

record CargoCheck =
  cgc_request_id :: string
  cgc_crate_name :: string
  cgc_queued :: bool

datatype CargoEvent = CgBuild CargoBuild | CgRun CargoRun | CgCheck CargoCheck

record FileRead =
  flr_request_id :: string
  flr_path :: string
  flr_queued :: bool

record FileWrite =
  flw_request_id :: string
  flw_path :: string
  flw_content :: string
  flw_queued :: bool

record FilePatch =
  flp_request_id :: string
  flp_path :: string
  flp_old :: string
  flp_new :: string
  flp_queued :: bool

datatype FileEvent = FlRead FileRead | FlWrite FileWrite | FlPatch FilePatch

record BashInvoke =
  bsh_request_id :: string
  bsh_cmd :: string
  bsh_cwd :: "string option"
  bsh_queued :: bool

record LlmCall =
  llm_request_id :: string
  llm_prompt :: string
  llm_role :: "string option"
  llm_agent_id :: "string option"
  llm_dispatched :: bool
  llm_system :: "string option"
  llm_system_prompt_id :: "string option"
  llm_context_base :: "string option"
  llm_context_base_id :: "string option"
  llm_prompt_base_id :: "string option"
  llm_prev_prompt_id :: "string option"

record SubTaskResult =
  str_dispatch_id :: string
  str_agent_id :: string
  str_parent_request_id :: string
  str_success :: bool
  str_output :: json
  str_actions_taken :: "string list"
  str_error :: "string option"

record AnalysisRun =
  anr_request_id :: string
  anr_crate_name :: string
  anr_batch_id :: "string option"
  anr_queued :: bool

record AnalysisWorkspace =
  anw_request_id :: string
  anw_queued :: bool

datatype AnalysisEvent = AnRun AnalysisRun | AnWorkspace AnalysisWorkspace

definition default_edit_event :: EditEvent where
  "default_edit_event = EdRenameSymbol \<lparr> rns_project = '''', rns_old = '''', rns_new = '''' \<rparr>"

definition default_cargo_event :: CargoEvent where
  "default_cargo_event = CgBuild \<lparr> cgb_request_id = '''', cgb_crate_name = '''', cgb_queued = False \<rparr>"

definition default_file_event :: FileEvent where
  "default_file_event = FlRead \<lparr> flr_request_id = '''', flr_path = '''', flr_queued = False \<rparr>"

definition default_analysis_event :: AnalysisEvent where
  "default_analysis_event =
     AnRun \<lparr> anr_request_id = '''', anr_crate_name = '''', anr_batch_id = None, anr_queued = False \<rparr>"

section \<open>Capability results and node events\<close>

record ProcessResult =
  prr_status :: int
  prr_success :: bool
  prr_stdout :: string
  prr_stderr :: string

record LlmResult =
  llr_success :: bool
  llr_duration_ms :: u64
  llr_response :: json

datatype CapabilityResult = Process ProcessResult | LlmAnswer LlmResult | EmptyResult

fun result_kind_str :: "CapabilityResult \<Rightarrow> string" where
  "result_kind_str (Process _) = ''process''"
| "result_kind_str (LlmAnswer _) = ''llm.call''"
| "result_kind_str EmptyResult = ''empty''"

fun duration_ms :: "CapabilityResult \<Rightarrow> u64 option" where
  "duration_ms (Process _) = None"
| "duration_ms (LlmAnswer l) = Some (llr_duration_ms l)"
| "duration_ms EmptyResult = None"

record CapabilityCompleted =
  cpc_request_id :: string
  cpc_capability :: string
  cpc_result :: CapabilityResult

record CapabilityFailed =
  cpf_request_id :: string
  cpf_capability :: string
  cpf_error :: string

record NodeReady =
  ndr_node_id :: string
  ndr_capability :: string
  ndr_request_id :: string
  ndr_ready :: bool

record NodeStarted =
  nds_node_id :: string
  nds_capability :: string
  nds_request_id :: string
  nds_started :: bool

record NodeCompleted =
  ndc_node_id :: string
  ndc_capability :: string
  ndc_request_id :: string
  ndc_completed :: bool

record NodeFailed =
  ndf_node_id :: string
  ndf_capability :: string
  ndf_error :: "string option"
  ndf_request_id :: string

section \<open>The event enum\<close>

datatype (plugins del: size quickcheck_narrowing quickcheck_exhaustive quickcheck_random) RuntimeEvent =
    EvCode Code
  | EvDebug DebugEvent
  | EvErrorOccurred ErrorOccurred
  | EvEdit EditEvent
  | EvTick Tick
  | EvLoopObserved LoopObserved
  | EvLoopPlanned LoopPlanned
  | EvPlanningCompleted PlanningCompleted
  | EvLoopActed LoopActed
  | EvLoopVerified LoopVerified
  | EvVerifierPolicyUpdated VerifierPolicyUpdated
  | EvLoopRewarded LoopRewarded
  | EvGoodnessSnapshot GoodnessSnapshot
  | EvInvariantDiscovered InvariantDiscovered
  | EvRouteTick RouteTick
  | EvRouteSelected RouteSelected
  | EvCargo CargoEvent
  | EvFile FileEvent
  | EvBash BashInvoke
  | EvLlm LlmCall
  | EvSubTaskResult SubTaskResult
  | EvAnalysis AnalysisEvent
  | EvRuntimeStateUpdated RuntimeStateUpdated
  | EvNodeReady NodeReady
  | EvNodeStarted NodeStarted
  | EvNodeCompleted NodeCompleted
  | EvNodeFailed NodeFailed
  | EvCapabilityCompleted CapabilityCompleted
  | EvCapabilityFailed CapabilityFailed
  | EvPolicyBaselineUpdated PolicyBaselineUpdated
  | EvGoalSelected GoalSelected
  | EvSystemConfigLoaded SystemConfigLoaded
  | EvAgentRegistered AgentRegistered
  | EvPromptLoaded PromptLoaded
  | EvRustcCaptureStarted RustcCaptureStarted
  | EvRustcGraphArtifactWritten RustcGraphArtifactWritten
  | EvRustcCaptureCompleted RustcCaptureCompleted
  | EvRustcCaptureFailed RustcCaptureFailed
  | EvToolCall ToolCall
  | EvToolResult ToolResult
  | EvToolBatchSettled ToolBatchSettled
  | EvGoalNodeCreated GoalNodeCreated
  | EvGoalNodeRetracted GoalNodeRetracted
  | EvGoalNodeRewritten GoalNodeRewritten
  | EvGoalEdgeDefined GoalEdgeDefined
  | EvGoalGraphCheckpointed GoalGraphCheckpointed
  | EvCapabilityInvoked CapabilityInvoked
  | EvCapabilityResolved CapabilityResolved
  | EvCapabilityRequested CapabilityRequested

fun event_kind_str :: "RuntimeEvent \<Rightarrow> string" where
  "event_kind_str (EvLoopObserved _) = ''loop_observed''"
| "event_kind_str (EvLoopPlanned _) = ''loop_planned''"
| "event_kind_str (EvPlanningCompleted _) = ''planning_completed''"
| "event_kind_str (EvLoopActed _) = ''loop_acted''"
| "event_kind_str (EvLoopVerified _) = ''loop_verified''"
| "event_kind_str (EvVerifierPolicyUpdated _) = ''verifier_policy_updated''"
| "event_kind_str (EvLoopRewarded _) = ''loop_rewarded''"
| "event_kind_str (EvGoodnessSnapshot _) = ''goodness_snapshot''"
| "event_kind_str (EvInvariantDiscovered _) = ''invariant_discovered''"
| "event_kind_str (EvRouteTick _) = ''route_tick''"
| "event_kind_str (EvRouteSelected _) = ''route_selected''"
| "event_kind_str (EvCapabilityInvoked _) = ''capability_invoked''"
| "event_kind_str (EvCapabilityResolved _) = ''capability_resolved''"
| "event_kind_str (EvCapabilityCompleted _) = ''capability_completed''"
| "event_kind_str (EvCapabilityFailed _) = ''capability_failed''"
| "event_kind_str (EvErrorOccurred _) = ''error_occurred''"
| "event_kind_str (EvDebug _) = ''debug''"
| "event_kind_str (EvPromptLoaded _) = ''prompt_loaded''"
| "event_kind_str (EvRustcCaptureStarted _) = ''rustc_capture_started''"
| "event_kind_str (EvRustcGraphArtifactWritten _) = ''rustc_graph_artifact_written''"
| "event_kind_str (EvRustcCaptureCompleted _) = ''rustc_capture_completed''"
| "event_kind_str (EvRustcCaptureFailed _) = ''rustc_capture_failed''"
| "event_kind_str (EvRuntimeStateUpdated _) = ''runtime_state_updated''"
| "event_kind_str (EvToolCall _) = ''tool_call''"
| "event_kind_str (EvToolResult _) = ''tool_result''"
| "event_kind_str (EvToolBatchSettled _) = ''tool_batch_settled''"
| "event_kind_str (EvGoalNodeCreated _) = ''goal_node_created''"
| "event_kind_str (EvGoalNodeRetracted _) = ''goal_node_retracted''"
| "event_kind_str (EvGoalNodeRewritten _) = ''goal_node_rewritten''"
| "event_kind_str (EvGoalEdgeDefined _) = ''goal_edge_defined''"
| "event_kind_str (EvGoalGraphCheckpointed _) = ''goal_graph_checkpointed''"
| "event_kind_str (EvGoalSelected _) = ''goal_selected''"
| "event_kind_str (EvAgentRegistered _) = ''agent_registered''"
| "event_kind_str (EvSubTaskResult _) = ''sub_task_result''"
| "event_kind_str (EvTick _) = ''tick''"
| "event_kind_str (EvCode _) = ''code''"
| "event_kind_str (EvEdit _) = ''edit''"
| "event_kind_str (EvLlm _) = ''llm''"
| "event_kind_str (EvCargo _) = ''cargo''"
| "event_kind_str (EvFile _) = ''file''"
| "event_kind_str (EvBash _) = ''bash''"
| "event_kind_str (EvAnalysis _) = ''analysis''"
| "event_kind_str (EvPolicyBaselineUpdated _) = ''policy_baseline_updated''"
| "event_kind_str (EvSystemConfigLoaded _) = ''system_config_loaded''"
| "event_kind_str (EvNodeReady _) = ''node_ready''"
| "event_kind_str (EvNodeStarted _) = ''node_started''"
| "event_kind_str (EvNodeCompleted _) = ''node_completed''"
| "event_kind_str (EvNodeFailed _) = ''node_failed''"
| "event_kind_str (EvCapabilityRequested _) = ''capability_requested''"

text \<open>What the macro of the enum derives from the variants.\<close>

fun variant_name :: "RuntimeEvent \<Rightarrow> string" where
  "variant_name (EvCode _) = ''Code''"
| "variant_name (EvDebug _) = ''Debug''"
| "variant_name (EvErrorOccurred _) = ''ErrorOccurred''"
| "variant_name (EvEdit _) = ''Edit''"
| "variant_name (EvTick _) = ''Tick''"
| "variant_name (EvLoopObserved _) = ''LoopObserved''"
| "variant_name (EvLoopPlanned _) = ''LoopPlanned''"
| "variant_name (EvPlanningCompleted _) = ''PlanningCompleted''"
| "variant_name (EvLoopActed _) = ''LoopActed''"
| "variant_name (EvLoopVerified _) = ''LoopVerified''"
| "variant_name (EvVerifierPolicyUpdated _) = ''VerifierPolicyUpdated''"
| "variant_name (EvLoopRewarded _) = ''LoopRewarded''"
| "variant_name (EvGoodnessSnapshot _) = ''GoodnessSnapshot''"
| "variant_name (EvInvariantDiscovered _) = ''InvariantDiscovered''"
| "variant_name (EvRouteTick _) = ''RouteTick''"
| "variant_name (EvRouteSelected _) = ''RouteSelected''"
| "variant_name (EvCargo _) = ''Cargo''"
| "variant_name (EvFile _) = ''File''"
| "variant_name (EvBash _) = ''Bash''"
| "variant_name (EvLlm _) = ''Llm''"
| "variant_name (EvSubTaskResult _) = ''SubTaskResult''"
| "variant_name (EvAnalysis _) = ''Analysis''"
| "variant_name (EvRuntimeStateUpdated _) = ''RuntimeStateUpdated''"
| "variant_name (EvNodeReady _) = ''NodeReady''"
| "variant_name (EvNodeStarted _) = ''NodeStarted''"
| "variant_name (EvNodeCompleted _) = ''NodeCompleted''"
| "variant_name (EvNodeFailed _) = ''NodeFailed''"
| "variant_name (EvCapabilityCompleted _) = ''CapabilityCompleted''"
| "variant_name (EvCapabilityFailed _) = ''CapabilityFailed''"
| "variant_name (EvPolicyBaselineUpdated _) = ''PolicyBaselineUpdated''"
| "variant_name (EvGoalSelected _) = ''GoalSelected''"
| "variant_name (EvSystemConfigLoaded _) = ''SystemConfigLoaded''"
| "variant_name (EvAgentRegistered _) = ''AgentRegistered''"
| "variant_name (EvPromptLoaded _) = ''PromptLoaded''"
| "variant_name (EvRustcCaptureStarted _) = ''RustcCaptureStarted''"
| "variant_name (EvRustcGraphArtifactWritten _) = ''RustcGraphArtifactWritten''"
| "variant_name (EvRustcCaptureCompleted _) = ''RustcCaptureCompleted''"
| "variant_name (EvRustcCaptureFailed _) = ''RustcCaptureFailed''"
| "variant_name (EvToolCall _) = ''ToolCall''"
| "variant_name (EvToolResult _) = ''ToolResult''"
| "variant_name (EvToolBatchSettled _) = ''ToolBatchSettled''"
| "variant_name (EvGoalNodeCreated _) = ''GoalNodeCreated''"
| "variant_name (EvGoalNodeRetracted _) = ''GoalNodeRetracted''"
| "variant_name (EvGoalNodeRewritten _) = ''GoalNodeRewritten''"
| "variant_name (EvGoalEdgeDefined _) = ''GoalEdgeDefined''"
| "variant_name (EvGoalGraphCheckpointed _) = ''GoalGraphCheckpointed''"
| "variant_name (EvCapabilityInvoked _) = ''CapabilityInvoked''"
| "variant_name (EvCapabilityResolved _) = ''CapabilityResolved''"
| "variant_name (EvCapabilityRequested _) = ''CapabilityRequested''"

fun event_kind :: "RuntimeEvent \<Rightarrow> EventKind" where
  "event_kind (EvCode _) = EventKind.Code"
| "event_kind (EvDebug _) = EventKind.Debug"
| "event_kind (EvErrorOccurred _) = EventKind.ErrorOccurred"
| "event_kind (EvEdit _) = EventKind.Edit"
| "event_kind (EvTick _) = EventKind.Tick"
| "event_kind (EvLoopObserved _) = EventKind.LoopObserved"
| "event_kind (EvLoopPlanned _) = EventKind.LoopPlanned"
| "event_kind (EvPlanningCompleted _) = EventKind.PlanningCompleted"
| "event_kind (EvLoopActed _) = EventKind.LoopActed"
| "event_kind (EvLoopVerified _) = EventKind.LoopVerified"
| "event_kind (EvVerifierPolicyUpdated _) = EventKind.VerifierPolicyUpdated"
| "event_kind (EvLoopRewarded _) = EventKind.LoopRewarded"
| "event_kind (EvGoodnessSnapshot _) = EventKind.GoodnessSnapshot"
| "event_kind (EvInvariantDiscovered _) = EventKind.InvariantDiscovered"
| "event_kind (EvRouteTick _) = EventKind.RouteTick"
| "event_kind (EvRouteSelected _) = EventKind.RouteSelected"
| "event_kind (EvCargo _) = EventKind.Cargo"
| "event_kind (EvFile _) = EventKind.File"
| "event_kind (EvBash _) = EventKind.Bash"
| "event_kind (EvLlm _) = EventKind.Llm"
| "event_kind (EvSubTaskResult _) = EventKind.SubTaskResult"
| "event_kind (EvAnalysis _) = EventKind.Analysis"
| "event_kind (EvRuntimeStateUpdated _) = EventKind.RuntimeStateUpdated"
| "event_kind (EvNodeReady _) = EventKind.NodeReady"
| "event_kind (EvNodeStarted _) = EventKind.NodeStarted"
| "event_kind (EvNodeCompleted _) = EventKind.NodeCompleted"
| "event_kind (EvNodeFailed _) = EventKind.NodeFailed"
| "event_kind (EvCapabilityCompleted _) = EventKind.CapabilityCompleted"
| "event_kind (EvCapabilityFailed _) = EventKind.CapabilityFailed"
| "event_kind (EvPolicyBaselineUpdated _) = EventKind.PolicyBaselineUpdated"
| "event_kind (EvGoalSelected _) = EventKind.GoalSelected"
| "event_kind (EvSystemConfigLoaded _) = EventKind.SystemConfigLoaded"
| "event_kind (EvAgentRegistered _) = EventKind.AgentRegistered"
| "event_kind (EvPromptLoaded _) = EventKind.PromptLoaded"
| "event_kind (EvRustcCaptureStarted _) = EventKind.RustcCaptureStarted"
| "event_kind (EvRustcGraphArtifactWritten _) = EventKind.RustcGraphArtifactWritten"
| "event_kind (EvRustcCaptureCompleted _) = EventKind.RustcCaptureCompleted"
| "event_kind (EvRustcCaptureFailed _) = EventKind.RustcCaptureFailed"
| "event_kind (EvToolCall _) = EventKind.ToolCall"
| "event_kind (EvToolResult _) = EventKind.ToolResult"
| "event_kind (EvToolBatchSettled _) = EventKind.ToolBatchSettled"
| "event_kind (EvGoalNodeCreated _) = EventKind.GoalNodeCreated"
| "event_kind (EvGoalNodeRetracted _) = EventKind.GoalNodeRetracted"
| "event_kind (EvGoalNodeRewritten _) = EventKind.GoalNodeRewritten"
| "event_kind (EvGoalEdgeDefined _) = EventKind.GoalEdgeDefined"
| "event_kind (EvGoalGraphCheckpointed _) = EventKind.GoalGraphCheckpointed"
| "event_kind (EvCapabilityInvoked _) = EventKind.CapabilityInvoked"
| "event_kind (EvCapabilityResolved _) = EventKind.CapabilityResolved"
| "event_kind (EvCapabilityRequested _) = EventKind.CapabilityRequested"

definition is_upper :: "char \<Rightarrow> bool" where
  "is_upper c \<longleftrightarrow> 65 \<le> (of_char c :: nat) \<and> (of_char c :: nat) \<le> 90"

definition is_lower :: "char \<Rightarrow> bool" where
  "is_lower c \<longleftrightarrow> 97 \<le> (of_char c :: nat) \<and> (of_char c :: nat) \<le> 122"

definition is_ascii_digit :: "char \<Rightarrow> bool" where
  "is_ascii_digit c \<longleftrightarrow> 48 \<le> (of_char c :: nat) \<and> (of_char c :: nat) \<le> 57"

text \<open>The loop over the characters, with the previous character as its state.\<close>

fun snake_loop :: "char option \<Rightarrow> string \<Rightarrow> string" where
  "snake_loop prev [] = []"
| "snake_loop prev (c # cs) =
     (let prev_lower = (case prev of None \<Rightarrow> False | Some p \<Rightarrow> is_lower p \<or> is_ascii_digit p);
          next_lower = (case cs of [] \<Rightarrow> False | n # _ \<Rightarrow> is_lower n)
      in (if is_upper c \<and> prev \<noteq> None \<and> (prev_lower \<or> next_lower) then ''_'' else []) @
         to_ascii_lowercase [c] @ snake_loop (Some c) cs)"

definition pascal_to_snake :: "string \<Rightarrow> string" where
  "pascal_to_snake s = snake_loop None s"

definition kind_str :: "RuntimeEvent \<Rightarrow> string" where
  "kind_str e = pascal_to_snake (variant_name e)"

section \<open>Emitters, filters and outcomes\<close>

record LocatedEvent =
  le_event :: RuntimeEvent
  le_file :: string
  le_line :: u32
  le_parent_ids :: "EventId list"

datatype EventFilter = FilterAll | ErrorOnly | FilterCode EventMask | EditOnly | CapabilityOnly

datatype EventOutcome = NoOp string | Error RuntimeEvent string u32

text \<open>The constructors that must not be used panic: \<^const>\<open>None\<close>.\<close>

definition outcome_emit :: "RuntimeEvent \<Rightarrow> string \<Rightarrow> u32 \<Rightarrow> EventOutcome option" where
  "outcome_emit e file line = None"

definition outcome_emit_many :: "RuntimeEvent list \<Rightarrow> string \<Rightarrow> u32 \<Rightarrow> EventOutcome option" where
  "outcome_emit_many es file line = None"

definition outcome_error :: "RuntimeEvent \<Rightarrow> string \<Rightarrow> u32 \<Rightarrow> EventOutcome" where
  "outcome_error e file line = Error e file line"

section \<open>The declared control graph\<close>

text \<open>
  The attributes \<^verbatim>\<open>class\<close> and \<^verbatim>\<open>next\<close> of the struct a variant carries, which the macro turns
  into \<^verbatim>\<open>EVENT_CLASS\<close> and \<^verbatim>\<open>EVENT_NEXT\<close>. A nested enum and \<^verbatim>\<open>Code\<close> declare none; the structs
  inside the enums are all effects.
\<close>

fun declared_class :: "RuntimeEvent \<Rightarrow> EventClass option" where
  "declared_class (EvCode _) = None"
| "declared_class (EvEdit _) = None"
| "declared_class (EvCargo _) = None"
| "declared_class (EvFile _) = None"
| "declared_class (EvAnalysis _) = None"
| "declared_class (EvLoopObserved _) = Some Control"
| "declared_class (EvPlanningCompleted _) = Some Control"
| "declared_class (EvLoopActed _) = Some Control"
| "declared_class (EvLoopVerified _) = Some Control"
| "declared_class (EvVerifierPolicyUpdated _) = Some Control"
| "declared_class (EvLoopRewarded _) = Some Control"
| "declared_class (EvRouteSelected _) = Some Control"
| "declared_class _ = Some Effect"

fun declared_next :: "RuntimeEvent \<Rightarrow> EventKind list" where
  "declared_next (EvLoopObserved _) = [RouteSelected]"
| "declared_next (EvPlanningCompleted _) = [RouteSelected]"
| "declared_next (EvLoopActed _) = [RouteSelected, LoopVerified]"
| "declared_next (EvLoopVerified _) = [VerifierPolicyUpdated]"
| "declared_next (EvVerifierPolicyUpdated _) = [LoopRewarded]"
| "declared_next (EvLoopRewarded _) = [RouteSelected, LoopObserved]"
| "declared_next (EvRouteSelected _) = [LoopObserved, PlanningCompleted, LoopActed, LoopVerified, LoopRewarded]"
| "declared_next _ = []"

section \<open>Properties\<close>

text \<open>The three tables of event names agree: the diagnostic name of an event, the name the macro
  derives from its variant, and the wire name of its kind are one string. Their control graphs do
  not: the attributes of the event structs and the tables of the wire format give the same class
  except for \<open>Tick\<close> and \<open>RouteTick\<close>, which are declared effects and treated as control events, and
  the same successors except for those two and \<open>RouteSelected\<close>, after which the wire format also
  accepts a verifier policy update.\<close>

theorem event_tables_agree_up_to_ticks:
  "event_kind_str e = as_str (event_kind e) \<and> kind_str e = as_str (event_kind e) \<and>
   (or_else (declared_class e) Effect = event_class (event_kind e) \<longleftrightarrow> event_kind e \<notin> {Tick, RouteTick}) \<and>
   (declared_next e = allowed_next (event_kind e) \<longleftrightarrow>
      event_kind e \<notin> {Tick, RouteTick, RouteSelected})"
  by (cases e)
    (simp_all add: kind_str_def pascal_to_snake_def is_upper_def is_lower_def is_ascii_digit_def
      to_ascii_lowercase_def char_of_def bit_numeral_rec bit_0)

text \<open>The mask of an event is one bit of its own, contained in the mask of all events.\<close>

lemmas mask_defs =
  NODE_DEFINED_def EDGE_DEFINED_def FILE_SEEN_def NODE_UPDATED_def NODE_REMOVED_def
  EDGE_REMOVED_def PANIC_CAPTURED_def WARNING_CAPTURED_def SESSION_START_def
  COMPILATION_UNIT_FINISHED_def INVARIANT_VIOLATION_def CALLSITE_OBSERVED_def
  SYMBOL_DEFINED_def SPAN_DEFINED_def

lemma mask_all_contains_every_event: "mask_contains mask_all (mask_for_event e)"
  by (cases e) (simp_all add: mask_contains_def mask_all_def mask_defs)

lemma mask_separates_kinds:
  "mask_contains (mask_for_event e) (mask_for_event e') \<longleftrightarrow> mask_for_event e = mask_for_event e'"
  by (cases e; cases e') (simp_all add: mask_contains_def mask_defs)

section \<open>The consumer interface\<close>

text \<open>
  A consumer (\<^verbatim>\<open>EventConsumer\<close>) answers an event with an outcome, the events it emits and its new
  state; \<^const>\<open>None\<close> is a panic. What a consumer promises is a property of its state that every
  event keeps.
\<close>

type_synonym 's consumer =
  "RuntimeEvent \<Rightarrow> EventId \<Rightarrow> 's \<Rightarrow> ((EventOutcome \<times> LocatedEvent list) \<times> 's) option"

fun consumer_run :: "'s consumer \<Rightarrow> (RuntimeEvent \<times> EventId) list \<Rightarrow> 's \<Rightarrow> 's option" where
  "consumer_run on_event [] s = Some s"
| "consumer_run on_event ((e, t) # es) s =
     (case on_event e t s of None \<Rightarrow> None | Some (_, s') \<Rightarrow> consumer_run on_event es s')"

locale event_consumer =
  fixes on_event :: "'s consumer" and ok :: "'s \<Rightarrow> bool"
  assumes on_event_ok: "ok s \<Longrightarrow> on_event e t s = Some (r, s') \<Longrightarrow> ok s'"
begin

lemma run_ok: "ok s \<Longrightarrow> consumer_run on_event es s = Some s' \<Longrightarrow> ok s'"
proof (induction es arbitrary: s)
  case (Cons x es)
  obtain e t where x: "x = (e, t)" by force
  with Cons.prems(2) obtain r s1 where "on_event e t s = Some (r, s1)" "consumer_run on_event es s1 = Some s'"
    by (auto split: option.splits)
  with Cons.IH on_event_ok Cons.prems(1) show ?case by blast
qed simp

end

end
