(* ===== verification/Loop_Scheduler.thy ===== *)
theory Loop_Scheduler
  imports Runtime_Events "HOL-Library.Product_Lexorder"
begin

text \<open>
  The task scheduler of the loop (\<^verbatim>\<open>canon-loop/src/scheduler.rs\<close>): a binary heap of queued
  tasks ordered by priority, then by age, with a capacity per agent; the inference of a
  priority; and the tracker that holds tasks back until their dependencies complete.

  A clock value (\<^verbatim>\<open>Instant\<close>) is a natural number. The binary heap of the standard library is
  its contents: a list of which \<^verbatim>\<open>pop\<close> takes a greatest element; the laws the scheduler uses
  of it are the locale \<open>max_heap\<close>.
\<close>

section \<open>Tasks\<close>

datatype TaskPriority = Low | Normal | High | Critical

fun priority_rank :: "TaskPriority \<Rightarrow> nat" where
  "priority_rank Low = 0"
| "priority_rank Normal = 1"
| "priority_rank High = 2"
| "priority_rank Critical = 3"

instantiation TaskPriority :: linorder
begin

definition less_eq_TaskPriority :: "TaskPriority \<Rightarrow> TaskPriority \<Rightarrow> bool" where
  "less_eq_TaskPriority a b \<longleftrightarrow> priority_rank a \<le> priority_rank b"

definition less_TaskPriority :: "TaskPriority \<Rightarrow> TaskPriority \<Rightarrow> bool" where
  "less_TaskPriority a b \<longleftrightarrow> priority_rank a < priority_rank b"

instance
proof
  show "x = y" if "x \<le> y" "y \<le> x" for x y :: TaskPriority
    using that by (cases x; cases y) (auto simp: less_eq_TaskPriority_def)
qed (auto simp: less_eq_TaskPriority_def less_TaskPriority_def)

end

record ScheduledTask =
  st_priority :: TaskPriority
  st_enqueued_at :: nat
  st_seq :: u64
  st_agent_id :: "string option"
  st_plan :: LoopPlanned

record Queued =
  q_priority :: TaskPriority
  q_enqueued_at :: nat
  q_seq :: u64
  q_agent_id :: "string option"
  q_plan :: LoopPlanned

text \<open>The order of queued tasks: higher priority, then earlier time, then lower number is greater.\<close>

definition queued_key :: "Queued \<Rightarrow> TaskPriority \<times> int \<times> int" where
  "queued_key q = (q_priority q, - int (q_enqueued_at q), - int (unat (q_seq q)))"

section \<open>The heap\<close>

type_synonym heap = "Queued list"

definition heap_push :: "Queued \<Rightarrow> heap \<Rightarrow> heap" where
  "heap_push q h = q # h"

definition heap_best :: "Queued \<Rightarrow> heap \<Rightarrow> Queued" where
  "heap_best q h = fold (\<lambda>x m. if queued_key m < queued_key x then x else m) h q"

definition heap_peek :: "heap \<Rightarrow> Queued option" where
  "heap_peek h = (case h of [] \<Rightarrow> None | q # qs \<Rightarrow> Some (heap_best q qs))"

definition heap_pop :: "heap \<Rightarrow> (Queued \<times> heap) option" where
  "heap_pop h = map_option (\<lambda>q. (q, remove1 q h)) (heap_peek h)"

text \<open>The laws of a heap; what a drained prefix and the rest look like follows from them.\<close>

locale max_heap =
  fixes contents :: "'h \<Rightarrow> 'a multiset"
    and push :: "'a \<Rightarrow> 'h \<Rightarrow> 'h"
    and pop :: "'h \<Rightarrow> ('a \<times> 'h) option"
    and key :: "'a \<Rightarrow> 'k::linorder"
  assumes contents_push: "contents (push x h) = add_mset x (contents h)"
    and pop_None: "pop h = None \<longleftrightarrow> contents h = {#}"
    and pop_contents: "pop h = Some (x, h') \<Longrightarrow> contents h = add_mset x (contents h')"
    and pop_max: "pop h = Some (x, h') \<Longrightarrow> y \<in># contents h \<Longrightarrow> key y \<le> key x"
begin

lemma push_all: "contents (fold push xs h) = contents h + mset xs"
  by (induction xs arbitrary: h) (simp_all add: contents_push)

lemma push_back: "pop h = Some (x, h') \<Longrightarrow> contents (push x h') = contents h"
  by (simp add: contents_push pop_contents)

lemma pop_member: "pop h = Some (x, h') \<Longrightarrow> x \<in># contents h"
  by (simp add: pop_contents)

lemma pop_size: "pop h = Some (x, h') \<Longrightarrow> size (contents h') < size (contents h)"
  by (simp add: pop_contents)

end

lemma heap_best_in: "heap_best q h \<in> set (q # h)"
  unfolding heap_best_def by (induction h arbitrary: q) auto

lemma heap_best_max: "x \<in> set (q # h) \<Longrightarrow> queued_key x \<le> queued_key (heap_best q h)"
  unfolding heap_best_def
proof (induction h arbitrary: q x)
  case (Cons y h)
  let ?m = "if queued_key q < queued_key y then y else q"
  have "queued_key ?m \<le> queued_key (fold (\<lambda>x m. if queued_key m < queued_key x then x else m) h ?m)"
    by (rule Cons.IH) simp
  moreover have "queued_key q \<le> queued_key ?m" "queued_key y \<le> queued_key ?m" by auto
  ultimately show ?case using Cons.IH [of x ?m] Cons.prems by auto
qed simp

interpretation queue: max_heap mset heap_push heap_pop queued_key
proof unfold_locales
  show "mset (heap_push x h) = add_mset x (mset h)" for x h by (simp add: heap_push_def)
  show "heap_pop h = None \<longleftrightarrow> mset h = {#}" for h
    by (cases h) (simp_all add: heap_pop_def heap_peek_def)
  show "mset h = add_mset x (mset h')" if "heap_pop h = Some (x, h')" for h x h'
  proof -
    have "x \<in> set h" "h' = remove1 x h"
      using that heap_best_in by (auto simp: heap_pop_def heap_peek_def split: list.splits)
    then show ?thesis by simp
  qed
  show "queued_key y \<le> queued_key x" if "heap_pop h = Some (x, h')" "y \<in># mset h" for h x h' y
    using that heap_best_max by (cases h) (auto simp: heap_pop_def heap_peek_def)
qed

section \<open>The scheduler\<close>

record Scheduler =
  sch_heap :: heap
  sch_seq :: u64
  sch_agent_capacity :: "string \<rightharpoonup> nat"
  sch_agent_active :: "string \<rightharpoonup> nat"

definition new_scheduler :: Scheduler where
  "new_scheduler =
     \<lparr> sch_heap = [], sch_seq = 0, sch_agent_capacity = Map.empty, sch_agent_active = Map.empty \<rparr>"

definition sched_is_empty :: "Scheduler \<Rightarrow> bool" where
  "sched_is_empty s \<longleftrightarrow> sch_heap s = []"

definition sched_len :: "Scheduler \<Rightarrow> nat" where
  "sched_len s = length (sch_heap s)"

definition sched_clear :: "Scheduler \<Rightarrow> Scheduler" where
  "sched_clear s = s\<lparr>sch_heap := [], sch_agent_active := Map.empty\<rparr>"

definition sched_push :: "ScheduledTask \<Rightarrow> Scheduler \<Rightarrow> Scheduler" where
  "sched_push task s =
     s\<lparr>sch_seq := saturating_add (sch_seq s) 1,
       sch_heap := heap_push
         \<lparr> q_priority = st_priority task, q_enqueued_at = st_enqueued_at task, q_seq = sch_seq s,
           q_agent_id = st_agent_id task, q_plan = st_plan task \<rparr> (sch_heap s)\<rparr>"

definition usize_max :: nat where
  "usize_max = 2 ^ 64 - 1"

definition capacity_of :: "Scheduler \<Rightarrow> string \<Rightarrow> nat" where
  "capacity_of s agent = (case sch_agent_capacity s agent of Some c \<Rightarrow> c | None \<Rightarrow> usize_max)"

definition active_of :: "Scheduler \<Rightarrow> string \<Rightarrow> nat" where
  "active_of s agent = (case sch_agent_active s agent of Some n \<Rightarrow> n | None \<Rightarrow> 0)"

definition has_capacity :: "Scheduler \<Rightarrow> string \<Rightarrow> bool" where
  "has_capacity s agent \<longleftrightarrow> active_of s agent < capacity_of s agent"

definition to_task :: "Queued \<Rightarrow> ScheduledTask" where
  "to_task q =
     \<lparr> st_priority = q_priority q, st_enqueued_at = q_enqueued_at q, st_seq = q_seq q,
       st_agent_id = q_agent_id q, st_plan = q_plan q \<rparr>"

text \<open>The common end of both pops: the capacity check on the popped task.\<close>

definition admit :: "Queued \<Rightarrow> Scheduler \<Rightarrow> ScheduledTask option \<times> Scheduler" where
  "admit q s =
     (case q_agent_id q of
        None \<Rightarrow> (Some (to_task q), s)
      | Some agent \<Rightarrow>
          if \<not> has_capacity s agent then (None, s\<lparr>sch_heap := heap_push q (sch_heap s)\<rparr>)
          else (Some (to_task q),
                s\<lparr>sch_agent_active := (sch_agent_active s)(agent \<mapsto> active_of s agent + 1)\<rparr>))"

definition pop_any :: "Scheduler \<Rightarrow> ScheduledTask option \<times> Scheduler" where
  "pop_any s =
     (case heap_pop (sch_heap s) of
        None \<Rightarrow> (None, s)
      | Some (q, h) \<Rightarrow> admit q (s\<lparr>sch_heap := h\<rparr>))"

function search_heap :: "string \<Rightarrow> heap \<Rightarrow> Queued list \<Rightarrow> Queued option \<times> heap \<times> Queued list" where
  "search_heap target h stash =
     (case heap_pop h of
        None \<Rightarrow> (None, h, stash)
      | Some (q, h') \<Rightarrow>
          if lp_llm_request_id (q_plan q) = Some target then (Some q, h', stash)
          else search_heap target h' (stash @ [q]))"
  by pat_completeness auto
termination
  by (relation "measure (\<lambda>(_, h, _). size (mset h))") (auto dest: queue.pop_size)

declare search_heap.simps [simp del]

definition pop_for_llm :: "string option \<Rightarrow> Scheduler \<Rightarrow> ScheduledTask option \<times> Scheduler" where
  "pop_for_llm request s =
     (case request of
        None \<Rightarrow> pop_any s
      | Some target \<Rightarrow>
          (let (found, h, stash) = search_heap target (sch_heap s) [];
               s1 = s\<lparr>sch_heap := fold heap_push stash h\<rparr>
           in case found of Some q \<Rightarrow> admit q s1 | None \<Rightarrow> (None, s1)))"

definition sched_complete :: "string option \<Rightarrow> Scheduler \<Rightarrow> Scheduler" where
  "sched_complete agent s =
     (case agent of
        None \<Rightarrow> s
      | Some a \<Rightarrow>
          (case sch_agent_active s a of
             None \<Rightarrow> s
           | Some n \<Rightarrow> s\<lparr>sch_agent_active := (sch_agent_active s)(a \<mapsto> n - 1)\<rparr>))"

definition peek_llm_request_id :: "Scheduler \<Rightarrow> string option" where
  "peek_llm_request_id s = Option.bind (heap_peek (sch_heap s)) (\<lambda>q. lp_llm_request_id (q_plan q))"

definition infer_priority :: "LoopPlanned \<Rightarrow> f32 option \<Rightarrow> f32 option \<Rightarrow> TaskPriority" where
  "infer_priority plan goodness delta_g =
     (if (case goodness of Some g \<Rightarrow> f32_lt g f32_0 | None \<Rightarrow> False) then High
      else if (case delta_g of Some d \<Rightarrow> f32_lt d f32_neg_0_1 | None \<Rightarrow> False) then High
      else if lp_action_kind plan = ''done'' then Critical
      else Normal)"

section \<open>Properties of the scheduler\<close>

lemma admit_cases:
  "fst (admit q s) =
     (if (case q_agent_id q of None \<Rightarrow> True | Some a \<Rightarrow> has_capacity s a) then Some (to_task q) else None)"
  "sch_heap (snd (admit q s)) =
     (if (case q_agent_id q of None \<Rightarrow> True | Some a \<Rightarrow> has_capacity s a) then sch_heap s
      else heap_push q (sch_heap s))"
  by (auto simp: admit_def split: option.split)

lemma has_capacity_heap [simp]: "has_capacity (s\<lparr>sch_heap := h\<rparr>) a = has_capacity s a"
  by (simp add: has_capacity_def active_of_def capacity_of_def)

text \<open>\<open>pop_any\<close> looks at one task only: a greatest one by priority, then age, then number. If its
  agent has room it is removed and returned; otherwise the call returns nothing and the queue
  keeps its contents, even when tasks of other agents behind it could run.\<close>

theorem pop_any_takes_the_greatest_or_blocks:
  assumes "sch_heap s \<noteq> []"
  shows "\<exists>q. q \<in># mset (sch_heap s) \<and> (\<forall>x \<in># mset (sch_heap s). queued_key x \<le> queued_key q) \<and>
    (if (case q_agent_id q of None \<Rightarrow> True | Some a \<Rightarrow> has_capacity s a)
     then fst (pop_any s) = Some (to_task q) \<and>
       mset (sch_heap s) = add_mset q (mset (sch_heap (snd (pop_any s))))
     else fst (pop_any s) = None \<and> mset (sch_heap (snd (pop_any s))) = mset (sch_heap s))"
proof -
  obtain q h where pop: "heap_pop (sch_heap s) = Some (q, h)"
    using queue.pop_None [of "sch_heap s"] assms by (cases "heap_pop (sch_heap s)") auto
  have "fst (pop_any s) = fst (admit q (s\<lparr>sch_heap := h\<rparr>))"
      "snd (pop_any s) = snd (admit q (s\<lparr>sch_heap := h\<rparr>))"
    by (simp_all add: pop_any_def pop)
  then show ?thesis
    using queue.pop_member [OF pop] queue.pop_max [OF pop] queue.pop_contents [OF pop]
      queue.push_back [OF pop]
    by (intro exI [of _ q]) (auto simp: admit_cases split: option.split)
qed

definition sample_plan :: LoopPlanned where
  "sample_plan =
     \<lparr> lp_tick = 0, lp_action_kind = ''x'', lp_action_payload = JNull, lp_reason = '''',
       lp_llm_request_id = Some ''r'', lp_signals = None, lp_trace_id = None, lp_execution_id = None,
       lp_span_id = None, lp_parent_span_id = None, lp_plan_id = None, lp_plan_step_id = None,
       lp_action_id = Some ''t'', lp_depends_on = [''a'', ''b''] \<rparr>"

definition sample_task :: ScheduledTask where
  "sample_task =
     \<lparr> st_priority = Normal, st_enqueued_at = 3, st_seq = 0, st_agent_id = Some ''g'', st_plan = sample_plan \<rparr>"

theorem pop_any_takes_the_greatest_or_blocks_witness:
  "\<exists>q. q \<in># mset (sch_heap (sched_push sample_task new_scheduler)) \<and>
     (if (case q_agent_id q of None \<Rightarrow> True | Some a \<Rightarrow> has_capacity (sched_push sample_task new_scheduler) a)
      then fst (pop_any (sched_push sample_task new_scheduler)) = Some (to_task q) else
           fst (pop_any (sched_push sample_task new_scheduler)) = None)"
  using pop_any_takes_the_greatest_or_blocks [of "sched_push sample_task new_scheduler"]
  by (auto simp: sched_push_def heap_push_def split: if_splits)

lemma search_heap_spec:
  assumes "search_heap target h stash = (found, h', stash')"
  shows "\<exists>skipped. stash' = stash @ skipped \<and>
    (\<forall>x \<in> set skipped. lp_llm_request_id (q_plan x) \<noteq> Some target) \<and>
    mset h = mset skipped + mset h' + (case found of None \<Rightarrow> {#} | Some q \<Rightarrow> {#q#}) \<and>
    (case found of
       None \<Rightarrow> h' = []
     | Some q \<Rightarrow> lp_llm_request_id (q_plan q) = Some target \<and> (\<forall>x \<in> set h'. queued_key x \<le> queued_key q))"
  using assms
proof (induction target h stash rule: search_heap.induct)
  case (1 target h stash)
  show ?case
  proof (cases "heap_pop h")
    case None
    then have "h = []" using queue.pop_None [of h] by simp
    moreover have "search_heap target h stash = (None, h, stash)"
      by (subst search_heap.simps) (simp add: None)
    ultimately show ?thesis using 1(2) by simp
  next
    case (Some x)
    obtain q h1 where x: "x = (q, h1)" by (cases x)
    note pop = Some [unfolded x]
    show ?thesis
    proof (cases "lp_llm_request_id (q_plan q) = Some target")
      case True
      then have "found = Some q" "h' = h1" "stash' = stash"
        using 1(2) pop by (simp_all add: search_heap.simps [of target h])
      with True queue.pop_contents [OF pop] queue.pop_max [OF pop] show ?thesis by simp
    next
      case False
      then have "search_heap target h1 (stash @ [q]) = (found, h', stash')"
        using 1(2) pop by (simp add: search_heap.simps [of target h])
      from 1(1) [OF pop refl False this] obtain skipped where s:
        "stash' = (stash @ [q]) @ skipped" "\<forall>x \<in> set skipped. lp_llm_request_id (q_plan x) \<noteq> Some target"
        "mset h1 = mset skipped + mset h' + (case found of None \<Rightarrow> {#} | Some q \<Rightarrow> {#q#})"
        "case found of None \<Rightarrow> h' = []
         | Some q \<Rightarrow> lp_llm_request_id (q_plan q) = Some target \<and> (\<forall>x \<in> set h'. queued_key x \<le> queued_key q)"
        by blast
      with False queue.pop_contents [OF pop] show ?thesis
        by (intro exI [of _ "q # skipped"]) simp
    qed
  qed
qed

text \<open>Popping for a request never loses or reorders other work: with no task of that request
  queued it returns nothing and keeps the contents; otherwise it considers a greatest task among
  those of the request, and either returns it and removes exactly that task, or, when its agent
  is at capacity, returns nothing and keeps the contents. The search ends.\<close>

theorem pop_for_llm_is_exact:
  fixes s :: Scheduler and target :: string
  defines "mine \<equiv> filter_mset (\<lambda>x. lp_llm_request_id (q_plan x) = Some target) (mset (sch_heap s))"
  shows "if mine = {#}
    then fst (pop_for_llm (Some target) s) = None \<and>
      mset (sch_heap (snd (pop_for_llm (Some target) s))) = mset (sch_heap s)
    else (\<exists>q \<in># mine. (\<forall>x \<in># mine. queued_key x \<le> queued_key q) \<and>
      (if (case q_agent_id q of None \<Rightarrow> True | Some a \<Rightarrow> has_capacity s a)
       then fst (pop_for_llm (Some target) s) = Some (to_task q) \<and>
         mset (sch_heap s) = add_mset q (mset (sch_heap (snd (pop_for_llm (Some target) s))))
       else fst (pop_for_llm (Some target) s) = None \<and>
         mset (sch_heap (snd (pop_for_llm (Some target) s))) = mset (sch_heap s)))"
proof -
  obtain found h skipped where run: "search_heap target (sch_heap s) [] = (found, h, skipped)"
    by (metis prod_cases3)
  let ?s1 = "s\<lparr>sch_heap := fold heap_push skipped h\<rparr>"
  have spec: "\<forall>x \<in> set skipped. lp_llm_request_id (q_plan x) \<noteq> Some target"
      "mset (sch_heap s) = mset skipped + mset h + (case found of None \<Rightarrow> {#} | Some q \<Rightarrow> {#q#})"
      "case found of None \<Rightarrow> h = []
       | Some q \<Rightarrow> lp_llm_request_id (q_plan q) = Some target \<and> (\<forall>x \<in> set h. queued_key x \<le> queued_key q)"
    using search_heap_spec [OF run] by auto
  have skip: "filter_mset (\<lambda>x. lp_llm_request_id (q_plan x) = Some target) (mset skipped) = {#}"
    using spec(1) by (simp flip: mset_filter add: filter_empty_conv)
  have push: "mset (fold heap_push skipped h) = mset skipped + mset h"
    by (simp add: queue.push_all)
  show ?thesis
  proof (cases found)
    case None
    with spec skip have "mine = {#}" by (simp add: mine_def)
    moreover have "pop_for_llm (Some target) s = (None, ?s1)"
      by (simp add: pop_for_llm_def run None)
    ultimately show ?thesis using push spec(2) None by simp
  next
    case (Some q)
    have out: "pop_for_llm (Some target) s = admit q ?s1"
      by (simp add: pop_for_llm_def run Some)
    have mine: "mine = add_mset q (filter_mset (\<lambda>x. lp_llm_request_id (q_plan x) = Some target) (mset h))"
      using spec skip Some by (simp add: mine_def)
    then have max: "q \<in># mine" "\<forall>x \<in># mine. queued_key x \<le> queued_key q"
      using spec(3) Some by auto
    have total: "mset (sch_heap s) = add_mset q (mset (fold heap_push skipped h))"
      using spec(2) push Some by simp
    have "if (case q_agent_id q of None \<Rightarrow> True | Some a \<Rightarrow> has_capacity s a)
       then fst (pop_for_llm (Some target) s) = Some (to_task q) \<and>
         mset (sch_heap s) = add_mset q (mset (sch_heap (snd (pop_for_llm (Some target) s))))
       else fst (pop_for_llm (Some target) s) = None \<and>
         mset (sch_heap (snd (pop_for_llm (Some target) s))) = mset (sch_heap s)"
      unfolding out admit_cases total by (simp add: queue.contents_push split: option.split)
    with max mine show ?thesis by auto
  qed
qed

theorem pop_for_llm_is_exact_witness:
  "fst (pop_for_llm (Some ''other'') (sched_push sample_task new_scheduler)) = None"
  using pop_for_llm_is_exact [of "''other''" "sched_push sample_task new_scheduler"]
  by (simp add: sched_push_def heap_push_def sample_task_def sample_plan_def new_scheduler_def)

text \<open>The scheduler as a machine driven by its callers.\<close>

datatype SchedulerEvent =
    Push ScheduledTask
  | PopAny
  | PopForLlm "string option"
  | Complete "string option"
  | Clear

fun sched_step :: "Scheduler \<Rightarrow> SchedulerEvent \<Rightarrow> Scheduler" where
  "sched_step s (Push task) = sched_push task s"
| "sched_step s PopAny = snd (pop_any s)"
| "sched_step s (PopForLlm request) = snd (pop_for_llm request s)"
| "sched_step s (Complete agent) = sched_complete agent s"
| "sched_step s Clear = sched_clear s"

definition sched_init :: "Scheduler \<Rightarrow> bool" where
  "sched_init s \<longleftrightarrow> sch_agent_active s = Map.empty"

definition within_capacity :: "Scheduler \<Rightarrow> bool" where
  "within_capacity s \<longleftrightarrow> (\<forall>a. active_of s a \<le> capacity_of s a)"

lemma within_capacity_heap [simp]: "within_capacity (s\<lparr>sch_heap := h\<rparr>) = within_capacity s"
  by (simp add: within_capacity_def active_of_def capacity_of_def)

lemma within_capacity_admit: "within_capacity s \<Longrightarrow> within_capacity (snd (admit q s))"
  by (auto simp: admit_def within_capacity_def has_capacity_def active_of_def capacity_of_def
      split: option.splits)

lemma capacity_admit: "sch_agent_capacity (snd (admit q s)) = sch_agent_capacity s"
  by (simp add: admit_def split: option.split)

lemma step_capacity: "sch_agent_capacity (sched_step s e) = sch_agent_capacity s"
  by (cases e)
    (auto simp: sched_push_def pop_any_def pop_for_llm_def sched_complete_def sched_clear_def
      capacity_admit Let_def split: option.splits prod.splits)

interpretation sched: event_machine sched_init sched_step within_capacity
proof unfold_locales
  show "within_capacity s" if "sched_init s" for s
    using that by (simp add: sched_init_def within_capacity_def active_of_def)
  show "within_capacity (sched_step s e)" if "within_capacity s" for s e
  proof (cases e)
    case (Push task)
    with that show ?thesis
      by (simp add: sched_push_def within_capacity_def active_of_def capacity_of_def)
  next
    case PopAny
    with that show ?thesis
      by (auto simp: pop_any_def intro: within_capacity_admit split: option.split)
  next
    case (PopForLlm request)
    with that show ?thesis
      by (auto simp: pop_for_llm_def pop_any_def Let_def intro: within_capacity_admit
          split: option.split prod.split)
  next
    case (Complete agent)
    then show ?thesis
      using that by (fastforce simp: sched_complete_def within_capacity_def active_of_def capacity_of_def
          split: option.splits)
  next
    case Clear
    then show ?thesis
      by (simp add: sched_clear_def within_capacity_def active_of_def)
  qed
qed



section \<open>Dependencies\<close>

record DependencyTracker =
  dt_waiting :: "string \<rightharpoonup> string set"
  dt_unblocks :: "string \<rightharpoonup> ScheduledTask list"

definition new_tracker :: DependencyTracker where
  "new_tracker = \<lparr> dt_waiting = Map.empty, dt_unblocks = Map.empty \<rparr>"

definition enqueue_unblock ::
  "ScheduledTask \<Rightarrow> string \<Rightarrow> (string \<rightharpoonup> ScheduledTask list) \<Rightarrow> (string \<rightharpoonup> ScheduledTask list)" where
  "enqueue_unblock task dep m = m(dep \<mapsto> (case m dep of Some ts \<Rightarrow> ts | None \<Rightarrow> []) @ [task])"

definition tracker_add :: "ScheduledTask \<Rightarrow> DependencyTracker \<Rightarrow> DependencyTracker" where
  "tracker_add task tr =
     (let deps = lp_depends_on (st_plan task)
      in if deps = [] then tr
         else
           (let waiting = (case lp_action_id (st_plan task) of
                             Some aid \<Rightarrow> (dt_waiting tr)(aid \<mapsto> set deps) | None \<Rightarrow> dt_waiting tr)
            in \<lparr> dt_waiting = waiting,
                 dt_unblocks = fold (enqueue_unblock task) deps (dt_unblocks tr) \<rparr>))"

text \<open>The push for every dependency still waited for; the set order does not matter, since each key is
  touched once.\<close>

definition enqueue_all ::
  "ScheduledTask \<Rightarrow> string set \<Rightarrow> (string \<rightharpoonup> ScheduledTask list) \<Rightarrow> (string \<rightharpoonup> ScheduledTask list)" where
  "enqueue_all task deps m =
     (\<lambda>d. if d \<in> deps then Some ((case m d of Some ts \<Rightarrow> ts | None \<Rightarrow> []) @ [task]) else m d)"

fun complete_loop ::
  "string \<Rightarrow> ScheduledTask list \<Rightarrow> DependencyTracker \<Rightarrow> ScheduledTask list
     \<Rightarrow> ScheduledTask list \<times> DependencyTracker" where
  "complete_loop action [] tr ready = (ready, tr)"
| "complete_loop action (task # tasks) tr ready =
     (case lp_action_id (st_plan task) of
        None \<Rightarrow> complete_loop action tasks tr (ready @ [task])
      | Some aid \<Rightarrow>
          (case dt_waiting tr aid of
             None \<Rightarrow> complete_loop action tasks tr (ready @ [task])
           | Some wait \<Rightarrow>
               (let rest = wait - {action}
                in if rest = {}
                   then complete_loop action tasks
                          (tr\<lparr>dt_waiting := (dt_waiting tr)(aid := None)\<rparr>) (ready @ [task])
                   else complete_loop action tasks
                          (tr\<lparr>dt_waiting := (dt_waiting tr)(aid \<mapsto> rest),
                              dt_unblocks := enqueue_all task rest (dt_unblocks tr)\<rparr>) ready)))"

definition tracker_complete ::
  "string \<Rightarrow> DependencyTracker \<Rightarrow> ScheduledTask list \<times> DependencyTracker" where
  "tracker_complete action tr =
     (case dt_unblocks tr action of
        None \<Rightarrow> ([], tr)
      | Some tasks \<Rightarrow>
          complete_loop action tasks (tr\<lparr>dt_unblocks := (dt_unblocks tr)(action := None)\<rparr>) [])"

definition tracker_clear :: "DependencyTracker \<Rightarrow> DependencyTracker" where
  "tracker_clear tr = tr\<lparr>dt_waiting := Map.empty, dt_unblocks := Map.empty\<rparr>"

fun complete_all :: "string list \<Rightarrow> DependencyTracker \<Rightarrow> ScheduledTask list list" where
  "complete_all [] tr = []"
| "complete_all (d # ds) tr =
     (let (ready, tr') = tracker_complete d tr in ready # complete_all ds tr')"

text \<open>The tracker of one task with open dependencies \<open>ds\<close>, queued \<open>n\<close> times at each of them.\<close>

definition tracks :: "ScheduledTask \<Rightarrow> string list \<Rightarrow> nat \<Rightarrow> DependencyTracker" where
  "tracks task ds n =
     \<lparr> dt_waiting = [the (lp_action_id (st_plan task)) \<mapsto> set ds],
       dt_unblocks = (\<lambda>d. if d \<in> set ds then Some (replicate n task) else None) \<rparr>"

lemma fold_enqueue:
  "distinct ds \<Longrightarrow> fold (enqueue_unblock task) ds m =
     (\<lambda>d. if d \<in> set ds then Some ((case m d of Some ts \<Rightarrow> ts | None \<Rightarrow> []) @ [task]) else m d)"
  by (induction ds arbitrary: m) (auto simp: enqueue_unblock_def fun_eq_iff)

lemma tracks_add:
  assumes "lp_action_id (st_plan task) = Some aid" and "lp_depends_on (st_plan task) = ds"
    and "distinct ds" and "ds \<noteq> []"
  shows "tracker_add task new_tracker = tracks task ds 1"
  using assms by (simp add: tracker_add_def tracks_def new_tracker_def fold_enqueue Let_def fun_eq_iff)

text \<open>Completing a dependency that is not the last requeues every copy at all the others.\<close>

lemma loop_requeues:
  assumes "lp_action_id (st_plan task) = Some aid" and "dt_waiting tr aid = Some w" and "w - {d} \<noteq> {}"
  shows "complete_loop d (replicate (Suc n) task) tr ready =
    (ready, tr\<lparr>dt_waiting := (dt_waiting tr)(aid \<mapsto> w - {d}),
      dt_unblocks := (enqueue_all task (w - {d}) ^^ Suc n) (dt_unblocks tr)\<rparr>)"
  using assms
proof (induction n arbitrary: tr w)
  case 0
  then show ?case by (simp add: Let_def fun_upd_def)
next
  case (Suc n)
  let ?tr = "tr\<lparr>dt_waiting := (dt_waiting tr)(aid \<mapsto> w - {d}),
      dt_unblocks := enqueue_all task (w - {d}) (dt_unblocks tr)\<rparr>"
  have "complete_loop d (replicate (Suc (Suc n)) task) tr ready =
      complete_loop d (replicate (Suc n) task) ?tr ready"
    using Suc.prems by (simp add: Let_def)
  also have "\<dots> = (ready, ?tr\<lparr>dt_waiting := (dt_waiting ?tr)(aid \<mapsto> (w - {d}) - {d}),
      dt_unblocks := (enqueue_all task ((w - {d}) - {d}) ^^ Suc n) (dt_unblocks ?tr)\<rparr>)"
    using Suc.prems by (intro Suc.IH) auto
  finally show ?case by (cases tr) (simp add: funpow_swap1 fun_eq_iff del: complete_loop.simps)
qed

lemma enqueue_all_iterated:
  assumes "\<And>d. d \<in> ds \<Longrightarrow> m d \<noteq> None"
  shows "(enqueue_all task ds ^^ n) m = (\<lambda>d. if d \<in> ds then Some (the (m d) @ replicate n task) else m d)"
  using assms by (induction n) (auto simp: enqueue_all_def fun_eq_iff replicate_app_Cons_same)

lemma loop_releases:
  assumes "lp_action_id (st_plan task) = Some aid" and "dt_waiting tr aid = None"
  shows "complete_loop d (replicate n task) tr ready = (ready @ replicate n task, tr)"
  using assms by (induction n arbitrary: ready) (simp_all add: replicate_app_Cons_same)

lemma tracks_complete:
  assumes "lp_action_id (st_plan task) = Some aid" and "distinct (d # ds)" and "ds \<noteq> []" and "0 < n"
  shows "tracker_complete d (tracks task (d # ds) n) = ([], tracks task ds (2 * n))"
proof -
  obtain k where n: "n = Suc k" using assms(4) by (cases n) auto
  have rest: "set (d # ds) - {d} = set ds" using assms(2) by auto
  let ?un = "(dt_unblocks (tracks task (d # ds) n))(d := None)"
  have "(enqueue_all task (set ds) ^^ n) ?un =
      (\<lambda>e. if e \<in> set ds then Some (the (?un e) @ replicate n task) else ?un e)"
    using assms(2) by (intro enqueue_all_iterated) (auto simp: tracks_def)
  also have "\<dots> = (\<lambda>e. if e \<in> set ds then Some (replicate (2 * n) task) else None)"
    using assms(2) by (auto simp: tracks_def fun_eq_iff mult_2 replicate_add)
  finally have un: "(enqueue_all task (set ds) ^^ n) ?un = \<dots>" .
  have "complete_loop d (replicate (Suc k) task) ((tracks task (d # ds) n)\<lparr>dt_unblocks := ?un\<rparr>) [] =
      ([], tracks task ds (2 * n))"
    using loop_requeues [OF assms(1), of "(tracks task (d # ds) n)\<lparr>dt_unblocks := ?un\<rparr>" "set (d # ds)" d k "[]"]
      assms(1,3) un rest
    by (simp only: n [symmetric] rest) (simp add: tracks_def)
  then show ?thesis by (simp add: tracker_complete_def tracks_def n)
qed

lemma tracks_complete_last:
  assumes "lp_action_id (st_plan task) = Some aid"
  shows "fst (tracker_complete d (tracks task [d] (Suc n))) = replicate (Suc n) task"
  using assms
  by (simp add: tracker_complete_def tracks_def Let_def loop_releases [where aid = aid])

lemma complete_all_tracks:
  assumes "lp_action_id (st_plan task) = Some aid"
  shows "distinct (ds @ [d]) \<Longrightarrow> complete_all (ds @ [d]) (tracks task (ds @ [d]) (2 ^ k)) =
    replicate (length ds) [] @ [replicate (2 ^ (k + length ds)) task]"
proof (induction ds arbitrary: k)
  case Nil
  obtain n where "(2 :: nat) ^ k = Suc n" by (metis not0_implies_Suc power_not_zero zero_neq_numeral)
  with tracks_complete_last [OF assms, of d n] show ?case
    by (simp add: Let_def case_prod_unfold)
next
  case (Cons e ds)
  have "tracker_complete e (tracks task (e # ds @ [d]) (2 ^ k)) = ([], tracks task (ds @ [d]) (2 ^ Suc k))"
    using tracks_complete [OF assms, of e "ds @ [d]" "2 ^ k"] Cons.prems by simp
  with Cons.IH [of "Suc k"] Cons.prems show ?case by simp
qed

text \<open>The dependency tracker releases a task with several dependencies more than once. A task that
  waits for \<open>n\<close> distinct actions is held back until the last of them completes, as it should, but
  every earlier completion queues all its copies again at the remaining ones, so the last
  completion hands the same task out \<open>2^(n-1)\<close> times.\<close>

theorem dependencies_release_task_repeatedly:
  assumes "lp_action_id (st_plan task) = Some aid" and "lp_depends_on (st_plan task) = ds @ [d]"
    and "distinct (ds @ [d])"
  shows "complete_all (ds @ [d]) (tracker_add task new_tracker) =
    replicate (length ds) [] @ [replicate (2 ^ length ds) task]"
  using complete_all_tracks [OF assms(1,3), of 0] tracks_add [OF assms(1,2,3)] by simp

theorem dependencies_release_task_repeatedly_witness:
  "complete_all ([''a''] @ [''b'']) (tracker_add sample_task new_tracker) = [[], [sample_task, sample_task]]"
proof -
  have "lp_action_id (st_plan sample_task) = Some ''t''"
      "lp_depends_on (st_plan sample_task) = [''a''] @ [''b'']" "distinct ([''a''] @ [''b''])"
    by (simp_all add: sample_task_def sample_plan_def)
  from dependencies_release_task_repeatedly [OF this] show ?thesis
    by (simp add: numeral_2_eq_2)
qed

end
