(* ===== verification/Patch_Parser.thy ===== *)
theory Patch_Parser
  imports Canon_Prelude
begin

text \<open>
  The parser of the patch format, \<^verbatim>\<open>canon-utils/canon-tools-patch/src/parser.rs\<close>, and the
  collection of affected paths in \<^verbatim>\<open>lib.rs\<close>. Running the external \<^verbatim>\<open>apply_patch\<close> binary is
  not modelled; its verdict is an argument of \<open>apply_patch\<close>.

  A parser returns the error or the result with the number of lines it used. The slices
  \<^verbatim>\<open>&lines[n..]\<close> are \<^const>\<open>drop\<close>: that they never start past the end is the lemma
  \<open>parse_one_hunk_used\<close>.
\<close>

section \<open>Data\<close>

definition BEGIN_PATCH_MARKER :: string where "BEGIN_PATCH_MARKER = ''*** Begin Patch''"
definition END_PATCH_MARKER :: string where "END_PATCH_MARKER = ''*** End Patch''"
definition ADD_FILE_MARKER :: string where "ADD_FILE_MARKER = ''*** Add File: ''"
definition DELETE_FILE_MARKER :: string where "DELETE_FILE_MARKER = ''*** Delete File: ''"
definition UPDATE_FILE_MARKER :: string where "UPDATE_FILE_MARKER = ''*** Update File: ''"
definition MOVE_TO_MARKER :: string where "MOVE_TO_MARKER = ''*** Move to: ''"
definition EOF_MARKER :: string where "EOF_MARKER = ''*** End of File''"
definition CHANGE_CONTEXT_MARKER :: string where "CHANGE_CONTEXT_MARKER = ''@@ ''"
definition EMPTY_CHANGE_CONTEXT_MARKER :: string where "EMPTY_CHANGE_CONTEXT_MARKER = ''@@''"
definition PARSE_IN_STRICT_MODE :: bool where "PARSE_IN_STRICT_MODE = False"

lemmas marker_defs = BEGIN_PATCH_MARKER_def END_PATCH_MARKER_def ADD_FILE_MARKER_def
  DELETE_FILE_MARKER_def UPDATE_FILE_MARKER_def MOVE_TO_MARKER_def EOF_MARKER_def
  CHANGE_CONTEXT_MARKER_def EMPTY_CHANGE_CONTEXT_MARKER_def

datatype ParseError = InvalidPatchError string | InvalidHunkError string nat

record UpdateFileChunk =
  ck_change_context :: "string option"
  ck_old_lines :: "string list"
  ck_new_lines :: "string list"
  ck_is_end_of_file :: bool

datatype Hunk =
    AddFile path string
  | DeleteFile path
  | UpdateFile path "path option" "UpdateFileChunk list"

record ApplyPatchArgs =
  ap_patch :: string
  ap_hunks :: "Hunk list"
  ap_workdir :: "string option"

datatype ParseMode = Strict | Lenient

fun resolve_path :: "Hunk \<Rightarrow> path \<Rightarrow> path" where
  "resolve_path (AddFile p c) cwd = path_join cwd p"
| "resolve_path (DeleteFile p) cwd = path_join cwd p"
| "resolve_path (UpdateFile p mv cs) cwd = path_join cwd p"

section \<open>Update chunks\<close>

definition starts_file_hunk :: "string \<Rightarrow> bool" where
  "starts_file_hunk l \<longleftrightarrow>
     prefix ADD_FILE_MARKER l \<or> prefix DELETE_FILE_MARKER l \<or> prefix UPDATE_FILE_MARKER l"

text \<open>The loop over the lines after the header of a chunk, with its counters.\<close>

fun chunk_loop ::
  "string list \<Rightarrow> nat \<Rightarrow> string list \<Rightarrow> string list \<Rightarrow> nat
     \<Rightarrow> ParseError + (string list \<times> string list \<times> bool \<times> nat)" where
  "chunk_loop [] line_number old new consumed = Inr (old, new, False, consumed)"
| "chunk_loop (l # ls) line_number old new consumed =
     (let trimmed = trim_end l; line_number' = line_number + 1
      in if trimmed = EOF_MARKER then Inr (old, new, True, consumed + 1)
         else if prefix ''@@'' trimmed \<or> starts_file_hunk trimmed then Inr (old, new, False, consumed)
         else (case strip_prefix ''+'' trimmed of
             Some rest \<Rightarrow> chunk_loop ls line_number' old (new @ [rest]) (consumed + 1)
           | None \<Rightarrow>
          (case strip_prefix ''-'' trimmed of
             Some rest \<Rightarrow> chunk_loop ls line_number' (old @ [rest]) new (consumed + 1)
           | None \<Rightarrow>
          (case strip_prefix '' '' trimmed of
             Some rest \<Rightarrow> chunk_loop ls line_number' (old @ [rest]) (new @ [rest]) (consumed + 1)
           | None \<Rightarrow>
               if trimmed = [] then chunk_loop ls line_number' (old @ [[]]) (new @ [[]]) (consumed + 1)
               else Inl (InvalidHunkError (''unexpected line in update chunk: '' @ trimmed) line_number')))))"

definition parse_update_chunk :: "string list \<Rightarrow> nat \<Rightarrow> ParseError + (UpdateFileChunk \<times> nat)" where
  "parse_update_chunk ls line_number =
     (case ls of
        [] \<Rightarrow> Inl (InvalidHunkError ''missing update chunk'' line_number)
      | first # rest \<Rightarrow>
          if prefix CHANGE_CONTEXT_MARKER (trim first) \<or> trim first = EMPTY_CHANGE_CONTEXT_MARKER then
            (let ctx = trim (or_else (strip_prefix CHANGE_CONTEXT_MARKER (trim first)) [])
             in case chunk_loop rest line_number [] [] 1 of
                  Inl e \<Rightarrow> Inl e
                | Inr (old, new, eof, consumed) \<Rightarrow>
                    Inr (\<lparr> ck_change_context = (if ctx = [] then None else Some ctx), ck_old_lines = old,
                           ck_new_lines = new, ck_is_end_of_file = eof \<rparr>, consumed))
          else Inl (InvalidHunkError ''missing @@ context header'' line_number))"

lemma chunk_loop_used:
  "chunk_loop ls n old new consumed = Inr (old', new', eof, used) \<Longrightarrow>
    consumed \<le> used \<and> used \<le> consumed + length ls"
proof (induction ls arbitrary: n old new consumed)
  case (Cons l ls)
  then show ?case
    by (fastforce simp: Let_def split: if_splits option.splits)
qed simp

lemma parse_update_chunk_used:
  "parse_update_chunk ls n = Inr (c, used) \<Longrightarrow> 0 < used \<and> used \<le> length ls"
  by (auto simp: parse_update_chunk_def Let_def split: list.splits if_splits sum.splits prod.splits
      dest!: chunk_loop_used)

section \<open>Hunks\<close>

fun add_loop :: "string list \<Rightarrow> string list \<Rightarrow> nat \<Rightarrow> string list \<times> nat" where
  "add_loop [] contents consumed = (contents, consumed)"
| "add_loop (l # ls) contents consumed =
     (let trimmed = trim_end l
      in if trimmed \<in> {ADD_FILE_MARKER, DELETE_FILE_MARKER, UPDATE_FILE_MARKER, EOF_MARKER}
         then (contents, consumed)
         else if prefix ''+'' trimmed
         then add_loop ls (contents @ [dropWhile (\<lambda>c. c = CHR ''+'') trimmed]) (consumed + 1)
         else (contents, consumed))"

function update_loop ::
  "string list \<Rightarrow> nat \<Rightarrow> nat \<Rightarrow> UpdateFileChunk list \<Rightarrow> ParseError + (UpdateFileChunk list \<times> nat)" where
  "update_loop remaining line_number consumed chunks =
     (if remaining = [] then Inr (chunks, consumed)
      else (case parse_update_chunk remaining line_number of
              Inl e \<Rightarrow> Inl e
            | Inr (chunk, used) \<Rightarrow>
                (let remaining' = drop used remaining
                 in if remaining' = [] \<or> starts_file_hunk (trim (hd remaining'))
                    then Inr (chunks @ [chunk], consumed + used)
                    else update_loop remaining' (line_number + used) (consumed + used) (chunks @ [chunk]))))"
  by pat_completeness auto
termination
  by (relation "measure (\<lambda>(remaining, _). length remaining)") (auto dest: parse_update_chunk_used)

declare update_loop.simps [simp del]

definition parse_one_hunk :: "string list \<Rightarrow> nat \<Rightarrow> ParseError + (Hunk \<times> nat)" where
  "parse_one_hunk ls line_number =
     (case ls of
        [] \<Rightarrow> Inl (InvalidPatchError ''missing hunk'')
      | first # rest \<Rightarrow>
     (case strip_prefix ADD_FILE_MARKER (trim first) of
        Some name \<Rightarrow>
          (let filename = trim name; (contents, consumed) = add_loop rest [] 1
           in if filename = [] then Inl (InvalidHunkError ''missing filename for Add File'' line_number)
              else if contents = []
              then Inl (InvalidHunkError ''Add File hunk requires at least one + line'' line_number)
              else Inr (AddFile filename (join nl contents @ nl), consumed))
      | None \<Rightarrow>
     (case strip_prefix DELETE_FILE_MARKER (trim first) of
        Some name \<Rightarrow>
          (if trim name = [] then Inl (InvalidHunkError ''missing filename for Delete File'' line_number)
           else Inr (DeleteFile (trim name), 1))
      | None \<Rightarrow>
     (case strip_prefix UPDATE_FILE_MARKER (trim first) of
        Some name \<Rightarrow>
          (if trim name = [] then Inl (InvalidHunkError ''missing filename for Update File'' line_number)
           else
             (let move = (case rest of [] \<Rightarrow> None | l # _ \<Rightarrow> strip_prefix MOVE_TO_MARKER (trim l));
                  k = (if move = None then 0 else 1)
              in case update_loop (drop k rest) (line_number + k) (1 + k) [] of
                   Inl e \<Rightarrow> Inl e
                 | Inr (chunks, consumed) \<Rightarrow>
                     Inr (UpdateFile (trim name) (map_option trim move) chunks, consumed)))
      | None \<Rightarrow> Inl (InvalidHunkError ''expected Add/Delete/Update hunk'' line_number)))))"

lemma add_loop_used:
  "add_loop ls contents consumed = (contents', used) \<Longrightarrow> consumed \<le> used \<and> used \<le> consumed + length ls"
proof (induction ls arbitrary: contents consumed)
  case (Cons l ls)
  then show ?case by (fastforce simp: Let_def split: if_splits)
qed simp

lemma update_loop_used:
  "update_loop ls n consumed chunks = Inr (chunks', used) \<Longrightarrow>
    consumed \<le> used \<and> used \<le> consumed + length ls"
proof (induction ls n consumed chunks rule: update_loop.induct)
  case (1 remaining n consumed chunks)
  show ?case
  proof (cases "remaining = []")
    case False
    then obtain chunk u where u: "parse_update_chunk remaining n = Inr (chunk, u)"
      using "1.prems" by (auto simp: update_loop.simps [of remaining] split: sum.splits)
    note bound = parse_update_chunk_used [OF u]
    show ?thesis
    proof (cases "drop u remaining = [] \<or> starts_file_hunk (trim (hd (drop u remaining)))")
      case True
      with "1.prems" False u bound show ?thesis by (auto simp: update_loop.simps [of remaining] Let_def)
    next
      case stop: False
      then have "update_loop (drop u remaining) (n + u) (consumed + u) (chunks @ [chunk]) = Inr (chunks', used)"
        using "1.prems" False u by (simp add: update_loop.simps [of remaining] Let_def)
      with "1.IH" [OF False u refl refl] stop bound show ?thesis by fastforce
    qed
  qed (use "1.prems" in \<open>simp add: update_loop.simps\<close>)
qed

lemma parse_one_hunk_used:
  "parse_one_hunk ls n = Inr (h, used) \<Longrightarrow> 0 < used \<and> used \<le> length ls"
  by (auto simp: parse_one_hunk_def Let_def split: list.splits option.splits if_splits sum.splits prod.splits
      dest!: add_loop_used update_loop_used)

section \<open>Patches\<close>

definition check_start_and_end_lines_strict :: "string option \<Rightarrow> string option \<Rightarrow> ParseError option" where
  "check_start_and_end_lines_strict first last_line =
     (case (first, last_line) of
        (Some f, Some l) \<Rightarrow>
          (if trim f = BEGIN_PATCH_MARKER \<and> trim l = END_PATCH_MARKER then None
           else if trim f \<noteq> BEGIN_PATCH_MARKER
           then Some (InvalidPatchError (''patch should start with '' @ BEGIN_PATCH_MARKER))
           else if trim l \<noteq> END_PATCH_MARKER
           then Some (InvalidPatchError (''patch should end with '' @ END_PATCH_MARKER))
           else Some (InvalidPatchError ''patch is empty''))
      | (Some f, None) \<Rightarrow>
          (if trim f \<noteq> BEGIN_PATCH_MARKER
           then Some (InvalidPatchError (''patch should start with '' @ BEGIN_PATCH_MARKER))
           else Some (InvalidPatchError ''patch is empty''))
      | (None, Some l) \<Rightarrow>
          (if trim l \<noteq> END_PATCH_MARKER
           then Some (InvalidPatchError (''patch should end with '' @ END_PATCH_MARKER))
           else Some (InvalidPatchError ''patch is empty''))
      | (None, None) \<Rightarrow> Some (InvalidPatchError ''patch is empty''))"

definition check_patch_boundaries_strict :: "string list \<Rightarrow> ParseError option" where
  "check_patch_boundaries_strict ls =
     (if ls = [] then check_start_and_end_lines_strict None None
      else check_start_and_end_lines_strict (Some (hd ls)) (Some (last ls)))"

definition split_once :: "char \<Rightarrow> string \<Rightarrow> (string \<times> string) option" where
  "split_once d s =
     (if d \<in> set s then Some (takeWhile (\<lambda>c. c \<noteq> d) s, tl (dropWhile (\<lambda>c. c \<noteq> d) s)) else None)"

fun position :: "('a \<Rightarrow> bool) \<Rightarrow> 'a list \<Rightarrow> nat option" where
  "position p [] = None"
| "position p (x # xs) = (if p x then Some 0 else map_option Suc (position p xs))"

definition rposition :: "('a \<Rightarrow> bool) \<Rightarrow> 'a list \<Rightarrow> nat option" where
  "rposition p xs = map_option (\<lambda>i. length xs - 1 - i) (position p (rev xs))"

definition check_patch_boundaries_lenient :: "string list \<Rightarrow> ParseError \<Rightarrow> ParseError + string list" where
  "check_patch_boundaries_lenient ls strict_error =
     (if length ls < 4 then Inl strict_error
      else
        (let raw_first = hd ls; raw_last = last ls;
             (first_prefix, first_suffix) = or_else (split_once (CHR 0x0A) raw_first) (raw_first, []);
             (last_prefix, last_suffix) = or_else (split_once (CHR 0x0A) raw_last) (raw_last, []);
             looks_like_heredoc = prefix ''<<'' (trim first_prefix) \<and> ends_with (trim last_suffix) ''EOF''
         in if looks_like_heredoc \<and> str_contains first_suffix BEGIN_PATCH_MARKER \<and>
               str_contains last_prefix END_PATCH_MARKER
            then (let first_idx = or_else (position (\<lambda>l. str_contains l BEGIN_PATCH_MARKER) ls) 0;
                      last_idx = or_else (rposition (\<lambda>l. str_contains l END_PATCH_MARKER) ls) (length ls - 1)
                  in Inr (take (last_idx + 1 - first_idx) (drop first_idx ls)))
            else Inl strict_error))"

function hunk_loop :: "string list \<Rightarrow> nat \<Rightarrow> Hunk list \<Rightarrow> ParseError + Hunk list" where
  "hunk_loop remaining line_number hunks =
     (if remaining = [] then Inr hunks
      else (case parse_one_hunk remaining line_number of
              Inl e \<Rightarrow> Inl e
            | Inr (hunk, used) \<Rightarrow> hunk_loop (drop used remaining) (line_number + used) (hunks @ [hunk])))"
  by pat_completeness auto
termination
  by (relation "measure (\<lambda>(remaining, _). length remaining)") (auto dest: parse_one_hunk_used)

declare hunk_loop.simps [simp del]

text \<open>\<open>None\<close> is the panic of the slice \<^verbatim>\<open>&lines[1..last_line_index]\<close> when the line list is empty or has one
  line.\<close>

definition parse_patch_text :: "string \<Rightarrow> ParseMode \<Rightarrow> (ParseError + ApplyPatchArgs) option" where
  "parse_patch_text patch mode =
     (let ls = str_lines (trim patch);
          checked = (case check_patch_boundaries_strict ls of
                       None \<Rightarrow> Inr ls
                     | Some e \<Rightarrow> (case mode of Strict \<Rightarrow> Inl e
                                   | Lenient \<Rightarrow> check_patch_boundaries_lenient ls e))
      in case checked of
           Inl e \<Rightarrow> Some (Inl e)
         | Inr ls' \<Rightarrow>
             if length ls' < 2 then None
             else (case hunk_loop (butlast (tl ls')) 2 [] of
                     Inl e \<Rightarrow> Some (Inl e)
                   | Inr hunks \<Rightarrow> Some (Inr \<lparr> ap_patch = join nl ls', ap_hunks = hunks, ap_workdir = None \<rparr>)))"

definition parse_patch :: "string \<Rightarrow> (ParseError + ApplyPatchArgs) option" where
  "parse_patch patch = parse_patch_text patch (if PARSE_IN_STRICT_MODE then Strict else Lenient)"

section \<open>Affected paths\<close>

datatype ApplyPatchError = Parse ParseError | Io string | ComputeReplacements string

record AffectedPaths =
  af_added :: "path list"
  af_modified :: "path list"
  af_deleted :: "path list"

definition absolute_in :: "path \<Rightarrow> path \<Rightarrow> path" where
  "absolute_in cwd p = (if is_absolute p then p else path_join cwd p)"

fun resolve_hunk :: "path \<Rightarrow> Hunk \<Rightarrow> Hunk" where
  "resolve_hunk cwd (AddFile p c) = AddFile (absolute_in cwd p) c"
| "resolve_hunk cwd (DeleteFile p) = DeleteFile (absolute_in cwd p)"
| "resolve_hunk cwd (UpdateFile p mv cs) =
     UpdateFile (absolute_in cwd p) (map_option (absolute_in cwd) mv) cs"

fun add_affected :: "Hunk \<Rightarrow> AffectedPaths \<Rightarrow> AffectedPaths" where
  "add_affected (AddFile p c) a = a\<lparr>af_added := af_added a @ [p]\<rparr>"
| "add_affected (DeleteFile p) a = a\<lparr>af_deleted := af_deleted a @ [p]\<rparr>"
| "add_affected (UpdateFile p mv cs) a = a\<lparr>af_modified := af_modified a @ [or_else mv p]\<rparr>"

definition affected_paths_from_hunks :: "Hunk list \<Rightarrow> ApplyPatchError + AffectedPaths" where
  "affected_paths_from_hunks hunks =
     (if hunks = [] then Inl (ComputeReplacements ''No files were modified.'')
      else Inr (fold add_affected hunks \<lparr> af_added = [], af_modified = [], af_deleted = [] \<rparr>))"

text \<open>The external program is the argument \<open>run\<close>: it gets the patch and the directory and answers
  with an error or none.\<close>

definition apply_patch ::
  "(string \<Rightarrow> path \<Rightarrow> ApplyPatchError option) \<Rightarrow> string \<Rightarrow> path \<Rightarrow> (ApplyPatchError + AffectedPaths) option" where
  "apply_patch run patch cwd =
     (case parse_patch patch of
        None \<Rightarrow> None
      | Some (Inl e) \<Rightarrow> Some (Inl (Parse e))
      | Some (Inr args) \<Rightarrow>
          Some (case affected_paths_from_hunks (map (resolve_hunk cwd) (ap_hunks args)) of
                  Inl e \<Rightarrow> Inl e
                | Inr affected \<Rightarrow>
                    (case run patch cwd of
                       Some e \<Rightarrow> Inl e
                     | None \<Rightarrow> Inr affected)))"

section \<open>The lenient mode\<close>

lemma split_lf_no_lf: "l \<in> set (split_lf s) \<Longrightarrow> CHR 0x0A \<notin> set l"
  by (induction s arbitrary: l) (auto split: if_splits list.splits)

lemma str_lines_no_lf: "l \<in> set (str_lines s) \<Longrightarrow> CHR 0x0A \<notin> set l"
proof -
  have "split_lf s \<noteq> []" by (induction s) (auto split: list.splits)
  then have "last (split_lf s) \<in> set (split_lf s)" by simp
  moreover assume "l \<in> set (str_lines s)"
  ultimately show ?thesis
    by (auto simp: str_lines_def Let_def strip_cr_def split: if_splits
        dest!: in_set_butlastD split_lf_no_lf)
qed

lemma lenient_is_strict:
  "check_patch_boundaries_lenient (str_lines s) e = Inl e"
proof (cases "length (str_lines s) < 4")
  case False
  then have "hd (str_lines s) \<in> set (str_lines s)" by (cases "str_lines s") auto
  then have "split_once (CHR 0x0A) (hd (str_lines s)) = None"
    using str_lines_no_lf by (auto simp: split_once_def)
  then show ?thesis
    by (simp add: check_patch_boundaries_lenient_def Let_def str_contains_def BEGIN_PATCH_MARKER_def case_prod_unfold)
qed (simp add: check_patch_boundaries_lenient_def)

lemma strict_check_length:
  assumes "check_patch_boundaries_strict ls = None"
  shows "2 \<le> length ls" "trim (hd ls) = BEGIN_PATCH_MARKER" "trim (last ls) = END_PATCH_MARKER"
proof -
  have ends: "trim (hd ls) = BEGIN_PATCH_MARKER" "trim (last ls) = END_PATCH_MARKER" and "ls \<noteq> []"
    using assms by (auto simp: check_patch_boundaries_strict_def check_start_and_end_lines_strict_def split: if_splits)
  have "BEGIN_PATCH_MARKER \<noteq> END_PATCH_MARKER" by (simp add: marker_defs)
  with ends \<open>ls \<noteq> []\<close> show "2 \<le> length ls"
    by (cases ls; cases "tl ls") auto
  show "trim (hd ls) = BEGIN_PATCH_MARKER" "trim (last ls) = END_PATCH_MARKER" by fact+
qed

text \<open>Parsing a patch always returns, with hunks or an error: no slice is out of bounds, and both
  loops use at least one line per turn. The lenient mode changes nothing. It accepts a patch only
  when a line break is found inside a line, so a patch wrapped in a here-document is rejected in
  lenient mode with the error of the strict one.\<close>

theorem lenient_mode_never_applies:
  "parse_patch_text patch Lenient = parse_patch_text patch Strict \<and>
   parse_patch patch = parse_patch_text patch Strict \<and>
   (\<exists>result. parse_patch patch = Some result)"
proof -
  have same: "parse_patch_text patch Lenient = parse_patch_text patch Strict"
    by (simp add: parse_patch_text_def Let_def lenient_is_strict split: option.split)
  have "\<exists>result. parse_patch_text patch Strict = Some result"
  proof (cases "check_patch_boundaries_strict (str_lines (trim patch))")
    case None
    from strict_check_length(1) [OF this] None show ?thesis
      by (simp add: parse_patch_text_def Let_def split: sum.split)
  qed (simp add: parse_patch_text_def Let_def)
  with same show ?thesis by (simp add: parse_patch_def PARSE_IN_STRICT_MODE_def)
qed

section \<open>Round trip with the patch format\<close>

text \<open>
  The patch format as a printer: a chunk is its header, the removed and the added lines and the
  end-of-file line; a hunk is its header and its lines; a patch is its hunks between the markers.
\<close>

definition print_chunk :: "UpdateFileChunk \<Rightarrow> string list" where
  "print_chunk c =
     (case ck_change_context c of None \<Rightarrow> ''@@'' | Some ctx \<Rightarrow> ''@@ '' @ ctx) #
     map ((@) ''-'') (ck_old_lines c) @ map ((@) ''+'') (ck_new_lines c) @
     (if ck_is_end_of_file c then [EOF_MARKER] else [])"

fun print_hunk :: "Hunk \<Rightarrow> string list" where
  "print_hunk (AddFile p contents) = (ADD_FILE_MARKER @ p) # map ((@) ''+'') (str_lines contents)"
| "print_hunk (DeleteFile p) = [DELETE_FILE_MARKER @ p]"
| "print_hunk (UpdateFile p mv cs) =
     (UPDATE_FILE_MARKER @ p) # (case mv of None \<Rightarrow> [] | Some d \<Rightarrow> [MOVE_TO_MARKER @ d]) @
     concat (map print_chunk cs)"

definition print_patch :: "Hunk list \<Rightarrow> string" where
  "print_patch hs = join nl (BEGIN_PATCH_MARKER # concat (map print_hunk hs) @ [END_PATCH_MARKER])"

text \<open>What the format can carry: no line breaks inside a line and no white space at its end.\<close>

definition line_ok :: "string \<Rightarrow> bool" where
  "line_ok l \<longleftrightarrow> CHR 0x0A \<notin> set l \<and> trim_end l = l"

definition header_ok :: "string \<Rightarrow> string \<Rightarrow> bool" where
  "header_ok marker p \<longleftrightarrow> p \<noteq> [] \<and> trim p = p \<and> line_ok (marker @ p)"

definition chunk_ok :: "UpdateFileChunk \<Rightarrow> bool" where
  "chunk_ok c \<longleftrightarrow>
     list_all (\<lambda>l. line_ok (''-'' @ l)) (ck_old_lines c) \<and> list_all (\<lambda>l. line_ok (''+'' @ l)) (ck_new_lines c) \<and>
     (case ck_change_context c of None \<Rightarrow> True | Some ctx \<Rightarrow> header_ok ''@@ '' ctx)"

fun hunk_ok :: "Hunk \<Rightarrow> bool" where
  "hunk_ok (AddFile p contents) \<longleftrightarrow>
     header_ok ADD_FILE_MARKER p \<and> contents \<noteq> [] \<and> join nl (str_lines contents) @ nl = contents \<and>
     list_all (\<lambda>l. line_ok (''+'' @ l) \<and> \<not> prefix ''+'' l) (str_lines contents)"
| "hunk_ok (DeleteFile p) \<longleftrightarrow> header_ok DELETE_FILE_MARKER p"
| "hunk_ok (UpdateFile p mv cs) \<longleftrightarrow>
     header_ok UPDATE_FILE_MARKER p \<and> cs \<noteq> [] \<and> list_all chunk_ok cs \<and>
     (case mv of None \<Rightarrow> True | Some d \<Rightarrow> header_ok MOVE_TO_MARKER d)"

subsection \<open>Trimming and splitting printed lines\<close>

lemma trim_start_marks [simp]:
  "trim_start (CHR ''*'' # s) = CHR ''*'' # s" "trim_start (CHR ''@'' # s) = CHR ''@'' # s"
  by (simp_all add: trim_start_solid white_space_def)

lemma strip_prefix_marker [simp]: "strip_prefix m (m @ p) = Some p"
  by (simp add: strip_prefix_def)

text \<open>The printed headers are what the parser looks for.\<close>

lemma trim_header:
  "header_ok ADD_FILE_MARKER p \<Longrightarrow> trim (ADD_FILE_MARKER @ p) = ADD_FILE_MARKER @ p"
  "header_ok DELETE_FILE_MARKER p \<Longrightarrow> trim (DELETE_FILE_MARKER @ p) = DELETE_FILE_MARKER @ p"
  "header_ok UPDATE_FILE_MARKER p \<Longrightarrow> trim (UPDATE_FILE_MARKER @ p) = UPDATE_FILE_MARKER @ p"
  "header_ok MOVE_TO_MARKER p \<Longrightarrow> trim (MOVE_TO_MARKER @ p) = MOVE_TO_MARKER @ p"
  "header_ok CHANGE_CONTEXT_MARKER p \<Longrightarrow> trim (CHANGE_CONTEXT_MARKER @ p) = CHANGE_CONTEXT_MARKER @ p"
  by (simp_all add: header_ok_def line_ok_def marker_defs trim_def)

subsection \<open>Chunks\<close>

text \<open>Where a chunk ends: at the end of the lines, at the next chunk, or at the next hunk.\<close>

definition chunk_boundary :: "string list \<Rightarrow> bool" where
  "chunk_boundary rest \<longleftrightarrow>
     rest = [] \<or> prefix ''@@'' (trim_end (hd rest)) \<or> starts_file_hunk (trim_end (hd rest))"

lemma trim_end_eof: "trim_end EOF_MARKER = EOF_MARKER"
proof -
  have "trim_end (''*** End of Fil'' @ [CHR ''e'']) = ''*** End of Fil'' @ [CHR ''e'']"
    by (rule trim_end_solid) (simp add: white_space_def)
  then show ?thesis by (simp add: EOF_MARKER_def)
qed

lemma chunk_loop_end:
  "eof \<or> chunk_boundary rest \<Longrightarrow>
    chunk_loop ((if eof then [EOF_MARKER] else []) @ rest) n old new k =
      Inr (old, new, eof, k + (if eof then 1 else 0))"
proof (cases eof)
  case False
  assume "eof \<or> chunk_boundary rest"
  with False have "chunk_boundary rest" by simp
  moreover have "x \<noteq> EOF_MARKER" if "prefix ''@@'' x \<or> starts_file_hunk x" for x
    using that by (auto simp: starts_file_hunk_def marker_defs)
  ultimately show ?thesis
    using False by (cases rest) (auto simp: chunk_boundary_def Let_def)
qed (simp add: trim_end_eof Let_def)

lemma chunk_loop_new:
  "list_all (\<lambda>l. line_ok (''+'' @ l)) ls \<Longrightarrow>
    chunk_loop (map ((@) ''+'') ls @ rest) n old new k =
      chunk_loop rest (n + length ls) old (new @ ls) (k + length ls)"
proof (induction ls arbitrary: n new k)
  case (Cons l ls)
  then have "trim_end (CHR ''+'' # l) = CHR ''+'' # l" by (simp add: line_ok_def)
  with Cons show ?case
    by (simp add: Let_def marker_defs starts_file_hunk_def strip_prefix_def)
qed simp

lemma chunk_loop_old:
  "list_all (\<lambda>l. line_ok (''-'' @ l)) ls \<Longrightarrow>
    chunk_loop (map ((@) ''-'') ls @ rest) n old new k =
      chunk_loop rest (n + length ls) (old @ ls) new (k + length ls)"
proof (induction ls arbitrary: n old k)
  case (Cons l ls)
  then have "trim_end (CHR ''-'' # l) = CHR ''-'' # l" by (simp add: line_ok_def)
  with Cons show ?case
    by (simp add: Let_def marker_defs starts_file_hunk_def strip_prefix_def)
qed simp

lemma trim_at_at: "trim ''@@'' = ''@@''"
  by code_simp

lemma parse_printed_chunk:
  assumes "chunk_ok c" and "ck_is_end_of_file c \<or> chunk_boundary rest"
  shows "parse_update_chunk (print_chunk c @ rest) n = Inr (c, length (print_chunk c))"
proof -
  let ?h = "case ck_change_context c of None \<Rightarrow> ''@@'' | Some ctx \<Rightarrow> ''@@ '' @ ctx"
  let ?body = "map ((@) ''-'') (ck_old_lines c) @ map ((@) ''+'') (ck_new_lines c) @
     (if ck_is_end_of_file c then [EOF_MARKER] else [])"
  have "chunk_loop (?body @ rest) n [] [] 1 =
      Inr (ck_old_lines c, ck_new_lines c, ck_is_end_of_file c, length (print_chunk c))"
    using assms by (simp add: chunk_ok_def chunk_loop_old chunk_loop_new chunk_loop_end print_chunk_def)
  moreover have "(prefix CHANGE_CONTEXT_MARKER (trim ?h) \<or> trim ?h = EMPTY_CHANGE_CONTEXT_MARKER) \<and>
      (let ctx = trim (or_else (strip_prefix CHANGE_CONTEXT_MARKER (trim ?h)) []) in
        (if ctx = [] then None else Some ctx) = ck_change_context c)"
  proof (cases "ck_change_context c")
    case None
    then show ?thesis by (simp add: trim_at_at marker_defs strip_prefix_def) code_simp
  next
    case (Some ctx)
    with assms(1) have h: "header_ok CHANGE_CONTEXT_MARKER ctx"
      by (simp add: chunk_ok_def CHANGE_CONTEXT_MARKER_def)
    have "trim (''@@ '' @ ctx) = CHANGE_CONTEXT_MARKER @ ctx"
      using trim_header(5) [OF h] by (simp add: CHANGE_CONTEXT_MARKER_def)
    with Some h show ?thesis by (simp add: header_ok_def Let_def)
  qed
  ultimately show ?thesis
    by (simp add: parse_update_chunk_def print_chunk_def Let_def)
qed

subsection \<open>Hunks\<close>

definition hunk_boundary :: "string list \<Rightarrow> bool" where
  "hunk_boundary rest \<longleftrightarrow>
     rest = [] \<or> (starts_file_hunk (trim (hd rest)) \<and> trim_end (hd rest) = trim (hd rest))"

lemma printed_chunk_head:
  assumes "chunk_ok c"
  obtains h ls where "print_chunk c = h # ls" "trim h = h" "trim_end h = h" "prefix ''@@'' h"
proof (cases "ck_change_context c")
  case None
  have "trim_end ''@@'' = ''@@''" by code_simp
  with None that trim_at_at show ?thesis by (simp add: print_chunk_def)
next
  case (Some ctx)
  with assms have h: "header_ok CHANGE_CONTEXT_MARKER ctx" by (simp add: chunk_ok_def CHANGE_CONTEXT_MARKER_def)
  have "trim_end (''@@ '' @ ctx) = ''@@ '' @ ctx" "trim (''@@ '' @ ctx) = ''@@ '' @ ctx"
    using trim_header(5) [OF h] h by (simp_all add: header_ok_def line_ok_def CHANGE_CONTEXT_MARKER_def)
  with Some that show ?thesis by (simp add: print_chunk_def)
qed

lemma not_file_hunk: "prefix ''@@'' l \<Longrightarrow> \<not> starts_file_hunk l"
  by (auto simp: prefix_def starts_file_hunk_def marker_defs)

lemma update_loop_printed:
  assumes "list_all chunk_ok cs" and "cs \<noteq> []" and "hunk_boundary rest"
  shows "update_loop (concat (map print_chunk cs) @ rest) n k acc =
    Inr (acc @ cs, k + length (concat (map print_chunk cs)))"
  using assms(1,2)
proof (induction cs arbitrary: n k acc)
  case (Cons c cs)
  let ?rest = "concat (map print_chunk cs) @ rest"
  obtain h ls where head: "print_chunk c = h # ls" by (simp add: print_chunk_def)
  have edge: "cs \<noteq> [] \<Longrightarrow> \<exists>g gs. ?rest = g # gs \<and> trim g = g \<and> trim_end g = g \<and> prefix ''@@'' g"
    using Cons.prems by (cases cs) (auto elim!: printed_chunk_head)
  then have "chunk_boundary ?rest"
    using assms(3) by (cases "cs = []") (auto simp: chunk_boundary_def hunk_boundary_def)
  then have parsed: "parse_update_chunk (print_chunk c @ ?rest) n = Inr (c, length (print_chunk c))"
    using Cons.prems parse_printed_chunk by simp
  show ?case
  proof (cases "cs = []")
    case True
    with parsed head assms(3) show ?thesis
      by (subst update_loop.simps) (auto simp: hunk_boundary_def)
  next
    case False
    then have "\<not> (?rest = [] \<or> starts_file_hunk (trim (hd ?rest)))"
      using edge not_file_hunk by fastforce
    with parsed head Cons.IH [OF _ False] Cons.prems show ?thesis
      by (subst update_loop.simps) (auto simp: Let_def)
  qed
qed simp

lemma add_loop_printed:
  assumes "list_all (\<lambda>l. line_ok (''+'' @ l) \<and> \<not> prefix ''+'' l) ls" and "hunk_boundary rest"
  shows "add_loop (map ((@) ''+'') ls @ rest) acc k = (acc @ ls, k + length ls)"
  using assms(1)
proof (induction ls arbitrary: acc k)
  case Nil
  have "\<not> prefix ''+'' x" if "starts_file_hunk x" for x
    using that by (auto simp: starts_file_hunk_def marker_defs prefix_def)
  then show ?case
    using assms(2) by (cases rest) (auto simp: Let_def hunk_boundary_def)
next
  case (Cons l ls)
  then have "trim_end (CHR ''+'' # l) = CHR ''+'' # l" "dropWhile (\<lambda>c. c = CHR ''+'') l = l"
    by (cases l; auto simp: line_ok_def)+
  with Cons show ?case by (simp add: Let_def marker_defs)
qed

lemma parse_printed_hunk:
  assumes "hunk_ok h" and "hunk_boundary rest"
  shows "parse_one_hunk (print_hunk h @ rest) n = Inr (h, length (print_hunk h))"
proof (cases h)
  case (AddFile p contents)
  then have ok: "header_ok ADD_FILE_MARKER p" "contents \<noteq> []" "join nl (str_lines contents) @ nl = contents"
      "list_all (\<lambda>l. line_ok (''+'' @ l) \<and> \<not> prefix ''+'' l) (str_lines contents)"
    using assms(1) by simp_all
  then have "str_lines contents \<noteq> []" by (auto simp: str_lines_def Let_def nl_def split: if_splits)
  with AddFile ok show ?thesis
    using add_loop_printed [OF ok(4) assms(2), of "[]" 1] trim_header(1) [OF ok(1)]
    by (simp add: parse_one_hunk_def header_ok_def Let_def)
next
  case (DeleteFile p)
  with assms(1) have ok: "header_ok DELETE_FILE_MARKER p" by simp
  then show ?thesis
    using trim_header(2) [OF ok] DeleteFile
    by (simp add: parse_one_hunk_def header_ok_def) (simp add: strip_prefix_def marker_defs)
next
  case (UpdateFile p mv cs)
  then have ok: "header_ok UPDATE_FILE_MARKER p" "cs \<noteq> []" "list_all chunk_ok cs"
    using assms(1) by simp_all
  let ?tail = "concat (map print_chunk cs) @ rest"
  have loop: "update_loop ?tail m k [] = Inr (cs, k + length (concat (map print_chunk cs)))" for m k
    using update_loop_printed [OF ok(3,2) assms(2), of m k "[]"] by simp
  have first: "strip_prefix ADD_FILE_MARKER (UPDATE_FILE_MARKER @ p) = None"
      "strip_prefix DELETE_FILE_MARKER (UPDATE_FILE_MARKER @ p) = None"
    by (simp_all add: strip_prefix_def marker_defs)
  note header = trim_header(3) [OF ok(1)] first
  show ?thesis
  proof (cases mv)
    case None
    obtain g gs where "?tail = g # gs" "trim g = g" "prefix ''@@'' g"
      using ok(2,3) by (cases cs) (auto elim!: printed_chunk_head)
    then have "(case ?tail of [] \<Rightarrow> None | l # _ \<Rightarrow> strip_prefix MOVE_TO_MARKER (trim l)) = None"
      by (auto simp: strip_prefix_def marker_defs prefix_def)
    with UpdateFile None ok(1) loop [of n 1] header show ?thesis
      by (simp add: parse_one_hunk_def header_ok_def Let_def)
  next
    case (Some d)
    with assms(1) UpdateFile have d: "header_ok MOVE_TO_MARKER d" by simp
    with UpdateFile Some ok(1) loop [of "Suc n" "Suc (Suc 0)"] header trim_header(4) [OF d] show ?thesis
      by (simp add: parse_one_hunk_def header_ok_def Let_def)
  qed
qed

subsection \<open>Patches\<close>

lemma printed_hunk_head:
  assumes "hunk_ok h"
  shows "hunk_boundary (print_hunk h @ rest)" and "print_hunk h \<noteq> []"
proof -
  show "print_hunk h \<noteq> []" by (cases h) simp_all
  show "hunk_boundary (print_hunk h @ rest)"
    using assms trim_header by (cases h) (auto simp: hunk_boundary_def starts_file_hunk_def header_ok_def line_ok_def)
qed

lemma hunk_loop_printed:
  "list_all hunk_ok hs \<Longrightarrow> hunk_loop (concat (map print_hunk hs)) n acc = Inr (acc @ hs)"
proof (induction hs arbitrary: n acc)
  case Nil
  then show ?case by (simp add: hunk_loop.simps)
next
  case (Cons h hs)
  let ?rest = "concat (map print_hunk hs)"
  have "hunk_boundary ?rest"
  proof (cases hs)
    case (Cons g gs)
    with Cons.prems show ?thesis using printed_hunk_head(1) [of g] by simp
  qed (simp add: hunk_boundary_def)
  then have "parse_one_hunk (print_hunk h @ ?rest) n = Inr (h, length (print_hunk h))"
    using Cons.prems parse_printed_hunk by simp
  with Cons printed_hunk_head(2) [of h] show ?case
    by (subst hunk_loop.simps) simp
qed

lemma printed_chunk_lines_ok:
  assumes "chunk_ok c" and "l \<in> set (print_chunk c)"
  shows "CHR 0x0A \<notin> set l \<and> trim_end l = l \<and> l \<noteq> []"
proof -
  have at: "trim_end ''@@'' = ''@@''" by code_simp
  have eof: "CHR 0x0A \<notin> set EOF_MARKER" "EOF_MARKER \<noteq> []" by (simp_all add: EOF_MARKER_def)
  consider "l = (case ck_change_context c of None \<Rightarrow> ''@@'' | Some ctx \<Rightarrow> ''@@ '' @ ctx)"
    | m where "m \<in> set (ck_old_lines c)" "l = ''-'' @ m"
    | m where "m \<in> set (ck_new_lines c)" "l = ''+'' @ m"
    | "l = EOF_MARKER"
    using assms(2) by (auto simp: print_chunk_def split: if_splits)
  then show ?thesis
  proof cases
    case 1
    with assms(1) at show ?thesis
      by (cases "ck_change_context c") (auto simp: chunk_ok_def header_ok_def line_ok_def)
  next
    case 2
    with assms(1) show ?thesis by (auto simp: chunk_ok_def list_all_iff line_ok_def)
  next
    case 3
    with assms(1) show ?thesis by (auto simp: chunk_ok_def list_all_iff line_ok_def)
  next
    case 4
    with eof trim_end_eof show ?thesis by simp
  qed
qed

lemma header_line: "header_ok m p \<Longrightarrow> CHR 0x0A \<notin> set (m @ p) \<and> trim_end (m @ p) = m @ p \<and> m @ p \<noteq> []"
  by (simp add: header_ok_def line_ok_def)

lemma printed_lines_ok:
  assumes "hunk_ok h" and "l \<in> set (print_hunk h)"
  shows "CHR 0x0A \<notin> set l \<and> trim_end l = l \<and> l \<noteq> []"
proof (cases h)
  case (AddFile p contents)
  then consider "l = ADD_FILE_MARKER @ p" | m where "m \<in> set (str_lines contents)" "l = ''+'' @ m"
    using assms(2) by auto
  then show ?thesis
    using assms(1) AddFile header_line [of ADD_FILE_MARKER p]
    by cases (auto simp: list_all_iff line_ok_def)
next
  case (DeleteFile p)
  with assms header_line [of DELETE_FILE_MARKER p] show ?thesis by simp
next
  case (UpdateFile p mv cs)
  then consider "l = UPDATE_FILE_MARKER @ p" | d where "mv = Some d" "l = MOVE_TO_MARKER @ d"
    | c where "c \<in> set cs" "l \<in> set (print_chunk c)"
    using assms(2) by (auto split: option.splits)
  then show ?thesis
  proof cases
    case 3
    with assms(1) UpdateFile printed_chunk_lines_ok [of c l] show ?thesis by (auto simp: list_all_iff)
  qed (use assms(1) UpdateFile header_line in \<open>auto simp del: append_is_Nil_conv set_append\<close>)
qed

lemma trim_markers:
  "trim BEGIN_PATCH_MARKER = BEGIN_PATCH_MARKER" "trim END_PATCH_MARKER = END_PATCH_MARKER"
  by code_simp+

lemma last_join: "ls \<noteq> [] \<Longrightarrow> last ls = x @ [c] \<Longrightarrow> \<exists>y. join sep ls = y @ [c]"
  by (induction sep ls rule: join.induct) auto

lemma trim_printed: "trim (print_patch hs) = print_patch hs"
proof -
  let ?ls = "BEGIN_PATCH_MARKER # concat (map print_hunk hs) @ [END_PATCH_MARKER]"
  obtain y where y: "print_patch hs = y @ [CHR ''h'']"
    unfolding print_patch_def using last_join [of ?ls "''*** End Patc''" "CHR ''h''" nl] by (auto simp: END_PATCH_MARKER_def)
  obtain z where "print_patch hs = CHR ''*'' # z"
    unfolding print_patch_def by (cases "concat (map print_hunk hs) @ [END_PATCH_MARKER]") (auto simp: BEGIN_PATCH_MARKER_def)
  then have "trim_start (print_patch hs) = print_patch hs" by simp
  moreover have "trim_end (print_patch hs) = print_patch hs"
    unfolding y by (rule trim_end_solid) (simp add: white_space_def)
  ultimately show ?thesis by (simp add: trim_def)
qed

text \<open>C9: The parser inverts the patch format: a patch printed from well-formed hunks (paths and
  contexts without outer white space, lines without line breaks and trailing white space, added
  contents whose lines do not start with a plus sign, at least one chunk per update) parses to
  exactly these hunks, in order, with moves, chunk contexts and end-of-file marks.\<close>

theorem parse_printed_patch:
  assumes "list_all hunk_ok hs"
  shows "parse_patch (print_patch hs) =
    Some (Inr \<lparr> ap_patch = print_patch hs, ap_hunks = hs, ap_workdir = None \<rparr>)"
proof -
  let ?ls = "BEGIN_PATCH_MARKER # concat (map print_hunk hs) @ [END_PATCH_MARKER]"
  have inner: "\<forall>l\<in>set (concat (map print_hunk hs)). CHR 0x0A \<notin> set l \<and> last l \<noteq> CHR 0x0D"
    using assms printed_lines_ok trim_end_no_cr by (fastforce simp: list_all_iff)
  have ends: "CHR 0x0A \<notin> set BEGIN_PATCH_MARKER" "last BEGIN_PATCH_MARKER \<noteq> CHR 0x0D"
      "CHR 0x0A \<notin> set END_PATCH_MARKER" "last END_PATCH_MARKER \<noteq> CHR 0x0D" "END_PATCH_MARKER \<noteq> []"
    by (simp_all add: marker_defs)
  have "str_lines (print_patch hs) = ?ls"
    unfolding print_patch_def
    by (rule lines_of_join) (use inner ends in \<open>auto simp: list_all_iff\<close>)
  then have ls: "str_lines (trim (print_patch hs)) = ?ls" by (simp add: trim_printed)
  then have "check_patch_boundaries_strict (str_lines (trim (print_patch hs))) = None"
    by (simp add: check_patch_boundaries_strict_def check_start_and_end_lines_strict_def trim_markers)
  with ls hunk_loop_printed [OF assms, of 2 "[]"] show ?thesis
    by (simp add: parse_patch_def parse_patch_text_def Let_def butlast_append print_patch_def)
qed

definition sample_hunks :: "Hunk list" where
  "sample_hunks =
     [AddFile ''src/a.rs'' (''fn main() {}'' @ nl),
      UpdateFile ''b.rs'' (Some ''c.rs'')
        [\<lparr> ck_change_context = Some ''fn f'', ck_old_lines = [''x''], ck_new_lines = [''y'', ''z''],
           ck_is_end_of_file = False \<rparr>,
         \<lparr> ck_change_context = None, ck_old_lines = [], ck_new_lines = [''w''], ck_is_end_of_file = True \<rparr>],
      DeleteFile ''d.rs'']"

lemma sample_hunks_ok: "list_all hunk_ok sample_hunks"
  by code_simp

theorem parse_printed_patch_witness:
  "parse_patch (print_patch sample_hunks) =
     Some (Inr \<lparr> ap_patch = print_patch sample_hunks, ap_hunks = sample_hunks, ap_workdir = None \<rparr>)"
  by (rule parse_printed_patch [OF sample_hunks_ok])

text \<open>The condition on added lines is needed: all plus signs at the start of an added line are
  removed, not only the first, so the added line \<open>+x\<close>, written \<open>++x\<close>, becomes \<open>x\<close>.\<close>

lemma leading_plus_is_lost:
  "parse_one_hunk [ADD_FILE_MARKER @ ''a'', ''++x''] n = Inr (AddFile ''a'' (''x'' @ nl), 2)"
proof -
  have "trim (ADD_FILE_MARKER @ ''a'') = ADD_FILE_MARKER @ ''a''" "trim ''a'' = ''a''" by code_simp+
  moreover have "add_loop [''++x''] [] 1 = ([''x''], 2)" by code_simp
  ultimately show ?thesis by (simp add: parse_one_hunk_def)
qed

text \<open>The errors for a missing file name are never reached: the header line is trimmed first, so a
  header without a name no longer carries its marker.\<close>

lemma nameless_header:
  "parse_one_hunk [''*** Delete File: ''] n = Inl (InvalidHunkError ''expected Add/Delete/Update hunk'' n)"
proof -
  have "strip_prefix m (trim ''*** Delete File: '') = None"
    if "m \<in> {ADD_FILE_MARKER, DELETE_FILE_MARKER, UPDATE_FILE_MARKER}" for m
    using that by (elim insertE) (simp_all, code_simp+)
  then show ?thesis by (simp add: parse_one_hunk_def)
qed

end
