(* ===== verification/Repair_Control.thy ===== *)
theory Repair_Control
  imports Runtime_Events
begin

text \<open>
  The controller of the repair loop
  (\<^verbatim>\<open>canon-runtime/src/consumers/repair_control_consumer.rs\<close>): the signal it reads off an
  event, the phase machine with its illegal regions, the escape check and the outcome of one
  event. An operation that may panic (a \<^verbatim>\<open>debug_assert!\<close> or an overflowing counter) returns an
  option; \<^const>\<open>None\<close> is the panic. Emitting to the bus is the list of located events; the
  path of the source file and the UUID of an error are arguments.
\<close>

section \<open>Signals, phases and regions\<close>

datatype SemanticSignal =
    MissingTarget | PlannedToAct | NoopSpam | InvariantViolationSignal | InvalidToolSelection |
    ReplanRequired | CompilerClean | StagnantLoop | EscapeDetected | ActStall | ControlDesync

fun signal_as_str :: "SemanticSignal \<Rightarrow> string" where
  "signal_as_str MissingTarget = ''missing_target''"
| "signal_as_str PlannedToAct = ''planned_to_act''"
| "signal_as_str NoopSpam = ''noop_spam''"
| "signal_as_str InvariantViolationSignal = ''invariant_violation''"
| "signal_as_str InvalidToolSelection = ''invalid_tool_selection''"
| "signal_as_str ReplanRequired = ''replan_required''"
| "signal_as_str CompilerClean = ''compiler_clean''"
| "signal_as_str StagnantLoop = ''stagnant_loop''"
| "signal_as_str EscapeDetected = ''escape_detected''"
| "signal_as_str ActStall = ''act_stall''"
| "signal_as_str ControlDesync = ''control_desync''"

datatype RepairPhase = Observing | Classifying | Transitioning | Verifying | Stuck

fun phase_as_str :: "RepairPhase \<Rightarrow> string" where
  "phase_as_str Observing = ''observing''"
| "phase_as_str Classifying = ''classifying''"
| "phase_as_str Transitioning = ''transitioning''"
| "phase_as_str Verifying = ''verifying''"
| "phase_as_str Stuck = ''stuck''"

record IllegalRegion =
  ir_phase :: RepairPhase
  ir_signal :: SemanticSignal
  ir_tick_first :: u64
  ir_entry_count :: u32

record TransitionRecord =
  tr_tick :: u64
  tr_from_phase :: RepairPhase
  tr_signal :: SemanticSignal
  tr_to_phase :: RepairPhase

definition NOOP_SPAM_WINDOW :: nat where "NOOP_SPAM_WINDOW = 4"
definition STAGNANT_TICKS_THRESHOLD :: u32 where "STAGNANT_TICKS_THRESHOLD = 4"
definition ILLEGAL_REGION_THRESHOLD :: u32 where "ILLEGAL_REGION_THRESHOLD = 3"
definition TOOL_REJECT_THRESHOLD :: u32 where "TOOL_REJECT_THRESHOLD = 2"

record RepairControlConsumer =
  rc_emitter :: bool
  rc_phase :: RepairPhase
  rc_tick :: u64
  rc_recent_acted_kinds :: "string list"
  rc_pending_plan_action_kind :: "string option"
  rc_consecutive_tool_rejections :: u32
  rc_illegal_regions :: "IllegalRegion list"
  rc_transition_history :: "TransitionRecord list"

definition new_repair_control :: RepairControlConsumer where
  "new_repair_control =
     \<lparr> rc_emitter = False, rc_phase = Observing, rc_tick = 0, rc_recent_acted_kinds = [],
       rc_pending_plan_action_kind = None, rc_consecutive_tool_rejections = 0,
       rc_illegal_regions = [], rc_transition_history = [] \<rparr>"

section \<open>Signal extraction\<close>

definition tool_rejection ::
  "bool \<Rightarrow> RepairControlConsumer \<Rightarrow> (SemanticSignal option \<times> RepairControlConsumer) option" where
  "tool_rejection rejected c =
     (if rejected then
        (case checked_add (rc_consecutive_tool_rejections c) 1 of
           None \<Rightarrow> None
         | Some n \<Rightarrow>
             Some (if TOOL_REJECT_THRESHOLD \<le> n then Some InvalidToolSelection else None,
                   c\<lparr>rc_consecutive_tool_rejections := n\<rparr>))
      else Some (None, c\<lparr>rc_consecutive_tool_rejections := 0\<rparr>))"

definition acted_signal :: "LoopActed \<Rightarrow> RepairControlConsumer \<Rightarrow> SemanticSignal option \<times> RepairControlConsumer" where
  "acted_signal e c =
     (let pushed = rc_recent_acted_kinds c @ [la_action_kind e];
          recent = (if NOOP_SPAM_WINDOW < length pushed then tl pushed else pushed);
          all_same = (NOOP_SPAM_WINDOW \<le> length recent \<and> list_all (\<lambda>k. k = la_action_kind e) recent);
          matched = (rc_pending_plan_action_kind c = Some (la_action_kind e));
          c1 = c\<lparr>rc_tick := la_tick e, rc_recent_acted_kinds := recent, rc_pending_plan_action_kind := None\<rparr>
      in (if all_same then Some NoopSpam else if matched then Some PlannedToAct else None, c1))"

definition error_signal :: "ErrorOccurred \<Rightarrow> SemanticSignal option" where
  "error_signal e =
     (let src = err_source e; kind = err_kind e; msg = to_ascii_lowercase (err_message e)
      in if kind = ''act_stall'' \<or> str_contains msg ''scheduler is empty'' then Some ActStall
         else if kind = ''control_desync'' \<or> str_contains msg ''missing required successor'' \<or>
                 str_contains msg ''expected=loop_acted; got=planning_completed'' then Some ControlDesync
         else if str_contains src ''invariant'' \<or> str_contains src ''constraint'' then Some InvariantViolationSignal
         else if str_contains src ''missing_target'' \<or> str_contains src ''no_target'' then Some MissingTarget
         else if str_contains src ''replan'' \<or> str_contains src ''route_rewrite'' then Some ReplanRequired
         else None)"

fun extract_signal ::
  "RuntimeEvent \<Rightarrow> RepairControlConsumer \<Rightarrow> (SemanticSignal option \<times> RepairControlConsumer) option" where
  "extract_signal (EvLoopObserved e) c =
     (let s = lo_semantic_summary e
      in Some (if \<not> ss_path_exists s \<or> ss_entrypoint_kind s = None \<or> ss_module_gaps s \<noteq> []
               then Some MissingTarget else None, c\<lparr>rc_tick := lo_tick e\<rparr>))"
| "extract_signal (EvLoopPlanned e) c =
     Some (None, c\<lparr>rc_tick := lp_tick e, rc_pending_plan_action_kind := Some (lp_action_kind e)\<rparr>)"
| "extract_signal (EvLoopActed e) c = Some (acted_signal e c)"
| "extract_signal (EvLoopVerified e) c =
     Some (if lv_compiler_clean e \<and> lv_passed e then Some CompilerClean
           else if \<not> lv_passed e then Some ReplanRequired else None, c\<lparr>rc_tick := lv_tick e\<rparr>)"
| "extract_signal (EvLoopRewarded e) c =
     Some (if lr_halt e then Some ReplanRequired
           else if STAGNANT_TICKS_THRESHOLD \<le> lr_stagnant_ticks e \<and> f32_le (lr_delta_g e) f32_0
           then Some StagnantLoop else None, c\<lparr>rc_tick := lr_tick e\<rparr>)"
| "extract_signal (EvRouteSelected e) c =
     Some (if rsel_gate_changed e \<or> rsel_gate_should_stop e then Some ReplanRequired else None, c)"
| "extract_signal (EvToolCall e) c = tool_rejection (\<not> tc_accepted e) c"
| "extract_signal (EvToolResult e) c = tool_rejection (\<not> tr_success e) c"
| "extract_signal (EvErrorOccurred e) c = Some (error_signal e, c)"
| "extract_signal _ c = Some (None, c)"

section \<open>Phase machine\<close>

definition in_region :: "RepairPhase \<Rightarrow> SemanticSignal \<Rightarrow> IllegalRegion \<Rightarrow> bool" where
  "in_region p s r \<longleftrightarrow> ir_phase r = p \<and> ir_signal r = s"

definition is_illegal_region :: "RepairPhase \<Rightarrow> SemanticSignal \<Rightarrow> RepairControlConsumer \<Rightarrow> bool" where
  "is_illegal_region p s c \<longleftrightarrow>
     (\<exists>r \<in> set (rc_illegal_regions c). in_region p s r \<and> ILLEGAL_REGION_THRESHOLD \<le> ir_entry_count r)"

text \<open>The counter of the first region that matches is increased, or a region is appended.\<close>

fun enter_region :: "RepairPhase \<Rightarrow> SemanticSignal \<Rightarrow> u64 \<Rightarrow> IllegalRegion list \<Rightarrow> IllegalRegion list option" where
  "enter_region p s t [] = Some [\<lparr> ir_phase = p, ir_signal = s, ir_tick_first = t, ir_entry_count = 1 \<rparr>]"
| "enter_region p s t (r # rs) =
     (if in_region p s r
      then map_option (\<lambda>n. r\<lparr>ir_entry_count := n\<rparr> # rs) (checked_add (ir_entry_count r) 1)
      else map_option ((#) r) (enter_region p s t rs))"

definition record_entry_into_region ::
  "RepairPhase \<Rightarrow> SemanticSignal \<Rightarrow> RepairControlConsumer \<Rightarrow> RepairControlConsumer option" where
  "record_entry_into_region p s c =
     map_option (\<lambda>rs. c\<lparr>rc_illegal_regions := rs\<rparr>) (enter_region p s (rc_tick c) (rc_illegal_regions c))"

definition record_transition ::
  "SemanticSignal \<Rightarrow> RepairPhase \<Rightarrow> RepairControlConsumer \<Rightarrow> RepairControlConsumer option" where
  "record_transition s to c =
     (if phase_as_str (rc_phase c) = ''act'' \<and> to = Classifying then None
      else
        (let pushed = rc_transition_history c @
               [\<lparr> tr_tick = rc_tick c, tr_from_phase = rc_phase c, tr_signal = s, tr_to_phase = to \<rparr>]
         in Some (c\<lparr>rc_transition_history := (if 256 < length pushed then tl pushed else pushed)\<rparr>)))"

text \<open>The transition table; \<^const>\<open>None\<close> is \<^verbatim>\<open>return None\<close>.\<close>

fun next_phase :: "RepairPhase \<Rightarrow> SemanticSignal \<Rightarrow> (RepairPhase \<times> string) option" where
  "next_phase Observing MissingTarget = Some (Classifying, ''missing_target_enter_classifying'')"
| "next_phase Observing InvariantViolationSignal = Some (Classifying, ''invariant_violation_enter_classifying'')"
| "next_phase Observing ActStall = Some (Classifying, ''act_stall_enter_classifying'')"
| "next_phase Observing ControlDesync = Some (Classifying, ''control_desync_enter_classifying'')"
| "next_phase Observing StagnantLoop = Some (Classifying, ''stagnant_loop_enter_classifying'')"
| "next_phase Observing CompilerClean = Some (Observing, ''compiler_clean_stay_observing'')"
| "next_phase Classifying PlannedToAct = Some (Transitioning, ''plan_accepted_begin_transition'')"
| "next_phase Classifying NoopSpam = Some (Stuck, ''noop_spam_enter_stuck'')"
| "next_phase Classifying InvalidToolSelection = Some (Classifying, ''invalid_tool_replan'')"
| "next_phase Classifying ReplanRequired = Some (Classifying, ''replan_stay_classifying'')"
| "next_phase Classifying ActStall = Some (Classifying, ''act_stall_force_replan'')"
| "next_phase Classifying ControlDesync = Some (Classifying, ''control_desync_force_replan'')"
| "next_phase Classifying CompilerClean = Some (Observing, ''compiler_clean_recovered'')"
| "next_phase Classifying InvariantViolationSignal = Some (Classifying, ''invariant_violation_classifying'')"
| "next_phase Transitioning InvariantViolationSignal = Some (Classifying, ''invariant_violation_rejects_transition'')"
| "next_phase Transitioning PlannedToAct = Some (Verifying, ''transition_acted_now_verifying'')"
| "next_phase Transitioning EscapeDetected = Some (Stuck, ''escape_detected_in_transition'')"
| "next_phase Transitioning ActStall = Some (Classifying, ''act_stall_recover_to_classifying'')"
| "next_phase Transitioning ControlDesync = Some (Classifying, ''control_desync_recover_to_classifying'')"
| "next_phase Transitioning CompilerClean = Some (Observing, ''compiler_clean_in_transition'')"
| "next_phase Transitioning ReplanRequired = Some (Classifying, ''replan_during_transition'')"
| "next_phase Transitioning NoopSpam = Some (Stuck, ''noop_spam_in_transition'')"
| "next_phase Verifying CompilerClean = Some (Observing, ''verify_passed_success'')"
| "next_phase Verifying ReplanRequired = Some (Classifying, ''verify_failed_retry'')"
| "next_phase Verifying InvariantViolationSignal = Some (Classifying, ''invariant_violation_in_verifying'')"
| "next_phase Verifying ActStall = Some (Classifying, ''act_stall_from_verifying'')"
| "next_phase Verifying ControlDesync = Some (Classifying, ''control_desync_from_verifying'')"
| "next_phase Stuck EscapeDetected = Some (Stuck, ''escape_blocked_still_stuck'')"
| "next_phase Stuck ReplanRequired = Some (Classifying, ''stuck_fresh_replan'')"
| "next_phase Stuck CompilerClean = Some (Observing, ''stuck_then_clean_recovered'')"
| "next_phase Stuck ActStall = Some (Stuck, ''act_stall_stuck'')"
| "next_phase Stuck ControlDesync = Some (Stuck, ''control_desync_stuck'')"
| "next_phase _ _ = None"

definition move_to ::
  "SemanticSignal \<Rightarrow> RepairPhase \<Rightarrow> string \<Rightarrow> RepairControlConsumer \<Rightarrow> ((string \<times> string) option \<times> RepairControlConsumer) option" where
  "move_to s to note c =
     map_option (\<lambda>c1. (Some (note, phase_as_str to), c1\<lparr>rc_phase := to\<rparr>)) (record_transition s to c)"

definition advance ::
  "SemanticSignal \<Rightarrow> RepairControlConsumer \<Rightarrow> ((string \<times> string) option \<times> RepairControlConsumer) option" where
  "advance s c =
     Option.bind (record_entry_into_region (rc_phase c) s c) (\<lambda>c1.
       if is_illegal_region (rc_phase c1) s c1 \<and> rc_phase c1 \<noteq> Stuck
       then move_to s Stuck ''illegal_region_escalation'' c1
       else if rc_phase c1 \<in> {Transitioning, Verifying} \<and> s = ActStall then None
       else (case next_phase (rc_phase c1) s of
               None \<Rightarrow> Some (None, c1)
             | Some (next, note) \<Rightarrow>
                 if next \<noteq> rc_phase c1 then move_to s next note c1
                 else Some (Some (note, phase_as_str next), c1)))"

section \<open>Outcome of one event\<close>

fun check_escape :: "RuntimeEvent \<Rightarrow> RepairControlConsumer \<Rightarrow> bool" where
  "check_escape (EvLoopPlanned _) c = (rc_phase c = Stuck)"
| "check_escape (EvLoopActed _) c = (rc_phase c = Stuck)"
| "check_escape _ c = False"

record RepairEnv =
  rv_file :: string
  rv_uuid :: string

definition count_value :: "nat \<Rightarrow> json" where
  "count_value n = JNumber (PosInt (of_nat n))"

definition emit_transition_debug ::
  "RepairEnv \<Rightarrow> EventId \<Rightarrow> SemanticSignal \<Rightarrow> string \<Rightarrow> string \<Rightarrow> RepairControlConsumer \<Rightarrow> EventOutcome \<times> LocatedEvent list" where
  "emit_transition_debug env trigger s note to_phase c =
     (if \<not> rc_emitter c then (NoOp ''repair_control_no_emitter'', [])
      else
        (NoOp ''repair_control_debug_emitted'',
         [\<lparr> le_event = EvDebug
              \<lparr> dbg_source = ''repair_control_consumer'', dbg_kind = ''repair_transition'',
                dbg_payload = JObject
                  [(''signal'', JString (signal_as_str s)), (''to_phase'', JString to_phase),
                   (''note'', JString note), (''tick'', JNumber (PosInt (rc_tick c))),
                   (''illegal_regions'', count_value (length (rc_illegal_regions c)))] \<rparr>,
            le_file = rv_file env, le_line = 460, le_parent_ids = [trigger] \<rparr>]))"

definition emit_violation :: "RepairEnv \<Rightarrow> SemanticSignal \<Rightarrow> string \<Rightarrow> RepairControlConsumer \<Rightarrow> EventOutcome" where
  "emit_violation env s note c =
     outcome_error
       (EvErrorOccurred
         (new_error_occurred (rv_uuid env) ''repair_control_consumer'' ''repair_control_consumer'' note
           ''warning''
           (JObject
             [(''signal'', JString (signal_as_str s)), (''phase'', JString (phase_as_str (rc_phase c))),
              (''tick'', JNumber (PosInt (rc_tick c))),
              (''illegal_regions'', count_value (length (rc_illegal_regions c))),
              (''transition_count'', count_value (length (rc_transition_history c)))]) None))
       (rv_file env) 482"

definition repair_set_emitter :: "RepairControlConsumer \<Rightarrow> RepairControlConsumer" where
  "repair_set_emitter c = c\<lparr>rc_emitter := True\<rparr>"

definition repair_on_event ::
  "RepairEnv \<Rightarrow> RuntimeEvent \<Rightarrow> EventId \<Rightarrow> RepairControlConsumer
     \<Rightarrow> ((EventOutcome \<times> LocatedEvent list) \<times> RepairControlConsumer) option" where
  "repair_on_event env event trigger c =
     (if check_escape event c then
        map_option (\<lambda>(_, c1). ((emit_violation env EscapeDetected ''repair_escape_detected_while_stuck'' c1, []), c1))
          (advance EscapeDetected c)
      else
        (case extract_signal event c of
           None \<Rightarrow> None
         | Some (None, c1) \<Rightarrow> Some ((NoOp ''repair_control_no_signal'', []), c1)
         | Some (Some s, c1) \<Rightarrow>
             (case advance s c1 of
                None \<Rightarrow> None
              | Some (None, c2) \<Rightarrow> Some ((NoOp ''repair_control_no_transition'', []), c2)
              | Some (Some (note, to_phase), c2) \<Rightarrow>
                  Some
                    (if s = NoopSpam \<and> rc_phase c2 = Stuck
                     then (emit_violation env s ''repair_noop_spam_stuck'' c2, [])
                     else if s = InvariantViolationSignal \<and> rc_phase c2 = Stuck
                     then (emit_violation env s ''repair_invariant_violation_stuck'' c2, [])
                     else emit_transition_debug env trigger s note to_phase c2, c2))))"

end
