(* ===== verification/Repair_Properties.thy ===== *)
theory Repair_Properties
  imports Repair_Control
begin

text \<open>
  Properties of the repair controller: the counters of its regions, the effect of a signal on
  counters, phase and history, the history as a path of the phase machine, the bound on repair
  attempts, and what leaves the phase \<open>Stuck\<close>.
\<close>

section \<open>Region counters\<close>

definition region_count :: "RepairPhase \<Rightarrow> SemanticSignal \<Rightarrow> IllegalRegion list \<Rightarrow> nat" where
  "region_count p s rs = (case find (in_region p s) rs of None \<Rightarrow> 0 | Some r \<Rightarrow> unat (ir_entry_count r))"

definition region_keys :: "IllegalRegion list \<Rightarrow> (RepairPhase \<times> SemanticSignal) list" where
  "region_keys rs = map (\<lambda>r. (ir_phase r, ir_signal r)) rs"

lemma region_count_simps [simp]:
  "region_count p s [] = 0"
  "region_count p s (r # rs) = (if in_region p s r then unat (ir_entry_count r) else region_count p s rs)"
  by (simp_all add: region_count_def)

lemma unat_checked_add_one: "checked_add n 1 = Some m \<Longrightarrow> unat m = Suc (unat n)"
  by (auto simp: checked_add_def unat_word_ariths split: if_splits)

lemma enter_region_count:
  assumes "enter_region p s t rs = Some rs'"
  shows "region_count p' s' rs' = (if p' = p \<and> s' = s then Suc (region_count p s rs) else region_count p' s' rs)"
  using assms
proof (induction rs arbitrary: rs')
  case (Cons r rs)
  show ?case
  proof (cases "in_region p s r")
    case True
    with Cons.prems obtain m where "checked_add (ir_entry_count r) 1 = Some m" "rs' = r\<lparr>ir_entry_count := m\<rparr> # rs"
      by auto
    with True show ?thesis by (auto simp: in_region_def dest: unat_checked_add_one)
  next
    case False
    with Cons.prems obtain rs1 where "enter_region p s t rs = Some rs1" "rs' = r # rs1" by auto
    with False Cons.IH [of rs1] show ?thesis by (auto simp: in_region_def)
  qed
qed (auto simp: in_region_def)

lemma enter_region_keys:
  assumes "enter_region p s t rs = Some rs'"
  shows "region_keys rs' = (if (p, s) \<in> set (region_keys rs) then region_keys rs else region_keys rs @ [(p, s)])"
  using assms by (induction rs arbitrary: rs') (auto simp: region_keys_def in_region_def split: if_splits)

lemma illegal_iff_count:
  assumes "distinct (region_keys (rc_illegal_regions c))"
  shows "is_illegal_region p s c \<longleftrightarrow> 3 \<le> region_count p s (rc_illegal_regions c)"
proof -
  have three: "ILLEGAL_REGION_THRESHOLD \<le> n \<longleftrightarrow> 3 \<le> unat n" for n
    by (simp add: ILLEGAL_REGION_THRESHOLD_def word_le_nat_alt)
  have "(\<exists>r \<in> set rs. in_region p s r \<and> 3 \<le> unat (ir_entry_count r)) \<longleftrightarrow> 3 \<le> region_count p s rs"
    if "distinct (region_keys rs)" for rs
    using that by (induction rs) (auto simp: region_keys_def in_region_def)
  with assms three show ?thesis by (simp add: is_illegal_region_def)
qed

section \<open>One step\<close>

lemma record_transition_total: "record_transition s to c \<noteq> None"
  by (cases "rc_phase c") (simp_all add: record_transition_def Let_def)

lemma record_transition_keeps:
  "record_transition s to c = Some c' \<Longrightarrow>
     rc_illegal_regions c' = rc_illegal_regions c \<and> rc_phase c' = rc_phase c \<and>
     rc_recent_acted_kinds c' = rc_recent_acted_kinds c"
  by (auto simp: record_transition_def Let_def split: if_splits)

text \<open>What a signal does to the counters and the phase.\<close>

lemma advance_effect:
  assumes "advance s c = Some (res, c')" and "distinct (region_keys (rc_illegal_regions c))"
  shows "enter_region (rc_phase c) s (rc_tick c) (rc_illegal_regions c) = Some (rc_illegal_regions c')"
    and "rc_phase c \<noteq> Stuck \<and> 2 \<le> region_count (rc_phase c) s (rc_illegal_regions c) \<Longrightarrow> rc_phase c' = Stuck"
    and "rc_phase c' \<noteq> rc_phase c \<Longrightarrow> rc_phase c' = Stuck \<or> (\<exists>note. next_phase (rc_phase c) s = Some (rc_phase c', note))"
    and "rc_recent_acted_kinds c' = rc_recent_acted_kinds c"
proof -
  from assms(1) obtain rs where enter: "enter_region (rc_phase c) s (rc_tick c) (rc_illegal_regions c) = Some rs"
    by (auto simp: advance_def record_entry_into_region_def bind_eq_Some_conv)
  let ?c1 = "c\<lparr>rc_illegal_regions := rs\<rparr>"
  have "distinct (region_keys (rc_illegal_regions ?c1))"
    using enter_region_keys [OF enter] assms(2) by (simp split: if_splits)
  from illegal_iff_count [OF this, of "rc_phase c" s]
  have illegal: "is_illegal_region (rc_phase c) s ?c1 \<longleftrightarrow> 2 \<le> region_count (rc_phase c) s (rc_illegal_regions c)"
    using enter_region_count [OF enter, of "rc_phase c" s] by simp
  show "enter_region (rc_phase c) s (rc_tick c) (rc_illegal_regions c) = Some (rc_illegal_regions c')"
    "rc_phase c \<noteq> Stuck \<and> 2 \<le> region_count (rc_phase c) s (rc_illegal_regions c) \<Longrightarrow> rc_phase c' = Stuck"
    "rc_phase c' \<noteq> rc_phase c \<Longrightarrow> rc_phase c' = Stuck \<or> (\<exists>note. next_phase (rc_phase c) s = Some (rc_phase c', note))"
    "rc_recent_acted_kinds c' = rc_recent_acted_kinds c"
    using assms(1) enter illegal
    by (auto simp: advance_def record_entry_into_region_def move_to_def dest!: record_transition_keeps
        split: if_splits option.splits)
qed

definition same_control :: "RepairControlConsumer \<Rightarrow> RepairControlConsumer \<Rightarrow> bool" where
  "same_control c c' \<longleftrightarrow>
     rc_phase c' = rc_phase c \<and> rc_illegal_regions c' = rc_illegal_regions c \<and>
     rc_transition_history c' = rc_transition_history c \<and>
     (length (rc_recent_acted_kinds c) \<le> 4 \<longrightarrow> length (rc_recent_acted_kinds c') \<le> 4)"

lemma same_control_updates [simp]:
  "same_control c c" "same_control c (c\<lparr>rc_tick := t\<rparr>)"
  "same_control c (c\<lparr>rc_tick := t, rc_pending_plan_action_kind := k\<rparr>)"
  by (simp_all add: same_control_def)

lemma tool_rejection_same: "tool_rejection b c = Some (sg, c') \<Longrightarrow> same_control c c'"
  by (auto simp: tool_rejection_def same_control_def split: if_splits option.splits)

lemma acted_signal_same: "acted_signal e c = (sg, c') \<Longrightarrow> same_control c c'"
  by (auto simp: acted_signal_def same_control_def Let_def NOOP_SPAM_WINDOW_def)

lemma extract_signal_same: "extract_signal e c = Some (sg, c') \<Longrightarrow> same_control c c'"
  apply (cases e)
  apply (simp_all only: extract_signal.simps)
  apply (simp_all only: option.inject prod.inject Let_def)
  apply (auto dest: tool_rejection_same acted_signal_same)
  done

lemma extract_signal_keeps:
  assumes "extract_signal e c = Some (sg, c')"
  shows "rc_phase c' = rc_phase c" "rc_illegal_regions c' = rc_illegal_regions c"
    "rc_transition_history c' = rc_transition_history c"
    "length (rc_recent_acted_kinds c) \<le> 4 \<Longrightarrow> length (rc_recent_acted_kinds c') \<le> 4"
  using extract_signal_same [OF assms] unfolding same_control_def by (iprover)+

text \<open>The history after a signal: unchanged, or extended by the move that was made.\<close>

definition legal_move :: "TransitionRecord \<Rightarrow> bool" where
  "legal_move r \<longleftrightarrow> tr_to_phase r \<noteq> tr_from_phase r \<and>
     (tr_to_phase r = Stuck \<or> (\<exists>note. next_phase (tr_from_phase r) (tr_signal r) = Some (tr_to_phase r, note)))"

lemma advance_history:
  assumes "advance s c = Some (res, c')"
  shows "rc_phase c' = rc_phase c \<and> rc_transition_history c' = rc_transition_history c \<or>
    (\<exists>r. legal_move r \<and> tr_from_phase r = rc_phase c \<and> tr_to_phase r = rc_phase c' \<and>
       (let h = rc_transition_history c @ [r] in rc_transition_history c' = (if 256 < length h then tl h else h)))"
proof -
  from assms obtain c1 where entered: "record_entry_into_region (rc_phase c) s c = Some c1"
    by (auto simp: advance_def bind_eq_Some_conv)
  then have c1: "rc_phase c1 = rc_phase c" "rc_transition_history c1 = rc_transition_history c" "rc_tick c1 = rc_tick c"
    by (auto simp: record_entry_into_region_def)
  have moved: ?thesis if "move_to s to msg c1 = Some (res, c')" "to \<noteq> rc_phase c"
    "to = Stuck \<or> (\<exists>note. next_phase (rc_phase c) s = Some (to, note))" for to msg
  proof -
    let ?r = "\<lparr> tr_tick = rc_tick c, tr_from_phase = rc_phase c, tr_signal = s, tr_to_phase = to \<rparr>"
    have "legal_move ?r" using that(2,3) by (simp add: legal_move_def)
    moreover have "rc_phase c' = to \<and>
      (let h = rc_transition_history c @ [?r] in rc_transition_history c' = (if 256 < length h then tl h else h))"
      using that(1) c1 by (auto simp: move_to_def record_transition_def Let_def split: if_splits)
    ultimately show ?thesis by (intro disjI2 exI [of _ ?r]) simp
  qed
  show ?thesis
  proof (cases "is_illegal_region (rc_phase c1) s c1 \<and> rc_phase c1 \<noteq> Stuck")
    case True
    with assms entered have "move_to s Stuck ''illegal_region_escalation'' c1 = Some (res, c')"
      by (simp add: advance_def)
    moreover from True c1(1) have "Stuck \<noteq> rc_phase c" by metis
    ultimately show ?thesis using moved by blast
  next
    case False
    show ?thesis
    proof (cases "next_phase (rc_phase c) s")
      case None
      with False assms entered c1 show ?thesis by (auto simp: advance_def split: if_splits)
    next
      case (Some x)
      then obtain to msg where nxt: "next_phase (rc_phase c) s = Some (to, msg)" by (cases x) auto
      show ?thesis
      proof (cases "to = rc_phase c")
        case True
        with nxt False assms entered c1 show ?thesis by (auto simp: advance_def split: if_splits)
      next
        case neq: False
        with nxt False assms entered c1 have "move_to s to msg c1 = Some (res, c')"
          by (auto simp: advance_def split: if_splits)
        with neq nxt moved show ?thesis by blast
      qed
    qed
  qed
qed

section \<open>Runs\<close>

abbreviation repair_run ::
  "RepairEnv \<Rightarrow> (RuntimeEvent \<times> EventId) list \<Rightarrow> RepairControlConsumer \<Rightarrow> RepairControlConsumer option" where
  "repair_run env \<equiv> consumer_run (repair_on_event env)"

text \<open>An event is a signal processed in the phase it meets, or leaves phase and counters alone.\<close>

lemma on_event_cases:
  assumes "repair_on_event env e t c = Some (out, c')"
  obtains (quiet) "rc_phase c' = rc_phase c" "rc_illegal_regions c' = rc_illegal_regions c"
      "rc_transition_history c' = rc_transition_history c"
      "\<exists>c1. extract_signal e c = Some (None, c1) \<and> c' = c1" "\<not> check_escape e c"
    | (signal) s c1 res where "advance s c1 = Some (res, c')" "rc_phase c1 = rc_phase c"
      "rc_illegal_regions c1 = rc_illegal_regions c" "rc_transition_history c1 = rc_transition_history c"
      "check_escape e c \<and> s = EscapeDetected \<and> c1 = c \<or> \<not> check_escape e c \<and> extract_signal e c = Some (Some s, c1)"
proof (cases "check_escape e c")
  case True
  with assms obtain res where "advance EscapeDetected c = Some (res, c')"
    by (auto simp: repair_on_event_def)
  with True signal show thesis by blast
next
  case False
  with assms obtain sg c1 where ex: "extract_signal e c = Some (sg, c1)"
    by (auto simp: repair_on_event_def split: option.splits)
  note keeps = extract_signal_keeps [OF ex]
  show thesis
  proof (cases sg)
    case None
    with False assms ex have "c' = c1" by (simp add: repair_on_event_def)
    with keeps ex None False show thesis by (intro quiet) auto
  next
    case (Some s)
    with False assms ex obtain res where "advance s c1 = Some (res, c')"
      by (auto simp: repair_on_event_def split: option.splits prod.splits)
    with keeps ex False Some show thesis by (intro signal) auto
  qed
qed

definition control_ok :: "RepairControlConsumer \<Rightarrow> bool" where
  "control_ok c \<longleftrightarrow>
     distinct (region_keys (rc_illegal_regions c)) \<and> length (rc_recent_acted_kinds c) \<le> 4 \<and>
     length (rc_transition_history c) \<le> 256 \<and> list_all legal_move (rc_transition_history c) \<and>
     successively (\<lambda>a b. tr_to_phase a = tr_from_phase b) (rc_transition_history c) \<and>
     (if rc_transition_history c = [] then rc_phase c = Observing
      else tr_to_phase (last (rc_transition_history c)) = rc_phase c)"

lemma push_history_ok:
  assumes "length h \<le> 256" "list_all legal_move h" "successively (\<lambda>a b. tr_to_phase a = tr_from_phase b) h"
    and "legal_move r" "h \<noteq> [] \<Longrightarrow> tr_to_phase (last h) = tr_from_phase r"
  defines "h' \<equiv> (if 256 < length (h @ [r]) then tl (h @ [r]) else h @ [r])"
  shows "length h' \<le> 256" "list_all legal_move h'" "successively (\<lambda>a b. tr_to_phase a = tr_from_phase b) h'"
    "h' \<noteq> []" "last h' = r"
proof -
  have path: "successively (\<lambda>a b. tr_to_phase a = tr_from_phase b) (h @ [r])"
    using assms(3,5) by (auto simp: successively_append_iff)
  then have tl: "successively (\<lambda>a b. tr_to_phase a = tr_from_phase b) (tl (h @ [r]))"
    by (cases "h @ [r]" rule: remdups_adj.cases) auto
  show "length h' \<le> 256" "list_all legal_move h'" "successively (\<lambda>a b. tr_to_phase a = tr_from_phase b) h'"
    "h' \<noteq> []" "last h' = r"
    using assms path tl by (cases h; auto simp: h'_def)+
qed

lemma control_ok_step:
  assumes "control_ok c" and "repair_on_event env e t c = Some (out, c')"
  shows "control_ok c'"
  using assms(2)
proof (cases rule: on_event_cases)
  case quiet
  then obtain c1 where "extract_signal e c = Some (None, c1)" "c' = c1" by blast
  with quiet extract_signal_keeps(4) [of e c None c1] assms(1) show ?thesis by (simp add: control_ok_def)
next
  case (signal s c1 res)
  have ok: "distinct (region_keys (rc_illegal_regions c1))" "length (rc_recent_acted_kinds c1) \<le> 4"
    using assms(1) signal extract_signal_keeps(4) [of e c "Some s" c1] by (auto simp: control_ok_def)
  note eff = advance_effect [OF signal(1) ok(1)]
  have keys: "distinct (region_keys (rc_illegal_regions c'))"
    using enter_region_keys [OF eff(1)] ok(1) by (simp split: if_splits)
  from advance_history [OF signal(1)] show ?thesis
  proof
    assume "rc_phase c' = rc_phase c1 \<and> rc_transition_history c' = rc_transition_history c1"
    with keys eff(4) ok(2) signal assms(1) show ?thesis by (simp add: control_ok_def)
  next
    assume "\<exists>r. legal_move r \<and> tr_from_phase r = rc_phase c1 \<and> tr_to_phase r = rc_phase c' \<and>
       (let h = rc_transition_history c1 @ [r] in rc_transition_history c' = (if 256 < length h then tl h else h))"
    then obtain r where r: "legal_move r" "tr_from_phase r = rc_phase c1" "tr_to_phase r = rc_phase c'"
      and h: "rc_transition_history c' =
        (if 256 < length (rc_transition_history c1 @ [r]) then tl (rc_transition_history c1 @ [r])
         else rc_transition_history c1 @ [r])" by (auto simp: Let_def)
    have hist: "length (rc_transition_history c1) \<le> 256" "list_all legal_move (rc_transition_history c1)"
      "successively (\<lambda>a b. tr_to_phase a = tr_from_phase b) (rc_transition_history c1)"
      "rc_transition_history c1 \<noteq> [] \<Longrightarrow> tr_to_phase (last (rc_transition_history c1)) = tr_from_phase r"
      using assms(1) signal r(2) by (auto simp: control_ok_def)
    from push_history_ok [OF hist(1-3) r(1) hist(4)] h r(3) keys eff(4) ok(2) show ?thesis
      by (simp add: control_ok_def)
  qed
qed


interpretation repair: event_consumer "repair_on_event env" control_ok for env
  by unfold_locales (use control_ok_step in auto)

lemma control_ok_new: "control_ok new_repair_control"
  by (simp add: control_ok_def new_repair_control_def region_keys_def)

text \<open>C11: The recorded history is a path of the phase machine: in every state the controller reaches
  from its start, the history has at most 256 moves, each from one phase to another and either
  given by the transition table or an escalation to \<open>Stuck\<close>; each move starts where the one
  before ended, and the last one ends in the current phase. The action window holds at most four
  kinds and no region is counted twice.\<close>

theorem repair_history_is_a_path:
  assumes "repair_run env es new_repair_control = Some c"
  shows "control_ok c"
  using repair.run_ok [OF control_ok_new assms] .

section \<open>Repair attempts are bounded\<close>

definition all_signals :: "SemanticSignal list" where
  "all_signals =
     [MissingTarget, PlannedToAct, NoopSpam, InvariantViolationSignal, InvalidToolSelection,
      ReplanRequired, CompilerClean, StagnantLoop, EscapeDetected, ActStall, ControlDesync]"

definition active_phases :: "RepairPhase list" where
  "active_phases = [Observing, Classifying, Transitioning, Verifying]"

text \<open>How often a region was entered before it escalates: twice at most.\<close>

definition attempts :: "RepairControlConsumer \<Rightarrow> nat" where
  "attempts c = (\<Sum>(p, s)\<in>set active_phases \<times> set all_signals. min 2 (region_count p s (rc_illegal_regions c)))"

lemma attempts_bound: "attempts c \<le> 88"
proof -
  have "attempts c \<le> (\<Sum>x\<in>set active_phases \<times> set all_signals. 2)"
    unfolding attempts_def by (rule sum_mono) auto
  also have "\<dots> = 88" by (simp add: active_phases_def all_signals_def card_cartesian_product)
  finally show ?thesis .
qed

lemma region_in_domain: "p \<noteq> Stuck \<Longrightarrow> (p, s) \<in> set active_phases \<times> set all_signals"
  by (cases p; cases s) (simp_all add: active_phases_def all_signals_def)

lemma enter_region_attempts:
  assumes "enter_region p s t (rc_illegal_regions c) = Some (rc_illegal_regions c')"
  shows "attempts c \<le> attempts c'"
    and "p \<noteq> Stuck \<Longrightarrow> region_count p s (rc_illegal_regions c) < 2 \<Longrightarrow> attempts c < attempts c'"
proof -
  note count = enter_region_count [OF assms]
  have mono: "min 2 (region_count q u (rc_illegal_regions c)) \<le> min 2 (region_count q u (rc_illegal_regions c'))" for q u
    by (auto simp: count)
  show "attempts c \<le> attempts c'" unfolding attempts_def by (rule sum_mono) (auto intro: mono)
  assume "p \<noteq> Stuck" "region_count p s (rc_illegal_regions c) < 2"
  then show "attempts c < attempts c'"
    unfolding attempts_def
    by (intro sum_strict_mono_ex1) (use mono region_in_domain [of p s] in \<open>auto simp: count intro!: bexI [of _ "(p, s)"]\<close>)
qed

text \<open>Events that make the controller process a signal outside \<open>Stuck\<close> without ending there.\<close>

fun calm_count :: "RepairEnv \<Rightarrow> (RuntimeEvent \<times> EventId) list \<Rightarrow> RepairControlConsumer \<Rightarrow> nat" where
  "calm_count env [] c = 0"
| "calm_count env ((e, t) # es) c =
     (case repair_on_event env e t c of
        None \<Rightarrow> 0
      | Some (_, c') \<Rightarrow>
          (if rc_phase c \<noteq> Stuck \<and> rc_phase c' \<noteq> Stuck \<and> rc_illegal_regions c' \<noteq> rc_illegal_regions c
           then 1 else 0) + calm_count env es c')"

lemma calm_step:
  assumes "control_ok c" and "repair_on_event env e t c = Some (out, c')"
  shows "(if rc_phase c \<noteq> Stuck \<and> rc_phase c' \<noteq> Stuck \<and> rc_illegal_regions c' \<noteq> rc_illegal_regions c
           then 1 else 0) + attempts c \<le> attempts c'"
  using assms(2)
proof (cases rule: on_event_cases)
  case quiet
  then show ?thesis by (simp add: attempts_def)
next
  case (signal s c1 res)
  have "distinct (region_keys (rc_illegal_regions c1))" using assms(1) signal by (simp add: control_ok_def)
  note eff = advance_effect [OF signal(1) this]
  have same: "attempts c1 = attempts c" using signal by (simp add: attempts_def)
  have less: "attempts c < attempts c'" if "rc_phase c \<noteq> Stuck" "rc_phase c' \<noteq> Stuck"
    using enter_region_attempts(2) [OF eff(1)] eff(2) that signal(2) same by (metis not_le)
  show ?thesis
    using less enter_region_attempts(1) [OF eff(1)] same by (auto simp: Suc_le_eq)
qed

lemma calm_count_bound: "control_ok c \<Longrightarrow> calm_count env es c + attempts c \<le> 88"
proof (induction es arbitrary: c)
  case Nil
  then show ?case using attempts_bound by simp
next
  case (Cons x es)
  obtain e t where x: "x = (e, t)" by force
  show ?case
  proof (cases "repair_on_event env e t c")
    case None
    with x attempts_bound show ?thesis by simp
  next
    case (Some r)
    then obtain out c1 where step: "repair_on_event env e t c = Some (out, c1)" by (cases r) auto
    from Cons.IH [OF control_ok_step [OF Cons.prems step]] calm_step [OF Cons.prems step] x step
    show ?thesis by (simp del: One_nat_def)
  qed
qed



section \<open>Leaving \<open>Stuck\<close>\<close>

lemma stuck_next: "next_phase Stuck s = Some (p, msg) \<Longrightarrow> p \<noteq> Stuck \<Longrightarrow>
    s = ReplanRequired \<and> p = Classifying \<or> s = CompilerClean \<and> p = Observing"
  by (cases s) auto

text \<open>\<open>Stuck\<close> is left only by a signal that a new plan is required, to \<open>Classifying\<close>, or by a clean
  verification, to \<open>Observing\<close>. A plan or an action that arrives in \<open>Stuck\<close> is answered with an
  error event and changes neither the phase nor the pending plan.\<close>

theorem stuck_is_left_only_by_replan_or_clean:
  assumes "control_ok c" and "rc_phase c = Stuck" and "repair_on_event env e t c = Some ((out, emitted), c')"
  shows "(rc_phase c' \<noteq> Stuck \<longrightarrow>
      (\<exists>c1. extract_signal e c = Some (Some ReplanRequired, c1) \<and> rc_phase c' = Classifying \<or>
            extract_signal e c = Some (Some CompilerClean, c1) \<and> rc_phase c' = Observing)) \<and>
    (check_escape e c \<longrightarrow>
      rc_phase c' = Stuck \<and> rc_pending_plan_action_kind c' = rc_pending_plan_action_kind c \<and>
      (\<exists>err. out = Error (EvErrorOccurred err) (rv_file env) 482 \<and>
             err_message err = ''repair_escape_detected_while_stuck''))"
  using assms(3)
proof (cases rule: on_event_cases)
  case quiet
  with assms(2) show ?thesis by simp
next
  case (signal s c1 res)
  have "distinct (region_keys (rc_illegal_regions c1))" using assms(1) signal by (simp add: control_ok_def)
  note eff = advance_effect [OF signal(1) this]
  show ?thesis
  proof (cases "check_escape e c")
    case True
    with signal(5) have s: "s = EscapeDetected" "c1 = c" by auto
    with signal(1) assms(2) have "rc_phase c' = Stuck \<and> rc_pending_plan_action_kind c' = rc_pending_plan_action_kind c"
      by (auto simp: advance_def record_entry_into_region_def bind_eq_Some_conv)
    with True assms(3) show ?thesis
      by (auto simp: repair_on_event_def emit_violation_def outcome_error_def new_error_occurred_def)
  next
    case False
    with signal(5) have ex: "extract_signal e c = Some (Some s, c1)" by auto
    have "s = ReplanRequired \<and> rc_phase c' = Classifying \<or> s = CompilerClean \<and> rc_phase c' = Observing"
      if "rc_phase c' \<noteq> Stuck" using eff(3) that signal(2) assms(2) stuck_next by metis
    with ex False show ?thesis by blast
  qed
qed

text \<open>Three clean verifications in a row take a healthy workspace to \<open>Stuck\<close>.\<close>

definition clean_verified :: RuntimeEvent where
  "clean_verified = EvLoopVerified
     \<lparr> lv_tick = 1, lv_passed = True, lv_compiler_clean = True, lv_tlog_clean = True,
       lv_error_count = 0, lv_diagnostics = [], lv_trace_id = None, lv_execution_id = None,
       lv_span_id = None, lv_parent_span_id = None \<rparr>"

definition sample_repair_env :: RepairEnv where
  "sample_repair_env = \<lparr> rv_file = ''repair_control_consumer.rs'', rv_uuid = ''u'' \<rparr>"

lemmas repair_eval =
  clean_verified_def new_repair_control_def repair_on_event_def advance_def record_entry_into_region_def
  is_illegal_region_def in_region_def move_to_def record_transition_def checked_add_def
  ILLEGAL_REGION_THRESHOLD_def emit_transition_debug_def Let_def word_le_nat_alt

lemma third_clean_verification_is_stuck:
  "map_option rc_phase (repair_run env [(clean_verified, a), (clean_verified, b)] new_repair_control) = Some Observing"
  "map_option rc_phase
     (repair_run env [(clean_verified, a), (clean_verified, b), (clean_verified, d)] new_repair_control) = Some Stuck"
  by (simp_all add: repair_eval)

text \<open>A stalled action in \<open>Transitioning\<close> or \<open>Verifying\<close> is a failed assertion.\<close>

lemma act_stall_panics:
  "rc_phase c \<in> {Transitioning, Verifying} \<Longrightarrow> \<not> is_illegal_region (rc_phase c) ActStall c1 \<Longrightarrow>
   record_entry_into_region (rc_phase c) ActStall c = Some c1 \<Longrightarrow> advance ActStall c = None"
  by (auto simp: advance_def record_entry_into_region_def)

theorem repair_history_is_a_path_witness:
  "\<exists>c. repair_run sample_repair_env [(clean_verified, ''t''), (clean_verified, ''u'')] new_repair_control = Some c \<and>
     control_ok c"
proof -
  obtain c where run:
    "repair_run sample_repair_env [(clean_verified, ''t''), (clean_verified, ''u'')] new_repair_control = Some c"
    using third_clean_verification_is_stuck(1) [of sample_repair_env "''t''" "''u''"] by blast
  with repair_history_is_a_path [OF this] show ?thesis by blast
qed

definition stuck_control :: RepairControlConsumer where
  "stuck_control = new_repair_control\<lparr>rc_phase := Stuck,
     rc_transition_history :=
       [\<lparr> tr_tick = 0, tr_from_phase = Observing, tr_signal = CompilerClean, tr_to_phase = Stuck \<rparr>]\<rparr>"

lemma stuck_control_ok: "control_ok stuck_control" "rc_phase stuck_control = Stuck"
  by (simp_all add: stuck_control_def control_ok_def new_repair_control_def region_keys_def legal_move_def)

lemma stuck_control_recovers:
  "map_option (\<lambda>(_, c). rc_phase c) (repair_on_event sample_repair_env clean_verified ''t'' stuck_control) = Some Observing"
  by (simp add: repair_eval stuck_control_def)

theorem stuck_is_left_only_by_replan_or_clean_witness:
  "\<exists>out emitted c'. repair_on_event sample_repair_env clean_verified ''t'' stuck_control = Some ((out, emitted), c') \<and>
     rc_phase c' = Observing \<and> (\<exists>c1. extract_signal clean_verified stuck_control = Some (Some CompilerClean, c1))"
proof -
  obtain out emitted c' where step:
    "repair_on_event sample_repair_env clean_verified ''t'' stuck_control = Some ((out, emitted), c')"
    and obs: "rc_phase c' = Observing"
    using stuck_control_recovers by auto
  from stuck_is_left_only_by_replan_or_clean [OF stuck_control_ok step] obs step show ?thesis by auto
qed

end
