(* ===== verification/Event_Shape.thy ===== *)
theory Event_Shape
  imports Runtime_Events Event_Invariants
begin

text \<open>
  From a typed event to its wire form: the payload slots that \<^verbatim>\<open>canon_event_struct!\<close> generates
  from the field attributes (\<^verbatim>\<open>canon-proc-macros/src/lib.rs\<close>), the hand-written shape of
  \<^verbatim>\<open>Code\<close>, and \<^verbatim>\<open>payload_from_shape\<close> and \<^verbatim>\<open>runtime_event_to_wire\<close> of
  \<^verbatim>\<open>canon-runtime/src/lib.rs\<close>. The serialisation that \<^verbatim>\<open>serde\<close> derives for whole events,
  compiler events, capability results and floats is a parameter; strings, numbers, booleans,
  options and vectors have their JSON form.
\<close>

section \<open>Slots\<close>

datatype Slot = Input | Output | Delta

record FieldSpec =
  fd_slots :: "Slot list"
  fd_ident :: string
  fd_value :: json

definition field :: "Slot list \<Rightarrow> string \<Rightarrow> json \<Rightarrow> FieldSpec" where
  "field slots ident v = \<lparr> fd_slots = slots, fd_ident = ident, fd_value = v \<rparr>"

record ShapeEnv =
  sh_f32 :: "f32 \<Rightarrow> json"
  sh_f64 :: "f64 \<Rightarrow> json"
  sh_capability_result :: "CapabilityResult \<Rightarrow> json"
  sh_rustc_event :: "RustcEvent \<Rightarrow> json option"
  sh_data :: "RuntimeEvent \<Rightarrow> json"

definition nat_value :: "'a::len word \<Rightarrow> json" where
  "nat_value w = JNumber (PosInt (of_nat (unat w)))"

definition int_value :: "int \<Rightarrow> json" where
  "int_value i = JNumber (if 0 \<le> i then PosInt (of_int i) else NegInt i)"

definition opt_value :: "('a \<Rightarrow> json) \<Rightarrow> 'a option \<Rightarrow> json" where
  "opt_value f x = (case x of None \<Rightarrow> JNull | Some v \<Rightarrow> f v)"

text \<open>The fields with a slot attribute, per struct and in source order.\<close>

fun slot_fields :: "ShapeEnv \<Rightarrow> RuntimeEvent \<Rightarrow> FieldSpec list" where
  "slot_fields env (EvDebug p) =
       [field [Input] ''source'' (JString (dbg_source p)),
        field [Input] ''kind'' (JString (dbg_kind p)),
        field [Delta, Output] ''payload'' (dbg_payload p)]"
| "slot_fields env (EvErrorOccurred p) =
       [field [Input] ''kind'' (JString (err_kind p)),
        field [Input] ''source'' (JString (err_source p)),
        field [Input] ''message'' (JString (err_message p)),
        field [Delta, Output] ''captured'' (JBool (err_captured p))]"
| "slot_fields env (EvTick p) =
       [field [Input] ''tick'' (nat_value (tk_tick p)),
        field [Delta, Output] ''emitted'' (JBool (tk_emitted p))]"
| "slot_fields env (EvLoopObserved p) =
       [field [Input] ''tick'' (nat_value (lo_tick p)),
        field [Output] ''error_count'' (nat_value (lo_error_count p)),
        field [Output] ''warning_count'' (nat_value (lo_warning_count p)),
        field [Delta] ''compiler_errors'' (JArray (lo_compiler_errors p)),
        field [Input] ''goal_text'' (opt_value JString (lo_goal_text p))]"
| "slot_fields env (EvLoopPlanned p) =
       [field [Input] ''tick'' (nat_value (lp_tick p)),
        field [Input] ''action_kind'' (JString (lp_action_kind p)),
        field [Input] ''action_payload'' (lp_action_payload p),
        field [Output] ''reason'' (JString (lp_reason p)),
        field [Delta] ''signals'' (opt_value id (lp_signals p))]"
| "slot_fields env (EvPlanningCompleted p) =
       [field [Input] ''tick'' (nat_value (plc_tick p)),
        field [Input] ''llm_request_id'' (opt_value JString (plc_llm_request_id p)),
        field [Delta, Output] ''planned_count'' (nat_value (plc_planned_count p)),
        field [Output] ''status'' (JString (plc_status p))]"
| "slot_fields env (EvLoopActed p) =
       [field [Input] ''tick'' (nat_value (la_tick p)),
        field [Input] ''action_kind'' (JString (la_action_kind p)),
        field [Input] ''capability_request_id'' (JString (la_capability_request_id p)),
        field [Output] ''stdout'' (JString (la_stdout p)),
        field [Delta] ''stderr'' (JString (la_stderr p)),
        field [Output] ''exit_code'' (opt_value int_value (la_exit_code p)),
        field [Output] ''success'' (JBool (la_success p))]"
| "slot_fields env (EvLoopVerified p) =
       [field [Input] ''tick'' (nat_value (lv_tick p)),
        field [Output] ''passed'' (JBool (lv_passed p)),
        field [Output] ''compiler_clean'' (JBool (lv_compiler_clean p)),
        field [Delta] ''error_count'' (nat_value (lv_error_count p)),
        field [Delta] ''diagnostics'' (JArray (map JString (lv_diagnostics p)))]"
| "slot_fields env (EvVerifierPolicyUpdated p) =
       [field [Input] ''tick'' (nat_value (vpu_tick p)),
        field [Output] ''verifier_outcome'' (JString (vpu_verifier_outcome p)),
        field [Output] ''retry_policy'' (JString (vpu_retry_policy p)),
        field [Output] ''reward_bias'' (JString (vpu_reward_bias p)),
        field [Delta] ''actionable_failure'' (JBool (vpu_actionable_failure p))]"
| "slot_fields env (EvLoopRewarded p) =
       [field [Input] ''tick'' (nat_value (lr_tick p)),
        field [Input] ''errors_before'' (nat_value (lr_errors_before p)),
        field [Delta] ''errors_after'' (nat_value (lr_errors_after p)),
        field [Output] ''halt'' (JBool (lr_halt p)),
        field [Output] ''reward'' (sh_f32 env (lr_reward p)),
        field [Delta] ''delta_g'' (sh_f32 env (lr_delta_g p))]"
| "slot_fields env (EvGoodnessSnapshot p) =
       [field [Input] ''tick'' (nat_value (gds_tick p)),
        field [Output] ''g'' (sh_f32 env (gds_g p)),
        field [Delta] ''delta_g'' (sh_f32 env (gds_delta_g p))]"
| "slot_fields env (EvInvariantDiscovered p) =
       [field [Input] ''feature'' (JString (ivd_feature p)),
        field [Delta, Output] ''confidence'' (sh_f64 env (ivd_confidence p)),
        field [Output] ''support'' (nat_value (ivd_support p))]"
| "slot_fields env (EvRouteTick p) =
       [field [Input] ''tick'' (nat_value (rtk_tick p)),
        field [Delta, Output] ''emitted'' (JBool (rtk_emitted p))]"
| "slot_fields env (EvRouteSelected p) =
       [field [Input] ''tick'' (nat_value (rsel_tick p)),
        field [Input] ''suggested_route'' (JString (rsel_suggested_route p)),
        field [Input] ''prompt'' (JString (rsel_prompt p)),
        field [Output] ''approved_route'' (JString (rsel_approved_route p)),
        field [Output] ''rationale'' (JString (rsel_rationale p)),
        field [Delta] ''gate_changed'' (JBool (rsel_gate_changed p))]"
| "slot_fields env (EvBash p) =
       [field [Input] ''request_id'' (JString (bsh_request_id p)),
        field [Input] ''cmd'' (JString (bsh_cmd p)),
        field [Delta, Output] ''queued'' (JBool (bsh_queued p))]"
| "slot_fields env (EvLlm p) =
       [field [Input] ''request_id'' (JString (llm_request_id p)),
        field [Input] ''prompt'' (JString (llm_prompt p)),
        field [Delta, Output] ''dispatched'' (JBool (llm_dispatched p))]"
| "slot_fields env (EvSubTaskResult p) =
       [field [Input] ''dispatch_id'' (JString (str_dispatch_id p)),
        field [Input] ''agent_id'' (JString (str_agent_id p)),
        field [Output] ''success'' (JBool (str_success p)),
        field [Output] ''output'' (str_output p),
        field [Delta] ''actions_taken'' (JArray (map JString (str_actions_taken p)))]"
| "slot_fields env (EvRuntimeStateUpdated p) =
       [field [Delta, Output] ''payload'' (rsu_payload p)]"
| "slot_fields env (EvNodeReady p) =
       [field [Input] ''node_id'' (JString (ndr_node_id p)),
        field [Input] ''capability'' (JString (ndr_capability p)),
        field [Delta, Output] ''ready'' (JBool (ndr_ready p))]"
| "slot_fields env (EvNodeStarted p) =
       [field [Input] ''node_id'' (JString (nds_node_id p)),
        field [Input] ''capability'' (JString (nds_capability p)),
        field [Delta, Output] ''started'' (JBool (nds_started p))]"
| "slot_fields env (EvNodeCompleted p) =
       [field [Input] ''node_id'' (JString (ndc_node_id p)),
        field [Input] ''capability'' (JString (ndc_capability p)),
        field [Delta, Output] ''completed'' (JBool (ndc_completed p))]"
| "slot_fields env (EvNodeFailed p) =
       [field [Input] ''node_id'' (JString (ndf_node_id p)),
        field [Input] ''capability'' (JString (ndf_capability p)),
        field [Delta, Output] ''error'' (opt_value JString (ndf_error p))]"
| "slot_fields env (EvCapabilityCompleted p) =
       [field [Input] ''request_id'' (JString (cpc_request_id p)),
        field [Input] ''capability'' (JString (cpc_capability p)),
        field [Delta, Output] ''result'' (sh_capability_result env (cpc_result p))]"
| "slot_fields env (EvCapabilityFailed p) =
       [field [Input] ''request_id'' (JString (cpf_request_id p)),
        field [Input] ''capability'' (JString (cpf_capability p)),
        field [Delta, Output] ''error'' (JString (cpf_error p))]"
| "slot_fields env (EvPolicyBaselineUpdated p) =
       [field [Delta, Output] ''payload'' (pbu_payload p)]"
| "slot_fields env (EvGoalSelected p) =
       [field [Delta, Output] ''payload'' (gsl_payload p)]"
| "slot_fields env (EvSystemConfigLoaded p) =
       [field [Delta, Output] ''payload'' (scl_payload p)]"
| "slot_fields env (EvAgentRegistered p) =
       [field [Delta, Output] ''payload'' (agr_payload p)]"
| "slot_fields env (EvPromptLoaded p) =
       [field [Delta, Output] ''payload'' (prl_payload p)]"
| "slot_fields env (EvRustcCaptureStarted p) =
       [field [Input] ''crate_name'' (JString (rcs_crate_name p)),
        field [Input] ''capture_mode'' (JString (rcs_capture_mode p)),
        field [Delta, Output] ''started'' (JBool (rcs_started p))]"
| "slot_fields env (EvRustcGraphArtifactWritten p) =
       [field [Input] ''crate_name'' (JString (rga_crate_name p)),
        field [Input] ''artifact_id'' (JString (rga_artifact_id p)),
        field [Input] ''artifact_path'' (JString (rga_artifact_path p)),
        field [Delta, Output] ''artifact_written'' (JBool (rga_artifact_written p)),
        field [Output] ''artifact_id_out'' (JString (rga_artifact_id_out p)),
        field [Output] ''file_count'' (nat_value (rga_file_count p)),
        field [Output] ''node_count'' (nat_value (rga_node_count p)),
        field [Output] ''edge_count'' (nat_value (rga_edge_count p)),
        field [Output] ''call_edge_count'' (nat_value (rga_call_edge_count p)),
        field [Output] ''module_edge_count'' (nat_value (rga_module_edge_count p)),
        field [Output] ''cfg_edge_count'' (nat_value (rga_cfg_edge_count p))]"
| "slot_fields env (EvRustcCaptureCompleted p) =
       [field [Input] ''crate_name'' (JString (rcc_crate_name p)),
        field [Input] ''artifact_id'' (JString (rcc_artifact_id p)),
        field [Delta, Output] ''completed'' (JBool (rcc_completed p))]"
| "slot_fields env (EvRustcCaptureFailed p) =
       [field [Input] ''crate_name'' (JString (rcf_crate_name p)),
        field [Delta, Output] ''failed'' (JBool (rcf_failed p)),
        field [Output] ''message'' (JString (rcf_message p))]"
| "slot_fields env (EvToolCall p) =
       [field [Input] ''tool_call_id'' (JString (tc_tool_call_id p)),
        field [Input] ''kind'' (JString (tc_kind p)),
        field [Input] ''payload'' (tc_payload p),
        field [Delta, Output] ''accepted'' (JBool (tc_accepted p))]"
| "slot_fields env (EvToolResult p) =
       [field [Input] ''tool_call_id'' (JString (tr_tool_call_id p)),
        field [Input] ''kind'' (JString (tr_kind p)),
        field [Delta, Output] ''output'' (tr_output p),
        field [Output] ''success'' (JBool (tr_success p))]"
| "slot_fields env (EvToolBatchSettled p) =
       [field [Input] ''tick'' (nat_value (tbs_tick p)),
        field [Input] ''result_count'' (nat_value (tbs_result_count p)),
        field [Delta, Output] ''any_failed'' (JBool (tbs_any_failed p))]"
| "slot_fields env (EvGoalNodeCreated p) =
       [field [Input] ''node_id'' (JString (gnc_node_id p)),
        field [Input] ''description'' (JString (gnc_description p)),
        field [Input] ''deps'' (JArray (map JString (gnc_deps p))),
        field [Delta] ''caps'' (JArray (map JString (gnc_caps p))),
        field [Output] ''created'' (JBool (gnc_created p))]"
| "slot_fields env (EvGoalNodeRetracted p) =
       [field [Input] ''node_id'' (JString (gnr_node_id p)),
        field [Delta, Output] ''retracted'' (JBool (gnr_retracted p))]"
| "slot_fields env (EvGoalNodeRewritten p) =
       [field [Input] ''node_id'' (JString (gnw_node_id p)),
        field [Output] ''new_description'' (JString (gnw_new_description p)),
        field [Delta] ''new_caps'' (JArray (map JString (gnw_new_caps p)))]"
| "slot_fields env (EvGoalEdgeDefined p) =
       [field [Input] ''from_node_id'' (JString (ged_from_node_id p)),
        field [Input] ''to_node_id'' (JString (ged_to_node_id p)),
        field [Delta, Output] ''created'' (JBool (ged_created p))]"
| "slot_fields env (EvGoalGraphCheckpointed p) =
       [field [Input] ''tlog_seq'' (nat_value (ggc_tlog_seq p)),
        field [Delta, Output] ''checkpointed'' (JBool (ggc_checkpointed p))]"
| "slot_fields env (EvCapabilityInvoked p) =
       [field [Input] ''capability_id'' (JString (cpi_capability_id p)),
        field [Input] ''capability'' (JString (cpi_capability p)),
        field [Input] ''node_id'' (JString (cpi_node_id p)),
        field [Delta, Output] ''invoked'' (JBool (cpi_invoked p))]"
| "slot_fields env (EvCapabilityResolved p) =
       [field [Input] ''capability_id'' (JString (cpr_capability_id p)),
        field [Delta, Output] ''success'' (JBool (cpr_success p))]"
| "slot_fields env (EvCapabilityRequested p) =
       [field [Input] ''request_id'' (JString (cpq_request_id p)),
        field [Input] ''name'' (JString (cpq_name p)),
        field [Input] ''args'' (cpq_args p),
        field [Delta, Output] ''requested'' (JBool (cpq_requested p))]"
| "slot_fields env _ = []"

definition build_json_object :: "FieldSpec list \<Rightarrow> json" where
  "build_json_object fs = JObject (map (\<lambda>f. (fd_ident f, fd_value f)) fs)"

definition slot_object :: "Slot \<Rightarrow> FieldSpec list \<Rightarrow> json" where
  "slot_object slot fs = build_json_object (filter (\<lambda>f. slot \<in> set (fd_slots f)) fs)"

fun payload_input :: "ShapeEnv \<Rightarrow> RuntimeEvent \<Rightarrow> json" where
  "payload_input env (EvCode c) =
     JObject [(''tick'', nat_value (dl_tick (cd_delta c))), (''id'', nat_value (dl_id (cd_delta c)))]"
| "payload_input env e = slot_object Input (slot_fields env e)"

fun payload_output :: "ShapeEnv \<Rightarrow> RuntimeEvent \<Rightarrow> json" where
  "payload_output env (EvCode c) = or_else (sh_rustc_event env (dl_event (cd_delta c))) (JObject [])"
| "payload_output env e = slot_object Output (slot_fields env e)"

fun payload_delta :: "ShapeEnv \<Rightarrow> RuntimeEvent \<Rightarrow> json" where
  "payload_delta env (EvCode c) = JObject [(''graph_version'', nat_value (ks_graph_version (cd_state c)))]"
| "payload_delta env e = slot_object Delta (slot_fields env e)"

definition payload_from_shape :: "ShapeEnv \<Rightarrow> RuntimeEvent \<Rightarrow> string \<Rightarrow> u32 \<Rightarrow> CanonPayload" where
  "payload_from_shape env e file line =
     \<lparr> pl_input = payload_input env e, pl_output = payload_output env e, pl_delta = payload_delta env e,
       pl_meta = \<lparr> pm_file = file, pm_line = line \<rparr>, pl_data = sh_data env e \<rparr>"

section \<open>Wire form\<close>

text \<open>The kinds with a wire form; the others are dropped.\<close>

fun wire_kind :: "RuntimeEvent \<Rightarrow> EventKind option" where
  "wire_kind (EvCode _) = Some EventKind.Code"
| "wire_kind (EvLoopObserved _) = Some EventKind.LoopObserved"
| "wire_kind (EvLoopPlanned _) = Some EventKind.LoopPlanned"
| "wire_kind (EvPlanningCompleted _) = Some EventKind.PlanningCompleted"
| "wire_kind (EvLoopActed _) = Some EventKind.LoopActed"
| "wire_kind (EvLoopVerified _) = Some EventKind.LoopVerified"
| "wire_kind (EvVerifierPolicyUpdated _) = Some EventKind.VerifierPolicyUpdated"
| "wire_kind (EvLoopRewarded _) = Some EventKind.LoopRewarded"
| "wire_kind (EvRouteTick _) = Some EventKind.RouteTick"
| "wire_kind (EvRouteSelected _) = Some EventKind.RouteSelected"
| "wire_kind (EvTick _) = Some EventKind.Tick"
| "wire_kind (EvCapabilityCompleted _) = Some EventKind.CapabilityCompleted"
| "wire_kind (EvCapabilityFailed _) = Some EventKind.CapabilityFailed"
| "wire_kind (EvCapabilityInvoked _) = Some EventKind.CapabilityInvoked"
| "wire_kind (EvCapabilityResolved _) = Some EventKind.CapabilityResolved"
| "wire_kind (EvErrorOccurred _) = Some EventKind.ErrorOccurred"
| "wire_kind (EvDebug d) = Some (if dbg_kind d = ''runtime_started'' then RuntimeStarted else EventKind.Debug)"
| "wire_kind (EvPromptLoaded _) = Some EventKind.PromptLoaded"
| "wire_kind (EvRuntimeStateUpdated _) = Some EventKind.RuntimeStateUpdated"
| "wire_kind (EvToolCall _) = Some EventKind.ToolCall"
| "wire_kind (EvToolResult _) = Some EventKind.ToolResult"
| "wire_kind (EvGoalNodeCreated _) = Some EventKind.GoalNodeCreated"
| "wire_kind (EvGoalNodeRetracted _) = Some EventKind.GoalNodeRetracted"
| "wire_kind (EvGoalNodeRewritten _) = Some EventKind.GoalNodeRewritten"
| "wire_kind (EvGoalEdgeDefined _) = Some EventKind.GoalEdgeDefined"
| "wire_kind (EvGoalGraphCheckpointed _) = Some EventKind.GoalGraphCheckpointed"
| "wire_kind (EvGoodnessSnapshot _) = Some EventKind.GoodnessSnapshot"
| "wire_kind (EvInvariantDiscovered _) = Some EventKind.InvariantDiscovered"
| "wire_kind (EvLlm _) = Some EventKind.Llm"
| "wire_kind _ = None"

fun wire_actor :: "RuntimeEvent \<Rightarrow> string" where
  "wire_actor (EvCode _) = ''rustc''"
| "wire_actor (EvLoopObserved _) = ''observe''"
| "wire_actor (EvLoopPlanned _) = ''plan''"
| "wire_actor (EvPlanningCompleted _) = ''plan''"
| "wire_actor (EvLoopActed _) = ''act''"
| "wire_actor (EvLoopVerified _) = ''verify''"
| "wire_actor (EvVerifierPolicyUpdated _) = ''verify''"
| "wire_actor (EvLoopRewarded _) = ''reward''"
| "wire_actor (EvRouteTick _) = ''supervisor''"
| "wire_actor (EvRouteSelected _) = ''supervisor''"
| "wire_actor (EvTick _) = ''supervisor''"
| "wire_actor (EvCapabilityInvoked _) = ''capability_graph''"
| "wire_actor (EvCapabilityResolved _) = ''capability_graph''"
| "wire_actor (EvDebug d) = dbg_source d"
| "wire_actor (EvToolCall _) = ''agent-consumer''"
| "wire_actor (EvToolResult _) = ''agent-consumer''"
| "wire_actor (EvGoalNodeCreated _) = ''goal_graph''"
| "wire_actor (EvGoalNodeRetracted _) = ''goal_graph''"
| "wire_actor (EvGoalNodeRewritten _) = ''goal_graph''"
| "wire_actor (EvGoalEdgeDefined _) = ''goal_graph''"
| "wire_actor (EvGoalGraphCheckpointed _) = ''goal_graph''"
| "wire_actor (EvInvariantDiscovered _) = ''invariant-engine''"
| "wire_actor _ = ''event-runtime''"

definition ROOT_KINDS :: "EventKind list" where
  "ROOT_KINDS = [Tick, PromptLoaded, AgentRegistered, SystemConfigLoaded, RuntimeStarted]"

text \<open>The result: an event, nothing, the error text, or the panic of the constructor.\<close>

datatype WireResult = WireOk CanonEvent | WireSkip | WireErr string | WirePanic

definition runtime_event_to_wire ::
  "ShapeEnv \<Rightarrow> u64 \<Rightarrow> RuntimeEvent \<Rightarrow> EventId list \<Rightarrow> EventId \<Rightarrow> string \<Rightarrow> u32 \<Rightarrow> WireResult" where
  "runtime_event_to_wire env now e parent_ids event_id file line =
     (case wire_kind e of
        None \<Rightarrow> WireSkip
      | Some kind \<Rightarrow>
          (let payload = payload_from_shape env e file line; root = (kind \<in> set ROOT_KINDS)
           in if parent_ids = [] \<and> \<not> root
              then WireErr (''missing_parent_ids for non-root event kind='' @ as_str kind @ '' id='' @ event_id @
                            '' (emitted from '' @ file @ '':'' @ decimal (unat line) @ '')'')
              else (case new_event event_id parent_ids (wire_actor e) kind now payload root of
                      None \<Rightarrow> WirePanic | Some w \<Rightarrow> WireOk w)))"

section \<open>Well-formedness by construction\<close>

text \<open>
  Every struct of the macro has a field in each slot, except the input slot of the structs marked
  \<^verbatim>\<open>no_input\<close>; this is what the compile-time checks of the macro enforce.
\<close>

lemma slot_object_not_null [simp]: "\<not> json_is_null (slot_object slot fs)"
  by (simp add: slot_object_def build_json_object_def)

lemma every_struct_has_a_delta:
  "event_kind e \<notin> {Code, Edit, Cargo, File, Analysis} \<Longrightarrow> \<exists>f \<in> set (slot_fields env e). Delta \<in> set (fd_slots f)"
  by (cases e) (simp_all add: field_def)

lemma every_struct_has_an_output:
  "event_kind e \<notin> {Code, Edit, Cargo, File, Analysis} \<Longrightarrow> \<exists>f \<in> set (slot_fields env e). Output \<in> set (fd_slots f)"
  by (cases e) (simp_all add: field_def)

lemma slot_object_delta_nonzero:
  "\<exists>f \<in> set fs. slot \<in> set (fd_slots f) \<Longrightarrow> \<not> is_zero_delta (slot_object slot fs)"
  by (auto simp: slot_object_def build_json_object_def filter_empty_conv)

lemma payload_delta_nonzero:
  assumes "wire_kind e = Some k"
  shows "\<not> is_zero_delta (payload_delta env e)"
proof (cases "event_kind e = Code")
  case True
  then show ?thesis by (cases e) simp_all
next
  case False
  with assms have "event_kind e \<notin> {Code, Edit, Cargo, File, Analysis}" by (cases e) simp_all
  from slot_object_delta_nonzero [OF every_struct_has_a_delta [OF this]] False show ?thesis
    by (cases e) (simp_all del: slot_fields.simps)
qed

lemma payload_slots_not_null:
  assumes "\<And>r v. sh_rustc_event env r = Some v \<Longrightarrow> \<not> json_is_null v"
  shows "\<not> json_is_null (payload_input env e)" "\<not> json_is_null (payload_output env e)"
    "\<not> json_is_null (payload_delta env e)"
proof -
  show "\<not> json_is_null (payload_input env e)" "\<not> json_is_null (payload_delta env e)"
    by (cases e; simp del: slot_fields.simps)+
  show "\<not> json_is_null (payload_output env e)"
  proof (cases "event_kind e = Code")
    case True
    then obtain c where "e = EvCode c" by (cases e) simp_all
    with assms show ?thesis by (cases "sh_rustc_event env (dl_event (cd_delta c))") auto
  next
    case False
    then show ?thesis by (cases e) (simp_all del: slot_fields.simps)
  qed
qed


definition sample_shape :: ShapeEnv where
  "sample_shape =
     \<lparr> sh_f32 = (\<lambda>_. JNull), sh_f64 = (\<lambda>_. JNull), sh_capability_result = (\<lambda>_. JNull),
       sh_rustc_event = (\<lambda>_. Some (JObject [])), sh_data = (\<lambda>_. JObject []) \<rparr>"


end
