(* ===== verification/Event_Bus.thy ===== *)
theory Event_Bus
  imports Repair_Control
begin

text \<open>
  The hook chain and the event bus (\<^verbatim>\<open>canon-runtime/src/hooks.rs\<close>, \<^verbatim>\<open>canon-runtime/src/bus.rs\<close>).
  A hook is a trait object: its name and its answer, which may change a state the hooks share
  and may panic (\<^const>\<open>None\<close>). The hooks of the repository are modelled on that state; the
  token bucket takes its clock reading as an argument. A consumer entry holds the consumer's
  answer, its state and whether its mutex is poisoned. A dispatch returns the number of
  deliveries or the panic, the entries, the hook state, what was sent to the emitter and what
  the post hooks sent to the audit log.
\<close>

section \<open>Hook chain\<close>

datatype HookDecision = Allow | Deny string | Mutate RuntimeEvent

record PreHookReport =
  pr_hook_name :: "string option"
  pr_decision :: HookDecision

type_synonym 'h pre_hook = "string \<times> (RuntimeEvent \<Rightarrow> 'h \<Rightarrow> (HookDecision \<times> 'h) option)"
type_synonym post_hook = "RuntimeEvent \<Rightarrow> EventOutcome \<Rightarrow> (string \<times> string) list"

record 'h HookChain =
  hc_pre :: "'h pre_hook list"
  hc_post :: "post_hook list"

definition new_hook_chain :: "'h HookChain" where
  "new_hook_chain = \<lparr> hc_pre = [], hc_post = [] \<rparr>"

definition add_pre :: "'h pre_hook \<Rightarrow> 'h HookChain \<Rightarrow> 'h HookChain" where
  "add_pre h c = c\<lparr>hc_pre := hc_pre c @ [h]\<rparr>"

definition add_post :: "post_hook \<Rightarrow> 'h HookChain \<Rightarrow> 'h HookChain" where
  "add_post h c = c\<lparr>hc_post := hc_post c @ [h]\<rparr>"

fun run_pre_loop :: "'h pre_hook list \<Rightarrow> RuntimeEvent \<Rightarrow> 'h \<Rightarrow> (PreHookReport \<times> 'h) option" where
  "run_pre_loop [] event st = Some (\<lparr> pr_hook_name = None, pr_decision = Allow \<rparr>, st)"
| "run_pre_loop ((name, on_pre) # hooks) event st =
     (case on_pre event st of
        None \<Rightarrow> None
      | Some (Allow, st') \<Rightarrow> run_pre_loop hooks event st'
      | Some (decision, st') \<Rightarrow> Some (\<lparr> pr_hook_name = Some name, pr_decision = decision \<rparr>, st'))"

definition run_pre :: "'h HookChain \<Rightarrow> RuntimeEvent \<Rightarrow> 'h \<Rightarrow> (PreHookReport \<times> 'h) option" where
  "run_pre c event st = run_pre_loop (hc_pre c) event st"

definition run_post :: "'h HookChain \<Rightarrow> RuntimeEvent \<Rightarrow> EventOutcome \<Rightarrow> (string \<times> string) list" where
  "run_post c event outcome = concat (map (\<lambda>h. h event outcome) (hc_post c))"

fun outcome_kind :: "EventOutcome \<Rightarrow> string" where
  "outcome_kind (NoOp _) = ''noop''"
| "outcome_kind (Error _ _ _) = ''error''"

text \<open>The audit hook; the debug format of the event is an argument.\<close>

definition audit_on_post :: "(RuntimeEvent \<Rightarrow> string) \<Rightarrow> post_hook" where
  "audit_on_post debug_format event outcome = [(debug_format event, outcome_kind outcome)]"

section \<open>The hooks of the runtime\<close>

record CostCapHook =
  cc_max_turns :: u64
  cc_used :: u64

definition new_cost_cap :: CostCapHook where
  "new_cost_cap = \<lparr> cc_max_turns = 500, cc_used = 0 \<rparr>"

fun is_llm :: "RuntimeEvent \<Rightarrow> bool" where
  "is_llm (EvLlm _) = True"
| "is_llm _ = False"

definition cost_cap_on_pre :: "RuntimeEvent \<Rightarrow> CostCapHook \<Rightarrow> (HookDecision \<times> CostCapHook) option" where
  "cost_cap_on_pre event c =
     (if \<not> is_llm event then Some (Allow, c)
      else map_option
        (\<lambda>next. (if cc_max_turns c < next then Deny ''llm_cost_cap_reached'' else Allow,
                 c\<lparr>cc_used := cc_used c + 1\<rparr>))
        (checked_add (cc_used c) 1))"

record WatchdogPreHook =
  wd_last_stage :: "(string \<times> u64) list"
  wd_current_tick :: u64

definition WD_THRESHOLDS :: "(string \<times> u64) list" where
  "WD_THRESHOLDS =
     [(''observed'', 10), (''planned'', 15), (''acted'', 15), (''verified'', 20), (''rewarded'', 25)]"

definition new_watchdog :: WatchdogPreHook where
  "new_watchdog = \<lparr> wd_last_stage = map (\<lambda>(s, _). (s, 0)) WD_THRESHOLDS, wd_current_tick = 0 \<rparr>"

definition mark_stage :: "string \<Rightarrow> WatchdogPreHook \<Rightarrow> HookDecision \<times> WatchdogPreHook" where
  "mark_stage stage w =
     (Allow, w\<lparr>wd_last_stage := AList.update stage (wd_current_tick w) (wd_last_stage w)\<rparr>)"

fun watchdog_on_pre :: "RuntimeEvent \<Rightarrow> WatchdogPreHook \<Rightarrow> HookDecision \<times> WatchdogPreHook" where
  "watchdog_on_pre (EvTick t) w = (Allow, w\<lparr>wd_current_tick := tk_tick t\<rparr>)"
| "watchdog_on_pre (EvLoopObserved _) w = mark_stage ''observed'' w"
| "watchdog_on_pre (EvLoopPlanned _) w = mark_stage ''planned'' w"
| "watchdog_on_pre (EvLoopActed _) w = mark_stage ''acted'' w"
| "watchdog_on_pre (EvLoopVerified _) w = mark_stage ''verified'' w"
| "watchdog_on_pre (EvLoopRewarded _) w = mark_stage ''rewarded'' w"
| "watchdog_on_pre _ w = (Allow, w)"

definition protected_kinds :: "EventKind list" where
  "protected_kinds =
     [Tick, RouteTick, RouteSelected, LoopObserved, LoopPlanned, PlanningCompleted, LoopActed,
      LoopVerified, VerifierPolicyUpdated, LoopRewarded]"

definition is_protected_control_event :: "RuntimeEvent \<Rightarrow> bool" where
  "is_protected_control_event e \<longleftrightarrow> event_kind e \<in> set protected_kinds"

definition hook_denied_event :: "string \<Rightarrow> string \<Rightarrow> RuntimeEvent" where
  "hook_denied_event uuid reason =
     EvErrorOccurred (new_error_occurred uuid ''hook_denied'' ''hook_chain'' reason ''error''
       (JObject [(''reason'', JString reason)]) None)"

section \<open>The bus\<close>

record 's SyncConsumerEntry =
  se_name :: string
  se_filter :: EventFilter
  se_consumer :: "'s consumer"
  se_state :: 's
  se_poisoned :: bool

record ('s, 'h) EventBus =
  eb_sync_consumers :: "'s SyncConsumerEntry list"
  eb_hooks :: "'h HookChain"
  eb_hook_state :: 'h

definition new_bus :: "'h HookChain \<Rightarrow> 'h \<Rightarrow> ('s, 'h) EventBus" where
  "new_bus hooks st = \<lparr> eb_sync_consumers = [], eb_hooks = hooks, eb_hook_state = st \<rparr>"

definition bus_set_hooks :: "'h HookChain \<Rightarrow> ('s, 'h) EventBus \<Rightarrow> ('s, 'h) EventBus" where
  "bus_set_hooks hooks b = b\<lparr>eb_hooks := hooks\<rparr>"

definition sync_consumers_len :: "('s, 'h) EventBus \<Rightarrow> nat" where
  "sync_consumers_len b = length (eb_sync_consumers b)"

text \<open>Registration hands the consumer its emitter first (\<open>set_emitter\<close>).\<close>

definition register_consumer ::
  "string \<Rightarrow> 's consumer \<Rightarrow> EventFilter \<Rightarrow> ('s \<Rightarrow> 's) \<Rightarrow> 's \<Rightarrow> ('s, 'h) EventBus \<Rightarrow> ('s, 'h) EventBus" where
  "register_consumer name consumer flt set_emitter s b =
     b\<lparr>eb_sync_consumers := eb_sync_consumers b @
        [\<lparr> se_name = name, se_filter = flt, se_consumer = consumer, se_state = set_emitter s,
           se_poisoned = False \<rparr>]\<rparr>"

definition register_async ::
  "string \<Rightarrow> 's consumer \<Rightarrow> EventFilter \<Rightarrow> ('s \<Rightarrow> 's) \<Rightarrow> 's \<Rightarrow> ('s, 'h) EventBus \<Rightarrow> ('s, 'h) EventBus" where
  "register_async name consumer flt set_emitter s b = register_consumer name consumer flt set_emitter s b"

record BusEnv =
  be_file :: string
  be_uuid :: string

definition emit_bus_debug ::
  "BusEnv \<Rightarrow> ('s, 'h) EventBus \<Rightarrow> EventId \<Rightarrow> string \<Rightarrow> json \<Rightarrow> LocatedEvent list" where
  "emit_bus_debug env b parent kind payload =
     (if eb_sync_consumers b = [] then []
      else [\<lparr> le_event = EvDebug \<lparr> dbg_source = ''event_bus'', dbg_kind = kind, dbg_payload = payload \<rparr>,
              le_file = be_file env, le_line = 46, le_parent_ids = [parent] \<rparr>])"

definition emit_bus_error ::
  "BusEnv \<Rightarrow> ('s, 'h) EventBus \<Rightarrow> EventId \<Rightarrow> string \<Rightarrow> string \<Rightarrow> json \<Rightarrow> LocatedEvent list" where
  "emit_bus_error env b parent kind message payload =
     (if eb_sync_consumers b = [] then []
      else [\<lparr> le_event = EvErrorOccurred
                (new_error_occurred (be_uuid env) kind ''event_bus'' message ''error'' payload None),
              le_file = be_file env, le_line = 69, le_parent_ids = [parent] \<rparr>])"

datatype Dispatched = Delivered nat | DispatchPanic string

definition name_value :: "string option \<Rightarrow> json" where
  "name_value n = (case n of None \<Rightarrow> JNull | Some s \<Rightarrow> JString s)"

text \<open>The decision block before delivery: the events it emits, and the panic of a protected event.\<close>

definition decide_hooks ::
  "BusEnv \<Rightarrow> RuntimeEvent \<Rightarrow> EventId \<Rightarrow> PreHookReport \<Rightarrow> ('s, 'h) EventBus
     \<Rightarrow> string option \<times> LocatedEvent list" where
  "decide_hooks env event eid report b =
     (let kind = event_kind_str event; hook = or_else (pr_hook_name report) ''unknown''
      in case pr_decision report of
           Allow \<Rightarrow> (None, [])
         | Deny reason \<Rightarrow>
             (let protected = is_protected_control_event event;
                  audit = emit_bus_debug env b eid ''hook_pre_decision''
                    (JObject [(''event_id'', JString eid), (''event_kind'', JString kind),
                       (''hook_name'', name_value (pr_hook_name report)), (''decision'', JString ''deny''),
                       (''reason'', JString reason), (''protected_control'', JBool protected)])
              in if protected
                 then (Some (''protected control hook violation: hook '' @ hook @ '' denied event '' @ kind),
                       audit @ emit_bus_error env b eid ''hook_control_violation''
                         (''hook '' @ hook @ '' requested deny for protected control event '' @ kind)
                         (JObject [(''event_id'', JString eid), (''event_kind'', JString kind),
                            (''hook_name'', name_value (pr_hook_name report)),
                            (''requested_decision'', JString ''deny''), (''reason'', JString reason)]))
                 else (None, audit))
         | Mutate replacement \<Rightarrow>
             (let protected = (is_protected_control_event event \<or> is_protected_control_event replacement);
                  audit = emit_bus_debug env b eid ''hook_pre_decision''
                    (JObject [(''event_id'', JString eid), (''event_kind'', JString kind),
                       (''hook_name'', name_value (pr_hook_name report)), (''decision'', JString ''mutate''),
                       (''replacement_kind'', JString (event_kind_str replacement)),
                       (''protected_control'', JBool protected)])
              in if protected
                 then (Some (''protected control hook violation: hook '' @ hook @ '' mutated event '' @ kind),
                       audit @ emit_bus_error env b eid ''hook_control_violation''
                         (''hook '' @ hook @ '' requested mutation for protected control event '' @ kind)
                         (JObject [(''event_id'', JString eid), (''event_kind'', JString kind),
                            (''hook_name'', name_value (pr_hook_name report)),
                            (''requested_decision'', JString ''mutate''),
                            (''replacement_kind'', JString (event_kind_str replacement))]))
                 else (None, audit)))"

record 's Delivery =
  dv_result :: Dispatched
  dv_consumers :: "'s SyncConsumerEntry list"
  dv_emitted :: "LocatedEvent list"
  dv_audit :: "(string \<times> string) list"
  dv_receipts :: "json list"

definition receipt :: "EventId \<Rightarrow> string \<Rightarrow> EventOutcome \<Rightarrow> json" where
  "receipt eid name outcome =
     JObject [(''event_id'', JString eid), (''consumer'', JString name), (''status'', JString ''delivered''),
       (''outcome'', JString (case outcome of NoOp reason \<Rightarrow> ''noop:'' @ reason | Error _ _ _ \<Rightarrow> ''error''))]"

fun outcome_emission :: "EventId \<Rightarrow> EventOutcome \<Rightarrow> LocatedEvent list" where
  "outcome_emission eid (NoOp _) = []"
| "outcome_emission eid (Error e file line) =
     [\<lparr> le_event = e, le_file = file, le_line = line, le_parent_ids = [eid] \<rparr>]"

text \<open>
  The delivery loop. A consumer that panics leaves its mutex poisoned; a poisoned mutex emits an
  audit event and panics.
\<close>

fun deliver_loop ::
  "BusEnv \<Rightarrow> ('s, 'h) EventBus \<Rightarrow> RuntimeEvent \<Rightarrow> EventId \<Rightarrow> 's SyncConsumerEntry list \<Rightarrow> nat \<Rightarrow> 's Delivery" where
  "deliver_loop env b event eid [] delivered =
     \<lparr> dv_result = Delivered delivered, dv_consumers = [], dv_emitted = [], dv_audit = [], dv_receipts = [] \<rparr>"
| "deliver_loop env b event eid (c # cs) delivered =
     (if se_poisoned c then
        \<lparr> dv_result = DispatchPanic
            (''dispatch_consumer_lock_failed: consumer='' @ se_name c @ '' event='' @ event_kind_str event @
             '' delivered='' @ decimal delivered @ ''/'' @ decimal (sync_consumers_len b)),
          dv_consumers = c # cs,
          dv_emitted = emit_bus_error env b eid ''dispatch_consumer_lock_failed''
            (''failed to lock consumer '' @ se_name c @ '' for event '' @ event_kind_str event)
            (JObject [(''event_id'', JString eid), (''event_kind'', JString (event_kind_str event)),
               (''consumer'', JString (se_name c)),
               (''attempted_consumers'', count_value (sync_consumers_len b)),
               (''delivered_consumers'', count_value delivered)]),
          dv_audit = [],
          dv_receipts = [JObject [(''event_id'', JString eid), (''consumer'', JString (se_name c)),
                           (''status'', JString ''lock_failed'')]] \<rparr>
      else
        (case se_consumer c event eid (se_state c) of
           None \<Rightarrow>
             \<lparr> dv_result = DispatchPanic ''consumer panicked'', dv_consumers = c\<lparr>se_poisoned := True\<rparr> # cs,
               dv_emitted = [], dv_audit = [], dv_receipts = [] \<rparr>
         | Some ((outcome, emitted), s') \<Rightarrow>
             (let rest = deliver_loop env b event eid cs (delivered + 1)
              in rest\<lparr>dv_consumers := c\<lparr>se_state := s'\<rparr> # dv_consumers rest,
                      dv_emitted := emitted @ outcome_emission eid outcome @ dv_emitted rest,
                      dv_audit := run_post (eb_hooks b) event outcome @ dv_audit rest,
                      dv_receipts := receipt eid (se_name c) outcome # dv_receipts rest\<rparr>)))"

definition gap_report :: "BusEnv \<Rightarrow> ('s, 'h) EventBus \<Rightarrow> RuntimeEvent \<Rightarrow> EventId \<Rightarrow> 's Delivery \<Rightarrow> LocatedEvent list" where
  "gap_report env b event eid d =
     (case dv_result d of
        DispatchPanic _ \<Rightarrow> []
      | Delivered delivered \<Rightarrow>
          if delivered \<noteq> sync_consumers_len b then
            emit_bus_debug env b eid ''dispatch_delivery_gap''
              (JObject [(''event_id'', JString eid), (''event_kind'', JString (event_kind_str event)),
                 (''attempted_consumers'', count_value (sync_consumers_len b)),
                 (''delivered_consumers'', count_value delivered), (''receipts'', JArray (dv_receipts d))])
          else [])"

definition dispatch ::
  "BusEnv \<Rightarrow> RuntimeEvent \<Rightarrow> EventId \<Rightarrow> ('s, 'h) EventBus
     \<Rightarrow> Dispatched \<times> ('s, 'h) EventBus \<times> LocatedEvent list \<times> (string \<times> string) list" where
  "dispatch env event eid b =
     (case run_pre (eb_hooks b) event (eb_hook_state b) of
        None \<Rightarrow> (DispatchPanic ''hook panicked'', b, [], [])
      | Some (report, st) \<Rightarrow>
          (let b1 = b\<lparr>eb_hook_state := st\<rparr>; (halt, audit) = decide_hooks env event eid report b1
           in case halt of
                Some message \<Rightarrow> (DispatchPanic message, b1, audit, [])
              | None \<Rightarrow>
                  (let d = deliver_loop env b1 event eid (eb_sync_consumers b1) 0
                   in (dv_result d, b1\<lparr>eb_sync_consumers := dv_consumers d\<rparr>,
                       audit @ dv_emitted d @ gap_report env b1 event eid d, dv_audit d))))"


section \<open>Properties\<close>

text \<open>A bus that works: no mutex is poisoned, and no consumer panics on the event.\<close>

definition answers :: "RuntimeEvent \<Rightarrow> EventId \<Rightarrow> 's SyncConsumerEntry \<Rightarrow> bool" where
  "answers event eid c \<longleftrightarrow> \<not> se_poisoned c \<and> se_consumer c event eid (se_state c) \<noteq> None"

definition advance_entry :: "RuntimeEvent \<Rightarrow> EventId \<Rightarrow> 's SyncConsumerEntry \<Rightarrow> 's SyncConsumerEntry" where
  "advance_entry event eid c =
     (case se_consumer c event eid (se_state c) of
        None \<Rightarrow> c | Some (_, s') \<Rightarrow> c\<lparr>se_state := s'\<rparr>)"

definition entry_emissions :: "RuntimeEvent \<Rightarrow> EventId \<Rightarrow> 's SyncConsumerEntry \<Rightarrow> LocatedEvent list" where
  "entry_emissions event eid c =
     (case se_consumer c event eid (se_state c) of
        None \<Rightarrow> [] | Some ((outcome, emitted), _) \<Rightarrow> emitted @ outcome_emission eid outcome)"

lemma deliver_loop_all:
  assumes "list_all (answers event eid) cs"
  shows "dv_result (deliver_loop env b event eid cs n) = Delivered (n + length cs)"
    and "dv_consumers (deliver_loop env b event eid cs n) = map (advance_entry event eid) cs"
    and "dv_emitted (deliver_loop env b event eid cs n) = concat (map (entry_emissions event eid) cs)"
  using assms
  by (induction cs arbitrary: n) (auto simp: answers_def advance_entry_def entry_emissions_def Let_def)

lemma delivered_is_attempted:
  "dv_result (deliver_loop env b event eid cs n) = Delivered m \<Longrightarrow> m = n + length cs"
  by (induction cs arbitrary: n) (fastforce simp: Let_def split: if_splits option.splits)+

text \<open>C34: Protected control events fail closed: when a hook denies or replaces one of the ten protected
  events, or replaces another event by one of them, the dispatch panics, no consumer has seen the
  event, and the veto and the violation are sent to the emitter.\<close>

theorem protected_veto_fails_closed:
  assumes "run_pre (eb_hooks b) event (eb_hook_state b) = Some (report, st)"
    and "case pr_decision report of
           Allow \<Rightarrow> False
         | Deny _ \<Rightarrow> is_protected_control_event event
         | Mutate e' \<Rightarrow> is_protected_control_event event \<or> is_protected_control_event e'"
  shows "\<exists>message emitted. dispatch env event eid b =
      (DispatchPanic message, b\<lparr>eb_hook_state := st\<rparr>, emitted, []) \<and>
    (eb_sync_consumers b \<noteq> [] \<longrightarrow> length emitted = 2 \<and> list_all (\<lambda>l. le_parent_ids l = [eid]) emitted)"
  using assms
  by (cases "pr_decision report")
    (auto simp: dispatch_def decide_hooks_def Let_def emit_bus_debug_def emit_bus_error_def)

text \<open>The veto of a hook on any other event has no effect but an audit event: every registered
  consumer receives the original event, in registration order and whatever its filter, and the
  dispatch counts them all. So neither the cost cap nor the rate limit stops anything: the event
  they deny is delivered. The branch that reports a delivery gap is never taken.\<close>

theorem unprotected_veto_is_ignored:
  assumes "run_pre (eb_hooks b) event (eb_hook_state b) = Some (report, st)"
    and "\<not> is_protected_control_event event"
    and "\<forall>e'. pr_decision report = Mutate e' \<longrightarrow> \<not> is_protected_control_event e'"
    and "list_all (answers event eid) (eb_sync_consumers b)"
  shows "\<exists>audit log_lines. dispatch env event eid b =
      (Delivered (sync_consumers_len b),
       b\<lparr>eb_hook_state := st, eb_sync_consumers := map (advance_entry event eid) (eb_sync_consumers b)\<rparr>,
       audit @ concat (map (entry_emissions event eid) (eb_sync_consumers b)), log_lines) \<and>
    length audit \<le> 1 \<and> (pr_decision report = Allow \<longrightarrow> audit = [])"
proof -
  let ?b = "b\<lparr>eb_hook_state := st\<rparr>"
  note all = deliver_loop_all [OF assms(4), of env ?b 0]
  have decide: "\<exists>audit. decide_hooks env event eid report ?b = (None, audit) \<and> length audit \<le> 1 \<and>
      (pr_decision report = Allow \<longrightarrow> audit = [])"
    using assms(2,3)
    by (cases "pr_decision report") (auto simp: decide_hooks_def Let_def emit_bus_debug_def)
  then obtain audit where "decide_hooks env event eid report ?b = (None, audit)" "length audit \<le> 1"
    "pr_decision report = Allow \<longrightarrow> audit = []" by blast
  moreover have "gap_report env ?b event eid (deliver_loop env ?b event eid (eb_sync_consumers b) 0) = []"
    using all(1) by (simp add: gap_report_def sync_consumers_len_def)
  ultimately show ?thesis
    using assms(1) all
    by (intro exI [of _ audit] exI [of _ "dv_audit (deliver_loop env ?b event eid (eb_sync_consumers b) 0)"])
      (simp add: dispatch_def sync_consumers_len_def Let_def)
qed

text \<open>The cost cap denies exactly when 500 model calls were counted.\<close>

lemma cost_cap_denies:
  assumes "cc_used c \<noteq> - 1"
  shows "cost_cap_on_pre (EvLlm call) c =
    Some (if cc_max_turns c \<le> cc_used c then Deny ''llm_cost_cap_reached'' else Allow, c\<lparr>cc_used := cc_used c + 1\<rparr>)"
proof -
  have "unat (cc_used c) \<noteq> unat (- 1 :: u64)" using assms by (simp add: word_unat_eq_iff)
  moreover have "unat (- 1 :: u64) = 2 ^ 64 - 1" by (simp add: unsigned_minus_1_eq_mask mask_eq_exp_minus_1)
  moreover have "unat (cc_used c) < 2 ^ 64" using unsigned_less [of "cc_used c"] by simp
  ultimately have "unat (cc_used c) + 1 < 2 ^ 64" by linarith
  then have "checked_add (cc_used c) 1 = Some (cc_used c + 1)" and "unat (cc_used c + 1) = unat (cc_used c) + 1"
    by (simp_all add: checked_add_def unat_word_ariths)
  then show ?thesis by (simp add: cost_cap_on_pre_def word_less_nat_alt word_le_nat_alt less_Suc_eq_le not_le)
qed

definition sample_call :: RuntimeEvent where
  "sample_call = EvLlm
     \<lparr> llm_request_id = ''r'', llm_prompt = ''p'', llm_role = None, llm_agent_id = None,
       llm_dispatched = True, llm_system = None, llm_system_prompt_id = None, llm_context_base = None,
       llm_context_base_id = None, llm_prompt_base_id = None, llm_prev_prompt_id = None \<rparr>"

text \<open>A consumer that counts its events.\<close>

definition counting_consumer :: "nat consumer" where
  "counting_consumer event eid n = Some ((NoOp ''counting_consumer_observed'', []), n + 1)"

definition capped_bus :: "(nat, CostCapHook) EventBus" where
  "capped_bus =
     register_consumer ''healthy'' counting_consumer FilterAll id 0
       (new_bus (add_pre (''cost_cap'', cost_cap_on_pre) new_hook_chain) (new_cost_cap\<lparr>cc_used := 500\<rparr>))"

lemmas capped_bus_eval =
  capped_bus_def register_consumer_def new_bus_def add_pre_def new_hook_chain_def run_pre_def new_cost_cap_def

lemma capped_bus_denies:
  "run_pre (eb_hooks capped_bus) sample_call (eb_hook_state capped_bus) =
     Some (\<lparr> pr_hook_name = Some ''cost_cap'', pr_decision = Deny ''llm_cost_cap_reached'' \<rparr>,
           \<lparr> cc_max_turns = 500, cc_used = 501 \<rparr>)"
  by (simp add: capped_bus_eval sample_call_def cost_cap_denies)

lemma capped_bus_answers: "list_all (answers e i) (eb_sync_consumers capped_bus)"
  by (simp add: capped_bus_eval answers_def counting_consumer_def)

lemma sample_call_unprotected: "\<not> is_protected_control_event sample_call"
  by (simp add: is_protected_control_event_def protected_kinds_def sample_call_def)

theorem unprotected_veto_is_ignored_witness:
  "fst (dispatch \<lparr> be_file = ''bus.rs'', be_uuid = ''u'' \<rparr> sample_call ''e'' capped_bus) = Delivered 1 \<and>
   map se_state (eb_sync_consumers
     (fst (snd (dispatch \<lparr> be_file = ''bus.rs'', be_uuid = ''u'' \<rparr> sample_call ''e'' capped_bus)))) = [1]"
  using unprotected_veto_is_ignored [OF capped_bus_denies sample_call_unprotected _ capped_bus_answers,
      of "\<lparr> be_file = ''bus.rs'', be_uuid = ''u'' \<rparr>" "''e''"]
  by (auto simp: capped_bus_eval sync_consumers_len_def advance_entry_def counting_consumer_def)

definition deny_ticks :: "unit pre_hook" where
  "deny_ticks = (''deny_tick_hook'',
     \<lambda>e st. Some (if event_kind e = Tick then Deny ''deny_tick_for_test'' else Allow, st))"

definition deny_bus :: "(nat, unit) EventBus" where
  "deny_bus = register_consumer ''healthy'' counting_consumer FilterAll id 0
     (new_bus (add_pre deny_ticks new_hook_chain) ())"

definition sample_tick :: RuntimeEvent where
  "sample_tick = EvTick \<lparr> tk_tick = 1, tk_emitted = True \<rparr>"

lemma deny_bus_denies:
  "run_pre (eb_hooks deny_bus) sample_tick (eb_hook_state deny_bus) =
     Some (\<lparr> pr_hook_name = Some ''deny_tick_hook'', pr_decision = Deny ''deny_tick_for_test'' \<rparr>, ())"
  by (simp add: deny_bus_def deny_ticks_def sample_tick_def register_consumer_def new_bus_def add_pre_def
      new_hook_chain_def run_pre_def)

theorem protected_veto_fails_closed_witness:
  "\<exists>message emitted. dispatch \<lparr> be_file = ''bus.rs'', be_uuid = ''u'' \<rparr> sample_tick ''e'' deny_bus =
     (DispatchPanic message, deny_bus\<lparr>eb_hook_state := ()\<rparr>, emitted, []) \<and> length emitted = 2"
proof -
  have "is_protected_control_event sample_tick"
    by (simp add: is_protected_control_event_def protected_kinds_def sample_tick_def)
  then have "case pr_decision \<lparr> pr_hook_name = Some ''deny_tick_hook'', pr_decision = Deny ''deny_tick_for_test'' \<rparr> of
      Allow \<Rightarrow> False | Deny _ \<Rightarrow> is_protected_control_event sample_tick
    | Mutate e' \<Rightarrow> is_protected_control_event sample_tick \<or> is_protected_control_event e'" by simp
  moreover have "eb_sync_consumers deny_bus \<noteq> []" by (simp add: deny_bus_def register_consumer_def)
  ultimately show ?thesis
    using protected_veto_fails_closed [OF deny_bus_denies, of "\<lparr> be_file = ''bus.rs'', be_uuid = ''u'' \<rparr>" "''e''"]
    by blast
qed

end
