(* ===== verification/Float_Rounding.thy ===== *)
theory Float_Rounding
  imports Canon_Prelude "HOL-Library.Log_Nat"
begin

text \<open>
  Rounding of a positive rational to a number of significant bits, half to even, as the
  conversions and divisions of \<^verbatim>\<open>f32\<close> (24 bits) and \<^verbatim>\<open>f64\<close> (53 bits) do it, for values
  inside the normal range of the format.
\<close>

section \<open>Rounding to a number of bits\<close>

definition floor_log2 :: "rat \<Rightarrow> int" where
  "floor_log2 x =
     (case quotient_of x of (p, q) \<Rightarrow>
        (let e = bitlen p - bitlen q in if 2 powi e \<le> x then e else e - 1))"

definition round_half_even :: "rat \<Rightarrow> int" where
  "round_half_even r =
     (let n = \<lfloor>r\<rfloor>; d = r - of_int n
      in if d < 1 / 2 then n else if 1 / 2 < d then n + 1 else if even n then n else n + 1)"

definition round_bits :: "nat \<Rightarrow> rat \<Rightarrow> rat" where
  "round_bits p x =
     (if x \<le> 0 then 0
      else let u = floor_log2 x - int p + 1 in of_int (round_half_even (x / 2 powi u)) * 2 powi u)"

end
