(* ===== verification/Invariant_Engine.thy ===== *)
theory Invariant_Engine
  imports Runtime_Events Float_Rounding
begin

text \<open>
  The statistical invariants of the runtime (\<^verbatim>\<open>canon-runtime/src/invariants.rs\<close>): how often a
  feature of consecutive events stays the same, the discovery of a feature as an invariant, the
  rejection of an event that breaks one, and the structural check before an append. Hashing and
  the text of a JSON value are parameters. The confidence is the quotient of two counters in
  double precision: both conversions and the division round to 53 bits, half to even; the
  values lie between \<open>2\<^sup>-\<^sup>6\<^sup>4\<close> and \<open>2\<^sup>6\<^sup>4\<close>, so neither overflow nor underflow occurs.
\<close>

section \<open>Statistics\<close>

record Stat =
  sta_zero_count :: u64
  sta_total :: u64

definition stat_update :: "bool \<Rightarrow> Stat \<Rightarrow> Stat" where
  "stat_update delta_is_zero s =
     s\<lparr>sta_zero_count := (if delta_is_zero then saturating_add (sta_zero_count s) 1 else sta_zero_count s),
       sta_total := saturating_add (sta_total s) 1\<rparr>"

definition u64_as_f64 :: "u64 \<Rightarrow> rat" where
  "u64_as_f64 n = round_bits 53 (of_nat (unat n))"

definition confidence :: "Stat \<Rightarrow> f64" where
  "confidence s =
     (if sta_total s = 0 then Finite 0
      else Finite (round_bits 53 (u64_as_f64 (sta_zero_count s) / u64_as_f64 (sta_total s))))"

record FeatureEnv =
  fe_kind_hash :: "EventKind \<Rightarrow> int"
  fe_actor_hash :: "string \<Rightarrow> int"
  fe_to_string :: "json \<Rightarrow> string"

record Feature =
  ft_name :: string
  ft_extractor :: "CanonEvent \<Rightarrow> int"

definition len_parent_ids :: "CanonEvent \<Rightarrow> int" where
  "len_parent_ids ev = int (length (ev_parent_ids ev))"

definition delta_size :: "FeatureEnv \<Rightarrow> CanonEvent \<Rightarrow> int" where
  "delta_size env ev = int (length (fe_to_string env (pl_delta (ev_payload ev))))"

definition kind_hash :: "FeatureEnv \<Rightarrow> CanonEvent \<Rightarrow> int" where
  "kind_hash env ev = fe_kind_hash env (ev_kind ev)"

definition actor_hash :: "FeatureEnv \<Rightarrow> CanonEvent \<Rightarrow> int" where
  "actor_hash env ev = fe_actor_hash env (ev_actor ev)"

record EngineConfig =
  ec_theta :: f64
  ec_min_support :: u64
  ec_enforce :: bool
  ec_max_history :: nat

text \<open>The literal \<open>0.98\<close> is the nearest double.\<close>

definition default_engine_config :: EngineConfig where
  "default_engine_config =
     \<lparr> ec_theta = Finite (round_bits 53 (98 / 100)), ec_min_support = 50, ec_enforce = False,
       ec_max_history = 2048 \<rparr>"

fun clamp_unit :: "f64 \<Rightarrow> f64" where
  "clamp_unit (Finite x) = Finite (max 0 (min 1 x))"
| "clamp_unit Pos_Inf = Finite 1"
| "clamp_unit Neg_Inf = Finite 0"
| "clamp_unit NaN = NaN"

text \<open>The environment variables after parsing; one that is unset or does not parse is \<^const>\<open>None\<close>.\<close>

definition config_from_env :: "f64 option \<Rightarrow> u64 option \<Rightarrow> string option \<Rightarrow> nat option \<Rightarrow> EngineConfig" where
  "config_from_env theta support enforce history =
     (let cfg = default_engine_config
      in cfg\<lparr>ec_theta := (case theta of None \<Rightarrow> ec_theta cfg | Some f \<Rightarrow> clamp_unit f),
             ec_min_support := or_else support (ec_min_support cfg),
             ec_enforce := (case enforce of
                 None \<Rightarrow> ec_enforce cfg
               | Some v \<Rightarrow> v \<in> {''1'', ''true'', ''TRUE'', ''yes'', ''on''}),
             ec_max_history := (case history of
                 None \<Rightarrow> ec_max_history cfg | Some u \<Rightarrow> min (max u 64) 16384)\<rparr>)"

record InvariantEngine =
  ie_features :: "Feature list"
  ie_prev :: "CanonEvent list"
  ie_stats :: "(string \<times> Stat) list"
  ie_invariants :: "string set"
  ie_cfg :: EngineConfig

definition new_engine :: "FeatureEnv \<Rightarrow> EngineConfig \<Rightarrow> InvariantEngine" where
  "new_engine env cfg =
     \<lparr> ie_features =
         [\<lparr> ft_name = ''parent_count'', ft_extractor = len_parent_ids \<rparr>,
          \<lparr> ft_name = ''delta_size'', ft_extractor = delta_size env \<rparr>,
          \<lparr> ft_name = ''kind_hash'', ft_extractor = kind_hash env \<rparr>,
          \<lparr> ft_name = ''actor_hash'', ft_extractor = actor_hash env \<rparr>],
       ie_prev = [], ie_stats = [], ie_invariants = {}, ie_cfg = cfg \<rparr>"

section \<open>Observation\<close>

record EngineLoc =
  el_file :: string
  el_uuid :: string

definition engine_record ::
  "EngineLoc \<Rightarrow> string \<Rightarrow> bool \<Rightarrow> EventId \<Rightarrow> InvariantEngine \<Rightarrow> bool \<times> LocatedEvent list \<times> InvariantEngine" where
  "engine_record loc feature delta_zero parent e =
     (let entry = stat_update delta_zero (or_else (map_of (ie_stats e) feature) \<lparr> sta_zero_count = 0, sta_total = 0 \<rparr>);
          e1 = e\<lparr>ie_stats := AList.update feature entry (ie_stats e)\<rparr>
      in if f32_le (ec_theta (ie_cfg e)) (confidence entry) \<and> ec_min_support (ie_cfg e) \<le> sta_total entry \<and>
            feature \<notin> ie_invariants e
         then (True,
               [\<lparr> le_event = EvInvariantDiscovered
                    \<lparr> ivd_feature = feature, ivd_confidence = confidence entry, ivd_support = sta_total entry \<rparr>,
                  le_file = el_file loc, le_line = 121, le_parent_ids = [parent] \<rparr>],
               e1\<lparr>ie_invariants := insert feature (ie_invariants e)\<rparr>)
         else if ec_enforce (ie_cfg e) \<and> feature \<in> ie_invariants e \<and> \<not> delta_zero
         then (False,
               [\<lparr> le_event = EvErrorOccurred
                    (new_error_occurred (el_uuid loc) ''invariant_violation'' ''invariant-engine''
                      (''invariant '' @ feature @ '' violated'') ''error''
                      (JObject [(''feature'', JString feature), (''delta_zero'', JBool delta_zero),
                         (''support'', JNumber (PosInt (sta_total entry)))]) None),
                  le_file = el_file loc, le_line = 133, le_parent_ids = [parent] \<rparr>], e1)
         else (True, [], e1))"

text \<open>The loop over the features; after the first violation the rest is not recorded.\<close>

fun observe_features ::
  "EngineLoc \<Rightarrow> CanonEvent \<Rightarrow> CanonEvent \<Rightarrow> Feature list \<Rightarrow> InvariantEngine
     \<Rightarrow> bool \<times> LocatedEvent list \<times> InvariantEngine" where
  "observe_features loc event prev [] e = (True, [], e)"
| "observe_features loc event prev (f # fs) e =
     (let (ok, out, e1) =
            engine_record loc (ft_name f) (ft_extractor f event = ft_extractor f prev) (ev_id event) e
      in if \<not> ok then (False, out, e1)
         else (let (ok2, out2, e2) = observe_features loc event prev fs e1 in (ok2, out @ out2, e2)))"

definition observe :: "EngineLoc \<Rightarrow> CanonEvent \<Rightarrow> InvariantEngine \<Rightarrow> bool \<times> LocatedEvent list \<times> InvariantEngine" where
  "observe loc event e =
     (let (ok, out, e1) =
            (if ie_prev e = [] then (True, [], e)
             else observe_features loc event (last (ie_prev e)) (ie_features e) e);
          pushed = ie_prev e1 @ [event]
      in (ok, out, e1\<lparr>ie_prev := (if ec_max_history (ie_cfg e1) < length pushed then tl pushed else pushed)\<rparr>))"

definition validate_before_append :: "RuntimeEvent \<Rightarrow> EventId list \<Rightarrow> string option" where
  "validate_before_append event parent_ids =
     (let kind = event_kind_str event;
          lawful_root_seed = (event_kind event \<in> {Tick, RouteTick, RouteSelected})
      in if kind = [] then Some ''invalid_event_kind''
         else if kind \<noteq> ''root'' \<and> \<not> lawful_root_seed \<and> parent_ids = [] then Some ''missing_parent_ids''
         else if kind = ''effect'' \<and> parent_ids = [] then Some ''orphan_effect_event''
         else None)"

section \<open>Properties\<close>

fun observe_all ::
  "EngineLoc \<Rightarrow> CanonEvent list \<Rightarrow> InvariantEngine \<Rightarrow> bool list \<times> LocatedEvent list \<times> InvariantEngine" where
  "observe_all loc [] e = ([], [], e)"
| "observe_all loc (x # xs) e =
     (let (ok, out, e1) = observe loc x e; (oks, outs, e2) = observe_all loc xs e1
      in (ok # oks, out @ outs, e2))"

fun discovery :: "LocatedEvent \<Rightarrow> InvariantDiscovered option" where
  "discovery l = (case le_event l of EvInvariantDiscovered d \<Rightarrow> Some d | _ \<Rightarrow> None)"

definition discoveries :: "LocatedEvent list \<Rightarrow> InvariantDiscovered list" where
  "discoveries ls = List.map_filter discovery ls"

lemma discoveries_append [simp]: "discoveries (xs @ ys) = discoveries xs @ discoveries ys"
  by (simp add: discoveries_def List.map_filter_def)

lemma discoveries_Nil [simp]: "discoveries [] = []"
  by (simp add: discoveries_def List.map_filter_def)

lemma discoveries_Cons [simp]:
  "discoveries (l # ls) = (case discovery l of None \<Rightarrow> discoveries ls | Some d \<Rightarrow> d # discoveries ls)"
  by (simp add: discoveries_def List.map_filter_def split: option.split)

text \<open>
  What one step and hence any run guarantees: the new invariants are those announced, each
  once, with the support and the confidence the configuration asks for.
\<close>

definition announces :: "InvariantEngine \<Rightarrow> LocatedEvent list \<Rightarrow> InvariantEngine \<Rightarrow> bool" where
  "announces e out e' \<longleftrightarrow>
     ie_cfg e' = ie_cfg e \<and> ie_features e' = ie_features e \<and>
     distinct (map ivd_feature (discoveries out)) \<and>
     set (map ivd_feature (discoveries out)) \<inter> ie_invariants e = {} \<and>
     ie_invariants e' = ie_invariants e \<union> set (map ivd_feature (discoveries out)) \<and>
     (\<forall>d \<in> set (discoveries out). ec_min_support (ie_cfg e) \<le> ivd_support d \<and>
        f32_le (ec_theta (ie_cfg e)) (ivd_confidence d))"

lemma announces_refl: "announces e [] e"
  by (simp add: announces_def)

lemma announces_trans: "announces e out e1 \<Longrightarrow> announces e1 out2 e2 \<Longrightarrow> announces e (out @ out2) e2"
  by (auto simp: announces_def)

lemma announces_keeps:
  "announces e out e' \<Longrightarrow> ie_cfg e' = ie_cfg e" "announces e out e' \<Longrightarrow> ie_invariants e \<subseteq> ie_invariants e'"
  by (auto simp: announces_def)

lemma announces_prev [simp]: "announces e out (e'\<lparr>ie_prev := p\<rparr>) = announces e out e'"
  by (simp add: announces_def)

lemma engine_record_announces:
  "engine_record loc f z p e = (ok, out, e') \<Longrightarrow> announces e out e'"
  by (auto simp: engine_record_def announces_def Let_def split: if_splits)

lemma engine_record_rejects:
  "engine_record loc f z p e = (False, out, e') \<Longrightarrow> ec_enforce (ie_cfg e) \<and> f \<in> ie_invariants e"
  by (auto simp: engine_record_def Let_def split: if_splits)

lemma engine_record_prev: "engine_record loc f z p e = (ok, out, e') \<Longrightarrow> ie_prev e' = ie_prev e"
  by (auto simp: engine_record_def Let_def split: if_splits)

lemma observe_features_announces:
  "observe_features loc x prev fs e = (ok, out, e') \<Longrightarrow> announces e out e' \<and> ie_prev e' = ie_prev e \<and>
     (\<not> ok \<longrightarrow> ec_enforce (ie_cfg e) \<and> (\<exists>f \<in> set fs. ft_name f \<in> ie_invariants e'))"
proof (induction fs arbitrary: e ok out e')
  case (Cons f fs)
  obtain ok1 out1 e1 where step:
    "engine_record loc (ft_name f) (ft_extractor f x = ft_extractor f prev) (ev_id x) e = (ok1, out1, e1)"
    by (metis prod_cases3)
  note one = engine_record_announces [OF step] engine_record_prev [OF step]
  show ?case
  proof (cases ok1)
    case False
    with Cons.prems step have "ok = False \<and> out = out1 \<and> e' = e1" by (simp add: Let_def)
    with one engine_record_rejects [of loc "ft_name f" _ _ e out1 e1] step False show ?thesis
      by (auto simp: announces_def)
  next
    case True
    obtain ok2 out2 e2 where rest: "observe_features loc x prev fs e1 = (ok2, out2, e2)"
      by (metis prod_cases3)
    with Cons.prems step True have "ok = ok2" "out = out1 @ out2" "e' = e2" by (simp_all add: Let_def)
    with Cons.IH [OF rest] one announces_trans [OF one(1)] announces_keeps(1) [OF one(1)] show ?thesis
      by auto
  qed
qed (simp add: announces_refl)

lemma observe_announces:
  assumes "observe loc x e = (ok, out, e')" and "length (ie_prev e) \<le> ec_max_history (ie_cfg e)"
  shows "announces e out e'" and "length (ie_prev e') \<le> ec_max_history (ie_cfg e')"
    and "\<not> ok \<Longrightarrow> ec_enforce (ie_cfg e) \<and> ie_invariants e' \<noteq> {}"
proof -
  obtain ok1 out1 e1 where step:
    "(if ie_prev e = [] then (True, [], e) else observe_features loc x (last (ie_prev e)) (ie_features e) e) = (ok1, out1, e1)"
    by (metis prod_cases3)
  have feats: "announces e out1 e1 \<and> ie_prev e1 = ie_prev e \<and> (\<not> ok1 \<longrightarrow> ec_enforce (ie_cfg e) \<and> ie_invariants e1 \<noteq> {})"
    using step observe_features_announces [of loc x "last (ie_prev e)" "ie_features e" e ok1 out1 e1]
    by (auto simp: announces_refl split: if_splits)
  have eq: "ok = ok1" "out = out1"
    "e' = e1\<lparr>ie_prev := (if ec_max_history (ie_cfg e1) < length (ie_prev e1 @ [x]) then tl (ie_prev e1 @ [x])
              else ie_prev e1 @ [x])\<rparr>"
    using assms(1) step by (simp_all add: observe_def Let_def)
  with feats show "announces e out e'" by simp
  show "length (ie_prev e') \<le> ec_max_history (ie_cfg e')"
    using assms(2) feats eq(3) by (auto simp: announces_def)
  show "ec_enforce (ie_cfg e) \<and> ie_invariants e' \<noteq> {}" if "\<not> ok"
    using that eq feats by simp
qed

lemma observe_all_announces:
  assumes "observe_all loc xs e = (oks, out, e')" and "length (ie_prev e) \<le> ec_max_history (ie_cfg e)"
  shows "announces e out e' \<and> length (ie_prev e') \<le> ec_max_history (ie_cfg e') \<and>
    (False \<in> set oks \<longrightarrow> ec_enforce (ie_cfg e) \<and> ie_invariants e' \<noteq> {})"
  using assms
proof (induction xs arbitrary: e oks out e')
  case (Cons x xs)
  obtain ok out1 e1 where step: "observe loc x e = (ok, out1, e1)" by (metis prod_cases3)
  obtain oks2 out2 e2 where rest: "observe_all loc xs e1 = (oks2, out2, e2)" by (metis prod_cases3)
  note one = observe_announces [OF step Cons.prems(2)]
  have eq: "oks = ok # oks2" "out = out1 @ out2" "e' = e2" using Cons.prems(1) step rest by (simp_all add: Let_def)
  have ih: "announces e1 out2 e2" "length (ie_prev e2) \<le> ec_max_history (ie_cfg e2)"
    "False \<in> set oks2 \<Longrightarrow> ec_enforce (ie_cfg e1) \<and> ie_invariants e2 \<noteq> {}"
    using Cons.IH [OF rest one(2)] by blast+
  have "False \<in> set oks \<Longrightarrow> ec_enforce (ie_cfg e) \<and> ie_invariants e2 \<noteq> {}"
    using eq(1) one(3) ih(3) announces_keeps(1) [OF one(1)] announces_keeps(2) [OF ih(1)] by auto
  with eq ih announces_trans [OF one(1) ih(1)] show ?case by blast
qed (simp add: announces_refl)

text \<open>C35: A feature is discovered at most once and never without its support: in every run of a fresh
  engine the announced invariants are distinct and are exactly the learned ones, each announced
  with at least the minimal support and the required confidence; the history stays within its
  bound. An event is rejected only in enforcing mode and after an invariant was learned, so with
  the default configuration none ever is.\<close>

theorem invariants_are_discovered_once:
  assumes "observe_all loc xs (new_engine env cfg) = (oks, out, e)"
  shows "distinct (map ivd_feature (discoveries out)) \<and>
    ie_invariants e = set (map ivd_feature (discoveries out)) \<and>
    (\<forall>d \<in> set (discoveries out). ec_min_support cfg \<le> ivd_support d \<and> f32_le (ec_theta cfg) (ivd_confidence d)) \<and>
    length (ie_prev e) \<le> ec_max_history cfg \<and>
    (False \<in> set oks \<longrightarrow> ec_enforce cfg \<and> discoveries out \<noteq> [])"
  using observe_all_announces [OF assms] by (auto simp: announces_def new_engine_def)

definition sample_event :: CanonEvent where
  "sample_event =
     \<lparr> ev_id = ''e1'', ev_parent_ids = [''p''], ev_actor = ''plan'', ev_kind = LoopPlanned, ev_ts = 1,
       ev_payload = \<lparr> pl_input = JObject [], pl_output = JObject [], pl_delta = JNull,
         pl_meta = \<lparr> pm_file = '''', pm_line = 0 \<rparr>, pl_data = JNull \<rparr>,
       ev_prev_event_id = None \<rparr>"

definition sample_features :: FeatureEnv where
  "sample_features = \<lparr> fe_kind_hash = (\<lambda>_. 0), fe_actor_hash = (\<lambda>s. int (length s)), fe_to_string = (\<lambda>_. ''null'') \<rparr>"

definition eager_config :: EngineConfig where
  "eager_config = \<lparr> ec_theta = Finite 1, ec_min_support = 1, ec_enforce = True, ec_max_history = 64 \<rparr>"

definition sample_run :: "bool list \<times> LocatedEvent list \<times> InvariantEngine" where
  "sample_run = observe_all \<lparr> el_file = ''invariants.rs'', el_uuid = ''u'' \<rparr> [sample_event, sample_event]
     (new_engine sample_features eager_config)"

lemma round_bits_one: "round_bits 53 1 = 1"
  by code_simp

lemma sample_run_discovers: "length (discoveries (fst (snd sample_run))) = 4"
  by (simp add: sample_run_def sample_features_def eager_config_def sample_event_def new_engine_def
      observe_def engine_record_def stat_update_def confidence_def u64_as_f64_def saturating_add_def
      round_bits_one Let_def len_parent_ids_def delta_size_def kind_hash_def actor_hash_def f32_le_def)

theorem invariants_are_discovered_once_witness:
  "length (discoveries (fst (snd sample_run))) = 4 \<and>
   ie_invariants (snd (snd sample_run)) = set (map ivd_feature (discoveries (fst (snd sample_run))))"
proof -
  obtain oks out e where run: "sample_run = (oks, out, e)" by (metis prod_cases3)
  from invariants_are_discovered_once [OF this [unfolded sample_run_def]] sample_run_discovers
  show ?thesis unfolding run by simp
qed

lemma validate_before_append_iff:
  "validate_before_append event parents =
     (if parents = [] \<and> event_kind event \<notin> {Tick, RouteTick, RouteSelected} then Some ''missing_parent_ids'' else None)"
  by (cases event) (simp_all add: validate_before_append_def)

end
