(* ===== verification/Event_Runtime.thy ===== *)
theory Event_Runtime
  imports Event_Shape Event_Bus Invariant_Engine Tlog_Properties
begin

text \<open>
  The event runtime (\<^verbatim>\<open>canon-runtime/src/lib.rs\<close>): a typed event is checked, appended to the log
  and dispatched to the consumers; what consumers, bus and invariant engine emit is queued and
  handled in turn. Tracing output is left out.

  Identifiers and clock readings come from sequences of the environment, indexed by a counter
  in the state. Handling an event drains the queue, which handles further events: the functions
  take a fuel argument that bounds the depth of this recursion, and running out of it is a
  result of its own. A panic, an error value and a call that never returns are results too.
  The log path is always a segment directory: \<^verbatim>\<open>set_tlog_path\<close> panics on any other.
\<close>

section \<open>State\<close>

datatype RuntimeMode = Running | FatalInvariantHalt string

record ('s, 'h) EventRuntime =
  er_state :: RustcState
  er_bus :: "('s, 'h) EventBus"
  er_tlog_writer :: "BinarySegmentWriter option"
  er_next_id :: u64
  er_tick :: u64
  er_runtime_tick :: u64
  er_runtime_state :: json
  er_last_route_tick_emitted :: u64
  er_execute_capabilities :: bool
  er_queue :: "LocatedEvent list"
  er_replay_blocked :: bool
  er_observed_events :: "RuntimeEvent list"
  er_dispatched_ids :: "EventId set"
  er_last_kind_hash :: "(EventKind \<times> u64) list"
  er_last_event_id_per_kind :: "(EventKind \<times> EventId) list"
  er_last_written_event_id :: "EventId option"
  er_last_loop_observed_tick :: "u64 option"
  er_pending_loop_observed :: "LoopObserved option"
  er_route_tick_append_seen :: bool
  er_invariant_engine :: InvariantEngine
  er_mode :: RuntimeMode
  er_fresh :: nat

record RuntimeEnv =
  rn_shape :: ShapeEnv
  rn_writer :: WriterEnv
  rn_now :: "nat \<Rightarrow> u64"
  rn_id :: "nat \<Rightarrow> EventId"
  rn_ambient :: "nat \<Rightarrow> Ambient"
  rn_content_hash :: "EventKind \<Rightarrow> json \<Rightarrow> u64"
  rn_count_hash :: count_hash
  rn_features :: FeatureEnv
  rn_file :: string
  rn_bus_file :: string
  rn_rustc_event :: "json \<Rightarrow> RustcEvent option"
  rn_edit_event :: "json \<Rightarrow> EditEvent option"
  rn_decode :: "EventKind \<Rightarrow> json \<Rightarrow> RuntimeEvent option"

definition new_runtime :: "RuntimeEnv \<Rightarrow> EngineConfig \<Rightarrow> ('s, 'h) EventBus \<Rightarrow> ('s, 'h) EventRuntime" where
  "new_runtime env cfg bus =
     \<lparr> er_state = empty_state, er_bus = bus, er_tlog_writer = None, er_next_id = 0, er_tick = 0,
       er_runtime_tick = 0, er_runtime_state = JObject [], er_last_route_tick_emitted = 0,
       er_execute_capabilities = False, er_queue = [], er_replay_blocked = False,
       er_observed_events = [], er_dispatched_ids = {}, er_last_kind_hash = [],
       er_last_event_id_per_kind = [], er_last_written_event_id = None,
       er_last_loop_observed_tick = None, er_pending_loop_observed = None,
       er_route_tick_append_seen = False, er_invariant_engine = new_engine (rn_features env) cfg,
       er_mode = Running, er_fresh = 0 \<rparr>"

definition set_execute_capabilities :: "bool \<Rightarrow> ('s, 'h) EventRuntime \<Rightarrow> ('s, 'h) EventRuntime" where
  "set_execute_capabilities enabled s = s\<lparr>er_execute_capabilities := enabled\<rparr>"

definition set_hooks :: "'h HookChain \<Rightarrow> ('s, 'h) EventRuntime \<Rightarrow> ('s, 'h) EventRuntime" where
  "set_hooks hooks s = s\<lparr>er_bus := bus_set_hooks hooks (er_bus s)\<rparr>"

definition set_next_id :: "u64 \<Rightarrow> ('s, 'h) EventRuntime \<Rightarrow> ('s, 'h) EventRuntime" where
  "set_next_id n s = s\<lparr>er_next_id := n\<rparr>"

definition runtime_reset :: "('s, 'h) EventRuntime \<Rightarrow> ('s, 'h) EventRuntime" where
  "runtime_reset s =
     s\<lparr>er_state := empty_state, er_tick := 0, er_runtime_tick := 0, er_runtime_state := JObject [],
       er_last_route_tick_emitted := 0, er_replay_blocked := False, er_observed_events := [],
       er_dispatched_ids := {}, er_last_kind_hash := [], er_last_event_id_per_kind := [],
       er_last_written_event_id := None, er_mode := Running\<rparr>"

definition take_observed_events :: "('s, 'h) EventRuntime \<Rightarrow> RuntimeEvent list \<times> ('s, 'h) EventRuntime" where
  "take_observed_events s = (er_observed_events s, s\<lparr>er_observed_events := []\<rparr>)"

text \<open>Opening the log; \<^const>\<open>None\<close> is the panic of a path that is no segment directory or of a
  writer that does not open.\<close>

definition set_tlog_path ::
  "RuntimeEnv \<Rightarrow> bool \<Rightarrow> directory \<Rightarrow> ('s, 'h) EventRuntime \<Rightarrow> ('s, 'h) EventRuntime option" where
  "set_tlog_path env is_segment_dir_path dir s =
     (if \<not> is_segment_dir_path then None
      else map_option (\<lambda>w. s\<lparr>er_tlog_writer := Some w\<rparr>)
             (open_with_config (rn_writer env) dir default_segment_config))"

section \<open>Classification of events\<close>

text \<open>The control driver events, which bypass every rejection.\<close>

definition is_driver :: "RuntimeEvent \<Rightarrow> bool" where
  "is_driver e \<longleftrightarrow> event_kind e \<in> {Tick, RouteTick, RouteSelected, LoopObserved}"

text \<open>What the emitter lets through while a replay is running.\<close>

definition passes_replay :: "RuntimeEvent \<Rightarrow> bool" where
  "passes_replay e \<longleftrightarrow> is_driver e \<or> event_kind e = EventKind.Debug"

definition runtime_emit :: "LocatedEvent list \<Rightarrow> ('s, 'h) EventRuntime \<Rightarrow> ('s, 'h) EventRuntime" where
  "runtime_emit ls s =
     s\<lparr>er_queue := er_queue s @ filter (\<lambda>l. er_replay_blocked s \<longrightarrow> passes_replay (le_event l)) ls\<rparr>"

definition is_allowed_during_fatal_halt :: "RuntimeEvent \<Rightarrow> bool" where
  "is_allowed_during_fatal_halt e \<longleftrightarrow>
     event_kind e \<in> {Code, ErrorOccurred, EventKind.Debug, RuntimeStateUpdated, Tick, RouteTick, RouteSelected}"

definition recovery_names :: "string list" where
  "recovery_names = [''recovery_event'', ''reset_event'', ''override_event'']"

fun recovery_signal_reason :: "RuntimeEvent \<Rightarrow> string option" where
  "recovery_signal_reason (EvErrorOccurred err) =
     (if err_kind err \<in> set recovery_names then Some (err_kind err) else None)"
| "recovery_signal_reason (EvDebug d) = (if dbg_kind d \<in> set recovery_names then Some (dbg_kind d) else None)"
| "recovery_signal_reason _ = None"

definition fatal_messages :: "string list" where
  "fatal_messages =
     [''duplicate event within dedup window'', ''illegal transition'', ''missing required successor'',
      ''invalid_retry'', ''id is empty'', ''payload input/output/delta must be non-null'',
      ''delta is zero / empty'']"

fun violation_message :: "RuntimeEvent \<Rightarrow> string option" where
  "violation_message (EvCode c) =
     (case dl_event (cd_delta c) of RInvariantViolation v \<Rightarrow> Some (iv_message v) | _ \<Rightarrow> None)"
| "violation_message _ = None"

definition fatal_invariant_reason :: "RuntimeEvent \<Rightarrow> string option" where
  "fatal_invariant_reason e =
     (case violation_message e of
        None \<Rightarrow> None
      | Some msg \<Rightarrow> if list_ex (str_contains msg) fatal_messages then Some msg else None)"

fun is_fatal_halt_active :: "RuntimeMode \<Rightarrow> bool" where
  "is_fatal_halt_active Running = False"
| "is_fatal_halt_active (FatalInvariantHalt _) = True"

fun fatal_halt_reason :: "RuntimeMode \<Rightarrow> string option" where
  "fatal_halt_reason Running = None"
| "fatal_halt_reason (FatalInvariantHalt reason) = Some reason"

fun runtime_mode_update_payload :: "RuntimeMode \<Rightarrow> json" where
  "runtime_mode_update_payload Running =
     JObject [(''runtime_mode'', JString ''running''), (''fatal_invariant'', JBool False)]"
| "runtime_mode_update_payload (FatalInvariantHalt reason) =
     JObject [(''runtime_mode'', JString ''fatal_invariant_halt''), (''fatal_invariant'', JBool True),
       (''fatal_invariant_reason'', JString reason)]"

definition SILENT_KINDS :: "string list" where
  "SILENT_KINDS =
     [''debug'', ''runtime_state_updated'', ''code'', ''edit'', ''analysis'', ''cargo'', ''file'', ''bash'', ''llm'']"

section \<open>Append\<close>

datatype RunResult = RunOk | RunErr string | RunPanic string | RunHang | RunFuel

definition fresh_id :: "RuntimeEnv \<Rightarrow> ('s, 'h) EventRuntime \<Rightarrow> EventId \<times> ('s, 'h) EventRuntime" where
  "fresh_id env s = (rn_id env (er_fresh s), s\<lparr>er_fresh := er_fresh s + 1\<rparr>)"

text \<open>The duplicate gate in front of the writer: kinds whose last written data hash is the same.\<close>

definition deduplicated :: "RuntimeEvent \<Rightarrow> CanonEvent \<Rightarrow> bool" where
  "deduplicated e wire \<longleftrightarrow>
     ev_kind wire \<noteq> RouteTick \<and> event_class (ev_kind wire) \<noteq> Control \<and> \<not> is_driver e"

text \<open>The last part of the append: the chain pointers and the write; a failed write panics.\<close>

definition write_wire ::
  "RuntimeEnv \<Rightarrow> RuntimeEvent \<Rightarrow> CanonEvent \<Rightarrow> BinarySegmentWriter \<Rightarrow> ('s, 'h) EventRuntime
     \<Rightarrow> RunResult \<times> ('s, 'h) EventRuntime" where
  "write_wire env e wire0 w s =
     (let wire = wire0\<lparr>ev_prev_event_id := map_of (er_last_event_id_per_kind s) (ev_kind wire0)\<rparr>;
          s1 = s\<lparr>er_last_event_id_per_kind := AList.update (ev_kind wire) (ev_id wire) (er_last_event_id_per_kind s),
                 er_last_written_event_id := Some (ev_id wire)\<rparr>;
          (outcome, w') = write_canon_event (rn_writer env) (rn_ambient env (er_fresh s)) wire w;
          s2 = s1\<lparr>er_tlog_writer := Some w', er_fresh := er_fresh s1 + 1\<rparr>
      in case outcome of
           Done \<Rightarrow> (RunOk, if event_kind e = RouteTick then s2\<lparr>er_route_tick_append_seen := True\<rparr> else s2)
         | Failed _ \<Rightarrow> (RunPanic ''[FATAL] append failure (no retry allowed)'', s2)
         | Panicked \<Rightarrow> (RunPanic ''writer panicked'', s2)
         | Deadlock \<Rightarrow> (RunHang, s2))"

text \<open>The gates after the wire event was built: statistics, one observation per tick, duplicates.\<close>

definition append_wire ::
  "RuntimeEnv \<Rightarrow> RuntimeEvent \<Rightarrow> CanonEvent \<Rightarrow> BinarySegmentWriter \<Rightarrow> ('s, 'h) EventRuntime
     \<Rightarrow> RunResult \<times> ('s, 'h) EventRuntime" where
  "append_wire env e wire w s =
     (let (ok, emitted, engine) =
            observe \<lparr> el_file = rn_file env, el_uuid = rn_id env (er_fresh s) \<rparr> wire (er_invariant_engine s);
          s1 = runtime_emit emitted (s\<lparr>er_invariant_engine := engine, er_fresh := er_fresh s + 1\<rparr>)
      in if \<not> ok \<and> \<not> is_driver e then (RunOk, s1)
         else
           (case e of
              EvLoopObserved lo \<Rightarrow>
                if er_last_loop_observed_tick s1 = Some (lo_tick lo) then (RunOk, s1)
                else write_wire env e wire w (s1\<lparr>er_last_loop_observed_tick := Some (lo_tick lo)\<rparr>)
            | _ \<Rightarrow>
                if deduplicated e wire then
                  (let h = rn_content_hash env (ev_kind wire) (pl_data (ev_payload wire))
                   in if map_of (er_last_kind_hash s1) (ev_kind wire) = Some h then (RunOk, s1)
                      else write_wire env e wire w
                             (s1\<lparr>er_last_kind_hash := AList.update (ev_kind wire) h (er_last_kind_hash s1)\<rparr>))
                else write_wire env e wire w s1))"

definition append_runtime_event ::
  "RuntimeEnv \<Rightarrow> RuntimeEvent \<Rightarrow> string \<Rightarrow> u32 \<Rightarrow> EventId list \<Rightarrow> EventId \<Rightarrow> ('s, 'h) EventRuntime
     \<Rightarrow> RunResult \<times> ('s, 'h) EventRuntime" where
  "append_runtime_event env e file line parent_ids event_id s =
     (case er_tlog_writer s of
        None \<Rightarrow> (RunPanic (''FATAL: tlog_path is None during append_runtime_event for kind='' @ event_kind_str e), s)
      | Some w \<Rightarrow>
          if event_kind e = RouteTick \<and> parent_ids = []
          then (RunPanic ''[FATAL] RouteTick missing parent_ids (must reference Tick)'', s)
          else
            (case runtime_event_to_wire (rn_shape env) (rn_now env (er_fresh s)) e parent_ids event_id file line of
               WireOk wire \<Rightarrow> append_wire env e wire w s
             | WireSkip \<Rightarrow>
                 if is_driver e then (RunPanic ''[FATAL] runtime_event_to_wire returned None for control event'', s)
                 else (RunOk, s)
             | WireErr err \<Rightarrow>
                 if is_driver e then (RunPanic ''[FATAL] runtime_event_to_wire error for control event'', s)
                 else (RunOk, s)
             | WirePanic \<Rightarrow> (RunPanic ''CanonEvent::new'', s)))"

section \<open>Handling one event\<close>

definition bus_dispatch ::
  "RuntimeEnv \<Rightarrow> RuntimeEvent \<Rightarrow> EventId \<Rightarrow> ('s, 'h) EventRuntime \<Rightarrow> Dispatched \<times> ('s, 'h) EventRuntime" where
  "bus_dispatch env e eid s =
     (let (r, b, emitted, _) =
            dispatch \<lparr> be_file = rn_bus_file env, be_uuid = rn_id env (er_fresh s) \<rparr> e eid (er_bus s)
      in (r, runtime_emit emitted (s\<lparr>er_bus := b, er_fresh := er_fresh s + 1\<rparr>)))"

text \<open>The error event that some events entail, with a fresh identifier.\<close>

fun derived_error :: "string \<Rightarrow> RuntimeEvent \<Rightarrow> RuntimeEvent option" where
  "derived_error uuid (EvCapabilityFailed p) = Some (EvErrorOccurred
     (new_error_occurred uuid ''capability_failed'' ''event-runtime'' (cpf_error p) ''error''
       (JObject [(''request_id'', JString (cpf_request_id p)), (''capability'', JString (cpf_capability p))]) None))"
| "derived_error uuid (EvNodeFailed p) = Some (EvErrorOccurred
     (new_error_occurred uuid ''node_failed'' ''agent-consumer'' (or_else (ndf_error p) ''node_failed'') ''error''
       (JObject [(''node_id'', JString (ndf_node_id p)), (''capability'', JString (ndf_capability p)),
          (''request_id'', JString (ndf_request_id p))]) None))"
| "derived_error uuid (EvCode c) =
     (case dl_event (cd_delta c) of
        RPanicCaptured p \<Rightarrow> Some (EvErrorOccurred
          (new_error_occurred uuid ''panic_captured'' ''rustc'' (pc_message p) ''error''
            (JObject [(''def_id'', JString (pc_def_id p)), (''mir_variant'', opt_value JString (pc_mir_variant p)),
               (''lowering_stage'', opt_value JString (pc_lowering_stage p)),
               (''file'', opt_value JString (pc_file p)), (''span'', opt_value JString (pc_span p))]) None))
      | RInvariantViolation v \<Rightarrow> Some (EvErrorOccurred
          (new_error_occurred uuid ''invariant_violation'' ''rustc'' (iv_message v) ''error'' (JObject []) None))
      | _ \<Rightarrow> None)"
| "derived_error uuid _ = None"

definition update_runtime_state :: "RuntimeEvent \<Rightarrow> ('s, 'h) EventRuntime \<Rightarrow> ('s, 'h) EventRuntime" where
  "update_runtime_state e s =
     (case e of EvRuntimeStateUpdated p \<Rightarrow> s\<lparr>er_runtime_state := rsu_payload p\<rparr> | _ \<Rightarrow> s)"

text \<open>
  The part of the handler after the append: the dispatch, the notice of a mode change, the
  derived error. \<^const>\<open>None\<close> means that the handler goes on to drain the queue.
\<close>

definition dispatch_phase ::
  "RuntimeEnv \<Rightarrow> bool \<Rightarrow> RuntimeEvent \<Rightarrow> EventId \<Rightarrow> ('s, 'h) EventRuntime \<Rightarrow> RunResult option \<times> ('s, 'h) EventRuntime" where
  "dispatch_phase env emit_mode_update e event_id s =
     (if sync_consumers_len (er_bus s) = 0 then (Some RunOk, s)
      else
        (case bus_dispatch env e event_id s of
           (DispatchPanic msg, s1) \<Rightarrow> (Some (RunPanic msg), s1)
         | (Delivered n, s1) \<Rightarrow>
             if n = 0 \<and> event_kind_str e \<notin> set SILENT_KINDS
             then (Some (RunErr ''dispatch failure: no consumers received event''), s1)
             else
               (let (mode_id, s2) = fresh_id env s1;
                    (r, s3) =
                      (if emit_mode_update
                       then bus_dispatch env
                              (EvRuntimeStateUpdated \<lparr> rsu_payload = runtime_mode_update_payload (er_mode s1) \<rparr>)
                              mode_id s2
                       else (Delivered 0, s1))
                in case r of
                     DispatchPanic msg \<Rightarrow> (Some (RunPanic msg), s3)
                   | Delivered _ \<Rightarrow>
                       (let s4 = update_runtime_state e s3; (err_id, s5) = fresh_id env s4
                        in case derived_error err_id e of
                             None \<Rightarrow> (None, s4)
                           | Some err_event \<Rightarrow>
                               (case bus_dispatch env err_event err_id s5 of
                                  (DispatchPanic msg, s6) \<Rightarrow> (Some (RunPanic msg), s6)
                                | (Delivered _, s6) \<Rightarrow> (None, s6))))))"

definition effective_parents :: "EventId list \<Rightarrow> ('s, 'h) EventRuntime \<Rightarrow> EventId list" where
  "effective_parents parent_ids s =
     (if parent_ids = [] then (case er_last_written_event_id s of None \<Rightarrow> [] | Some p \<Rightarrow> [p]) else parent_ids)"

definition handle_core ::
  "RuntimeEnv \<Rightarrow> RuntimeEvent \<Rightarrow> string \<Rightarrow> u32 \<Rightarrow> EventId list \<Rightarrow> ('s, 'h) EventRuntime
     \<Rightarrow> RunResult option \<times> ('s, 'h) EventRuntime" where
  "handle_core env e file line parent_ids0 s =
     (let parent_ids = effective_parents parent_ids0 s
      in if event_kind e = RouteTick \<and> parent_ids = []
         then (Some (RunPanic ''[FATAL] RouteTick emitted without parent_ids''), s)
         else if is_fatal_halt_active (er_mode s) \<and> \<not> is_allowed_during_fatal_halt e \<and> \<not> is_driver e
         then (Some RunOk, s)
         else
           (let recovered = (recovery_signal_reason e \<noteq> None);
                mode1 = (if recovered then Running else er_mode s);
                fatal = fatal_invariant_reason e;
                mode2 = (case fatal of Some reason \<Rightarrow> FatalInvariantHalt reason | None \<Rightarrow> mode1);
                (event_id, s1) = fresh_id env
                  (s\<lparr>er_mode := mode2, er_observed_events := er_observed_events s @ [e]\<rparr>);
                s2 = s1\<lparr>er_dispatched_ids := insert event_id (er_dispatched_ids s1)\<rparr>
            in case (if is_driver e then None else validate_before_append e parent_ids) of
                 Some reason \<Rightarrow> (Some RunOk, s2\<lparr>er_mode := FatalInvariantHalt reason\<rparr>)
               | None \<Rightarrow>
                   (case append_runtime_event env e file line parent_ids event_id s2 of
                      (RunOk, s3) \<Rightarrow> dispatch_phase env (recovered \<or> fatal \<noteq> None) e event_id s3
                    | (r, s3) \<Rightarrow> (Some r, s3))))"

section \<open>Draining the queue\<close>

fun drain_emitted_events :: "nat \<Rightarrow> RuntimeEnv \<Rightarrow> ('s, 'h) EventRuntime \<Rightarrow> RunResult \<times> ('s, 'h) EventRuntime" where
  "drain_emitted_events 0 env s = (RunFuel, s)"
| "drain_emitted_events (Suc n) env s =
     (case er_queue s of
        [] \<Rightarrow> (RunOk, s)
      | l # q \<Rightarrow>
          (let s1 = s\<lparr>er_queue := q\<rparr>
           in if er_replay_blocked s \<and> \<not> passes_replay (le_event l) then drain_emitted_events n env s1
              else
                (case handle_core env (le_event l) (le_file l) (le_line l) (le_parent_ids l) s1 of
                   (Some RunOk, s2) \<Rightarrow> drain_emitted_events n env s2
                 | (Some r, s2) \<Rightarrow> (r, s2)
                 | (None, s2) \<Rightarrow>
                     (case drain_emitted_events n env s2 of
                        (RunOk, s3) \<Rightarrow> drain_emitted_events n env s3
                      | r \<Rightarrow> r))))"

definition handle_runtime_event_located_with_parents ::
  "nat \<Rightarrow> RuntimeEnv \<Rightarrow> RuntimeEvent \<Rightarrow> string \<Rightarrow> u32 \<Rightarrow> EventId list \<Rightarrow> ('s, 'h) EventRuntime
     \<Rightarrow> RunResult \<times> ('s, 'h) EventRuntime" where
  "handle_runtime_event_located_with_parents n env e file line parent_ids s =
     (case handle_core env e file line parent_ids s of
        (Some r, s1) \<Rightarrow> (r, s1) | (None, s1) \<Rightarrow> drain_emitted_events n env s1)"

text \<open>Sequencing as the operator \<^verbatim>\<open>?\<close> does it.\<close>

definition and_then ::
  "RunResult \<times> 'a \<Rightarrow> ('a \<Rightarrow> RunResult \<times> 'a) \<Rightarrow> RunResult \<times> 'a" where
  "and_then r f = (case r of (RunOk, s) \<Rightarrow> f s | _ \<Rightarrow> r)"

definition emit_event_with_parents ::
  "nat \<Rightarrow> RuntimeEnv \<Rightarrow> RuntimeEvent \<Rightarrow> EventId list \<Rightarrow> string \<Rightarrow> u32 \<Rightarrow> ('s, 'h) EventRuntime
     \<Rightarrow> RunResult \<times> ('s, 'h) EventRuntime" where
  "emit_event_with_parents n env e parent_ids file line s =
     and_then (handle_runtime_event_located_with_parents n env e file line parent_ids s)
       (drain_emitted_events n env)"

definition emit_event_located ::
  "nat \<Rightarrow> RuntimeEnv \<Rightarrow> RuntimeEvent \<Rightarrow> string \<Rightarrow> u32 \<Rightarrow> ('s, 'h) EventRuntime \<Rightarrow> RunResult \<times> ('s, 'h) EventRuntime" where
  "emit_event_located n env e file line s = emit_event_with_parents n env e [] file line s"

definition emit_debug_event ::
  "nat \<Rightarrow> RuntimeEnv \<Rightarrow> string \<Rightarrow> string \<Rightarrow> json \<Rightarrow> ('s, 'h) EventRuntime \<Rightarrow> RunResult \<times> ('s, 'h) EventRuntime" where
  "emit_debug_event n env source kind payload s =
     emit_event_located n env (EvDebug \<lparr> dbg_source = source, dbg_kind = kind, dbg_payload = payload \<rparr>) [] 0 s"

definition runtime_emit_event ::
  "nat \<Rightarrow> RuntimeEnv \<Rightarrow> RuntimeEvent \<Rightarrow> ('s, 'h) EventRuntime \<Rightarrow> RunResult \<times> ('s, 'h) EventRuntime" where
  "runtime_emit_event n env e s =
     emit_event_located n env e [] 0
       (case e of
          EvLoopObserved lo \<Rightarrow>
            s\<lparr>er_last_route_tick_emitted := lo_tick lo, er_last_loop_observed_tick := Some (lo_tick lo)\<rparr>
        | _ \<Rightarrow> s)"

section \<open>The tick\<close>

definition route_tick :: "u64 \<Rightarrow> RuntimeEvent" where
  "route_tick t = EvRouteTick \<lparr> rtk_tick = t, rtk_emitted = True \<rparr>"

definition require_written :: "string \<Rightarrow> ('s, 'h) EventRuntime \<Rightarrow> RunResult \<times> ('s, 'h) EventRuntime" where
  "require_written msg s = (if er_last_written_event_id s = None then RunPanic msg else RunOk, s)"

definition emit_route_tick ::
  "nat \<Rightarrow> RuntimeEnv \<Rightarrow> ('s, 'h) EventRuntime \<Rightarrow> RunResult \<times> ('s, 'h) EventRuntime" where
  "emit_route_tick n env s =
     and_then (runtime_emit_event n env (route_tick (er_runtime_tick s)) s) (\<lambda>s1.
     and_then (require_written ''[FATAL] RouteTick must produce event_id'' s1) (\<lambda>s2.
       if er_last_written_event_id s2 = er_last_written_event_id s
       then emit_event_with_parents n env (route_tick (er_runtime_tick s2))
              (case er_last_written_event_id s of None \<Rightarrow> [] | Some p \<Rightarrow> [p]) (rn_file env) 475
              (s2\<lparr>er_last_written_event_id := None\<rparr>)
       else (RunOk, s2)))"

definition emit_runtime_state ::
  "nat \<Rightarrow> RuntimeEnv \<Rightarrow> ('s, 'h) EventRuntime \<Rightarrow> RunResult \<times> ('s, 'h) EventRuntime" where
  "emit_runtime_state n env s =
     runtime_emit_event n env
       (EvRuntimeStateUpdated \<lparr> rsu_payload =
          JObject [(''runtime_tick'', JNumber (PosInt (er_runtime_tick s))), (''state'', er_runtime_state s)] \<rparr>) s"

definition emit_tick :: "nat \<Rightarrow> RuntimeEnv \<Rightarrow> ('s, 'h) EventRuntime \<Rightarrow> RunResult \<times> ('s, 'h) EventRuntime" where
  "emit_tick n env s =
     and_then (drain_emitted_events n env s) (\<lambda>s1.
     (let s2 = s1\<lparr>er_runtime_tick := saturating_add (er_runtime_tick s1) 1, er_route_tick_append_seen := False\<rparr>
      in and_then (runtime_emit_event n env (EvTick \<lparr> tk_tick = er_runtime_tick s2, tk_emitted = True \<rparr>) s2) (\<lambda>s3.
         and_then (require_written ''[FATAL] Tick must produce event_id'' s3) (\<lambda>s4.
         and_then (emit_route_tick n env s4) (\<lambda>s5.
         and_then (emit_runtime_state n env (s5\<lparr>er_last_route_tick_emitted := er_runtime_tick s5\<rparr>)) (\<lambda>s6.
           if er_observed_events s6 = [] then (RunPanic ''[FATAL] No RuntimeEvent emitted'', s6)
           else and_then (drain_emitted_events n env s6) (\<lambda>s7.
             if er_route_tick_append_seen s7 then (RunOk, s7)
             else (RunPanic ''[FATAL] RouteTick was not durably appended'', s7))))))))"

section \<open>Compiler events\<close>

definition analysis_requests :: "string \<Rightarrow> u64 \<Rightarrow> RuntimeEvent list" where
  "analysis_requests c tick =
     [EvAnalysis (AnRun \<lparr> anr_request_id = ''analysis-'' @ c @ ''-'' @ decimal (unat tick), anr_crate_name = c,
        anr_batch_id = None, anr_queued = True \<rparr>),
      EvAnalysis (AnWorkspace \<lparr> anw_request_id = ''analysis-workspace-'' @ decimal (unat tick), anw_queued = True \<rparr>)]"

fun handle_all ::
  "nat \<Rightarrow> RuntimeEnv \<Rightarrow> RuntimeEvent list \<Rightarrow> ('s, 'h) EventRuntime \<Rightarrow> RunResult \<times> ('s, 'h) EventRuntime" where
  "handle_all n env [] s = (RunOk, s)"
| "handle_all n env (e # es) s =
     and_then (handle_runtime_event_located_with_parents n env e [] 0 [] s) (handle_all n env es)"

definition kernel_delta :: "RustcEvent \<Rightarrow> ('s, 'h) EventRuntime \<Rightarrow> EventDelta \<times> ('s, 'h) EventRuntime" where
  "kernel_delta ev s =
     (if is_session_start ev then (\<lparr> dl_id = 0, dl_tick = 0, dl_event = ev \<rparr>, s\<lparr>er_tick := 0\<rparr>)
      else (let tick = saturating_add (er_tick s) 1
            in (\<lparr> dl_id = er_next_id s, dl_tick = tick, dl_event = ev \<rparr>,
                s\<lparr>er_tick := tick, er_next_id := saturating_add (er_next_id s) 1\<rparr>)))"

definition handle_kernel_event ::
  "nat \<Rightarrow> RuntimeEnv \<Rightarrow> RustcEvent \<Rightarrow> ('s, 'h) EventRuntime \<Rightarrow> RunResult \<times> ('s, 'h) EventRuntime" where
  "handle_kernel_event n env ev s =
     (let (delta, s1) = kernel_delta ev s
      in case apply_delta (rn_count_hash env) delta (er_state s1) of
           Inl msg \<Rightarrow> (RunErr msg, s1)
         | Inr st \<Rightarrow>
             handle_all n env
               (EvCode \<lparr> cd_delta = delta, cd_state = st \<rparr> #
                (case analysis_crate ev of None \<Rightarrow> [] | Some c \<Rightarrow> analysis_requests c (er_tick s1)))
               (s1\<lparr>er_state := st\<rparr>))"

section \<open>Replay\<close>

definition handle_replayed_event ::
  "RuntimeEnv \<Rightarrow> RuntimeEvent \<Rightarrow> ('s, 'h) EventRuntime \<Rightarrow> RunResult \<times> ('s, 'h) EventRuntime" where
  "handle_replayed_event env e s =
     (let (event_id, s1) = fresh_id env (s\<lparr>er_observed_events := er_observed_events s @ [e]\<rparr>)
      in if sync_consumers_len (er_bus s1) = 0
         then (RunErr (''replay dispatch failure: no consumers registered for kind='' @ event_kind_str e), s1)
         else
           (case bus_dispatch env e event_id (s1\<lparr>er_replay_blocked := True\<rparr>) of
              (DispatchPanic msg, s2) \<Rightarrow> (RunPanic msg, s2)
            | (Delivered n, s2) \<Rightarrow>
                (let s3 = s2\<lparr>er_replay_blocked := False\<rparr>
                 in if n = 0 \<and> event_kind_str e \<notin> set SILENT_KINDS
                    then (RunErr (''replay dispatch failure: event kind='' @ event_kind_str e @ '' id='' @ event_id @
                                  '' delivered to 0 consumers''), s3)
                    else
                      (RunOk,
                       case e of
                         EvCapabilityFailed p \<Rightarrow>
                           s3\<lparr>er_observed_events := er_observed_events s3 @
                              [EvDebug \<lparr> dbg_source = ''event-runtime'', dbg_kind = ''replay_suppressed_derived_event'',
                                dbg_payload = JObject [(''replayed_kind'', JString (event_kind_str e)),
                                  (''suppressed_kind'', JString ''error_occurred'')] \<rparr>]\<rparr>
                       | _ \<Rightarrow> update_runtime_state e s3))))"

datatype AnyEvent = CanonLog CanonEvent | CodeLog RustcEvent

definition decoded_kinds :: "EventKind list" where
  "decoded_kinds =
     [CapabilityCompleted, CapabilityFailed, ErrorOccurred, LoopObserved, LoopPlanned, PlanningCompleted,
      RouteSelected, LoopActed, LoopVerified, VerifierPolicyUpdated, LoopRewarded, AgentRegistered,
      SubTaskResult, RouteTick, InvariantDiscovered]"

text \<open>
  The match on the wire name of a log entry: the event it is replayed as. The arm for
  \<^verbatim>\<open>runtime_state.updated\<close> is kept as it is written.
\<close>

definition replayed_as :: "RuntimeEnv \<Rightarrow> CanonEvent \<Rightarrow> RuntimeEvent option" where
  "replayed_as env canon =
     (let data = pl_data (ev_payload canon); kind = as_str (ev_kind canon)
      in if kind = ''runtime_state.updated'' then Some (EvRuntimeStateUpdated \<lparr> rsu_payload = data \<rparr>)
         else if kind = ''prompt_loaded'' \<and> ev_actor canon \<noteq> ''event-runtime''
         then Some (EvPromptLoaded \<lparr> prl_payload = or_else (json_get data ''data'') data \<rparr>)
         else if ev_kind canon \<in> set decoded_kinds then rn_decode env (ev_kind canon) data
         else None)"

text \<open>A buffered observation of the same tick follows the route that was selected.\<close>

definition replay_pending ::
  "nat \<Rightarrow> RuntimeEnv \<Rightarrow> RuntimeEvent \<Rightarrow> ('s, 'h) EventRuntime \<Rightarrow> RunResult \<times> ('s, 'h) EventRuntime" where
  "replay_pending n env e s =
     (case (e, er_pending_loop_observed s) of
        (EvRouteSelected r, Some lo) \<Rightarrow>
          if lo_tick lo = rsel_tick r
          then and_then (handle_replayed_event env (EvLoopObserved lo) (s\<lparr>er_pending_loop_observed := None\<rparr>))
                 (drain_emitted_events n env)
          else (RunOk, s)
      | _ \<Rightarrow> (RunOk, s))"

definition process_event ::
  "nat \<Rightarrow> RuntimeEnv \<Rightarrow> AnyEvent \<Rightarrow> ('s, 'h) EventRuntime \<Rightarrow> RunResult \<times> ('s, 'h) EventRuntime" where
  "process_event n env any s =
     (case any of
        CodeLog _ \<Rightarrow> (RunOk, s)
      | CanonLog canon \<Rightarrow>
          if ev_id canon \<in> er_dispatched_ids s
          then (RunOk, s\<lparr>er_dispatched_ids := er_dispatched_ids s - {ev_id canon}\<rparr>)
          else
            (let s1 = s\<lparr>er_tlog_writer := map_option (notify_replayed_event canon) (er_tlog_writer s)\<rparr>;
                 data = pl_data (ev_payload canon)
             in case (if ev_kind canon = Code then rn_rustc_event env data else None) of
                  Some ev \<Rightarrow> and_then (handle_kernel_event n env ev s1) (drain_emitted_events n env)
                | None \<Rightarrow>
                    (case (if ev_kind canon = Edit then rn_edit_event env data else None) of
                       Some edit \<Rightarrow> and_then (handle_replayed_event env (EvEdit edit) s1) (drain_emitted_events n env)
                     | None \<Rightarrow>
                         (case replayed_as env canon of
                            None \<Rightarrow> (RunOk, s1)
                          | Some e \<Rightarrow>
                              and_then (and_then (handle_replayed_event env e s1) (drain_emitted_events n env))
                                (replay_pending n env e)))))"

fun process_loop ::
  "nat \<Rightarrow> RuntimeEnv \<Rightarrow> AnyEvent list \<Rightarrow> ('s, 'h) EventRuntime \<Rightarrow> RunResult \<times> ('s, 'h) EventRuntime" where
  "process_loop n env [] s = (RunOk, s)"
| "process_loop n env (x # xs) s = and_then (process_event n env x s) (process_loop n env xs)"

text \<open>
  The stage executor that runs at the end has an emitter that discards everything, so for the
  runtime it only empties the observed events.
\<close>

definition process_events ::
  "nat \<Rightarrow> RuntimeEnv \<Rightarrow> AnyEvent list \<Rightarrow> ('s, 'h) EventRuntime \<Rightarrow> RunResult \<times> ('s, 'h) EventRuntime" where
  "process_events n env events s =
     and_then (and_then (drain_emitted_events n env s) (process_loop n env events)) (\<lambda>s1.
       (let s2 = s1\<lparr>er_observed_events := []\<rparr>
        in if er_observed_events s1 \<noteq> [] \<and> \<not> er_replay_blocked s1 then drain_emitted_events n env s2
           else (RunOk, s2)))"

definition process_path ::
  "nat \<Rightarrow> RuntimeEnv \<Rightarrow> AnyEvent list \<Rightarrow> ('s, 'h) EventRuntime \<Rightarrow> RunResult \<times> ('s, 'h) EventRuntime" where
  "process_path n env events s =
     (case process_events n env events (s\<lparr>er_replay_blocked := True\<rparr>) of
        (RunPanic msg, s1) \<Rightarrow> (RunPanic msg, s1)
      | (RunHang, s1) \<Rightarrow> (RunHang, s1)
      | (RunFuel, s1) \<Rightarrow> (RunFuel, s1)
      | (r, s1) \<Rightarrow> (r, s1\<lparr>er_replay_blocked := False\<rparr>))"

end
