(* ===== verification/Runtime_Properties.thy ===== *)
theory Runtime_Properties
  imports Event_Runtime Tlog_Failures
begin

text \<open>
  Properties of the event runtime as a whole: whatever sequence of public operations is called,
  the log stays a legal history that only grows; what the tick and the gates in front of the
  append do to a runtime without consumers.
\<close>

section \<open>The log of a runtime\<close>

definition runtime_ok :: "RuntimeEnv \<Rightarrow> ('s, 'h) EventRuntime \<Rightarrow> CanonEvent list \<Rightarrow> bool" where
  "runtime_ok env s es \<longleftrightarrow>
     (case er_tlog_writer s of None \<Rightarrow> es = [] | Some w \<Rightarrow> writer_inv (rn_writer env) (er_fresh s) w es)"

definition runtime_log_ok :: "RuntimeEnv \<Rightarrow> ('s, 'h) EventRuntime \<Rightarrow> CanonEvent list \<Rightarrow> bool" where
  "runtime_log_ok env s es \<longleftrightarrow>
     (case er_tlog_writer s of None \<Rightarrow> es = [] | Some w \<Rightarrow> log_ok (rn_writer env) w es)"

text \<open>A step that keeps the log: it only appends to it, and unless it hangs the writer can go on.\<close>

definition step_ok ::
  "RuntimeEnv \<Rightarrow> ('s, 'h) EventRuntime \<Rightarrow> CanonEvent list \<Rightarrow> RunResult \<times> ('s, 'h) EventRuntime \<Rightarrow> bool" where
  "step_ok env s es res \<longleftrightarrow>
     er_fresh s \<le> er_fresh (snd res) \<and>
     (er_fresh (snd res) < 2 ^ 64 \<longrightarrow>
       (\<exists>es'. if fst res = RunHang then runtime_log_ok env (snd res) (es @ es')
              else runtime_ok env (snd res) (es @ es')))"

definition same_log :: "('s, 'h) EventRuntime \<Rightarrow> ('s, 'h) EventRuntime \<Rightarrow> bool" where
  "same_log s s' \<longleftrightarrow> er_tlog_writer s' = er_tlog_writer s \<and> er_fresh s \<le> er_fresh s'"

lemma same_log_refl [simp, intro]: "same_log s s"
  by (simp add: same_log_def)

lemma same_log_trans: "same_log s t \<Longrightarrow> same_log t u \<Longrightarrow> same_log s u"
  by (simp add: same_log_def)

lemma runtime_ok_log: "runtime_ok env s es \<Longrightarrow> runtime_log_ok env s es"
  by (auto simp: runtime_ok_def runtime_log_ok_def writer_inv_def split: option.splits)

lemma runtime_ok_same: "runtime_ok env s es \<Longrightarrow> same_log s s' \<Longrightarrow> runtime_ok env s' es"
  by (auto simp: runtime_ok_def same_log_def split: option.splits intro: writer_inv_mono)

lemma step_ok_same: "runtime_ok env s es \<Longrightarrow> same_log s s' \<Longrightarrow> r \<noteq> RunHang \<Longrightarrow> step_ok env s es (r, s')"
  by (auto simp: step_ok_def dest: runtime_ok_same intro!: exI [of _ "[]"]) (simp add: same_log_def)

lemma step_ok_after: "same_log s s' \<Longrightarrow> step_ok env s' es res \<Longrightarrow> step_ok env s es res"
  by (auto simp: step_ok_def same_log_def)

lemma step_ok_before:
  assumes "step_ok env s es (r, s1)" and "same_log s1 s2" and "r \<noteq> RunHang" and "r' \<noteq> RunHang"
  shows "step_ok env s es (r', s2)"
proof -
  have "er_fresh s1 \<le> er_fresh s2" using assms(2) by (simp add: same_log_def)
  with assms show ?thesis
    unfolding step_ok_def by (auto intro: runtime_ok_same)
qed

lemma step_ok_trans:
  assumes "step_ok env s es (r, s1)" and "r \<noteq> RunHang"
    and "\<And>es1. runtime_ok env s1 es1 \<Longrightarrow> step_ok env s1 es1 res"
    and "er_fresh s1 \<le> er_fresh (snd res)"
  shows "step_ok env s es res"
proof (cases "er_fresh (snd res) < 2 ^ 64")
  case True
  then have "er_fresh s1 < 2 ^ 64" using assms(4) by simp
  with assms(1,2) obtain es1 where 1: "er_fresh s \<le> er_fresh s1" "runtime_ok env s1 (es @ es1)"
    by (auto simp: step_ok_def)
  from assms(3) [OF 1(2)] True obtain es2 where
    "if fst res = RunHang then runtime_log_ok env (snd res) ((es @ es1) @ es2)
     else runtime_ok env (snd res) ((es @ es1) @ es2)"
    unfolding step_ok_def by blast
  then show ?thesis
    using 1 assms(4) unfolding step_ok_def by (metis append_assoc order_trans)
next
  case False
  with assms(1,4) show ?thesis by (simp add: step_ok_def)
qed

section \<open>Every operation keeps the log\<close>

lemma runtime_emit_same [simp]: "same_log s (runtime_emit ls s)"
  by (simp add: same_log_def runtime_emit_def)

lemma bus_dispatch_same: "bus_dispatch env e eid s = (r, s') \<Longrightarrow> same_log s s'"
  by (auto simp: bus_dispatch_def same_log_def runtime_emit_def split: prod.splits)

lemma fresh_id_same: "fresh_id env s = (i, s') \<Longrightarrow> same_log s s'"
  by (auto simp: fresh_id_def same_log_def)

lemma update_runtime_state_log [simp]:
  "er_tlog_writer (update_runtime_state e s) = er_tlog_writer s" "er_fresh (update_runtime_state e s) = er_fresh s"
  by (simp_all add: update_runtime_state_def split: RuntimeEvent.split)

lemma write_wire_ok:
  assumes "faithful_writer (rn_writer env)" and "runtime_ok env s es" and "er_tlog_writer s = Some w"
  shows "step_ok env s es (write_wire env e wire w s)"
proof -
  obtain r w' where run: "write_canon_event (rn_writer env) (rn_ambient env (er_fresh s))
      (wire\<lparr>ev_prev_event_id := map_of (er_last_event_id_per_kind s) (ev_kind wire)\<rparr>) w = (r, w')"
    by (metis surj_pair)
  have inv: "writer_inv (rn_writer env) (er_fresh s) w es" using assms(2,3) by (simp add: runtime_ok_def)
  have "Suc (er_fresh s) < 2 ^ 64 \<Longrightarrow> call_ok (rn_writer env) (er_fresh s) es (r, w')"
    using write_refines [OF assms(1) inv] run by metis
  then show ?thesis
    unfolding step_ok_def write_wire_def Let_def run
    by (auto simp: call_ok_def runtime_ok_def runtime_log_ok_def split: Outcome.split)
qed

lemma loop_observed_case:
  "(\<And>lo. P (f lo)) \<Longrightarrow> P g \<Longrightarrow> P (case e of EvLoopObserved lo \<Rightarrow> f lo | _ \<Rightarrow> g)"
  by (cases e) simp_all

lemma append_wire_ok:
  assumes "faithful_writer (rn_writer env)" and "runtime_ok env s es" and "er_tlog_writer s = Some w"
  shows "step_ok env s es (append_wire env e wire w s)"
proof -
  obtain ok emitted engine where o: "observe \<lparr> el_file = rn_file env, el_uuid = rn_id env (er_fresh s) \<rparr>
      wire (er_invariant_engine s) = (ok, emitted, engine)"
    by (metis prod_cases3)
  define s1 where "s1 = runtime_emit emitted (s\<lparr>er_invariant_engine := engine, er_fresh := er_fresh s + 1\<rparr>)"
  have s1: "same_log s s1" by (simp add: s1_def same_log_def runtime_emit_def)
  have w: "step_ok env s es (write_wire env e wire w s2)"
    if "er_tlog_writer s2 = er_tlog_writer s1" "er_fresh s2 = er_fresh s1" for s2
  proof -
    have "same_log s s2" using s1 that by (simp add: same_log_def)
    then show ?thesis
      using write_wire_ok [OF assms(1) runtime_ok_same [OF assms(2)]] assms(3)
      by (metis same_log_def step_ok_after)
  qed
  have k: "step_ok env s es (RunOk, s1)" using step_ok_same [OF assms(2) s1] by simp
  show ?thesis
    unfolding append_wire_def o Let_def prod.case s1_def [symmetric]
    using w k by (auto intro!: loop_observed_case [of "step_ok env s es"])
qed

lemma append_runtime_event_ok:
  assumes "faithful_writer (rn_writer env)" and "runtime_ok env s es"
  shows "step_ok env s es (append_runtime_event env e file line parents i s)"
  unfolding append_runtime_event_def
  using append_wire_ok [OF assms] step_ok_same [OF assms(2) same_log_refl]
  by (auto split: option.split WireResult.split)

lemma dispatch_phase_same: "dispatch_phase env b e i s = (r, s') \<Longrightarrow> same_log s s' \<and> r \<noteq> Some RunHang"
  unfolding dispatch_phase_def
  by (auto simp: Let_def split: if_splits prod.splits Dispatched.splits option.splits
      dest!: bus_dispatch_same fresh_id_same) (auto simp: same_log_def)

definition settled :: "RunResult option \<times> 'a \<Rightarrow> RunResult \<times> 'a" where
  "settled res = (case fst res of None \<Rightarrow> RunOk | Some r \<Rightarrow> r, snd res)"

text \<open>The shape of the handler: it stops before the append, or appends and dispatches.\<close>

definition entered ::
  "RuntimeEnv \<Rightarrow> RuntimeEvent \<Rightarrow> RuntimeMode \<Rightarrow> ('s, 'h) EventRuntime \<Rightarrow> ('s, 'h) EventRuntime" where
  "entered env e m s =
     s\<lparr>er_mode := m, er_observed_events := er_observed_events s @ [e], er_fresh := er_fresh s + 1,
       er_dispatched_ids := insert (rn_id env (er_fresh s)) (er_dispatched_ids s)\<rparr>"

definition append_dispatch where
  "append_dispatch env e file line parents i b s =
    (case append_runtime_event env e file line parents i s of
       (RunOk, s3) \<Rightarrow> dispatch_phase env b e i s3 | (r, s3) \<Rightarrow> (Some r, s3))"

definition mode_after :: "RuntimeEvent \<Rightarrow> RuntimeMode \<Rightarrow> RuntimeMode" where
  "mode_after e m =
     (case fatal_invariant_reason e of Some reason \<Rightarrow> FatalInvariantHalt reason
      | None \<Rightarrow> if recovery_signal_reason e \<noteq> None then Running else m)"

lemma handle_core_eq:
  "handle_core env e file line parents s =
    (let ps = effective_parents parents s; i = rn_id env (er_fresh s)
     in if event_kind e = RouteTick \<and> ps = [] then (Some (RunPanic ''[FATAL] RouteTick emitted without parent_ids''), s)
        else if is_fatal_halt_active (er_mode s) \<and> \<not> is_allowed_during_fatal_halt e \<and> \<not> is_driver e
        then (Some RunOk, s)
        else case if is_driver e then None else validate_before_append e ps of
               Some reason \<Rightarrow> (Some RunOk, entered env e (FatalInvariantHalt reason) s)
             | None \<Rightarrow> append_dispatch env e file line ps i
                 (recovery_signal_reason e \<noteq> None \<or> fatal_invariant_reason e \<noteq> None)
                 (entered env e (mode_after e (er_mode s)) s))"
  unfolding handle_core_def Let_def fresh_id_def prod.case mode_after_def [symmetric] append_dispatch_def
  by (simp add: entered_def cong: if_cong option.case_cong prod.case_cong RunResult.case_cong)
    (simp split: option.split)

lemma handle_core_rule:
  assumes "\<And>msg. Q (Some (RunPanic msg), s)" and "Q (Some RunOk, s)"
    and "\<And>m. Q (Some RunOk, entered env e m s)"
    and "\<And>ps i b m. Q (append_dispatch env e file line ps i b (entered env e m s))"
  shows "Q (handle_core env e file line parents s)"
  unfolding handle_core_eq Let_def
  by (cases "if is_driver e then None else validate_before_append e (effective_parents parents s)")
    (use assms in simp_all)

lemma entered_same [simp]: "same_log s (entered env e m s)"
  by (simp add: entered_def same_log_def)

lemma append_dispatch_ok:
  assumes "faithful_writer (rn_writer env)" and "runtime_ok env s es"
  shows "step_ok env s es (settled (append_dispatch env e file line parents i b s))"
proof -
  obtain r s3 where a: "append_runtime_event env e file line parents i s = (r, s3)" by (metis surj_pair)
  have ok: "step_ok env s es (r, s3)" using append_runtime_event_ok [OF assms] a by metis
  obtain r' s4 where d: "dispatch_phase env b e i s3 = (r', s4)" by (metis surj_pair)
  have "step_ok env s es (settled (r', s4))" if "r = RunOk"
    using step_ok_before [OF ok] dispatch_phase_same [OF d] that
    by (auto simp: settled_def split: option.split)
  with ok show ?thesis by (cases r) (simp_all add: append_dispatch_def a d settled_def)
qed

lemma handle_core_ok:
  assumes "faithful_writer (rn_writer env)" and "runtime_ok env s es"
  shows "step_ok env s es (settled (handle_core env e file line parents s))"
proof (rule handle_core_rule)
  show "step_ok env s es (settled (append_dispatch env e file line ps i b (entered env e m s)))" for ps i b m
    using append_dispatch_ok [OF assms(1) runtime_ok_same [OF assms(2) entered_same]]
    by (rule step_ok_after [OF entered_same])
qed (use step_ok_same [OF assms(2)] in \<open>simp_all add: settled_def\<close>)

text \<open>The counter of fresh identifiers never decreases, whatever the state of the log.\<close>

lemma write_wire_fresh: "er_fresh s \<le> er_fresh (snd (write_wire env e wire w s))"
  by (simp add: write_wire_def Let_def split: prod.split Outcome.split)

lemma append_wire_fresh: "er_fresh s \<le> er_fresh (snd (append_wire env e wire w s))"
proof -
  have w: "er_fresh s \<le> er_fresh (snd (write_wire env e wire w t))" if "er_fresh t = Suc (er_fresh s)" for t
    using write_wire_fresh [of t env e wire w] that by simp
  show ?thesis
    unfolding append_wire_def Let_def
    by (auto intro!: loop_observed_case [of "\<lambda>r. er_fresh s \<le> er_fresh (snd r)"] w
        simp: runtime_emit_def split: prod.split)
qed

lemma append_runtime_event_fresh:
  "append_runtime_event env e f l parents i s = (r, s') \<Longrightarrow> er_fresh s \<le> er_fresh s'"
  unfolding append_runtime_event_def
  using append_wire_fresh [of s env e]
  by (auto split: option.splits WireResult.splits if_splits) (metis snd_conv)+

lemma append_dispatch_fresh: "er_fresh s \<le> er_fresh (snd (append_dispatch env e f l ps i b s))"
proof -
  obtain r s3 where a: "append_runtime_event env e f l ps i s = (r, s3)" by (metis surj_pair)
  obtain r' s4 where d: "dispatch_phase env b e i s3 = (r', s4)" by (metis surj_pair)
  show ?thesis
    using append_runtime_event_fresh [OF a] dispatch_phase_same [OF d]
    by (cases r) (auto simp: append_dispatch_def a d same_log_def)
qed

lemma handle_core_fresh: "er_fresh s \<le> er_fresh (snd (handle_core env e f l parents s))"
proof (rule handle_core_rule)
  show "er_fresh s \<le> er_fresh (snd (append_dispatch env e f l ps i b (entered env e m s)))" for ps i b m
    using append_dispatch_fresh [of "entered env e m s" env e f l ps i b] by (simp add: entered_def)
qed (simp_all add: entered_def)

lemma drain_step:
  "drain_emitted_events (Suc n) env s =
     (case er_queue s of
        [] \<Rightarrow> (RunOk, s)
      | l # q \<Rightarrow>
          (let s1 = s\<lparr>er_queue := q\<rparr>
           in if er_replay_blocked s \<and> \<not> passes_replay (le_event l) then drain_emitted_events n env s1
              else case handle_core env (le_event l) (le_file l) (le_line l) (le_parent_ids l) s1 of
                     (Some r, s2) \<Rightarrow> and_then (r, s2) (drain_emitted_events n env)
                   | (None, s2) \<Rightarrow> and_then (drain_emitted_events n env s2) (drain_emitted_events n env)))"
  by (auto simp: and_then_def Let_def split: list.split prod.split option.split RunResult.split)

section \<open>Properties of every operation\<close>

text \<open>
  What holds of one handled event holds of every operation of the runtime, if it is closed under
  sequencing and does not depend on the bookkeeping the operations do around the handler. The
  operations are built from the handler in the same way for every such property.
\<close>

locale runtime_closure =
  fixes holds :: "(('s, 'h) EventRuntime \<Rightarrow> RunResult \<times> ('s, 'h) EventRuntime) \<Rightarrow> bool"
    and frame :: "('s, 'h) EventRuntime \<Rightarrow> ('s, 'h) EventRuntime \<Rightarrow> bool"
    and env :: RuntimeEnv
  assumes core: "holds (\<lambda>s. settled (handle_core env e f l ps s))"
    and sequence: "holds g \<Longrightarrow> holds k \<Longrightarrow> holds (\<lambda>s. and_then (g s) k)"
    and before: "holds g \<Longrightarrow> (\<And>s. frame s (upd s)) \<Longrightarrow> holds (\<lambda>s. g (upd s))"
    and answer: "(\<And>s. frame s (upd s) \<and> r s \<noteq> RunHang) \<Longrightarrow> holds (\<lambda>s. (r s, upd s))"
    and branch: "holds g \<Longrightarrow> holds k \<Longrightarrow> holds (\<lambda>s. if c s then g s else k s)"
    and dependent: "(\<And>t. holds (h t)) \<Longrightarrow> holds (\<lambda>s. h s s)"
    and unchanged: "frame s s"
    and queue: "frame s (s\<lparr>er_queue := q\<rparr>)"
    and route_mark: "frame s (s\<lparr>er_last_route_tick_emitted := t\<rparr>)"
    and observed_mark: "frame s (s\<lparr>er_last_route_tick_emitted := t, er_last_loop_observed_tick := Some t\<rparr>)"
    and written_mark: "frame s (s\<lparr>er_last_written_event_id := i\<rparr>)"
    and tick_mark: "frame s (s\<lparr>er_runtime_tick := t, er_route_tick_append_seen := b\<rparr>)"
    and kernel: "frame s (snd (kernel_delta ev s))" "frame s ((snd (kernel_delta ev s))\<lparr>er_state := st\<rparr>)"
begin

lemma holds_ok: "holds (\<lambda>s. (RunOk, s))"
  by (rule answer) (simp add: unchanged)

lemma holds_drain: "holds (drain_emitted_events n env)"
proof (induction n)
  case 0
  have "holds (\<lambda>s. (RunFuel, s))" by (rule answer) (simp add: unchanged)
  then show ?case by (simp add: drain_emitted_events.simps(1) [abs_def])
next
  case (Suc n)
  let ?d = "drain_emitted_events n env :: ('s, 'h) EventRuntime \<Rightarrow> _"
  have core': "holds (\<lambda>s. case handle_core env e f l ps s of
      (Some r, s2) \<Rightarrow> and_then (r, s2) ?d | (None, s2) \<Rightarrow> and_then (?d s2) ?d)" for e f l ps
  proof -
    have eq: "(case handle_core env e f l ps s of (Some r, s2) \<Rightarrow> and_then (r, s2) ?d | (None, s2) \<Rightarrow> and_then (?d s2) ?d) =
      (if fst (handle_core env e f l ps s) = None
       then and_then (and_then (settled (handle_core env e f l ps s)) ?d) ?d
       else and_then (settled (handle_core env e f l ps s)) ?d)" for s
      by (cases "handle_core env e f l ps s"; cases "fst (handle_core env e f l ps s)")
        (auto simp: settled_def and_then_def split: prod.split RunResult.split)
    show ?thesis unfolding eq by (intro branch sequence core Suc)
  qed
  define body where "body = (\<lambda>(l :: LocatedEvent) b s. if b \<and> \<not> passes_replay (le_event l) then ?d s
      else case handle_core env (le_event l) (le_file l) (le_line l) (le_parent_ids l) s of
             (Some r, s2) \<Rightarrow> and_then (r, s2) ?d | (None, s2) \<Rightarrow> and_then (?d s2) ?d)"
  have body: "holds (body l b)" for l b
    unfolding body_def by (intro branch Suc core')
  have "holds (\<lambda>s. case q of [] \<Rightarrow> (RunOk, s) | l # q \<Rightarrow> body l b (s\<lparr>er_queue := q\<rparr>))" for q b
    by (cases q) (simp_all add: holds_ok before [OF body queue])
  from dependent [of "\<lambda>s t. case er_queue s of [] \<Rightarrow> (RunOk, t)
      | l # q \<Rightarrow> body l (er_replay_blocked s) (t\<lparr>er_queue := q\<rparr>)", OF this]
  show ?case unfolding drain_step body_def Let_def by simp
qed

lemma holds_handle: "holds (handle_runtime_event_located_with_parents n env e f l ps)"
proof -
  have eq: "handle_runtime_event_located_with_parents n env e f l ps s =
    (if fst (handle_core env e f l ps s) = None
     then and_then (settled (handle_core env e f l ps s)) (drain_emitted_events n env)
     else settled (handle_core env e f l ps s))" for s :: "('s, 'h) EventRuntime"
    by (cases "handle_core env e f l ps s"; cases "fst (handle_core env e f l ps s)")
      (auto simp: handle_runtime_event_located_with_parents_def settled_def and_then_def)
  have "holds (\<lambda>s. handle_runtime_event_located_with_parents n env e f l ps s)"
    unfolding eq by (intro branch sequence core holds_drain)
  then show ?thesis by simp
qed

lemma holds_emit_with_parents: "holds (emit_event_with_parents n env e ps f l)"
  unfolding emit_event_with_parents_def [abs_def] by (intro sequence holds_handle holds_drain)

lemma holds_emit: "holds (runtime_emit_event n env e)"
  unfolding runtime_emit_event_def [abs_def] emit_event_located_def
  by (rule before, rule holds_emit_with_parents) (auto simp: unchanged observed_mark split: RuntimeEvent.split)

lemma holds_route_tick: "holds (emit_route_tick n env)"
proof -
  have again: "holds (\<lambda>s. emit_event_with_parents n env (route_tick (er_runtime_tick s)) ps f l
      (s\<lparr>er_last_written_event_id := None\<rparr>))" for ps f l
    by (rule dependent, rule before, rule holds_emit_with_parents) (rule written_mark)
  show ?thesis
    unfolding emit_route_tick_def [abs_def] require_written_def [abs_def]
    by (rule dependent) (intro sequence branch holds_emit holds_ok again answer conjI unchanged; simp)
qed

lemma holds_runtime_state: "holds (emit_runtime_state n env)"
  unfolding emit_runtime_state_def [abs_def] by (rule dependent) (rule holds_emit)

lemma holds_tick: "holds (emit_tick n env)"
proof -
  let ?t = "\<lambda>s :: ('s, 'h) EventRuntime. s\<lparr>er_runtime_tick := saturating_add (er_runtime_tick s) 1, er_route_tick_append_seen := False\<rparr>"
  have tick: "holds (\<lambda>s. runtime_emit_event n env (EvTick \<lparr> tk_tick = er_runtime_tick (?t s), tk_emitted = True \<rparr>) (?t s))"
    by (rule dependent, rule before, rule holds_emit) (rule tick_mark)
  have state: "holds (\<lambda>s. emit_runtime_state n env (s\<lparr>er_last_route_tick_emitted := er_runtime_tick s\<rparr>))"
    by (rule before [OF holds_runtime_state]) (rule route_mark)
  show ?thesis
    unfolding emit_tick_def [abs_def] Let_def require_written_def [abs_def]
    by (intro sequence branch holds_drain answer holds_route_tick tick state; simp add: unchanged)
qed

lemma holds_all: "holds (handle_all n env es)"
proof (induction es)
  case Nil
  show ?case using holds_ok by (simp add: handle_all.simps(1) [abs_def])
next
  case (Cons e es)
  then have "holds (\<lambda>s. handle_all n env (e # es) s)"
    unfolding handle_all.simps by (intro sequence holds_handle)
  then show ?case by simp
qed

lemma holds_kernel: "holds (handle_kernel_event n env ev)"
proof -
  have "holds (\<lambda>s. case apply_delta h d st of Inl msg \<Rightarrow> (RunErr msg, snd (kernel_delta ev s))
      | Inr st \<Rightarrow> handle_all n env (es st) ((snd (kernel_delta ev s))\<lparr>er_state := st\<rparr>))" for h d st es
    by (cases "apply_delta h d st") (simp_all add: answer kernel before [OF holds_all kernel(2)])
  from dependent [OF this] show ?thesis
    unfolding handle_kernel_event_def [abs_def] Let_def case_prod_beta .
qed

end

section \<open>Operations as functions that keep the log\<close>

text \<open>Keeping the log, under the assumption on the serialiser.\<close>

definition keeps_log ::
  "RuntimeEnv \<Rightarrow> (('s, 'h) EventRuntime \<Rightarrow> RunResult \<times> ('s, 'h) EventRuntime) \<Rightarrow> bool" where
  "keeps_log env f \<longleftrightarrow>
     (\<forall>s. er_fresh s \<le> er_fresh (snd (f s))) \<and>
     (faithful_writer (rn_writer env) \<longrightarrow> (\<forall>s es. runtime_ok env s es \<longrightarrow> step_ok env s es (f s)))"

lemma keeps_log_core: "keeps_log env (\<lambda>s. settled (handle_core env e f l parents s))"
  unfolding keeps_log_def using handle_core_ok handle_core_fresh by (auto simp: settled_def)

lemma keeps_log_same: "(\<And>s. same_log s (snd (f s)) \<and> fst (f s) \<noteq> RunHang) \<Longrightarrow> keeps_log env f"
  unfolding keeps_log_def by (metis prod.collapse same_log_def step_ok_same)

lemma keeps_log_and_then:
  assumes "keeps_log env f" and "keeps_log env g"
  shows "keeps_log env (\<lambda>s. and_then (f s) g)"
proof -
  have "er_fresh s \<le> er_fresh (snd (and_then (f s) g)) \<and>
      (faithful_writer (rn_writer env) \<longrightarrow> runtime_ok env s es \<longrightarrow> step_ok env s es (and_then (f s) g))" for s es
  proof -
    obtain r s1 where f: "f s = (r, s1)" by (metis surj_pair)
    have le: "er_fresh s \<le> er_fresh s1" "er_fresh s1 \<le> er_fresh (snd (g s1))"
      using assms f unfolding keeps_log_def by (metis snd_conv)+
    have "step_ok env s es (r, s1)" if "faithful_writer (rn_writer env)" "runtime_ok env s es"
      using assms(1) f that by (metis keeps_log_def)
    with step_ok_trans [of env s es r s1 "g s1"] assms(2) le show ?thesis
      by (cases r) (auto simp: and_then_def f keeps_log_def intro: order_trans)
  qed
  then show ?thesis unfolding keeps_log_def by blast
qed

lemma keeps_log_pre:
  assumes "keeps_log env f" and "\<And>s. same_log s (upd s)"
  shows "keeps_log env (\<lambda>s. f (upd s))"
  using assms unfolding keeps_log_def
  by (meson order_trans runtime_ok_same same_log_def step_ok_after)

interpretation logged: runtime_closure "keeps_log env" same_log env for env
proof (unfold_locales, goal_cases)
  case 1 show ?case by (rule keeps_log_core)
next
  case 2 then show ?case by (rule keeps_log_and_then)
next
  case 3 then show ?case by (rule keeps_log_pre)
next
  case 4 then show ?case by (intro keeps_log_same) simp
next
  case 5 then show ?case by (simp add: keeps_log_def)
next
  case 6 then show ?case by (simp add: keeps_log_def)
qed (simp_all add: same_log_def kernel_delta_def Let_def)

section \<open>Sequences of operations\<close>

datatype RuntimeOp =
    OpEmit RuntimeEvent
  | OpEmitWithParents RuntimeEvent "EventId list" string u32
  | OpTick
  | OpKernel RustcEvent
  | OpFlush
  | OpReset
  | OpTakeObserved
  | OpSetNextId u64
  | OpExecuteCapabilities bool

fun runtime_op ::
  "nat \<Rightarrow> RuntimeEnv \<Rightarrow> RuntimeOp \<Rightarrow> ('s, 'h) EventRuntime \<Rightarrow> RunResult \<times> ('s, 'h) EventRuntime" where
  "runtime_op n env (OpEmit e) s = runtime_emit_event n env e s"
| "runtime_op n env (OpEmitWithParents e ps f l) s = emit_event_with_parents n env e ps f l s"
| "runtime_op n env OpTick s = emit_tick n env s"
| "runtime_op n env (OpKernel ev) s = handle_kernel_event n env ev s"
| "runtime_op n env OpFlush s = drain_emitted_events n env s"
| "runtime_op n env OpReset s = (RunOk, runtime_reset s)"
| "runtime_op n env OpTakeObserved s = (RunOk, snd (take_observed_events s))"
| "runtime_op n env (OpSetNextId i) s = (RunOk, set_next_id i s)"
| "runtime_op n env (OpExecuteCapabilities b) s = (RunOk, set_execute_capabilities b s)"

text \<open>A run goes on after a result or an error value and ends with a panic or a hang.\<close>

fun runtime_run ::
  "nat \<Rightarrow> RuntimeEnv \<Rightarrow> RuntimeOp list \<Rightarrow> ('s, 'h) EventRuntime \<Rightarrow> ('s, 'h) EventRuntime" where
  "runtime_run n env [] s = s"
| "runtime_run n env (x # xs) s =
     (case runtime_op n env x s of
        (RunOk, s') \<Rightarrow> runtime_run n env xs s'
      | (RunErr _, s') \<Rightarrow> runtime_run n env xs s'
      | (_, s') \<Rightarrow> s')"

definition runtime_log :: "RuntimeEnv \<Rightarrow> ('s, 'h) EventRuntime \<Rightarrow> CanonEvent list" where
  "runtime_log env s =
     (case er_tlog_writer s of None \<Rightarrow> [] | Some w \<Rightarrow> log_events (we_reader (rn_writer env)) (bw_dir w))"

lemma runtime_log_ok_log: "runtime_log_ok env s es \<Longrightarrow> runtime_log env s = es \<and> legal_log es"
  by (auto simp: runtime_log_ok_def runtime_log_def log_ok_events legal_log_def split: option.splits)
    (auto simp: log_ok_def legal_log_def)

lemma keeps_log_op: "keeps_log env (runtime_op n env x :: ('s, 'h) EventRuntime \<Rightarrow> _)"
proof -
  have "keeps_log env (\<lambda>s :: ('s, 'h) EventRuntime. runtime_op n env x s)"
    by (cases x)
      (auto simp: same_log_def runtime_reset_def take_observed_events_def set_next_id_def
        set_execute_capabilities_def intro: logged.holds_emit logged.holds_emit_with_parents logged.holds_tick
        logged.holds_kernel logged.holds_drain logged.answer)
  then show ?thesis by simp
qed

lemma run_fresh: "er_fresh s \<le> er_fresh (runtime_run n env xs s)"
proof (induction xs arbitrary: s)
  case (Cons x xs)
  obtain r s' where x: "runtime_op n env x s = (r, s')" by (metis surj_pair)
  have "er_fresh s \<le> er_fresh s'" using keeps_log_op [of env n x] x unfolding keeps_log_def by (metis snd_conv)
  with Cons.IH [of s'] show ?case by (cases r) (auto simp: x)
qed simp

text \<open>One operation of a run: it either ends the run or leaves a runtime that can go on.\<close>

lemma run_step:
  assumes "faithful_writer (rn_writer env)" and "runtime_ok env s es"
    and "er_fresh (runtime_run n env (x # xs) s) < 2 ^ 64"
  obtains s' es' where "\<And>us. runtime_run n env (x # us) s = s'" "runtime_log_ok env s' (es @ es')"
  | s' es' where "\<And>us. runtime_run n env (x # us) s = runtime_run n env us s'" "runtime_ok env s' (es @ es')"
proof -
  obtain r s' where x: "runtime_op n env x s = (r, s')" by (metis surj_pair)
  define go where "go \<longleftrightarrow> r = RunOk \<or> (\<exists>m. r = RunErr m)"
  have run: "runtime_run n env (x # us) s = (if go then runtime_run n env us s' else s')" for us
    by (cases r) (auto simp: x go_def)
  have "er_fresh s' < 2 ^ 64"
    using assms(3) run_fresh [of s' n env xs] unfolding run by (auto split: if_splits)
  moreover have "step_ok env s es (r, s')"
    using keeps_log_op [of env n x] assms(1,2) x unfolding keeps_log_def by metis
  ultimately obtain es' where es': "if r = RunHang then runtime_log_ok env s' (es @ es') else runtime_ok env s' (es @ es')"
    unfolding step_ok_def fst_conv snd_conv by blast
  show thesis
  proof (cases go)
    case True
    then have "runtime_ok env s' (es @ es')" using es' by (auto simp: go_def)
    with run True that(2) show thesis by simp
  next
    case False
    have "runtime_log_ok env s' (es @ es')" using es' by (auto split: if_splits intro: runtime_ok_log)
    with run False that(1) show thesis by simp
  qed
qed

lemma run_keeps:
  assumes "faithful_writer (rn_writer env)" and "runtime_ok env s es"
    and "er_fresh (runtime_run n env xs s) < 2 ^ 64"
  shows "\<exists>es'. runtime_log_ok env (runtime_run n env xs s) (es @ es')"
  using assms(2,3)
proof (induction xs arbitrary: s es)
  case Nil
  then show ?case by (auto intro: runtime_ok_log intro!: exI [of _ "[]"])
next
  case (Cons x xs)
  from assms(1) Cons.prems show ?case
  proof (cases rule: run_step)
    case (2 s' es')
    with Cons.IH [of s' "es @ es'"] Cons.prems(2) show ?thesis by auto
  qed auto
qed

lemma run_extends:
  assumes "faithful_writer (rn_writer env)" and "runtime_ok env s es"
    and "er_fresh (runtime_run n env (xs @ ys) s) < 2 ^ 64"
  shows "\<exists>es1 es2. runtime_log_ok env (runtime_run n env xs s) (es @ es1) \<and>
    runtime_log_ok env (runtime_run n env (xs @ ys) s) (es @ es1 @ es2)"
  using assms(2,3)
proof (induction xs arbitrary: s es)
  case Nil
  with run_keeps [OF assms(1) Nil(1), of n ys] obtain es' where
    "runtime_log_ok env (runtime_run n env ys s) (es @ es')" by auto
  with runtime_ok_log [OF Nil(1)] show ?case by (intro exI [of _ "[]"] exI [of _ es']) simp
next
  case (Cons x xs)
  from assms(1) Cons.prems(1) Cons.prems(2) [unfolded append_Cons] show ?case
  proof (cases rule: run_step)
    case (1 s' es')
    then show ?thesis by (intro exI [of _ es'] exI [of _ "[]"]) simp
  next
    case (2 s' es')
    with Cons.IH [of s' "es @ es'"] Cons.prems(2) obtain es1 es2
      where "runtime_log_ok env (runtime_run n env xs s') (es @ es' @ es1)"
        "runtime_log_ok env (runtime_run n env (xs @ ys) s') (es @ es' @ es1 @ es2)" by auto
    with 2 show ?thesis by (intro exI [of _ "es' @ es1"] exI [of _ es2]) simp
  qed
qed


definition sample_wire :: CanonEvent where
  "sample_wire =
     (case runtime_event_to_wire sample_shape 7 (EvTick \<lparr> tk_tick = 1, tk_emitted = True \<rparr>) [] ''x'' [] 0 of
        WireOk w \<Rightarrow> w | _ \<Rightarrow> sample_tick)"

definition sample_runtime_env :: RuntimeEnv where
  "sample_runtime_env =
     \<lparr> rn_shape = sample_shape,
       rn_writer =
         \<lparr> we_reader =
             \<lparr> rd_event_from_str = (\<lambda>s. if s = ''1'' then Some sample_wire else None),
               rd_legacy_from_str = (\<lambda>_. None), rd_kind_from_str = (\<lambda>_. None), rd_new_event_id = ''new'' \<rparr>,
           we_to_vec = (\<lambda>e. if e = sample_wire then Some [0x31] else None), we_hash = (\<lambda>_ _ _. 0) \<rparr>,
       rn_now = (\<lambda>_. 7), rn_id = (\<lambda>_. ''x''), rn_ambient = (\<lambda>_. sample_ambient),
       rn_content_hash = (\<lambda>_ _. 0), rn_count_hash = (\<lambda>_ _ _. []),
       rn_features = \<lparr> fe_kind_hash = (\<lambda>_. 0), fe_actor_hash = (\<lambda>_. 0), fe_to_string = (\<lambda>_. []) \<rparr>,
       rn_file = [], rn_bus_file = [], rn_rustc_event = (\<lambda>_. None), rn_edit_event = (\<lambda>_. None),
       rn_decode = (\<lambda>_ _. None) \<rparr>"

definition sample_runtime :: "(unit, unit) EventRuntime" where
  "sample_runtime =
     the (set_tlog_path sample_runtime_env True []
       (new_runtime sample_runtime_env default_engine_config (new_bus new_hook_chain ())))"

lemma sample_runtime_faithful: "faithful_writer (rn_writer sample_runtime_env)"
  by (simp add: faithful_writer_def sample_runtime_env_def decode_record_def sample_text)

section \<open>A runtime without consumers\<close>

text \<open>What an append takes from the environment and what it leaves alone.\<close>

definition append_frame :: "nat \<Rightarrow> ('s, 'h) EventRuntime \<Rightarrow> ('s, 'h) EventRuntime \<Rightarrow> bool" where
  "append_frame k s s' \<longleftrightarrow>
     er_fresh s' \<le> er_fresh s + k \<and> er_bus s' = er_bus s \<and> er_mode s' = er_mode s \<and>
     er_runtime_tick s' = er_runtime_tick s \<and> er_observed_events s' = er_observed_events s"

lemma write_wire_frame: "append_frame 1 s (snd (write_wire env e wire w s))"
  by (simp add: append_frame_def write_wire_def Let_def split: prod.split Outcome.split)

lemma append_wire_frame: "append_frame 2 s (snd (append_wire env e wire w s))"
proof -
  have w: "append_frame 2 s (snd (write_wire env e wire w t))" if "append_frame 1 s t" for t
    using write_wire_frame [of t env e wire w] that by (auto simp: append_frame_def)
  show ?thesis
    unfolding append_wire_def Let_def
    by (auto intro!: loop_observed_case [of "\<lambda>r. append_frame 2 s (snd r)"] w split: prod.split)
      (auto simp: runtime_emit_def append_frame_def)
qed

lemma append_runtime_event_frame:
  "append_runtime_event env e f l ps i s = (r, s') \<Longrightarrow> append_frame 2 s s'"
  unfolding append_runtime_event_def
  using append_wire_frame [of s env e] append_frame_def [of 2 s s]
  by (auto split: option.splits WireResult.splits if_splits) (metis snd_conv)+

lemma append_dispatch_no_consumers:
  assumes "sync_consumers_len (er_bus s) = 0"
  shows "append_dispatch env e f l ps i b s = (case append_runtime_event env e f l ps i s of (r, s') \<Rightarrow> (Some r, s'))"
proof -
  obtain r s' where a: "append_runtime_event env e f l ps i s = (r, s')" by (metis surj_pair)
  have "er_bus s' = er_bus s" using append_runtime_event_frame [OF a] by (simp add: append_frame_def)
  with assms show ?thesis by (cases r) (simp_all add: append_dispatch_def a dispatch_phase_def)
qed

lemma handle_core_no_consumers:
  fixes s :: "('a, 'b) EventRuntime"
  assumes "sync_consumers_len (er_bus s) = 0" and "handle_core env e f l ps s = (r, s')"
  shows "r \<noteq> None \<and> er_bus s' = er_bus s \<and> er_fresh s' \<le> er_fresh s + 3"
proof -
  define Q where "Q = (\<lambda>res :: RunResult option \<times> ('a, 'b) EventRuntime. fst res \<noteq> None \<and> er_bus (snd res) = er_bus s \<and> er_fresh (snd res) \<le> er_fresh s + 3)"
  have "Q (append_dispatch env e f l qs i b (entered env e m s))" for qs i b m
    using append_dispatch_no_consumers [of "entered env e m s"] assms(1)
      append_runtime_event_frame [of env e f l qs i "entered env e m s"]
    by (auto simp: Q_def entered_def append_frame_def split: prod.split)
  then have "Q (handle_core env e f l ps s)"
    by (rule handle_core_rule [rotated 3]) (auto simp: Q_def entered_def)
  with assms(2) show ?thesis by (simp add: Q_def)
qed

lemma emit_no_consumers:
  assumes "sync_consumers_len (er_bus s) = 0"
  shows "er_fresh (snd (emit_event_with_parents 1 env e ps f l s)) \<le> er_fresh s + 6"
proof -
  obtain r s1 where h: "handle_core env e f l ps s = (Some r, s1)" "er_bus s1 = er_bus s" "er_fresh s1 \<le> er_fresh s + 3"
    using handle_core_no_consumers [OF assms] by (metis not_None_eq surj_pair)
  have "er_fresh (snd (drain_emitted_events 1 env s1)) \<le> er_fresh s1 + 3"
  proof -
    have "er_fresh (snd (handle_core env e f l ps (s1\<lparr>er_queue := q\<rparr>))) \<le> er_fresh s1 + 3" for e f l ps q
      using handle_core_no_consumers [of "s1\<lparr>er_queue := q\<rparr>" env e f l ps] assms h(2)
      by (cases "handle_core env e f l ps (s1\<lparr>er_queue := q\<rparr>)") simp
    then show ?thesis
      by (auto simp: and_then_def Let_def split: list.split prod.split option.split RunResult.split) (metis snd_conv)+
  qed
  with h show ?thesis
    by (cases r) (auto simp: emit_event_with_parents_def handle_runtime_event_located_with_parents_def and_then_def)
qed


section \<open>Fatal halt and recovery\<close>

text \<open>
  One run to another: the events handled in between, and that a halted runtime runs again only
  when one of them asks for it.
\<close>

definition recovers :: "('s, 'h) EventRuntime \<Rightarrow> ('s, 'h) EventRuntime \<Rightarrow> bool" where
  "recovers s s' \<longleftrightarrow>
     (\<exists>es. er_observed_events s' = er_observed_events s @ es \<and>
        (is_fatal_halt_active (er_mode s) \<longrightarrow> \<not> is_fatal_halt_active (er_mode s') \<longrightarrow>
          (\<exists>e \<in> set es. recovery_signal_reason e \<noteq> None)))"

definition same_mode :: "('s, 'h) EventRuntime \<Rightarrow> ('s, 'h) EventRuntime \<Rightarrow> bool" where
  "same_mode s s' \<longleftrightarrow> er_mode s' = er_mode s \<and> er_observed_events s' = er_observed_events s"

lemma same_mode_trans: "same_mode s t \<Longrightarrow> same_mode t u \<Longrightarrow> same_mode s u"
  by (simp add: same_mode_def)

lemma recovers_same: "same_mode s s' \<Longrightarrow> recovers s s'"
  by (auto simp: recovers_def same_mode_def)

lemma recovers_trans: "recovers s t \<Longrightarrow> recovers t u \<Longrightarrow> recovers s u"
  unfolding recovers_def by (elim exE) (rule exI, rule conjI, simp, auto)

lemma bus_dispatch_mode: "bus_dispatch env e eid s = (r, s') \<Longrightarrow> same_mode s s'"
  by (auto simp: bus_dispatch_def same_mode_def runtime_emit_def split: prod.splits)

lemma fresh_id_mode: "fresh_id env s = (i, s') \<Longrightarrow> same_mode s s'"
  by (auto simp: fresh_id_def same_mode_def)

lemma update_runtime_state_mode [simp]:
  "er_mode (update_runtime_state e s) = er_mode s" "er_observed_events (update_runtime_state e s) = er_observed_events s"
  by (simp_all add: update_runtime_state_def split: RuntimeEvent.split)

lemma dispatch_phase_mode: "dispatch_phase env b e i s = (r, s') \<Longrightarrow> same_mode s s'"
  unfolding dispatch_phase_def
  by (auto simp: Let_def split: if_splits prod.splits Dispatched.splits option.splits
      dest!: bus_dispatch_mode fresh_id_mode) (auto simp: same_mode_def)

lemma append_dispatch_mode: "same_mode s (snd (append_dispatch env e f l ps i b s))"
proof -
  obtain r s3 where a: "append_runtime_event env e f l ps i s = (r, s3)" by (metis surj_pair)
  obtain r' s4 where d: "dispatch_phase env b e i s3 = (r', s4)" by (metis surj_pair)
  have "same_mode s s3" using append_runtime_event_frame [OF a] by (simp add: same_mode_def append_frame_def)
  with same_mode_trans [OF this dispatch_phase_mode [OF d]] show ?thesis
    by (cases r) (simp_all add: append_dispatch_def a d)
qed

lemma mode_after_halt:
  "is_fatal_halt_active m \<Longrightarrow> \<not> is_fatal_halt_active (mode_after e m) \<Longrightarrow> recovery_signal_reason e \<noteq> None"
  by (auto simp: mode_after_def split: option.splits if_splits)

lemma handle_core_recovers: "recovers s (snd (handle_core env e f l ps s))"
proof -
  define qs where "qs = effective_parents ps s"
  have "recovers s (snd (append_dispatch env e f l qs i b (entered env e (mode_after e (er_mode s)) s)))" for i b
    using append_dispatch_mode [of "entered env e (mode_after e (er_mode s)) s" env e f l qs i b] mode_after_halt [of "er_mode s" e]
    by (auto simp: recovers_def same_mode_def entered_def)
  moreover have "recovers s s" "recovers s (entered env e (FatalInvariantHalt m) s)" for m
    by (auto simp: recovers_def entered_def)
  ultimately show ?thesis
    unfolding handle_core_eq Let_def qs_def [symmetric]
    by (cases "if is_driver e then None else validate_before_append e qs") simp_all
qed

interpretation recovery: runtime_closure "\<lambda>f. \<forall>s. recovers s (snd (f s))" same_mode env for env
proof (unfold_locales, goal_cases)
  case 1 show ?case by (simp add: settled_def handle_core_recovers)
next
  case (2 g k)
  have "recovers s (snd (and_then (g s) k))" for s
  proof -
    obtain r t where g: "g s = (r, t)" by (metis surj_pair)
    have "recovers s t" "recovers t (snd (k t))" using 2 g by (metis snd_conv)+
    then show ?thesis by (cases r) (auto simp: and_then_def g intro: recovers_trans)
  qed
  then show ?case by blast
next
  case 3 then show ?case by (meson recovers_same recovers_trans)
next
  case 4 then show ?case by (simp add: recovers_same)
qed (simp_all add: same_mode_def kernel_delta_def Let_def)

text \<open>C13: A runtime that halted on a fatal violation resumes only on request: whatever is emitted,
  ticked, compiled or flushed, and whatever consumers and hooks do, if the runtime was halted
  before an operation and runs after it, then one of the events handled in between is an error or
  debug event of the recovery kinds. The single exception is a reset.\<close>

theorem halt_ends_only_by_recovery_or_reset:
  assumes "is_fatal_halt_active (er_mode s)" and "\<not> is_fatal_halt_active (er_mode (snd (runtime_op n env x s)))"
  shows "x = OpReset \<or> (\<exists>es. er_observed_events (snd (runtime_op n env x s)) = er_observed_events s @ es \<and>
    (\<exists>e \<in> set es. recovery_signal_reason e \<noteq> None))"
proof (cases "x = OpReset")
  case False
  then have "recovers s (snd (runtime_op n env x s)) \<or> x = OpTakeObserved"
    by (cases x)
      (auto intro: recovery.holds_emit [rule_format] recovery.holds_emit_with_parents [rule_format]
        recovery.holds_tick [rule_format] recovery.holds_kernel [rule_format]
        recovery.holds_drain [rule_format] recovers_same
        simp: set_next_id_def set_execute_capabilities_def same_mode_def)
  with assms show ?thesis by (auto simp: recovers_def take_observed_events_def)
qed simp

definition halted_runtime :: "(unit, unit) EventRuntime" where
  "halted_runtime =
     (new_runtime sample_runtime_env default_engine_config (new_bus new_hook_chain ()))
       \<lparr>er_mode := FatalInvariantHalt ''duplicate event within dedup window''\<rparr>"

definition recovery_op :: RuntimeOp where
  "recovery_op = OpEmitWithParents
     (EvDebug \<lparr> dbg_source = ''operator'', dbg_kind = ''recovery_event'', dbg_payload = JNull \<rparr>) [''p''] [] 0"

theorem halt_ends_only_by_recovery_or_reset_witness:
  "is_fatal_halt_active (er_mode halted_runtime) \<and>
   (let s' = snd (runtime_op 0 sample_runtime_env recovery_op halted_runtime)
    in \<not> is_fatal_halt_active (er_mode s') \<and> (\<exists>e \<in> set (er_observed_events s'). recovery_signal_reason e \<noteq> None))"
proof -
  have h: "is_fatal_halt_active (er_mode halted_runtime)" "er_observed_events halted_runtime = []"
    by (simp_all add: halted_runtime_def new_runtime_def)
  have "\<not> is_fatal_halt_active (er_mode (snd (runtime_op 0 sample_runtime_env recovery_op halted_runtime)))"
    by (simp add: recovery_op_def halted_runtime_def new_runtime_def emit_event_with_parents_def
        handle_runtime_event_located_with_parents_def handle_core_eq Let_def effective_parents_def
        is_allowed_during_fatal_halt_def is_driver_def validate_before_append_iff append_dispatch_def
        append_runtime_event_def entered_def mode_after_def recovery_names_def fatal_invariant_reason_def and_then_def)
  with halt_ends_only_by_recovery_or_reset [OF h(1) this] h show ?thesis
    by (auto simp: Let_def recovery_op_def)
qed

section \<open>What the gates in front of the append do\<close>

text \<open>
  Emitting an observation records its tick before the append, and the append drops an observation
  of the recorded tick: an observation emitted through \<^verbatim>\<open>emit_event\<close> never reaches the log.
\<close>

lemma append_same_tick:
  assumes "er_last_loop_observed_tick s = Some (lo_tick lo)"
  shows "er_tlog_writer (snd (append_runtime_event env (EvLoopObserved lo) f l ps i s)) = er_tlog_writer s"
  using assms
  by (auto simp: append_runtime_event_def append_wire_def runtime_emit_def Let_def
      split: option.split WireResult.split prod.split)

lemma observation_is_never_logged:
  "er_tlog_writer (snd (handle_core env (EvLoopObserved lo) f l ps
     (s\<lparr>er_last_route_tick_emitted := lo_tick lo, er_last_loop_observed_tick := Some (lo_tick lo)\<rparr>))) =
   er_tlog_writer s" (is "er_tlog_writer (snd (handle_core env ?e f l ps ?s)) = _")
proof (rule handle_core_rule)
  show "er_tlog_writer (snd (append_dispatch env ?e f l qs i b (entered env ?e m ?s))) = er_tlog_writer s" for qs i b m
  proof -
    obtain r s3 where a: "append_runtime_event env ?e f l qs i (entered env ?e m ?s) = (r, s3)" by (metis surj_pair)
    obtain r' s4 where d: "dispatch_phase env b ?e i s3 = (r', s4)" by (metis surj_pair)
    have "er_tlog_writer s3 = er_tlog_writer s"
      using append_same_tick [of "entered env ?e m ?s" lo env f l qs i] a by (simp add: entered_def)
    with dispatch_phase_same [OF d] show ?thesis
      by (cases r) (auto simp: append_dispatch_def a d same_log_def)
  qed
qed (simp_all add: entered_def)

text \<open>
  A loaded prompt is one of the root kinds of the wire format, but the structural check in front
  of the append knows other roots: the first prompt of a runtime halts it.
\<close>

lemma parentless_prompt_halts:
  "er_last_written_event_id s = None \<Longrightarrow> \<not> is_fatal_halt_active (er_mode s) \<Longrightarrow>
     handle_core env (EvPromptLoaded p) f l [] s =
       (Some RunOk, entered env (EvPromptLoaded p) (FatalInvariantHalt ''missing_parent_ids'') s)"
  by (simp add: handle_core_eq Let_def effective_parents_def is_driver_def validate_before_append_iff)

text \<open>No kind has the wire name under which a replay looks for the runtime state.\<close>

lemma runtime_state_is_never_replayed: "ev_kind canon = RuntimeStateUpdated \<Longrightarrow> replayed_as env canon = None"
  by (simp add: replayed_as_def decoded_kinds_def Let_def)

text \<open>The first compiler event of a fresh runtime is refused unless it starts a session.\<close>

lemma first_kernel_event_is_refused:
  "\<not> is_session_start ev \<Longrightarrow> \<exists>msg. fst (handle_kernel_event n env ev (new_runtime env cfg bus)) = RunErr msg"
  using zero_id_is_refused
  by (auto simp: handle_kernel_event_def kernel_delta_def new_runtime_def Let_def apply_delta_def empty_state_def
      default_rustc_state_def)

end
