(* ===== verification/Union_Find.thy ===== *)
theory Union_Find
  imports Canon_Prelude
begin

text \<open>
  Disjoint sets and the equality solver built on them:
  \<^verbatim>\<open>algorithms/src/data_structures/union_find.rs\<close>,
  \<^verbatim>\<open>algorithms/src/constraints/unification.rs\<close> (the CPU path) and
  \<^verbatim>\<open>algorithms/src/parsing_compilation/type_unification.rs\<close>.

  The two loops of \<^verbatim>\<open>find\<close> follow parent pointers and need not end on an arbitrary array;
  \<^const>\<open>None\<close> stands for a call that does not return, because an index is out of range (a
  panic) or because the pointers form a cycle.
\<close>

section \<open>Disjoint sets\<close>

record UnionFind =
  uf_parent :: "nat list"
  uf_rank :: "u8 list"
  uf_components :: nat

definition new_union_find :: "nat \<Rightarrow> UnionFind" where
  "new_union_find n = \<lparr> uf_parent = [0..<n], uf_rank = replicate n 0, uf_components = n \<rparr>"

text \<open>The first loop: the root above a node.\<close>

partial_function (option) find_root :: "nat list \<Rightarrow> nat \<Rightarrow> nat option" where
  "find_root parent x =
     (if length parent \<le> x then None
      else if parent ! x = x then Some x
      else find_root parent (parent ! x))"

text \<open>The second loop: every node on the way is attached to the root.\<close>

partial_function (option) compress :: "nat list \<Rightarrow> nat \<Rightarrow> nat \<Rightarrow> nat list option" where
  "compress parent r cur =
     (if length parent \<le> cur then None
      else if parent ! cur = cur then Some parent
      else compress (parent[cur := r]) r (parent ! cur))"

definition uf_find :: "nat \<Rightarrow> UnionFind \<Rightarrow> (nat \<times> UnionFind) option" where
  "uf_find x uf =
     (case find_root (uf_parent uf) x of
        None \<Rightarrow> None
      | Some r \<Rightarrow> map_option (\<lambda>p. (r, uf\<lparr>uf_parent := p\<rparr>)) (compress (uf_parent uf) r x))"

definition link :: "nat \<Rightarrow> nat \<Rightarrow> UnionFind \<Rightarrow> UnionFind" where
  "link ra0 rb0 uf =
     (let (ra, rb) = (if uf_rank uf ! ra0 < uf_rank uf ! rb0 then (rb0, ra0) else (ra0, rb0))
      in uf\<lparr>uf_parent := (uf_parent uf)[rb := ra],
            uf_rank := (if uf_rank uf ! ra = uf_rank uf ! rb
                        then (uf_rank uf)[ra := saturating_add (uf_rank uf ! ra) 1] else uf_rank uf),
            uf_components := uf_components uf - 1\<rparr>)"

definition uf_union :: "nat \<Rightarrow> nat \<Rightarrow> UnionFind \<Rightarrow> (bool \<times> UnionFind) option" where
  "uf_union a b uf =
     (case uf_find a uf of
        None \<Rightarrow> None
      | Some (ra, uf1) \<Rightarrow>
          (case uf_find b uf1 of
             None \<Rightarrow> None
           | Some (rb, uf2) \<Rightarrow> Some (if ra = rb then (False, uf2) else (True, link ra rb uf2))))"

fun find_all :: "nat list \<Rightarrow> UnionFind \<Rightarrow> (nat list \<times> UnionFind) option" where
  "find_all [] uf = Some ([], uf)"
| "find_all (x # xs) uf =
     (case uf_find x uf of
        None \<Rightarrow> None
      | Some (r, uf1) \<Rightarrow> map_option (\<lambda>(rs, uf2). (r # rs, uf2)) (find_all xs uf1))"

definition labels :: "UnionFind \<Rightarrow> (nat list \<times> UnionFind) option" where
  "labels uf = find_all [0..<length (uf_parent uf)] uf"

section \<open>Equality constraints\<close>

record EqualityConstraint =
  ec_left :: u32
  ec_right :: u32

definition out_of_range_message :: "nat \<Rightarrow> EqualityConstraint \<Rightarrow> nat \<Rightarrow> string" where
  "out_of_range_message i c var_count =
     ''constraint '' @ decimal i @ '' out of range: ('' @ decimal (unat (ec_left c)) @ '', '' @
     decimal (unat (ec_right c)) @ '') with var_count='' @ decimal var_count"

fun validate_loop :: "nat \<Rightarrow> nat \<Rightarrow> EqualityConstraint list \<Rightarrow> string option" where
  "validate_loop var_count i [] = None"
| "validate_loop var_count i (c # cs) =
     (if var_count \<le> unat (ec_left c) \<or> var_count \<le> unat (ec_right c)
      then Some (out_of_range_message i c var_count) else validate_loop var_count (i + 1) cs)"

definition validate_constraints :: "nat \<Rightarrow> EqualityConstraint list \<Rightarrow> string option" where
  "validate_constraints var_count cs = validate_loop var_count 0 cs"

fun union_all :: "EqualityConstraint list \<Rightarrow> UnionFind \<Rightarrow> UnionFind option" where
  "union_all [] uf = Some uf"
| "union_all (c # cs) uf =
     (case uf_union (unat (ec_left c)) (unat (ec_right c)) uf of
        None \<Rightarrow> None
      | Some (_, uf1) \<Rightarrow> union_all cs uf1)"

text \<open>\<^const>\<open>None\<close>: the call does not return; otherwise an error message or the labels.\<close>

definition solve_constraints_cpu :: "nat \<Rightarrow> EqualityConstraint list \<Rightarrow> (string + u32 list) option" where
  "solve_constraints_cpu var_count cs =
     (case validate_constraints var_count cs of
        Some msg \<Rightarrow> Some (Inl msg)
      | None \<Rightarrow>
          (case union_all cs (new_union_find var_count) of
             None \<Rightarrow> None
           | Some uf \<Rightarrow> map_option (\<lambda>(rs, _). Inr (map of_nat rs)) (labels uf)))"

text \<open>Without the GPU feature the automatic solver is the CPU solver.\<close>

definition solve_constraints_auto :: "nat \<Rightarrow> EqualityConstraint list \<Rightarrow> (string + u32 list) option" where
  "solve_constraints_auto = solve_constraints_cpu"

section \<open>Type unification\<close>

record TypeConstraintGraph =
  tg_var_count :: u32
  tg_constraints :: "EqualityConstraint list"

definition new_type_graph :: "u32 \<Rightarrow> TypeConstraintGraph" where
  "new_type_graph n = \<lparr> tg_var_count = n, tg_constraints = [] \<rparr>"

definition add_equality :: "u32 \<Rightarrow> u32 \<Rightarrow> TypeConstraintGraph \<Rightarrow> string + TypeConstraintGraph" where
  "add_equality l r g =
     (if tg_var_count g \<le> l \<or> tg_var_count g \<le> r
      then Inl (''type variable out of range: ('' @ decimal (unat l) @ '', '' @ decimal (unat r) @
                '') with var_count='' @ decimal (unat (tg_var_count g)))
      else Inr (g\<lparr>tg_constraints := tg_constraints g @ [\<lparr> ec_left = l, ec_right = r \<rparr>]\<rparr>))"

fun add_equalities :: "(u32 \<times> u32) list \<Rightarrow> TypeConstraintGraph \<Rightarrow> string + TypeConstraintGraph" where
  "add_equalities [] g = Inr g"
| "add_equalities ((l, r) # es) g =
     (case add_equality l r g of Inl msg \<Rightarrow> Inl msg | Inr g1 \<Rightarrow> add_equalities es g1)"

definition from_equalities :: "u32 \<Rightarrow> (u32 \<times> u32) list \<Rightarrow> string + TypeConstraintGraph" where
  "from_equalities n es = add_equalities es (new_type_graph n)"

record TypeUnificationResult =
  tu_representative :: "u32 list"

definition representative_of :: "TypeUnificationResult \<Rightarrow> u32 \<Rightarrow> u32 option" where
  "representative_of res v =
     (if unat v < length (tu_representative res) then Some (tu_representative res ! unat v) else None)"

definition type_equivalent :: "TypeUnificationResult \<Rightarrow> u32 \<Rightarrow> u32 \<Rightarrow> bool" where
  "type_equivalent res a b \<longleftrightarrow> representative_of res a = representative_of res b"

definition unify_types_cpu :: "TypeConstraintGraph \<Rightarrow> (string + TypeUnificationResult) option" where
  "unify_types_cpu g =
     map_option (map_sum id (\<lambda>rs. \<lparr> tu_representative = rs \<rparr>))
       (solve_constraints_cpu (unat (tg_var_count g)) (tg_constraints g))"

definition unify_types_auto :: "TypeConstraintGraph \<Rightarrow> (string + TypeUnificationResult) option" where
  "unify_types_auto g =
     map_option (map_sum id (\<lambda>rs. \<lparr> tu_representative = rs \<rparr>))
       (solve_constraints_auto (unat (tg_var_count g)) (tg_constraints g))"

section \<open>Roots\<close>

text \<open>A node, the root above it and the number of steps between.\<close>

inductive root_at :: "nat list \<Rightarrow> nat \<Rightarrow> nat \<Rightarrow> nat \<Rightarrow> bool" for p where
  root: "x < length p \<Longrightarrow> p ! x = x \<Longrightarrow> root_at p x x 0"
| step: "x < length p \<Longrightarrow> p ! x \<noteq> x \<Longrightarrow> root_at p (p ! x) r n \<Longrightarrow> root_at p x r (Suc n)"

inductive_cases root_atE: "root_at p x r n"

lemma root_at_unique: "root_at p x r n \<Longrightarrow> root_at p x r' n' \<Longrightarrow> r' = r \<and> n' = n"
  by (induction arbitrary: n' rule: root_at.induct) (auto elim: root_atE)

lemma root_at_root: "root_at p x r n \<Longrightarrow> r < length p \<and> p ! r = r"
  by (induction rule: root_at.induct) auto

lemma root_at_less: "root_at p x r n \<Longrightarrow> x < length p"
  by (auto elim: root_atE)

lemma find_root_at: "root_at p x r n \<Longrightarrow> find_root p x = Some r"
  by (induction rule: root_at.induct) (subst find_root.simps, simp)+

text \<open>Attaching a node to its own root shortens paths and changes no root.\<close>

lemma root_at_compress:
  assumes "root_at p x r k" and "p ! x \<noteq> x" and "root_at p y s n"
  shows "\<exists>m \<le> n. root_at (p[x := r]) y s m"
  using assms(3)
proof (induction rule: root_at.induct)
  case (root y)
  then have "x \<noteq> y" using assms(2) by auto
  with root show ?case by (auto intro!: exI [of _ 0] root_at.root)
next
  case (step y s n)
  note r = root_at_root [OF assms(1)]
  have "r \<noteq> x" using r assms(2) by auto
  show ?case
  proof (cases "y = x")
    case True
    with root_at_unique [OF assms(1)] root_at.step [OF step.hyps] have "s = r" by blast
    moreover have "root_at (p[x := r]) r r 0"
      using r \<open>r \<noteq> x\<close> by (intro root_at.root) simp_all
    ultimately have "root_at (p[x := r]) y s (Suc 0)"
      using True step.hyps(1) r assms(2) by (intro root_at.step) (auto simp: nth_list_update)
    then show ?thesis by (metis Suc_le_mono le0)
  next
    case False
    with step.IH obtain m where "m \<le> n" "root_at (p[x := r]) (p ! y) s m" by blast
    with False step.hyps show ?thesis by (intro exI [of _ "Suc m"]) (auto intro: root_at.step)
  qed
qed

lemma compress_at:
  "root_at p x r n \<Longrightarrow> \<exists>q. compress p r x = Some q \<and> length q = length p \<and>
     (\<forall>y s m. root_at p y s m \<longrightarrow> (\<exists>k. root_at q y s k))"
proof (induction n arbitrary: p x rule: less_induct)
  case (less n)
  from less.prems have x: "x < length p" by (rule root_at_less)
  show ?case
  proof (cases "p ! x = x")
    case True
    with x show ?thesis by (subst compress.simps) auto
  next
    case False
    with less.prems obtain k where k: "n = Suc k" "root_at p (p ! x) r k" by (auto elim: root_atE)
    obtain m where m: "m \<le> k" "root_at (p[x := r]) (p ! x) r m"
      using root_at_compress [OF less.prems False k(2)] by blast
    with less.IH [of m "p[x := r]" "p ! x"] k(1) obtain q where
      q: "compress (p[x := r]) r (p ! x) = Some q" "length q = length p"
        "\<forall>y s m. root_at (p[x := r]) y s m \<longrightarrow> (\<exists>k. root_at q y s k)"
      by auto
    have "\<exists>k. root_at q y s k" if "root_at p y s j" for y s j
      using root_at_compress [OF less.prems False that] q(3) by blast
    with q x False show ?thesis by (subst compress.simps) auto
  qed
qed

section \<open>The invariant and what the operations do to it\<close>

text \<open>Every node has a root, the ranks fit the nodes, and the count is the number of roots.\<close>

definition roots :: "nat list \<Rightarrow> nat set" where
  "roots p = {x. x < length p \<and> p ! x = x}"

definition uf_ok :: "UnionFind \<Rightarrow> bool" where
  "uf_ok uf \<longleftrightarrow>
     (\<forall>x < length (uf_parent uf). \<exists>r n. root_at (uf_parent uf) x r n) \<and>
     length (uf_rank uf) = length (uf_parent uf) \<and> uf_components uf = card (roots (uf_parent uf))"

text \<open>The root of a node, and the partition of the nodes.\<close>

definition has_root :: "UnionFind \<Rightarrow> nat \<Rightarrow> nat \<Rightarrow> bool" where
  "has_root uf x r \<longleftrightarrow> (\<exists>n. root_at (uf_parent uf) x r n)"

lemma has_root_unique: "has_root uf x r \<Longrightarrow> has_root uf x s \<Longrightarrow> s = r"
  using root_at_unique by (auto simp: has_root_def)

lemma has_root_exists: "uf_ok uf \<Longrightarrow> x < length (uf_parent uf) \<Longrightarrow> \<exists>r. has_root uf x r"
  by (auto simp: uf_ok_def has_root_def)

lemma roots_iff: "x \<in> roots p \<longleftrightarrow> root_at p x x 0"
  by (auto simp: roots_def intro: root_at.root elim: root_atE)

lemma roots_root: "r \<in> roots p \<longleftrightarrow> (\<exists>x n. root_at p x r n)"
  using root_at_root roots_iff by (auto simp: roots_def)

lemma new_union_find_ok: "uf_ok (new_union_find n) \<and> (\<forall>x r. has_root (new_union_find n) x r \<longleftrightarrow> x < n \<and> r = x)"
proof -
  have "root_at [0..<n] x r k \<longleftrightarrow> x < n \<and> r = x \<and> k = 0" for x r k
    by (auto intro: root_at.root elim: root_atE)
  moreover have "roots [0..<n] = {0..<n}" by (auto simp: roots_def)
  ultimately show ?thesis by (auto simp: uf_ok_def has_root_def new_union_find_def)
qed

lemma uf_find_ok:
  assumes "uf_ok uf" and "has_root uf x r"
  shows "\<exists>uf'. uf_find x uf = Some (r, uf') \<and> uf_ok uf' \<and> length (uf_parent uf') = length (uf_parent uf) \<and>
    (\<forall>y s. has_root uf' y s \<longleftrightarrow> has_root uf y s)"
proof -
  let ?p = "uf_parent uf"
  from assms(2) obtain n where n: "root_at ?p x r n" by (auto simp: has_root_def)
  from compress_at [OF n] obtain q where q: "compress ?p r x = Some q" "length q = length ?p"
      "\<forall>y s m. root_at ?p y s m \<longrightarrow> (\<exists>k. root_at q y s k)" by blast
  have eq: "(\<exists>k. root_at q y s k) \<longleftrightarrow> (\<exists>m. root_at ?p y s m)" for y s
  proof
    assume "\<exists>k. root_at q y s k"
    then obtain k where k: "root_at q y s k" ..
    then have "y < length ?p" using root_at_less q(2) by metis
    with assms(1) obtain r' m where "root_at ?p y r' m" by (auto simp: uf_ok_def)
    with q(3) k root_at_unique show "\<exists>m. root_at ?p y s m" by metis
  qed (use q(3) in blast)
  have "roots q = roots ?p" using eq by (auto simp: roots_root set_eq_iff)
  with assms(1) q(2) eq have "uf_ok (uf\<lparr>uf_parent := q\<rparr>)" by (auto simp: uf_ok_def)
  with find_root_at [OF n] q eq show ?thesis by (auto simp: uf_find_def has_root_def)
qed

lemma root_at_link:
  assumes "ra \<in> roots p" and "rb \<in> roots p" and "ra \<noteq> rb" and "root_at p x r n"
  shows "\<exists>m. root_at (p[rb := ra]) x (if r = rb then ra else r) m"
  using assms(4)
proof (induction rule: root_at.induct)
  case (root x)
  have "root_at (p[rb := ra]) ra ra 0" using assms(1,3) by (intro root_at.root) (auto simp: roots_def)
  then have "root_at (p[rb := ra]) rb ra (Suc 0)"
    using assms(1-3) by (intro root_at.step) (auto simp: roots_def)
  moreover have "root_at (p[rb := ra]) x x 0" if "x \<noteq> rb" using that root by (intro root_at.root) simp_all
  ultimately show ?case by auto
next
  case (step x r n)
  then obtain m where "root_at (p[rb := ra]) (p ! x) (if r = rb then ra else r) m" by blast
  moreover from step.hyps(2) have "x \<noteq> rb" using assms(2) by (auto simp: roots_def)
  ultimately show ?case using step.hyps by (intro exI [of _ "Suc m"] root_at.step) simp_all
qed

text \<open>Merging two classes with roots \<open>ra\<close> and \<open>rb\<close>, whichever becomes the root of the union.\<close>

lemma link_ok:
  assumes "uf_ok uf" and "ra \<in> roots (uf_parent uf)" and "rb \<in> roots (uf_parent uf)" and "ra \<noteq> rb"
  shows "uf_ok (link ra rb uf) \<and> length (uf_parent (link ra rb uf)) = length (uf_parent uf) \<and>
    (\<exists>t \<in> {ra, rb}. \<forall>x r. has_root uf x r \<longrightarrow> has_root (link ra rb uf) x (if r \<in> {ra, rb} then t else r))"
proof -
  have merge: "uf_ok uf' \<and> (\<forall>x r. has_root uf x r \<longrightarrow> has_root uf' x (if r \<in> {s, t} then s else r))"
    if "uf_parent uf' = (uf_parent uf)[t := s]" "length (uf_rank uf') = length (uf_rank uf)"
      "uf_components uf' = uf_components uf - 1" "s \<in> roots (uf_parent uf)" "t \<in> roots (uf_parent uf)" "s \<noteq> t"
    for uf' s t
  proof -
    have l: "\<exists>m. root_at (uf_parent uf') x (if r = t then s else r) m" if "root_at (uf_parent uf) x r n" for x r n
      using root_at_link [OF \<open>s \<in> _\<close> \<open>t \<in> _\<close> \<open>s \<noteq> t\<close> that] \<open>uf_parent uf' = _\<close> by simp
    have "roots (uf_parent uf') = roots (uf_parent uf) - {t}"
      using that(1,4-6) by (auto simp: roots_def nth_list_update)
    then have "uf_components uf' = card (roots (uf_parent uf'))"
      using that(3,5) assms(1) by (simp add: uf_ok_def card_Diff_singleton_if)
    with l assms(1) that(1,2) have "uf_ok uf'" by (auto simp: uf_ok_def) blast
    moreover have "has_root uf' x (if r \<in> {s, t} then s else r)" if "has_root uf x r" for x r
    proof -
      from that obtain n where "root_at (uf_parent uf) x r n" by (auto simp: has_root_def)
      from l [OF this] show ?thesis by (auto simp: has_root_def)
    qed
    ultimately show ?thesis by blast
  qed
  show ?thesis
  proof (cases "uf_rank uf ! ra < uf_rank uf ! rb")
    case True
    with merge [of "link ra rb uf" ra rb] assms show ?thesis
      by (intro conjI) (auto simp: link_def Let_def insert_commute)
  next
    case False
    with merge [of "link ra rb uf" rb ra] assms show ?thesis
      by (intro conjI) (auto simp: link_def Let_def)
  qed
qed

definition same_class :: "UnionFind \<Rightarrow> nat \<Rightarrow> nat \<Rightarrow> bool" where
  "same_class uf x y \<longleftrightarrow> (\<exists>r. has_root uf x r \<and> has_root uf y r)"

lemma uf_union_ok:
  assumes "uf_ok uf" and "a < length (uf_parent uf)" and "b < length (uf_parent uf)"
  shows "\<exists>uf'. uf_union a b uf = Some (\<not> same_class uf a b, uf') \<and> uf_ok uf' \<and>
    length (uf_parent uf') = length (uf_parent uf) \<and>
    (\<forall>x y. same_class uf' x y \<longleftrightarrow>
       same_class uf x y \<or> (same_class uf x a \<and> same_class uf b y) \<or> (same_class uf x b \<and> same_class uf a y))"
proof -
  obtain ra where ra: "has_root uf a ra" using has_root_exists [OF assms(1,2)] ..
  obtain rb where rb: "has_root uf b rb" using has_root_exists [OF assms(1,3)] ..
  obtain uf1 where f1: "uf_find a uf = Some (ra, uf1)" "uf_ok uf1" "length (uf_parent uf1) = length (uf_parent uf)"
      "\<And>y s. has_root uf1 y s \<longleftrightarrow> has_root uf y s"
    using uf_find_ok [OF assms(1) ra] by blast
  obtain uf2 where f2: "uf_find b uf1 = Some (rb, uf2)" "uf_ok uf2" "length (uf_parent uf2) = length (uf_parent uf)"
      "\<And>y s. has_root uf2 y s \<longleftrightarrow> has_root uf y s"
    using uf_find_ok [OF f1(2), of b rb] rb f1(3,4) by auto
  have same: "same_class uf x y \<longleftrightarrow> r = s" if "has_root uf x r" "has_root uf y s" for x y r s
    using that by (auto simp: same_class_def dest: has_root_unique)
  have none: "\<not> same_class uf' x y" if "\<not> (x < length (uf_parent uf') \<and> y < length (uf_parent uf'))" for uf' x y
    using that root_at_less by (auto simp: same_class_def has_root_def)
  show ?thesis
  proof (cases "ra = rb")
    case True
    then have "same_class uf2 = same_class uf" using f2(4) by (intro ext) (simp add: same_class_def)
    moreover have "same_class uf x y \<or> same_class uf x a \<and> same_class uf b y \<or> same_class uf x b \<and> same_class uf a y
        \<longleftrightarrow> same_class uf x y" for x y
      using True ra rb by (auto simp: same_class_def dest: has_root_unique)
    ultimately show ?thesis
      using f1 f2 True same [OF ra rb] by (simp add: uf_union_def)
  next
    case False
    let ?uf = "link ra rb uf2"
    have "ra \<in> roots (uf_parent uf2)" "rb \<in> roots (uf_parent uf2)"
      using ra rb f2(4) by (auto simp: roots_root has_root_def)
    from link_ok [OF f2(2) this False] f2(3,4) obtain t where l: "uf_ok ?uf" "length (uf_parent ?uf) = length (uf_parent uf)"
        "t \<in> {ra, rb}" "\<And>x r. has_root uf x r \<Longrightarrow> has_root ?uf x (if r \<in> {ra, rb} then t else r)" by auto
    have "same_class ?uf x y \<longleftrightarrow> same_class uf x y \<or> (same_class uf x a \<and> same_class uf b y) \<or>
        (same_class uf x b \<and> same_class uf a y)" for x y
    proof (cases "x < length (uf_parent uf) \<and> y < length (uf_parent uf)")
      case True
      then obtain r s where rs: "has_root uf x r" "has_root uf y s" using has_root_exists [OF assms(1)] by blast
      have "same_class ?uf x y \<longleftrightarrow> (if r \<in> {ra, rb} then t else r) = (if s \<in> {ra, rb} then t else s)"
        using l(4) [OF rs(1)] l(4) [OF rs(2)] by (auto simp: same_class_def dest: has_root_unique)
      also have "\<dots> \<longleftrightarrow> r = s \<or> (r = ra \<and> s = rb) \<or> (r = rb \<and> s = ra)" using l(3) by auto
      finally show ?thesis
        using same [OF rs] same [OF rs(1) ra] same [OF rs(1) rb] same [OF rb rs(2)] same [OF ra rs(2)] by auto
    next
      case False
      with none [of x ?uf y] none [of x uf y] none [of x uf a] none [of b uf y] none [of x uf b] none [of a uf y] l(2)
      show ?thesis by auto
    qed
    with f1 f2 False l(1,2) same [OF ra rb] show ?thesis by (simp add: uf_union_def)
  qed
qed

section \<open>The solver\<close>

text \<open>The relation the constraints ask for.\<close>

definition stated :: "EqualityConstraint list \<Rightarrow> nat \<Rightarrow> nat \<Rightarrow> bool" where
  "stated cs x y \<longleftrightarrow> (\<exists>c \<in> set cs. unat (ec_left c) = x \<and> unat (ec_right c) = y)"

definition in_range :: "nat \<Rightarrow> EqualityConstraint list \<Rightarrow> bool" where
  "in_range n cs \<longleftrightarrow> (\<forall>c \<in> set cs. unat (ec_left c) < n \<and> unat (ec_right c) < n)"

lemma validate_loop_None: "validate_loop n i cs = None \<longleftrightarrow> in_range n cs"
  by (induction cs arbitrary: i) (auto simp: in_range_def)

lemma equivclp_insert:
  fixes R :: "'a \<Rightarrow> 'a \<Rightarrow> bool" and a b :: 'a
  defines "S \<equiv> \<lambda>x y. equivclp R x y \<or> equivclp R x a \<and> equivclp R b y \<or> equivclp R x b \<and> equivclp R a y"
  shows "equivclp (\<lambda>x y. R x y \<or> x = a \<and> y = b) = S"
proof (intro ext iffI)
  fix x y
  assume "equivclp (\<lambda>x y. R x y \<or> x = a \<and> y = b) x y"
  then show "S x y"
  proof (induction rule: equivclp_induct)
    case base
    show ?case by (simp add: S_def)
  next
    case (step y z)
    then show ?case
      unfolding S_def by (meson equivclp_refl equivclp_sym equivclp_trans r_into_equivclp)
  qed
next
  fix x y
  let ?Q = "\<lambda>x y. R x y \<or> x = a \<and> y = b"
  have sub: "equivclp R u v \<Longrightarrow> equivclp ?Q u v" for u v
    by (induction rule: equivclp_induct) (auto intro: equivclp_trans r_into_equivclp equivclp_sym)
  have ab: "equivclp ?Q a b" by (rule r_into_equivclp) simp
  assume "S x y"
  then show "equivclp ?Q x y"
    unfolding S_def using sub ab by (meson equivclp_sym equivclp_trans)
qed

lemma union_all_ok:
  assumes "uf_ok uf" and "length (uf_parent uf) = n" and "in_range n cs"
    and "\<And>x y. same_class uf x y \<longleftrightarrow> x < n \<and> y < n \<and> equivclp R x y"
    and "\<And>x y. R x y \<Longrightarrow> x < n \<and> y < n"
  shows "\<exists>uf'. union_all cs uf = Some uf' \<and> uf_ok uf' \<and> length (uf_parent uf') = n \<and>
    (\<forall>x y. same_class uf' x y \<longleftrightarrow> x < n \<and> y < n \<and> equivclp (\<lambda>x y. R x y \<or> stated cs x y) x y)"
  using assms
proof (induction cs arbitrary: uf R)
  case Nil
  then show ?case by (simp add: stated_def)
next
  case (Cons c cs)
  let ?a = "unat (ec_left c)" and ?b = "unat (ec_right c)"
  let ?R = "\<lambda>x y. R x y \<or> x = ?a \<and> y = ?b"
  have ab: "?a < n" "?b < n" using Cons.prems(3) by (auto simp: in_range_def)
  obtain uf1 where u: "uf_union ?a ?b uf = Some (\<not> same_class uf ?a ?b, uf1)" "uf_ok uf1" "length (uf_parent uf1) = n"
      "\<And>x y. same_class uf1 x y \<longleftrightarrow> same_class uf x y \<or> (same_class uf x ?a \<and> same_class uf ?b y) \<or>
         (same_class uf x ?b \<and> same_class uf ?a y)"
    using uf_union_ok [OF Cons.prems(1), of ?a ?b] Cons.prems(2) ab by auto
  have "same_class uf1 x y \<longleftrightarrow> x < n \<and> y < n \<and> equivclp ?R x y" for x y
    unfolding u(4) Cons.prems(4) equivclp_insert using ab by auto
  from Cons.IH [OF u(2,3) _ this] Cons.prems(3,5) ab obtain uf' where
    i: "union_all cs uf1 = Some uf'" "uf_ok uf'" "length (uf_parent uf') = n"
      "\<And>x y. same_class uf' x y \<longleftrightarrow> x < n \<and> y < n \<and> equivclp (\<lambda>x y. ?R x y \<or> stated cs x y) x y"
    by (auto simp: in_range_def)
  moreover have "(\<lambda>x y. ?R x y \<or> stated cs x y) = (\<lambda>x y. R x y \<or> stated (c # cs) x y)"
    by (intro ext) (auto simp: stated_def)
  ultimately show ?case using u(1) by auto
qed

lemma find_all_ok:
  assumes "uf_ok uf" and "\<forall>x \<in> set xs. x < length (uf_parent uf)"
  shows "\<exists>rs uf'. find_all xs uf = Some (rs, uf') \<and> list_all2 (has_root uf) xs rs"
  using assms
proof (induction xs arbitrary: uf)
  case (Cons x xs)
  then obtain r where r: "has_root uf x r" using has_root_exists by force
  from uf_find_ok [OF Cons.prems(1) r] obtain uf1 where f: "uf_find x uf = Some (r, uf1)" "uf_ok uf1"
      "length (uf_parent uf1) = length (uf_parent uf)" "\<And>y s. has_root uf1 y s \<longleftrightarrow> has_root uf y s" by blast
  then have "has_root uf1 = has_root uf" by (intro ext) simp
  with Cons.IH [OF f(2)] Cons.prems(2) f r show ?case by auto
qed simp

text \<open>C25: Solving equality constraints always returns. If a constraint mentions a variable out of
  range the answer is an error; otherwise it is one label per variable, and two variables have the
  same label exactly when the constraints force them to be equal, that is when they are related
  by the reflexive, symmetric and transitive closure of the constraints.\<close>

theorem solver_computes_the_closure:
  assumes "n \<le> 2 ^ 32"
  shows "case solve_constraints_cpu n cs of
      None \<Rightarrow> False
    | Some (Inl _) \<Rightarrow> \<not> in_range n cs
    | Some (Inr ls) \<Rightarrow> in_range n cs \<and> length ls = n \<and>
        (\<forall>x < n. \<forall>y < n. ls ! x = ls ! y \<longleftrightarrow> equivclp (stated cs) x y)"
proof (cases "in_range n cs")
  case False
  then show ?thesis
    using validate_loop_None [of n 0 cs] by (auto simp: solve_constraints_cpu_def validate_constraints_def)
next
  case True
  note new = new_union_find_ok [of n]
  have len: "length (uf_parent (new_union_find n)) = n" by (simp add: new_union_find_def)
  have bot: "equivclp (\<lambda>_ _. False) x y \<longleftrightarrow> x = y" for x y :: nat
    by (auto elim: equivclp_induct)
  have "same_class (new_union_find n) x y \<longleftrightarrow> x < n \<and> y < n \<and> equivclp (\<lambda>_ _. False) x y" for x y
    using new bot by (auto simp: same_class_def)
  from union_all_ok [OF conjunct1 [OF new] len True this] obtain uf where
    u: "union_all cs (new_union_find n) = Some uf" "uf_ok uf" "length (uf_parent uf) = n"
      "\<And>x y. same_class uf x y \<longleftrightarrow> x < n \<and> y < n \<and> equivclp (stated cs) x y" by auto
  from find_all_ok [OF u(2), of "[0..<n]"] u(3) obtain rs uf' where
    l: "find_all [0..<n] uf = Some (rs, uf')" "list_all2 (has_root uf) [0..<n] rs" by auto
  have rs: "length rs = n" "\<And>x. x < n \<Longrightarrow> has_root uf x (rs ! x)"
    using l(2) by (auto simp: list_all2_conv_all_nth)
  have "of_nat (rs ! x) = (of_nat (rs ! y) :: u32) \<longleftrightarrow> rs ! x = rs ! y" if "x < n" "y < n" for x y
  proof -
    have "rs ! x < n" "rs ! y < n"
      using rs(2) [OF that(1)] rs(2) [OF that(2)] root_at_root u(3) by (auto simp: has_root_def)
    with assms show ?thesis by (simp add: word_of_nat_eq_iff take_bit_nat_eq_self)
  qed
  moreover have "rs ! x = rs ! y \<longleftrightarrow> same_class uf x y" if "x < n" "y < n" for x y
    using rs(2) [OF that(1)] rs(2) [OF that(2)] by (auto simp: same_class_def dest: has_root_unique)
  ultimately show ?thesis
    using True u l rs(1) validate_loop_None [of n 0 cs]
    by (simp add: solve_constraints_cpu_def validate_constraints_def labels_def)
qed

theorem solver_computes_the_closure_witness:
  "case solve_constraints_cpu 3 [\<lparr> ec_left = 0, ec_right = 2 \<rparr>] of
      None \<Rightarrow> False
    | Some (Inl _) \<Rightarrow> False
    | Some (Inr ls) \<Rightarrow> length ls = 3 \<and> ls ! 0 = ls ! 2"
proof -
  have "equivclp (stated [\<lparr> ec_left = 0, ec_right = 2 \<rparr>]) 0 2"
    by (rule r_into_equivclp) (simp add: stated_def)
  then show ?thesis
    using solver_computes_the_closure [of 3 "[\<lparr> ec_left = 0, ec_right = 2 \<rparr>]"]
    by (auto simp: in_range_def split: option.splits sum.splits)
qed

end
