(* ===== verification/Merkle_Tree.thy ===== *)
theory Merkle_Tree
  imports Canon_Prelude
begin

text \<open>
  The Merkle tree of \<^verbatim>\<open>algorithms/src/cryptography/merkle_tree.rs\<close>. The digest function (SHA-256
  of an external crate) is a parameter; hashing two pieces with two updates is hashing their
  concatenation. The tree is a flat list with the root at index 1; index 0 is unused. An
  operation that can panic returns an option.
\<close>

type_synonym digest = "u8 list"

definition HASH_SIZE :: nat where
  "HASH_SIZE = 32"

record MerkleTree =
  mt_nodes :: "digest list"
  mt_leaf_count :: nat

definition is_power_of_two :: "nat \<Rightarrow> bool" where
  "is_power_of_two l \<longleftrightarrow> l \<noteq> 0 \<and> (\<exists>k \<in> {0..l}. l = 2 ^ k)"

definition hash_leaves :: "(u8 list \<Rightarrow> digest) \<Rightarrow> u8 list list \<Rightarrow> digest list" where
  "hash_leaves sha blocks = replicate (length blocks) (replicate HASH_SIZE 0) @ map sha blocks"

text \<open>The loop over the inner nodes, from the last one down to the root.\<close>

fun build_parents :: "(u8 list \<Rightarrow> digest) \<Rightarrow> nat \<Rightarrow> digest list \<Rightarrow> digest list" where
  "build_parents sha 0 nodes = nodes"
| "build_parents sha (Suc j) nodes =
     build_parents sha j (nodes[Suc j := sha (nodes ! (2 * Suc j) @ nodes ! (2 * Suc j + 1))])"

definition build :: "(u8 list \<Rightarrow> digest) \<Rightarrow> u8 list list \<Rightarrow> MerkleTree option" where
  "build sha blocks =
     (let l = length blocks
      in if \<not> is_power_of_two l then None
         else Some \<lparr> mt_nodes = build_parents sha (l - 1) (hash_leaves sha blocks), mt_leaf_count = l \<rparr>)"

definition mt_root :: "MerkleTree \<Rightarrow> digest option" where
  "mt_root t = (if 1 < length (mt_nodes t) then Some (mt_nodes t ! 1) else None)"

definition sibling :: "nat \<Rightarrow> nat" where
  "sibling i = (if even i then i + 1 else i - 1)"

text \<open>The loop of \<^verbatim>\<open>proof\<close>: an index outside the tree is a panic.\<close>

function proof_loop :: "digest list \<Rightarrow> nat \<Rightarrow> digest list option" where
  "proof_loop nodes i =
     (if i \<le> 1 then Some []
      else if length nodes \<le> sibling i then None
      else map_option ((#) (nodes ! sibling i)) (proof_loop nodes (i div 2)))"
  by auto
termination by (relation "measure snd") auto

declare proof_loop.simps [simp del]

definition merkle_proof :: "MerkleTree \<Rightarrow> nat \<Rightarrow> digest list option" where
  "merkle_proof t i = proof_loop (mt_nodes t) (i + mt_leaf_count t)"

fun fold_proof :: "(u8 list \<Rightarrow> digest) \<Rightarrow> digest list \<Rightarrow> nat \<Rightarrow> digest \<Rightarrow> digest" where
  "fold_proof sha [] index current = current"
| "fold_proof sha (s # ss) index current =
     fold_proof sha ss (index div 2) (sha (if even index then current @ s else s @ current))"

definition verify :: "(u8 list \<Rightarrow> digest) \<Rightarrow> u8 list \<Rightarrow> nat \<Rightarrow> nat \<Rightarrow> digest list \<Rightarrow> digest \<Rightarrow> bool" where
  "verify sha leaf_data index leaf_count path r \<longleftrightarrow>
     fold_proof sha path (index + leaf_count) (sha leaf_data) = r"

section \<open>The tree equation\<close>

definition tree_ok :: "(u8 list \<Rightarrow> digest) \<Rightarrow> u8 list list \<Rightarrow> digest list \<Rightarrow> bool" where
  "tree_ok sha blocks nodes \<longleftrightarrow>
     (let l = length blocks
      in length nodes = 2 * l \<and> (\<forall>i < l. nodes ! (l + i) = sha (blocks ! i)) \<and>
         (\<forall>j. 1 \<le> j \<and> j < l \<longrightarrow> nodes ! j = sha (nodes ! (2 * j) @ nodes ! (2 * j + 1))))"

lemma build_parents_ok:
  "j < length nodes div 2 \<Longrightarrow>
   length (build_parents sha j nodes) = length nodes \<and>
   (\<forall>i. j < i \<longrightarrow> build_parents sha j nodes ! i = nodes ! i) \<and>
   (\<forall>i. 1 \<le> i \<and> i \<le> j \<longrightarrow> build_parents sha j nodes ! i =
      sha (build_parents sha j nodes ! (2 * i) @ build_parents sha j nodes ! (2 * i + 1)))"
proof (induction sha j nodes rule: build_parents.induct)
  case (2 sha j nodes)
  let ?n = "nodes[Suc j := sha (nodes ! (2 * Suc j) @ nodes ! (2 * Suc j + 1))]"
  let ?b = "build_parents sha j ?n"
  have ih: "length ?b = length nodes" "\<And>i. j < i \<Longrightarrow> ?b ! i = ?n ! i"
      "\<And>i. 1 \<le> i \<Longrightarrow> i \<le> j \<Longrightarrow> ?b ! i = sha (?b ! (2 * i) @ ?b ! (2 * i + 1))"
    using 2 by auto
  have "?b ! Suc j = sha (?b ! (2 * Suc j) @ ?b ! (2 * Suc j + 1))"
    using 2(2) ih(2) [of "Suc j"] ih(2) [of "2 * Suc j"] ih(2) [of "2 * Suc j + 1"] by simp
  with ih show ?case by (auto simp: le_Suc_eq)
qed auto

lemma build_ok:
  assumes "build sha blocks = Some t"
  shows "tree_ok sha blocks (mt_nodes t) \<and> mt_leaf_count t = length blocks \<and> is_power_of_two (length blocks)"
proof -
  from assms have l: "length blocks \<noteq> 0" "is_power_of_two (length blocks)"
      "mt_nodes t = build_parents sha (length blocks - 1) (hash_leaves sha blocks)" "mt_leaf_count t = length blocks"
    by (auto simp: build_def Let_def is_power_of_two_def split: if_splits)
  have h: "length (hash_leaves sha blocks) = 2 * length blocks" by (simp add: hash_leaves_def)
  with build_parents_ok [of "length blocks - 1" "hash_leaves sha blocks" sha] l
  have "length (mt_nodes t) = 2 * length blocks" "\<And>i. length blocks - 1 < i \<Longrightarrow> mt_nodes t ! i = hash_leaves sha blocks ! i"
      "\<And>i. 1 \<le> i \<Longrightarrow> i \<le> length blocks - 1 \<Longrightarrow> mt_nodes t ! i = sha (mt_nodes t ! (2 * i) @ mt_nodes t ! (2 * i + 1))"
    by auto
  moreover have "hash_leaves sha blocks ! (length blocks + i) = sha (blocks ! i)" if "i < length blocks" for i
    using that by (simp add: hash_leaves_def nth_append)
  ultimately show ?thesis using l(1,2,4) by (auto simp: tree_ok_def Let_def)
qed

section \<open>Proofs\<close>

lemma parent_hash:
  assumes "tree_ok sha blocks nodes" and "2 \<le> i" and "i < 2 * length blocks"
  shows "nodes ! (i div 2) =
    sha (if even i then nodes ! i @ nodes ! sibling i else nodes ! sibling i @ nodes ! i)"
proof -
  from assms(2,3) have "1 \<le> i div 2" "i div 2 < length blocks" by simp_all
  with assms(1) have "nodes ! (i div 2) = sha (nodes ! (2 * (i div 2)) @ nodes ! (2 * (i div 2) + 1))"
    unfolding tree_ok_def Let_def by blast
  then show ?thesis using assms(2) by (cases "even i") (simp_all add: sibling_def odd_two_times_div_two_succ)
qed

lemma proof_loop_complete:
  assumes "tree_ok sha blocks nodes" and "1 \<le> i" and "i < 2 * length blocks"
  shows "\<exists>path. proof_loop nodes i = Some path \<and> fold_proof sha path i (nodes ! i) = nodes ! 1"
  using assms(2,3)
proof (induction i rule: less_induct)
  case (less i)
  show ?case
  proof (cases "i = 1")
    case False
    then have i: "2 \<le> i" using less.prems by simp
    have "sibling i < length nodes"
      using less.prems(2) assms(1) by (auto simp: sibling_def tree_ok_def Let_def elim!: evenE)
    moreover have "i div 2 < i" "1 \<le> i div 2" "i div 2 < 2 * length blocks" using i less.prems by simp_all
    then obtain path where "proof_loop nodes (i div 2) = Some path"
        "fold_proof sha path (i div 2) (nodes ! (i div 2)) = nodes ! 1"
      using less.IH by blast
    ultimately show ?thesis
      using i parent_hash [OF assms(1) i less.prems(2)] by (subst proof_loop.simps) (auto split: if_splits)
  qed (subst proof_loop.simps, simp)
qed

text \<open>C22: Proofs of membership are complete: for a tree built over any number of blocks that is a
  power of two, asking for the proof of any block returns a path, without going out of bounds, and
  verifying the block against that path and the root of the tree succeeds - whatever the digest
  function is. Any other number of blocks, none included, is refused when the tree is built.\<close>

theorem merkle_proofs_verify:
  "case build sha blocks of
     None \<Rightarrow> \<not> is_power_of_two (length blocks)
   | Some t \<Rightarrow> \<forall>i < length blocks. \<exists>path r.
       merkle_proof t i = Some path \<and> mt_root t = Some r \<and>
       verify sha (blocks ! i) i (mt_leaf_count t) path r"
proof (cases "build sha blocks")
  case None
  then show ?thesis by (auto simp: build_def Let_def split: if_splits)
next
  case (Some t)
  from build_ok [OF Some] have t: "tree_ok sha blocks (mt_nodes t)" "mt_leaf_count t = length blocks" by simp_all
  have "\<exists>path r. merkle_proof t i = Some path \<and> mt_root t = Some r \<and>
      verify sha (blocks ! i) i (mt_leaf_count t) path r" if "i < length blocks" for i
  proof -
    have "mt_nodes t ! (i + length blocks) = sha (blocks ! i)" "1 < length (mt_nodes t)"
      using t(1) that by (simp_all add: tree_ok_def Let_def add.commute)
    with proof_loop_complete [OF t(1), of "i + length blocks"] that t(2) show ?thesis
      by (auto simp: merkle_proof_def mt_root_def verify_def)
  qed
  with Some show ?thesis by simp
qed

definition sample_sha :: "u8 list \<Rightarrow> digest" where
  "sample_sha x = replicate 32 (of_nat (length x))"

lemma two_is_power_of_two: "is_power_of_two 2"
  by (auto simp: is_power_of_two_def intro!: bexI [of _ 1])

theorem merkle_proofs_verify_witness:
  "\<exists>t path r. build sample_sha [[1], [2, 3]] = Some t \<and> merkle_proof t 1 = Some path \<and> mt_root t = Some r \<and>
     verify sample_sha [2, 3] 1 2 path r"
proof -
  obtain t where t: "build sample_sha [[1], [2, 3]] = Some t" "mt_leaf_count t = 2"
    by (simp add: build_def two_is_power_of_two numeral_2_eq_2 [symmetric])
  with merkle_proofs_verify [of "[[1], [2, 3]]" sample_sha]
  have "\<forall>i < 2. \<exists>path r. merkle_proof t i = Some path \<and> mt_root t = Some r \<and>
      verify sample_sha ([[1], [2, 3]] ! i) i 2 path r" by (simp add: numeral_2_eq_2)
  then have "\<exists>path r. merkle_proof t 1 = Some path \<and> mt_root t = Some r \<and>
      verify sample_sha ([[1], [2, 3]] ! 1) 1 2 path r" by (metis one_less_numeral_iff semiring_norm(76))
  with t(1) show ?thesis by simp
qed

text \<open>A forged path that ends in the root runs into a collision on the way.\<close>

definition collision :: "(u8 list \<Rightarrow> digest) \<Rightarrow> bool" where
  "collision sha \<longleftrightarrow> (\<exists>x y. x \<noteq> y \<and> sha x = sha y)"

lemma fold_proof_binding:
  assumes "tree_ok sha blocks nodes" and "\<forall>x. length (sha x) = HASH_SIZE"
    and "\<forall>j. 1 \<le> j \<and> j < 2 * length blocks \<longrightarrow> length (nodes ! j) = HASH_SIZE"
    and "\<forall>s \<in> set path. length s = HASH_SIZE" and "length c = HASH_SIZE"
    and "2 ^ length path \<le> i" and "i < 2 ^ Suc (length path)" and "i < 2 * length blocks"
    and "fold_proof sha path i c = nodes ! 1" and "c \<noteq> nodes ! i"
  shows "collision sha"
  using assms(4-)
proof (induction path arbitrary: i c)
  case Nil
  then have "i = 1" by simp
  with Nil show ?case by simp
next
  case (Cons s path)
  let ?x = "if even i then c @ s else s @ c"
  let ?y = "if even i then nodes ! i @ nodes ! sibling i else nodes ! sibling i @ nodes ! i"
  have i: "2 \<le> i" using Cons.prems(3) one_le_power [of "2 :: nat" "length path"] unfolding length_Cons power_Suc by linarith
  have half: "2 ^ length path \<le> i div 2" "i div 2 < 2 ^ Suc (length path)"
    using Cons.prems(3,4) by auto
  have y: "nodes ! (i div 2) = sha ?y" by (rule parent_hash [OF assms(1) i Cons.prems(5)])
  show ?case
  proof (cases "sha ?x = nodes ! (i div 2)")
    case False
    with Cons.IH [of "sha ?x" "i div 2"] Cons.prems half assms(2) show ?thesis by simp
  next
    case True
    have "length (nodes ! i) = length c" using assms(3) Cons.prems(2,5) i by simp
    moreover have "sibling i \<ge> 1" "sibling i < 2 * length blocks"
      using i Cons.prems(5) by (auto simp: sibling_def elim!: evenE)
    then have "length (nodes ! sibling i) = length s" using assms(3) Cons.prems(1) by simp
    ultimately have "?x \<noteq> ?y" using Cons.prems(7) by auto
    moreover have "sha ?x = sha ?y" using True y by simp
    ultimately show ?thesis unfolding collision_def by blast
  qed
qed



text \<open>
  The length of the proof matters: nothing tells a leaf from an inner node, so the two digests
  under the root are accepted as a block, at any index, with the empty proof.
\<close>

lemma inner_node_is_accepted:
  assumes "build sha blocks = Some t" and "2 \<le> length blocks" and "mt_root t = Some r"
  shows "verify sha (mt_nodes t ! 2 @ mt_nodes t ! 3) i (mt_leaf_count t) [] r"
  using build_ok [OF assms(1)] assms(2,3)
  by (auto simp: verify_def tree_ok_def Let_def mt_root_def numeral_3_eq_3 split: if_splits)

end
