(* ===== verification/String_Search.thy ===== *)
theory String_Search
  imports Canon_Prelude
begin

text \<open>
  The substring searches \<^verbatim>\<open>algorithms/src/string_algorithms/kmp.rs\<close> and
  \<^verbatim>\<open>algorithms/src/string_algorithms/rabin_karp.rs\<close>, over bytes. The loops that fall back through
  the failure table are partial: \<^const>\<open>None\<close> stands for an index out of range or a loop that
  does not end.
\<close>

section \<open>Knuth, Morris and Pratt\<close>

partial_function (option) fall_back :: "string \<Rightarrow> nat list \<Rightarrow> char \<Rightarrow> nat \<Rightarrow> nat option" where
  "fall_back p lps c len =
     (if length p \<le> len then None
      else if 0 < len \<and> c \<noteq> p ! len then fall_back p lps c (lps ! (len - 1))
      else Some len)"

fun lps_loop :: "string \<Rightarrow> nat list \<Rightarrow> nat list \<Rightarrow> nat \<Rightarrow> nat list option" where
  "lps_loop p [] lps len = Some lps"
| "lps_loop p (i # is) lps len =
     (case fall_back p lps (p ! i) len of
        None \<Rightarrow> None
      | Some l \<Rightarrow>
          if p ! i = p ! l then lps_loop p is (lps[i := l + 1]) (l + 1) else lps_loop p is lps l)"

definition lps_table :: "string \<Rightarrow> nat list option" where
  "lps_table p = lps_loop p [1..<length p] (replicate (length p) 0) 0"

partial_function (option) kmp_loop ::
  "string \<Rightarrow> string \<Rightarrow> nat list \<Rightarrow> nat \<Rightarrow> nat \<Rightarrow> nat list \<Rightarrow> nat list option" where
  "kmp_loop t p lps i j res =
     (if length t \<le> i then Some res
      else if length p \<le> j then None
      else if t ! i = p ! j then
        (if j + 1 = length p then kmp_loop t p lps (i + 1) (lps ! j) (res @ [i + 1 - (j + 1)])
         else kmp_loop t p lps (i + 1) (j + 1) res)
      else if 0 < j then kmp_loop t p lps i (lps ! (j - 1)) res
      else kmp_loop t p lps (i + 1) j res)"

definition kmp_search :: "string \<Rightarrow> string \<Rightarrow> nat list option" where
  "kmp_search t p =
     (if p = [] then Some []
      else case lps_table p of None \<Rightarrow> None | Some lps \<Rightarrow> kmp_loop t p lps 0 0 [])"

section \<open>Rabin and Karp\<close>

definition BASE :: nat where "BASE = 256"
definition MODULUS :: nat where "MODULUS = 1000000007"

definition shift_in :: "nat \<Rightarrow> char \<Rightarrow> nat" where
  "shift_in h c = (h * BASE + of_char c) mod MODULUS"

text \<open>The loop that hashes the pattern and the first window, with the weight of the leading byte.\<close>

fun hash_loop :: "string \<Rightarrow> string \<Rightarrow> nat \<Rightarrow> nat list \<Rightarrow> nat \<times> nat \<times> nat \<Rightarrow> nat \<times> nat \<times> nat" where
  "hash_loop t p m [] acc = acc"
| "hash_loop t p m (i # is) (hp, ht, pw) =
     hash_loop t p m is
       (shift_in hp (p ! i), shift_in ht (t ! i), if i < m - 1 then (pw * BASE) mod MODULUS else pw)"

definition shift_out :: "nat \<Rightarrow> nat \<Rightarrow> char \<Rightarrow> nat" where
  "shift_out pw h c = (MODULUS + h - (of_char c * pw) mod MODULUS) mod MODULUS"

fun roll_loop :: "string \<Rightarrow> string \<Rightarrow> nat \<Rightarrow> nat \<Rightarrow> nat list \<Rightarrow> nat \<Rightarrow> nat list" where
  "roll_loop t p hp pw [] ht = []"
| "roll_loop t p hp pw (i # is) ht =
     (if hp = ht \<and> take (length p) (drop i t) = p then [i] else []) @
     roll_loop t p hp pw is
       (if i < length t - length p then shift_in (shift_out pw ht (t ! i)) (t ! (i + length p)) else ht)"

definition rabin_karp :: "string \<Rightarrow> string \<Rightarrow> nat list" where
  "rabin_karp t p =
     (let n = length t; m = length p
      in if m = 0 \<or> n < m then []
         else let (hp, ht, pw) = hash_loop t p m [0..<m] (0, 0, 1)
              in roll_loop t p hp pw [0..<n - m + 1] ht)"

section \<open>Specification\<close>

text \<open>All positions where the pattern occurs; none for the empty pattern.\<close>

definition occurs_at :: "string \<Rightarrow> string \<Rightarrow> nat \<Rightarrow> bool" where
  "occurs_at t p i \<longleftrightarrow> take (length p) (drop i t) = p"

definition occurrences :: "string \<Rightarrow> string \<Rightarrow> nat list" where
  "occurrences t p = (if p = [] then [] else filter (occurs_at t p) [0..<length t + 1 - length p])"

section \<open>Borders\<close>

definition ends :: "string \<Rightarrow> nat \<Rightarrow> string \<Rightarrow> nat \<Rightarrow> bool" where
  "ends p j t i \<longleftrightarrow> suffix (take j p) (take i t)"

lemma ends_0 [simp]: "ends p 0 t i"
  by (simp add: ends_def)

lemma ends_Suc:
  "j < length p \<Longrightarrow> i < length t \<Longrightarrow> ends p (Suc j) t (Suc i) \<longleftrightarrow> ends p j t i \<and> p ! j = t ! i"
  by (auto simp: ends_def take_Suc_conv_app_nth)

lemma ends_chain:
  "ends p j t i \<Longrightarrow> ends p b t i \<Longrightarrow> b \<le> j \<Longrightarrow> j \<le> length p \<Longrightarrow> ends p b p j"
  unfolding ends_def by (rule suffix_length_suffix) auto

lemma ends_trans: "ends p b p j \<Longrightarrow> ends p j t i \<Longrightarrow> ends p b t i"
  unfolding ends_def by (rule suffix_order.trans)

lemma ends_le: "ends p j t i \<Longrightarrow> j \<le> length p \<Longrightarrow> j \<le> i"
  unfolding ends_def by (drule suffix_length_le) simp

lemma occurs_ends:
  "length p \<le> i \<Longrightarrow> i \<le> length t \<Longrightarrow> occurs_at t p (i - length p) \<longleftrightarrow> ends p (length p) t i"
proof -
  assume l: "length p \<le> i" "i \<le> length t"
  have "suffix p (take i t) \<longleftrightarrow> drop (i - length p) (take i t) = p"
  proof
    assume "suffix p (take i t)"
    then obtain us where "take i t = us @ p" by (auto elim: suffixE)
    moreover from this l have "length us = i - length p" by (metis add_diff_cancel_right' length_append length_take min.absorb2)
    ultimately show "drop (i - length p) (take i t) = p" by simp
  qed (metis suffix_drop)
  moreover have "drop (i - length p) (take i t) = take (length p) (drop (i - length p) t)"
    using l by (simp add: drop_take)
  ultimately show ?thesis by (simp add: occurs_at_def ends_def)
qed

text \<open>The longest proper border of a prefix, and the table that holds it for the first prefixes.\<close>

definition longest :: "string \<Rightarrow> nat \<Rightarrow> nat \<Rightarrow> bool" where
  "longest p n b \<longleftrightarrow> b < n \<and> ends p b p n \<and> (\<forall>b' < n. ends p b' p n \<longrightarrow> b' \<le> b)"

definition table_ok :: "string \<Rightarrow> nat list \<Rightarrow> nat \<Rightarrow> bool" where
  "table_ok p lps n \<longleftrightarrow> length lps = length p \<and> (\<forall>k < n. longest p (Suc k) (lps ! k))"

lemma table_step:
  assumes "table_ok p lps n" and "0 < j" and "j \<le> n" and "j \<le> length p" and "ends p j t i"
  shows "lps ! (j - 1) < j \<and> ends p (lps ! (j - 1)) t i \<and>
    (\<forall>b. lps ! (j - 1) < b \<and> b < j \<longrightarrow> \<not> ends p b t i)"
proof -
  have l: "longest p j (lps ! (j - 1))" using assms(1-3) by (cases j) (auto simp: table_ok_def)
  have "b \<le> lps ! (j - 1)" if "ends p b t i" "b < j" for b
    using l ends_chain [OF assms(5) that(1)] that(2) assms(4) by (auto simp: longest_def)
  with l ends_trans [OF _ assms(5)] show ?thesis by (fastforce simp: longest_def)
qed

lemma fall_back_ok:
  assumes "table_ok p lps n" and "len \<le> n" and "len < length p" and "ends p len t i"
  shows "\<exists>l \<le> len. fall_back p lps c len = Some l \<and> ends p l t i \<and> (l = 0 \<or> c = p ! l) \<and>
    (\<forall>b. l < b \<and> b \<le> len \<and> ends p b t i \<longrightarrow> c \<noteq> p ! b)"
  using assms(2-4)
proof (induction len rule: less_induct)
  case (less len)
  show ?case
  proof (cases "0 < len \<and> c \<noteq> p ! len")
    case False
    with less.prems show ?thesis by (subst fall_back.simps) (auto intro!: exI [of _ len])
  next
    case True
    let ?k = "lps ! (len - 1)"
    from table_step [OF assms(1) _ less.prems(1) _ less.prems(3)] True less.prems(2)
    have k: "?k < len" "ends p ?k t i" "\<forall>b. ?k < b \<and> b < len \<longrightarrow> \<not> ends p b t i" by auto
    with less.IH [of ?k] less.prems obtain l where l: "l \<le> ?k" "fall_back p lps c ?k = Some l" "ends p l t i"
        "l = 0 \<or> c = p ! l" "\<forall>b. l < b \<and> b \<le> ?k \<and> ends p b t i \<longrightarrow> c \<noteq> p ! b" by auto
    have "c \<noteq> p ! b" if "l < b" "b \<le> len" "ends p b t i" for b
      using that k(3) l(5) True by (metis le_neq_implies_less not_le_imp_less)
    with l k(1) True less.prems show ?thesis by (subst fall_back.simps) (auto intro!: exI [of _ l])
  qed
qed

lemma longest_step:
  assumes "table_ok p lps i" and "0 < i" and "i < length p" and "longest p i len"
    and "fall_back p lps (p ! i) len = Some l"
  shows "l < length p \<and> longest p (Suc i) (if p ! i = p ! l then Suc l else l) \<and> (p ! i \<noteq> p ! l \<longrightarrow> l = 0)"
proof -
  have len: "len < i" "ends p len p i" "\<And>b. b < i \<Longrightarrow> ends p b p i \<Longrightarrow> b \<le> len"
    using assms(4) by (auto simp: longest_def)
  with fall_back_ok [OF assms(1), of len p i "p ! i"] assms(3,5) have l: "l \<le> len" "ends p l p i"
      "l = 0 \<or> p ! i = p ! l" "\<And>b. l < b \<Longrightarrow> b \<le> len \<Longrightarrow> ends p b p i \<Longrightarrow> p ! i \<noteq> p ! b"
    by auto
  have up: "\<exists>a. b = Suc a \<and> a < i \<and> ends p a p i \<and> p ! a = p ! i" if "b < Suc i" "ends p b p (Suc i)" "0 < b" for b
    using that assms(3) ends_Suc [of "b - 1" p i p] by (cases b) auto
  show ?thesis
  proof (cases "p ! i = p ! l")
    case True
    have "ends p (Suc l) p (Suc i)" using ends_Suc [of l p i p] l(1,2) len(1) assms(3) True by simp
    moreover have "b \<le> Suc l" if "b < Suc i" "ends p b p (Suc i)" for b
    proof (rule ccontr)
      assume "\<not> b \<le> Suc l"
      with up [OF that] obtain a where "b = Suc a" "a < i" "ends p a p i" "p ! a = p ! i" "l < a" by auto
      with len(3) [of a] l(4) [of a] show False by simp
    qed
    ultimately show ?thesis using True l(1) len(1) assms(3) by (simp add: longest_def)
  next
    case False
    then have "l = 0" using l(3) by simp
    have "b = 0" if "b < Suc i" "ends p b p (Suc i)" for b
    proof (rule ccontr)
      assume "b \<noteq> 0"
      with up [OF that] obtain a where "a < i" "ends p a p i" "p ! a = p ! i" by auto
      with len(3) [of a] l(4) [of a] False \<open>l = 0\<close> show False by (cases "a = 0") auto
    qed
    with False \<open>l = 0\<close> assms(2,3) show ?thesis by (auto simp: longest_def)
  qed
qed

lemma lps_loop_ok:
  assumes "table_ok p lps i" and "0 < i" and "i \<le> length p" and "longest p i len"
    and "\<forall>k. i \<le> k \<and> k < length p \<longrightarrow> lps ! k = 0"
  shows "\<exists>lps'. lps_loop p [i..<length p] lps len = Some lps' \<and> table_ok p lps' (length p)"
  using assms
proof (induction "length p - i" arbitrary: i lps len)
  case 0
  then show ?case by simp
next
  case (Suc k)
  then have i: "i < length p" by simp
  have "len < length p" "ends p len p i" using Suc.prems(4) i by (auto simp: longest_def)
  from fall_back_ok [OF Suc.prems(1) _ this, of "p ! i"] Suc.prems(4) obtain l where
    l: "fall_back p lps (p ! i) len = Some l" by (auto simp: longest_def)
  from longest_step [OF Suc.prems(1,2) i Suc.prems(4) l]
  have s: "longest p (Suc i) (if p ! i = p ! l then Suc l else l)" "p ! i \<noteq> p ! l \<Longrightarrow> l = 0" by auto
  define lps1 where "lps1 = (if p ! i = p ! l then lps[i := Suc l] else lps)"
  have len1: "length lps = length p" using Suc.prems(1) by (simp add: table_ok_def)
  have "table_ok p lps1 (Suc i)"
    using Suc.prems(1,5) s i len1 by (auto simp: table_ok_def lps1_def less_Suc_eq nth_list_update)
  moreover have "\<forall>k. Suc i \<le> k \<and> k < length p \<longrightarrow> lps1 ! k = 0"
    using Suc.prems(5) by (auto simp: lps1_def)
  ultimately obtain lps' where "lps_loop p [Suc i..<length p] lps1 (if p ! i = p ! l then Suc l else l) = Some lps'"
      "table_ok p lps' (length p)"
    using Suc.hyps(1) [of "Suc i" lps1 "if p ! i = p ! l then Suc l else l"] Suc.hyps(2) s(1) i
    by (metis Suc_diff_Suc Suc_inject Suc_leI zero_less_Suc)
  then show ?case using i l by (auto simp: upt_rec [of i] lps1_def split: if_splits)
qed

lemma lps_table_ok: "p \<noteq> [] \<Longrightarrow> \<exists>lps. lps_table p = Some lps \<and> table_ok p lps (length p)"
  unfolding lps_table_def
  by (rule lps_loop_ok) (auto simp: table_ok_def longest_def Suc_leI)

section \<open>The search\<close>

text \<open>
  At text position \<open>i\<close> with \<open>j\<close> bytes matched: every longer partial match is already known to
  fail at the next byte.
\<close>

definition search_ok :: "string \<Rightarrow> string \<Rightarrow> nat \<Rightarrow> nat \<Rightarrow> nat list \<Rightarrow> bool" where
  "search_ok t p i j res \<longleftrightarrow>
     i \<le> length t \<and> j < length p \<and> ends p j t i \<and>
     (\<forall>b < length p. j < b \<and> ends p b t i \<and> i < length t \<longrightarrow> t ! i \<noteq> p ! b) \<and>
     res = filter (occurs_at t p) [0..<Suc i - length p]"

lemma occurrences_Suc:
  assumes "i < length t" and "p \<noteq> []"
  shows "filter (occurs_at t p) [0..<Suc (Suc i) - length p] =
    filter (occurs_at t p) [0..<Suc i - length p] @
    (if length p \<le> Suc i \<and> ends p (length p) t (Suc i) then [Suc i - length p] else [])"
proof (cases "length p \<le> Suc i")
  case True
  then have "Suc (Suc i) - length p = Suc (Suc i - length p)" by simp
  with occurs_ends [OF True, of t] True assms show ?thesis by simp
next
  case False
  then show ?thesis by simp
qed

lemma ends_Suc_cases:
  assumes "ends p b t (Suc i)" and "b \<le> length p" and "i < length t" and "0 < b"
  shows "\<exists>a. b = Suc a \<and> a < length p \<and> ends p a t i \<and> t ! i = p ! a"
  using assms ends_Suc [of "b - 1" p i t] by (cases b) auto

lemma kmp_loop_ok:
  assumes "table_ok p lps (length p)" and "search_ok t p i j res"
  shows "kmp_loop t p lps i j res = Some (occurrences t p)"
  using assms(2)
proof (induction "2 * (length t - i) + j" arbitrary: i j res rule: less_induct)
  case less
  have inv: "i \<le> length t" "j < length p" "ends p j t i"
      "\<And>b. b < length p \<Longrightarrow> j < b \<Longrightarrow> ends p b t i \<Longrightarrow> i < length t \<Longrightarrow> t ! i \<noteq> p ! b"
      "res = filter (occurs_at t p) [0..<Suc i - length p]" and ne: "p \<noteq> []"
    using less.prems by (auto simp: search_ok_def)
  show ?case
  proof (cases "i < length t")
    case False
    then show ?thesis using inv(1,5) ne by (subst kmp_loop.simps) (simp add: occurrences_def)
  next
    case True
    have up: "b \<le> Suc j" if "ends p b t (Suc i)" "b \<le> length p" for b
      using ends_Suc_cases [OF that True] inv(4) True by (cases "b = 0") (auto intro: leI)
    have none: "\<not> ends p b t (Suc i)" if "t ! i \<noteq> p ! j" "j = 0" "0 < b" "b \<le> length p" for b
      using ends_Suc_cases [of p b t i] that inv(4) True by (metis gr0I)
    consider (full) "t ! i = p ! j" "Suc j = length p" | (more) "t ! i = p ! j" "Suc j < length p"
      | (shift) "t ! i \<noteq> p ! j" "0 < j" | (skip) "t ! i \<noteq> p ! j" "j = 0" using inv(2) by linarith
    then show ?thesis
    proof cases
      case full
      have e: "ends p (length p) t (Suc i)" using ends_Suc [of j p i t] inv(2,3) full True by simp
      have "length p - 1 = j" using full(2) by simp
      with table_step [OF assms(1) _ order_refl order_refl e] ne
      have k: "lps ! j < length p" "ends p (lps ! j) t (Suc i)" "\<forall>b. lps ! j < b \<and> b < length p \<longrightarrow> \<not> ends p b t (Suc i)"
        by auto
      have "search_ok t p (Suc i) (lps ! j) (res @ [Suc i - Suc j])"
        using k e True ends_le [OF e] inv(5) occurrences_Suc [OF True ne] full(2) by (auto simp: search_ok_def)
      moreover have "2 * (length t - Suc i) + lps ! j < 2 * (length t - i) + j" using True k(1) full(2) by linarith
      ultimately show ?thesis using less.hyps True full inv(2) by (subst kmp_loop.simps) simp
    next
      case more
      have "\<not> ends p (length p) t (Suc i)" using up more(2) by fastforce
      then have "search_ok t p (Suc i) (Suc j) res"
        using True more inv(2,3,5) ends_Suc [of j p i t] occurrences_Suc [OF True ne] up
        by (fastforce simp: search_ok_def)
      then show ?thesis using less.hyps True more inv(2) by (subst kmp_loop.simps) simp
    next
      case shift
      from table_step [OF assms(1) shift(2) _ _ inv(3)] inv(2)
      have k: "lps ! (j - 1) < j" "ends p (lps ! (j - 1)) t i" "\<forall>b. lps ! (j - 1) < b \<and> b < j \<longrightarrow> \<not> ends p b t i" by auto
      have "search_ok t p i (lps ! (j - 1)) res"
        using k inv shift by (auto simp: search_ok_def) (metis linorder_neqE_nat)
      then show ?thesis using less.hyps True shift k(1) inv(2) by (subst kmp_loop.simps) simp
    next
      case skip
      have "search_ok t p (Suc i) j res"
        using True skip inv(2,5) occurrences_Suc [OF True ne] none ne by (auto simp: search_ok_def)
      then show ?thesis using less.hyps True skip inv(2) by (subst kmp_loop.simps) simp
    qed
  qed
qed

section \<open>Rolling hashes\<close>

definition poly :: "string \<Rightarrow> nat" where
  "poly s = foldl (\<lambda>h c. h * BASE + of_char c) 0 s"

lemma poly_snoc: "poly (s @ [c]) = poly s * BASE + of_char c"
  by (simp add: poly_def)

lemma poly_Cons: "poly (c # s) = of_char c * BASE ^ length s + poly s"
proof (induction s rule: rev_induct)
  case Nil
  show ?case by (simp add: poly_def)
next
  case (snoc d s)
  have "poly (c # s @ [d]) = poly (c # s) * BASE + of_char d" using poly_snoc [of "c # s" d] by simp
  with snoc show ?case by (simp add: poly_snoc algebra_simps)
qed

lemma shift_in_mod: "h mod MODULUS = x mod MODULUS \<Longrightarrow> shift_in h c = (x * BASE + of_char c) mod MODULUS"
  unfolding shift_in_def by (metis mod_add_cong mod_mult_cong)

lemma shift_out_mod:
  assumes "h = (of_char c * P + x) mod MODULUS" and "pw = P mod MODULUS"
  shows "shift_out pw h c = x mod MODULUS"
proof -
  let ?M = "int MODULUS" and ?a = "int (of_char c * P)"
  have M: "0 < MODULUS" by (simp add: MODULUS_def)
  have d: "(of_char c * pw) mod MODULUS = (of_char c * P) mod MODULUS"
    using assms(2) by (simp add: mod_mult_right_eq)
  have le: "(of_char c * P) mod MODULUS \<le> MODULUS + h" using M by (simp add: less_imp_le trans_le_add1)
  have "int (shift_out pw h c) = (?M + int h - int ((of_char c * P) mod MODULUS)) mod ?M"
    unfolding shift_out_def d using le by (simp add: of_nat_mod of_nat_diff)
  also have "\<dots> = (?M + (?a + int x) mod ?M - ?a mod ?M) mod ?M"
    using assms(1) by (simp add: of_nat_mod)
  also have "\<dots> = (?M + (?a + int x) - ?a) mod ?M"
    by (intro mod_diff_cong mod_add_cong) simp_all
  also have "\<dots> = int (x mod MODULUS)" by (simp add: of_nat_mod)
  finally show ?thesis by simp
qed

lemma hash_loop_ok:
  assumes "m \<le> length t" and "m = length p" and "k \<le> m" and "0 < m"
  shows "hash_loop t p m [k..<m] (poly (take k p) mod MODULUS, poly (take k t) mod MODULUS, BASE ^ min k (m - 1) mod MODULUS) =
    (poly p mod MODULUS, poly (take m t) mod MODULUS, BASE ^ (m - 1) mod MODULUS)"
  using assms(3)
proof (induction "m - k" arbitrary: k)
  case 0
  then have "k = m" using Suc_leI assms by simp
  then show ?case using assms by (simp add: min.absorb2)
next
  case (Suc d)
  then have k: "k < m" by simp
  have "shift_in (poly (take k s) mod MODULUS) (s ! k) = poly (take (Suc k) s) mod MODULUS" if "k < length s" for s
    using that by (simp add: shift_in_mod [where x = "poly (take k s)"] take_Suc_conv_app_nth poly_snoc)
  then have "shift_in (poly (take k p) mod MODULUS) (p ! k) = poly (take (Suc k) p) mod MODULUS"
      "shift_in (poly (take k t) mod MODULUS) (t ! k) = poly (take (Suc k) t) mod MODULUS"
    using k assms(1,2) by simp_all
  moreover have "(if k < m - 1 then (BASE ^ min k (m - 1) mod MODULUS * BASE) mod MODULUS else BASE ^ min k (m - 1) mod MODULUS) =
      BASE ^ min (Suc k) (m - 1) mod MODULUS"
    using k by (auto simp: min_def mod_mult_left_eq mult.commute [of BASE])
  moreover have "[k..<m] = k # [Suc k..<m]" "d = m - Suc k" "Suc k \<le> m"
    using k Suc.hyps(2) by (simp_all add: upt_conv_Cons)
  ultimately show ?case using Suc.hyps(1) [of "Suc k"] by (simp only: hash_loop.simps)
qed

lemma roll_loop_ok:
  assumes "m = length p" and "0 < m" and "m \<le> length t" and "i \<le> length t - m + 1"
    and "i \<le> length t - m \<Longrightarrow> ht = poly (take m (drop i t)) mod MODULUS"
  shows "roll_loop t p (poly p mod MODULUS) (BASE ^ (m - 1) mod MODULUS) [i..<length t - m + 1] ht =
    filter (occurs_at t p) [i..<length t - m + 1]"
  using assms(4,5)
proof (induction "length t - m + 1 - i" arbitrary: i ht)
  case 0
  then show ?case by simp
next
  case (Suc d)
  then have i: "i \<le> length t - m" by simp
  have ht: "ht = poly (take m (drop i t)) mod MODULUS" by (rule Suc.prems(2) [OF i])
  let ?ht = "if i < length t - length p then shift_in (shift_out (BASE ^ (m - 1) mod MODULUS) ht (t ! i)) (t ! (i + length p)) else ht"
  have "?ht = poly (take m (drop (Suc i) t)) mod MODULUS" if "Suc i \<le> length t - m"
  proof -
    define w where "w = take (m - 1) (drop (Suc i) t)"
    have il: "i < length t" "i + m < length t" using that assms(2,3) by simp_all
    have "take m (drop i t) = t ! i # w"
      using assms(2) il by (cases m) (simp_all add: w_def Cons_nth_drop_Suc [symmetric])
    moreover have lw: "length w = m - 1" using il by (simp add: w_def)
    ultimately have "ht = (of_char (t ! i) * BASE ^ (m - 1) + poly w) mod MODULUS" using ht poly_Cons [of "t ! i" w] by simp
    from shift_out_mod [OF this refl] have out: "shift_out (BASE ^ (m - 1) mod MODULUS) ht (t ! i) = poly w mod MODULUS" .
    have "take m (drop (Suc i) t) = w @ [t ! (i + m)]"
      using assms(2) il take_Suc_conv_app_nth [of "m - 1" "drop (Suc i) t"] by (simp add: w_def)
    then show ?thesis
      using out that assms(1) il by (simp add: poly_snoc shift_in_mod [where x = "poly w"])
  qed
  with Suc.hyps(1) [of "Suc i" ?ht] Suc.hyps(2) i have
    ih: "roll_loop t p (poly p mod MODULUS) (BASE ^ (m - 1) mod MODULUS) [Suc i..<length t - m + 1] ?ht =
      filter (occurs_at t p) [Suc i..<length t - m + 1]" by simp
  have "poly p mod MODULUS = ht \<and> take (length p) (drop i t) = p \<longleftrightarrow> occurs_at t p i"
    using ht assms(1) by (auto simp: occurs_at_def)
  moreover have "[i..<length t - m + 1] = i # [Suc i..<length t - m + 1]" using i by (simp add: upt_conv_Cons del: upt_Suc)
  ultimately show ?case using ih by (simp only: roll_loop.simps filter.simps) simp
qed

lemma rabin_karp_ok: "rabin_karp t p = occurrences t p"
proof (cases "p = [] \<or> length t < length p")
  case True
  then show ?thesis by (auto simp: rabin_karp_def occurrences_def)
next
  case False
  then have m: "0 < length p" "length p \<le> length t" by simp_all
  have n: "length t + 1 - length p = length t - length p + 1" using m by simp
  have "hash_loop t p (length p) [0..<length p] (0, 0, 1) =
      (poly p mod MODULUS, poly (take (length p) t) mod MODULUS, BASE ^ (length p - 1) mod MODULUS)"
    using hash_loop_ok [OF m(2) refl _ m(1), of 0] by (simp add: poly_def MODULUS_def)
  with roll_loop_ok [OF refl m, of 0 "poly (take (length p) t) mod MODULUS"] m show ?thesis
    by (simp add: rabin_karp_def occurrences_def n Let_def del: upt_Suc add_Suc_right)
qed

text \<open>No intermediate value of the rolling hash leaves the range of \<^verbatim>\<open>u64\<close>, so computing in
  natural numbers is computing in \<^verbatim>\<open>u64\<close>.\<close>

lemma hash_values_fit:
  "h < MODULUS \<Longrightarrow> h * BASE + of_char c < 2 ^ 64 \<and> h * BASE < 2 ^ 64 \<and> of_char c * h < 2 ^ 64 \<and> MODULUS + h < 2 ^ 64"
proof -
  assume h: "h < MODULUS"
  have c: "(of_char c :: nat) \<le> 255" using nat_of_char_less_256 [of c] by linarith
  have "of_char c * h \<le> 255 * MODULUS" using c h by (intro mult_mono) simp_all
  with h c show ?thesis by (simp add: MODULUS_def BASE_def)
qed


end
