(* ===== verification/Sat_Solver.thy ===== *)
theory Sat_Solver
  imports Canon_Prelude
begin

text \<open>
  The satisfiability solver \<^verbatim>\<open>algorithms/src/constraints/sat.rs\<close>: clauses, the backtracking search,
  the script written for an external solver and the reading of its answer. The external program
  is a parameter: it maps a script to the text it prints, or to nothing when it cannot be run.
  The search passes one array on through its recursive calls, as the code does; \<^const>\<open>None\<close> would
  be a search that does not end.
\<close>

section \<open>Formulas\<close>

record Lit =
  lit_var :: nat
  lit_negated :: bool

definition pos_lit :: "nat \<Rightarrow> Lit" where
  "pos_lit v = \<lparr> lit_var = v, lit_negated = False \<rparr>"

definition neg_lit :: "nat \<Rightarrow> Lit" where
  "neg_lit v = \<lparr> lit_var = v, lit_negated = True \<rparr>"

record Cnf =
  cnf_num_vars :: nat
  cnf_clauses :: "Lit list list"

definition new_cnf :: "nat \<Rightarrow> Cnf" where
  "new_cnf n = \<lparr> cnf_num_vars = n, cnf_clauses = [] \<rparr>"

definition add_clause :: "Lit list \<Rightarrow> Cnf \<Rightarrow> Cnf" where
  "add_clause c f = f\<lparr>cnf_clauses := cnf_clauses f @ [c]\<rparr>"

section \<open>Backtracking search\<close>

definition slot :: "bool option list \<Rightarrow> nat \<Rightarrow> bool option" where
  "slot a v = (if v < length a then a ! v else None)"

text \<open>The scan of one clause: it stops at a true literal and remembers an unassigned one.\<close>

fun clause_open :: "bool option list \<Rightarrow> bool \<Rightarrow> Lit list \<Rightarrow> bool" where
  "clause_open a has_unassigned [] = has_unassigned"
| "clause_open a has_unassigned (l # ls) =
     (case slot a (lit_var l) of
        Some v \<Rightarrow> if (if lit_negated l then \<not> v else v) then True else clause_open a has_unassigned ls
      | None \<Rightarrow> clause_open a True ls)"

definition is_partial_consistent :: "Cnf \<Rightarrow> bool option list \<Rightarrow> bool" where
  "is_partial_consistent f a \<longleftrightarrow> list_all (clause_open a False) (cnf_clauses f)"

fun first_unassigned :: "bool option list \<Rightarrow> nat" where
  "first_unassigned [] = 0"
| "first_unassigned (v # vs) = (if v = None then 0 else Suc (first_unassigned vs))"

partial_function (option) dpll :: "Cnf \<Rightarrow> bool option list \<Rightarrow> (bool \<times> bool option list) option" where
  "dpll f a =
     (if \<not> is_partial_consistent f a then Some (False, a)
      else if list_all (\<lambda>v. v \<noteq> None) a then Some (True, a)
      else
        (let v = first_unassigned a
         in Option.bind (dpll f (a[v := Some True])) (\<lambda>(r, a1).
              if r then Some (True, a1)
              else Option.bind (dpll f (a1[v := Some False])) (\<lambda>(r, a2).
                     if r then Some (True, a2) else Some (False, a2[v := None])))))"

definition solve_with_dpll :: "Cnf \<Rightarrow> bool list option option" where
  "solve_with_dpll f =
     map_option (\<lambda>(r, a). if r then Some (map (\<lambda>v. or_else v False) a) else None)
       (dpll f (replicate (cnf_num_vars f) None))"

section \<open>The external solver\<close>

definition smt_literal :: "Lit \<Rightarrow> string" where
  "smt_literal l =
     (if lit_negated l then '' (not x'' @ decimal (lit_var l) @ '')'' else '' x'' @ decimal (lit_var l))"

definition smt_clause :: "Lit list \<Rightarrow> string" where
  "smt_clause c =
     (if c = [] then ''(assert false)'' @ nl
      else ''(assert (or'' @ concat (map smt_literal c) @ ''))'' @ nl)"

definition build_smt2 :: "Cnf \<Rightarrow> string" where
  "build_smt2 f =
     ''(set-logic QF_BOOL)'' @ nl @
     concat (map (\<lambda>i. ''(declare-fun x'' @ decimal i @ '' () Bool)'' @ nl) [0..<cnf_num_vars f]) @
     concat (map smt_clause (cnf_clauses f)) @ ''(check-sat)'' @ nl @ ''(get-model)'' @ nl"

definition model_value :: "string \<Rightarrow> nat \<Rightarrow> bool" where
  "model_value all i =
     (let needle = ''(define-fun x'' @ decimal i @ '' () Bool ''
      in case str_find needle all of
           None \<Rightarrow> False
         | Some pos \<Rightarrow> prefix ''true'' (drop (pos + length needle) all))"

definition parse_z3_model :: "string \<Rightarrow> nat \<Rightarrow> bool list option" where
  "parse_z3_model out num_vars =
     (case str_lines out of
        [] \<Rightarrow> None
      | status # _ \<Rightarrow>
          if trim status \<noteq> ''sat'' then None
          else Some (map (model_value (map (\<lambda>c. if c = CHR 0x0A then CHR '' '' else c) out)) [0..<num_vars]))"

definition solve_with_z3_cli :: "(string \<Rightarrow> string option) \<Rightarrow> Cnf \<Rightarrow> bool list option" where
  "solve_with_z3_cli z3 f =
     (case z3 (build_smt2 f) of None \<Rightarrow> None | Some out \<Rightarrow> parse_z3_model out (cnf_num_vars f))"

definition solve :: "(string \<Rightarrow> string option) \<Rightarrow> Cnf \<Rightarrow> bool list option option" where
  "solve z3 f = (case solve_with_z3_cli z3 f of Some m \<Rightarrow> Some (Some m) | None \<Rightarrow> solve_with_dpll f)"

section \<open>Satisfaction\<close>

definition lit_holds :: "bool list \<Rightarrow> Lit \<Rightarrow> bool" where
  "lit_holds m l \<longleftrightarrow> lit_var l < length m \<and> m ! lit_var l = (\<not> lit_negated l)"

definition satisfies :: "bool list \<Rightarrow> Cnf \<Rightarrow> bool" where
  "satisfies m f \<longleftrightarrow> length m = cnf_num_vars f \<and> (\<forall>c \<in> set (cnf_clauses f). \<exists>l \<in> set c. lit_holds m l)"

definition cnf_ok :: "Cnf \<Rightarrow> bool" where
  "cnf_ok f \<longleftrightarrow> (\<forall>c \<in> set (cnf_clauses f). \<forall>l \<in> set c. lit_var l < cnf_num_vars f)"

text \<open>A total assignment that agrees with a partial one.\<close>

definition extends :: "bool list \<Rightarrow> bool option list \<Rightarrow> bool" where
  "extends m a \<longleftrightarrow> length m = length a \<and> (\<forall>i < length a. \<forall>v. a ! i = Some v \<longrightarrow> m ! i = v)"

lemma clause_open_iff:
  "clause_open a u c \<longleftrightarrow>
     u \<or> (\<exists>l \<in> set c. slot a (lit_var l) = None \<or> slot a (lit_var l) = Some (\<not> lit_negated l))"
  by (induction c arbitrary: u) (auto split: option.splits)

lemma consistent_mono:
  assumes "satisfies m f" and "extends m a"
  shows "is_partial_consistent f a"
proof -
  have "clause_open a False c" if "c \<in> set (cnf_clauses f)" for c
  proof -
    from assms(1) that obtain l where "l \<in> set c" "lit_holds m l" unfolding satisfies_def by blast
    then have l: "l \<in> set c" "lit_var l < length m" "m ! lit_var l = (\<not> lit_negated l)"
      by (simp_all add: lit_holds_def)
    with assms(2) have "slot a (lit_var l) = None \<or> slot a (lit_var l) = Some (\<not> lit_negated l)"
      by (cases "a ! lit_var l") (auto simp: extends_def slot_def)
    with l(1) show ?thesis by (auto simp: clause_open_iff)
  qed
  then show ?thesis by (simp add: is_partial_consistent_def list_all_iff)
qed

lemma consistent_total:
  assumes "cnf_ok f" and "is_partial_consistent f a" and "list_all (\<lambda>v. v \<noteq> None) a" and "length a = cnf_num_vars f"
  shows "satisfies (map (\<lambda>v. or_else v False) a) f"
proof -
  have "\<exists>l \<in> set c. lit_holds (map (\<lambda>v. or_else v False) a) l" if c: "c \<in> set (cnf_clauses f)" for c
  proof -
    from assms(2) c obtain l where l: "l \<in> set c" "slot a (lit_var l) = None \<or> slot a (lit_var l) = Some (\<not> lit_negated l)"
      by (auto simp: is_partial_consistent_def list_all_iff clause_open_iff)
    have "lit_var l < length a" using assms(1,4) c l(1) by (auto simp: cnf_ok_def)
    moreover from this assms(3) have "a ! lit_var l \<noteq> None" by (simp add: list_all_length)
    ultimately have "lit_holds (map (\<lambda>v. or_else v False) a) l"
      using l(2) by (auto simp: slot_def lit_holds_def)
    with l(1) show ?thesis by blast
  qed
  with assms(4) show ?thesis by (simp add: satisfies_def)
qed

lemma first_unassigned_less:
  "\<not> list_all (\<lambda>v. v \<noteq> None) a \<Longrightarrow> first_unassigned a < length a \<and> a ! first_unassigned a = None"
  by (induction a) auto

definition unassigned :: "bool option list \<Rightarrow> nat" where
  "unassigned a = length (filter (\<lambda>v. v = None) a)"

lemma unassigned_update:
  "i < length a \<Longrightarrow> a ! i = None \<Longrightarrow> unassigned (a[i := Some b]) < unassigned a"
proof (induction a arbitrary: i)
  case (Cons v a)
  then show ?case by (cases i) (auto simp: unassigned_def)
qed simp

lemma extends_split:
  assumes "extends m a" and "i < length a" and "a ! i = None"
  shows "extends m (a[i := Some (m ! i)])"
  using assms by (auto simp: extends_def nth_list_update)

text \<open>
  The search returns; on failure it has restored the array and no extension satisfies the
  formula, on success it has completed the array.
\<close>

lemma dpll_ok:
  assumes "cnf_ok f" and "length a = cnf_num_vars f"
  shows "\<exists>r a'. dpll f a = Some (r, a') \<and> length a' = length a \<and>
    (if r then list_all (\<lambda>v. v \<noteq> None) a' \<and> is_partial_consistent f a'
     else a' = a \<and> (\<forall>m. extends m a \<longrightarrow> \<not> satisfies m f))"
  using assms(2)
proof (induction "unassigned a" arbitrary: a rule: less_induct)
  case less
  consider (bad) "\<not> is_partial_consistent f a"
    | (total) "is_partial_consistent f a" "list_all (\<lambda>v. v \<noteq> None) a"
    | (split) "is_partial_consistent f a" "\<not> list_all (\<lambda>v. v \<noteq> None) a" by blast
  then show ?case
  proof cases
    case bad
    then have "\<forall>m. extends m a \<longrightarrow> \<not> satisfies m f" using consistent_mono by blast
    with bad show ?thesis by (subst dpll.simps) (auto intro!: exI [of _ False])
  next
    case total
    then show ?thesis by (subst dpll.simps) (auto intro!: exI [of _ True])
  next
    case split
    let ?v = "first_unassigned a"
    have v: "?v < length a" "a ! ?v = None" using first_unassigned_less [OF split(2)] by simp_all
    have undo: "a[?v := Some b, ?v := None] = a" for b using v by (metis list_update_id list_update_overwrite)
    obtain r1 a1 where d1: "dpll f (a[?v := Some True]) = Some (r1, a1)" "length a1 = length a"
        "if r1 then list_all (\<lambda>v. v \<noteq> None) a1 \<and> is_partial_consistent f a1
         else a1 = a[?v := Some True] \<and> (\<forall>m. extends m (a[?v := Some True]) \<longrightarrow> \<not> satisfies m f)"
      using less.hyps [of "a[?v := Some True]"] unassigned_update [OF v] less.prems by auto
    obtain r2 a2 where d2: "dpll f (a[?v := Some False]) = Some (r2, a2)" "length a2 = length a"
        "if r2 then list_all (\<lambda>v. v \<noteq> None) a2 \<and> is_partial_consistent f a2
         else a2 = a[?v := Some False] \<and> (\<forall>m. extends m (a[?v := Some False]) \<longrightarrow> \<not> satisfies m f)"
      using less.hyps [of "a[?v := Some False]"] unassigned_update [OF v] less.prems by auto
    have none: "\<not> satisfies m f" if "\<not> r1" "\<not> r2" "extends m a" for m
      using extends_split [OF that(3) v] d1(3) d2(3) that(1,2) by (cases "m ! ?v") auto
    have "a1[?v := Some False] = a[?v := Some False]" if "\<not> r1" using d1(3) that by simp
    moreover have "a2[?v := None] = a" if "\<not> r2" using d2(3) undo that by simp
    ultimately have "dpll f a = Some (if r1 then (True, a1) else if r2 then (True, a2) else (False, a))"
      using d1(1) d2(1) by (subst dpll.simps) (cases r1; cases r2; simp add: split Let_def del: not_None_eq)
    with d1(2,3) d2(2,3) none show ?thesis by (cases r1; cases r2) (auto simp del: not_None_eq)
  qed
qed

lemma solve_with_dpll_ok:
  assumes "cnf_ok f"
  shows "\<exists>r. solve_with_dpll f = Some r \<and>
    (case r of Some m \<Rightarrow> satisfies m f | None \<Rightarrow> (\<forall>m. \<not> satisfies m f))"
proof -
  let ?a = "replicate (cnf_num_vars f) (None :: bool option)"
  from dpll_ok [OF assms, of ?a] obtain r a where d: "dpll f ?a = Some (r, a)" "length a = cnf_num_vars f"
      "if r then list_all (\<lambda>v. v \<noteq> None) a \<and> is_partial_consistent f a
       else \<forall>m. extends m ?a \<longrightarrow> \<not> satisfies m f" by (auto split: if_splits)
  have "\<not> satisfies m f" if "\<not> r" for m
  proof
    assume s: "satisfies m f"
    then have "extends m ?a" by (auto simp: extends_def satisfies_def)
    with d(3) that s show False by simp
  qed
  with d consistent_total [OF assms] show ?thesis by (auto simp: solve_with_dpll_def)
qed

text \<open>C21: The solver always returns. When it answers that there is no model the formula is
  unsatisfiable, whatever the external program printed; when the external program gives no model
  and the solver answers with one, that model satisfies every clause. The formula may only use
  the variables it declares.\<close>

theorem solver_is_sound_and_complete:
  assumes "cnf_ok f"
  shows "case solve z3 f of
      None \<Rightarrow> False
    | Some None \<Rightarrow> \<forall>m. \<not> satisfies m f
    | Some (Some m) \<Rightarrow> solve_with_z3_cli z3 f = Some m \<or> satisfies m f"
  using solve_with_dpll_ok [OF assms] by (auto simp: solve_def split: option.splits)

theorem solver_is_sound_and_complete_witness:
  "\<exists>m. solve (\<lambda>_. None) \<lparr> cnf_num_vars = 2, cnf_clauses = [[neg_lit 0], [pos_lit 0, pos_lit 1]] \<rparr> = Some (Some m) \<and>
     satisfies m \<lparr> cnf_num_vars = 2, cnf_clauses = [[neg_lit 0], [pos_lit 0, pos_lit 1]] \<rparr>"
proof -
  let ?f = "\<lparr> cnf_num_vars = 2, cnf_clauses = [[neg_lit 0], [pos_lit 0, pos_lit 1]] \<rparr>"
  have "satisfies [False, True] ?f" by (simp add: satisfies_def lit_holds_def pos_lit_def neg_lit_def)
  moreover have "cnf_ok ?f" by (simp add: cnf_ok_def pos_lit_def neg_lit_def)
  ultimately show ?thesis
    using solver_is_sound_and_complete [of ?f "\<lambda>_. None"]
    by (auto simp: solve_with_z3_cli_def split: option.splits)
qed

text \<open>A literal beyond the declared variables counts as unassigned for ever, so a formula that
  no assignment of the declared variables satisfies gets a model.\<close>

lemma undeclared_variable_is_ignored:
  "solve_with_dpll \<lparr> cnf_num_vars = 1, cnf_clauses = [[pos_lit 5]] \<rparr> = Some (Some [True]) \<and>
   (\<forall>m. \<not> satisfies m \<lparr> cnf_num_vars = 1, cnf_clauses = [[pos_lit 5]] \<rparr>)"
proof
  let ?f = "\<lparr> cnf_num_vars = 1, cnf_clauses = [[pos_lit 5]] \<rparr>"
  have c: "is_partial_consistent ?f a" if "length a = 1" for a
    using that by (simp add: is_partial_consistent_def slot_def pos_lit_def)
  have "dpll ?f [Some True] = Some (True, [Some True])" using c by (subst dpll.simps) (simp del: not_None_eq)
  then have "dpll ?f [None] = Some (True, [Some True])" using c by (subst dpll.simps) (simp del: not_None_eq)
  then show "solve_with_dpll ?f = Some (Some [True])" by (simp add: solve_with_dpll_def)
  show "\<forall>m. \<not> satisfies m ?f" by (simp add: satisfies_def lit_holds_def pos_lit_def)
qed

end
