(* ===== verification/Constraint_Propagation.thy ===== *)
theory Constraint_Propagation
  imports Canon_Prelude
begin

text \<open>
  Arc consistency and forward checking for binary constraints over finite domains:
  \<^verbatim>\<open>algorithms/src/constraints/ac3.rs\<close> and
  \<^verbatim>\<open>algorithms/src/constraints/forward_checking.rs\<close>, the CPU paths. The table of predicates is an
  association list whose order is the iteration order of the hash map. \<^const>\<open>None\<close> is a panic.
\<close>

type_synonym Domain = "int list"
type_synonym ConstraintGraph = "((nat \<times> nat) \<times> (int \<Rightarrow> int \<Rightarrow> bool)) list"

definition add_constraint :: "nat \<Rightarrow> nat \<Rightarrow> (int \<Rightarrow> int \<Rightarrow> bool) \<Rightarrow> ConstraintGraph \<Rightarrow> ConstraintGraph" where
  "add_constraint i j f g = AList.update (i, j) f g"

definition constraint :: "ConstraintGraph \<Rightarrow> nat \<Rightarrow> nat \<Rightarrow> (int \<Rightarrow> int \<Rightarrow> bool) option" where
  "constraint g i j = map_of g (i, j)"

section \<open>Arc consistency\<close>

definition supported :: "(int \<Rightarrow> int \<Rightarrow> bool) \<Rightarrow> Domain \<Rightarrow> int \<Rightarrow> bool" where
  "supported pred dj x \<longleftrightarrow> list_ex (pred x) dj"

definition revise :: "Domain list \<Rightarrow> ConstraintGraph \<Rightarrow> nat \<Rightarrow> nat \<Rightarrow> (bool \<times> Domain list) option" where
  "revise domains g i j =
     (case constraint g i j of
        None \<Rightarrow> Some (False, domains)
      | Some pred \<Rightarrow>
          if length domains \<le> i \<or> (domains ! i \<noteq> [] \<and> length domains \<le> j) then None
          else if list_all (supported pred (domains ! j)) (domains ! i) then Some (False, domains)
          else Some (True, domains[i := filter (supported pred (domains ! j)) (domains ! i)]))"

lemma nth_update_in: "k < length xs \<Longrightarrow> xs[i := x] ! k = (if k = i then x else xs ! k)"
  by (cases "k = i") auto

lemma revise_shrinks:
  assumes "revise ds g i j = Some (True, ds')"
  shows "sum_list (map length ds') < sum_list (map length ds)"
proof -
  from assms obtain pred where p: "i < length ds" "\<not> list_all (supported pred (ds ! j)) (ds ! i)"
      "ds' = ds[i := filter (supported pred (ds ! j)) (ds ! i)]"
    by (auto simp: revise_def split: option.splits if_splits)
  let ?k = "length (filter (supported pred (ds ! j)) (ds ! i))"
  obtain x where "x \<in> set (ds ! i)" "\<not> supported pred (ds ! j) x" using p(2) unfolding list_all_iff by blast
  then have "?k < length (ds ! i)" by (rule length_filter_less)
  moreover have "map length ds = take i (map length ds) @ length (ds ! i) # drop (Suc i) (map length ds)"
    using id_take_nth_drop [of i "map length ds"] p(1) by simp
  then have "sum_list (map length ds) =
      sum_list (take i (map length ds)) + length (ds ! i) + sum_list (drop (Suc i) (map length ds))"
    by (metis add.assoc sum_list.Cons sum_list.append)
  moreover have "sum_list (map length ds') =
      sum_list (take i (map length ds)) + ?k + sum_list (drop (Suc i) (map length ds))"
    using p(1,3) by (simp add: map_update upd_conv_take_nth_drop take_map drop_map)
  ultimately show ?thesis by linarith
qed

function ac3_loop :: "ConstraintGraph \<Rightarrow> (nat \<times> nat) list \<Rightarrow> Domain list \<Rightarrow> (bool \<times> Domain list) option" where
  "ac3_loop g [] domains = Some (True, domains)"
| "ac3_loop g ((i, j) # queue) domains =
     (case revise domains g i j of
        None \<Rightarrow> None
      | Some (False, domains1) \<Rightarrow> ac3_loop g queue domains
      | Some (True, domains1) \<Rightarrow>
          if domains1 ! i = [] then Some (False, domains1)
          else ac3_loop g
                 (queue @ map (\<lambda>(k, l). (k, i)) (filter (\<lambda>(k, l). l = i \<and> k \<noteq> j) (map fst g))) domains1)"
  by pat_completeness auto
termination
  by (relation "measures [\<lambda>(g, q, ds). sum_list (map length ds), \<lambda>(g, q, ds). length q]")
    (auto dest: revise_shrinks)

definition ac3 :: "Domain list \<Rightarrow> ConstraintGraph \<Rightarrow> (bool \<times> Domain list) option" where
  "ac3 domains g = ac3_loop g (map fst g) domains"

section \<open>Forward checking\<close>

text \<open>The inner loop over the neighbours of an assigned variable.\<close>

fun prune_loop :: "ConstraintGraph \<Rightarrow> nat \<Rightarrow> int \<Rightarrow> nat list \<Rightarrow> Domain list \<Rightarrow> Domain list option" where
  "prune_loop g i val [] pruned = Some pruned"
| "prune_loop g i val (j # js) pruned =
     (if i = j then prune_loop g i val js pruned
      else
        (case constraint g i j of
           None \<Rightarrow> prune_loop g i val js pruned
         | Some pred \<Rightarrow>
             (let kept = filter (pred val) (pruned ! j)
              in if kept = [] then None else prune_loop g i val js (pruned[j := kept]))))"

fun check_loop :: "ConstraintGraph \<Rightarrow> int option list \<Rightarrow> nat list \<Rightarrow> Domain list \<Rightarrow> Domain list option" where
  "check_loop g assignment [] pruned = Some pruned"
| "check_loop g assignment (i # is) pruned =
     (case assignment ! i of
        None \<Rightarrow> check_loop g assignment is pruned
      | Some val \<Rightarrow>
          (case prune_loop g i val [0..<length assignment] (pruned[i := [val]]) of
             None \<Rightarrow> None
           | Some pruned1 \<Rightarrow> check_loop g assignment is pruned1))"

definition forward_check :: "Domain list \<Rightarrow> int option list \<Rightarrow> ConstraintGraph \<Rightarrow> Domain list option" where
  "forward_check domains assignment g =
     (if length domains \<noteq> length assignment then None
      else check_loop g assignment [0..<length assignment] domains)"

section \<open>Solutions\<close>

definition graph_ok :: "ConstraintGraph \<Rightarrow> nat \<Rightarrow> bool" where
  "graph_ok g n \<longleftrightarrow> (\<forall>i j p. constraint g i j = Some p \<longrightarrow> i < n \<and> j < n)"

definition solution :: "ConstraintGraph \<Rightarrow> Domain list \<Rightarrow> int list \<Rightarrow> bool" where
  "solution g ds s \<longleftrightarrow>
     length s = length ds \<and> (\<forall>k < length ds. s ! k \<in> set (ds ! k)) \<and>
     (\<forall>i j p. constraint g i j = Some p \<longrightarrow> p (s ! i) (s ! j))"

definition arc_consistent :: "ConstraintGraph \<Rightarrow> Domain list \<Rightarrow> nat \<Rightarrow> nat \<Rightarrow> bool" where
  "arc_consistent g ds i j \<longleftrightarrow>
     (\<forall>p. constraint g i j = Some p \<longrightarrow> (\<forall>x \<in> set (ds ! i). \<exists>y \<in> set (ds ! j). p x y))"

definition symmetric :: "ConstraintGraph \<Rightarrow> bool" where
  "symmetric g \<longleftrightarrow>
     (\<forall>i j p q. constraint g i j = Some p \<longrightarrow> constraint g j i = Some q \<longrightarrow> (\<forall>x y. q y x = p x y))"

lemma constraint_key: "constraint g i j = Some p \<Longrightarrow> (i, j) \<in> set (map fst g)"
  by (force simp: constraint_def dest: map_of_SomeD)

lemma revise_cases:
  assumes "graph_ok g (length ds)"
  obtains (same) "revise ds g i j = Some (False, ds)" "arc_consistent g ds i j"
  | (cut) p where "constraint g i j = Some p" "i < length ds" "j < length ds"
      "revise ds g i j = Some (True, ds[i := filter (supported p (ds ! j)) (ds ! i)])"
proof (cases "constraint g i j")
  case None
  with that(1) show ?thesis by (simp add: revise_def arc_consistent_def)
next
  case (Some p)
  with assms have "i < length ds" "j < length ds" by (auto simp: graph_ok_def)
  with Some that show ?thesis
    by (cases "list_all (supported p (ds ! j)) (ds ! i)")
      (auto simp: revise_def arc_consistent_def supported_def list_all_iff list_ex_iff)
qed

lemma revise_solution:
  assumes "constraint g i j = Some p" and "i < length ds" and "j < length ds"
  shows "solution g (ds[i := filter (supported p (ds ! j)) (ds ! i)]) s \<longleftrightarrow> solution g ds s"
proof
  assume s: "solution g ds s"
  then have k: "\<forall>k < length ds. s ! k \<in> set (ds ! k)" and "p (s ! i) (s ! j)"
    using assms(1) by (auto simp: solution_def)
  then have "supported p (ds ! j) (s ! i)" using assms(3) by (auto simp: supported_def list_ex_iff)
  with k have "\<forall>k < length ds. s ! k \<in> set (ds[i := filter (supported p (ds ! j)) (ds ! i)] ! k)"
    by (simp add: nth_update_in)
  with s show "solution g (ds[i := filter (supported p (ds ! j)) (ds ! i)]) s"
    unfolding solution_def length_list_update by blast
next
  assume "solution g (ds[i := filter (supported p (ds ! j)) (ds ! i)]) s"
  then show "solution g ds s"
    unfolding solution_def by (auto simp: nth_update_in split: if_splits)
qed

text \<open>
  Cutting the values of \<open>i\<close> without support in \<open>j\<close> can only break arcs that end in \<open>i\<close>, and not
  the reverse arc of a symmetric constraint.
\<close>

lemma revise_arcs:
  assumes "graph_ok g (length ds)" and "symmetric g" and "constraint g i j = Some p"
    and "i < length ds" and "j < length ds" and "(k, l) = (i, j) \<or> arc_consistent g ds k l"
    and "l = i \<Longrightarrow> k = j"
  shows "arc_consistent g (ds[i := filter (supported p (ds ! j)) (ds ! i)]) k l"
proof (cases "constraint g k l")
  case None
  then show ?thesis by (simp add: arc_consistent_def)
next
  case (Some q)
  let ?ds = "ds[i := filter (supported p (ds ! j)) (ds ! i)]"
  have kl: "k < length ds" "l < length ds" using assms(1) Some by (auto simp: graph_ok_def)
  have "\<exists>y \<in> set (?ds ! l). q x y" if x: "x \<in> set (?ds ! k)" for x
  proof -
    have xk: "x \<in> set (ds ! k)" using x assms(4) by (cases "k = i") auto
    obtain y where y: "y \<in> set (ds ! l)" "q x y"
    proof (cases "(k, l) = (i, j)")
      case True
      with x Some assms(3,4) that show ?thesis by (auto simp: supported_def list_ex_iff)
    next
      case False
      with xk assms(6) Some that show ?thesis by (auto simp: arc_consistent_def)
    qed
    show ?thesis
    proof (cases "l = i")
      case False
      with y show ?thesis by auto
    next
      case True
      with assms(7) have "k = j" by simp
      with assms(2,3) Some True y(2) have "p y x" unfolding symmetric_def by metis
      with y xk True \<open>k = j\<close> assms(4) show ?thesis by (auto simp: supported_def list_ex_iff)
    qed
  qed
  with Some show ?thesis by (simp add: arc_consistent_def)
qed

text \<open>What a run of the loop guarantees: the solutions stay, and the arcs that were settled stay settled.\<close>

definition propagated :: "ConstraintGraph \<Rightarrow> (nat \<times> nat) list \<Rightarrow> Domain list \<Rightarrow> bool \<Rightarrow> Domain list \<Rightarrow> bool" where
  "propagated g q ds r ds' \<longleftrightarrow>
     (\<forall>s. solution g ds s \<longleftrightarrow> r \<and> solution g ds' s) \<and>
     (r \<longrightarrow> symmetric g \<longrightarrow> (\<forall>k l. (k, l) \<in> fst ` set g - set q \<longrightarrow> arc_consistent g ds k l) \<longrightarrow>
       (\<forall>k l. arc_consistent g ds' k l))"

lemma propagated_done: "propagated g [] ds True ds"
proof -
  have "arc_consistent g ds k l" if "\<forall>k l. (k, l) \<in> fst ` set g - set [] \<longrightarrow> arc_consistent g ds k l" for k l
    using that constraint_key [of g k l] by (cases "constraint g k l") (auto simp: arc_consistent_def)
  then show ?thesis by (simp add: propagated_def)
qed

lemma propagated_same:
  assumes "arc_consistent g ds i j" and "propagated g q ds r ds'"
  shows "propagated g ((i, j) # q) ds r ds'"
  using assms unfolding propagated_def by auto

lemma propagated_cut:
  assumes ok: "graph_ok g (length ds)" and c: "constraint g i j = Some p" "i < length ds" "j < length ds"
    and p: "propagated g (q @ map (\<lambda>(k, l). (k, i)) (filter (\<lambda>(k, l). l = i \<and> k \<noteq> j) (map fst g)))
      (ds[i := filter (supported p (ds ! j)) (ds ! i)]) r ds'"
  shows "propagated g ((i, j) # q) ds r ds'"
proof -
  let ?ds = "ds[i := filter (supported p (ds ! j)) (ds ! i)]"
  let ?q = "q @ map (\<lambda>(k, l). (k, i)) (filter (\<lambda>(k, l). l = i \<and> k \<noteq> j) (map fst g))"
  have "arc_consistent g ?ds k l"
    if s: "symmetric g" and a: "\<forall>k l. (k, l) \<in> fst ` set g - set ((i, j) # q) \<longrightarrow> arc_consistent g ds k l"
      and kl: "(k, l) \<in> fst ` set g" "(k, l) \<notin> set ?q" for k l
  proof (rule revise_arcs [OF ok s c])
    show "(k, l) = (i, j) \<or> arc_consistent g ds k l" using a kl by auto
    show "k = j" if "l = i"
    proof (rule ccontr)
      assume "k \<noteq> j"
      with that kl(1) have "(k, l) \<in> set (filter (\<lambda>(k, l). l = i \<and> k \<noteq> j) (map fst g))" by simp
      with that have "(k, l) \<in> set (map (\<lambda>(k, l). (k, i)) (filter (\<lambda>(k, l). l = i \<and> k \<noteq> j) (map fst g)))"
        by (force simp del: set_filter)
      with kl(2) show False by simp
    qed
  qed
  with p show ?thesis unfolding propagated_def revise_solution [OF c] by blast
qed

lemma ac3_loop_ok:
  assumes "graph_ok g (length ds)"
  shows "\<exists>r ds'. ac3_loop g q ds = Some (r, ds') \<and> propagated g q ds r ds'"
  using assms
proof (induction g q ds rule: ac3_loop.induct)
  case (1 g ds)
  show ?case using propagated_done [of g ds] by (intro exI [of _ True] exI [of _ ds]) simp
next
  case (2 g i j q ds)
  from 2(3) show ?case
  proof (cases rule: revise_cases [where i = i and j = j])
    case same
    with 2(2) [OF same(1) refl] 2(3) show ?thesis by (auto intro: propagated_same)
  next
    case (cut p)
    let ?ds = "ds[i := filter (supported p (ds ! j)) (ds ! i)]"
    show ?thesis
    proof (cases "?ds ! i = []")
      case True
      then have "\<not> solution g ?ds s" for s using cut(2) by (auto simp: solution_def)
      then have "propagated g ((i, j) # q) ds False ?ds"
        unfolding propagated_def revise_solution [OF cut(1-3)] by simp
      with True cut(4) show ?thesis by (intro exI [of _ False] exI [of _ ?ds]) simp
    next
      case False
      with 2(1) [OF cut(4) refl] 2(3) cut(4) show ?thesis
        by (auto intro: propagated_cut [OF 2(3) cut(1-3)])
    qed
  qed
qed

section \<open>Properties\<close>

text \<open>C20: Arc consistency always ends without a panic when the arcs name existing variables, whatever
  the iteration order of the constraint table. The pruned domains have exactly the solutions of the
  given ones, the answer \<^const>\<open>False\<close> means that there is no solution, and after \<^const>\<open>True\<close> every arc
  is consistent, provided that predicates given in both directions agree.\<close>

theorem ac3_prunes_to_arc_consistency:
  assumes "graph_ok g (length ds)"
  shows "\<exists>r ds'. ac3 ds g = Some (r, ds') \<and> (\<forall>s. solution g ds s \<longleftrightarrow> r \<and> solution g ds' s) \<and>
    (r \<and> symmetric g \<longrightarrow> (\<forall>i j. arc_consistent g ds' i j))"
  using ac3_loop_ok [OF assms, of "map fst g"] by (auto simp: ac3_def propagated_def)

definition less_arcs :: ConstraintGraph where
  "less_arcs = add_constraint 0 1 (\<lambda>x y. x < y) (add_constraint 1 0 (\<lambda>y x. x < y) [])"

lemma less_arcs_ok: "graph_ok less_arcs 2"
  by (auto simp: graph_ok_def less_arcs_def add_constraint_def constraint_def split: if_splits)

theorem ac3_prunes_to_arc_consistency_witness:
  "graph_ok less_arcs (length [[1, 2, 3], [1, 2, 3::int]]) \<and>
   ac3 [[1, 2, 3], [1, 2, 3]] less_arcs = Some (True, [[1, 2], [2, 3]]) \<and>
   (\<exists>r ds'. ac3 [[1, 2, 3], [1, 2, 3]] less_arcs = Some (r, ds') \<and>
     (\<forall>s. solution less_arcs [[1, 2, 3], [1, 2, 3]] s \<longleftrightarrow> r \<and> solution less_arcs ds' s) \<and>
     (r \<and> symmetric less_arcs \<longrightarrow> (\<forall>i j. arc_consistent less_arcs ds' i j)))"
proof (intro conjI)
  show ok: "graph_ok less_arcs (length [[1, 2, 3], [1, 2, 3::int]])" using less_arcs_ok by (simp add: numeral_2_eq_2)
  show "ac3 [[1, 2, 3], [1, 2, 3]] less_arcs = Some (True, [[1, 2], [2, 3]])" by code_simp
  show "\<exists>r ds'. ac3 [[1, 2, 3], [1, 2, 3]] less_arcs = Some (r, ds') \<and>
     (\<forall>s. solution less_arcs [[1, 2, 3], [1, 2, 3]] s \<longleftrightarrow> r \<and> solution less_arcs ds' s) \<and>
     (r \<and> symmetric less_arcs \<longrightarrow> (\<forall>i j. arc_consistent less_arcs ds' i j))"
    by (rule ac3_prunes_to_arc_consistency [OF ok])
qed

text \<open>The requeueing step skips the reverse arc of the one just revised. When the predicates of the
  two directions differ, an arc stays inconsistent although the answer is \<^const>\<open>True\<close>.\<close>

lemma reverse_arc_is_not_requeued:
  "ac3 [[1, 2], [1, 2]] [((1, 0), \<lambda>y x. x = y), ((0, 1), \<lambda>x y. x = 1)] = Some (True, [[1], [1, 2]])"
  by code_simp

lemma reverse_arc_stays_inconsistent:
  "\<not> arc_consistent [((1, 0), \<lambda>y x. x = y), ((0, 1), \<lambda>x y. x = 1)] [[1], [1, 2]] 1 0"
  by (auto simp: arc_consistent_def constraint_def)

section \<open>Forward checking keeps the solutions\<close>

definition assigns :: "int option list \<Rightarrow> int list \<Rightarrow> bool" where
  "assigns a s \<longleftrightarrow> (\<forall>i < length a. \<forall>v. a ! i = Some v \<longrightarrow> s ! i = v)"

lemma prune_loop_keeps:
  assumes "\<forall>k < length ds. s ! k \<in> set (ds ! k)" and "\<forall>j \<in> set js. j < length ds"
    and "\<forall>i j p. constraint g i j = Some p \<longrightarrow> p (s ! i) (s ! j)" and "s ! i = val"
  shows "\<exists>ds'. prune_loop g i val js ds = Some ds' \<and> length ds' = length ds \<and>
    (\<forall>k < length ds. s ! k \<in> set (ds' ! k))"
  using assms(1,2)
proof (induction js arbitrary: ds)
  case Nil
  then show ?case by simp
next
  case (Cons j js)
  show ?case
  proof (cases "i = j \<or> constraint g i j = None")
    case True
    with Cons show ?thesis by (cases "i = j") auto
  next
    case False
    then obtain p where p: "constraint g i j = Some p" "i \<noteq> j" by auto
    let ?k = "filter (p val) (ds ! j)"
    have j: "j < length ds" using Cons.prems by simp
    have "s ! j \<in> set ?k" using Cons.prems(1) j p(1) assms(3,4) by auto
    then have "?k \<noteq> []" by (metis empty_iff empty_set)
    moreover have "\<forall>k < length (ds[j := ?k]). s ! k \<in> set (ds[j := ?k] ! k)"
      using Cons.prems(1) \<open>s ! j \<in> set ?k\<close> by (auto simp: nth_update_in)
    ultimately show ?thesis using Cons.IH [of "ds[j := ?k]"] Cons.prems(2) p by (auto simp: Let_def)
  qed
qed

lemma check_loop_keeps:
  assumes "\<forall>k < length ds. s ! k \<in> set (ds ! k)" and "\<forall>i \<in> set is. i < length ds"
    and "\<forall>i j p. constraint g i j = Some p \<longrightarrow> p (s ! i) (s ! j)" and "assigns a s" and "length a = length ds"
  shows "\<exists>ds'. check_loop g a is ds = Some ds' \<and> length ds' = length ds \<and>
    (\<forall>k < length ds. s ! k \<in> set (ds' ! k))"
  using assms(1,2,5)
proof (induction "is" arbitrary: ds)
  case Nil
  then show ?case by simp
next
  case (Cons i "is")
  show ?case
  proof (cases "a ! i")
    case None
    with Cons show ?thesis by auto
  next
    case (Some val)
    with assms(4) Cons.prems have v: "s ! i = val" by (auto simp: assigns_def)
    have "\<forall>k < length (ds[i := [val]]). s ! k \<in> set (ds[i := [val]] ! k)"
      using Cons.prems(1) v by (auto simp: nth_update_in)
    from prune_loop_keeps [OF this _ assms(3) v, of "[0..<length a]"] Cons.prems(3)
    obtain ds1 where d: "prune_loop g i val [0..<length a] (ds[i := [val]]) = Some ds1" "length ds1 = length ds"
      "\<forall>k < length ds. s ! k \<in> set (ds1 ! k)" by auto
    with Cons.IH [of ds1] Cons.prems Some show ?thesis by auto
  qed
qed

text \<open>Forward checking never loses a solution: when some solution assigns the partial assignment,
  the check does not report an inconsistency, and the value of every variable stays in its pruned
  domain.\<close>

theorem forward_check_keeps_solutions:
  assumes "solution g ds s" and "assigns a s" and "length a = length ds"
  shows "\<exists>ds'. forward_check ds a g = Some ds' \<and> solution g ds' s"
proof -
  from check_loop_keeps [of ds s "[0..<length a]" g a] assms obtain ds' where
    "check_loop g a [0..<length a] ds = Some ds'" "length ds' = length ds" "\<forall>k < length ds. s ! k \<in> set (ds' ! k)"
    by (auto simp: solution_def)
  moreover from this have "solution g ds' s" using assms(1) unfolding solution_def by metis
  ultimately show ?thesis using assms(3) by (simp add: forward_check_def)
qed

theorem forward_check_keeps_solutions_witness:
  "solution less_arcs [[1, 2, 3], [1, 2, 3]] [2, 3] \<and> assigns [Some 2, None] [2, 3] \<and>
   forward_check [[1, 2, 3], [1, 2, 3]] [Some 2, None] less_arcs = Some [[2], [3]] \<and>
   (\<exists>ds'. forward_check [[1, 2, 3], [1, 2, 3]] [Some 2, None] less_arcs = Some ds' \<and> solution less_arcs ds' [2, 3])"
proof (intro conjI)
  show s: "solution less_arcs [[1, 2, 3], [1, 2, 3]] [2, 3]"
    by (auto simp: solution_def less_arcs_def add_constraint_def constraint_def less_Suc_eq split: if_splits)
  show e: "assigns [Some 2, None] [2, 3]" by (auto simp: assigns_def less_Suc_eq)
  show "forward_check [[1, 2, 3], [1, 2, 3]] [Some 2, None] less_arcs = Some [[2], [3]]" by code_simp
  show "\<exists>ds'. forward_check [[1, 2, 3], [1, 2, 3]] [Some 2, None] less_arcs = Some ds' \<and> solution less_arcs ds' [2, 3]"
    by (rule forward_check_keeps_solutions [OF s e]) simp
qed

text \<open>The domain of an assigned variable is overwritten by its value, so two assigned values that
  contradict each other are not noticed when the constraint is given in one direction.\<close>

lemma conflicting_assignment_passes:
  "forward_check [[0, 1], [0, 1]] [Some 0, Some 0] [((0, 1), \<lambda>x y. x \<noteq> y)] = Some [[0], [0]]"
  by code_simp

end
