(* ===== verification/Graph_Replay.thy ===== *)
theory Graph_Replay
  imports Kernel_Graph
begin

text \<open>
  The code graph rebuilt from the compiler events of a log
  (\<^verbatim>\<open>canon-storage-eventlog/src/replay.rs\<close>, \<^verbatim>\<open>graph_types.rs\<close>) and its snapshots
  (\<^verbatim>\<open>snapshot.rs\<close>). Node numbers are positions of a vector, truncated to 32 bits where the code
  casts; deleting a node moves the last node into its place and renames its edges. The theorems say
  that this renaming is invisible: the graph is the one described by the symbols alone, and a
  snapshot restores it. Reading the log and the binary snapshot format are outside.
\<close>

section \<open>The graph\<close>

definition as_u32 :: "nat \<Rightarrow> nat" where
  "as_u32 n = n mod 2 ^ 32"

lemma as_u32_small [simp]: "n < 2 ^ 32 \<Longrightarrow> as_u32 n = n"
  by (simp add: as_u32_def)

record CodeGraphNode =
  cn_id :: nat
  cn_kind :: string
  cn_symbol :: string
  cn_file_id :: "nat option"
  cn_line :: "u32 option"

record CodeGraphEdge =
  cg_src :: nat
  cg_dst :: nat
  cg_kind :: string

record CodeGraphProjection =
  cg_nodes :: "CodeGraphNode list"
  cg_edges :: "CodeGraphEdge list"
  cg_files :: "string list"

type_synonym symbol_index = "string \<Rightarrow> nat option"

definition empty_projection :: CodeGraphProjection where
  "empty_projection = \<lparr> cg_nodes = [], cg_edges = [], cg_files = [] \<rparr>"

fun position :: "string \<Rightarrow> string list \<Rightarrow> nat option" where
  "position f [] = None"
| "position f (x # xs) = (if x = f then Some 0 else map_option Suc (position f xs))"

text \<open>The number of a file, which is added to the list when it is new.\<close>

definition intern_file :: "string \<Rightarrow> string list \<Rightarrow> nat \<times> string list" where
  "intern_file f files =
     (case position f files of
        Some i \<Rightarrow> (as_u32 i, files)
      | None \<Rightarrow> (as_u32 (length files), files @ [f]))"

definition positive_line :: "u32 \<Rightarrow> u32 option" where
  "positive_line l = (if 0 < l then Some l else None)"

section \<open>Applying an event\<close>

text \<open>The branch for a symbol that is known already.\<close>

definition update_node :: "nat \<Rightarrow> string \<Rightarrow> string \<Rightarrow> u32 \<Rightarrow> CodeGraphProjection \<Rightarrow> CodeGraphProjection" where
  "update_node i kind f l g =
     (let node = (cg_nodes g ! i)\<lparr>cn_kind := kind\<rparr>;
          (node, files) =
            (if f = [] then (node, cg_files g)
             else let (k, files) = intern_file f (cg_files g) in (node\<lparr>cn_file_id := Some k\<rparr>, files));
          node = (case positive_line l of None \<Rightarrow> node | Some x \<Rightarrow> node\<lparr>cn_line := Some x\<rparr>)
      in g\<lparr>cg_nodes := (cg_nodes g)[i := node], cg_files := files\<rparr>)"

definition push_node ::
    "string \<Rightarrow> string \<Rightarrow> string \<Rightarrow> u32 \<Rightarrow> CodeGraphProjection \<times> symbol_index \<Rightarrow> CodeGraphProjection \<times> symbol_index" where
  "push_node sy kind f l st =
     (case st of (g, m) \<Rightarrow>
        let (file_id, files) =
              (if f = [] then (None, cg_files g)
               else let (k, files) = intern_file f (cg_files g) in (Some k, files));
            i = as_u32 (length (cg_nodes g));
            node = \<lparr> cn_id = i, cn_kind = kind, cn_symbol = sy, cn_file_id = file_id, cn_line = positive_line l \<rparr>
        in (g\<lparr>cg_nodes := cg_nodes g @ [node], cg_files := files\<rparr>, if sy = [] then m else m(sy \<mapsto> i)))"

definition define_node ::
    "string \<Rightarrow> string \<Rightarrow> string \<Rightarrow> u32 \<Rightarrow> CodeGraphProjection \<times> symbol_index \<Rightarrow> bool \<times> CodeGraphProjection \<times> symbol_index" where
  "define_node sy kind f l st =
     (case st of (g, m) \<Rightarrow>
        if kind = [] then (False, st)
        else if sy = [] \<and> kind \<noteq> ''MODULE'' then (False, st)
        else
          (case (if sy = [] then None else m sy) of
             Some i \<Rightarrow> if i < length (cg_nodes g) then (True, update_node i kind f l g, m) else (True, push_node sy kind f l st)
           | None \<Rightarrow> (True, push_node sy kind f l st)))"

definition swap_remove :: "nat \<Rightarrow> 'a list \<Rightarrow> 'a list" where
  "swap_remove i xs = butlast (xs[i := last xs])"

definition rename_id :: "nat \<Rightarrow> nat \<Rightarrow> nat \<Rightarrow> nat" where
  "rename_id old new i = (if i = old then new else i)"

definition rename_edge :: "nat \<Rightarrow> nat \<Rightarrow> CodeGraphEdge \<Rightarrow> CodeGraphEdge" where
  "rename_edge old new e = e\<lparr>cg_src := rename_id old new (cg_src e), cg_dst := rename_id old new (cg_dst e)\<rparr>"

definition delete_node ::
    "nat \<Rightarrow> CodeGraphProjection \<times> symbol_index \<Rightarrow> bool \<times> CodeGraphProjection \<times> symbol_index" where
  "delete_node i st =
     (case st of (g, m) \<Rightarrow>
        if length (cg_nodes g) \<le> i then (False, st)
        else
          (let last_idx = length (cg_nodes g) - 1;
               removed = cg_nodes g ! i;
               nodes = swap_remove i (cg_nodes g);
               m = (if cn_symbol removed = [] then m else m(cn_symbol removed := None));
               edges = filter (\<lambda>e. cg_src e \<noteq> i \<and> cg_dst e \<noteq> i) (cg_edges g)
           in if i = last_idx then (True, g\<lparr>cg_nodes := nodes, cg_edges := edges\<rparr>, m)
              else
                (let node = nodes ! i
                 in (True,
                     g\<lparr>cg_nodes := nodes[i := node\<lparr>cn_id := i\<rparr>], cg_edges := map (rename_edge (as_u32 last_idx) i) edges\<rparr>,
                     if cn_symbol node = [] then m else m(cn_symbol node \<mapsto> i)))))"

fun apply_rustc_event_to_graph ::
    "RustcEvent \<Rightarrow> bool \<Rightarrow> CodeGraphProjection \<times> symbol_index \<Rightarrow> bool \<times> CodeGraphProjection \<times> symbol_index" where
  "apply_rustc_event_to_graph (RSessionStart s) clear_on_session st =
     (True, if clear_on_session then (empty_projection, \<lambda>_. None) else st)"
| "apply_rustc_event_to_graph (RNodeDefined n) c st = define_node (nd_symbol n) (nd_kind n) (nd_file n) (nd_line n) st"
| "apply_rustc_event_to_graph (RNodeUpdated n) c st = define_node (nu_symbol n) (nu_kind n) (nu_file n) (nu_line n) st"
| "apply_rustc_event_to_graph (REdgeDefined e) c (g, m) =
     (case (m (ed_src e), m (ed_dst e)) of
        (Some s, Some d) \<Rightarrow> (True, g\<lparr>cg_edges := cg_edges g @ [\<lparr> cg_src = s, cg_dst = d, cg_kind = ed_kind e \<rparr>]\<rparr>, m)
      | _ \<Rightarrow> (False, g, m))"
| "apply_rustc_event_to_graph (RNodeRemoved n) c (g, m) =
     (case m (nr_symbol n) of None \<Rightarrow> (False, g, m) | Some i \<Rightarrow> delete_node i (g, m))"
| "apply_rustc_event_to_graph (REdgeRemoved e) c (g, m) =
     (case (m (er_src e), m (er_dst e)) of
        (Some s, Some d) \<Rightarrow>
          let edges = filter (\<lambda>x. \<not> (cg_src x = s \<and> cg_dst x = d \<and> cg_kind x = er_kind e)) (cg_edges g)
          in (length (cg_edges g) \<noteq> length edges, g\<lparr>cg_edges := edges\<rparr>, m)
      | _ \<Rightarrow> (False, g, m))"
| "apply_rustc_event_to_graph (RFileSeen f) c (g, m) =
     (True, if fs_path f \<noteq> [] \<and> fs_path f \<notin> set (cg_files g) then (g\<lparr>cg_files := cg_files g @ [fs_path f]\<rparr>, m) else (g, m))"
| "apply_rustc_event_to_graph e c st = (True, st)"

section \<open>Replay\<close>

text \<open>A log of compiler events applied to a graph, and the number of events that changed it.\<close>

definition replay_events ::
    "bool \<Rightarrow> RustcEvent list \<Rightarrow> CodeGraphProjection \<times> symbol_index \<Rightarrow> nat \<times> CodeGraphProjection \<times> symbol_index" where
  "replay_events c es st =
     foldl (\<lambda>(n, st) e. case apply_rustc_event_to_graph e c st of (b, st') \<Rightarrow> (if b then n + 1 else n, st')) (0, st) es"

definition replay_graph_from_tlog :: "RustcEvent list \<Rightarrow> CodeGraphProjection" where
  "replay_graph_from_tlog es = fst (snd (replay_events False es (empty_projection, \<lambda>_. None)))"

definition crate_step ::
    "string \<Rightarrow> bool \<times> CodeGraphProjection \<times> symbol_index \<Rightarrow> RustcEvent \<Rightarrow> bool \<times> CodeGraphProjection \<times> symbol_index" where
  "crate_step crate_name s e =
     (case s of (in_target, st) \<Rightarrow>
        (case e of
           RSessionStart x \<Rightarrow>
             if se_project x = crate_name then (True, empty_projection, \<lambda>_. None) else (False, st)
         | _ \<Rightarrow> if in_target then (True, snd (apply_rustc_event_to_graph e False st)) else (False, st)))"

definition replay_graph_for_crate :: "RustcEvent list \<Rightarrow> string \<Rightarrow> CodeGraphProjection" where
  "replay_graph_for_crate es crate_name =
     fst (snd (foldl (crate_step crate_name) (False, empty_projection, \<lambda>_. None) es))"

definition rebuild_symbol_index :: "CodeGraphNode list \<Rightarrow> symbol_index" where
  "rebuild_symbol_index nodes = foldl (\<lambda>m n. m(cn_symbol n \<mapsto> cn_id n)) (\<lambda>_. None) nodes"

section \<open>Well-formed graphs\<close>

text \<open>
  A node carries its position, the index finds exactly the named nodes, an edge joins named nodes,
  and the files are distinct. Numbers stay below \<open>2 ^ 32\<close>.
\<close>

definition index_ok :: "CodeGraphNode list \<Rightarrow> symbol_index \<Rightarrow> bool" where
  "index_ok ns m \<longleftrightarrow>
     (\<forall>i < length ns. cn_id (ns ! i) = i) \<and>
     (\<forall>s i. m s = Some i \<longleftrightarrow> s \<noteq> [] \<and> i < length ns \<and> cn_symbol (ns ! i) = s)"

definition edges_ok :: "CodeGraphEdge list \<Rightarrow> symbol_index \<Rightarrow> bool" where
  "edges_ok es m \<longleftrightarrow> (\<forall>e \<in> set es. cg_src e \<in> ran m \<and> cg_dst e \<in> ran m)"

definition node_ok :: "string list \<Rightarrow> CodeGraphNode \<Rightarrow> bool" where
  "node_ok files n \<longleftrightarrow> (\<forall>k. cn_file_id n = Some k \<longrightarrow> k < length files) \<and> cn_line n \<noteq> Some 0"

definition files_ok :: "string list \<Rightarrow> bool" where
  "files_ok files \<longleftrightarrow> distinct files \<and> [] \<notin> set files"

definition projection_ok :: "CodeGraphProjection \<times> symbol_index \<Rightarrow> bool" where
  "projection_ok st \<longleftrightarrow>
     (case st of (g, m) \<Rightarrow>
        index_ok (cg_nodes g) m \<and> edges_ok (cg_edges g) m \<and> files_ok (cg_files g) \<and>
        (\<forall>n \<in> set (cg_nodes g). node_ok (cg_files g) n))"

text \<open>The graph as its symbols describe it.\<close>

record SymbolGraph =
  sg_nodes :: "string \<Rightarrow> (string \<times> string option \<times> u32 option) option"
  sg_edges :: "(string \<times> string \<times> string) list"

definition describe :: "string list \<Rightarrow> CodeGraphNode \<Rightarrow> string \<times> string option \<times> u32 option" where
  "describe files n = (cn_kind n, map_option (\<lambda>k. files ! k) (cn_file_id n), cn_line n)"

definition edge_names :: "CodeGraphNode list \<Rightarrow> CodeGraphEdge \<Rightarrow> string \<times> string \<times> string" where
  "edge_names ns e = (cn_symbol (ns ! cg_src e), cn_symbol (ns ! cg_dst e), cg_kind e)"

definition symbols_of :: "CodeGraphProjection \<times> symbol_index \<Rightarrow> SymbolGraph" where
  "symbols_of st =
     (case st of (g, m) \<Rightarrow>
        \<lparr> sg_nodes = (\<lambda>s. map_option (\<lambda>i. describe (cg_files g) (cg_nodes g ! i)) (m s)),
          sg_edges = map (edge_names (cg_nodes g)) (cg_edges g) \<rparr>)"

definition sg_empty :: SymbolGraph where
  "sg_empty = \<lparr> sg_nodes = (\<lambda>_. None), sg_edges = [] \<rparr>"

definition sg_define :: "string \<Rightarrow> string \<Rightarrow> string \<Rightarrow> u32 \<Rightarrow> SymbolGraph \<Rightarrow> SymbolGraph" where
  "sg_define s kind f l a =
     (if kind = [] \<or> s = [] then a
      else
        let (f0, l0) = (case sg_nodes a s of None \<Rightarrow> (None, None) | Some (k0, f0, l0) \<Rightarrow> (f0, l0))
        in a\<lparr>sg_nodes := (sg_nodes a)(s \<mapsto> (kind, if f = [] then f0 else Some f, if l = 0 then l0 else Some l))\<rparr>)"

fun sg_step :: "bool \<Rightarrow> SymbolGraph \<Rightarrow> RustcEvent \<Rightarrow> SymbolGraph" where
  "sg_step c a (RSessionStart s) = (if c then sg_empty else a)"
| "sg_step c a (RNodeDefined n) = sg_define (nd_symbol n) (nd_kind n) (nd_file n) (nd_line n) a"
| "sg_step c a (RNodeUpdated n) = sg_define (nu_symbol n) (nu_kind n) (nu_file n) (nu_line n) a"
| "sg_step c a (REdgeDefined e) =
     (if sg_nodes a (ed_src e) = None \<or> sg_nodes a (ed_dst e) = None then a
      else a\<lparr>sg_edges := sg_edges a @ [(ed_src e, ed_dst e, ed_kind e)]\<rparr>)"
| "sg_step c a (RNodeRemoved n) =
     a\<lparr>sg_nodes := (sg_nodes a)(nr_symbol n := None),
       sg_edges := filter (\<lambda>(s, d, k). s \<noteq> nr_symbol n \<and> d \<noteq> nr_symbol n) (sg_edges a)\<rparr>"
| "sg_step c a (REdgeRemoved e) =
     a\<lparr>sg_edges := filter (\<lambda>x. x \<noteq> (er_src e, er_dst e, er_kind e)) (sg_edges a)\<rparr>"
| "sg_step c a e = a"

subsection \<open>Files\<close>

lemma position_Some: "position f xs = Some i \<Longrightarrow> i < length xs \<and> xs ! i = f"
  by (induction xs arbitrary: i) (auto split: if_splits)

lemma position_None: "position f xs = None \<Longrightarrow> f \<notin> set xs"
  by (induction xs) (auto split: if_splits)

lemma intern_file_ok:
  assumes "intern_file f files = (k, files')" and "files_ok files" and "length files < 2 ^ 32" and "f \<noteq> []"
  shows "k < length files' \<and> files' ! k = f \<and> files_ok files' \<and> length files' \<le> Suc (length files) \<and> (\<exists>x. files' = files @ x)"
proof (cases "position f files")
  case None
  with assms show ?thesis using position_None [OF None] by (auto simp: intern_file_def files_ok_def)
next
  case (Some i)
  with assms show ?thesis using position_Some [OF Some] by (auto simp: intern_file_def)
qed

lemma node_ok_append: "node_ok files n \<Longrightarrow> node_ok (files @ x) n"
  by (force simp: node_ok_def)

lemma describe_append: "node_ok files n \<Longrightarrow> describe (files @ x) n = describe files n"
  by (cases "cn_file_id n") (auto simp: describe_def node_ok_def nth_append)

lemma index_okD:
  assumes "index_ok ns m" and "m s = Some i"
  shows "s \<noteq> []" and "i < length ns" and "cn_symbol (ns ! i) = s"
  using assms by (auto simp: index_ok_def)

lemma index_okI:
  assumes "index_ok ns m" and "i < length ns" and "cn_symbol (ns ! i) \<noteq> []"
  shows "m (cn_symbol (ns ! i)) = Some i"
  using assms by (auto simp: index_ok_def)

lemma edges_okE:
  assumes "edges_ok es m" and "x \<in> set es"
  obtains a b where "m a = Some (cg_src x)" and "m b = Some (cg_dst x)"
  using assms by (auto simp: edges_ok_def ran_def)

lemma edge_names_append:
  assumes "index_ok ns m" and "edges_ok es m"
  shows "map (edge_names (ns @ x)) es = map (edge_names ns) es"
proof (rule map_cong [OF refl])
  fix e
  assume "e \<in> set es"
  with assms have "cg_src e < length ns" "cg_dst e < length ns"
    by (auto simp: edges_ok_def ran_def dest: index_okD)
  then show "edge_names (ns @ x) e = edge_names ns e" by (simp add: edge_names_def nth_append)
qed

subsection \<open>Defining a node\<close>

lemma sg_nodes_symbols_of: "sg_nodes (symbols_of (g, m)) s = map_option (\<lambda>i. describe (cg_files g) (cg_nodes g ! i)) (m s)"
  by (simp add: symbols_of_def)

lemma replace_node_ok:
  assumes ok: "projection_ok (g, m)" and i: "m sy = Some i"
    and n: "cn_id n = i" "cn_symbol n = sy" "node_ok files' n" and f: "files' = cg_files g @ x" "files_ok files'"
  shows "projection_ok (g\<lparr>cg_nodes := (cg_nodes g)[i := n], cg_files := files'\<rparr>, m)"
    and "symbols_of (g\<lparr>cg_nodes := (cg_nodes g)[i := n], cg_files := files'\<rparr>, m) =
      (symbols_of (g, m))\<lparr>sg_nodes := (sg_nodes (symbols_of (g, m)))(sy \<mapsto> describe files' n)\<rparr>"
proof -
  let ?ns = "cg_nodes g"
  have idx: "index_ok ?ns m" and all: "\<forall>n \<in> set ?ns. node_ok (cg_files g) n" and e: "edges_ok (cg_edges g) m"
    using ok by (simp_all add: projection_ok_def)
  note I = index_okD [OF idx i]
  have same: "cn_symbol (?ns[i := n] ! k) = cn_symbol (?ns ! k)" "cn_id (?ns[i := n] ! k) = cn_id (?ns ! k)" for k
    using I n idx by (cases "k = i"; simp add: index_ok_def)+
  have "index_ok (?ns[i := n]) m" using idx by (simp add: index_ok_def same)
  moreover have "\<forall>n \<in> set (?ns[i := n]). node_ok files' n"
    using all n(3) f(1) node_ok_append set_update_subset_insert [of ?ns i n] by blast
  ultimately show "projection_ok (g\<lparr>cg_nodes := ?ns[i := n], cg_files := files'\<rparr>, m)"
    using e f(2) by (simp add: projection_ok_def)
  have "map_option (\<lambda>k. describe files' (?ns[i := n] ! k)) (m s) =
      (if s = sy then Some (describe files' n) else map_option (\<lambda>k. describe (cg_files g) (?ns ! k)) (m s))" for s
  proof (cases "m s")
    case None
    with i show ?thesis by auto
  next
    case (Some k)
    have "k = i \<longleftrightarrow> s = sy" using index_okD(3) [OF idx Some] I(3) Some i by (metis option.inject)
    moreover have "node_ok (cg_files g) (?ns ! k)" using all index_okD(2) [OF idx Some] by simp
    ultimately show ?thesis using Some I by (auto simp: f(1) describe_append)
  qed
  moreover have "edge_names (?ns[i := n]) = edge_names ?ns"
    unfolding edge_names_def same ..
  ultimately show "symbols_of (g\<lparr>cg_nodes := ?ns[i := n], cg_files := files'\<rparr>, m) =
      (symbols_of (g, m))\<lparr>sg_nodes := (sg_nodes (symbols_of (g, m)))(sy \<mapsto> describe files' n)\<rparr>"
    by (simp add: symbols_of_def fun_upd_def del: map_eq_conv)
qed

lemma update_node_ok:
  assumes ok: "projection_ok (g, m)" and i: "m sy = Some i" and k: "kind \<noteq> []" and b: "length (cg_files g) < 2 ^ 32"
  shows "projection_ok (update_node i kind f l g, m)"
    and "symbols_of (update_node i kind f l g, m) = sg_define sy kind f l (symbols_of (g, m))"
    and "length (cg_nodes (update_node i kind f l g)) = length (cg_nodes g)"
    and "length (cg_files (update_node i kind f l g)) \<le> Suc (length (cg_files g))"
proof -
  let ?n = "cg_nodes g ! i"
  have idx: "index_ok (cg_nodes g) m" and fs: "files_ok (cg_files g)" using ok by (simp_all add: projection_ok_def)
  note I = index_okD [OF idx i]
  have n: "node_ok (cg_files g) ?n" "cn_id ?n = i" using ok I by (auto simp: projection_ok_def index_ok_def)
  obtain n files x where u: "update_node i kind f l g = g\<lparr>cg_nodes := (cg_nodes g)[i := n], cg_files := files\<rparr>"
    and p: "cn_id n = i" "cn_symbol n = sy" "node_ok files n" "files = cg_files g @ x" "files_ok files"
      "length files \<le> Suc (length (cg_files g))"
    and d: "describe files n = (kind, if f = [] then map_option (\<lambda>k. cg_files g ! k) (cn_file_id ?n) else Some f,
        if l = 0 then cn_line ?n else Some l)"
  proof (cases "f = []")
    case True
    let ?n' = "case positive_line l of None \<Rightarrow> ?n\<lparr>cn_kind := kind\<rparr> | Some y \<Rightarrow> ?n\<lparr>cn_kind := kind, cn_line := Some y\<rparr>"
    show ?thesis
    proof (rule that [where n = ?n' and files = "cg_files g" and x = "[]"])
      show "update_node i kind f l g = g\<lparr>cg_nodes := (cg_nodes g)[i := ?n'], cg_files := cg_files g\<rparr>"
        using True by (simp add: update_node_def Let_def split: option.split)
    qed (use True n I fs in \<open>auto simp: node_ok_def describe_def positive_line_def word_neq_0_conv [symmetric] split: option.splits\<close>)
  next
    case False
    obtain k files where q: "intern_file f (cg_files g) = (k, files)" by fastforce
    from intern_file_ok [OF q fs b False] obtain x where F: "k < length files" "files ! k = f" "files_ok files"
      "length files \<le> Suc (length (cg_files g))" "files = cg_files g @ x" by blast
    let ?n' = "case positive_line l of None \<Rightarrow> ?n\<lparr>cn_kind := kind, cn_file_id := Some k\<rparr>
        | Some y \<Rightarrow> ?n\<lparr>cn_kind := kind, cn_file_id := Some k, cn_line := Some y\<rparr>"
    show ?thesis
    proof (rule that [where n = ?n' and files = files and x = x])
      show "update_node i kind f l g = g\<lparr>cg_nodes := (cg_nodes g)[i := ?n'], cg_files := files\<rparr>"
        using False q by (simp add: update_node_def Let_def split: option.split)
    qed (use False n I F in \<open>auto simp: node_ok_def describe_def positive_line_def word_neq_0_conv [symmetric] split: option.splits\<close>)
  qed
  from replace_node_ok [OF ok i p(1-5)] u
  show "projection_ok (update_node i kind f l g, m)"
    and "symbols_of (update_node i kind f l g, m) = sg_define sy kind f l (symbols_of (g, m))"
    using k I(1) i d by (auto simp: sg_define_def sg_nodes_symbols_of describe_def)
  show "length (cg_nodes (update_node i kind f l g)) = length (cg_nodes g)"
    "length (cg_files (update_node i kind f l g)) \<le> Suc (length (cg_files g))" using u p(6) by simp_all
qed

lemma push_node_ok:
  assumes ok: "projection_ok (g, m)" and k: "kind \<noteq> []" and new: "m sy = None"
    and b: "length (cg_files g) < 2 ^ 32" "length (cg_nodes g) < 2 ^ 32" and st: "push_node sy kind f l (g, m) = (g', m')"
  shows "projection_ok (g', m')" and "symbols_of (g', m') = sg_define sy kind f l (symbols_of (g, m))"
    and "length (cg_nodes g') = Suc (length (cg_nodes g))" and "length (cg_files g') \<le> Suc (length (cg_files g))"
proof -
  let ?ns = "cg_nodes g" and ?i = "length (cg_nodes g)"
  have idx: "index_ok ?ns m" and fs: "files_ok (cg_files g)" and e: "edges_ok (cg_edges g) m"
    and all: "\<forall>n \<in> set ?ns. node_ok (cg_files g) n" using ok by (simp_all add: projection_ok_def)
  obtain n files x where g': "g' = g\<lparr>cg_nodes := ?ns @ [n], cg_files := files\<rparr>"
    and p: "cn_id n = ?i" "cn_symbol n = sy" "node_ok files n" "files = cg_files g @ x" "files_ok files"
      "length files \<le> Suc (length (cg_files g))"
    and d: "describe files n = (kind, if f = [] then None else Some f, if l = 0 then None else Some l)"
  proof (cases "f = []")
    case True
    show ?thesis
    proof (rule that [where x = "[]"])
      show "g' = g\<lparr>cg_nodes := ?ns @ [\<lparr> cn_id = ?i, cn_kind = kind, cn_symbol = sy, cn_file_id = None, cn_line = positive_line l \<rparr>],
          cg_files := cg_files g\<rparr>" using True st b by (auto simp: push_node_def Let_def)
    qed (use fs in \<open>auto simp: node_ok_def describe_def positive_line_def word_neq_0_conv [symmetric] True\<close>)
  next
    case False
    obtain k files where q: "intern_file f (cg_files g) = (k, files)" by fastforce
    from intern_file_ok [OF q fs b(1) False] obtain x where F: "k < length files" "files ! k = f" "files_ok files"
      "length files \<le> Suc (length (cg_files g))" "files = cg_files g @ x" by blast
    show ?thesis
    proof (rule that [where x = x])
      show "g' = g\<lparr>cg_nodes := ?ns @ [\<lparr> cn_id = ?i, cn_kind = kind, cn_symbol = sy, cn_file_id = Some k, cn_line = positive_line l \<rparr>],
          cg_files := files\<rparr>" using False st b q by (auto simp: push_node_def Let_def)
    qed (use F in \<open>auto simp: node_ok_def describe_def positive_line_def word_neq_0_conv [symmetric] False\<close>)
  qed
  have m': "m' = (if sy = [] then m else m(sy \<mapsto> ?i))"
    using st b by (auto simp: push_node_def Let_def split: prod.splits if_splits)
  have fresh: "m s = Some i \<Longrightarrow> s \<noteq> sy \<and> i < ?i" for s i using new index_okD [OF idx] by force
  have "\<forall>i < ?i. cn_symbol (?ns ! i) \<noteq> [] \<longrightarrow> cn_symbol (?ns ! i) \<noteq> sy"
    using new index_okI [OF idx] by (metis option.distinct(1))
  then have idx': "index_ok (?ns @ [n]) m'"
    using idx p(1,2) unfolding index_ok_def m' by (auto simp: nth_append less_Suc_eq)
  have "m s = Some i \<Longrightarrow> m' s = Some i" for s i using fresh by (auto simp: m')
  then have "ran m \<subseteq> ran m'" unfolding ran_def by blast
  then have e': "edges_ok (cg_edges g) m'" using e by (auto simp: edges_ok_def)
  show "projection_ok (g', m')"
    using idx' e' all p(3-5) node_ok_append by (auto simp: projection_ok_def g')
  have "map_option (\<lambda>i. describe files ((?ns @ [n]) ! i)) (m' s) =
      (if s = sy \<and> sy \<noteq> [] then Some (describe files n) else map_option (\<lambda>i. describe (cg_files g) (?ns ! i)) (m s))" for s
  proof (cases "m s")
    case None
    then show ?thesis by (simp add: m')
  next
    case (Some i)
    with fresh all have "i < ?i" "s \<noteq> sy" "node_ok (cg_files g) (?ns ! i)" by auto
    with Some p(4) show ?thesis by (simp add: m' nth_append describe_append)
  qed
  then show "symbols_of (g', m') = sg_define sy kind f l (symbols_of (g, m))"
    using k new d edge_names_append [OF idx e]
    by (simp add: sg_define_def sg_nodes_symbols_of) (auto simp: symbols_of_def g' fun_eq_iff)
  show "length (cg_nodes g') = Suc ?i" "length (cg_files g') \<le> Suc (length (cg_files g))" using g' p(6) by simp_all
qed

lemma define_node_ok:
  assumes ok: "projection_ok (g, m)" and b: "length (cg_files g) < 2 ^ 32" "length (cg_nodes g) < 2 ^ 32"
    and st: "define_node sy kind f l (g, m) = (r, g', m')"
  shows "projection_ok (g', m') \<and> symbols_of (g', m') = sg_define sy kind f l (symbols_of (g, m)) \<and>
    length (cg_nodes g') \<le> Suc (length (cg_nodes g)) \<and> length (cg_files g') \<le> Suc (length (cg_files g))"
proof -
  have idx: "index_ok (cg_nodes g) m" using ok by (simp add: projection_ok_def)
  then have none: "m [] = None" using index_okD(1) by (cases "m []") auto
  show ?thesis
  proof (cases "kind = [] \<or> sy = [] \<and> kind \<noteq> ''MODULE''")
    case True
    with st ok show ?thesis by (auto simp: define_node_def sg_define_def split: if_splits)
  next
    case False
    show ?thesis
    proof (cases "m sy")
      case None
      with False st have "push_node sy kind f l (g, m) = (g', m')"
        by (auto simp: define_node_def split: if_splits)
      from push_node_ok [OF ok _ None b this] False show ?thesis by auto
    next
      case (Some i)
      with index_okD [OF idx Some] False st have "g' = update_node i kind f l g" "m' = m"
        by (auto simp: define_node_def)
      with update_node_ok [OF ok Some _ b(1)] False show ?thesis by auto
    qed
  qed
qed

subsection \<open>Deleting a node\<close>

lemma length_swap_remove [simp]: "length (swap_remove i xs) = length xs - 1"
  by (simp add: swap_remove_def)

lemma nth_swap_remove:
  "k < length xs - 1 \<Longrightarrow> swap_remove i xs ! k = (if k = i then xs ! (length xs - 1) else xs ! k)"
  by (cases "xs = []") (auto simp: swap_remove_def nth_butlast last_conv_nth)

text \<open>What a deletion does, in one description for the last node and for the others.\<close>

lemma delete_node_effect:
  assumes idx: "index_ok (cg_nodes g) m" and i: "m sy = Some i" and b: "length (cg_nodes g) \<le> 2 ^ 32"
    and st: "delete_node i (g, m) = (r, g', m')"
  defines "L \<equiv> length (cg_nodes g) - 1"
  shows "r" and "length (cg_nodes g') = L" and "cg_files g' = cg_files g"
    and "k < L \<Longrightarrow> cg_nodes g' ! k = (cg_nodes g ! (if k = i then L else k))\<lparr>cn_id := k\<rparr>"
    and "m' = (\<lambda>s. if s = sy then None else map_option (rename_id L i) (m s))"
    and "cg_edges g' = map (rename_edge L i) (filter (\<lambda>e. cg_src e \<noteq> i \<and> cg_dst e \<noteq> i) (cg_edges g))"
proof -
  let ?ns = "cg_nodes g"
  note I = index_okD [OF idx i]
  have ids: "k < length ?ns \<Longrightarrow> (?ns ! k)\<lparr>cn_id := k\<rparr> = ?ns ! k" for k using idx by (simp add: index_ok_def)
  have uniq: "m s = Some k \<Longrightarrow> m t = Some k \<Longrightarrow> s = t" for s t k using index_okD(3) [OF idx] by metis
  have nodes: "length (cg_nodes g') = L \<and> (k < L \<longrightarrow> cg_nodes g' ! k = (?ns ! (if k = i then L else k))\<lparr>cn_id := k\<rparr>)" for k
    using st I ids [of k] by (auto simp: delete_node_def Let_def L_def nth_swap_remove nth_list_update split: if_splits)
  then show "length (cg_nodes g') = L"
    and "k < L \<Longrightarrow> cg_nodes g' ! k = (?ns ! (if k = i then L else k))\<lparr>cn_id := k\<rparr>" by blast+
  show "r" "cg_files g' = cg_files g" using st I by (auto simp: delete_node_def Let_def split: if_splits)
  have "as_u32 L = L" using b I by (simp add: L_def)
  then show "cg_edges g' = map (rename_edge L i) (filter (\<lambda>e. cg_src e \<noteq> i \<and> cg_dst e \<noteq> i) (cg_edges g))"
    using st I by (auto simp: delete_node_def Let_def L_def rename_edge_def rename_id_def intro!: map_idI [symmetric] split: if_splits)
  have L: "L < length ?ns" using I by (simp add: L_def)
  show "m' = (\<lambda>s. if s = sy then None else map_option (rename_id L i) (m s))"
  proof (cases "i = L")
    case True
    then have "m' = m(sy := None)" using st I by (simp add: delete_node_def Let_def L_def)
    moreover have "map_option (rename_id L i) x = x" for x using True by (cases x) (auto simp: rename_id_def)
    ultimately show ?thesis by (simp add: fun_eq_iff)
  next
    case False
    let ?t = "cn_symbol (?ns ! L)"
    have "i < length ?ns - 1" using I(2) False by (simp add: L_def)
    then have m': "m' = (if ?t = [] then m(sy := None) else (m(sy := None))(?t \<mapsto> i))"
      using st I False by (auto simp: delete_node_def Let_def L_def nth_swap_remove)
    have t: "m s = Some L \<longleftrightarrow> ?t \<noteq> [] \<and> s = ?t" for s using idx L by (auto simp: index_ok_def)
    have "?t \<noteq> sy" using t [of sy] i False I by auto
    moreover have "map_option (rename_id L i) (m s) = (if ?t \<noteq> [] \<and> s = ?t then Some i else m s)" for s
      using t [of s] by (cases "m s") (auto simp: rename_id_def)
    ultimately show ?thesis by (auto simp: m' fun_upd_def)
  qed
qed

lemma delete_node_ok:
  assumes ok: "projection_ok (g, m)" and i: "m sy = Some i" and b: "length (cg_nodes g) \<le> 2 ^ 32"
    and st: "delete_node i (g, m) = (r, g', m')"
  shows "projection_ok (g', m')"
    and "symbols_of (g', m') =
      (symbols_of (g, m))\<lparr>sg_nodes := (sg_nodes (symbols_of (g, m)))(sy := None),
        sg_edges := filter (\<lambda>(s, d, k). s \<noteq> sy \<and> d \<noteq> sy) (sg_edges (symbols_of (g, m)))\<rparr>"
    and "length (cg_nodes g') \<le> length (cg_nodes g)" and "cg_files g' = cg_files g"
proof -
  let ?ns = "cg_nodes g" and ?es = "filter (\<lambda>e. cg_src e \<noteq> i \<and> cg_dst e \<noteq> i) (cg_edges g)"
  define L where "L = length ?ns - 1"
  have idx: "index_ok ?ns m" and e: "edges_ok (cg_edges g) m" and all: "\<forall>n \<in> set ?ns. node_ok (cg_files g) n"
    using ok by (simp_all add: projection_ok_def)
  note I = index_okD [OF idx i]
  note D = delete_node_effect [OF idx i b st, folded L_def]
  have old: "j < length ?ns \<and> rename_id L i j < L \<and> cg_nodes g' ! rename_id L i j = (?ns ! j)\<lparr>cn_id := rename_id L i j\<rparr>"
    if "m s = Some j" "s \<noteq> sy" for s j
  proof -
    have "j \<noteq> i" "j < length ?ns" using that i index_okD(2,3) [OF idx] I(3) by (blast, metis)+
    then show ?thesis using D(4) [of "rename_id L i j"] I(2) by (auto simp: rename_id_def L_def)
  qed
  have orig: "\<exists>j. m (cn_symbol (cg_nodes g' ! k)) = Some j \<and> rename_id L i j = k \<and> cn_symbol (cg_nodes g' ! k) \<noteq> sy"
    if "k < L" "cn_symbol (cg_nodes g' ! k) \<noteq> []" for k
  proof -
    let ?j = "if k = i then L else k"
    have "?j < length ?ns" "?j \<noteq> i" using that(1) I(2) by (auto simp: L_def)
    moreover have "cn_symbol (cg_nodes g' ! k) = cn_symbol (?ns ! ?j)" using D(4) [OF that(1)] by simp
    ultimately show ?thesis
      using index_okI [OF idx, of ?j] that i by (intro exI [of _ ?j]) (auto simp: rename_id_def)
  qed
  have "m' s = Some k \<longleftrightarrow> s \<noteq> [] \<and> k < L \<and> cn_symbol (cg_nodes g' ! k) = s" for s k
  proof
    assume "m' s = Some k"
    then obtain j where "m s = Some j" "s \<noteq> sy" "k = rename_id L i j" by (auto simp: D(5) split: if_splits)
    with old [OF this(1,2)] index_okD [OF idx this(1)] show "s \<noteq> [] \<and> k < L \<and> cn_symbol (cg_nodes g' ! k) = s" by simp
  next
    assume "s \<noteq> [] \<and> k < L \<and> cn_symbol (cg_nodes g' ! k) = s"
    with orig [of k] show "m' s = Some k" by (auto simp: D(5))
  qed
  then have "index_ok (cg_nodes g') m'" using D(2,4) by (simp add: index_ok_def)
  moreover have names: "\<exists>s. m s = Some (cg_src x) \<and> s \<noteq> sy" "\<exists>s. m s = Some (cg_dst x) \<and> s \<noteq> sy" if "x \<in> set ?es" for x
    using that e i by (auto elim!: edges_okE)
  have "edges_ok (cg_edges g') m'"
    unfolding edges_ok_def D(5,6) ran_def using names by (fastforce simp: rename_edge_def)
  moreover have "node_ok (cg_files g') n" if "n \<in> set (cg_nodes g')" for n
  proof -
    obtain k where "k < L" "n = cg_nodes g' ! k" using \<open>n \<in> set (cg_nodes g')\<close> D(2) by (metis in_set_conv_nth)
    moreover from this have "?ns ! (if k = i then L else k) \<in> set ?ns" using I(2) by (auto simp: L_def)
    ultimately show ?thesis using D(3,4) all by (auto simp: node_ok_def)
  qed
  ultimately show "projection_ok (g', m')" using ok D(3) by (simp add: projection_ok_def)
  have "map_option (\<lambda>k. describe (cg_files g') (cg_nodes g' ! k)) (m' s) =
      (if s = sy then None else map_option (\<lambda>k. describe (cg_files g) (?ns ! k)) (m s))" for s
    using old [of s] D(3) unfolding D(5) by (cases "m s") (auto simp: describe_def)
  moreover have "map (edge_names (cg_nodes g')) (cg_edges g') =
      filter (\<lambda>(s, d, k). s \<noteq> sy \<and> d \<noteq> sy) (map (edge_names ?ns) (cg_edges g))"
  proof -
    have "filter (\<lambda>(s, d, k). s \<noteq> sy \<and> d \<noteq> sy) (map (edge_names ?ns) (cg_edges g)) = map (edge_names ?ns) ?es"
      unfolding filter_map
    proof (intro arg_cong [of _ _ "map (edge_names ?ns)"] filter_cong refl)
      fix x
      assume "x \<in> set (cg_edges g)"
      with e obtain s t where "m s = Some (cg_src x)" "m t = Some (cg_dst x)" by (rule edges_okE)
      with index_okD(3) [OF idx] i I(3) show "((\<lambda>(s, d, k). s \<noteq> sy \<and> d \<noteq> sy) \<circ> edge_names ?ns) x \<longleftrightarrow> cg_src x \<noteq> i \<and> cg_dst x \<noteq> i"
        by (simp add: edge_names_def) (metis option.inject)
    qed
    moreover have "edge_names (cg_nodes g') (rename_edge L i x) = edge_names ?ns x" if "x \<in> set ?es" for x
      using names [OF that] old by (auto simp: edge_names_def rename_edge_def)
    ultimately show ?thesis unfolding D(6) by simp
  qed
  ultimately show "symbols_of (g', m') = (symbols_of (g, m))\<lparr>sg_nodes := (sg_nodes (symbols_of (g, m)))(sy := None),
        sg_edges := filter (\<lambda>(s, d, k). s \<noteq> sy \<and> d \<noteq> sy) (sg_edges (symbols_of (g, m)))\<rparr>"
    by (simp add: symbols_of_def fun_upd_def)
  show "length (cg_nodes g') \<le> length ?ns" "cg_files g' = cg_files g" using D(2,3) by (simp_all add: L_def)
qed

subsection \<open>Every event\<close>

lemma edge_removed_ok:
  assumes ok: "projection_ok (g, m)" and s: "m s = Some i" and d: "m t = Some j"
    and g': "g' = g\<lparr>cg_edges := filter (\<lambda>x. \<not> (cg_src x = i \<and> cg_dst x = j \<and> cg_kind x = k)) (cg_edges g)\<rparr>"
  shows "projection_ok (g', m) \<and>
    symbols_of (g', m) = (symbols_of (g, m))\<lparr>sg_edges := filter (\<lambda>x. x \<noteq> (s, t, k)) (sg_edges (symbols_of (g, m)))\<rparr>"
proof -
  let ?ns = "cg_nodes g"
  have idx: "index_ok ?ns m" and e: "edges_ok (cg_edges g) m" using ok by (simp_all add: projection_ok_def)
  have "filter (\<lambda>x. x \<noteq> (s, t, k)) (map (edge_names ?ns) (cg_edges g)) =
      map (edge_names ?ns) (filter (\<lambda>x. \<not> (cg_src x = i \<and> cg_dst x = j \<and> cg_kind x = k)) (cg_edges g))"
    unfolding filter_map
  proof (intro arg_cong [of _ _ "map (edge_names ?ns)"] filter_cong refl)
    fix x
    assume "x \<in> set (cg_edges g)"
    with e obtain a b where "m a = Some (cg_src x)" "m b = Some (cg_dst x)" by (rule edges_okE)
    with index_okD(3) [OF idx] s d
    show "((\<lambda>x. x \<noteq> (s, t, k)) \<circ> edge_names ?ns) x \<longleftrightarrow> \<not> (cg_src x = i \<and> cg_dst x = j \<and> cg_kind x = k)"
      by (auto simp: edge_names_def)
  qed
  moreover have "projection_ok (g', m)" using ok g' by (auto simp: projection_ok_def edges_ok_def)
  ultimately show ?thesis using g' by (simp add: symbols_of_def)
qed

lemma edge_absent:
  assumes "projection_ok (g, m)" and "m s = None \<or> m t = None"
  shows "filter (\<lambda>x. x \<noteq> (s, t, k)) (sg_edges (symbols_of (g, m))) = sg_edges (symbols_of (g, m))"
proof -
  have idx: "index_ok (cg_nodes g) m" and e: "edges_ok (cg_edges g) m" using assms(1) by (simp_all add: projection_ok_def)
  have "edge_names (cg_nodes g) x \<noteq> (s, t, k)" if "x \<in> set (cg_edges g)" for x
  proof -
    from e that obtain a b where "m a = Some (cg_src x)" "m b = Some (cg_dst x)" by (rule edges_okE)
    with index_okD(3) [OF idx] assms(2) show ?thesis by (auto simp: edge_names_def)
  qed
  then show ?thesis by (auto simp: symbols_of_def filter_id_conv)
qed

lemma node_absent:
  assumes "projection_ok (g, m)" and "m s = None"
  shows "(symbols_of (g, m))\<lparr>sg_nodes := (sg_nodes (symbols_of (g, m)))(s := None),
     sg_edges := filter (\<lambda>(a, b, k). a \<noteq> s \<and> b \<noteq> s) (sg_edges (symbols_of (g, m)))\<rparr> = symbols_of (g, m)"
proof -
  have idx: "index_ok (cg_nodes g) m" and e: "edges_ok (cg_edges g) m" using assms(1) by (simp_all add: projection_ok_def)
  have "cn_symbol (cg_nodes g ! cg_src x) \<noteq> s \<and> cn_symbol (cg_nodes g ! cg_dst x) \<noteq> s" if "x \<in> set (cg_edges g)" for x
  proof -
    from e that obtain a b where "m a = Some (cg_src x)" "m b = Some (cg_dst x)" by (rule edges_okE)
    with index_okD(3) [OF idx] assms(2) show ?thesis by auto
  qed
  then show ?thesis using assms(2) by (auto simp: symbols_of_def filter_id_conv edge_names_def fun_eq_iff)
qed

lemma edge_defined_ok:
  assumes ok: "projection_ok (g, m)" and "m s = Some i" and "m t = Some j"
  shows "projection_ok (g\<lparr>cg_edges := cg_edges g @ [\<lparr> cg_src = i, cg_dst = j, cg_kind = k \<rparr>]\<rparr>, m) \<and>
    symbols_of (g\<lparr>cg_edges := cg_edges g @ [\<lparr> cg_src = i, cg_dst = j, cg_kind = k \<rparr>]\<rparr>, m) =
      (symbols_of (g, m))\<lparr>sg_edges := sg_edges (symbols_of (g, m)) @ [(s, t, k)]\<rparr>"
proof -
  have idx: "index_ok (cg_nodes g) m" using ok by (simp add: projection_ok_def)
  have "edge_names (cg_nodes g) \<lparr> cg_src = i, cg_dst = j, cg_kind = k \<rparr> = (s, t, k)"
    using index_okD(3) [OF idx assms(2)] index_okD(3) [OF idx assms(3)] by (simp add: edge_names_def)
  with assms show ?thesis by (auto simp: projection_ok_def edges_ok_def symbols_of_def ran_def)
qed

lemma file_seen_ok:
  assumes ok: "projection_ok (g, m)" and "p \<noteq> []" and "p \<notin> set (cg_files g)"
  shows "projection_ok (g\<lparr>cg_files := cg_files g @ [p]\<rparr>, m) \<and> symbols_of (g\<lparr>cg_files := cg_files g @ [p]\<rparr>, m) = symbols_of (g, m)"
proof -
  have idx: "index_ok (cg_nodes g) m" and n: "\<forall>n \<in> set (cg_nodes g). node_ok (cg_files g) n"
    using ok by (simp_all add: projection_ok_def)
  have "map_option (\<lambda>i. describe (cg_files g @ [p]) (cg_nodes g ! i)) (m s) =
      map_option (\<lambda>i. describe (cg_files g) (cg_nodes g ! i)) (m s)" for s
    using index_okD(2) [OF idx] n by (cases "m s") (auto simp: describe_append)
  with assms show ?thesis using node_ok_append by (auto simp: projection_ok_def files_ok_def symbols_of_def)
qed

lemma apply_event_ok:
  assumes ok: "projection_ok (g, m)" and b: "length (cg_files g) < 2 ^ 32" "length (cg_nodes g) < 2 ^ 32"
    and st: "apply_rustc_event_to_graph e c (g, m) = (r, g', m')"
  shows "projection_ok (g', m') \<and> symbols_of (g', m') = sg_step c (symbols_of (g, m)) e \<and>
    length (cg_nodes g') \<le> Suc (length (cg_nodes g)) \<and> length (cg_files g') \<le> Suc (length (cg_files g))"
proof (cases e)
  case (RSessionStart s)
  with st ok show ?thesis
    by (auto simp: empty_projection_def projection_ok_def index_ok_def edges_ok_def files_ok_def symbols_of_def sg_empty_def
      split: if_splits)
next
  case (RNodeDefined n)
  with st define_node_ok [OF ok b] show ?thesis by simp
next
  case (RNodeUpdated n)
  with st define_node_ok [OF ok b] show ?thesis by simp
next
  case (REdgeDefined x)
  with st ok edge_defined_ok [OF ok, of "ed_src x" _ "ed_dst x"] show ?thesis
    by (auto simp: sg_nodes_symbols_of split: option.splits)
next
  case (RNodeRemoved n)
  show ?thesis
  proof (cases "m (nr_symbol n)")
    case None
    with RNodeRemoved st ok node_absent [OF ok None] show ?thesis by simp
  next
    case (Some i)
    with RNodeRemoved st have d: "delete_node i (g, m) = (r, g', m')" by simp
    from b have "length (cg_nodes g) \<le> 2 ^ 32" by simp
    from delete_node_ok [OF ok Some this d] RNodeRemoved show ?thesis by simp
  qed
next
  case (REdgeRemoved x)
  show ?thesis
  proof (cases "m (er_src x) = None \<or> m (er_dst x) = None")
    case True
    with REdgeRemoved st have "g' = g" "m' = m" by (auto split: option.splits)
    with REdgeRemoved ok edge_absent [OF ok True] show ?thesis by simp
  next
    case False
    then obtain i j where "m (er_src x) = Some i" "m (er_dst x) = Some j" by auto
    with REdgeRemoved st edge_removed_ok [OF ok this] show ?thesis by (auto simp: Let_def)
  qed
next
  case (RFileSeen f)
  with st ok file_seen_ok [OF ok] show ?thesis by (auto split: if_splits)
qed (use st ok in auto)

section \<open>The replayed graph\<close>

lemma projection_ok_empty: "projection_ok (empty_projection, \<lambda>_. None)"
  by (simp add: empty_projection_def projection_ok_def index_ok_def edges_ok_def files_ok_def)

lemma symbols_of_empty: "symbols_of (empty_projection, \<lambda>_. None) = sg_empty"
  by (simp add: empty_projection_def symbols_of_def sg_empty_def)

lemma replay_events_snoc:
  "replay_events c (es @ [e]) st =
     (case replay_events c es st of (n, st') \<Rightarrow>
        case apply_rustc_event_to_graph e c st' of (b, st'') \<Rightarrow> (if b then n + 1 else n, st''))"
  by (simp add: replay_events_def split: prod.split)

lemma replay_events_ok:
  assumes "length es < 2 ^ 32"
  shows "\<exists>n g m. replay_events c es (empty_projection, \<lambda>_. None) = (n, g, m) \<and> projection_ok (g, m) \<and>
    symbols_of (g, m) = foldl (sg_step c) sg_empty es \<and> n \<le> length es \<and>
    length (cg_nodes g) \<le> length es \<and> length (cg_files g) \<le> length es"
  using assms
proof (induction es rule: rev_induct)
  case Nil
  show ?case by (simp add: replay_events_def projection_ok_empty symbols_of_empty) (simp add: empty_projection_def)
next
  case (snoc e es)
  then obtain n g m where I: "replay_events c es (empty_projection, \<lambda>_. None) = (n, g, m)" "projection_ok (g, m)"
    "symbols_of (g, m) = foldl (sg_step c) sg_empty es" "n \<le> length es"
    "length (cg_nodes g) \<le> length es" "length (cg_files g) \<le> length es" by auto
  obtain r g' m' where a: "apply_rustc_event_to_graph e c (g, m) = (r, g', m')" by (metis prod.exhaust)
  from apply_event_ok [OF I(2) _ _ a] I(3,5,6) snoc.prems
  have "projection_ok (g', m') \<and> symbols_of (g', m') = sg_step c (foldl (sg_step c) sg_empty es) e \<and>
    length (cg_nodes g') \<le> Suc (length es) \<and> length (cg_files g') \<le> Suc (length es)" by simp
  with I a show ?case by (auto simp: replay_events_snoc)
qed

text \<open>C4: Replaying a log of fewer than \<open>2 ^ 32\<close> compiler events, with or without clearing at the start
  of a session, gives a well-formed graph - every node carries its position, the symbol index
  finds exactly the named nodes, every edge joins existing named nodes, file numbers are in range -
  and read through its symbols it is the graph that a plain map from symbols to their last
  definition and a list of named edges would give: the renumbering when a node is deleted never
  redirects an edge or loses a node.\<close>

theorem replay_refines_symbol_graph:
  assumes "length es < 2 ^ 32"
  shows "case replay_events c es (empty_projection, \<lambda>_. None) of (n, st) \<Rightarrow>
    projection_ok st \<and> symbols_of st = foldl (sg_step c) sg_empty es \<and> n \<le> length es"
  using replay_events_ok [OF assms, of c] by auto

definition sample_node :: "string \<Rightarrow> RustcEvent" where
  "sample_node s = RNodeDefined \<lparr> nd_symbol = s, nd_kind = ''FN'', nd_file = ''a.rs'', nd_line = 3, nd_col = 0, nd_lo = 0, nd_hi = 0 \<rparr>"

definition sample_log :: "RustcEvent list" where
  "sample_log = [sample_node ''f'', sample_node ''g'', sample_node ''h'',
     REdgeDefined \<lparr> ed_src = ''g'', ed_dst = ''h'', ed_kind = ''CALL'', ed_defined = True \<rparr>,
     RNodeRemoved \<lparr> nr_symbol = ''f'', nr_removed = True \<rparr>]"

theorem replay_refines_symbol_graph_witness:
  "length sample_log < 2 ^ 32 \<and>
   cg_edges (replay_graph_from_tlog sample_log) = [\<lparr> cg_src = 1, cg_dst = 0, cg_kind = ''CALL'' \<rparr>] \<and>
   (case replay_events False sample_log (empty_projection, \<lambda>_. None) of (n, st) \<Rightarrow>
      projection_ok st \<and> symbols_of st = foldl (sg_step False) sg_empty sample_log \<and> n \<le> 5)"
proof (intro conjI)
  show b: "length sample_log < 2 ^ 32" by (simp add: sample_log_def)
  show "cg_edges (replay_graph_from_tlog sample_log) = [\<lparr> cg_src = 1, cg_dst = 0, cg_kind = ''CALL'' \<rparr>]"
    by (simp add: sample_log_def sample_node_def replay_graph_from_tlog_def replay_events_def define_node_def push_node_def
      delete_node_def swap_remove_def rename_edge_def rename_id_def intern_file_def empty_projection_def as_u32_def)
  from replay_refines_symbol_graph [OF b, of False]
  show "case replay_events False sample_log (empty_projection, \<lambda>_. None) of (n, st) \<Rightarrow>
      projection_ok st \<and> symbols_of st = foldl (sg_step False) sg_empty sample_log \<and> n \<le> 5"
    by (auto simp: sample_log_def)
qed

section \<open>One crate of a shared log\<close>

fun is_session_start :: "RustcEvent \<Rightarrow> bool" where
  "is_session_start (RSessionStart s) = True"
| "is_session_start e = False"

definition starts_crate :: "string \<Rightarrow> RustcEvent \<Rightarrow> bool" where
  "starts_crate name e \<longleftrightarrow> (\<exists>s. e = RSessionStart s \<and> se_project s = name)"

lemma crate_step_other: "\<not> is_session_start e \<Longrightarrow>
    crate_step name (b, st) e = (b, if b then snd (apply_rustc_event_to_graph e False st) else st)"
  by (cases e) (auto simp: crate_step_def)

lemma crate_session:
  assumes "\<forall>e \<in> set es. \<not> is_session_start e"
  shows "foldl (crate_step name) (True, st) es = (True, snd (replay_events False es st))"
  using assms
proof (induction es rule: rev_induct)
  case Nil
  show ?case by (simp add: replay_events_def)
next
  case (snoc e es)
  then show ?case by (auto simp: crate_step_other replay_events_snoc split: prod.split)
qed

lemma crate_ignored:
  assumes "\<forall>e \<in> set es. \<not> starts_crate name e" and "\<not> b \<or> es = [] \<or> is_session_start (hd es)"
  shows "snd (foldl (crate_step name) (b, st) es) = st"
  using assms
proof (induction es arbitrary: b)
  case (Cons e es)
  show ?case
  proof (cases "is_session_start e")
    case True
    then obtain s where "e = RSessionStart s" by (cases e) auto
    with Cons show ?thesis by (simp add: crate_step_def starts_crate_def)
  next
    case False
    with Cons show ?thesis by (simp add: crate_step_other)
  qed
qed simp

text \<open>The graph of one crate is the graph of its last session alone: whatever the log holds
  before the last session of the crate, and whatever sessions of other crates follow it, the
  result is the replay of exactly the events between the start of that session and the next
  start, from the empty graph.\<close>

theorem crate_graph_is_its_last_session:
  assumes "es = before @ RSessionStart s # body @ after" and "se_project s = name"
    and "\<forall>e \<in> set body. \<not> is_session_start e" and "after = [] \<or> is_session_start (hd after)"
    and "\<forall>e \<in> set after. \<not> starts_crate name e"
  shows "replay_graph_for_crate es name = replay_graph_from_tlog body"
proof -
  obtain b st where "foldl (crate_step name) (False, empty_projection, \<lambda>_. None) before = (b, st)" by (cases "foldl (crate_step name) (False, empty_projection, \<lambda>_. None) before")
  then have "foldl (crate_step name) (False, empty_projection, \<lambda>_. None) es =
      foldl (crate_step name) (True, snd (replay_events False body (empty_projection, \<lambda>_. None))) after"
    using assms(1,2) crate_session [OF assms(3)] by (simp add: crate_step_def)
  with crate_ignored [OF assms(5), of True] assms(4) show ?thesis
    by (simp add: replay_graph_for_crate_def replay_graph_from_tlog_def)
qed

definition sample_start :: "string \<Rightarrow> RustcEvent" where
  "sample_start p = RSessionStart \<lparr> se_project = p, se_schema = 1, se_byte_offset = 0 \<rparr>"

theorem crate_graph_is_its_last_session_witness:
  "map cn_symbol (cg_nodes (replay_graph_for_crate
     [sample_start ''a'', sample_node ''x'', sample_start ''a'', sample_node ''f'', sample_start ''b'', sample_node ''g''] ''a'')) = [''f'']"
proof -
  have "replay_graph_for_crate
     [sample_start ''a'', sample_node ''x'', sample_start ''a'', sample_node ''f'', sample_start ''b'', sample_node ''g''] ''a'' =
     replay_graph_from_tlog [sample_node ''f'']"
    by (rule crate_graph_is_its_last_session [where before = "[sample_start ''a'', sample_node ''x'']" and
        s = "\<lparr> se_project = ''a'', se_schema = 1, se_byte_offset = 0 \<rparr>" and after = "[sample_start ''b'', sample_node ''g'']"])
      (simp_all add: sample_start_def sample_node_def starts_crate_def)
  then show ?thesis
    by (simp add: sample_node_def replay_graph_from_tlog_def replay_events_def define_node_def push_node_def
      intern_file_def empty_projection_def)
qed

section \<open>Snapshots\<close>

record CodeSnapshotNode =
  sn_kind :: string
  sn_symbol :: string
  sn_file :: string
  sn_line :: u32
  sn_column :: u32

record CodeSnapshotEdge =
  sx_src_symbol :: string
  sx_src_kind :: string
  sx_dst_symbol :: string
  sx_dst_kind :: string
  sx_kind :: string

record CodeSnapshot =
  cs_nodes :: "CodeSnapshotNode list"
  cs_edges :: "CodeSnapshotEdge list"
  cs_files :: "string list"

definition snapshot_node :: "string list \<Rightarrow> CodeGraphNode \<Rightarrow> CodeSnapshotNode" where
  "snapshot_node files n =
     \<lparr> sn_kind = cn_kind n, sn_symbol = cn_symbol n,
       sn_file = (case cn_file_id n of None \<Rightarrow> [] | Some k \<Rightarrow> if k < length files then files ! k else []),
       sn_line = or_else (cn_line n) 0, sn_column = 0 \<rparr>"

definition id_to_kind :: "CodeGraphNode list \<Rightarrow> nat \<Rightarrow> (string \<times> string) option" where
  "id_to_kind nodes = foldl (\<lambda>m n. m(cn_id n \<mapsto> (cn_symbol n, cn_kind n))) (\<lambda>_. None) nodes"

definition snapshot_edge :: "(nat \<Rightarrow> (string \<times> string) option) \<Rightarrow> CodeGraphEdge \<Rightarrow> CodeSnapshotEdge" where
  "snapshot_edge ids e =
     (let (ss, sk) = or_else (ids (cg_src e)) ([], ''UNKNOWN''); (ds, dk) = or_else (ids (cg_dst e)) ([], ''UNKNOWN'')
      in \<lparr> sx_src_symbol = ss, sx_src_kind = sk, sx_dst_symbol = ds, sx_dst_kind = dk, sx_kind = cg_kind e \<rparr>)"

definition take_snapshot :: "CodeGraphProjection \<Rightarrow> CodeSnapshot" where
  "take_snapshot g =
     \<lparr> cs_nodes = map (snapshot_node (cg_files g)) (cg_nodes g),
       cs_edges = map (snapshot_edge (id_to_kind (cg_nodes g))) (cg_edges g),
       cs_files = cg_files g \<rparr>"

definition estimate_snapshot_size :: "CodeSnapshot \<Rightarrow> u64" where
  "estimate_snapshot_size s =
     (let add = foldl (\<lambda>t n. saturating_add t (of_nat n));
          t = foldl (\<lambda>t n. add t [length (sn_kind n), length (sn_symbol n), length (sn_file n), 64]) 0 (cs_nodes s);
          t = foldl (\<lambda>t e. add t [length (sx_src_symbol e), length (sx_src_kind e), length (sx_dst_symbol e),
                length (sx_dst_kind e), length (sx_kind e), 64]) t (cs_edges s)
      in foldl (\<lambda>t f. add t [length f, 16]) t (cs_files s))"

text \<open>What is written: nothing when the estimate exceeds the range of the format.\<close>

definition save_graph_snapshot :: "CodeGraphProjection \<Rightarrow> CodeSnapshot option" where
  "save_graph_snapshot g =
     (let s = take_snapshot g in if estimate_snapshot_size s > 2147483647 then None else Some s)"

definition file_map :: "string list \<Rightarrow> string \<Rightarrow> nat option" where
  "file_map files = foldl (\<lambda>m (i, p). m(p \<mapsto> as_u32 i)) (\<lambda>_. None) (enumerate 0 files)"

type_synonym key_index = "string \<times> string \<Rightarrow> nat option"

fun load_nodes ::
    "CodeSnapshotNode list \<Rightarrow> string list \<times> (string \<Rightarrow> nat option) \<times> CodeGraphNode list \<times> key_index \<Rightarrow>
     string list \<times> (string \<Rightarrow> nat option) \<times> CodeGraphNode list \<times> key_index" where
  "load_nodes [] s = s"
| "load_nodes (n # ns) (files, fm, nodes, keys) =
     (let (file_id, files, fm) =
            (if sn_file n = [] then (None, files, fm)
             else
               (case fm (sn_file n) of
                  Some k \<Rightarrow> (Some k, files, fm)
                | None \<Rightarrow>
                    let k = as_u32 (length files) in (Some k, files @ [sn_file n], fm(sn_file n \<mapsto> k))));
          i = as_u32 (length nodes);
          node = \<lparr> cn_id = i, cn_kind = sn_kind n, cn_symbol = sn_symbol n, cn_file_id = file_id, cn_line = positive_line (sn_line n) \<rparr>
      in load_nodes ns (files, fm, nodes @ [node], keys((sn_symbol n, sn_kind n) \<mapsto> i)))"

definition load_edge :: "key_index \<Rightarrow> CodeSnapshotEdge \<Rightarrow> CodeGraphEdge option" where
  "load_edge keys e =
     (case (keys (sx_src_symbol e, sx_src_kind e), keys (sx_dst_symbol e, sx_dst_kind e)) of
        (Some s, Some d) \<Rightarrow> Some \<lparr> cg_src = s, cg_dst = d, cg_kind = sx_kind e \<rparr>
      | _ \<Rightarrow> None)"

definition snapshot_into_rows :: "CodeSnapshot \<Rightarrow> CodeGraphProjection" where
  "snapshot_into_rows s =
     (case load_nodes (cs_nodes s) (cs_files s, file_map (cs_files s), [], \<lambda>_. None) of
        (files, fm, nodes, keys) \<Rightarrow>
          \<lparr> cg_nodes = nodes, cg_edges = List.map_filter (load_edge keys) (cs_edges s), cg_files = files \<rparr>)"

lemma file_map_snoc: "file_map (xs @ [x]) = (file_map xs)(x \<mapsto> as_u32 (length xs))"
  by (simp add: file_map_def enumerate_append_eq)

lemma file_map_nth:
  assumes "distinct files" and "length files \<le> 2 ^ 32" and "k < length files"
  shows "file_map files (files ! k) = Some k"
  using assms
proof (induction files rule: rev_induct)
  case (snoc x xs)
  then show ?case by (cases "k = length xs") (auto simp: file_map_snoc nth_append)
qed simp

lemma foldl_key_nth:
  assumes "\<forall>i < length ns. cn_id (ns ! i) = i" and "k < length ns"
    and "\<And>j. j < length ns \<Longrightarrow> f (ns ! j) = f (ns ! k) \<Longrightarrow> j = k"
  shows "foldl (\<lambda>m n. m(f n \<mapsto> cn_id n)) m0 ns (f (ns ! k)) = Some k"
  using assms
proof (induction ns rule: rev_induct)
  case (snoc n ns)
  show ?case
  proof (cases "k = length ns")
    case True
    with snoc.prems(1) show ?thesis by (auto simp: nth_append)
  next
    case False
    have "foldl (\<lambda>m n. m(f n \<mapsto> cn_id n)) m0 ns (f (ns ! k)) = Some k"
    proof (rule snoc.IH)
      show "\<forall>i < length ns. cn_id (ns ! i) = i" using snoc.prems(1) by (auto simp: nth_append less_Suc_eq)
      show "k < length ns" using snoc.prems(2) False by simp
      show "j = k" if "j < length ns" "f (ns ! j) = f (ns ! k)" for j
        using snoc.prems(3) [of j] that \<open>k < length ns\<close> by (simp add: nth_append)
    qed
    moreover have "f n \<noteq> f (ns ! k)"
      using snoc.prems(3) [of "length ns"] False snoc.prems(2) by (auto simp: nth_append)
    ultimately show ?thesis using False snoc.prems(2) by (simp add: nth_append del: fun_upd_apply) simp
  qed
qed simp

lemma load_nodes_ok:
  assumes "files_ok files" and "length files \<le> 2 ^ 32" and "length ns1 + length ns2 \<le> 2 ^ 32"
    and "\<forall>n \<in> set ns2. node_ok files n" and "\<forall>i < length ns2. cn_id (ns2 ! i) = length ns1 + i"
  shows "load_nodes (map (snapshot_node files) ns2) (files, file_map files, ns1, keys) =
    (files, file_map files, ns1 @ ns2, foldl (\<lambda>m n. m((cn_symbol n, cn_kind n) \<mapsto> cn_id n)) keys ns2)"
  using assms(3-)
proof (induction ns2 arbitrary: ns1 keys)
  case (Cons n ns2)
  have id: "cn_id n = length ns1" "length ns1 < 2 ^ 32" using Cons.prems(1,3) by auto
  have n: "node_ok files n" using Cons.prems(2) by simp
  have "positive_line (or_else (cn_line n) 0) = cn_line n"
    using n by (cases "cn_line n") (auto simp: positive_line_def node_ok_def word_neq_0_conv)
  moreover have "file_map files (files ! k) = Some k \<and> files ! k \<noteq> [] \<and> k < length files" if "cn_file_id n = Some k" for k
    using that n file_map_nth assms(1,2) by (auto simp: node_ok_def files_ok_def) (metis nth_mem)
  ultimately have "load_nodes (map (snapshot_node files) (n # ns2)) (files, file_map files, ns1, keys) =
      load_nodes (map (snapshot_node files) ns2) (files, file_map files, ns1 @ [n], keys((cn_symbol n, cn_kind n) \<mapsto> cn_id n))"
    using id by (cases "cn_file_id n"; cases n) (simp_all add: snapshot_node_def Let_def)
  moreover have "\<forall>i < length ns2. cn_id (ns2 ! i) = length (ns1 @ [n]) + i" using Cons.prems(3) by auto
  ultimately show ?case
    using Cons.IH [of "ns1 @ [n]" "keys((cn_symbol n, cn_kind n) \<mapsto> cn_id n)"] Cons.prems(1,2)
    by (simp del: fun_upd_apply load_nodes.simps)
qed simp

lemma id_to_kind_nth:
  assumes "\<forall>i < length ns. cn_id (ns ! i) = i" and "k < length ns"
  shows "id_to_kind ns k = Some (cn_symbol (ns ! k), cn_kind (ns ! k))"
  using assms
proof (induction ns rule: rev_induct)
  case (snoc n ns)
  have "\<forall>i < length ns. cn_id (ns ! i) = i" "cn_id n = length ns" using snoc.prems(1) by (auto simp: nth_append less_Suc_eq)
  with snoc show ?case by (auto simp: id_to_kind_def nth_append)
qed simp

lemma rebuild_symbol_index_nth:
  assumes "index_ok ns m" and "s \<noteq> []"
  shows "rebuild_symbol_index ns s = m s"
proof (cases "m s")
  case (Some i)
  have "foldl (\<lambda>m n. m(cn_symbol n \<mapsto> cn_id n)) (\<lambda>_. None) ns (cn_symbol (ns ! i)) = Some i"
  proof (rule foldl_key_nth)
    show "\<forall>i < length ns. cn_id (ns ! i) = i" using assms(1) by (simp add: index_ok_def)
    show "j = i" if "j < length ns" "cn_symbol (ns ! j) = cn_symbol (ns ! i)" for j
      using index_okI [OF assms(1), of j] that index_okD [OF assms(1) Some] Some by simp
  qed (rule index_okD(2) [OF assms(1) Some])
  with Some index_okD(3) [OF assms(1) Some] show ?thesis by (simp add: rebuild_symbol_index_def)
next
  case None
  have "s \<notin> cn_symbol ` set ns"
  proof
    assume "s \<in> cn_symbol ` set ns"
    then obtain i where "i < length ns" "s = cn_symbol (ns ! i)" by (metis imageE in_set_conv_nth)
    with index_okI [OF assms(1)] assms(2) None show False by auto
  qed
  then have "foldl (\<lambda>m n. m(cn_symbol n \<mapsto> cn_id n)) m0 ns s = m0 s" for m0
    by (induction ns arbitrary: m0) auto
  with None show ?thesis by (simp add: rebuild_symbol_index_def)
qed

lemma snapshot_edge_ok:
  assumes ok: "projection_ok (g, m)" and e: "e \<in> set (cg_edges g)"
  shows "load_edge (foldl (\<lambda>m n. m((cn_symbol n, cn_kind n) \<mapsto> cn_id n)) (\<lambda>_. None) (cg_nodes g))
    (snapshot_edge (id_to_kind (cg_nodes g)) e) = Some e"
proof -
  let ?ns = "cg_nodes g" and ?key = "\<lambda>n. (cn_symbol n, cn_kind n)"
  let ?keys = "foldl (\<lambda>m n. m(?key n \<mapsto> cn_id n)) (\<lambda>_. None) ?ns"
  have idx: "index_ok ?ns m" and eo: "edges_ok (cg_edges g) m" using ok by (simp_all add: projection_ok_def)
  then have ids: "\<forall>i < length ?ns. cn_id (?ns ! i) = i" by (simp add: index_ok_def)
  have key: "?keys (?key (?ns ! i)) = Some i \<and> id_to_kind ?ns i = Some (?key (?ns ! i))" if "m s = Some i" for s i
  proof
    note I = index_okD [OF idx that]
    show "id_to_kind ?ns i = Some (?key (?ns ! i))" by (rule id_to_kind_nth [OF ids I(2)])
    show "?keys (?key (?ns ! i)) = Some i"
    proof (rule foldl_key_nth [OF ids I(2)])
      show "j = i" if "j < length ?ns" "?key (?ns ! j) = ?key (?ns ! i)" for j
        using index_okI [OF idx, of j] that I \<open>m s = Some i\<close> by simp
    qed
  qed
  from eo e obtain a b where "m a = Some (cg_src e)" "m b = Some (cg_dst e)" by (rule edges_okE)
  with key show ?thesis by (simp add: load_edge_def snapshot_edge_def)
qed

text \<open>C36: A snapshot restores the graph: for every replayed graph with fewer than \<open>2 ^ 32\<close> nodes and
  files, turning it into snapshot rows - where files and edge ends are spelled out by name - and
  reading these back gives the same nodes, edges and files with the same numbers, and the
  rebuilt symbol index agrees with the one of the replay on every symbol.\<close>

theorem snapshot_restores_the_graph:
  assumes "projection_ok (g, m)" and "length (cg_nodes g) \<le> 2 ^ 32" and "length (cg_files g) \<le> 2 ^ 32"
  shows "snapshot_into_rows (take_snapshot g) = g \<and> (\<forall>s. s \<noteq> [] \<longrightarrow> rebuild_symbol_index (cg_nodes g) s = m s)"
proof
  have idx: "index_ok (cg_nodes g) m" and f: "files_ok (cg_files g)" and n: "\<forall>n \<in> set (cg_nodes g). node_ok (cg_files g) n"
    using assms(1) by (simp_all add: projection_ok_def)
  let ?keys = "foldl (\<lambda>m n. m((cn_symbol n, cn_kind n) \<mapsto> cn_id n)) (\<lambda>_. None) (cg_nodes g)"
  have "load_nodes (map (snapshot_node (cg_files g)) (cg_nodes g)) (cg_files g, file_map (cg_files g), [], \<lambda>_. None) =
      (cg_files g, file_map (cg_files g), cg_nodes g, ?keys)"
    using load_nodes_ok [OF f assms(3) _ n, of "[]"] assms(2) idx by (simp add: index_ok_def)
  moreover have "List.map_filter (load_edge ?keys) (map (snapshot_edge (id_to_kind (cg_nodes g))) es) = es"
    if "set es \<subseteq> set (cg_edges g)" for es
    using that snapshot_edge_ok [OF assms(1)] by (induction es) (simp_all add: map_filter_simps)
  ultimately show "snapshot_into_rows (take_snapshot g) = g" by (simp add: snapshot_into_rows_def take_snapshot_def)
  show "\<forall>s. s \<noteq> [] \<longrightarrow> rebuild_symbol_index (cg_nodes g) s = m s" using rebuild_symbol_index_nth [OF idx] by simp
qed

theorem snapshot_restores_the_graph_witness:
  "let g = replay_graph_from_tlog sample_log
   in length (cg_nodes g) = 2 \<and> snapshot_into_rows (take_snapshot g) = g"
proof -
  obtain n g m where r: "replay_events False sample_log (empty_projection, \<lambda>_. None) = (n, g, m)" "projection_ok (g, m)"
    "length (cg_nodes g) \<le> length sample_log" "length (cg_files g) \<le> length sample_log"
    using replay_events_ok [of sample_log False] by (auto simp: sample_log_def)
  then have "snapshot_into_rows (take_snapshot g) = g"
    using snapshot_restores_the_graph [OF r(2)] by (simp add: sample_log_def)
  moreover have "length (cg_nodes (replay_graph_from_tlog sample_log)) = 2"
    by (simp add: sample_log_def sample_node_def replay_graph_from_tlog_def replay_events_def define_node_def push_node_def
      delete_node_def swap_remove_def intern_file_def empty_projection_def as_u32_def)
  ultimately show ?thesis using r(1) by (simp add: replay_graph_from_tlog_def)
qed

text \<open>The rebuilt index also lists an anonymous module under the empty symbol, which the replay
  never does: after a restart an event for the empty symbol removes the module.\<close>

lemma rebuilt_index_lists_anonymous_module:
  "rebuild_symbol_index (cg_nodes (fst (snd (define_node [] ''MODULE'' [] 0 (empty_projection, \<lambda>_. None))))) [] = Some 0 \<and>
   snd (snd (define_node [] ''MODULE'' [] 0 (empty_projection, \<lambda>_. None))) [] = None"
  by (simp add: define_node_def push_node_def empty_projection_def rebuild_symbol_index_def)

end
