(* ===== verification/Path_Model.thy ===== *)
theory Path_Model
  imports Canon_Prelude "HOL-Library.Char_ord" "HOL-Library.List_Lexorder"
begin

text \<open>
  Paths of the standard library as the planning code uses them: \<^verbatim>\<open>Path\<close> values are compared,
  ordered and searched for a prefix by their components, not by their text, so \<^verbatim>\<open>a//b\<close>,
  \<^verbatim>\<open>a/./b\<close> and \<^verbatim>\<open>a/b/\<close> are one path. Only Unix paths are modelled: they have no prefix
  component. Components are ordered as the variants of \<^verbatim>\<open>std::path::Component\<close> are, and ordinary
  names by their bytes.
\<close>

datatype path_component = RootDir | CurDir | ParentDir | Normal string

fun component_rank :: "path_component \<Rightarrow> nat \<times> string" where
  "component_rank RootDir = (0, [])"
| "component_rank CurDir = (1, [])"
| "component_rank ParentDir = (2, [])"
| "component_rank (Normal s) = (3, s)"

lemma component_rank_inj [simp]: "component_rank a = component_rank b \<longleftrightarrow> a = b"
  by (cases a; cases b) auto

instantiation path_component :: linorder
begin

definition less_eq_path_component :: "path_component \<Rightarrow> path_component \<Rightarrow> bool" where
  "a \<le> b \<longleftrightarrow> fst (component_rank a) < fst (component_rank b) \<or>
     (fst (component_rank a) = fst (component_rank b) \<and> snd (component_rank a) \<le> snd (component_rank b))"

definition less_path_component :: "path_component \<Rightarrow> path_component \<Rightarrow> bool" where
  "a < b \<longleftrightarrow> a \<le> b \<and> \<not> b \<le> (a :: path_component)"

instance
proof
  fix a b c :: path_component
  show "a < b \<longleftrightarrow> a \<le> b \<and> \<not> b \<le> a" by (rule less_path_component_def)
  show "a \<le> a" by (simp add: less_eq_path_component_def)
  show "a \<le> b \<Longrightarrow> b \<le> c \<Longrightarrow> a \<le> c" by (auto simp: less_eq_path_component_def)
  show "a \<le> b \<Longrightarrow> b \<le> a \<Longrightarrow> a = b"
    by (auto simp: less_eq_path_component_def prod_eq_iff simp flip: component_rank_inj)
  show "a \<le> b \<or> b \<le> a" by (auto simp: less_eq_path_component_def)
qed

end

definition component_of :: "string \<Rightarrow> path_component option" where
  "component_of part =
     (if part = [] \<or> part = ''.'' then None
      else if part = ''..'' then Some ParentDir
      else Some (Normal part))"

definition components :: "path \<Rightarrow> path_component list" where
  "components p =
     (let parts = split_char (CHR ''/'') p
      in (if is_absolute p then [RootDir] else if hd parts = ''.'' then [CurDir] else []) @
         List.map_filter component_of parts)"

definition path_eq :: "path \<Rightarrow> path \<Rightarrow> bool" where
  "path_eq p q \<longleftrightarrow> components p = components q"

definition path_starts_with :: "path \<Rightarrow> path \<Rightarrow> bool" where
  "path_starts_with p base \<longleftrightarrow> prefix (components base) (components p)"

definition file_name :: "path \<Rightarrow> string option" where
  "file_name p =
     (case rev (components p) of Normal n # _ \<Rightarrow> Some n | _ \<Rightarrow> None)"

text \<open>The part after the last dot of the file name, unless that dot starts the name.\<close>

definition extension :: "path \<Rightarrow> string option" where
  "extension p =
     (case file_name p of
        None \<Rightarrow> None
      | Some n \<Rightarrow>
          let ext = rev (takeWhile (\<lambda>c. c \<noteq> CHR ''.'') (rev n))
          in if length ext + 1 < length n then Some ext else None)"

text \<open>\<^verbatim>\<open>sort\<close> and \<^verbatim>\<open>dedup\<close> of a vector of paths.\<close>

fun dedup_paths :: "path list \<Rightarrow> path list" where
  "dedup_paths (p # q # ps) =
     (if path_eq p q then dedup_paths (p # ps) else p # dedup_paths (q # ps))"
| "dedup_paths ps = ps"

definition sort_dedup_paths :: "path list \<Rightarrow> path list" where
  "sort_dedup_paths ps = dedup_paths (sort_key components ps)"

text \<open>The relative name in a directory, or the absolute name as it is.\<close>

definition under_root :: "path \<Rightarrow> path \<Rightarrow> path" where
  "under_root dir p = (if is_absolute p then p else path_join dir p)"

lemma path_eq_refl [simp]: "path_eq p p"
  by (simp add: path_eq_def)

lemma dedup_paths_head [simp]: "p \<in> set (dedup_paths (p # ps))"
  by (induction "p # ps" arbitrary: ps rule: dedup_paths.induct) auto

lemma dedup_paths_represents:
  "q \<in> set ps \<Longrightarrow> \<exists>p \<in> set (dedup_paths ps). path_eq p q"
proof (induction ps rule: dedup_paths.induct)
  case (1 p r ps)
  show ?case
  proof (cases "q = r \<and> path_eq p r")
    case True
    then show ?thesis by (auto intro!: bexI [of _ p])
  qed (use 1 in auto)
qed auto

lemma dedup_paths_subset: "set (dedup_paths ps) \<subseteq> set ps"
  by (induction ps rule: dedup_paths.induct) auto

lemma sort_dedup_paths_iff:
  "(\<exists>p \<in> set (sort_dedup_paths ps). path_eq p q) \<longleftrightarrow> (\<exists>p \<in> set ps. path_eq p q)"
proof
  assume "\<exists>p \<in> set (sort_dedup_paths ps). path_eq p q"
  then show "\<exists>p \<in> set ps. path_eq p q"
    using dedup_paths_subset [of "sort_key components ps"] by (auto simp: sort_dedup_paths_def)
next
  assume "\<exists>p \<in> set ps. path_eq p q"
  then obtain p where p: "p \<in> set ps" "path_eq p q" by blast
  then have "\<exists>r \<in> set (dedup_paths (sort_key components ps)). path_eq r p"
    by (intro dedup_paths_represents) simp
  then show "\<exists>p \<in> set (sort_dedup_paths ps). path_eq p q"
    using p by (auto simp: sort_dedup_paths_def path_eq_def)
qed

lemma sort_dedup_paths_eq_Nil [simp]: "sort_dedup_paths ps = [] \<longleftrightarrow> ps = []"
proof -
  have "dedup_paths qs = [] \<longleftrightarrow> qs = []" for qs
    by (induction qs rule: dedup_paths.induct) auto
  moreover have "sort_key components ps = [] \<longleftrightarrow> ps = []"
    by (metis length_0_conv length_sort)
  ultimately show ?thesis by (simp add: sort_dedup_paths_def)
qed

section \<open>Joined paths\<close>

lemma split_char_ne [simp]: "split_char d s \<noteq> []"
  by (induction s) (auto split: list.splits)

lemma split_char_sep: "split_char d (xs @ d # ys) = split_char d xs @ split_char d ys"
  by (induction xs) (auto split: list.splits)

lemma map_filter_append: "List.map_filter f (xs @ ys) = List.map_filter f xs @ List.map_filter f ys"
  by (simp add: List.map_filter_def)

lemma components_sep:
  assumes "base \<noteq> []"
  shows "components (base @ CHR ''/'' # p) = components base @ List.map_filter component_of (split_char (CHR ''/'') p)"
proof -
  have "is_absolute (base @ CHR ''/'' # p) = is_absolute base"
    using assms by (cases base) (simp_all add: is_absolute_def)
  then show ?thesis by (simp add: components_def Let_def split_char_sep map_filter_append hd_append)
qed

lemma components_trailing_sep:
  "components (base @ ''/'') = (if base = [] then [RootDir] else components base)"
  using components_sep [of base "[]"]
  by (auto simp: List.map_filter_simps component_of_def components_def is_absolute_def)

lemma components_join:
  assumes "\<not> is_absolute p"
  shows "components (path_join base p) =
    (if base = [] then components p
     else components base @ List.map_filter component_of (split_char (CHR ''/'') p))"
proof (cases "base = [] \<or> last base \<noteq> CHR ''/''")
  case True
  then show ?thesis using assms by (auto simp: path_join_def components_sep)
next
  case False
  then obtain b where b: "base = b @ ''/''" by (metis append_butlast_last_id)
  show ?thesis
  proof (cases "b = []")
    case True
    then show ?thesis using assms b
      by (simp add: path_join_def components_def is_absolute_def Let_def List.map_filter_simps component_of_def)
  next
    case False
    then show ?thesis using assms b components_sep [of b p] components_trailing_sep [of b]
      by (simp add: path_join_def)
  qed
qed

definition confined :: "path \<Rightarrow> path \<Rightarrow> bool" where
  "confined dir p \<longleftrightarrow>
     path_starts_with p dir \<and> ParentDir \<notin> set (drop (length (components dir)) (components p))"

lemma relative_path_confined:
  assumes "\<not> is_absolute p" and "ParentDir \<notin> set (components p)"
  shows "confined dir (under_root dir p)"
proof -
  have "set (List.map_filter component_of (split_char (CHR ''/'') p)) \<subseteq> set (components p)"
    by (auto simp: components_def Let_def)
  moreover have "components [] = []" by (simp add: components_def is_absolute_def List.map_filter_simps component_of_def)
  ultimately show ?thesis using assms
    by (auto simp: confined_def under_root_def path_starts_with_def components_join)
qed

end
