(* ===== verification/Compiler_Hints.thy ===== *)
theory Compiler_Hints
  imports Semantic_State Path_Model
begin

text \<open>
  The classification of compiler messages of \<^verbatim>\<open>canon-utils/canon-loop/src/compiler_hints.rs\<close>: the texts
  taken from the error values, the files and symbols cited in a text, the scope and class of a
  failure and the hints for the planner.

  Strings are byte sequences, as in Rust. Slicing a string at a byte that continues a character
  panics, so the functions that truncate_text a message return an option, \<^const>\<open>None\<close> being the panic.
\<close>

section \<open>Texts and what they cite\<close>

definition nonempty_trimmed :: "string option \<Rightarrow> string list" where
  "nonempty_trimmed m = (case m of None \<Rightarrow> [] | Some s \<Rightarrow> if trim s = [] then [] else [trim s])"

definition error_text :: "json \<Rightarrow> string list" where
  "error_text v =
     (case json_as_str v of
        Some s \<Rightarrow> nonempty_trimmed (Some s)
      | None \<Rightarrow>
          nonempty_trimmed (Option.bind (json_get v ''message'') (\<lambda>m. json_get_str m ''message'')) @
          nonempty_trimmed (json_get_str v ''message''))"

definition extract_error_texts :: "json list \<Rightarrow> string list" where
  "extract_error_texts errors = concat (map error_text errors)"

definition extract_backticked_after :: "string \<Rightarrow> string \<Rightarrow> string option" where
  "extract_backticked_after msg marker =
     Option.bind (str_find marker msg) (\<lambda>i.
       let rest = drop (i + length marker) msg
       in Option.bind (str_find ''`'' rest) (\<lambda>e.
            let v = trim (take e rest) in if v = [] then None else Some v))"

definition extract_missing_module_name :: "string \<Rightarrow> string option" where
  "extract_missing_module_name msg = extract_backticked_after msg ''file not found for module `''"

definition option_or :: "'a option \<Rightarrow> 'a option \<Rightarrow> 'a option" where
  "option_or a b = (case a of Some x \<Rightarrow> Some x | None \<Rightarrow> b)"

definition extract_unresolved_import_symbol :: "string \<Rightarrow> string option" where
  "extract_unresolved_import_symbol msg =
     option_or (extract_backticked_after msg ''unresolved import `'') (extract_backticked_after msg ''no `'')"

definition extract_missing_symbol :: "string \<Rightarrow> string option" where
  "extract_missing_symbol msg =
     option_or (extract_backticked_after msg ''cannot find function `'')
       (option_or (extract_backticked_after msg ''cannot find type `'')
         (option_or (extract_backticked_after msg ''cannot find value `'')
           (extract_backticked_after msg ''cannot find struct, variant or union type `'')))"

definition extract_duplicate_definition_symbol :: "string \<Rightarrow> string option" where
  "extract_duplicate_definition_symbol msg =
     option_or (extract_backticked_after msg ''the name `'') (extract_backticked_after msg ''duplicate definitions with name `'')"

definition extract_trait_bound_summary :: "string \<Rightarrow> string option" where
  "extract_trait_bound_summary msg = extract_backticked_after msg ''the trait bound `''"

definition target_of_line :: "string \<Rightarrow> string list" where
  "target_of_line line =
     (case strip_prefix ''--> '' (trim line) of
        None \<Rightarrow> []
      | Some rest \<Rightarrow> let p = trim (hd (split_char (CHR '':'') rest)) in if p = [] then [] else [p])"

definition extract_target_files :: "string \<Rightarrow> string list" where
  "extract_target_files msg = remdups_adj (sort (concat (map target_of_line (str_lines msg))))"

section \<open>Scope and class\<close>

definition names_target :: "string \<Rightarrow> bool" where
  "names_target target \<longleftrightarrow> trim target \<noteq> [] \<and> target \<noteq> ''none''"

definition classify_failure_scope :: "string \<Rightarrow> string list \<Rightarrow> FailureScopeKind" where
  "classify_failure_scope msg target_files =
     (if str_contains msg ''rustc capture failed'' then FS_Tooling
      else if list_ex names_target target_files then FS_Localized
      else if str_contains msg ''.cargo/config.toml'' \<or> str_contains msg ''Cargo.toml'' \<or>
              str_contains msg ''workspace'' \<or> str_contains msg ''forbid'' \<or>
              str_contains msg ''target path does not exist'' \<or>
              str_contains msg ''failed to load manifest'' \<or> str_contains msg ''manifest path'' \<or>
              str_contains msg ''cannot be run on existing Cargo packages'' \<or>
              str_contains msg ''use `cargo new`'' \<or> str_contains msg ''No such file or directory''
      then FS_Workspace
      else FS_Tooling)"

definition dead_code_conflict_text :: "string \<Rightarrow> bool" where
  "dead_code_conflict_text msg \<longleftrightarrow> str_contains msg ''allow(dead_code) incompatible with previous forbid''"

definition missing_main_text :: "string \<Rightarrow> bool" where
  "missing_main_text msg \<longleftrightarrow>
     str_contains msg ''main function not found'' \<or> str_contains msg ''`main` function not found''"

definition classify_failure_class :: "string \<Rightarrow> FailureClassKind" where
  "classify_failure_class msg =
     (if extract_missing_module_name msg \<noteq> None then FC_MissingModule
      else if dead_code_conflict_text msg then FC_DeadCodeForbidConflict
      else if missing_main_text msg then FC_MissingEntrypoint
      else if extract_unresolved_import_symbol msg \<noteq> None then FC_UnresolvedImport
      else if extract_missing_symbol msg \<noteq> None then FC_MissingSymbol
      else if extract_duplicate_definition_symbol msg \<noteq> None then FC_DuplicateDefinition
      else if extract_trait_bound_summary msg \<noteq> None then FC_TraitBoundFailure
      else FC_GenericCompilerFailure)"

definition classify_failure_metadata :: "string \<Rightarrow> FailureClassKind \<times> FailureScopeKind" where
  "classify_failure_metadata msg =
     (classify_failure_class msg, classify_failure_scope msg (extract_target_files msg))"

section \<open>Hints\<close>

definition is_char_boundary :: "nat \<Rightarrow> string \<Rightarrow> bool" where
  "is_char_boundary i s \<longleftrightarrow>
     i = 0 \<or> i = length s \<or>
     (i < length s \<and> \<not> (0x80 \<le> (of_char (s ! i) :: nat) \<and> (of_char (s ! i) :: nat) < 0xC0))"

definition truncate_text :: "string \<Rightarrow> nat \<Rightarrow> string option" where
  "truncate_text msg max_len =
     (if max_len < length msg
      then if is_char_boundary max_len msg then Some (take max_len msg @ ''...'') else None
      else Some msg)"

definition manifest_failure_text :: "string \<Rightarrow> bool" where
  "manifest_failure_text msg \<longleftrightarrow>
     str_contains msg ''target path does not exist'' \<or> str_contains msg ''could not find `Cargo.toml`'' \<or>
     str_contains msg ''failed to load manifest'' \<or> str_contains msg ''manifest path''"

text \<open>One turn of the loop: the hint pushed for a text, if any.\<close>

definition hint_of_text :: "string \<Rightarrow> CompilerHintRecord option option" where
  "hint_of_text msg =
     (let targets = extract_target_files msg; scope = classify_failure_scope msg targets
      in case extract_missing_module_name msg of
           Some m \<Rightarrow> Some (Some (with_failure_scope scope (new_hint HK_MissingModule
             (''compiler reports missing module `'' @ m @ ''`'')
             (''use semantic module creation to add `'' @ m @ ''` before cargo check'') targets)))
         | None \<Rightarrow>
         if dead_code_conflict_text msg then
           Some (Some (with_failure_scope FS_Workspace (new_hint HK_DeadCodeForbidConflict
             ''compiler forbids dead_code while source adds allow(dead_code)''
             ''remove allow(dead_code) or make the code used; do not suppress this lint'' targets)))
         else if missing_main_text msg then
           Some (Some (with_failure_scope scope (new_hint HK_MissingEntrypoint
             ''compiler reports missing main entrypoint''
             ''create src/main.rs with a valid main function or convert the crate to a library'' targets)))
         else case extract_unresolved_import_symbol msg of
           Some x \<Rightarrow> Some (Some (with_failure_scope scope (new_hint HK_UnresolvedImport
             (''compiler reports unresolved import `'' @ x @ ''`'')
             ''use semantic import repair to add or correct the import before cargo check'' targets)))
         | None \<Rightarrow>
         case extract_missing_symbol msg of
           Some x \<Rightarrow> Some (Some (with_failure_scope scope (new_hint HK_MissingSymbol
             (''compiler cannot find `'' @ x @ ''` in scope'')
             ''use semantic symbol definition or import repair before cargo check'' targets)))
         | None \<Rightarrow>
         case extract_duplicate_definition_symbol msg of
           Some x \<Rightarrow> Some (Some (with_failure_scope scope (new_hint HK_DuplicateDefinition
             (''compiler reports duplicate definition for `'' @ x @ ''`'')
             ''use semantic rename to resolve the duplicate definition before cargo check'' targets)))
         | None \<Rightarrow>
         case extract_trait_bound_summary msg of
           Some x \<Rightarrow> Some (Some (with_failure_scope scope (new_hint HK_TraitBoundFailure
             (''compiler reports unsatisfied trait bound `'' @ x @ ''`'')
             ''edit the local type, impl, or call site to satisfy the required trait bound'' targets)))
         | None \<Rightarrow>
         if manifest_failure_text msg then
           map_option (\<lambda>summary. Some (with_failure_scope FS_Workspace (new_hint HK_GenericCompilerFailure summary
             ''repair or refresh the workspace/bootstrap state before cargo check'' targets))) (truncate_text msg 140)
         else if str_contains msg ''error[E'' \<or> str_contains msg ''could not compile'' then
           map_option (\<lambda>summary. Some (with_failure_scope scope (new_hint HK_GenericCompilerFailure summary
             ''address the cited compiler error directly before adding more edits'' targets))) (truncate_text msg 140)
         else Some None)"

definition same_hint :: "CompilerHintRecord \<Rightarrow> CompilerHintRecord \<Rightarrow> bool" where
  "same_hint a b \<longleftrightarrow>
     hint_kind a = hint_kind b \<and> hint_summary a = hint_summary b \<and> hint_target_files a = hint_target_files b"

definition push_hint :: "CompilerHintRecord \<Rightarrow> CompilerHintRecord list \<Rightarrow> CompilerHintRecord list" where
  "push_hint h out = (if list_ex (\<lambda>existing. same_hint existing h) out then out else out @ [h])"

definition dedup_hints :: "CompilerHintRecord list \<Rightarrow> CompilerHintRecord list" where
  "dedup_hints hints = fold push_hint hints []"

definition extract_compiler_hints :: "json list \<Rightarrow> CompilerHintRecord list option" where
  "extract_compiler_hints errors =
     map_option (\<lambda>found. dedup_hints (List.map_filter id found))
       (those (map hint_of_text (extract_error_texts errors)))"

section \<open>Properties\<close>

definition needs_truncation :: "string \<Rightarrow> bool" where
  "needs_truncation msg \<longleftrightarrow>
     classify_failure_class msg = FC_GenericCompilerFailure \<and>
     (manifest_failure_text msg \<or> str_contains msg ''error[E'' \<or> str_contains msg ''could not compile'')"

lemma new_hint_fields [simp]:
  "hint_kind (with_failure_scope f (new_hint k s r ts)) = hint_kind_as_str k"
  "hint_summary (with_failure_scope f (new_hint k s r ts)) = s"
  "hint_target_files (with_failure_scope f (new_hint k s r ts)) = ts"
  "hint_failure_scope (with_failure_scope f (new_hint k s r ts)) = failure_scope_as_str f"
  by (simp_all add: with_failure_scope_def new_hint_def)

lemma hint_of_text_class:
  assumes "hint_of_text msg = Some (Some h)"
  shows "hint_kind h = failure_class_as_str (classify_failure_class msg) \<and>
         hint_target_files h = extract_target_files msg"
  using assms
  by (auto simp: hint_of_text_def classify_failure_class_def Let_def split: option.splits if_splits)

lemma hint_of_text_panics:
  "hint_of_text msg = None \<longleftrightarrow> needs_truncation msg \<and> truncate_text msg 140 = None"
  by (cases "extract_missing_module_name msg"; cases "extract_unresolved_import_symbol msg";
      cases "extract_missing_symbol msg"; cases "extract_duplicate_definition_symbol msg";
      cases "extract_trait_bound_summary msg")
     (simp_all add: hint_of_text_def needs_truncation_def classify_failure_class_def Let_def)

lemma hint_of_text_found:
  assumes "hint_of_text msg = Some r" and "classify_failure_class msg \<noteq> FC_GenericCompilerFailure"
  shows "\<exists>h. r = Some h"
  using assms
  by (auto simp: hint_of_text_def classify_failure_class_def Let_def split: option.splits if_splits)

lemma set_push_hint: "set out \<subseteq> set (push_hint h out)" "set (push_hint h out) \<subseteq> insert h (set out)"
  by (auto simp: push_hint_def)

lemma push_hint_subset: "set (fold push_hint hs out) \<subseteq> set out \<union> set hs"
proof (induction hs arbitrary: out)
  case (Cons h hs)
  then show ?case using set_push_hint(2) [of h out] Cons.IH [of "push_hint h out"] by auto
qed simp

lemma push_hint_keeps: "set out \<subseteq> set (fold push_hint hs out)"
proof (induction hs arbitrary: out)
  case (Cons h hs)
  then show ?case using set_push_hint(1) [of out h] Cons.IH [of "push_hint h out"] by auto
qed simp

lemma push_hint_represents: "h \<in> set hs \<Longrightarrow> \<exists>h' \<in> set (fold push_hint hs out). same_hint h' h"
proof (induction hs arbitrary: out)
  case (Cons a hs)
  have "\<exists>h' \<in> set (push_hint a out). same_hint h' a"
    by (auto simp: push_hint_def list_ex_iff same_hint_def)
  then have "\<exists>h' \<in> set (fold push_hint hs (push_hint a out)). same_hint h' a"
    using push_hint_keeps by blast
  then show ?case using Cons by auto
qed simp

lemma push_hint_distinct:
  "sorted_wrt (\<lambda>a b. \<not> same_hint a b) out \<Longrightarrow> sorted_wrt (\<lambda>a b. \<not> same_hint a b) (fold push_hint hs out)"
  by (induction hs arbitrary: out) (auto simp: push_hint_def list_ex_iff sorted_wrt_append)

lemma those_eq_Some: "those ms = Some xs \<longleftrightarrow> ms = map Some xs"
proof (induction ms arbitrary: xs)
  case (Cons m ms)
  then show ?case by (cases xs) (auto split: option.splits)
qed auto

lemma those_eq_None: "those ms = None \<longleftrightarrow> None \<in> set ms"
  by (induction ms) (auto split: option.splits)

lemma extracted_from:
  assumes "extract_compiler_hints errors = Some hints"
  obtains found where "map hint_of_text (extract_error_texts errors) = map Some found"
    and "hints = dedup_hints (List.map_filter id found)"
  using assms by (auto simp: extract_compiler_hints_def those_eq_Some)

lemma set_map_filter_id: "set (List.map_filter id xs) = {x. Some x \<in> set xs}"
  by (force simp: List.map_filter_def)

text \<open>C39: The hints for the planner are exactly the classified compiler messages. The extraction
  panics exactly when a message without a known class has to be cut inside a character. Otherwise
  every hint has the class and the target files of some message, every message of a known class
  is represented by such a hint, and no two hints agree in kind, summary and targets.\<close>

theorem hints_classify_the_messages:
  "(extract_compiler_hints errors = None \<longleftrightarrow>
     (\<exists>msg \<in> set (extract_error_texts errors). needs_truncation msg \<and> truncate_text msg 140 = None)) \<and>
   (\<forall>hints. extract_compiler_hints errors = Some hints \<longrightarrow>
     (\<forall>h \<in> set hints. \<exists>msg \<in> set (extract_error_texts errors).
        hint_kind h = failure_class_as_str (classify_failure_class msg) \<and>
        hint_target_files h = extract_target_files msg) \<and>
     (\<forall>msg \<in> set (extract_error_texts errors). classify_failure_class msg \<noteq> FC_GenericCompilerFailure \<longrightarrow>
        (\<exists>h \<in> set hints. hint_kind h = failure_class_as_str (classify_failure_class msg) \<and>
           hint_target_files h = extract_target_files msg)) \<and>
     sorted_wrt (\<lambda>a b. \<not> same_hint a b) hints)"
proof (intro conjI allI impI ballI)
  show "extract_compiler_hints errors = None \<longleftrightarrow>
      (\<exists>msg \<in> set (extract_error_texts errors). needs_truncation msg \<and> truncate_text msg 140 = None)"
    by (auto simp: extract_compiler_hints_def those_eq_None image_iff hint_of_text_panics eq_commute [of None])
next
  fix hints h
  assume "extract_compiler_hints errors = Some hints" and h: "h \<in> set hints"
  then obtain found where found: "map hint_of_text (extract_error_texts errors) = map Some found"
    and hints: "hints = dedup_hints (List.map_filter id found)" by (auto elim: extracted_from)
  from h hints have "Some h \<in> set found"
    using push_hint_subset [of "List.map_filter id found" "[]"] by (auto simp: dedup_hints_def set_map_filter_id)
  then have "Some (Some h) \<in> set (map hint_of_text (extract_error_texts errors))" unfolding found by simp
  then show "\<exists>msg \<in> set (extract_error_texts errors).
      hint_kind h = failure_class_as_str (classify_failure_class msg) \<and> hint_target_files h = extract_target_files msg"
    using hint_of_text_class by (auto simp: image_iff)
next
  fix hints msg
  assume "extract_compiler_hints errors = Some hints" and msg: "msg \<in> set (extract_error_texts errors)"
    and known: "classify_failure_class msg \<noteq> FC_GenericCompilerFailure"
  then obtain found where found: "map hint_of_text (extract_error_texts errors) = map Some found"
    and hints: "hints = dedup_hints (List.map_filter id found)" by (auto elim: extracted_from)
  have "hint_of_text msg \<in> set (map Some found)" using msg unfolding found [symmetric] by simp
  then obtain r where r: "hint_of_text msg = Some r" "r \<in> set found" by auto
  with known obtain h where h: "r = Some h" using hint_of_text_found by blast
  then obtain h' where "h' \<in> set hints" "same_hint h' h"
    using push_hint_represents [of h "List.map_filter id found" "[]"] r hints by (auto simp: dedup_hints_def set_map_filter_id)
  then show "\<exists>h \<in> set hints. hint_kind h = failure_class_as_str (classify_failure_class msg) \<and>
      hint_target_files h = extract_target_files msg"
    using hint_of_text_class [of msg h] r h by (auto simp: same_hint_def)
next
  fix hints assume "extract_compiler_hints errors = Some hints"
  then show "sorted_wrt (\<lambda>a b. \<not> same_hint a b) hints"
    by (auto elim!: extracted_from simp: dedup_hints_def push_hint_distinct)
qed

theorem hints_classify_the_messages_witness:
  "\<exists>hints. extract_compiler_hints [JString ''error[E0425]: cannot find function `run` in this scope''] = Some hints \<and>
     (\<exists>h \<in> set hints. hint_kind h = ''missing_symbol'')"
proof -
  let ?errors = "[JString ''error[E0425]: cannot find function `run` in this scope'']"
  have texts: "extract_error_texts ?errors = [''error[E0425]: cannot find function `run` in this scope'']" by code_simp
  have cls: "classify_failure_class ''error[E0425]: cannot find function `run` in this scope'' = FC_MissingSymbol"
    by code_simp
  from hints_classify_the_messages [of ?errors] texts cls
  obtain hints where "extract_compiler_hints ?errors = Some hints"
    by (cases "extract_compiler_hints ?errors") (auto simp: needs_truncation_def)
  with hints_classify_the_messages [of ?errors] texts cls show ?thesis by auto
qed

end
