(* ===== verification/Development_Objectives.thy ===== *)
theory Development_Objectives
  imports Semantic_State Patch_Parser Float_Rounding
begin

text \<open>
  The objectives derived from the semantic state (\<^verbatim>\<open>canon-semantic-state/src/lib.rs\<close>, from
  \<^verbatim>\<open>SelfDevelopmentObjectiveState\<close> on): the trend counters, the ranking of the development
  objectives, the strategy chosen for the planner, and the classification of planned actions and
  of their results. Sums of \<^verbatim>\<open>u32\<close> values are words and wrap as in a release build; a cast to
  \<^verbatim>\<open>i32\<close> keeps the bits. The text blocks shown to the language model are left out.
\<close>

section \<open>Objectives and strategies\<close>

datatype DevelopmentObjectiveKind =
    ReduceCompilerFailures
  | ReduceContradictionRate
  | IncreaseTestCoverage
  | DecreaseInvalidPlanRate
  | ReduceStalledLoopFrequency
  | ImproveModuleCohesion

fun objective_as_str :: "DevelopmentObjectiveKind \<Rightarrow> string" where
  "objective_as_str ReduceCompilerFailures = ''reduce_compiler_failures''"
| "objective_as_str ReduceContradictionRate = ''reduce_contradiction_rate''"
| "objective_as_str IncreaseTestCoverage = ''increase_test_coverage''"
| "objective_as_str DecreaseInvalidPlanRate = ''decrease_invalid_plan_rate''"
| "objective_as_str ReduceStalledLoopFrequency = ''reduce_stalled_loop_frequency''"
| "objective_as_str ImproveModuleCohesion = ''improve_module_cohesion''"

fun objective_focus_text :: "DevelopmentObjectiveKind \<Rightarrow> string" where
  "objective_focus_text ReduceCompilerFailures = ''reduce compiler failures''"
| "objective_focus_text ReduceContradictionRate = ''reduce contradiction rate''"
| "objective_focus_text IncreaseTestCoverage = ''increase test coverage''"
| "objective_focus_text DecreaseInvalidPlanRate = ''decrease invalid-plan rate''"
| "objective_focus_text ReduceStalledLoopFrequency = ''reduce stalled-loop frequency''"
| "objective_focus_text ImproveModuleCohesion = ''improve module cohesion''"

record DevelopmentObjective =
  dvo_kind :: DevelopmentObjectiveKind
  dvo_priority_score :: u32
  dvo_rationale :: string
  dvo_progress_summary :: string

datatype DevelopmentStrategyKind =
    FixConfigLintPolicy
  | ApplyTargetedCompilerRepair
  | PlanSymbolAwareRename
  | DiscoverTestSurface
  | AddRegressionTest
  | SimplifyPlanBatch
  | RealignObjectiveFlow
  | RefreshContextBeforeRetry
  | SK_CreateMissingModules
  | SK_RestructureModules

fun strategy_as_str :: "DevelopmentStrategyKind \<Rightarrow> string" where
  "strategy_as_str FixConfigLintPolicy = ''fix_config_lint_policy''"
| "strategy_as_str ApplyTargetedCompilerRepair = ''apply_targeted_compiler_repair''"
| "strategy_as_str PlanSymbolAwareRename = ''plan_symbol_aware_rename''"
| "strategy_as_str DiscoverTestSurface = ''discover_test_surface''"
| "strategy_as_str AddRegressionTest = ''add_regression_test''"
| "strategy_as_str SimplifyPlanBatch = ''simplify_plan_batch''"
| "strategy_as_str RealignObjectiveFlow = ''realign_objective_flow''"
| "strategy_as_str RefreshContextBeforeRetry = ''refresh_context_before_retry''"
| "strategy_as_str SK_CreateMissingModules = ''create_missing_modules''"
| "strategy_as_str SK_RestructureModules = ''restructure_modules''"

section \<open>Results of executed actions\<close>

record SemanticExecutionResultRecord =
  xr_kind :: string
  xr_summary :: string
  xr_target_files :: "string list"
  xr_semantic_progress :: bool
  xr_attempted_kind :: "string option"

definition new_result :: "string \<Rightarrow> string \<Rightarrow> string list \<Rightarrow> bool \<Rightarrow> SemanticExecutionResultRecord" where
  "new_result kind summary targets progress =
     \<lparr> xr_kind = kind, xr_summary = summary, xr_target_files = targets, xr_semantic_progress = progress,
       xr_attempted_kind = None \<rparr>"

definition with_attempted_kind :: "string \<Rightarrow> SemanticExecutionResultRecord \<Rightarrow> SemanticExecutionResultRecord" where
  "with_attempted_kind kind r = r\<lparr>xr_attempted_kind := Some kind\<rparr>"

definition render_result_line :: "SemanticExecutionResultRecord \<Rightarrow> string" where
  "render_result_line r =
     ''kind='' @ xr_kind r @ '' attempted_kind='' @ or_else (xr_attempted_kind r) ''none'' @ '' progress='' @
     show_bool (xr_semantic_progress r) @ '' targets='' @ render_targets (xr_target_files r) @ '' summary='' @ xr_summary r"

definition latest_satisfies :: "(SemanticExecutionResultRecord \<Rightarrow> bool) \<Rightarrow> SemanticExecutionResultRecord list \<Rightarrow> bool" where
  "latest_satisfies p results \<longleftrightarrow> results \<noteq> [] \<and> p (last results)"

definition latest_semantic_progress :: "SemanticExecutionResultRecord list \<Rightarrow> bool" where
  "latest_semantic_progress = latest_satisfies xr_semantic_progress"

definition latest_no_semantic_progress :: "SemanticExecutionResultRecord list \<Rightarrow> bool" where
  "latest_no_semantic_progress = latest_satisfies (\<lambda>r. \<not> xr_semantic_progress r)"

definition latest_graph_proof_verified :: "SemanticExecutionResultRecord list \<Rightarrow> bool" where
  "latest_graph_proof_verified = latest_satisfies (\<lambda>r. xr_kind r = ''graph_proof_verified'')"

definition latest_graph_proof_failed :: "SemanticExecutionResultRecord list \<Rightarrow> bool" where
  "latest_graph_proof_failed = latest_satisfies (\<lambda>r. xr_kind r = ''graph_proof_failed'')"

definition latest_verifier_policy_requires_corrective_retry :: "SemanticExecutionResultRecord list \<Rightarrow> bool" where
  "latest_verifier_policy_requires_corrective_retry = latest_satisfies (\<lambda>r. xr_kind r = ''verifier_policy_corrective_retry'')"

definition latest_verifier_policy_clears_retry :: "SemanticExecutionResultRecord list \<Rightarrow> bool" where
  "latest_verifier_policy_clears_retry = latest_satisfies (\<lambda>r. xr_kind r = ''verifier_policy_none'')"

definition semantic_progress_count :: "SemanticExecutionResultRecord list \<Rightarrow> nat" where
  "semantic_progress_count results = length (filter xr_semantic_progress results)"

definition semantic_no_progress_streak :: "SemanticExecutionResultRecord list \<Rightarrow> nat" where
  "semantic_no_progress_streak results = length (takeWhile (\<lambda>r. \<not> xr_semantic_progress r) (rev results))"

section \<open>Trend counters\<close>

definition nat_as_f32 :: "nat \<Rightarrow> rat" where
  "nat_as_f32 n = round_bits 24 (of_nat n)"

definition f32_quotient :: "nat \<Rightarrow> nat \<Rightarrow> f32" where
  "f32_quotient a b = (if b = 0 then Finite 0 else Finite (round_bits 24 (nat_as_f32 a / nat_as_f32 b)))"

definition semantic_progress_rate :: "SemanticExecutionResultRecord list \<Rightarrow> f32" where
  "semantic_progress_rate results = f32_quotient (semantic_progress_count results) (length results)"

record ObjectiveTrendState =
  ot_planning_attempts :: u32
  ot_invalid_plan_events :: u32
  ot_total_execution_results :: u32
  ot_semantic_progress_events :: u32
  ot_no_semantic_progress_events :: u32
  ot_current_no_progress_streak :: u32
  ot_repeated_stall_count :: u32
  ot_route_objective_contradiction_events :: u32
  ot_goal_objective_drift_events :: u32
  ot_baseline_error_count :: "u32 option"
  ot_current_error_count :: "u32 option"
  ot_baseline_module_gap_count :: "u32 option"
  ot_current_module_gap_count :: "u32 option"
  ot_baseline_test_surface_count :: "u32 option"
  ot_current_test_surface_count :: "u32 option"
  ot_last_goodness :: "f32 option"
  ot_last_delta_g :: "f32 option"

definition default_trend :: ObjectiveTrendState where
  "default_trend =
     \<lparr> ot_planning_attempts = 0, ot_invalid_plan_events = 0, ot_total_execution_results = 0,
       ot_semantic_progress_events = 0, ot_no_semantic_progress_events = 0, ot_current_no_progress_streak = 0,
       ot_repeated_stall_count = 0, ot_route_objective_contradiction_events = 0, ot_goal_objective_drift_events = 0,
       ot_baseline_error_count = None, ot_current_error_count = None, ot_baseline_module_gap_count = None,
       ot_current_module_gap_count = None, ot_baseline_test_surface_count = None, ot_current_test_surface_count = None,
       ot_last_goodness = None, ot_last_delta_g = None \<rparr>"

definition record_execution_result :: "ObjectiveTrendState \<Rightarrow> SemanticExecutionResultRecord \<Rightarrow> ObjectiveTrendState" where
  "record_execution_result t r =
     (let t = t\<lparr>ot_total_execution_results := saturating_add (ot_total_execution_results t) 1\<rparr>
      in if xr_semantic_progress r
         then t\<lparr>ot_semantic_progress_events := saturating_add (ot_semantic_progress_events t) 1, ot_current_no_progress_streak := 0\<rparr>
         else
           let streak = saturating_add (ot_current_no_progress_streak t) 1
           in t\<lparr>ot_no_semantic_progress_events := saturating_add (ot_no_semantic_progress_events t) 1,
                ot_current_no_progress_streak := streak,
                ot_repeated_stall_count :=
                  (if streak = 2 then saturating_add (ot_repeated_stall_count t) 1 else ot_repeated_stall_count t)\<rparr>)"

definition record_execution_results :: "SemanticExecutionResultRecord list \<Rightarrow> ObjectiveTrendState \<Rightarrow> ObjectiveTrendState" where
  "record_execution_results results t = foldl record_execution_result t results"

definition record_planning_completion :: "string \<Rightarrow> ObjectiveTrendState \<Rightarrow> ObjectiveTrendState" where
  "record_planning_completion status t =
     t\<lparr>ot_planning_attempts := saturating_add (ot_planning_attempts t) 1,
       ot_invalid_plan_events :=
         (if status = ''invalid_plan'' then saturating_add (ot_invalid_plan_events t) 1 else ot_invalid_plan_events t)\<rparr>"

definition record_invalid_plan_event :: "ObjectiveTrendState \<Rightarrow> ObjectiveTrendState" where
  "record_invalid_plan_event t = t\<lparr>ot_invalid_plan_events := saturating_add (ot_invalid_plan_events t) 1\<rparr>"

definition record_goodness :: "f32 \<Rightarrow> f32 \<Rightarrow> ObjectiveTrendState \<Rightarrow> ObjectiveTrendState" where
  "record_goodness g delta_g t = t\<lparr>ot_last_goodness := Some g, ot_last_delta_g := Some delta_g\<rparr>"

definition is_test_file :: "string \<Rightarrow> bool" where
  "is_test_file path \<longleftrightarrow>
     str_contains path ''/tests/'' \<or> prefix ''tests/'' path \<or> ends_with path ''_test.rs'' \<or> ends_with path ''_tests.rs''"

definition get_or_insert :: "'a \<Rightarrow> 'a option \<Rightarrow> 'a option" where
  "get_or_insert x slot = Some (or_else slot x)"

definition record_observation :: "nat \<Rightarrow> SemanticStateSummary \<Rightarrow> ObjectiveTrendState \<Rightarrow> ObjectiveTrendState" where
  "record_observation error_count s t =
     (let errors = of_nat error_count; gaps = of_nat (length (ss_module_gaps s));
          tests = of_nat (length (filter is_test_file (ss_source_files s)))
      in t\<lparr>ot_current_error_count := Some errors, ot_baseline_error_count := get_or_insert errors (ot_baseline_error_count t),
           ot_current_module_gap_count := Some gaps, ot_baseline_module_gap_count := get_or_insert gaps (ot_baseline_module_gap_count t),
           ot_current_test_surface_count := Some tests,
           ot_baseline_test_surface_count := get_or_insert tests (ot_baseline_test_surface_count t)\<rparr>)"

definition record_route_objective_contradiction :: "ObjectiveTrendState \<Rightarrow> ObjectiveTrendState" where
  "record_route_objective_contradiction t =
     t\<lparr>ot_route_objective_contradiction_events := saturating_add (ot_route_objective_contradiction_events t) 1\<rparr>"

definition record_goal_objective_drift :: "ObjectiveTrendState \<Rightarrow> ObjectiveTrendState" where
  "record_goal_objective_drift t =
     t\<lparr>ot_goal_objective_drift_events := saturating_add (ot_goal_objective_drift_events t) 1\<rparr>"

definition repair_resolution_rate :: "ObjectiveTrendState \<Rightarrow> f32" where
  "repair_resolution_rate t = f32_quotient (unat (ot_semantic_progress_events t)) (unat (ot_total_execution_results t))"

definition invalid_plan_rate :: "ObjectiveTrendState \<Rightarrow> f32" where
  "invalid_plan_rate t = f32_quotient (unat (ot_invalid_plan_events t)) (unat (ot_planning_attempts t))"

definition trend_misalignment_pressure_score :: "ObjectiveTrendState \<Rightarrow> u32" where
  "trend_misalignment_pressure_score t = ot_route_objective_contradiction_events t + ot_goal_objective_drift_events t"

definition count_delta :: "u32 option \<Rightarrow> u32 option \<Rightarrow> int" where
  "count_delta current baseline = sint (or_else current 0 - or_else baseline 0)"

definition compiler_error_delta :: "ObjectiveTrendState \<Rightarrow> int" where
  "compiler_error_delta t = count_delta (ot_current_error_count t) (ot_baseline_error_count t)"

definition module_gap_delta :: "ObjectiveTrendState \<Rightarrow> int" where
  "module_gap_delta t = count_delta (ot_current_module_gap_count t) (ot_baseline_module_gap_count t)"

definition test_surface_delta :: "ObjectiveTrendState \<Rightarrow> int" where
  "test_surface_delta t = count_delta (ot_current_test_surface_count t) (ot_baseline_test_surface_count t)"

definition derive_objective_trend_state ::
    "u32 \<Rightarrow> u32 \<Rightarrow> f32 option \<Rightarrow> f32 option \<Rightarrow> SemanticExecutionResultRecord list \<Rightarrow> ObjectiveTrendState" where
  "derive_objective_trend_state attempts invalid goodness delta_g results =
     record_execution_results results
       (default_trend\<lparr>ot_planning_attempts := attempts, ot_invalid_plan_events := invalid,
          ot_last_goodness := goodness, ot_last_delta_g := delta_g\<rparr>)"

section \<open>Objective state\<close>

record SelfDevelopmentObjectiveState =
  so_semantic_progress_rate :: f32
  so_semantic_no_progress_streak :: nat
  so_consecutive_invalid_plan_batches :: u32
  so_validation_blocked_by_preconditions :: bool
  so_compiler_repair_required :: bool
  so_misalignment_pressure_score :: u32

definition is_stalled :: "SelfDevelopmentObjectiveState \<Rightarrow> bool" where
  "is_stalled s \<longleftrightarrow> 2 \<le> so_semantic_no_progress_streak s \<or> 2 \<le> so_consecutive_invalid_plan_batches s"

definition repair_pressure_score :: "SelfDevelopmentObjectiveState \<Rightarrow> u32" where
  "repair_pressure_score s =
     so_consecutive_invalid_plan_batches s + so_misalignment_pressure_score s +
     (if so_validation_blocked_by_preconditions s then 1 else 0) + (if so_compiler_repair_required s then 1 else 0) +
     (if 0 < so_semantic_no_progress_streak s then 1 else 0)"

definition derive_self_development_objective_state ::
    "SemanticStateSummary \<Rightarrow> u32 \<Rightarrow> SemanticExecutionResultRecord list \<Rightarrow> ObjectiveTrendState \<Rightarrow> SelfDevelopmentObjectiveState" where
  "derive_self_development_objective_state s batches results t =
     \<lparr> so_semantic_progress_rate = semantic_progress_rate results,
       so_semantic_no_progress_streak = semantic_no_progress_streak results,
       so_consecutive_invalid_plan_batches = batches,
       so_validation_blocked_by_preconditions = ss_validation_blocked_by_preconditions s,
       so_compiler_repair_required = ss_compiler_repair_required s,
       so_misalignment_pressure_score = trend_misalignment_pressure_score t \<rparr>"

section \<open>Ranking of the objectives\<close>

definition flag :: "bool \<Rightarrow> u32" where
  "flag b = (if b then 1 else 0)"

definition positive_part :: "int \<Rightarrow> u32" where
  "positive_part x = of_int (max x 0)"

definition has_test_files :: "SemanticStateSummary \<Rightarrow> bool" where
  "has_test_files s \<longleftrightarrow> list_ex is_test_file (ss_source_files s)"

definition usize_saturating_mul :: "usize \<Rightarrow> nat \<Rightarrow> nat" where
  "usize_saturating_mul a k = min (unat a * k) (2 ^ 64 - 1)"

definition module_edges_exceed :: "nat \<Rightarrow> SemanticStateSummary \<Rightarrow> bool" where
  "module_edges_exceed k s =
     (case (ss_graph_module_edge_count s, ss_graph_call_edge_count s) of
        (Some module_edges, Some call_edges) \<Rightarrow> usize_saturating_mul call_edges k < unat module_edges
      | _ \<Rightarrow> False)"

definition show_int :: "int \<Rightarrow> string" where
  "show_int x = (if x < 0 then CHR ''-'' # decimal (nat (- x)) else decimal (nat x))"

text \<open>The scores in the order in which the code lists the objectives.\<close>

fun objective_score ::
    "SemanticStateSummary \<Rightarrow> SelfDevelopmentObjectiveState \<Rightarrow> ObjectiveTrendState \<Rightarrow> DevelopmentObjectiveKind \<Rightarrow> u32" where
  "objective_score s os t ReduceCompilerFailures =
     flag (so_compiler_repair_required os) + flag (so_validation_blocked_by_preconditions os) +
     flag (ss_compiler_hints s \<noteq> []) + positive_part (compiler_error_delta t)"
| "objective_score s os t ReduceContradictionRate = so_misalignment_pressure_score os"
| "objective_score s os t IncreaseTestCoverage =
     flag (ss_cargo_project s \<and> \<not> has_test_files s) + flag (ss_path_exists s \<and> ss_cargo_project s) +
     flag (test_surface_delta t \<le> 0)"
| "objective_score s os t DecreaseInvalidPlanRate =
     (if f32_lt f32_0 (invalid_plan_rate t) then 1 + ot_invalid_plan_events t else 0)"
| "objective_score s os t ReduceStalledLoopFrequency =
     ot_repeated_stall_count t + of_nat (so_semantic_no_progress_streak os)"
| "objective_score s os t ImproveModuleCohesion =
     of_nat (length (ss_module_gaps s)) + flag (8 \<le> or_else (ss_rust_file_count s) 0) +
     flag (module_edges_exceed 8 s) + positive_part (module_gap_delta t)"

fun objective_rationale :: "DevelopmentObjectiveKind \<Rightarrow> string" where
  "objective_rationale ReduceCompilerFailures = ''compiler repair pressure is still present''"
| "objective_rationale ReduceContradictionRate = ''goal/route/planner drift has been observed''"
| "objective_rationale IncreaseTestCoverage = ''the workspace has little or no visible test surface''"
| "objective_rationale DecreaseInvalidPlanRate = ''invalid plans are reducing execution throughput''"
| "objective_rationale ReduceStalledLoopFrequency = ''the loop is repeating without semantic progress''"
| "objective_rationale ImproveModuleCohesion = ''module gaps or graph sprawl indicate structural cohesion issues''"

text \<open>\<open>fmt\<close> prints an \<^verbatim>\<open>f32\<close> with two digits.\<close>

fun objective_progress ::
    "(f32 \<Rightarrow> string) \<Rightarrow> SemanticStateSummary \<Rightarrow> SelfDevelopmentObjectiveState \<Rightarrow> ObjectiveTrendState \<Rightarrow> DevelopmentObjectiveKind \<Rightarrow> string" where
  "objective_progress fmt s os t ReduceCompilerFailures =
     ''compiler_repair_required='' @ show_bool (so_compiler_repair_required os) @ '' validation_blocked='' @
     show_bool (so_validation_blocked_by_preconditions os) @ '' compiler_error_delta='' @ show_int (compiler_error_delta t)"
| "objective_progress fmt s os t ReduceContradictionRate =
     ''route_contradictions='' @ show_word (ot_route_objective_contradiction_events t) @ '' goal_drifts='' @
     show_word (ot_goal_objective_drift_events t)"
| "objective_progress fmt s os t IncreaseTestCoverage =
     ''has_test_files='' @ show_bool (has_test_files s) @ '' rust_file_count='' @ show_word (or_else (ss_rust_file_count s) 0) @
     '' test_surface_delta='' @ show_int (test_surface_delta t)"
| "objective_progress fmt s os t DecreaseInvalidPlanRate =
     ''invalid_plan_events='' @ show_word (ot_invalid_plan_events t) @ '' invalid_plan_rate='' @ fmt (invalid_plan_rate t)"
| "objective_progress fmt s os t ReduceStalledLoopFrequency =
     ''no_progress_streak='' @ decimal (so_semantic_no_progress_streak os) @ '' repeated_stall_count='' @
     show_word (ot_repeated_stall_count t)"
| "objective_progress fmt s os t ImproveModuleCohesion =
     ''module_gaps='' @ decimal (length (ss_module_gaps s)) @ '' rust_file_count='' @ show_word (or_else (ss_rust_file_count s) 0) @
     '' module_gap_delta='' @ show_int (module_gap_delta t) @ '' graph_module_edges='' @
     show_word (or_else (ss_graph_module_edge_count s) 0) @ '' graph_call_edges='' @ show_word (or_else (ss_graph_call_edge_count s) 0)"

definition objective_kinds :: "DevelopmentObjectiveKind list" where
  "objective_kinds =
     [ReduceCompilerFailures, ReduceContradictionRate, IncreaseTestCoverage, DecreaseInvalidPlanRate,
      ReduceStalledLoopFrequency, ImproveModuleCohesion]"

definition make_objective ::
    "(f32 \<Rightarrow> string) \<Rightarrow> SemanticStateSummary \<Rightarrow> SelfDevelopmentObjectiveState \<Rightarrow> ObjectiveTrendState \<Rightarrow> DevelopmentObjectiveKind \<Rightarrow> DevelopmentObjective" where
  "make_objective fmt s os t k =
     \<lparr> dvo_kind = k, dvo_priority_score = objective_score s os t k, dvo_rationale = objective_rationale k,
       dvo_progress_summary = objective_progress fmt s os t k \<rparr>"

fun str_le :: "string \<Rightarrow> string \<Rightarrow> bool" where
  "str_le [] b = True"
| "str_le (x # a) [] = False"
| "str_le (x # a) (y # b) =
     ((of_char x :: nat) < of_char y \<or> (x = y \<and> str_le a b))"

text \<open>Higher scores first, ties by name.\<close>

definition ranks_before :: "DevelopmentObjective \<Rightarrow> DevelopmentObjective \<Rightarrow> bool" where
  "ranks_before a b \<longleftrightarrow>
     dvo_priority_score b < dvo_priority_score a \<or>
     (dvo_priority_score a = dvo_priority_score b \<and> str_le (objective_as_str (dvo_kind a)) (objective_as_str (dvo_kind b)))"

fun rank_insert :: "DevelopmentObjective \<Rightarrow> DevelopmentObjective list \<Rightarrow> DevelopmentObjective list" where
  "rank_insert a [] = [a]"
| "rank_insert a (b # bs) = (if ranks_before a b then a # b # bs else b # rank_insert a bs)"

definition derive_development_objectives ::
    "(f32 \<Rightarrow> string) \<Rightarrow> SemanticStateSummary \<Rightarrow> SelfDevelopmentObjectiveState \<Rightarrow> ObjectiveTrendState \<Rightarrow> DevelopmentObjective list" where
  "derive_development_objectives fmt s os t = foldr rank_insert (map (make_objective fmt s os t) objective_kinds) []"

definition development_objective_lines ::
    "(f32 \<Rightarrow> string) \<Rightarrow> SemanticStateSummary \<Rightarrow> SelfDevelopmentObjectiveState \<Rightarrow> ObjectiveTrendState \<Rightarrow> string list" where
  "development_objective_lines fmt s os t =
     map (\<lambda>d. ''kind='' @ objective_as_str (dvo_kind d) @ '' priority='' @ show_word (dvo_priority_score d) @ '' progress='' @
            dvo_progress_summary d @ '' rationale='' @ dvo_rationale d)
       (filter (\<lambda>d. 0 < dvo_priority_score d) (derive_development_objectives fmt s os t))"

definition primary_development_objective_kind ::
    "(f32 \<Rightarrow> string) \<Rightarrow> SelfDevelopmentObjectiveState \<Rightarrow> ObjectiveTrendState \<Rightarrow> SemanticStateSummary \<Rightarrow> DevelopmentObjectiveKind" where
  "primary_development_objective_kind fmt os t s =
     (case derive_development_objectives fmt s os t of [] \<Rightarrow> ReduceCompilerFailures | d # _ \<Rightarrow> dvo_kind d)"

definition has_hint_kind :: "CompilerHintKind \<Rightarrow> SemanticStateSummary \<Rightarrow> bool" where
  "has_hint_kind k s \<longleftrightarrow> list_ex (\<lambda>h. kind_enum h = Some k) (ss_compiler_hints s)"

fun strategy_for_objective :: "SemanticStateSummary \<Rightarrow> DevelopmentObjectiveKind \<Rightarrow> DevelopmentStrategyKind" where
  "strategy_for_objective s ReduceCompilerFailures =
     (if ss_module_gaps s \<noteq> [] then SK_CreateMissingModules else ApplyTargetedCompilerRepair)"
| "strategy_for_objective s ReduceContradictionRate = RealignObjectiveFlow"
| "strategy_for_objective s IncreaseTestCoverage = (if has_test_files s then AddRegressionTest else DiscoverTestSurface)"
| "strategy_for_objective s DecreaseInvalidPlanRate = SimplifyPlanBatch"
| "strategy_for_objective s ReduceStalledLoopFrequency = RefreshContextBeforeRetry"
| "strategy_for_objective s ImproveModuleCohesion =
     (if ss_module_gaps s \<noteq> [] then SK_CreateMissingModules else SK_RestructureModules)"

definition primary_development_strategy_kind ::
    "(f32 \<Rightarrow> string) \<Rightarrow> SelfDevelopmentObjectiveState \<Rightarrow> ObjectiveTrendState \<Rightarrow> SemanticStateSummary \<Rightarrow> DevelopmentStrategyKind" where
  "primary_development_strategy_kind fmt os t s =
     (if 0 < so_misalignment_pressure_score os then RealignObjectiveFlow
      else if has_hint_kind HK_DeadCodeForbidConflict s then FixConfigLintPolicy
      else if 0 < ot_repeated_stall_count t \<and> 2 \<le> so_semantic_no_progress_streak os then RefreshContextBeforeRetry
      else if ss_graph_artifact_id s \<noteq> None \<and> has_hint_kind HK_DuplicateDefinition s then PlanSymbolAwareRename
      else strategy_for_objective s (primary_development_objective_kind fmt os t s))"

section \<open>Planned actions and their results\<close>

datatype SemanticActionIntent =
    SI_BootstrapWorkspace
  | SI_InitCargoProject
  | SI_ValidateCargoCheck
  | SI_CreateEntrypoint path
  | SI_CreateModuleFile path
  | SI_RestructureModules path
  | SI_FixDeadCodeConflict path
  | SI_FixUnresolvedImport path
  | SI_DefineMissingSymbol path
  | SI_ResolveDuplicateDefinition path
  | SI_FixTraitBoundFailure path

definition normalize_path :: "path \<Rightarrow> path option \<Rightarrow> path" where
  "normalize_path p target_root =
     (if is_absolute p then p else case target_root of None \<Rightarrow> p | Some dir \<Rightarrow> path_join dir p)"

definition trait_bound_content :: "string \<Rightarrow> bool" where
  "trait_bound_content content \<longleftrightarrow>
     str_contains content ''impl '' \<or> str_contains content ''where '' \<or> str_contains content ''derive('' \<or> str_contains content '': ''"

definition is_trait_bound_edit :: "string \<Rightarrow> bool" where
  "is_trait_bound_edit patch \<longleftrightarrow>
     list_ex (\<lambda>line. (prefix ''+'' line \<or> prefix ''-'' line) \<and> trait_bound_content (trim_start (tl line))) (str_lines patch)"

fun hunk_intents :: "string \<Rightarrow> path option \<Rightarrow> Hunk \<Rightarrow> SemanticActionIntent list" where
  "hunk_intents patch dir (AddFile p c) =
     (let p = normalize_path p dir
      in if ends_with p ''src/main.rs'' \<or> ends_with p ''src/lib.rs'' then [SI_CreateEntrypoint p] else [])"
| "hunk_intents patch dir (UpdateFile p mv cs) =
     (let p = normalize_path p dir
      in (if str_contains patch ''allow(dead_code)'' then [SI_FixDeadCodeConflict p] else []) @
         (if is_trait_bound_edit patch then [SI_FixTraitBoundFailure p] else []))"
| "hunk_intents patch dir (DeleteFile p) =
     (let p = normalize_path p dir
      in (if str_contains patch ''allow(dead_code)'' then [SI_FixDeadCodeConflict p] else []) @
         (if is_trait_bound_edit patch then [SI_FixTraitBoundFailure p] else []))"

definition path_intent :: "(path \<Rightarrow> SemanticActionIntent) \<Rightarrow> json \<Rightarrow> path option \<Rightarrow> SemanticActionIntent list" where
  "path_intent mk payload dir =
     (case json_get_str payload ''path'' of None \<Rightarrow> [] | Some p \<Rightarrow> [mk (normalize_path p dir)])"

definition classify_planned_action_intents :: "string \<Rightarrow> json \<Rightarrow> path option \<Rightarrow> SemanticActionIntent list" where
  "classify_planned_action_intents action_kind payload dir =
     (if action_kind = ''run_command'' then
        (let cmd = or_else (json_get_str payload ''cmd'') []
         in (if str_contains cmd ''cargo new '' then [SI_BootstrapWorkspace] else []) @
            (if str_contains cmd ''cargo init'' then [SI_InitCargoProject] else []) @
            (if str_contains cmd ''cargo check'' then [SI_ValidateCargoCheck] else []))
      else if action_kind = ''edit.rename_symbol'' then path_intent SI_ResolveDuplicateDefinition payload dir
      else if action_kind = ''edit.move_symbol'' then path_intent SI_RestructureModules payload dir
      else if action_kind = ''edit.add_import'' then path_intent SI_FixUnresolvedImport payload dir
      else if action_kind = ''edit.define_symbol_stub'' then path_intent SI_DefineMissingSymbol payload dir
      else if action_kind = ''edit.create_module_file'' then path_intent SI_CreateModuleFile payload dir
      else if action_kind = ''apply_patch'' then
        (let patch = or_else (json_get_str payload ''patch'') []
         in case parse_patch patch of
              Some (Inr args) \<Rightarrow> concat (map (hunk_intents patch dir) (ap_hunks args))
            | _ \<Rightarrow> [])
      else [])"

fun intent_kind_and_targets :: "SemanticActionIntent \<Rightarrow> string \<times> string list" where
  "intent_kind_and_targets SI_BootstrapWorkspace = (''bootstrap_workspace'', [])"
| "intent_kind_and_targets SI_InitCargoProject = (''init_cargo_project'', [])"
| "intent_kind_and_targets SI_ValidateCargoCheck = (''validate_cargo_check'', [])"
| "intent_kind_and_targets (SI_CreateEntrypoint p) = (''create_entrypoint'', [p])"
| "intent_kind_and_targets (SI_CreateModuleFile p) = (''create_module_file'', [p])"
| "intent_kind_and_targets (SI_RestructureModules p) = (''restructure_modules'', [p])"
| "intent_kind_and_targets (SI_FixDeadCodeConflict p) = (''fix_dead_code_conflict'', [p])"
| "intent_kind_and_targets (SI_FixUnresolvedImport p) = (''fix_unresolved_import'', [p])"
| "intent_kind_and_targets (SI_DefineMissingSymbol p) = (''define_missing_symbol'', [p])"
| "intent_kind_and_targets (SI_ResolveDuplicateDefinition p) = (''resolve_duplicate_definition'', [p])"
| "intent_kind_and_targets (SI_FixTraitBoundFailure p) = (''fix_trait_bound_failure'', [p])"

fun success_result :: "SemanticActionIntent \<Rightarrow> SemanticExecutionResultRecord" where
  "success_result SI_BootstrapWorkspace =
     with_attempted_kind ''bootstrap_workspace'' (new_result ''workspace_bootstrapped'' ''workspace bootstrap command succeeded'' [] True)"
| "success_result SI_InitCargoProject =
     with_attempted_kind ''init_cargo_project'' (new_result ''cargo_project_initialized'' ''cargo project initialization succeeded'' [] True)"
| "success_result SI_ValidateCargoCheck =
     with_attempted_kind ''validate_cargo_check'' (new_result ''validation_attempted'' ''cargo check executed'' [] False)"
| "success_result (SI_CreateEntrypoint p) =
     with_attempted_kind ''create_entrypoint'' (new_result ''entrypoint_created'' ''entrypoint file created'' [p] True)"
| "success_result (SI_CreateModuleFile p) =
     with_attempted_kind ''create_module_file'' (new_result ''module_created'' ''module file created'' [p] True)"
| "success_result (SI_RestructureModules p) =
     with_attempted_kind ''restructure_modules'' (new_result ''module_restructured'' ''module restructure edit applied'' [p] True)"
| "success_result (SI_FixDeadCodeConflict p) =
     with_attempted_kind ''fix_dead_code_conflict'' (new_result ''dead_code_conflict_addressed'' ''dead_code conflict edit applied'' [p] True)"
| "success_result (SI_FixUnresolvedImport p) =
     with_attempted_kind ''fix_unresolved_import'' (new_result ''import_resolved'' ''import repair edit applied'' [p] True)"
| "success_result (SI_DefineMissingSymbol p) =
     with_attempted_kind ''define_missing_symbol'' (new_result ''symbol_defined'' ''missing symbol definition edit applied'' [p] True)"
| "success_result (SI_ResolveDuplicateDefinition p) =
     with_attempted_kind ''resolve_duplicate_definition'' (new_result ''duplicate_resolved'' ''duplicate definition repair applied'' [p] True)"
| "success_result (SI_FixTraitBoundFailure p) =
     with_attempted_kind ''fix_trait_bound_failure'' (new_result ''trait_bound_fixed'' ''trait bound repair edit applied'' [p] True)"

definition failure_result :: "string \<Rightarrow> SemanticActionIntent \<Rightarrow> SemanticExecutionResultRecord" where
  "failure_result stderr i =
     (case intent_kind_and_targets i of (kind, targets) \<Rightarrow>
        with_attempted_kind kind (new_result ''no_semantic_progress'' (kind @ '' failed: '' @ trim stderr) targets False))"

definition execution_results_for_action ::
    "SemanticActionIntent list \<Rightarrow> bool \<Rightarrow> string \<Rightarrow> SemanticExecutionResultRecord list" where
  "execution_results_for_action intents success stderr =
     (if \<not> success then
        if intents = [] then [new_result ''no_semantic_progress'' (''action failed: '' @ trim stderr) [] False]
        else map (failure_result stderr) intents
      else if intents = [] then
        [new_result ''no_semantic_progress'' ''action succeeded without semantic state change classification'' [] False]
      else map success_result intents)"

section \<open>Properties\<close>

subsection \<open>The counters of a history\<close>

text \<open>How many times the results run into a stall: two results without progress right after a
  result with progress or at the start.\<close>

fun stalls :: "nat \<Rightarrow> bool list \<Rightarrow> nat" where
  "stalls streak [] = 0"
| "stalls streak (True # ps) = stalls 0 ps"
| "stalls streak (False # ps) = (if streak = 1 then 1 else 0) + stalls (Suc streak) ps"

type_synonym counts = "nat \<times> nat \<times> nat \<times> nat \<times> nat"

definition counts :: "ObjectiveTrendState \<Rightarrow> counts" where
  "counts t = (unat (ot_total_execution_results t), unat (ot_semantic_progress_events t),
     unat (ot_no_semantic_progress_events t), unat (ot_current_no_progress_streak t), unat (ot_repeated_stall_count t))"

fun count_step :: "counts \<Rightarrow> bool \<Rightarrow> counts" where
  "count_step (n, p, q, k, s) True = (n + 1, p + 1, q, 0, s)"
| "count_step (n, p, q, k, s) False = (n + 1, p, q + 1, k + 1, if k = 1 then s + 1 else s)"

fun counts_ok :: "counts \<Rightarrow> bool" where
  "counts_ok (n, p, q, k, s) \<longleftrightarrow> p \<le> n \<and> q \<le> n \<and> k \<le> n \<and> s \<le> n"

lemma counts_ok_step: "counts_ok c \<Longrightarrow> counts_ok (count_step c b)"
  by (cases c; cases b) auto

lemma unat_saturating_inc:
  fixes x :: u32
  shows "unat x + 1 < 2 ^ 32 \<Longrightarrow> unat (saturating_add x 1) = unat x + 1"
  by (simp add: unat_saturating_add)

lemma saturating_inc_eq_2:
  fixes x :: u32
  assumes "unat x + 1 < 2 ^ 32"
  shows "saturating_add x 1 = 2 \<longleftrightarrow> unat x = 1"
  unfolding word_unat_eq_iff unat_saturating_inc [OF assms] by simp

lemma counts_record:
  assumes "counts_ok (counts t)" and "fst (counts t) + 1 < 2 ^ 32"
  shows "counts (record_execution_result t r) = count_step (counts t) (xr_semantic_progress r)"
proof -
  have "unat (ot_total_execution_results t) + 1 < 2 ^ 32" "unat (ot_semantic_progress_events t) + 1 < 2 ^ 32"
    "unat (ot_no_semantic_progress_events t) + 1 < 2 ^ 32" "unat (ot_current_no_progress_streak t) + 1 < 2 ^ 32"
    "unat (ot_repeated_stall_count t) + 1 < 2 ^ 32"
    using assms by (simp_all add: counts_def)
  note inc = this [THEN unat_saturating_inc] and two = this(4) [THEN saturating_inc_eq_2]
  show ?thesis
    by (cases "xr_semantic_progress r") (simp_all add: counts_def record_execution_result_def Let_def inc two)
qed

lemma counts_record_all:
  assumes "counts_ok (counts t)" and "fst (counts t) + length rs < 2 ^ 32"
  shows "counts (record_execution_results rs t) = foldl count_step (counts t) (map xr_semantic_progress rs)"
  using assms
proof (induction rs arbitrary: t)
  case Nil
  show ?case by (simp add: record_execution_results_def)
next
  case (Cons r rs)
  have c: "counts (record_execution_result t r) = count_step (counts t) (xr_semantic_progress r)"
    by (rule counts_record) (use Cons.prems in auto)
  moreover have "fst (count_step (counts t) (xr_semantic_progress r)) = fst (counts t) + 1"
    by (cases "counts t"; cases "xr_semantic_progress r") auto
  ultimately show ?case
    using Cons.IH [of "record_execution_result t r"] Cons.prems counts_ok_step by (simp add: record_execution_results_def)
qed

lemma foldl_count_step:
  "foldl count_step (n, p, q, k, s) ps =
     (n + length ps, p + length (filter id ps), q + length (filter Not ps),
      if True \<in> set ps then length (takeWhile Not (rev ps)) else k + length ps, s + stalls k ps)"
proof (induction ps arbitrary: n p q k s)
  case (Cons b ps)
  have "takeWhile Not (xs @ [True]) = takeWhile Not xs" for xs by (induction xs) auto
  moreover have "True \<in> set ps \<Longrightarrow> takeWhile Not (rev ps @ [b]) = takeWhile Not (rev ps)" by (auto simp: takeWhile_append)
  moreover have "length (takeWhile Not (rev ps)) = length ps" if "True \<notin> set ps"
  proof -
    have "takeWhile Not (rev ps) = rev ps" using that by (subst takeWhile_eq_all_conv) auto
    from arg_cong [OF this, of length] show ?thesis by simp
  qed
  ultimately show ?case by (cases b) (auto simp: Cons.IH)
qed simp

lemma counts_of_history:
  assumes "length rs < 2 ^ 32"
  shows "counts (record_execution_results rs default_trend) =
    (length rs, semantic_progress_count rs, length rs - semantic_progress_count rs, semantic_no_progress_streak rs,
     stalls 0 (map xr_semantic_progress rs))"
proof -
  let ?ps = "map xr_semantic_progress rs"
  have zero: "counts default_trend = (0, 0, 0, 0, 0)" by (simp add: counts_def default_trend_def)
  then have "counts (record_execution_results rs default_trend) = foldl count_step (0, 0, 0, 0, 0) ?ps"
    using counts_record_all [of default_trend rs] assms by simp
  then have c: "counts (record_execution_results rs default_trend) =
    (length ?ps, length (filter id ?ps), length (filter Not ?ps),
      if True \<in> set ?ps then length (takeWhile Not (rev ?ps)) else length ?ps, stalls 0 ?ps)"
    unfolding foldl_count_step by simp
  have "True \<notin> set ?ps \<Longrightarrow> takeWhile Not (rev ?ps) = rev ?ps" unfolding takeWhile_eq_all_conv set_rev by metis
  then have "(if True \<in> set ?ps then length (takeWhile Not (rev ?ps)) else length ?ps) = length (takeWhile Not (rev ?ps))"
    by (metis length_rev)
  also have "\<dots> = semantic_no_progress_streak rs"
    by (simp add: semantic_no_progress_streak_def rev_map takeWhile_map comp_def)
  finally have k: "(if True \<in> set ?ps then length (takeWhile Not (rev ?ps)) else length ?ps) = semantic_no_progress_streak rs" .
  have f: "length (filter id ?ps) = semantic_progress_count rs"
    by (simp add: semantic_progress_count_def filter_map comp_def)
  moreover have "length (filter id ?ps) + length (filter Not ?ps) = length ?ps"
    using sum_length_filter_compl [of id ?ps] by simp
  ultimately have "length (filter Not ?ps) = length rs - semantic_progress_count rs" by simp
  with c k f show ?thesis by simp
qed

lemma semantic_progress_count_le: "semantic_progress_count rs \<le> length rs"
  by (simp add: semantic_progress_count_def)

text \<open>C37: The trend counters summarise the history they were fed: after recording fewer than \<open>2 ^ 32\<close>
  results, in one call or in several, the totals add up, the running streak is the streak that
  the batch function reads off the end of the history, and the stall counter is the number of
  times the history runs into two results without progress in a row.\<close>

theorem trend_counters_summarise_the_history:
  assumes "length (rs1 @ rs2) < 2 ^ 32"
  shows "let t = record_execution_results rs2 (record_execution_results rs1 default_trend); rs = rs1 @ rs2
    in unat (ot_total_execution_results t) = length rs \<and>
       unat (ot_semantic_progress_events t) = semantic_progress_count rs \<and>
       unat (ot_semantic_progress_events t) + unat (ot_no_semantic_progress_events t) = length rs \<and>
       unat (ot_current_no_progress_streak t) = semantic_no_progress_streak rs \<and>
       unat (ot_repeated_stall_count t) = stalls 0 (map xr_semantic_progress rs)"
proof -
  have "record_execution_results rs2 (record_execution_results rs1 default_trend) = record_execution_results (rs1 @ rs2) default_trend"
    by (simp add: record_execution_results_def)
  with counts_of_history [OF assms] semantic_progress_count_le [of "rs1 @ rs2"] show ?thesis
    by (simp add: counts_def Let_def)
qed

theorem trend_counters_summarise_the_history_witness:
  "let fail = failure_result [] SI_ValidateCargoCheck; ok = success_result SI_InitCargoProject; rs = [fail, ok, fail, fail, fail];
       t = record_execution_results [fail, fail] (record_execution_results [fail, ok, fail] default_trend)
   in unat (ot_repeated_stall_count t) = 1 \<and> unat (ot_current_no_progress_streak t) = 3 \<and>
      unat (ot_total_execution_results t) = length rs"
proof -
  let ?f = "failure_result [] SI_ValidateCargoCheck" and ?o = "success_result SI_InitCargoProject"
  have "\<not> xr_semantic_progress ?f" "xr_semantic_progress ?o"
    by (simp_all add: failure_result_def with_attempted_kind_def new_result_def)
  with trend_counters_summarise_the_history [of "[?f, ?o, ?f]" "[?f, ?f]"] show ?thesis
    by (simp add: Let_def semantic_no_progress_streak_def)
qed

subsection \<open>The ranking\<close>

lemma str_le_total: "str_le a b \<or> str_le b a"
  by (induction a b rule: str_le.induct) (auto simp: linorder_not_less)

lemma str_le_trans: "str_le a b \<Longrightarrow> str_le b c \<Longrightarrow> str_le a c"
proof (induction a b arbitrary: c rule: str_le.induct)
  case (3 x a y b)
  then show ?case by (cases c) auto
qed auto

lemma ranks_before_total: "ranks_before a b \<or> ranks_before b a"
  using str_le_total by (auto simp: ranks_before_def not_less_iff_gr_or_eq)

lemma ranks_before_trans: "ranks_before a b \<Longrightarrow> ranks_before b c \<Longrightarrow> ranks_before a c"
  unfolding ranks_before_def by (auto intro: str_le_trans)

lemma rank_insert_ok:
  assumes "sorted_wrt ranks_before ds"
  shows "sorted_wrt ranks_before (rank_insert d ds) \<and> mset (rank_insert d ds) = add_mset d (mset ds)"
  using assms
proof (induction ds)
  case (Cons b bs)
  then have "set (rank_insert d bs) = insert d (set bs)" by (metis set_mset_add_mset_insert set_mset_mset sorted_wrt.simps(2))
  with Cons ranks_before_total [of d b] show ?case by (auto intro: ranks_before_trans)
qed simp

lemma ranking_ok:
  "sorted_wrt ranks_before (foldr rank_insert ds []) \<and> mset (foldr rank_insert ds []) = mset ds"
  by (induction ds) (simp_all add: rank_insert_ok)

text \<open>The ranking lists each of the six objectives once, with its own score, by falling score and
  for equal scores by name; the primary objective has the greatest score.\<close>

theorem objective_ranking_is_sorted:
  "sorted_wrt ranks_before (derive_development_objectives fmt s os t) \<and>
   mset (derive_development_objectives fmt s os t) = mset (map (make_objective fmt s os t) objective_kinds) \<and>
   objective_score s os t k \<le> objective_score s os t (primary_development_objective_kind fmt os t s)"
proof (intro conjI)
  let ?ds = "derive_development_objectives fmt s os t"
  show sorted: "sorted_wrt ranks_before ?ds" and perm: "mset ?ds = mset (map (make_objective fmt s os t) objective_kinds)"
    using ranking_ok by (simp_all add: derive_development_objectives_def)
  have all: "make_objective fmt s os t k \<in> set ?ds"
    using mset_eq_setD [OF perm] by (cases k) (auto simp: objective_kinds_def)
  then obtain d ds where d: "?ds = d # ds" by (cases ?ds) auto
  moreover have "d \<in> set ?ds" using d by simp
  with mset_eq_setD [OF perm] obtain k' where "d = make_objective fmt s os t k'" by auto
  moreover have "make_objective fmt s os t k = d \<or> ranks_before d (make_objective fmt s os t k)"
    using sorted all d by auto
  ultimately show "objective_score s os t k \<le> objective_score s os t (primary_development_objective_kind fmt os t s)"
    by (auto simp: primary_development_objective_kind_def make_objective_def ranks_before_def)
qed

text \<open>The planner accepts a written file as the creation of an entrypoint, but no intent is
  recognised in such an action here, so its success counts as no progress.\<close>

lemma written_entrypoint_is_no_progress:
  "map xr_semantic_progress
     (execution_results_for_action (classify_planned_action_intents ''write_file'' payload dir) True []) = [False]"
  by (simp add: classify_planned_action_intents_def execution_results_for_action_def new_result_def)

end
