(* ===== verification/Plan_Preconditions.thy ===== *)
theory Plan_Preconditions
  imports Compiler_Hints Constraint_Engine Development_Objectives Runtime_Events
begin

text \<open>
  The checks a planned batch has to pass, of \<^verbatim>\<open>canon-utils/canon-loop/src/planning_preconditions.rs\<close>,
  with the workspace model of \<^verbatim>\<open>env_model.rs\<close> they start from: the preconditions and the repair
  intents derived from them, the intents of the planned actions, and the four validations.

  The file system is the argument \<open>exists\<close>, which tells whether a path exists. A \<^verbatim>\<open>Result<(), String>\<close>
  is a value of \<^typ>\<open>string + unit\<close>; \<open>checks\<close> returns the first error of a sequence of checks, as the
  early returns of the source do.
\<close>

section \<open>Results\<close>

type_synonym check = "string + unit"

definition fail_if :: "bool \<Rightarrow> string \<Rightarrow> check" where
  "fail_if b msg = (if b then Inl msg else Inr ())"

fun checks :: "check list \<Rightarrow> check" where
  "checks [] = Inr ()"
| "checks (r # rs) = (case r of Inl e \<Rightarrow> Inl e | Inr _ \<Rightarrow> checks rs)"

lemma fail_if_ok [simp]: "fail_if b msg = Inr () \<longleftrightarrow> \<not> b"
  by (simp add: fail_if_def)

lemma checks_ok [simp]: "checks rs = Inr () \<longleftrightarrow> (\<forall>r \<in> set rs. r = Inr ())"
  by (induction rs) (auto split: sum.splits)

declare checks.simps(2) [simp del]

section \<open>The workspace model\<close>

datatype EntrypointKind = EK_None | EK_Bin | EK_Lib | EK_Mixed

fun entrypoint_as_str :: "EntrypointKind \<Rightarrow> string" where
  "entrypoint_as_str EK_None = ''none''"
| "entrypoint_as_str EK_Bin = ''bin''"
| "entrypoint_as_str EK_Lib = ''lib''"
| "entrypoint_as_str EK_Mixed = ''mixed''"

record ModuleGap =
  mg_declared_in :: path
  mg_module_name :: string
  mg_expected_paths :: "path list"

record WorkspaceModel =
  wm_target_root :: path
  wm_path_exists :: bool
  wm_repo_initialized :: bool
  wm_cargo_toml_exists :: bool
  wm_cargo_lock_exists :: bool
  wm_crate_name :: "string option"
  wm_src_dir_exists :: bool
  wm_entrypoint_kind :: EntrypointKind
  wm_rust_file_count :: usize
  wm_source_files :: "path list"
  wm_module_gaps :: "ModuleGap list"

datatype BootstrapCommandChoice = BC_CargoNew | BC_CargoInit | BC_NoBootstrapNeeded

fun bootstrap_choice_as_str :: "BootstrapCommandChoice \<Rightarrow> string" where
  "bootstrap_choice_as_str BC_CargoNew = ''cargo_new''"
| "bootstrap_choice_as_str BC_CargoInit = ''cargo_init''"
| "bootstrap_choice_as_str BC_NoBootstrapNeeded = ''no_bootstrap_needed''"

definition select_bootstrap_command :: "(path \<Rightarrow> bool) \<Rightarrow> path \<Rightarrow> BootstrapCommandChoice" where
  "select_bootstrap_command exists dir =
     (if \<not> exists dir then BC_CargoNew
      else if \<not> exists (path_join dir ''Cargo.toml'') then BC_CargoInit
      else BC_NoBootstrapNeeded)"

definition semantic_state_matches_workspace_model :: "bool \<Rightarrow> bool \<Rightarrow> WorkspaceModel \<Rightarrow> bool" where
  "semantic_state_matches_workspace_model path_exists cargo_project model \<longleftrightarrow>
     path_exists = wm_path_exists model \<and> cargo_project = wm_cargo_toml_exists model"

definition gap_summary :: "ModuleGap \<Rightarrow> string" where
  "gap_summary gap = mg_module_name gap @ '' -> '' @ join '' or '' (mg_expected_paths gap)"

definition workspace_planner_lines :: "WorkspaceModel \<Rightarrow> string list" where
  "workspace_planner_lines m =
     [''target_root='' @ wm_target_root m, ''path_exists='' @ show_bool (wm_path_exists m)] @
     (if \<not> wm_path_exists m
      then [''precondition: target workspace missing; first action must create/init it'']
      else
        [''repo_initialized='' @ show_bool (wm_repo_initialized m),
         ''cargo_project='' @ show_bool (wm_cargo_toml_exists m)] @
        opt_fact ''crate_name='' (wm_crate_name m) @
        [''src_dir_exists='' @ show_bool (wm_src_dir_exists m),
         ''entrypoint_kind='' @ entrypoint_as_str (wm_entrypoint_kind m),
         ''rust_file_count='' @ show_word (wm_rust_file_count m)] @
        (if wm_source_files m \<noteq> [] then [''file_graph='' @ join '', '' (take 8 (wm_source_files m))] else []) @
        (if \<not> wm_cargo_toml_exists m
         then [''precondition: directory exists but is not a Cargo project; prefer cargo init''] else []) @
        (if wm_cargo_toml_exists m \<and> wm_entrypoint_kind m = EK_None
         then [''precondition: Cargo project has no src/main.rs or src/lib.rs; create an entrypoint before cargo check''] else []) @
        (if wm_module_gaps m \<noteq> []
         then [''precondition: missing module files detected; create them before cargo check: '' @
               join ''; '' (map gap_summary (take 4 (wm_module_gaps m)))] else []))"

section \<open>Preconditions and repair intents\<close>

datatype PlanningPrecondition =
    MustBootstrapWorkspace
  | MustInitCargoProject
  | MustCreateEntrypoint
  | MustCreateMissingModules
  | MustFixDeadCodeForbidConflict
  | MustFixUnresolvedImport
  | MustDefineMissingSymbol
  | MustResolveDuplicateDefinition
  | MustFixTraitBoundFailure

datatype RepairIntent =
    RI_BootstrapWorkspace
  | RI_InitCargoProject
  | RI_CreateEntrypoint
  | RI_CreateMissingModules
  | RI_FixDeadCodeForbidConflict
  | RI_FixUnresolvedImport
  | RI_DefineMissingSymbol
  | RI_ResolveDuplicateDefinition
  | RI_FixTraitBoundFailure

definition push_new :: "'a \<Rightarrow> 'a list \<Rightarrow> 'a list" where
  "push_new x out = (if x \<in> set out then out else out @ [x])"

fun hint_precondition :: "CompilerHintKind \<Rightarrow> PlanningPrecondition option" where
  "hint_precondition HK_DeadCodeForbidConflict = Some MustFixDeadCodeForbidConflict"
| "hint_precondition HK_UnresolvedImport = Some MustFixUnresolvedImport"
| "hint_precondition HK_MissingSymbol = Some MustDefineMissingSymbol"
| "hint_precondition HK_DuplicateDefinition = Some MustResolveDuplicateDefinition"
| "hint_precondition HK_TraitBoundFailure = Some MustFixTraitBoundFailure"
| "hint_precondition _ = None"

definition add_hint_precondition :: "CompilerHintRecord \<Rightarrow> PlanningPrecondition list \<Rightarrow> PlanningPrecondition list" where
  "add_hint_precondition h out =
     (case Option.bind (kind_enum h) hint_precondition of None \<Rightarrow> out | Some p \<Rightarrow> push_new p out)"

definition model_preconditions :: "WorkspaceModel \<Rightarrow> PlanningPrecondition list" where
  "model_preconditions m =
     (if \<not> wm_cargo_toml_exists m then [MustInitCargoProject] else []) @
     (if wm_cargo_toml_exists m \<and> wm_entrypoint_kind m = EK_None then [MustCreateEntrypoint] else []) @
     (if wm_module_gaps m \<noteq> [] then [MustCreateMissingModules] else [])"

definition derive_preconditions :: "WorkspaceModel option \<Rightarrow> json list \<Rightarrow> PlanningPrecondition list option" where
  "derive_preconditions model errors =
     (case model of
        Some m \<Rightarrow>
          if \<not> wm_path_exists m then Some [MustBootstrapWorkspace]
          else map_option (\<lambda>hints. fold add_hint_precondition hints (model_preconditions m)) (extract_compiler_hints errors)
      | None \<Rightarrow> map_option (\<lambda>hints. fold add_hint_precondition hints []) (extract_compiler_hints errors))"

fun precondition_line :: "PlanningPrecondition \<Rightarrow> string" where
  "precondition_line MustBootstrapWorkspace = ''must_bootstrap_workspace=true repair=cargo_init_or_create_workspace''"
| "precondition_line MustInitCargoProject = ''must_init_cargo_project=true repair=prefer_cargo_init''"
| "precondition_line MustCreateEntrypoint = ''must_create_entrypoint=true repair=create_src_main_or_lib_before_cargo_check''"
| "precondition_line MustCreateMissingModules = ''must_create_missing_modules=true repair=create_declared_module_files_before_cargo_check''"
| "precondition_line MustFixDeadCodeForbidConflict = ''must_fix_dead_code_forbid_conflict=true repair=remove_allow_dead_code_or_make_code_used''"
| "precondition_line MustFixUnresolvedImport = ''must_fix_unresolved_import=true repair=edit_import_or_define_missing_import_target''"
| "precondition_line MustDefineMissingSymbol = ''must_define_missing_symbol=true repair=define_or_import_missing_symbol''"
| "precondition_line MustResolveDuplicateDefinition = ''must_resolve_duplicate_definition=true repair=semantic_rename_or_remove_duplicate_definition''"
| "precondition_line MustFixTraitBoundFailure = ''must_fix_trait_bound_failure=true repair=edit_local_type_impl_or_callsite_for_trait_bound''"

definition precondition_planner_lines :: "PlanningPrecondition list \<Rightarrow> string list" where
  "precondition_planner_lines ps = map precondition_line ps"

fun intent_of_precondition :: "PlanningPrecondition \<Rightarrow> RepairIntent" where
  "intent_of_precondition MustBootstrapWorkspace = RI_BootstrapWorkspace"
| "intent_of_precondition MustInitCargoProject = RI_InitCargoProject"
| "intent_of_precondition MustCreateEntrypoint = RI_CreateEntrypoint"
| "intent_of_precondition MustCreateMissingModules = RI_CreateMissingModules"
| "intent_of_precondition MustFixDeadCodeForbidConflict = RI_FixDeadCodeForbidConflict"
| "intent_of_precondition MustFixUnresolvedImport = RI_FixUnresolvedImport"
| "intent_of_precondition MustDefineMissingSymbol = RI_DefineMissingSymbol"
| "intent_of_precondition MustResolveDuplicateDefinition = RI_ResolveDuplicateDefinition"
| "intent_of_precondition MustFixTraitBoundFailure = RI_FixTraitBoundFailure"

definition repair_intent_allowed_for_scope :: "RepairIntent \<Rightarrow> string option \<Rightarrow> bool" where
  "repair_intent_allowed_for_scope i scope =
     (if scope \<in> {Some ''workspace'', Some ''tooling''} then i \<in> {RI_BootstrapWorkspace, RI_InitCargoProject} else True)"

fun default_intent_score :: "RepairIntent \<Rightarrow> nat" where
  "default_intent_score RI_BootstrapWorkspace = 0"
| "default_intent_score RI_InitCargoProject = 1"
| "default_intent_score RI_CreateEntrypoint = 2"
| "default_intent_score RI_CreateMissingModules = 3"
| "default_intent_score RI_FixDeadCodeForbidConflict = 4"
| "default_intent_score RI_FixUnresolvedImport = 5"
| "default_intent_score RI_DefineMissingSymbol = 6"
| "default_intent_score RI_ResolveDuplicateDefinition = 7"
| "default_intent_score RI_FixTraitBoundFailure = 8"

definition intent_score :: "string option \<Rightarrow> RepairIntent \<Rightarrow> nat" where
  "intent_score scope i =
     (if scope = Some ''localized'' then (if i \<in> {RI_BootstrapWorkspace, RI_InitCargoProject} then 1 else 0)
      else if scope \<in> {Some ''workspace'', Some ''tooling''}
      then (if i \<in> {RI_BootstrapWorkspace, RI_InitCargoProject} then 0 else 1)
      else default_intent_score i)"

definition reorder_repair_intents_by_scope :: "RepairIntent list \<Rightarrow> string option \<Rightarrow> RepairIntent list" where
  "reorder_repair_intents_by_scope intents scope = sort_key (intent_score scope) intents"

definition add_intent :: "string option \<Rightarrow> PlanningPrecondition \<Rightarrow> RepairIntent list \<Rightarrow> RepairIntent list" where
  "add_intent scope p intents =
     (let i = intent_of_precondition p
      in if \<not> repair_intent_allowed_for_scope i scope then intents else push_new i intents)"

definition derive_repair_intents :: "PlanningPrecondition list \<Rightarrow> string option \<Rightarrow> RepairIntent list" where
  "derive_repair_intents ps scope = reorder_repair_intents_by_scope (fold (add_intent scope) ps []) scope"

definition precondition_of_line :: "string \<Rightarrow> PlanningPrecondition option" where
  "precondition_of_line line =
     (if str_contains line ''must_bootstrap_workspace=true'' then Some MustBootstrapWorkspace
      else if str_contains line ''must_init_cargo_project=true'' then Some MustInitCargoProject
      else if str_contains line ''must_create_entrypoint=true'' then Some MustCreateEntrypoint
      else if str_contains line ''must_create_missing_modules=true'' then Some MustCreateMissingModules
      else if str_contains line ''must_fix_dead_code_forbid_conflict=true'' then Some MustFixDeadCodeForbidConflict
      else if str_contains line ''must_fix_unresolved_import=true'' then Some MustFixUnresolvedImport
      else if str_contains line ''must_define_missing_symbol=true'' then Some MustDefineMissingSymbol
      else if str_contains line ''must_resolve_duplicate_definition=true'' then Some MustResolveDuplicateDefinition
      else if str_contains line ''must_fix_trait_bound_failure=true'' then Some MustFixTraitBoundFailure
      else None)"

definition add_line_precondition :: "string \<Rightarrow> PlanningPrecondition list \<Rightarrow> PlanningPrecondition list" where
  "add_line_precondition line out = (case precondition_of_line line of None \<Rightarrow> out | Some p \<Rightarrow> push_new p out)"

definition derive_preconditions_from_lines :: "string list \<Rightarrow> PlanningPrecondition list" where
  "derive_preconditions_from_lines ls = fold add_line_precondition ls []"

fun repair_intent_line :: "RepairIntent \<Rightarrow> string" where
  "repair_intent_line RI_BootstrapWorkspace = ''repair_intent=bootstrap_workspace priority=1 first_batch=create_or_init_workspace''"
| "repair_intent_line RI_InitCargoProject = ''repair_intent=init_cargo_project priority=2 first_batch=run_cargo_init''"
| "repair_intent_line RI_CreateEntrypoint = ''repair_intent=create_entrypoint priority=3 first_batch=create_src_main_or_lib''"
| "repair_intent_line RI_CreateMissingModules = ''repair_intent=create_missing_modules priority=4 first_batch=create_declared_module_files''"
| "repair_intent_line RI_FixDeadCodeForbidConflict = ''repair_intent=fix_dead_code_forbid_conflict priority=5 first_batch=edit_conflicting_allow_dead_code''"
| "repair_intent_line RI_FixUnresolvedImport = ''repair_intent=fix_unresolved_import priority=6 first_batch=edit_import_or_define_target''"
| "repair_intent_line RI_DefineMissingSymbol = ''repair_intent=define_missing_symbol priority=7 first_batch=define_or_import_symbol''"
| "repair_intent_line RI_ResolveDuplicateDefinition = ''repair_intent=resolve_duplicate_definition priority=8 first_batch=semantic_rename_duplicate''"
| "repair_intent_line RI_FixTraitBoundFailure = ''repair_intent=fix_trait_bound_failure priority=9 first_batch=edit_type_impl_or_callsite''"

definition repair_intent_lines :: "RepairIntent list \<Rightarrow> string list" where
  "repair_intent_lines intents = map repair_intent_line intents"

section \<open>Intents of the planned actions\<close>

datatype ActionIntent =
    AI_BootstrapWorkspace
  | AI_InitCargoProject
  | AI_ValidateCargoCheck
  | AI_CreateEntrypoint path
  | AI_CreateModuleFile path
  | AI_RestructureModules path
  | AI_FixDeadCodeConflict path
  | AI_FixUnresolvedImport path
  | AI_DefineMissingSymbol path
  | AI_ResolveDuplicateDefinition path
  | AI_FixTraitBoundFailure path

text \<open>The hunks of a patch that parses; the parser never panics on these calls (lemma
  \<open>parse_patch_returns\<close> below), so its option is read as a plain result.\<close>

definition parsed_hunks :: "string \<Rightarrow> Hunk list" where
  "parsed_hunks patch = (case parse_patch patch of Some (Inr args) \<Rightarrow> ap_hunks args | _ \<Rightarrow> [])"

fun hunk_path :: "Hunk \<Rightarrow> path" where
  "hunk_path (AddFile p c) = p"
| "hunk_path (DeleteFile p) = p"
| "hunk_path (UpdateFile p mv cs) = p"

fun added_path :: "Hunk \<Rightarrow> path option" where
  "added_path (AddFile p c) = Some p"
| "added_path _ = None"

definition payload_str :: "LoopPlanned \<Rightarrow> string \<Rightarrow> string option" where
  "payload_str a key = json_get_str (lp_action_payload a) key"

definition touched_paths :: "LoopPlanned \<Rightarrow> path list" where
  "touched_paths a =
     (if lp_action_kind a \<in> {''write_file'', ''read_file'', ''list_dir'', ''patch_file''}
      then (case payload_str a ''path'' of None \<Rightarrow> [] | Some p \<Rightarrow> [p])
      else if lp_action_kind a = ''apply_patch''
      then (case payload_str a ''patch'' of None \<Rightarrow> [] | Some patch \<Rightarrow> map hunk_path (parsed_hunks patch))
      else [])"

definition created_paths :: "LoopPlanned \<Rightarrow> path list" where
  "created_paths a =
     (if lp_action_kind a = ''write_file''
      then (case payload_str a ''path'' of None \<Rightarrow> [] | Some p \<Rightarrow> [p])
      else if lp_action_kind a = ''apply_patch''
      then (case payload_str a ''patch'' of None \<Rightarrow> [] | Some patch \<Rightarrow> List.map_filter added_path (parsed_hunks patch))
      else [])"

definition normalized_touched_paths :: "LoopPlanned \<Rightarrow> path \<Rightarrow> path list" where
  "normalized_touched_paths a dir = map (under_root dir) (touched_paths a)"

definition normalized_created_paths :: "LoopPlanned \<Rightarrow> path \<Rightarrow> path list" where
  "normalized_created_paths a dir = map (under_root dir) (created_paths a)"

definition has_trait_bound_edit :: "string \<Rightarrow> bool" where
  "has_trait_bound_edit patch \<longleftrightarrow>
     list_ex (\<lambda>line. (prefix ''+'' line \<or> prefix ''-'' line) \<and> trait_bound_content line) (str_lines patch)"

definition symbol_intent :: "(path \<Rightarrow> ActionIntent) \<Rightarrow> LoopPlanned \<Rightarrow> path \<Rightarrow> ActionIntent list" where
  "symbol_intent mk a dir =
     (case payload_str a ''path'' of None \<Rightarrow> [] | Some p \<Rightarrow> [mk (under_root dir p)])"

definition is_entrypoint_path :: "path \<Rightarrow> bool" where
  "is_entrypoint_path p \<longleftrightarrow> ends_with p ''src/main.rs'' \<or> ends_with p ''src/lib.rs''"

definition command_intents :: "LoopPlanned \<Rightarrow> ActionIntent list" where
  "command_intents a =
     (if lp_action_kind a = ''run_command''
      then (case payload_str a ''cmd'' of None \<Rightarrow> []
            | Some cmd \<Rightarrow>
                (if str_contains cmd ''cargo new'' then [AI_BootstrapWorkspace] else []) @
                (if str_contains cmd ''cargo init'' then [AI_InitCargoProject] else []) @
                (if str_contains cmd ''cargo check'' then [AI_ValidateCargoCheck] else []))
      else [])"

definition file_intents :: "LoopPlanned \<Rightarrow> path \<Rightarrow> ActionIntent list" where
  "file_intents a dir =
     (let patch = or_else (payload_str a ''patch'') []
      in map AI_CreateEntrypoint (filter is_entrypoint_path (normalized_created_paths a dir)) @
         concat (map (\<lambda>p.
             (if str_contains patch ''allow(dead_code)'' \<and> is_entrypoint_path p then [AI_FixDeadCodeConflict p] else []) @
             (if has_trait_bound_edit patch then [AI_FixTraitBoundFailure p] else []))
           (normalized_touched_paths a dir)))"

definition classify_action_intents :: "LoopPlanned \<Rightarrow> path \<Rightarrow> ActionIntent list" where
  "classify_action_intents a dir =
     command_intents a @
     (if lp_action_kind a = ''edit.rename_symbol'' then symbol_intent AI_ResolveDuplicateDefinition a dir
      else if lp_action_kind a = ''edit.move_symbol'' then symbol_intent AI_RestructureModules a dir
      else if lp_action_kind a = ''edit.add_import'' then symbol_intent AI_FixUnresolvedImport a dir
      else if lp_action_kind a = ''edit.define_symbol_stub'' then symbol_intent AI_DefineMissingSymbol a dir
      else if lp_action_kind a = ''edit.create_module_file'' then symbol_intent AI_CreateModuleFile a dir
      else file_intents a dir)"

definition collect_action_intents :: "LoopPlanned list \<Rightarrow> path \<Rightarrow> ActionIntent list" where
  "collect_action_intents actions dir = concat (map (\<lambda>a. classify_action_intents a dir) actions)"

fun action_intent_key :: "ActionIntent \<Rightarrow> string" where
  "action_intent_key AI_BootstrapWorkspace = ''bootstrap_workspace''"
| "action_intent_key AI_InitCargoProject = ''init_cargo_project''"
| "action_intent_key AI_ValidateCargoCheck = ''validate_cargo_check''"
| "action_intent_key (AI_CreateEntrypoint _) = ''create_entrypoint''"
| "action_intent_key (AI_CreateModuleFile _) = ''create_module_file''"
| "action_intent_key (AI_RestructureModules _) = ''restructure_modules''"
| "action_intent_key (AI_FixDeadCodeConflict _) = ''fix_dead_code_conflict''"
| "action_intent_key (AI_FixUnresolvedImport _) = ''fix_unresolved_import''"
| "action_intent_key (AI_DefineMissingSymbol _) = ''define_missing_symbol''"
| "action_intent_key (AI_ResolveDuplicateDefinition _) = ''resolve_duplicate_definition''"
| "action_intent_key (AI_FixTraitBoundFailure _) = ''fix_trait_bound_failure''"

definition touches_any_path :: "LoopPlanned \<Rightarrow> path \<Rightarrow> path list \<Rightarrow> bool" where
  "touches_any_path a dir expected \<longleftrightarrow>
     list_ex (\<lambda>p. list_ex (\<lambda>c. path_eq c p) (normalized_touched_paths a dir)) expected"

definition contains_expected_bootstrap_action :: "LoopPlanned list \<Rightarrow> BootstrapCommandChoice \<Rightarrow> bool" where
  "contains_expected_bootstrap_action actions choice \<longleftrightarrow>
     list_ex (\<lambda>a. tool_selection_correctness (bootstrap_choice_as_str choice) (lp_action_kind a) (lp_action_payload a)) actions"

definition command_contains :: "string \<Rightarrow> LoopPlanned \<Rightarrow> bool" where
  "command_contains pat a \<longleftrightarrow>
     lp_action_kind a = ''run_command'' \<and>
     (case payload_str a ''cmd'' of None \<Rightarrow> False | Some cmd \<Rightarrow> str_contains cmd pat)"

definition contains_cargo_check :: "LoopPlanned list \<Rightarrow> bool" where
  "contains_cargo_check actions \<longleftrightarrow> list_ex (command_contains ''cargo check'') actions"

definition contains_entrypoint_creation :: "LoopPlanned list \<Rightarrow> path \<Rightarrow> bool" where
  "contains_entrypoint_creation actions dir \<longleftrightarrow>
     list_ex (\<lambda>a. touches_any_path a dir [path_join dir ''src/main.rs'', path_join dir ''src/lib.rs'']) actions"

definition contains_module_creation :: "LoopPlanned list \<Rightarrow> path \<Rightarrow> bool" where
  "contains_module_creation actions dir \<longleftrightarrow>
     list_ex (\<lambda>a. lp_action_kind a = ''edit.create_module_file'' \<and>
         (case payload_str a ''path'' of None \<Rightarrow> False
          | Some p \<Rightarrow> path_starts_with (under_root dir p) (path_join dir ''src'') \<and>
                      extension (under_root dir p) = Some ''rs'')) actions"

definition contains_dead_code_conflict_fix :: "LoopPlanned list \<Rightarrow> path \<Rightarrow> bool" where
  "contains_dead_code_conflict_fix actions dir \<longleftrightarrow>
     list_ex (\<lambda>a. touches_any_path a dir [path_join dir ''src/lib.rs'', path_join dir ''src/main.rs''] \<and>
         (if lp_action_kind a = ''apply_patch''
          then (case payload_str a ''patch'' of None \<Rightarrow> False | Some patch \<Rightarrow> str_contains patch ''allow(dead_code)'')
          else True)) actions"

definition touches_test_surface :: "LoopPlanned \<Rightarrow> path \<Rightarrow> bool" where
  "touches_test_surface a dir \<longleftrightarrow>
     touches_any_path a dir [path_join dir ''tests'', path_join dir ''src''] \<and>
     list_ex (\<lambda>p. str_contains p ''/tests/'' \<or> prefix ''tests/'' p \<or> ends_with p ''_test.rs'' \<or> ends_with p ''_tests.rs'')
       (touched_paths a)"

section \<open>Expected targets\<close>

definition expected_entrypoint_paths :: "SemanticStateSummary \<Rightarrow> path \<Rightarrow> path list" where
  "expected_entrypoint_paths s dir =
     (let kind = or_else (ss_entrypoint_kind s) ''none''
      in if kind = ''lib'' then [path_join dir ''src/lib.rs'']
         else if kind = ''bin'' then [path_join dir ''src/main.rs'']
         else [path_join dir ''src/main.rs'', path_join dir ''src/lib.rs''])"

text \<open>\<^verbatim>\<open>split_once\<close> and \<^verbatim>\<open>split\<close> at a text pattern.\<close>

definition split_once_at :: "string \<Rightarrow> string \<Rightarrow> (string \<times> string) option" where
  "split_once_at pat s = map_option (\<lambda>i. (take i s, drop (i + length pat) s)) (str_find pat s)"

function split_str :: "string \<Rightarrow> string \<Rightarrow> string list" where
  "split_str pat s =
     (if pat = [] then [s]
      else (case str_find pat s of None \<Rightarrow> [s] | Some i \<Rightarrow> take i s # split_str pat (drop (i + length pat) s)))"
  by pat_completeness auto
termination
proof (relation "measure (\<lambda>(pat, s). length s)")
  fix pat s :: string and i
  assume "pat \<noteq> []" and "str_find pat s = Some i"
  moreover have "str_find pat [] = None" using \<open>pat \<noteq> []\<close> by simp
  ultimately have "s \<noteq> []" by auto
  with \<open>pat \<noteq> []\<close> show "((pat, drop (i + length pat) s), (pat, s)) \<in> measure (\<lambda>(pat, s). length s)"
    by (cases s; cases pat) auto
qed simp

declare split_str.simps [simp del]

definition expected_module_paths :: "SemanticStateSummary \<Rightarrow> path \<Rightarrow> path list" where
  "expected_module_paths s dir =
     concat (map (\<lambda>gap.
       case split_once_at ''->'' gap of None \<Rightarrow> []
       | Some (_, paths) \<Rightarrow>
           map (under_root dir) (filter (\<lambda>p. p \<noteq> []) (map trim (split_str '' or '' paths)))) (ss_module_gaps s))"

definition expected_dead_code_paths :: "SemanticStateSummary \<Rightarrow> path \<Rightarrow> path list" where
  "expected_dead_code_paths s dir =
     (let out = map (under_root dir) (filter (\<lambda>f. ends_with f ''src/lib.rs'' \<or> ends_with f ''src/main.rs'') (ss_source_files s))
      in if out = [] then [path_join dir ''src/lib.rs'', path_join dir ''src/main.rs''] else out)"

definition expected_hint_paths :: "SemanticStateSummary \<Rightarrow> string \<Rightarrow> path \<Rightarrow> path list" where
  "expected_hint_paths s kind dir =
     sort_dedup_paths (map (under_root dir)
       (concat (map (\<lambda>h. filter (\<lambda>t. t \<noteq> ''none'') (hint_target_files h))
          (filter (\<lambda>h. hint_kind h = kind) (ss_compiler_hints s)))))"

definition hits :: "path list \<Rightarrow> path \<Rightarrow> bool" where
  "hits expected p \<longleftrightarrow> expected = [] \<or> list_ex (\<lambda>c. path_eq c p) expected"

definition contains_expected_entrypoint_target :: "ActionIntent list \<Rightarrow> SemanticStateSummary \<Rightarrow> path \<Rightarrow> bool" where
  "contains_expected_entrypoint_target intents s dir \<longleftrightarrow>
     list_ex (\<lambda>i. case i of AI_CreateEntrypoint p \<Rightarrow> hits (expected_entrypoint_paths s dir) p | _ \<Rightarrow> False) intents"

definition contains_expected_module_target :: "ActionIntent list \<Rightarrow> SemanticStateSummary \<Rightarrow> path \<Rightarrow> bool" where
  "contains_expected_module_target intents s dir \<longleftrightarrow>
     list_ex (\<lambda>i. case i of AI_CreateModuleFile p \<Rightarrow> hits (expected_module_paths s dir) p | _ \<Rightarrow> False) intents"

definition contains_expected_dead_code_target :: "ActionIntent list \<Rightarrow> SemanticStateSummary \<Rightarrow> path \<Rightarrow> bool" where
  "contains_expected_dead_code_target intents s dir \<longleftrightarrow>
     list_ex (\<lambda>i. case i of AI_FixDeadCodeConflict p \<Rightarrow> hits (expected_dead_code_paths s dir) p | _ \<Rightarrow> False) intents"

definition match_action_intent :: "ActionIntent \<Rightarrow> string \<Rightarrow> path list \<Rightarrow> bool" where
  "match_action_intent i kind expected =
     (case i of
        AI_FixUnresolvedImport p \<Rightarrow> kind = ''unresolved_import'' \<and> hits expected p
      | AI_DefineMissingSymbol p \<Rightarrow> kind = ''missing_symbol'' \<and> hits expected p
      | AI_ResolveDuplicateDefinition p \<Rightarrow> kind = ''duplicate_definition'' \<and> hits expected p
      | AI_FixTraitBoundFailure p \<Rightarrow> kind = ''trait_bound_failure'' \<and> hits expected p
      | _ \<Rightarrow> False)"

definition contains_expected_hint_target :: "ActionIntent list \<Rightarrow> SemanticStateSummary \<Rightarrow> string \<Rightarrow> path \<Rightarrow> bool" where
  "contains_expected_hint_target intents s kind dir \<longleftrightarrow>
     list_ex (\<lambda>i. match_action_intent i kind (expected_hint_paths s kind dir)) intents"

section \<open>The state the constraint engine is asked about\<close>

definition summary_entrypoint_missing :: "SemanticStateSummary \<Rightarrow> bool" where
  "summary_entrypoint_missing s \<longleftrightarrow> ss_entrypoint_kind s \<in> {Some ''none'', None} \<and> ss_cargo_project s"

definition has_targeted_localized_hint :: "SemanticStateSummary \<Rightarrow> bool" where
  "has_targeted_localized_hint s \<longleftrightarrow>
     list_ex (\<lambda>h. (case kind_enum h of None \<Rightarrow> False
                   | Some k \<Rightarrow> k \<in> {HK_MissingModule, HK_DeadCodeForbidConflict, HK_MissingEntrypoint,
                       HK_UnresolvedImport, HK_MissingSymbol, HK_DuplicateDefinition, HK_TraitBoundFailure}) \<and>
                  list_ex names_target (hint_target_files h)) (ss_compiler_hints s)"

definition effective_actionable_failure :: "SemanticStateSummary \<Rightarrow> bool" where
  "effective_actionable_failure s \<longleftrightarrow>
     ss_validation_blocked_by_preconditions s \<or> ss_compiler_repair_required s \<or>
     ss_planning_preconditions s \<noteq> [] \<or> ss_module_gaps s \<noteq> [] \<or> summary_entrypoint_missing s \<or>
     has_actionable_compiler_hints s \<or>
     (case primary_failure_class s of None \<Rightarrow> False | Some c \<Rightarrow> c \<noteq> ''no_actionable_failure'')"

definition effective_failure_scope_flags :: "SemanticStateSummary \<Rightarrow> bool \<times> bool \<times> bool" where
  "effective_failure_scope_flags s =
     (ss_failure_scope s = Some ''localized'' \<or> ss_module_gaps s \<noteq> [] \<or> summary_entrypoint_missing s \<or>
        has_targeted_localized_hint s,
      ss_failure_scope s = Some ''workspace'', ss_failure_scope s = Some ''tooling'')"

definition planner_workspace_presence :: "(path \<Rightarrow> bool) \<Rightarrow> path \<Rightarrow> SemanticStateSummary \<Rightarrow> bool \<times> bool" where
  "planner_workspace_presence exists dir s =
     (if exists dir then (True, exists (path_join dir ''Cargo.toml'')) else (ss_path_exists s, ss_cargo_project s))"

text \<open>The literal each of the validations builds, from what is taken for the real workspace and for an
  actionable failure.\<close>

definition summary_constraint_state :: "bool \<times> bool \<Rightarrow> bool \<Rightarrow> SemanticStateSummary \<Rightarrow> ConstraintState" where
  "summary_constraint_state presence actionable s =
     (case effective_failure_scope_flags s of (localized, workspace, tooling) \<Rightarrow>
        \<lparr> cs_semantic_path_exists = ss_path_exists s, cs_semantic_cargo_project = ss_cargo_project s,
          cs_real_path_exists = fst presence, cs_real_cargo_project = snd presence,
          cs_actionable_failure = actionable, cs_validation_blocked = ss_validation_blocked_by_preconditions s,
          cs_entrypoint_missing = summary_entrypoint_missing s, cs_module_gaps_present = (ss_module_gaps s \<noteq> []),
          cs_recent_no_semantic_progress = False,
          cs_failure_class_no_actionable = (primary_failure_class s = Some ''no_actionable_failure''),
          cs_failure_scope_localized = localized, cs_failure_scope_workspace = workspace,
          cs_failure_scope_tooling = tooling, cs_route_objective_contradiction = False, cs_has_plan = False \<rparr>)"

definition action_context :: "ConstraintState \<Rightarrow> ConstraintAction \<Rightarrow> ConstraintContext" where
  "action_context cs action =
     \<lparr> ctx_state = cs, ctx_route = None, ctx_action = Some action, ctx_deterministic_route = None \<rparr>"

section \<open>Validation of the preconditions\<close>

definition validate_validation_action_constraints ::
    "(path \<Rightarrow> bool) \<Rightarrow> LoopPlanned list \<Rightarrow> path \<Rightarrow> SemanticStateSummary \<Rightarrow> check" where
  "validate_validation_action_constraints exists actions dir s =
     (if \<not> contains_cargo_check actions then Inr ()
      else case evaluate_constraint_context (action_context
             (summary_constraint_state (planner_workspace_presence exists dir s) (effective_actionable_failure s) s) Validation) of
        Forbid reason \<Rightarrow>
          if str_contains reason ''target workspace is missing''
          then Inl ''cargo check planned before bootstrapping the target workspace''
          else if str_contains reason ''required files are still missing'' \<and> ss_entrypoint_kind s = Some ''none''
          then Inl ''cargo check planned before creating src/main.rs or src/lib.rs''
          else if str_contains reason ''required files are still missing'' \<and> ss_module_gaps s \<noteq> []
          then Inl ''cargo check planned before creating missing declared module files''
          else Inr ()
      | _ \<Rightarrow> Inr ())"

definition intent_satisfied :: "ActionIntent list \<Rightarrow> path \<Rightarrow> RepairIntent \<Rightarrow> SemanticStateSummary \<Rightarrow> bool" where
  "intent_satisfied intents dir i s =
     (case i of
        RI_BootstrapWorkspace \<Rightarrow> AI_BootstrapWorkspace \<in> set intents \<or> AI_InitCargoProject \<in> set intents
      | RI_InitCargoProject \<Rightarrow> AI_InitCargoProject \<in> set intents
      | RI_CreateEntrypoint \<Rightarrow> contains_expected_entrypoint_target intents s dir
      | RI_CreateMissingModules \<Rightarrow> contains_expected_module_target intents s dir
      | RI_FixDeadCodeForbidConflict \<Rightarrow> contains_expected_dead_code_target intents s dir
      | RI_FixUnresolvedImport \<Rightarrow> contains_expected_hint_target intents s ''unresolved_import'' dir
      | RI_DefineMissingSymbol \<Rightarrow> contains_expected_hint_target intents s ''missing_symbol'' dir
      | RI_ResolveDuplicateDefinition \<Rightarrow> contains_expected_hint_target intents s ''duplicate_definition'' dir
      | RI_FixTraitBoundFailure \<Rightarrow> contains_expected_hint_target intents s ''trait_bound_failure'' dir)"

fun unsatisfied_intent_error :: "RepairIntent \<Rightarrow> string" where
  "unsatisfied_intent_error RI_BootstrapWorkspace = ''first planned batch must bootstrap the workspace''"
| "unsatisfied_intent_error RI_InitCargoProject = ''first planned batch must initialize Cargo in the target directory''"
| "unsatisfied_intent_error RI_CreateEntrypoint = ''first planned batch must create an entrypoint before validation''"
| "unsatisfied_intent_error RI_CreateMissingModules = ''first planned batch must create missing declared module files''"
| "unsatisfied_intent_error RI_FixDeadCodeForbidConflict = ''first planned batch must address the allow(dead_code) vs forbid(dead_code) conflict''"
| "unsatisfied_intent_error RI_FixUnresolvedImport = ''first planned batch must target the unresolved import location''"
| "unsatisfied_intent_error RI_DefineMissingSymbol = ''first planned batch must target the missing symbol location''"
| "unsatisfied_intent_error RI_ResolveDuplicateDefinition = ''first planned batch must target the duplicate definition location''"
| "unsatisfied_intent_error RI_FixTraitBoundFailure = ''first planned batch must target the trait-bound failure location''"

definition validate_highest_priority_intent :: "LoopPlanned list \<Rightarrow> path \<Rightarrow> RepairIntent \<Rightarrow> SemanticStateSummary \<Rightarrow> check" where
  "validate_highest_priority_intent actions dir i s =
     fail_if (\<not> intent_satisfied (collect_action_intents actions dir) dir i s) (unsatisfied_intent_error i)"

fun is_compiler_repair :: "ActionIntent \<Rightarrow> bool" where
  "is_compiler_repair (AI_FixDeadCodeConflict _) = True"
| "is_compiler_repair (AI_FixUnresolvedImport _) = True"
| "is_compiler_repair (AI_DefineMissingSymbol _) = True"
| "is_compiler_repair (AI_ResolveDuplicateDefinition _) = True"
| "is_compiler_repair (AI_FixTraitBoundFailure _) = True"
| "is_compiler_repair _ = False"

definition validate_no_actionable_failure :: "ActionIntent list \<Rightarrow> SemanticStateSummary \<Rightarrow> check" where
  "validate_no_actionable_failure intents s =
     (if list_ex is_compiler_repair intents
      then (case evaluate_constraint_context (action_context
              (summary_constraint_state (ss_path_exists s, ss_cargo_project s) (effective_actionable_failure s) s) RepairLocalized) of
              Allow \<Rightarrow> Inr ()
            | Forbid reason \<Rightarrow> fail_if (str_contains reason ''no actionable failure'') reason
            | RewriteAction _ reason \<Rightarrow> fail_if (str_contains reason ''no actionable failure'') reason
            | RewriteRoute _ reason \<Rightarrow> fail_if (str_contains reason ''no actionable failure'') reason)
      else Inr ())"

definition validate_failure_scope :: "ActionIntent list \<Rightarrow> SemanticStateSummary \<Rightarrow> check" where
  "validate_failure_scope intents s =
     fail_if (list_ex is_compiler_repair intents \<and>
              \<not> failure_scope_is_sufficient (ss_compiler_repair_required s) (length (ss_compiler_hints s)) (ss_failure_scope s))
       ''compiler failure lacks scoped target information; refresh context or classify failure scope before targeted repair''"

definition classify_constraint_action_for_plan :: "LoopPlanned \<Rightarrow> ConstraintAction option" where
  "classify_constraint_action_for_plan a =
     (if lp_action_kind a = ''run_command'' then
        map_option (\<lambda>cmd.
          if str_contains cmd ''cargo init'' then CargoInit
          else if str_contains cmd ''cargo new'' then CargoNew
          else if str_contains cmd ''cargo check'' \<or> str_contains cmd ''cargo build'' \<or> str_contains cmd ''cargo test''
          then Validation
          else RepairWorkspace) (payload_str a ''cmd'')
      else if lp_action_kind a \<in> {''apply_patch'', ''patch_file'', ''write_file''} then
        (let p = or_else (payload_str a ''path'') []
         in if ends_with p ''Cargo.toml'' \<or> ends_with p ''.cargo/config.toml'' \<or>
               ends_with p ''rust-toolchain.toml'' \<or> ends_with p ''rust-toolchain''
            then Some RepairWorkspace else Some RepairLocalized)
      else if lp_action_kind a \<in> {''edit.rename_symbol'', ''edit.move_symbol'', ''edit.add_import'',
                                  ''edit.define_symbol_stub'', ''edit.create_module_file''}
      then Some RepairLocalized
      else None)"

definition action_legality :: "ConstraintState \<Rightarrow> LoopPlanned \<Rightarrow> check" where
  "action_legality cs a =
     (case classify_constraint_action_for_plan a of
        None \<Rightarrow> Inr ()
      | Some action \<Rightarrow>
          (case evaluate_constraint_context (action_context cs action) of
             Allow \<Rightarrow> Inr ()
           | Forbid reason \<Rightarrow> Inl reason
           | RewriteAction _ reason \<Rightarrow> Inl reason
           | RewriteRoute _ reason \<Rightarrow> Inl reason))"

definition validate_repair_action_legality ::
    "(path \<Rightarrow> bool) \<Rightarrow> LoopPlanned list \<Rightarrow> path \<Rightarrow> SemanticStateSummary \<Rightarrow> check" where
  "validate_repair_action_legality exists actions dir s =
     checks (map (action_legality (summary_constraint_state (planner_workspace_presence exists dir s) (effective_actionable_failure s) s)) actions)"

definition validate_bootstrap :: "(path \<Rightarrow> bool) \<Rightarrow> LoopPlanned list \<Rightarrow> path \<Rightarrow> check" where
  "validate_bootstrap exists actions dir =
     (case select_bootstrap_command exists dir of
        BC_CargoNew \<Rightarrow> fail_if (\<not> contains_expected_bootstrap_action actions BC_CargoNew)
          ''target workspace is missing; first plan must create the workspace with cargo new''
      | BC_CargoInit \<Rightarrow> fail_if (\<not> contains_expected_bootstrap_action actions BC_CargoInit)
          ''target directory exists but is not a Cargo project; first plan must initialize it with cargo init''
      | BC_NoBootstrapNeeded \<Rightarrow>
          Inl ''semantic state says bootstrap is required, but the target already contains Cargo.toml; refresh observation before planning bootstrap'')"

definition validate_preconditions ::
    "(path \<Rightarrow> bool) \<Rightarrow> LoopPlanned list \<Rightarrow> path \<Rightarrow> PlanningPrecondition list \<Rightarrow> SemanticStateSummary \<Rightarrow> check" where
  "validate_preconditions exists actions dir ps s =
     (let intents = derive_repair_intents ps None; action_intents = collect_action_intents actions dir;
          checked = contains_cargo_check actions
      in checks
        [if MustBootstrapWorkspace \<in> set ps then validate_bootstrap exists actions dir else Inr (),
         fail_if (MustInitCargoProject \<in> set ps \<and> \<not> contains_expected_bootstrap_action actions BC_CargoInit)
           ''target directory exists but is not a Cargo project; first plan must initialize Cargo'',
         validate_validation_action_constraints exists actions dir s,
         fail_if (MustCreateEntrypoint \<in> set ps \<and> checked \<and> \<not> contains_entrypoint_creation actions dir)
           ''cargo check planned before creating src/main.rs or src/lib.rs'',
         fail_if (MustCreateMissingModules \<in> set ps \<and> checked \<and> \<not> contains_module_creation actions dir)
           ''cargo check planned before creating missing declared module files'',
         fail_if (MustFixDeadCodeForbidConflict \<in> set ps \<and> checked \<and> \<not> contains_dead_code_conflict_fix actions dir)
           ''cargo check planned before fixing allow(dead_code) vs forbid(dead_code) conflict'',
         fail_if (MustFixUnresolvedImport \<in> set ps \<and> checked \<and> \<not> contains_expected_hint_target action_intents s ''unresolved_import'' dir)
           ''cargo check planned before fixing unresolved import'',
         fail_if (MustDefineMissingSymbol \<in> set ps \<and> checked \<and> \<not> contains_expected_hint_target action_intents s ''missing_symbol'' dir)
           ''cargo check planned before defining or importing missing symbol'',
         fail_if (MustResolveDuplicateDefinition \<in> set ps \<and> checked \<and> \<not> contains_expected_hint_target action_intents s ''duplicate_definition'' dir)
           ''cargo check planned before resolving duplicate definition'',
         fail_if (MustFixTraitBoundFailure \<in> set ps \<and> checked \<and> \<not> contains_expected_hint_target action_intents s ''trait_bound_failure'' dir)
           ''cargo check planned before fixing actionable trait bound failure'',
         case intents of [] \<Rightarrow> Inr () | highest_priority # _ \<Rightarrow> validate_highest_priority_intent actions dir highest_priority s,
         validate_no_actionable_failure action_intents s,
         validate_failure_scope action_intents s,
         validate_repair_action_legality exists actions dir s])"

section \<open>Alignment with route, objective, trend and strategy\<close>

definition names_repair_objective :: "string \<Rightarrow> bool" where
  "names_repair_objective objective \<longleftrightarrow>
     str_contains objective ''remove validation blockers'' \<or>
     str_contains objective ''reduce compiler repair pressure'' \<or>
     str_contains objective ''break the stalled repair loop'' \<or>
     str_contains objective ''lower invalid-plan rate'' \<or>
     str_contains objective ''increase repair resolution rate''"

definition parse_route_choice :: "string \<Rightarrow> ConstraintRoute option" where
  "parse_route_choice choice =
     (if choice = ''observe'' then Some R_Observe
      else if choice = ''plan'' then Some R_Plan
      else if choice = ''act'' then Some R_Act
      else if choice = ''verify'' then Some R_Verify
      else if choice = ''conclude'' then Some R_Conclude
      else None)"

definition validate_objective_route_plan_alignment ::
    "LoopPlanned list \<Rightarrow> path \<Rightarrow> string \<Rightarrow> string \<Rightarrow> SemanticStateSummary \<Rightarrow> check" where
  "validate_objective_route_plan_alignment actions dir route_choice primary_objective s =
     (let action_intents = collect_action_intents actions dir;
          has_validation = AI_ValidateCargoCheck \<in> set action_intents;
          has_repair = list_ex (\<lambda>i. i \<notin> {AI_ValidateCargoCheck, AI_BootstrapWorkspace, AI_InitCargoProject}) action_intents;
          requires_repair = effective_actionable_failure s \<or> names_repair_objective primary_objective
      in if route_choice = ''plan'' \<and> requires_repair \<and> has_validation \<and> \<not> has_repair
         then Inl ''first planned batch contradicts the active repair objective; it validates without addressing the repair target''
         else case evaluate_constraint_context
             \<lparr> ctx_state = summary_constraint_state (ss_path_exists s, ss_cargo_project s) requires_repair s,
               ctx_route = parse_route_choice route_choice,
               ctx_action = (if has_validation then Some Validation else if has_repair then Some RepairLocalized else None),
               ctx_deterministic_route = None \<rparr> of
           RewriteRoute r reason \<Rightarrow>
             if r = R_Plan \<and> route_choice = ''verify''
             then Inl ''route choice contradicts the active repair objective; verification is premature''
             else Inl reason
         | Forbid reason \<Rightarrow> Inl reason
         | RewriteAction _ reason \<Rightarrow> Inl reason
         | Allow \<Rightarrow> Inr ())"

definition is_discovery :: "LoopPlanned \<Rightarrow> bool" where
  "is_discovery a \<longleftrightarrow> lp_action_kind a \<in> {''list_dir'', ''read_file'', ''search_files''}"

definition strategy_check :: "LoopPlanned list \<Rightarrow> path \<Rightarrow> SemanticStateSummary \<Rightarrow> DevelopmentStrategyKind \<Rightarrow> check" where
  "strategy_check actions dir s strategy =
     (case strategy of
        FixConfigLintPolicy \<Rightarrow>
          fail_if (\<not> list_ex (\<lambda>a. touches_any_path a dir [path_join dir ''.cargo/config.toml'', path_join dir ''Cargo.toml'']) actions)
            ''active development strategy requires a config-level lint/toolchain fix before more source edits''
      | DiscoverTestSurface \<Rightarrow>
          fail_if (\<not> list_all is_discovery actions)
            ''active development strategy requires discovery-only work to map the existing test surface''
      | AddRegressionTest \<Rightarrow>
          fail_if (\<not> list_ex (\<lambda>a. touches_test_surface a dir) actions)
            ''active development strategy requires the first batch to touch the test surface''
      | SimplifyPlanBatch \<Rightarrow>
          fail_if (1 < length actions)
            ''active development strategy requires a simpler first batch; emit one action only''
      | SK_CreateMissingModules \<Rightarrow>
          fail_if (\<not> contains_expected_module_target (collect_action_intents actions dir) s dir)
            ''active development strategy requires creating or wiring the missing module files first''
      | RefreshContextBeforeRetry \<Rightarrow>
          fail_if (\<not> list_ex is_discovery actions)
            ''active development strategy requires refreshing context before retrying another repair''
      | PlanSymbolAwareRename \<Rightarrow>
          fail_if (\<not> list_ex (\<lambda>a. lp_action_kind a = ''edit.rename_symbol'') actions)
            ''active development strategy requires a semantic rename action driven by graph-backed symbol context''
      | SK_RestructureModules \<Rightarrow>
          fail_if (\<not> list_ex (\<lambda>a. lp_action_kind a = ''edit.move_symbol'') actions)
            ''active development strategy requires a semantic module-restructure action driven by graph hotspots''
      | _ \<Rightarrow> Inr ())"

definition validate_development_strategy_alignment ::
    "(f32 \<Rightarrow> string) \<Rightarrow> LoopPlanned list \<Rightarrow> path \<Rightarrow> SemanticStateSummary \<Rightarrow> SelfDevelopmentObjectiveState \<Rightarrow>
     ObjectiveTrendState \<Rightarrow> DevelopmentStrategyKind option \<Rightarrow> check" where
  "validate_development_strategy_alignment fmt actions dir s os t forced =
     strategy_check actions dir s (or_else forced (primary_development_strategy_kind fmt os t s))"

definition classify_attempted_kind_class :: "string \<Rightarrow> PlannedActionClass" where
  "classify_attempted_kind_class kind =
     (if kind = ''validate_cargo_check'' then Verification
      else if kind \<in> {''bootstrap_workspace'', ''init_cargo_project'', ''create_entrypoint'', ''create_module_file'',
                      ''restructure_modules'', ''fix_dead_code_conflict'', ''fix_unresolved_import'',
                      ''define_missing_symbol'', ''resolve_duplicate_definition'', ''fix_trait_bound_failure''}
      then Mutation
      else if kind \<in> {''read_file'', ''list_dir'', ''search_files'', ''observe_workspace''} then PassiveDiscovery
      else UnknownClass)"

definition last_attempted_kind :: "SemanticExecutionResultRecord list \<Rightarrow> string option" where
  "last_attempted_kind results =
     Option.bind (find (\<lambda>r. xr_attempted_kind r \<noteq> None) (rev results)) xr_attempted_kind"

definition last_attempted_action_class :: "SemanticExecutionResultRecord list \<Rightarrow> PlannedActionClass option" where
  "last_attempted_action_class results = map_option classify_attempted_kind_class (last_attempted_kind results)"

definition first_action_class :: "LoopPlanned list \<Rightarrow> PlannedActionClass option" where
  "first_action_class actions =
     (case actions of [] \<Rightarrow> None | a # _ \<Rightarrow> Some (classify_planned_action_class (lp_action_kind a) (lp_action_payload a)))"

definition validate_trend_intent_alignment ::
    "LoopPlanned list \<Rightarrow> path \<Rightarrow> SemanticExecutionResultRecord list \<Rightarrow> ObjectiveTrendState \<Rightarrow> check" where
  "validate_trend_intent_alignment actions dir results t =
     checks
       [fail_if (high_invalid_plan_requires_simple_batch (invalid_plan_rate t) (ot_planning_attempts t) \<and> 1 < length actions)
          ''high invalid-plan pressure requires a single-action first batch; simplify the next plan'',
        fail_if (2 \<le> ot_current_no_progress_streak t \<and>
                 (case first_action_class actions of None \<Rightarrow> False
                  | Some c \<Rightarrow> no_progress_forces_change (ot_current_no_progress_streak t) c))
          ''stalled loop requires a state-changing first batch; passive discovery or validation cannot lead'',
        fail_if (0 < ot_current_no_progress_streak t \<and>
                 (case (last_attempted_action_class results, first_action_class actions) of
                    (Some previous, Some planned) \<Rightarrow> previous = planned \<and> planned \<in> {PassiveDiscovery, Verification}
                  | _ \<Rightarrow> False))
          ''first planned batch repeats the same zero-progress passive action class; choose a state-changing action'',
        if ot_current_no_progress_streak t = 0 \<or> ot_repeated_stall_count t = 0 then Inr ()
        else case last_attempted_kind results of
               None \<Rightarrow> Inr ()
             | Some kind \<Rightarrow>
                 fail_if (list_ex (\<lambda>i. action_intent_key i = kind) (collect_action_intents actions dir))
                   ''first planned batch repeats the same stalled repair intent; choose a different repair strategy'']"

definition route_choice_contradicts_primary_objective :: "string \<Rightarrow> string \<Rightarrow> SemanticStateSummary \<Rightarrow> bool" where
  "route_choice_contradicts_primary_objective route_choice primary_objective s \<longleftrightarrow>
     (ss_validation_blocked_by_preconditions s \<or> ss_compiler_repair_required s \<or> ss_planning_preconditions s \<noteq> [] \<or>
      names_repair_objective primary_objective) \<and> route_choice \<in> {''verify'', ''conclude''}"

definition objective_focus_label :: "string \<Rightarrow> string" where
  "objective_focus_label objective = (if names_repair_objective objective then ''repair'' else ''sustain'')"

definition goal_route_objective_drift :: "string \<Rightarrow> string \<Rightarrow> bool" where
  "goal_route_objective_drift goal_objective route_objective \<longleftrightarrow>
     objective_focus_label goal_objective \<noteq> objective_focus_label route_objective"

section \<open>Properties\<close>

lemma parse_patch_returns: "parse_patch patch \<noteq> None"
proof -
  define ls where "ls = str_lines (trim patch)"
  have "2 \<le> length ls" if "check_patch_boundaries_strict ls = None"
  proof (rule ccontr)
    assume "\<not> 2 \<le> length ls"
    then consider "ls = []" | l where "ls = [l]" by (cases ls rule: remdups_adj.cases) auto
    then show False using that
      by cases (auto simp: check_patch_boundaries_strict_def check_start_and_end_lines_strict_def
          BEGIN_PATCH_MARKER_def END_PATCH_MARKER_def split: if_splits)
  qed
  then show ?thesis
    by (cases "check_patch_boundaries_strict ls")
       (auto simp: parse_patch_def parse_patch_text_def PARSE_IN_STRICT_MODE_def Let_def lenient_is_strict
         ls_def [symmetric] split: sum.splits; simp add: ls_def lenient_is_strict)+
qed

lemma distinct_push_new [simp]: "distinct out \<Longrightarrow> distinct (push_new x out)"
  by (simp add: push_new_def)

lemma set_push_new [simp]: "set (push_new x out) = insert x (set out)"
  by (auto simp: push_new_def)

lemma precondition_of_precondition_line: "precondition_of_line (precondition_line p) = Some p"
  by (cases p) (simp_all, code_simp+)

lemma fold_push_new: "distinct (out @ xs) \<Longrightarrow> fold push_new xs out = out @ xs"
  by (induction xs arbitrary: out) (auto simp: push_new_def)

lemma preconditions_from_own_lines:
  assumes "distinct ps"
  shows "derive_preconditions_from_lines (precondition_planner_lines ps) = ps"
proof -
  have "fold add_line_precondition (map precondition_line ps) out = fold push_new ps out" for out
    by (induction ps arbitrary: out) (simp_all add: add_line_precondition_def precondition_of_precondition_line)
  then show ?thesis
    using assms by (simp add: derive_preconditions_from_lines_def precondition_planner_lines_def fold_push_new)
qed

lemma distinct_hint_preconditions: "distinct out \<Longrightarrow> distinct (fold add_hint_precondition hs out)"
  by (induction hs arbitrary: out) (auto simp: add_hint_precondition_def split: option.splits)

lemma distinct_derive_preconditions: "derive_preconditions model errors = Some ps \<Longrightarrow> distinct ps"
  by (auto simp: derive_preconditions_def model_preconditions_def intro!: distinct_hint_preconditions
      split: option.splits if_splits)

lemma set_intents:
  "set (fold (add_intent None) ps out) = set out \<union> intent_of_precondition ` set ps \<and>
   (distinct out \<longrightarrow> distinct (fold (add_intent None) ps out))"
  by (induction ps arbitrary: out) (auto simp: add_intent_def repair_intent_allowed_for_scope_def Let_def)

lemma default_intent_score_inj: "default_intent_score a = default_intent_score b \<Longrightarrow> a = b"
  by (cases a; cases b) auto


definition sample_model :: WorkspaceModel where
  "sample_model =
     \<lparr> wm_target_root = ''/w'', wm_path_exists = True, wm_repo_initialized = True, wm_cargo_toml_exists = True,
       wm_cargo_lock_exists = False, wm_crate_name = Some ''w'', wm_src_dir_exists = True, wm_entrypoint_kind = EK_None,
       wm_rust_file_count = 1, wm_source_files = [''src/index.rs''], wm_module_gaps = [] \<rparr>"


subsection \<open>Two checks that miss their aim\<close>

text \<open>
  The phrases the route and drift checks look for are none of the texts an objective has, so the
  objective never counts as a repair objective and no drift is ever seen between two objectives.\<close>

lemma objective_texts_name_no_repair:
  "\<not> names_repair_objective (objective_focus_text k)"
  "\<not> goal_route_objective_drift (objective_focus_text k) (objective_focus_text k')"
proof -
  have "\<not> names_repair_objective (objective_focus_text k)" for k
    by (cases k) (simp_all, code_simp+)
  then show "\<not> names_repair_objective (objective_focus_text k)"
    "\<not> goal_route_objective_drift (objective_focus_text k) (objective_focus_text k')"
    by (simp_all add: goal_route_objective_drift_def objective_focus_label_def)
qed

text \<open>
  An action touches the test surface only if one of its paths is the directory \<^verbatim>\<open>tests\<close> or \<^verbatim>\<open>src\<close> itself,
  so writing a file below these directories does not count.\<close>

lemma test_surface_is_a_directory:
  assumes "touches_test_surface a dir"
  shows "\<exists>p \<in> set (touched_paths a). path_eq (under_root dir p) (path_join dir ''tests'') \<or>
    path_eq (under_root dir p) (path_join dir ''src'')"
  using assms by (auto simp: touches_test_surface_def touches_any_path_def normalized_touched_paths_def list_ex_iff)

end
