(* ===== verification/Loop_Policy.thy ===== *)
theory Loop_Policy
  imports Constraint_Engine Compiler_Hints Development_Objectives
begin

text \<open>
  The decision tables of the planning loop, of \<^verbatim>\<open>canon-utils/canon-loop/src/policy.rs\<close> (classes of
  actions and their outcomes, recovery rules, observation modes, bootstrap effects and the retry
  policy after an invalid plan) and of \<^verbatim>\<open>canon-utils/canon-loop/src/harness_repair.rs\<close> (the repair loop of
  the harness with its synthetic state space).

  String constants of the source that only name an event or a reason are kept as strings. The
  reason texts of the harness decisions are kept too, since the directive carries them.
\<close>

section \<open>Classes of actions and outcomes\<close>

datatype CommandClass =
    CC_Discovery | CC_Edit | CC_Validation | CC_Bootstrap | CC_Completion | CC_Other

datatype ActionOutcomeClass =
    OC_BootstrapSuccess
  | OC_BootstrapSelectionMismatch
  | OC_ValidationFailureCompiler
  | OC_ValidationSuccess
  | OC_SemanticFailure
  | OC_PatchMissingTargetFile
  | OC_PatchApplyFailure
  | OC_EditSuccess
  | OC_Other

definition is_bootstrap_command_output :: "string \<Rightarrow> string \<Rightarrow> bool" where
  "is_bootstrap_command_output stdout stderr \<longleftrightarrow>
     (let out = if stdout \<noteq> [] then stdout else stderr
      in str_contains out ''Creating binary (application) package'' \<or> str_contains out ''Creating library package'' \<or>
         str_contains out ''Creating binary (application) `'' \<or> str_contains out ''Creating library `'')"

definition policy_looks_like_compiler_failure :: "string \<Rightarrow> bool" where
  "policy_looks_like_compiler_failure out \<longleftrightarrow>
     str_contains out ''error[E'' \<or> str_contains out ''could not compile'' \<or>
     str_contains out ''For more information about this error''"

definition looks_like_bootstrap_selection_mismatch :: "string \<Rightarrow> bool" where
  "looks_like_bootstrap_selection_mismatch out \<longleftrightarrow>
     str_contains out ''`cargo init` cannot be run on existing Cargo packages'' \<or>
     str_contains out ''use `cargo new` to create a package in a new subdirectory'' \<or>
     (str_contains out ''destination `'' \<and> str_contains out ''already exists'' \<and>
      str_contains out ''Use `cargo init` to initialize the directory'')"

definition looks_semantically_failed :: "string \<Rightarrow> bool" where
  "looks_semantically_failed out \<longleftrightarrow>
     str_contains out ''test result: FAILED'' \<or> str_contains out ''failed'' \<or> str_contains out ''panic''"

definition semantic_edit_kinds :: "string list" where
  "semantic_edit_kinds =
     [''edit.rename_symbol'', ''edit.move_symbol'', ''edit.add_import'', ''edit.define_symbol_stub'', ''edit.create_module_file'']"

definition classify_action :: "string \<Rightarrow> string \<Rightarrow> string \<Rightarrow> CommandClass" where
  "classify_action action_kind stdout stderr =
     (if action_kind \<in> {''list_dir'', ''read_file'', ''search_files''} then CC_Discovery
      else if action_kind \<in> {''apply_patch'', ''write_file'', ''patch_file''} \<or> action_kind \<in> set semantic_edit_kinds
      then CC_Edit
      else if action_kind = ''done'' then CC_Completion
      else if action_kind = ''run_command'' \<and> is_bootstrap_command_output stdout stderr then CC_Bootstrap
      else if action_kind = ''run_command'' then CC_Validation
      else CC_Other)"

definition classify_action_outcome :: "string \<Rightarrow> bool \<Rightarrow> string \<Rightarrow> string \<Rightarrow> ActionOutcomeClass" where
  "classify_action_outcome action_kind success stdout stderr =
     (let out = if stderr \<noteq> [] then stderr else stdout; run = (action_kind = ''run_command'');
          patch = (action_kind = ''apply_patch'')
      in if run \<and> success \<and> is_bootstrap_command_output stdout stderr then OC_BootstrapSuccess
         else if run \<and> looks_like_bootstrap_selection_mismatch out then OC_BootstrapSelectionMismatch
         else if run \<and> success \<and> looks_semantically_failed out then OC_SemanticFailure
         else if run \<and> success then OC_ValidationSuccess
         else if run \<and> policy_looks_like_compiler_failure out then OC_ValidationFailureCompiler
         else if run \<and> looks_semantically_failed out then OC_SemanticFailure
         else if (patch \<or> action_kind \<in> set semantic_edit_kinds) \<and> success then OC_EditSuccess
         else if patch \<and> (str_contains out ''No such file or directory'' \<or> str_contains out ''Failed to read file to update'')
         then OC_PatchMissingTargetFile
         else if patch \<and> (str_contains out ''invalid hunk'' \<or> str_contains out ''unexpected line in update chunk'' \<or>
                          str_contains out ''Failed to find expected lines'' \<or> str_contains out ''apply_patch failed'')
         then OC_PatchApplyFailure
         else OC_Other)"

definition is_read_only_action :: "string \<Rightarrow> bool" where
  "is_read_only_action action_kind \<longleftrightarrow> action_kind \<in> {''list_dir'', ''read_file'', ''search_files'', ''done''}"

section \<open>Recovery\<close>

datatype LoopRecoveryRule =
    ClearPlannerSuppressionOnInvalidPlan | TriggerObserveOnActStall | RecoverLoopRewarded

record LoopTransitionEvaluation =
  lt_recovery_rules :: "LoopRecoveryRule list"
  lt_trigger_observe :: bool
  lt_force_reward_recovery :: bool
  lt_observe_blocked_by_successor :: bool

definition recovery_rules_for_error_kind :: "string \<Rightarrow> LoopRecoveryRule list" where
  "recovery_rules_for_error_kind kind = (if kind = ''act_stall'' then [TriggerObserveOnActStall] else [])"

definition recovery_rules_for_planning_status :: "string \<Rightarrow> LoopRecoveryRule list" where
  "recovery_rules_for_planning_status status =
     (if status = ''invalid_plan'' then [ClearPlannerSuppressionOnInvalidPlan] else [])"

definition recovery_rules_for_expected_successor :: "string \<Rightarrow> LoopRecoveryRule list" where
  "recovery_rules_for_expected_successor expected =
     (if expected = ''loop_rewarded'' then [RecoverLoopRewarded] else [])"

definition rules_of :: "(string \<Rightarrow> LoopRecoveryRule list) \<Rightarrow> string option \<Rightarrow> LoopRecoveryRule list" where
  "rules_of f m = (case m of None \<Rightarrow> [] | Some x \<Rightarrow> f x)"

definition evaluate_loop_transition ::
    "string option \<Rightarrow> string option \<Rightarrow> string option \<Rightarrow> string option \<Rightarrow> LoopTransitionEvaluation" where
  "evaluate_loop_transition pending planning_status error_kind expected =
     (let rules = rules_of recovery_rules_for_planning_status planning_status @
                  rules_of recovery_rules_for_error_kind error_kind @
                  rules_of recovery_rules_for_expected_successor expected
      in \<lparr> lt_recovery_rules = rules, lt_trigger_observe = (TriggerObserveOnActStall \<in> set rules),
           lt_force_reward_recovery = (RecoverLoopRewarded \<in> set rules),
           lt_observe_blocked_by_successor =
             (case expected of None \<Rightarrow> False | Some e \<Rightarrow> e \<noteq> ''loop_observed'') \<rparr>)"

datatype ObserveExecutionMode =
    OM_None | OM_Forced | OM_Triggered | OM_SuppressedByInvariant | OM_SuppressedByPendingSuccessor

datatype LoopRuntimeRule =
    ExecuteForcedObserve
  | ExecuteTriggeredObserve
  | SuppressObserveOnInvariant
  | SuppressObserveOnPendingSuccessor
  | BlockStageWhenHalted
  | WarnRouteSelectedWhileHalted

record LoopRuntimeEvaluation =
  lr_observe_mode :: ObserveExecutionMode
  lr_halt_blocks_stage :: bool
  lr_warn_route_selected_while_halted :: bool
  lr_rules :: "LoopRuntimeRule list"

definition observe_decision :: "bool \<Rightarrow> bool \<Rightarrow> bool \<Rightarrow> bool \<Rightarrow> ObserveExecutionMode \<times> LoopRuntimeRule list" where
  "observe_decision halted force_observe trigger suppress =
     (if force_observe \<and> \<not> halted then (OM_Forced, [ExecuteForcedObserve])
      else if trigger \<and> \<not> halted \<and> suppress then (OM_SuppressedByInvariant, [SuppressObserveOnInvariant])
      else if trigger \<and> \<not> halted then (OM_Triggered, [ExecuteTriggeredObserve])
      else (OM_None, []))"

definition evaluate_loop_runtime ::
    "bool \<Rightarrow> bool \<Rightarrow> bool \<Rightarrow> bool \<Rightarrow> string option \<Rightarrow> bool \<Rightarrow> LoopRuntimeEvaluation" where
  "evaluate_loop_runtime halted force_observe trigger suppress pending is_route_selected =
     (case observe_decision halted force_observe trigger suppress of (mode, rules) \<Rightarrow>
        \<lparr> lr_observe_mode = mode, lr_halt_blocks_stage = halted,
          lr_warn_route_selected_while_halted = (halted \<and> is_route_selected),
          lr_rules = rules @ (if halted then [BlockStageWhenHalted] else []) @
            (if halted \<and> is_route_selected then [WarnRouteSelectedWhileHalted] else []) \<rparr>)"

datatype RecoveryEventRule =
    RE_None | RE_ForceObserve | RE_ExecuteRewardRecovery | RE_SkipRewardAlreadySatisfied | RE_MissingRewardContext

record RecoveryEventEvaluation =
  rv_rule :: RecoveryEventRule
  rv_force_observe_recovery :: bool
  rv_execute_reward_recovery :: bool

definition evaluate_recovery_event :: "string option \<Rightarrow> string option \<Rightarrow> bool \<Rightarrow> RecoveryEventEvaluation" where
  "evaluate_recovery_event expected pending has_last_verified =
     (if expected = Some ''loop_observed''
      then \<lparr> rv_rule = RE_ForceObserve, rv_force_observe_recovery = True, rv_execute_reward_recovery = False \<rparr>
      else if expected = Some ''loop_rewarded'' \<and> \<not> has_last_verified
      then \<lparr> rv_rule = RE_MissingRewardContext, rv_force_observe_recovery = False, rv_execute_reward_recovery = False \<rparr>
      else if expected = Some ''loop_rewarded''
      then \<lparr> rv_rule = RE_ExecuteRewardRecovery, rv_force_observe_recovery = False, rv_execute_reward_recovery = True \<rparr>
      else \<lparr> rv_rule = RE_None, rv_force_observe_recovery = False, rv_execute_reward_recovery = False \<rparr>)"

datatype RecoveryOperation = RewardRecovery | ObserveForced | ObserveTriggered

datatype StageExecutionOutcomeClass = SO_Emit | SO_EmitMany | SO_Deferred | SO_Noop | SO_Error

record RecoveryExecutionEvaluation =
  rx_debug_kind :: "string option"
  rx_debug_reason :: "string option"
  rx_error_kind :: "string option"

definition debug_only :: "string \<Rightarrow> string \<Rightarrow> RecoveryExecutionEvaluation" where
  "debug_only kind reason = \<lparr> rx_debug_kind = Some kind, rx_debug_reason = Some reason, rx_error_kind = None \<rparr>"

definition error_only :: "string \<Rightarrow> RecoveryExecutionEvaluation" where
  "error_only kind = \<lparr> rx_debug_kind = None, rx_debug_reason = None, rx_error_kind = Some kind \<rparr>"

fun evaluate_recovery_execution :: "RecoveryOperation \<Rightarrow> StageExecutionOutcomeClass \<Rightarrow> RecoveryExecutionEvaluation" where
  "evaluate_recovery_execution RewardRecovery SO_Deferred = debug_only ''reward_recovery_noop'' ''reward recovery produced no events''"
| "evaluate_recovery_execution RewardRecovery SO_Noop = debug_only ''reward_recovery_noop'' ''reward recovery produced no events''"
| "evaluate_recovery_execution RewardRecovery SO_Error = error_only ''reward_recovery_execution''"
| "evaluate_recovery_execution ObserveForced SO_Deferred = debug_only ''observe_deferred'' ''observe returned deferred''"
| "evaluate_recovery_execution ObserveTriggered SO_Deferred = debug_only ''observe_deferred'' ''observe returned deferred''"
| "evaluate_recovery_execution ObserveForced SO_Noop = debug_only ''observe_noop'' ''observe returned noop''"
| "evaluate_recovery_execution ObserveTriggered SO_Noop = debug_only ''observe_noop'' ''observe returned noop''"
| "evaluate_recovery_execution ObserveForced SO_Error = error_only ''observe_recovery_execution''"
| "evaluate_recovery_execution ObserveTriggered SO_Error = error_only ''observe_stage_execution''"
| "evaluate_recovery_execution _ _ = \<lparr> rx_debug_kind = None, rx_debug_reason = None, rx_error_kind = None \<rparr>"

datatype ErrorObserveRule = EO_None | EO_ExplicitRecovery | EO_GenericErrorObserve

definition evaluate_error_observe :: "string \<Rightarrow> bool \<Rightarrow> bool \<Rightarrow> ErrorObserveRule" where
  "evaluate_error_observe error_kind explicit fatal =
     (if explicit then EO_ExplicitRecovery
      else if error_kind \<noteq> ''invariant_violation'' \<and> error_kind \<noteq> ''invalid_plan_batch'' \<and> \<not> fatal
      then EO_GenericErrorObserve
      else EO_None)"

datatype BootstrapRule = BR_None | BR_InvalidateQueuedPlanWork

record BootstrapEvaluation =
  be_rule :: BootstrapRule
  be_clear_scheduler :: bool
  be_clear_dep_tracker :: bool
  be_clear_pending_act :: bool
  be_clear_active_batch :: bool
  be_clear_act_batch_tracker :: bool
  be_emit_refresh_required :: bool

definition evaluate_bootstrap_effects :: "ActionOutcomeClass \<Rightarrow> BootstrapEvaluation" where
  "evaluate_bootstrap_effects outcome =
     (if outcome = OC_BootstrapSuccess
      then \<lparr> be_rule = BR_InvalidateQueuedPlanWork, be_clear_scheduler = True, be_clear_dep_tracker = True,
             be_clear_pending_act = True, be_clear_active_batch = True, be_clear_act_batch_tracker = True,
             be_emit_refresh_required = True \<rparr>
      else \<lparr> be_rule = BR_None, be_clear_scheduler = False, be_clear_dep_tracker = False,
             be_clear_pending_act = False, be_clear_active_batch = False, be_clear_act_batch_tracker = False,
             be_emit_refresh_required = False \<rparr>)"

section \<open>Retry after an invalid plan\<close>

datatype InvalidPlanReasonClass =
    IR_MixedBatch | IR_PatchFormat | IR_PathOrCwd | IR_MissingContext | IR_Unknown

datatype RetryPolicy = RP_None | RP_DiscoveryOnly | RP_SinglePatchOnly | RP_CorrectiveRetry

fun retry_policy_as_str :: "RetryPolicy \<Rightarrow> string" where
  "retry_policy_as_str RP_None = ''none''"
| "retry_policy_as_str RP_DiscoveryOnly = ''discovery_only''"
| "retry_policy_as_str RP_SinglePatchOnly = ''single_patch_only''"
| "retry_policy_as_str RP_CorrectiveRetry = ''corrective_retry''"

definition classify_invalid_plan_reason :: "string option \<Rightarrow> InvalidPlanReasonClass" where
  "classify_invalid_plan_reason reason =
     (case reason of None \<Rightarrow> IR_Unknown
      | Some r \<Rightarrow>
          if str_contains r ''mixed discovery actions with execution/edit actions'' then IR_MixedBatch
          else if str_contains r ''apply_patch payload is invalid'' \<or> str_contains r ''unexpected line in update chunk'' \<or>
                  str_contains r ''invalid hunk'' \<or> str_contains r ''single-patch retry required''
          then IR_PatchFormat
          else if str_contains r ''absolute cwd'' \<or> str_contains r ''path is invalid'' \<or>
                  str_contains r ''absolute paths are not allowed'' \<or> str_contains r ''parent traversal''
          then IR_PathOrCwd
          else if str_contains r ''missing_last_observed'' \<or> str_contains r ''missing_observed_context'' then IR_MissingContext
          else IR_Unknown)"

definition retry_policy_for_invalid_plan :: "string option \<Rightarrow> u32 \<Rightarrow> RetryPolicy" where
  "retry_policy_for_invalid_plan reason consecutive =
     (if consecutive = 0 then RP_None
      else case classify_invalid_plan_reason reason of
             IR_MixedBatch \<Rightarrow> RP_DiscoveryOnly
           | IR_PatchFormat \<Rightarrow> RP_SinglePatchOnly
           | _ \<Rightarrow> RP_CorrectiveRetry)"

definition retry_policy_for_planning_context ::
    "string option \<Rightarrow> u32 \<Rightarrow> SemanticExecutionResultRecord list \<Rightarrow> ObjectiveTrendState \<Rightarrow> RetryPolicy" where
  "retry_policy_for_planning_context reason consecutive results t =
     (let base = retry_policy_for_invalid_plan reason consecutive
      in if base \<noteq> RP_None then base
         else if latest_verifier_policy_requires_corrective_retry results then RP_CorrectiveRetry
         else if latest_verifier_policy_clears_retry results then RP_None
         else if 0 < trend_misalignment_pressure_score t then RP_CorrectiveRetry
         else if 0 < ot_repeated_stall_count t \<and> 0 < ot_current_no_progress_streak t then RP_CorrectiveRetry
         else if latest_graph_proof_failed results then RP_CorrectiveRetry
         else if 2 \<le> semantic_no_progress_streak results then RP_CorrectiveRetry
         else RP_None)"

definition semantic_planner_hint_lines :: "string option \<Rightarrow> string option \<Rightarrow> string list" where
  "semantic_planner_hint_lines failure_class failure_scope =
     (if failure_class = Some ''no_actionable_failure''
      then [''Programmatic tip: typed failure_class=no_actionable_failure; do not emit repair actions. Refresh observation instead.'']
      else []) @
     (if failure_scope = Some ''localized''
      then [''Programmatic tip: typed failure_scope=localized; prefer semantic/file repair on the targeted source paths. Avoid workspace-wide bootstrap or config changes unless fresh observation proves drift.'']
      else if failure_scope \<in> {Some ''workspace'', Some ''tooling''}
      then [''Programmatic tip: typed failure_scope=workspace/tooling; prefer observe, bootstrap, config, or tool-level repair. Avoid localized semantic/file edits as the first batch.'']
      else [])"

text \<open>The text of a failed action is cut at 240 bytes, which panics inside a character.\<close>

definition failure_hint_text :: "string \<Rightarrow> string option" where
  "failure_hint_text out = truncate_text (map (\<lambda>c. if c = CHR 0x0A then CHR '' '' else c) (trim out)) 240"

definition failure_hint :: "string option \<Rightarrow> string option \<Rightarrow> string list option" where
  "failure_hint failed_kind failed_text =
     (case (failed_kind, failed_text) of
        (Some kind, Some out) \<Rightarrow>
          map_option (\<lambda>msg. if msg = [] then []
            else [''Recent failure hint: last failed action was '' @ kind @ '' with output: '' @ msg]) (failure_hint_text out)
      | _ \<Rightarrow> Some [])"

fun retry_tip :: "RetryPolicy \<Rightarrow> string list" where
  "retry_tip RP_None = []"
| "retry_tip RP_DiscoveryOnly = [''Programmatic tip: next batch must be discovery-only; emit only list_dir/read_file.'']"
| "retry_tip RP_SinglePatchOnly = [''Programmatic tip: next batch must contain exactly one apply_patch and no run_command.'']"
| "retry_tip RP_CorrectiveRetry = [''Programmatic tip: fix the previous invalid payload directly; do not default to discovery unless file contents are missing.'']"

definition planner_hint_lines ::
    "string option \<Rightarrow> u32 \<Rightarrow> SemanticExecutionResultRecord list \<Rightarrow> ObjectiveTrendState \<Rightarrow> string option \<Rightarrow> string option \<Rightarrow> string list option" where
  "planner_hint_lines reason consecutive results t failed_kind failed_text =
     map_option ((@)
       ((case reason of None \<Rightarrow> [] | Some r \<Rightarrow> [''Previous invalid-plan reason: '' @ r]) @
        retry_tip (retry_policy_for_planning_context reason consecutive results t) @
        (if latest_graph_proof_failed results
         then [''Programmatic tip: the last semantic edit failed graph proof; refresh compiler context and do not repeat the same symbolic edit unchanged.'']
         else []) @
        (if 2 \<le> semantic_no_progress_streak results
         then [''Programmatic tip: repeated no-progress batches indicate a stalled repair loop; change approach or refresh context before retrying.'']
         else []) @
        (if f32_lt f32_0_5 (invalid_plan_rate t) \<and> 3 \<le> ot_planning_attempts t
         then [''Programmatic tip: invalid-plan rate is high; simplify the next batch and avoid mixing multiple repair strategies.'']
         else []) @
        (if 0 < trend_misalignment_pressure_score t
         then [''Programmatic tip: contradiction events indicate goal/route drift; explicitly realign the next batch with the active repair objective.'']
         else []) @
        (if results = [] then [] else [''Recent execution semantics: '' @ render_result_line (last results)])))
       (failure_hint failed_kind failed_text)"

section \<open>The repair loop of the harness\<close>

record HarnessRepairTarget =
  ht_crate_name :: "string option"
  ht_failing_test :: "string option"

datatype HarnessRepairPhase = HP_Observe | HP_Decide | HP_Repair | HP_Verify | HP_Update | HP_Stop

datatype HarnessRepairAction =
    HA_ObserveWorkspace
  | HA_CollectDiagnostics
  | HA_ReplanSingleAction
  | HA_ApplyLocalizedRepair
  | HA_ApplyWorkspaceRepair
  | HA_RunCargoCheck
  | HA_RunCargoTest
  | HA_UpdateState
  | HA_StopReady
  | HA_StopBlocked

record HarnessRepairDecision =
  hd_phase :: HarnessRepairPhase
  hd_action :: HarnessRepairAction
  hd_reason :: string

record HarnessRepairDirective =
  hv_decision :: HarnessRepairDecision
  hv_verifier_command :: "string option"

record HarnessRepairState =
  hr_capabilities :: HarnessCapabilityState
  hr_drift_detected :: bool
  hr_actionable_failure :: bool
  hr_failure_class_no_actionable :: bool
  hr_failure_scope_localized :: bool
  hr_failure_scope_workspace :: bool
  hr_failure_scope_tooling :: bool
  hr_verifier_ready :: bool
  hr_cargo_check_passed :: bool
  hr_stronger_verification_requested :: bool
  hr_last_action_was_mutation :: bool
  hr_single_action_batch_required :: bool
  hr_needs_replan :: bool
  hr_progress_stalled :: bool

definition semantic_actionable_failure :: "SemanticStateSummary \<Rightarrow> bool" where
  "semantic_actionable_failure s \<longleftrightarrow>
     ss_validation_blocked_by_preconditions s \<or> ss_compiler_repair_required s \<or> ss_planning_preconditions s \<noteq> [] \<or>
     ss_repair_intents s \<noteq> [] \<or> ss_module_gaps s \<noteq> [] \<or> has_actionable_compiler_hints s"

definition semantic_requires_replan :: "SemanticStateSummary \<Rightarrow> bool" where
  "semantic_requires_replan s \<longleftrightarrow>
     \<not> ss_complete s \<or> ss_validation_blocked_by_preconditions s \<or> ss_planning_preconditions s \<noteq> []"

definition semantic_verifier_ready :: "SemanticStateSummary \<Rightarrow> bool" where
  "semantic_verifier_ready s \<longleftrightarrow>
     ss_complete s \<and> \<not> ss_validation_blocked_by_preconditions s \<and> ss_planning_preconditions s = [] \<and>
     \<not> ss_compiler_repair_required s \<and> ss_repair_intents s = [] \<and> ss_module_gaps s = [] \<and>
     \<not> has_actionable_compiler_hints s"

definition ready_capabilities :: HarnessCapabilityState where
  "ready_capabilities =
     \<lparr> hc_read_search = True, hc_structured_edit = True, hc_apply_patch = True, hc_run_verifier = True,
       hc_observe_diagnostics = True \<rparr>"

text \<open>What the loop context contributes to the state: the last observed summary, the outcome of the last
  verifier run, the error output and kind of the last action, the counts of the last compilation and
  the trend.\<close>

record HarnessContext =
  hx_summary :: "SemanticStateSummary option"
  hx_last_verifier_outcome :: "string option"
  hx_last_stderr :: "string option"
  hx_error_count :: usize
  hx_warning_count :: usize
  hx_last_action_kind :: string
  hx_trend :: ObjectiveTrendState

definition from_loop_context :: "HarnessContext \<Rightarrow> HarnessRepairState" where
  "from_loop_context ctx =
     (let semantic = hx_summary ctx;
          failure_class = Option.bind semantic ss_failure_class;
          failure_scope = Option.bind semantic ss_failure_scope;
          verify_failed = (case hx_last_verifier_outcome ctx of None \<Rightarrow> False | Some v \<Rightarrow> v \<noteq> ''passed'');
          fallback_scope = snd (classify_failure_metadata (or_else (hx_last_stderr ctx) []));
          actionable = (case semantic of None \<Rightarrow> False | Some s \<Rightarrow> semantic_actionable_failure s) \<or> verify_failed
      in \<lparr> hr_capabilities = ready_capabilities,
           hr_drift_detected = False,
           hr_actionable_failure = actionable,
           hr_failure_class_no_actionable = (failure_class = Some ''no_actionable_failure''),
           hr_failure_scope_localized = (failure_scope = Some ''localized''),
           hr_failure_scope_workspace =
             (failure_scope = Some ''workspace'' \<or> (failure_scope = None \<and> fallback_scope = FS_Workspace)),
           hr_failure_scope_tooling =
             (failure_scope = Some ''tooling'' \<or> (failure_scope = None \<and> fallback_scope = FS_Tooling)),
           hr_verifier_ready = ((case semantic of None \<Rightarrow> False | Some s \<Rightarrow> semantic_verifier_ready s) \<and> \<not> actionable),
           hr_cargo_check_passed = (hx_last_verifier_outcome ctx = Some ''passed''),
           hr_stronger_verification_requested = (hx_error_count ctx = 0 \<and> hx_warning_count ctx = 0),
           hr_last_action_was_mutation =
             (hx_last_action_kind ctx \<in> {''apply_patch'', ''write_file'', ''edit_file'', ''run_command''}),
           hr_single_action_batch_required = True,
           hr_needs_replan =
             (case semantic of None \<Rightarrow> True
              | Some s \<Rightarrow> semantic_requires_replan s \<and> \<not> semantic_verifier_ready s),
           hr_progress_stalled = (0 < ot_current_no_progress_streak (hx_trend ctx)) \<rparr>)"

definition format_missing_capabilities :: "HarnessPrimitiveCapability list \<Rightarrow> string" where
  "format_missing_capabilities missing = join '', '' (map capability_as_str missing)"

definition harness_decision :: "HarnessRepairPhase \<Rightarrow> HarnessRepairAction \<Rightarrow> string \<Rightarrow> HarnessRepairDecision" where
  "harness_decision phase action reason = \<lparr> hd_phase = phase, hd_action = action, hd_reason = reason \<rparr>"

definition evaluate_harness_repair_loop :: "HarnessRepairState \<Rightarrow> HarnessRepairDecision" where
  "evaluate_harness_repair_loop s =
     (let missing = self_repair_missing_capabilities (hr_capabilities s)
      in if missing \<noteq> [] then
           harness_decision HP_Stop HA_StopBlocked (''missing harness primitives: '' @ format_missing_capabilities missing)
         else if hr_drift_detected s then
           harness_decision HP_Observe HA_ObserveWorkspace ''state drift detected; refresh workspace facts before planning or repair''
         else if hr_failure_class_no_actionable s \<and> \<not> hr_actionable_failure s then
           harness_decision HP_Observe HA_CollectDiagnostics
             ''no actionable failure is scoped; collect fresh diagnostics instead of repairing''
         else if hr_needs_replan s \<or> hr_progress_stalled s then
           harness_decision HP_Decide HA_ReplanSingleAction ''derive exactly one legal repair action before executing more work''
         else if hr_actionable_failure s then
           harness_decision HP_Repair
             (if hr_failure_scope_localized s then HA_ApplyLocalizedRepair else HA_ApplyWorkspaceRepair)
             (if hr_failure_scope_localized s then ''localized failure scope requires semantic or file repair''
              else if hr_failure_scope_workspace s \<or> hr_failure_scope_tooling s
              then ''workspace or tooling failure scope requires environment or command repair''
              else ''actionable failure without narrow scope defaults to workspace-level repair'')
         else if hr_verifier_ready s \<and> \<not> hr_cargo_check_passed s then
           harness_decision HP_Verify HA_RunCargoCheck ''mutations must be followed by cargo check before stronger verification''
         else if hr_cargo_check_passed s \<and> hr_stronger_verification_requested s then
           harness_decision HP_Verify HA_RunCargoTest ''cargo check passed; run stronger verifier to validate the harness repair''
         else if self_repair_ready (hr_capabilities s) then
           harness_decision HP_Update HA_UpdateState ''verification is complete; update loop state before the next iteration''
         else harness_decision HP_Stop HA_StopReady ''harness repair loop reached a terminal state'')"

definition cargo_check_command :: "HarnessRepairTarget \<Rightarrow> string" where
  "cargo_check_command target =
     (case ht_crate_name target of None \<Rightarrow> ''cargo check'' | Some c \<Rightarrow> ''cargo check -p '' @ c)"

definition cargo_test_command :: "HarnessRepairTarget \<Rightarrow> string" where
  "cargo_test_command target =
     (case (ht_crate_name target, ht_failing_test target) of
        (Some c, Some test) \<Rightarrow> ''cargo test -p '' @ c @ '' '' @ test @ '' -- --nocapture''
      | (Some c, None) \<Rightarrow> ''cargo test -p '' @ c
      | (None, Some test) \<Rightarrow> ''cargo test '' @ test @ '' -- --nocapture''
      | (None, None) \<Rightarrow> ''cargo test'')"

definition build_harness_repair_directive :: "HarnessRepairState \<Rightarrow> HarnessRepairTarget \<Rightarrow> HarnessRepairDirective" where
  "build_harness_repair_directive s target =
     (let decision = evaluate_harness_repair_loop s
      in \<lparr> hv_decision = decision,
           hv_verifier_command =
             (case hd_action decision of
                HA_RunCargoCheck \<Rightarrow> Some (cargo_check_command target)
              | HA_RunCargoTest \<Rightarrow> Some (cargo_test_command target)
              | _ \<Rightarrow> None) \<rparr>)"

record SyntheticHarnessRepairMetrics =
  sm_total_states :: nat
  sm_observe :: nat
  sm_decide :: nat
  sm_repair :: nat
  sm_verify :: nat
  sm_update :: nat
  sm_stop :: nat

definition synthetic_state_from_bits :: "u16 \<Rightarrow> HarnessRepairState" where
  "synthetic_state_from_bits bits =
     \<lparr> hr_capabilities = ready_capabilities,
       hr_drift_detected = bit_set bits 0,
       hr_actionable_failure = bit_set bits 1,
       hr_failure_class_no_actionable = bit_set bits 2,
       hr_failure_scope_localized = bit_set bits 3,
       hr_failure_scope_workspace = bit_set bits 4,
       hr_failure_scope_tooling = bit_set bits 5,
       hr_verifier_ready = bit_set bits 6,
       hr_cargo_check_passed = bit_set bits 7,
       hr_stronger_verification_requested = bit_set bits 8,
       hr_last_action_was_mutation = bit_set bits 9,
       hr_single_action_batch_required = True,
       hr_needs_replan = bit_set bits 10,
       hr_progress_stalled = bit_set bits 11 \<rparr>"

definition synthetic_harness_repair_states :: "HarnessRepairState list" where
  "synthetic_harness_repair_states = map (\<lambda>n. synthetic_state_from_bits (of_nat n)) [0..<2 ^ 12]"

definition count_phase :: "SyntheticHarnessRepairMetrics \<Rightarrow> HarnessRepairState \<Rightarrow> SyntheticHarnessRepairMetrics" where
  "count_phase m s =
     (let m' = m\<lparr>sm_total_states := sm_total_states m + 1\<rparr>
      in case hd_phase (evaluate_harness_repair_loop s) of
           HP_Observe \<Rightarrow> m'\<lparr>sm_observe := sm_observe m + 1\<rparr>
         | HP_Decide \<Rightarrow> m'\<lparr>sm_decide := sm_decide m + 1\<rparr>
         | HP_Repair \<Rightarrow> m'\<lparr>sm_repair := sm_repair m + 1\<rparr>
         | HP_Verify \<Rightarrow> m'\<lparr>sm_verify := sm_verify m + 1\<rparr>
         | HP_Update \<Rightarrow> m'\<lparr>sm_update := sm_update m + 1\<rparr>
         | HP_Stop \<Rightarrow> m'\<lparr>sm_stop := sm_stop m + 1\<rparr>)"

definition synthetic_harness_repair_metrics :: SyntheticHarnessRepairMetrics where
  "synthetic_harness_repair_metrics =
     foldl count_phase
       \<lparr> sm_total_states = 0, sm_observe = 0, sm_decide = 0, sm_repair = 0, sm_verify = 0, sm_update = 0, sm_stop = 0 \<rparr>
       synthetic_harness_repair_states"

section \<open>Properties\<close>

lemma ready_capabilities_complete: "self_repair_missing_capabilities ready_capabilities = []"
  by code_simp

definition context_action :: "HarnessContext \<Rightarrow> HarnessRepairAction" where
  "context_action ctx = hd_action (evaluate_harness_repair_loop (from_loop_context ctx))"

definition actionable_context :: "HarnessContext \<Rightarrow> bool" where
  "actionable_context ctx \<longleftrightarrow> hr_actionable_failure (from_loop_context ctx)"

lemma verifier_ready_needs_no_replan: "semantic_verifier_ready s \<Longrightarrow> \<not> semantic_requires_replan s"
  by (simp add: semantic_verifier_ready_def semantic_requires_replan_def)

lemma context_action_cases:
  "context_action ctx =
     (let s = from_loop_context ctx
      in if hr_failure_class_no_actionable s \<and> \<not> hr_actionable_failure s then HA_CollectDiagnostics
         else if hr_needs_replan s \<or> hr_progress_stalled s then HA_ReplanSingleAction
         else if hr_actionable_failure s
         then (if hr_failure_scope_localized s then HA_ApplyLocalizedRepair else HA_ApplyWorkspaceRepair)
         else if hr_verifier_ready s \<and> \<not> hr_cargo_check_passed s then HA_RunCargoCheck
         else if hr_cargo_check_passed s \<and> hr_stronger_verification_requested s then HA_RunCargoTest
         else HA_UpdateState)"
proof -
  have "hr_capabilities (from_loop_context ctx) = ready_capabilities" "\<not> hr_drift_detected (from_loop_context ctx)"
    by (simp_all add: from_loop_context_def Let_def)
  then show ?thesis
    by (simp add: context_action_def evaluate_harness_repair_loop_def ready_capabilities_complete self_repair_ready_def
        harness_decision_def Let_def)
qed

lemma no_replan_context:
  assumes "\<not> hr_needs_replan (from_loop_context ctx)"
  obtains s where "hx_summary ctx = Some s" "ss_complete s" "\<not> ss_validation_blocked_by_preconditions s"
    "ss_planning_preconditions s = []"
  using assms verifier_ready_needs_no_replan
  by (auto simp: from_loop_context_def Let_def semantic_requires_replan_def split: option.splits)

text \<open>C40: The directive the harness derives from a loop context never stops it and never asks for a
  fresh observation. A repair is chosen only for an actionable failure, on a complete summary without open
  preconditions and while the loop is making progress. The check runs only on a workspace
  without open work that no verifier has seen, and the tests only after the verifier passed on a
  compilation without errors and warnings.\<close>

theorem harness_directive_follows_context:
  "context_action ctx \<notin> {HA_StopReady, HA_StopBlocked, HA_ObserveWorkspace} \<and>
   (context_action ctx \<in> {HA_ApplyLocalizedRepair, HA_ApplyWorkspaceRepair} \<longrightarrow>
      actionable_context ctx \<and> ot_current_no_progress_streak (hx_trend ctx) = 0 \<and>
      (\<exists>s. hx_summary ctx = Some s \<and> ss_complete s \<and> \<not> ss_validation_blocked_by_preconditions s \<and>
           ss_planning_preconditions s = [])) \<and>
   (context_action ctx = HA_RunCargoCheck \<longrightarrow>
      hx_last_verifier_outcome ctx = None \<and>
      (\<exists>s. hx_summary ctx = Some s \<and> semantic_verifier_ready s)) \<and>
   (context_action ctx = HA_RunCargoTest \<longrightarrow>
      hx_last_verifier_outcome ctx = Some ''passed'' \<and> hx_error_count ctx = 0 \<and> hx_warning_count ctx = 0 \<and>
      \<not> actionable_context ctx)"
proof (intro conjI impI)
  note cases = context_action_cases [of ctx] Let_def
  show "context_action ctx \<notin> {HA_StopReady, HA_StopBlocked, HA_ObserveWorkspace}" by (simp add: cases)
  {
    assume "context_action ctx \<in> {HA_ApplyLocalizedRepair, HA_ApplyWorkspaceRepair}"
    then have act: "hr_actionable_failure (from_loop_context ctx)"
      and replan: "\<not> hr_needs_replan (from_loop_context ctx)" and stall: "\<not> hr_progress_stalled (from_loop_context ctx)"
      by (auto simp: cases split: if_splits)
    show "actionable_context ctx" using act by (simp add: actionable_context_def)
    show "ot_current_no_progress_streak (hx_trend ctx) = 0" using stall by (simp add: from_loop_context_def Let_def word_greater_zero_iff)
    show "\<exists>s. hx_summary ctx = Some s \<and> ss_complete s \<and> \<not> ss_validation_blocked_by_preconditions s \<and>
        ss_planning_preconditions s = []"
      using replan by (rule no_replan_context) blast
  next
    assume "context_action ctx = HA_RunCargoCheck"
    then have "hr_verifier_ready (from_loop_context ctx)" "\<not> hr_cargo_check_passed (from_loop_context ctx)"
      by (auto simp: cases split: if_splits)
    then show "hx_last_verifier_outcome ctx = None" "\<exists>s. hx_summary ctx = Some s \<and> semantic_verifier_ready s"
      by (auto simp: from_loop_context_def Let_def split: option.splits)
  next
    assume "context_action ctx = HA_RunCargoTest"
    then have st: "hr_cargo_check_passed (from_loop_context ctx)" "hr_stronger_verification_requested (from_loop_context ctx)"
      and act: "\<not> hr_actionable_failure (from_loop_context ctx)"
      by (auto simp: cases split: if_splits)
    from st show "hx_last_verifier_outcome ctx = Some ''passed''" "hx_error_count ctx = 0" "hx_warning_count ctx = 0"
      by (auto simp: from_loop_context_def Let_def)
    from act show "\<not> actionable_context ctx" by (simp add: actionable_context_def)
  }
qed

definition mutated_context :: HarnessContext where
  "mutated_context =
     \<lparr> hx_summary = Some (default_summary\<lparr>ss_complete := True\<rparr>), hx_last_verifier_outcome = Some ''passed'',
       hx_last_stderr = None, hx_error_count = 0, hx_warning_count = 0, hx_last_action_kind = ''apply_patch'',
       hx_trend = default_trend \<rparr>"

lemma mutated_context_runs_tests: "context_action mutated_context = HA_RunCargoTest"
  by (simp add: context_action_cases from_loop_context_def mutated_context_def Let_def semantic_actionable_failure_def
      semantic_requires_replan_def semantic_verifier_ready_def has_actionable_compiler_hints_def default_summary_def default_trend_def)

theorem harness_directive_follows_context_witness:
  "hx_last_verifier_outcome mutated_context = Some ''passed'' \<and> \<not> actionable_context mutated_context"
  using harness_directive_follows_context [of mutated_context] mutated_context_runs_tests by simp

text \<open>
  The reason given for the check is that mutations must be followed by it, but whether the last action
  was a mutation is not consulted: after a passed verification the tests are chosen next, even
  when a patch was applied in between.\<close>

lemma mutation_is_not_consulted:
  "evaluate_harness_repair_loop (s\<lparr>hr_last_action_was_mutation := b\<rparr>) = evaluate_harness_repair_loop s"
  "context_action mutated_context = HA_RunCargoTest"
  "hr_last_action_was_mutation (from_loop_context mutated_context)"
proof -
  show "evaluate_harness_repair_loop (s\<lparr>hr_last_action_was_mutation := b\<rparr>) = evaluate_harness_repair_loop s"
    by (cases s) (simp only: evaluate_harness_repair_loop_def HarnessRepairState.select_convs HarnessRepairState.update_convs)
  show "hr_last_action_was_mutation (from_loop_context mutated_context)"
    by (simp add: from_loop_context_def mutated_context_def Let_def)
qed (rule mutated_context_runs_tests)

end
