(* ===== verification/Plan_Validation.thy ===== *)
theory Plan_Validation
  imports Plan_Preconditions Loop_Policy
begin

text \<open>
  The gate of the plan stage, of \<^verbatim>\<open>canon-utils/canon-loop/src/stage/plan.rs\<close>: the annotation of the
  planned actions with the active failure and the expected verifier, and \<^verbatim>\<open>validate_action_batch\<close>, which
  composes the checks on the payloads with the validations of \<^verbatim>\<open>planning_preconditions.rs\<close>.

  Two printers of the standard library are parameters that only error texts use: \<open>dbg\<close> prints a string
  in quotes, \<open>fmt\<close> prints an \<^verbatim>\<open>f32\<close>. The file system is the argument \<open>exists\<close>.
\<close>

section \<open>Annotation\<close>

text \<open>Assignment to a key of a JSON value: null becomes an object; any other value that is no object
  panics.\<close>

fun json_set :: "json \<Rightarrow> string \<Rightarrow> json \<Rightarrow> json option" where
  "json_set (JObject m) k v = Some (JObject (AList.update k v m))"
| "json_set JNull k v = Some (JObject [(k, v)])"
| "json_set _ k v = None"

definition set_if_missing :: "string \<Rightarrow> string option \<Rightarrow> json \<Rightarrow> json option" where
  "set_if_missing k m payload =
     (case (json_get payload k, m) of (None, Some v) \<Rightarrow> json_set payload k (JString v) | _ \<Rightarrow> Some payload)"

definition annotate_payload :: "SemanticStateSummary \<Rightarrow> string \<Rightarrow> json \<Rightarrow> json option" where
  "annotate_payload s kind payload =
     Option.bind
       (case primary_failure_class s of
          None \<Rightarrow> Some payload
        | Some c \<Rightarrow> Option.bind (set_if_missing ''failure_class'' (Some c) payload)
                      (set_if_missing ''failure_scope'' (Some (or_else (ss_failure_scope s) ''none''))))
       (\<lambda>p. set_if_missing ''verifier'' (expected_verifier kind p) p)"

definition annotate_action :: "SemanticStateSummary \<Rightarrow> LoopPlanned \<Rightarrow> LoopPlanned option" where
  "annotate_action s a =
     (if lp_action_kind a = ''done'' then Some a
      else map_option (\<lambda>p. a\<lparr>lp_action_payload := p\<rparr>) (annotate_payload s (lp_action_kind a) (lp_action_payload a)))"

section \<open>Checks on one action\<close>

definition validate_workspace_relative_path :: "path \<Rightarrow> check" where
  "validate_workspace_relative_path p =
     (if is_absolute p then Inl ''absolute paths are not allowed for plan discovery/edit actions''
      else if ParentDir \<in> set (components p)
      then Inl (''path escapes target workspace via parent traversal: '' @ p)
      else Inr ())"

definition validate_path_for :: "string \<Rightarrow> path \<Rightarrow> check" where
  "validate_path_for kind p =
     (case validate_workspace_relative_path p of Inl e \<Rightarrow> Inl (kind @ '' path is invalid: '' @ e) | Inr _ \<Rightarrow> Inr ())"

definition with_payload :: "LoopPlanned \<Rightarrow> string \<Rightarrow> (string \<Rightarrow> check) \<Rightarrow> check" where
  "with_payload a key k =
     (case payload_str a key of
        None \<Rightarrow> Inl (lp_action_kind a @ '' missing '' @ key @ '' payload'')
      | Some v \<Rightarrow> k v)"

fun parse_error_display :: "ParseError \<Rightarrow> string" where
  "parse_error_display (InvalidPatchError m) = ''invalid patch: '' @ m"
| "parse_error_display (InvalidHunkError m n) = ''invalid hunk at line '' @ decimal n @ '', '' @ m"

definition validate_action_shape :: "(string \<Rightarrow> string) \<Rightarrow> LoopPlanned \<Rightarrow> check" where
  "validate_action_shape dbg a =
     (let kind = lp_action_kind a in
      if kind = ''apply_patch'' then
        (case payload_str a ''patch'' of
           None \<Rightarrow> Inl ''apply_patch missing string patch payload''
         | Some patch \<Rightarrow>
             (case parse_patch patch of
                Some (Inl e) \<Rightarrow> Inl (''apply_patch payload is invalid: '' @ parse_error_display e)
              | _ \<Rightarrow> Inr ()))
      else if kind = ''run_command'' then
        (let cwd = or_else (payload_str a ''cwd'') []
         in fail_if (cwd = [] \<or> \<not> is_absolute cwd)
              (''run_command requires an absolute cwd; got '' @ dbg (if cwd = [] then ''<empty>'' else cwd)))
      else if kind = ''edit.rename_symbol'' then
        with_payload a ''old'' (\<lambda>old_name. with_payload a ''new'' (\<lambda>new_name. with_payload a ''path'' (\<lambda>p.
          checks [fail_if (trim old_name = [] \<or> trim new_name = [])
                    ''edit.rename_symbol requires non-empty old and new symbol paths'',
                  validate_path_for kind p])))
      else if kind = ''edit.move_symbol'' then
        with_payload a ''symbol_id'' (\<lambda>symbol_id. with_payload a ''new_module_path'' (\<lambda>module_path. with_payload a ''path'' (\<lambda>p.
          checks [fail_if (trim symbol_id = [] \<or> trim module_path = [])
                    ''edit.move_symbol requires non-empty symbol_id and new_module_path'',
                  validate_path_for kind p])))
      else if kind = ''edit.add_import'' then
        with_payload a ''import'' (\<lambda>import_path. with_payload a ''path'' (\<lambda>p.
          checks [fail_if (trim import_path = []) ''edit.add_import requires non-empty import path'',
                  validate_path_for kind p]))
      else if kind = ''edit.define_symbol_stub'' then
        with_payload a ''symbol'' (\<lambda>symbol. with_payload a ''path'' (\<lambda>p.
          checks [fail_if (trim symbol = []) ''edit.define_symbol_stub requires non-empty symbol'',
                  validate_path_for kind p]))
      else if kind \<in> {''edit.create_module_file'', ''read_file'', ''list_dir'', ''write_file'', ''patch_file''} then
        with_payload a ''path'' (validate_path_for kind)
      else if kind = ''done'' then Inr ()
      else Inl (''unknown plan action_kind '' @ kind))"

definition validate_failure_citation :: "SemanticStateSummary \<Rightarrow> LoopPlanned \<Rightarrow> check" where
  "validate_failure_citation s a =
     (case primary_failure_class s of
        None \<Rightarrow> Inr ()
      | Some expected \<Rightarrow>
          fail_if (lp_action_kind a \<noteq> ''done'' \<and> \<not> any_action_cites_failure (lp_action_payload a) (Some expected))
            (''meta_invariant_plan_must_cite_failure violated: '' @ lp_action_kind a @ '' cites failure_class='' @
             or_else (payload_str a ''failure_class'') ''<missing>'' @ '' but active failure_class='' @ expected))"

definition validate_verifier :: "LoopPlanned \<Rightarrow> check" where
  "validate_verifier a =
     fail_if (is_mutating_action (lp_action_kind a) (lp_action_payload a) \<and>
              \<not> action_must_declare_verifier (lp_action_kind a) (lp_action_payload a))
       (''meta_invariant_action_must_declare_verifier violated: '' @ lp_action_kind a @ '' must declare verifier='' @
        or_else (expected_verifier (lp_action_kind a) (lp_action_payload a)) ''unknown'')"

definition validate_action :: "(string \<Rightarrow> string) \<Rightarrow> SemanticStateSummary \<Rightarrow> LoopPlanned \<Rightarrow> check" where
  "validate_action dbg s a =
     checks [validate_failure_citation s a, validate_verifier a, validate_action_shape dbg a]"

section \<open>The batch\<close>

definition execution_kinds :: "string list" where
  "execution_kinds =
     [''patch_file'', ''apply_patch'', ''write_file'', ''run_command'', ''done'', ''edit.rename_symbol'', ''edit.move_symbol'',
      ''edit.add_import'', ''edit.define_symbol_stub'', ''edit.create_module_file'']"

definition validate_retry_policy :: "RetryPolicy \<Rightarrow> LoopPlanned list \<Rightarrow> check" where
  "validate_retry_policy policy actions =
     (let has_discovery = list_ex (\<lambda>a. lp_action_kind a \<in> {''list_dir'', ''read_file''}) actions;
          has_execution = list_ex (\<lambda>a. lp_action_kind a \<in> set execution_kinds) actions
      in checks
        [fail_if (policy = RP_DiscoveryOnly \<and> has_execution)
           ''discovery-only retry required after invalid plan batch; execution/edit actions are not allowed yet'',
         fail_if (policy = RP_SinglePatchOnly \<and>
                  (length (filter (\<lambda>a. lp_action_kind a = ''apply_patch'') actions) \<noteq> 1 \<or>
                   list_ex (\<lambda>a. lp_action_kind a \<noteq> ''apply_patch'') actions))
           ''single-patch retry required after apply_patch failure; emit exactly one apply_patch action and nothing else'',
         fail_if (has_discovery \<and> has_execution)
           ''mixed discovery actions with execution/edit actions in one plan batch''])"

record PlanEnvironment =
  pe_exists :: "path \<Rightarrow> bool"
  pe_dbg :: "string \<Rightarrow> string"
  pe_fmt :: "f32 \<Rightarrow> string"

definition batch_strategy ::
    "PlanEnvironment \<Rightarrow> SemanticStateSummary \<Rightarrow> ObjectiveTrendState \<Rightarrow> SemanticExecutionResultRecord list \<Rightarrow>
     DevelopmentStrategyKind option \<Rightarrow> DevelopmentStrategyKind" where
  "batch_strategy env s t results forced =
     or_else forced (primary_development_strategy_kind (pe_fmt env)
       (derive_self_development_objective_state s 0 results t) t s)"

definition batch_objective ::
    "PlanEnvironment \<Rightarrow> SemanticStateSummary \<Rightarrow> ObjectiveTrendState \<Rightarrow> SemanticExecutionResultRecord list \<Rightarrow>
     DevelopmentObjectiveKind option \<Rightarrow> string" where
  "batch_objective env s t results forced =
     objective_focus_text (or_else forced (primary_development_objective_kind (pe_fmt env)
       (derive_self_development_objective_state s 0 results t) t s))"

definition validate_action_batch ::
    "PlanEnvironment \<Rightarrow> LoopPlanned list \<Rightarrow> RetryPolicy \<Rightarrow> SemanticStateSummary \<Rightarrow> ObjectiveTrendState \<Rightarrow>
     SemanticExecutionResultRecord list \<Rightarrow> DevelopmentObjectiveKind option \<Rightarrow> DevelopmentStrategyKind option \<Rightarrow> check" where
  "validate_action_batch env actions policy s t results forced_objective forced_strategy =
     (if length actions \<noteq> 1
      then Inl (''planner must emit exactly one action per turn; got '' @ decimal (length actions) @ '' actions'')
      else if \<not> ss_complete s then Inl ''semantic summary is incomplete''
      else case ss_target_root s of
        None \<Rightarrow> Inl ''semantic summary is missing target_root''
      | Some dir \<Rightarrow>
          checks
            ([validate_retry_policy policy actions,
              fail_if (primary_failure_class s \<noteq> None \<and> \<not> all_failures_typed (ss_failure_class s) (ss_failure_scope s))
                ''meta_invariant_all_failures_typed violated: active semantic failure must include both failure_class and failure_scope''] @
             map (validate_action (pe_dbg env) s) actions @
             [validate_preconditions (pe_exists env) actions dir (derive_preconditions_from_lines (ss_planning_preconditions s)) s,
              validate_objective_route_plan_alignment actions dir ''plan'' (batch_objective env s t results forced_objective) s,
              validate_trend_intent_alignment actions dir results t,
              validate_development_strategy_alignment (pe_fmt env) actions dir s
                (derive_self_development_objective_state s 0 results t) t
                (Some (batch_strategy env s t results forced_strategy))]))"

definition planning_constraint_state :: "(path \<Rightarrow> bool) \<Rightarrow> SemanticStateSummary \<Rightarrow> ConstraintState" where
  "planning_constraint_state exists s =
     \<lparr> cs_semantic_path_exists = ss_path_exists s, cs_semantic_cargo_project = ss_cargo_project s,
       cs_real_path_exists = (case ss_target_root s of None \<Rightarrow> False | Some dir \<Rightarrow> exists dir),
       cs_real_cargo_project = (case ss_target_root s of None \<Rightarrow> False | Some dir \<Rightarrow> exists (path_join dir ''Cargo.toml'')),
       cs_actionable_failure =
         has_actionable_failure (ss_validation_blocked_by_preconditions s) (ss_compiler_repair_required s)
           (length (ss_planning_preconditions s)) (length (ss_compiler_hints s)) (length (ss_module_gaps s)),
       cs_validation_blocked = ss_validation_blocked_by_preconditions s,
       cs_entrypoint_missing = summary_entrypoint_missing s, cs_module_gaps_present = (ss_module_gaps s \<noteq> []),
       cs_recent_no_semantic_progress = False,
       cs_failure_class_no_actionable = (primary_failure_class s = Some ''no_actionable_failure''),
       cs_failure_scope_localized = (ss_failure_scope s = Some ''localized''),
       cs_failure_scope_workspace = (ss_failure_scope s = Some ''workspace''),
       cs_failure_scope_tooling = (ss_failure_scope s = Some ''tooling''),
       cs_route_objective_contradiction = False, cs_has_plan = False \<rparr>"

definition planning_semantic_summary :: "LoopObserved option \<Rightarrow> string + SemanticStateSummary" where
  "planning_semantic_summary observed =
     (case observed of
        None \<Rightarrow> Inl ''last_observed is missing''
      | Some ob \<Rightarrow>
          let s = lo_semantic_summary ob
          in if \<not> ss_complete s then Inl ''semantic summary is incomplete''
             else if ss_target_root s = None then Inl ''semantic summary is missing target_root''
             else Inr s)"

section \<open>What an accepted batch guarantees\<close>

lemma action_context_decision [simp]: "evaluate_constraint_context (action_context cs c) = evaluate_action cs c"
  by (simp add: evaluate_constraint_context_def action_context_def)

lemma accepted_batchE:
  assumes "validate_action_batch env actions policy s t results fo fs = Inr ()"
  obtains a dir where "actions = [a]" "ss_complete s" "ss_target_root s = Some dir"
    "validate_retry_policy policy actions = Inr ()" "validate_action (pe_dbg env) s a = Inr ()"
    "validate_preconditions (pe_exists env) actions dir (derive_preconditions_from_lines (ss_planning_preconditions s)) s = Inr ()"
    "validate_trend_intent_alignment actions dir results t = Inr ()"
    "strategy_check actions dir s (batch_strategy env s t results fs) = Inr ()"
proof -
  from assms obtain a where "actions = [a]"
    by (cases actions rule: remdups_adj.cases) (auto simp: validate_action_batch_def split: if_splits)
  with assms that show thesis
    by (auto simp: validate_action_batch_def validate_development_strategy_alignment_def split: if_splits option.splits)
qed

lemma accepted_action_allowed:
  assumes "validate_preconditions exists [a] dir ps s = Inr ()"
    and "classify_constraint_action_for_plan a = Some c"
  shows "evaluate_action (summary_constraint_state (planner_workspace_presence exists dir s)
           (effective_actionable_failure s) s) c = Allow"
proof -
  have "action_legality (summary_constraint_state (planner_workspace_presence exists dir s)
      (effective_actionable_failure s) s) a = Inr ()"
    using assms(1) by (simp add: validate_preconditions_def validate_repair_action_legality_def Let_def)
  then show ?thesis using assms(2) by (auto simp: action_legality_def split: ConstraintDecision.splits)
qed

definition action_permitted :: "bool \<times> bool \<Rightarrow> SemanticStateSummary \<Rightarrow> ConstraintAction \<Rightarrow> bool" where
  "action_permitted presence s c =
     (case c of
        RepairLocalized \<Rightarrow> effective_actionable_failure s \<and> primary_failure_class s \<noteq> Some ''no_actionable_failure'' \<and>
          fst (effective_failure_scope_flags s)
      | RepairWorkspace \<Rightarrow> effective_actionable_failure s \<and> primary_failure_class s \<noteq> Some ''no_actionable_failure'' \<and>
          \<not> fst (effective_failure_scope_flags s)
      | Validation \<Rightarrow> fst presence \<and> \<not> ss_validation_blocked_by_preconditions s \<and> \<not> summary_entrypoint_missing s \<and>
          ss_module_gaps s = []
      | CargoInit \<Rightarrow> fst presence \<and> \<not> snd presence
      | CargoNew \<Rightarrow> \<not> fst presence \<and> \<not> snd presence
      | OtherAction \<Rightarrow> True)"

lemma evaluate_action_permitted:
  "evaluate_action (summary_constraint_state presence (effective_actionable_failure s) s) c = Allow \<longleftrightarrow>
   action_permitted presence s c"
  by (cases c) (auto simp: action_permitted_def summary_constraint_state_def split: prod.splits)

definition path_kinds :: "string set" where
  "path_kinds = {''edit.rename_symbol'', ''edit.move_symbol'', ''edit.add_import'', ''edit.define_symbol_stub'',
     ''edit.create_module_file'', ''read_file'', ''list_dir'', ''write_file'', ''patch_file''}"

lemma relative_path_ok: "validate_path_for kind p = Inr () \<Longrightarrow> confined dir (under_root dir p)"
  by (rule relative_path_confined)
     (auto simp: validate_path_for_def validate_workspace_relative_path_def split: if_splits)

lemma shape_confines_path:
  assumes "validate_action_shape dbg a = Inr ()" "lp_action_kind a \<in> path_kinds" "payload_str a ''path'' = Some p"
  shows "confined dir (under_root dir p)"
proof -
  have "validate_path_for (lp_action_kind a) p = Inr ()"
    using assms by (auto simp: path_kinds_def validate_action_shape_def with_payload_def split: option.splits)
  then show ?thesis by (rule relative_path_ok)
qed

lemma payload_simp: "json_get_str (lp_action_payload a) k = payload_str a k"
  by (simp add: payload_str_def)


section \<open>A stalled loop\<close>

lemma stalled_strategy:
  assumes "trend_misalignment_pressure_score t = 0" and "\<not> has_hint_kind HK_DeadCodeForbidConflict s"
    and "0 < ot_repeated_stall_count t" and "2 \<le> semantic_no_progress_streak results"
  shows "batch_strategy env s t results None = RefreshContextBeforeRetry"
  using assms
  by (simp add: batch_strategy_def primary_development_strategy_kind_def derive_self_development_objective_state_def)


section \<open>Sample batches\<close>

definition sample_environment :: PlanEnvironment where
  "sample_environment = \<lparr> pe_exists = (\<lambda>p. p \<in> {''/w'', ''/w/Cargo.toml''}), pe_dbg = (\<lambda>x. x), pe_fmt = (\<lambda>_. '''') \<rparr>"

definition sample_action :: "string \<Rightarrow> (string \<times> json) list \<Rightarrow> LoopPlanned" where
  "sample_action kind payload =
     \<lparr> lp_tick = 1, lp_action_kind = kind, lp_action_payload = JObject payload, lp_reason = ''repair'',
       lp_llm_request_id = None, lp_signals = None, lp_trace_id = None, lp_execution_id = None, lp_span_id = None,
       lp_parent_span_id = None, lp_plan_id = None, lp_plan_step_id = None, lp_action_id = None, lp_depends_on = [] \<rparr>"

definition import_action :: LoopPlanned where
  "import_action = sample_action ''edit.add_import''
     [(''import'', JString ''crate::index''), (''path'', JString ''src/lib.rs''),
      (''failure_class'', JString ''unresolved_import''), (''verifier'', JString ''graph_proof'')]"

definition import_summary :: SemanticStateSummary where
  "import_summary = default_summary\<lparr>ss_complete := True, ss_target_root := Some ''/w'', ss_path_exists := True,
     ss_cargo_project := True, ss_entrypoint_kind := Some ''lib'', ss_compiler_repair_required := True,
     ss_planning_preconditions := [precondition_line MustFixUnresolvedImport],
     ss_compiler_hints := [new_hint HK_UnresolvedImport ''unresolved import'' ''add it'' [''src/lib.rs'']],
     ss_failure_class := Some ''unresolved_import'', ss_failure_scope := Some ''localized''\<rparr>"

lemma import_batch_checks:
  "validate_retry_policy RP_None [import_action] = Inr ()"
  "all_failures_typed (ss_failure_class import_summary) (ss_failure_scope import_summary)"
  "validate_action (pe_dbg sample_environment) import_summary import_action = Inr ()"
  "derive_preconditions_from_lines (ss_planning_preconditions import_summary) = [MustFixUnresolvedImport]"
  "validate_preconditions (pe_exists sample_environment) [import_action] ''/w'' [MustFixUnresolvedImport] import_summary = Inr ()"
  "validate_objective_route_plan_alignment [import_action] ''/w'' ''plan'' (objective_focus_text ReduceCompilerFailures) import_summary = Inr ()"
  "validate_trend_intent_alignment [import_action] ''/w'' [] default_trend = Inr ()"
  by code_simp+

lemma import_batch_accepted:
  "validate_action_batch sample_environment [import_action] RP_None import_summary default_trend []
     (Some ReduceCompilerFailures) (Some ApplyTargetedCompilerRepair) = Inr ()"
proof -
  have "ss_complete import_summary" "ss_target_root import_summary = Some ''/w''"
    by (simp_all add: import_summary_def)
  then show ?thesis
    by (simp add: validate_action_batch_def import_batch_checks batch_objective_def batch_strategy_def
        validate_development_strategy_alignment_def strategy_check_def del: objective_focus_text.simps)
qed


definition stalled_results :: "SemanticExecutionResultRecord list" where
  "stalled_results = execution_results_for_action [SI_FixUnresolvedImport ''src/lib.rs'', SI_ValidateCargoCheck] False ''error''"

lemma stalled_results_progress: "map xr_semantic_progress stalled_results = [False, False]"
  by (simp add: stalled_results_def execution_results_for_action_def failure_result_def new_result_def with_attempted_kind_def)

lemma stalled_trend:
  "ot_current_no_progress_streak (record_execution_results stalled_results default_trend) = 2"
  "ot_repeated_stall_count (record_execution_results stalled_results default_trend) = 1"
  "trend_misalignment_pressure_score (record_execution_results stalled_results default_trend) = 0"
  "semantic_no_progress_streak stalled_results = 2"
proof -
  obtain y z where yz: "stalled_results = [y, z]" "\<not> xr_semantic_progress y" "\<not> xr_semantic_progress z"
    using stalled_results_progress by (auto simp: map_eq_Cons_conv)
  note record_defs = record_execution_results_def record_execution_result_def default_trend_def saturating_add_def
    trend_misalignment_pressure_score_def semantic_no_progress_streak_def
  show "ot_current_no_progress_streak (record_execution_results stalled_results default_trend) = 2"
    "ot_repeated_stall_count (record_execution_results stalled_results default_trend) = 1"
    "trend_misalignment_pressure_score (record_execution_results stalled_results default_trend) = 0"
    "semantic_no_progress_streak stalled_results = 2"
    unfolding yz(1) using yz(2,3) by (simp_all add: record_defs)
qed


end
