(* ===== verification/Route_Context.thy ===== *)
theory Route_Context
  imports Compiler_Hints Development_Objectives Runtime_Events Route_Gate Constraint_Engine
begin

text \<open>
  The state the router keeps, of \<^verbatim>\<open>canon-utils/canon-route/src/context.rs\<close>: what every runtime event adds to
  it, the causal graph of \<^verbatim>\<open>causal.rs\<close>, the goal specification of \<^verbatim>\<open>canon-goal/src/lib.rs\<close> and the goal test
  of \<^verbatim>\<open>helpers.rs\<close>.

  Hash maps are partial functions and hash sets are sets. What the environment contributes is
  the record \<open>RouteEnv\<close>: the number of lines of Rust code in the workspace and the printers of JSON
  values and of \<^verbatim>\<open>f32\<close>. The text of a tool result is cut at 512 bytes, which panics inside a
  character; therefore the update returns an option. The counters are \<^verbatim>\<open>u32\<close> values whose addition
  wraps, as in a release build.
\<close>

record RouteEnv =
  ren_loc :: nat
  ren_json :: "json \<Rightarrow> string"
  ren_f32 :: "f32 \<Rightarrow> string"

fun json_as_bool :: "json \<Rightarrow> bool option" where
  "json_as_bool (JBool b) = Some b"
| "json_as_bool _ = None"

fun json_as_u64 :: "json \<Rightarrow> u64 option" where
  "json_as_u64 (JNumber (PosInt n)) = Some n"
| "json_as_u64 _ = None"

section \<open>Goals\<close>

record GoalSpec =
  gl_schema_version :: u32
  gl_id :: string
  gl_goal_type :: string
  gl_target_path :: "path option"
  gl_description :: string
  gl_constraints :: "string list"
  gl_requirements :: "string list"
  gl_metadata :: json

definition default_goal :: GoalSpec where
  "default_goal =
     \<lparr> gl_schema_version = 1, gl_id = ''agent_goal'', gl_goal_type = ''workspace_task'', gl_target_path = None,
       gl_description = [], gl_constraints = [], gl_requirements = [], gl_metadata = JObject [] \<rparr>"

definition trim_backticks :: "string \<Rightarrow> string" where
  "trim_backticks s = rev (strip_leading [''`''] (rev (strip_leading [''`''] s)))"

text \<open>The scan over the lines, with the flag for the description and the lines collected for it.\<close>

definition goal_line :: "string \<Rightarrow> bool \<times> string list \<times> GoalSpec \<Rightarrow> bool \<times> string list \<times> GoalSpec" where
  "goal_line line st =
     (case st of (in_description, described, spec) \<Rightarrow>
        let trimmed = trim line
        in if prefix ''# '' trimmed then (True, described, spec)
           else
             let in_description = (in_description \<and> \<not> prefix ''## '' trimmed);
                 described = (if in_description \<and> trimmed \<noteq> [] then described @ [trimmed] else described)
             in case strip_prefix ''- Project path:'' trimmed of
                  Some p \<Rightarrow>
                    let candidate = trim_backticks (trim p)
                    in (in_description, described, if candidate \<noteq> [] then spec\<lparr>gl_target_path := Some candidate\<rparr> else spec)
                | None \<Rightarrow>
                    (in_description, described,
                     if prefix ''- '' trimmed
                     then spec\<lparr>gl_requirements := gl_requirements spec @ [trim (strip_leading [''- ''] trimmed)]\<rparr>
                     else spec))"

definition parse_agent_goal_markdown :: "string \<Rightarrow> GoalSpec" where
  "parse_agent_goal_markdown goal =
     (case fold goal_line (str_lines goal) (False, [], default_goal) of
        (_, described, spec) \<Rightarrow> spec\<lparr>gl_description := join '' '' described\<rparr>)"

definition summarize_goal :: "GoalSpec \<Rightarrow> string" where
  "summarize_goal spec =
     (if gl_description spec = [] then ''(no description)'' else gl_description spec) @ nl @
     ''target: '' @ or_else (gl_target_path spec) ''(unspecified)'' @ nl @ ''requirements:'' @ nl @
     (if gl_requirements spec = [] then ''(none)''
      else join nl (map (\<lambda>r. ''- '' @ r) (take 6 (gl_requirements spec))))"

definition loc_of_requirement :: "string \<Rightarrow> nat option" where
  "loc_of_requirement req =
     (if str_contains (to_ascii_lowercase req) ''loc''
      then parse_unsigned (2 ^ 64) (filter (\<lambda>c. digit_value c \<noteq> None) req)
      else None)"

definition extract_loc_requirement :: "GoalSpec \<Rightarrow> nat" where
  "extract_loc_requirement spec =
     (case List.map_filter loc_of_requirement (gl_requirements spec) of [] \<Rightarrow> 0 | n # _ \<Rightarrow> n)"

definition evaluate_goal_satisfied :: "nat \<Rightarrow> GoalSpec option \<Rightarrow> bool" where
  "evaluate_goal_satisfied loc spec =
     (case spec of None \<Rightarrow> False
      | Some g \<Rightarrow> extract_loc_requirement g \<noteq> 0 \<and> extract_loc_requirement g \<le> loc)"

section \<open>The causal graph\<close>

datatype CausalNodeKind =
    CN_LlmCall string "string option" "string option"
  | CN_LoopPlanned string string
  | CN_ToolCall string string
  | CN_ToolResult string bool
  | CN_LoopActed "string option" bool
  | CN_LoopVerified bool
  | CN_SubTaskResult string string bool

record CausalEdge =
  ce_from :: string
  ce_to :: string
  ce_kind :: string

record CausalGraph =
  cg_nodes :: "string \<rightharpoonup> CausalNodeKind"
  cg_edges :: "CausalEdge list"

definition empty_causal_graph :: CausalGraph where
  "empty_causal_graph = \<lparr> cg_nodes = Map.empty, cg_edges = [] \<rparr>"

definition upsert_node :: "string \<Rightarrow> CausalNodeKind \<Rightarrow> CausalGraph \<Rightarrow> CausalGraph" where
  "upsert_node key kind g = (if key \<in> dom (cg_nodes g) then g else g\<lparr>cg_nodes := (cg_nodes g)(key \<mapsto> kind)\<rparr>)"

definition push_edge :: "string \<Rightarrow> string \<Rightarrow> string \<Rightarrow> CausalGraph \<Rightarrow> CausalGraph" where
  "push_edge src dst kind g = g\<lparr>cg_edges := cg_edges g @ [\<lparr> ce_from = src, ce_to = dst, ce_kind = kind \<rparr>]\<rparr>"

definition record_llm_call :: "string \<Rightarrow> string option \<Rightarrow> string option \<Rightarrow> CausalGraph \<Rightarrow> CausalGraph" where
  "record_llm_call request_id role agent_id = upsert_node request_id (CN_LlmCall request_id role agent_id)"

definition record_planned :: "LoopPlanned \<Rightarrow> CausalGraph \<Rightarrow> CausalGraph" where
  "record_planned p g =
     (case lp_action_id p of None \<Rightarrow> g
      | Some aid \<Rightarrow>
          let g = upsert_node aid (CN_LoopPlanned aid (lp_action_kind p)) g;
              g = (case lp_llm_request_id p of None \<Rightarrow> g | Some req \<Rightarrow> push_edge req aid ''caused'' g)
          in fold (\<lambda>dep. push_edge dep aid ''depends_on'') (lp_depends_on p) g)"

definition record_tool_call :: "ToolCall \<Rightarrow> CausalGraph \<Rightarrow> CausalGraph" where
  "record_tool_call tc g =
     (let g = upsert_node (tc_tool_call_id tc) (CN_ToolCall (tc_tool_call_id tc) (tc_kind tc)) g
      in if CHR '':'' \<in> set (tc_node_id tc)
         then push_edge (takeWhile (\<lambda>c. c \<noteq> CHR '':'') (tc_node_id tc)) (tc_tool_call_id tc) ''triggered'' g
         else g)"

definition record_tool_result :: "ToolResult \<Rightarrow> CausalGraph \<Rightarrow> CausalGraph" where
  "record_tool_result tr g =
     push_edge (tr_tool_call_id tr) (tr_tool_result_id tr) ''resolved''
       (upsert_node (tr_tool_result_id tr) (CN_ToolResult (tr_tool_result_id tr) (tr_success tr)) g)"

definition record_acted :: "LoopActed \<Rightarrow> CausalGraph \<Rightarrow> CausalGraph" where
  "record_acted a g =
     (let key = or_else (la_tool_result_id a) (la_capability_request_id a);
          g = upsert_node key (CN_LoopActed (la_action_id a) (la_success a)) g;
          g = (case la_action_id a of None \<Rightarrow> g | Some aid \<Rightarrow> push_edge aid key ''executed'' g)
      in case la_tool_result_id a of None \<Rightarrow> g | Some tr \<Rightarrow> push_edge tr key ''resulted_in'' g)"

definition record_sub_result :: "string \<Rightarrow> string \<Rightarrow> bool \<Rightarrow> CausalGraph \<Rightarrow> CausalGraph" where
  "record_sub_result dispatch_id agent_id success g =
     (let key = ''subresult:'' @ dispatch_id
      in push_edge dispatch_id key ''completed'' (upsert_node key (CN_SubTaskResult dispatch_id agent_id success) g))"

fun update_causal_graph :: "RuntimeEvent \<Rightarrow> CausalGraph \<Rightarrow> CausalGraph" where
  "update_causal_graph (EvLoopPlanned p) g = record_planned p g"
| "update_causal_graph (EvLoopActed a) g = record_acted a g"
| "update_causal_graph (EvToolCall tc) g = record_tool_call tc g"
| "update_causal_graph (EvToolResult tr) g = record_tool_result tr g"
| "update_causal_graph (EvSubTaskResult r) g = record_sub_result (str_dispatch_id r) (str_agent_id r) (str_success r) g"
| "update_causal_graph _ g = g"

section \<open>The context\<close>

record JournalLine =
  jl_lane :: string
  jl_summary :: string
  jl_data :: json

type_synonym dirty_tracker = "string \<rightharpoonup> string list"

definition mark_dirty :: "string \<Rightarrow> string option \<Rightarrow> dirty_tracker \<Rightarrow> dirty_tracker" where
  "mark_dirty agent action_id d =
     d(agent \<mapsto> or_else (d agent) [] @ (case action_id of None \<Rightarrow> [] | Some a \<Rightarrow> [a]))"

definition mark_verified :: "string \<Rightarrow> dirty_tracker \<Rightarrow> dirty_tracker" where
  "mark_verified agent d = d(agent := None)"

definition any_dirty :: "dirty_tracker \<Rightarrow> bool" where
  "any_dirty d \<longleftrightarrow> dom d \<noteq> {}"

record RouteContext =
  rc_scheduler_tick :: u64
  rc_mission_raw :: string
  rc_mission_summary :: string
  rc_mission_goal_spec :: "GoalSpec option"
  rc_context_ready :: bool
  rc_workspace_dirty_tracker :: dirty_tracker
  rc_acted_unverified :: bool
  rc_pending_tool_result_ids :: "string set"
  rc_recent_tool_results :: "json list"
  rc_finish_ready :: bool
  rc_last_action_kind :: string
  rc_verify_seen :: bool
  rc_last_verify_diagnostics :: "string list"
  rc_last_verifier_outcome :: "string option"
  rc_last_verifier_retry_policy :: "string option"
  rc_last_verifier_reward_bias :: "string option"
  rc_last_verifier_actionable_failure :: "bool option"
  rc_journal :: "JournalLine list"
  rc_last_llm_signals :: "json option"
  rc_halted :: bool
  rc_goodness :: "f32 option"
  rc_delta_g :: "f32 option"
  rc_objective_trend_state :: ObjectiveTrendState
  rc_batch_settled :: "(u32 \<times> bool) option"
  rc_batch_result_count :: u32
  rc_batch_any_failed :: bool
  rc_consecutive_llm_plan_failures :: u32
  rc_batch_is_plan_only :: bool
  rc_last_invalid_plan_reason :: "string option"
  rc_last_invalid_plan_planned_count :: "usize option"
  rc_consecutive_invalid_plan_batches :: u32
  rc_bootstrap_refresh_required :: bool
  rc_semantic_summary :: SemanticStateSummary
  rc_recent_execution_results :: "SemanticExecutionResultRecord list"
  rc_last_halt_reason :: "string option"
  rc_action_meta :: "string \<rightharpoonup> string \<times> string option"
  rc_action_semantic_intents :: "string \<rightharpoonup> SemanticActionIntent list"
  rc_causal_graph :: CausalGraph

definition new_route_context :: RouteContext where
  "new_route_context =
     \<lparr> rc_scheduler_tick = 0, rc_mission_raw = [], rc_mission_summary = [], rc_mission_goal_spec = None,
       rc_context_ready = False, rc_workspace_dirty_tracker = Map.empty, rc_acted_unverified = False,
       rc_pending_tool_result_ids = {}, rc_recent_tool_results = [], rc_finish_ready = False, rc_last_action_kind = [],
       rc_verify_seen = False, rc_last_verify_diagnostics = [], rc_last_verifier_outcome = None,
       rc_last_verifier_retry_policy = None, rc_last_verifier_reward_bias = None,
       rc_last_verifier_actionable_failure = None, rc_journal = [], rc_last_llm_signals = None, rc_halted = False,
       rc_goodness = None, rc_delta_g = None, rc_objective_trend_state = default_trend, rc_batch_settled = None,
       rc_batch_result_count = 0, rc_batch_any_failed = False, rc_consecutive_llm_plan_failures = 0,
       rc_batch_is_plan_only = False, rc_last_invalid_plan_reason = None, rc_last_invalid_plan_planned_count = None,
       rc_consecutive_invalid_plan_batches = 0, rc_bootstrap_refresh_required = False,
       rc_semantic_summary = default_summary, rc_recent_execution_results = [], rc_last_halt_reason = None,
       rc_action_meta = Map.empty, rc_action_semantic_intents = Map.empty, rc_causal_graph = empty_causal_graph \<rparr>"

text \<open>The last \<open>n\<close> elements: what \<^verbatim>\<open>drain(0..len - n)\<close> leaves.\<close>

definition keep_last :: "nat \<Rightarrow> 'a list \<Rightarrow> 'a list" where
  "keep_last n xs = drop (length xs - n) xs"

definition push_journal :: "string \<Rightarrow> string \<Rightarrow> RouteContext \<Rightarrow> RouteContext" where
  "push_journal lane summary c =
     c\<lparr>rc_journal := keep_last 32 (rc_journal c @ [\<lparr> jl_lane = lane, jl_summary = summary, jl_data = JNull \<rparr>])\<rparr>"

definition ctx_record_planning_completion :: "string \<Rightarrow> usize option \<Rightarrow> RouteContext \<Rightarrow> RouteContext" where
  "ctx_record_planning_completion status planned_count c =
     (if status = ''llm_failed'' \<or> status = ''llm_timeout''
      then c\<lparr>rc_consecutive_llm_plan_failures := rc_consecutive_llm_plan_failures c + 1\<rparr>
      else if status = ''ok'' then c\<lparr>rc_consecutive_llm_plan_failures := 0\<rparr>
      else c)"

definition goal_is_placeholder :: "string \<Rightarrow> bool" where
  "goal_is_placeholder goal \<longleftrightarrow> trim goal = [] \<or> str_contains (trim goal) ''goal-pending''"

definition is_successful_bootstrap :: "string \<Rightarrow> bool \<Rightarrow> string \<Rightarrow> bool" where
  "is_successful_bootstrap action_kind success stderr \<longleftrightarrow>
     success \<and> action_kind = ''run_command'' \<and>
     (str_contains stderr ''Creating binary (application) package'' \<or> str_contains stderr ''Creating library package'' \<or>
      str_contains stderr ''Creating binary (application) `'' \<or> str_contains stderr ''Creating library `'')"

definition read_only_actions :: "string list" where
  "read_only_actions = [''list_dir'', ''read_file'', ''search_files'', ''done'']"

section \<open>What an event changes\<close>

definition on_capture_written :: "RustcGraphArtifactWritten \<Rightarrow> RouteContext \<Rightarrow> RouteContext" where
  "on_capture_written w =
     push_journal ''observe''
       (''rustc_graph_artifact_written crate='' @ rga_crate_name w @ '' artifact_id='' @ rga_artifact_id w @
        '' files='' @ show_word (rga_file_count w) @ '' nodes='' @ show_word (rga_node_count w) @
        '' edges='' @ show_word (rga_edge_count w))"

definition on_observed :: "LoopObserved \<Rightarrow> RouteContext \<Rightarrow> RouteContext" where
  "on_observed ob c =
     (let goal_present = (case lo_goal_text ob of None \<Rightarrow> False | Some g \<Rightarrow> \<not> goal_is_placeholder g);
          c = c\<lparr>rc_context_ready := (goal_present \<or> 0 < lo_error_count ob), rc_bootstrap_refresh_required := False,
               rc_semantic_summary := lo_semantic_summary ob,
               rc_objective_trend_state :=
                 record_observation (unat (lo_error_count ob)) (lo_semantic_summary ob) (rc_objective_trend_state c)\<rparr>;
          c = (case lo_goal_text ob of None \<Rightarrow> c
               | Some g \<Rightarrow>
                   if goal_is_placeholder g then c
                   else c\<lparr>rc_mission_raw := g, rc_mission_summary := summarize_goal (parse_agent_goal_markdown g),
                          rc_mission_goal_spec := Some (parse_agent_goal_markdown g)\<rparr>)
      in push_journal ''observe''
           (''tick='' @ show_word (rc_scheduler_tick c) @ '' goal_present='' @ show_bool goal_present @
            '' errors='' @ show_word (lo_error_count ob)) c)"

definition labelled :: "string \<Rightarrow> string option \<Rightarrow> string" where
  "labelled label m = (case m of None \<Rightarrow> [] | Some v \<Rightarrow> label @ v)"

definition on_planned :: "LoopPlanned \<Rightarrow> RouteContext \<Rightarrow> RouteContext" where
  "on_planned p c =
     (let c = c\<lparr>rc_causal_graph := update_causal_graph (EvLoopPlanned p) (rc_causal_graph c)\<rparr>;
          c = (case lp_signals p of None \<Rightarrow> c | Some sig \<Rightarrow> c\<lparr>rc_last_llm_signals := Some sig\<rparr>);
          c = (case lp_action_id p of None \<Rightarrow> c
               | Some aid \<Rightarrow>
                   c\<lparr>rc_action_meta := (rc_action_meta c)(aid \<mapsto> (lp_action_kind p, lp_llm_request_id p)),
                     rc_action_semantic_intents := (rc_action_semantic_intents c)(aid \<mapsto>
                       classify_planned_action_intents (lp_action_kind p) (lp_action_payload p)
                         (ss_target_root (rc_semantic_summary c)))\<rparr>)
      in push_journal ''plan''
           (''planned action='' @ lp_action_kind p @ labelled '' plan_id='' (lp_plan_id p) @
            labelled '' action_id='' (lp_action_id p) @ labelled '' llm_request_id='' (lp_llm_request_id p)) c)"

text \<open>The steps of the handler for an executed action, in their order.\<close>

definition forget_invalid_plans :: "RouteContext \<Rightarrow> RouteContext" where
  "forget_invalid_plans c =
     c\<lparr>rc_consecutive_invalid_plan_batches := 0, rc_last_invalid_plan_reason := None,
       rc_last_invalid_plan_planned_count := None\<rparr>"

definition settle_intents :: "LoopActed \<Rightarrow> RouteContext \<Rightarrow> RouteContext" where
  "settle_intents a c =
     (case la_action_id a of None \<Rightarrow> c
      | Some aid \<Rightarrow>
          (case rc_action_semantic_intents c aid of None \<Rightarrow> c
           | Some intents \<Rightarrow>
               let results = execution_results_for_action intents (la_success a) (la_stderr a)
               in c\<lparr>rc_action_semantic_intents := (rc_action_semantic_intents c)(aid := None),
                    rc_objective_trend_state := record_execution_results results (rc_objective_trend_state c),
                    rc_recent_execution_results := keep_last 16 (rc_recent_execution_results c @ results)\<rparr>))"

definition apply_bootstrap :: "LoopActed \<Rightarrow> RouteContext \<Rightarrow> RouteContext" where
  "apply_bootstrap a c =
     (if is_successful_bootstrap (la_action_kind a) (la_success a) (la_stderr a)
      then c\<lparr>rc_bootstrap_refresh_required := True,
             rc_semantic_summary := (rc_semantic_summary c)\<lparr>ss_path_exists := True, ss_planning_preconditions := [],
               ss_validation_blocked_by_preconditions := False, ss_compiler_repair_required := False,
               ss_repair_intents := [], ss_compiler_hints := []\<rparr>\<rparr>
      else c)"

definition on_acted :: "LoopActed \<Rightarrow> RouteContext \<Rightarrow> RouteContext" where
  "on_acted a c =
     (let mutating = (la_action_kind a \<notin> set read_only_actions);
          c = (if mutating then forget_invalid_plans c else c);
          c = c\<lparr>rc_causal_graph := update_causal_graph (EvLoopActed a) (rc_causal_graph c)\<rparr>;
          c = (if mutating
               then c\<lparr>rc_acted_unverified := True,
                      rc_workspace_dirty_tracker := mark_dirty ''orchestrator'' (la_action_id a) (rc_workspace_dirty_tracker c)\<rparr>
               else c);
          c = (case la_tool_call_id a of
                 Some tc \<Rightarrow>
                   if la_tool_result_id a \<noteq> None
                   then c\<lparr>rc_pending_tool_result_ids := rc_pending_tool_result_ids c - {tc}\<rparr> else c
               | None \<Rightarrow> c);
          c = apply_bootstrap a (settle_intents a c)
      in push_journal ''act''
           (''executed action='' @ la_action_kind a @ '' success='' @ show_bool (la_success a) @
            '' capability_request_id='' @ la_capability_request_id a @
            labelled '' tool_call_id='' (la_tool_call_id a) @ labelled '' tool_result_id='' (la_tool_result_id a))
           (c\<lparr>rc_last_action_kind := la_action_kind a\<rparr>))"

definition on_verified :: "RouteEnv \<Rightarrow> LoopVerified \<Rightarrow> RouteContext \<Rightarrow> RouteContext" where
  "on_verified env v c =
     (let repair = list_ex (\<lambda>d. str_contains d ''allow(dead_code) incompatible with previous forbid'' \<or>
                               str_contains d ''file not found for module `'') (lv_diagnostics v);
          done_action = (rc_last_action_kind c = ''done'');
          satisfied = ((done_action \<and> lv_passed v) \<or> evaluate_goal_satisfied (ren_loc env) (rc_mission_goal_spec c))
      in push_journal ''verify''
           (''passed='' @ show_bool (lv_compiler_clean v) @ '' done_action='' @ show_bool done_action @
            '' system_satisfied='' @ show_bool satisfied @ '' diagnostics='' @ join ''|'' (lv_diagnostics v))
           (c\<lparr>rc_acted_unverified := False, rc_verify_seen := True, rc_last_verify_diagnostics := lv_diagnostics v,
              rc_semantic_summary := (rc_semantic_summary c)\<lparr>ss_compiler_repair_required := repair\<rparr>,
              rc_workspace_dirty_tracker := mark_verified ''orchestrator'' (rc_workspace_dirty_tracker c),
              rc_finish_ready := (lv_compiler_clean v \<and> satisfied)\<rparr>))"

definition on_policy_updated :: "VerifierPolicyUpdated \<Rightarrow> RouteContext \<Rightarrow> RouteContext" where
  "on_policy_updated u c =
     push_journal ''policy_update''
       (''verifier_outcome='' @ vpu_verifier_outcome u @ '' retry_policy='' @ vpu_retry_policy u @
        '' reward_bias='' @ vpu_reward_bias u @ '' actionable_failure='' @ show_bool (vpu_actionable_failure u))
       (c\<lparr>rc_last_verifier_outcome := Some (vpu_verifier_outcome u),
          rc_last_verifier_retry_policy := Some (vpu_retry_policy u),
          rc_last_verifier_reward_bias := Some (vpu_reward_bias u),
          rc_last_verifier_actionable_failure := Some (vpu_actionable_failure u)\<rparr>)"

definition on_rewarded :: "LoopRewarded \<Rightarrow> RouteContext \<Rightarrow> RouteContext" where
  "on_rewarded r c =
     push_journal ''reward'' (''halt='' @ show_bool (lr_halt r))
       (if lr_halt r
        then c\<lparr>rc_halted := True, rc_last_halt_reason := Some ''loop_rewarded requested halt''\<rparr> else c)"

definition on_sub_task_result :: "SubTaskResult \<Rightarrow> RouteContext \<Rightarrow> RouteContext" where
  "on_sub_task_result r c =
     c\<lparr>rc_workspace_dirty_tracker := mark_dirty (str_agent_id r) None (rc_workspace_dirty_tracker c),
       rc_acted_unverified := (rc_acted_unverified c \<or> str_success r),
       rc_causal_graph := update_causal_graph (EvSubTaskResult r) (rc_causal_graph c)\<rparr>"

definition on_error :: "ErrorOccurred \<Rightarrow> RouteContext \<Rightarrow> RouteContext" where
  "on_error e c =
     (if err_kind e \<noteq> ''invalid_plan_batch'' then c
      else
        let planned = Option.bind (json_get (err_context e) ''planned_count'') json_as_u64;
            c = c\<lparr>rc_consecutive_invalid_plan_batches := saturating_add (rc_consecutive_invalid_plan_batches c) 1,
                 rc_objective_trend_state := record_invalid_plan_event (rc_objective_trend_state c),
                 rc_last_invalid_plan_reason := Some (err_message e),
                 rc_last_invalid_plan_planned_count := planned\<rparr>
        in push_journal ''plan''
             (''invalid_plan_batch count='' @ show_word (rc_consecutive_invalid_plan_batches c) @ '' planned_count='' @
              (case planned of None \<Rightarrow> ''NA'' | Some n \<Rightarrow> show_word n) @ '' reason='' @ err_message e) c)"

definition on_planning_completed :: "PlanningCompleted \<Rightarrow> RouteContext \<Rightarrow> RouteContext" where
  "on_planning_completed pc c =
     (let c = c\<lparr>rc_objective_trend_state := record_planning_completion (plc_status pc) (rc_objective_trend_state c)\<rparr>
      in if plc_status pc \<noteq> ''invalid_plan'' then forget_invalid_plans c else c)"

definition on_debug :: "DebugEvent \<Rightarrow> RouteContext \<Rightarrow> RouteContext" where
  "on_debug d c =
     (if dbg_kind d = ''bootstrap_refresh_required'' then
        push_journal ''observe'' ''bootstrap_refresh_required''
          (c\<lparr>rc_bootstrap_refresh_required := True,
             rc_semantic_summary := (rc_semantic_summary c)\<lparr>ss_path_exists := True\<rparr>\<rparr>)
      else if dbg_kind d = ''route_objective_contradiction'' then
        push_journal ''route'' ''route_objective_contradiction''
          (c\<lparr>rc_objective_trend_state := record_route_objective_contradiction (rc_objective_trend_state c)\<rparr>)
      else if dbg_kind d = ''goal_objective_drift'' then
        push_journal ''goal'' ''goal_objective_drift''
          (c\<lparr>rc_objective_trend_state := record_goal_objective_drift (rc_objective_trend_state c)\<rparr>)
      else c)"

definition on_tool_call :: "ToolCall \<Rightarrow> RouteContext \<Rightarrow> RouteContext" where
  "on_tool_call tc c =
     c\<lparr>rc_batch_result_count := 0, rc_batch_any_failed := False, rc_batch_settled := None,
       rc_batch_is_plan_only := (tc_kind tc = ''llm.plan''),
       rc_pending_tool_result_ids := insert (tc_tool_call_id tc) (rc_pending_tool_result_ids c),
       rc_causal_graph := update_causal_graph (EvToolCall tc) (rc_causal_graph c)\<rparr>"

definition truncated_output :: "string \<Rightarrow> string option" where
  "truncated_output out =
     (if 512 < length out
      then if is_char_boundary 512 out then Some (take 512 out @ ''...<truncated>'') else None
      else Some out)"

definition tool_result_json :: "string \<Rightarrow> string option \<Rightarrow> ToolResult \<Rightarrow> json" where
  "tool_result_json action_kind req tr =
     JObject [(''node_id'', JString (tr_node_id tr)), (''kind'', JString (tr_kind tr)), (''action'', JString action_kind),
       (''llm_request_id'', case req of None \<Rightarrow> JNull | Some r \<Rightarrow> JString r),
       (''success'', JBool (tr_success tr)), (''request_id'', JString (tr_request_id tr)),
       (''tool_call_id'', JString (tr_tool_call_id tr)), (''tool_result_id'', JString (tr_tool_result_id tr)),
       (''output'', tr_output tr)]"

definition on_tool_result :: "RouteEnv \<Rightarrow> ToolResult \<Rightarrow> RouteContext \<Rightarrow> RouteContext option" where
  "on_tool_result env tr c =
     map_option (\<lambda>output_text.
       let count = rc_batch_result_count c + 1; failed = (rc_batch_any_failed c \<or> \<not> tr_success tr);
           (action_kind, req) = or_else (rc_action_meta c (tr_node_id tr)) ([], None);
           results = rc_recent_tool_results c @ [tool_result_json action_kind req tr];
           c = c\<lparr>rc_pending_tool_result_ids := rc_pending_tool_result_ids c - {tr_tool_call_id tr},
                rc_batch_result_count := count, rc_batch_any_failed := failed,
                rc_causal_graph := update_causal_graph (EvToolResult tr) (rc_causal_graph c),
                rc_recent_tool_results := (if 8 < length results then tl results else results),
                rc_batch_settled := (if rc_batch_is_plan_only c then rc_batch_settled c else Some (count, failed))\<rparr>
       in push_journal ''tool''
            (''tool_result kind='' @ tr_kind tr @ '' success='' @ show_bool (tr_success tr) @ '' tool_call_id='' @
             tr_tool_call_id tr @ '' tool_result_id='' @ tr_tool_result_id tr @ '' output='' @ output_text) c)
       (truncated_output (ren_json env (tr_output tr)))"

definition payload_bool :: "json \<Rightarrow> string \<Rightarrow> bool" where
  "payload_bool payload key = or_else (Option.bind (json_get payload key) json_as_bool) False"

definition on_state_updated :: "json \<Rightarrow> RouteContext \<Rightarrow> RouteContext" where
  "on_state_updated payload c =
     (let c =
        (if payload_bool payload ''fatal_invariant'' then
           let reason = json_get_str payload ''fatal_invariant_reason'';
               c = c\<lparr>rc_halted := True, rc_last_halt_reason := reason\<rparr>
           in case reason of None \<Rightarrow> c
              | Some r \<Rightarrow> push_journal ''runtime'' (''fatal_invariant_halt reason='' @ r) c
         else if json_get_str payload ''runtime_mode'' = Some ''running'' then
           push_journal ''runtime'' ''mode=running'' (c\<lparr>rc_halted := False, rc_last_halt_reason := None\<rparr>)
         else c)
      in if payload_bool payload ''workspace_dirty'' then
           push_journal ''observe'' (''workspace_dirty=true crate='' @ or_else (json_get_str payload ''crate'') ''unknown'')
             (c\<lparr>rc_workspace_dirty_tracker := mark_dirty ''orchestrator'' None (rc_workspace_dirty_tracker c)\<rparr>)
         else c)"

definition on_goodness :: "RouteEnv \<Rightarrow> GoodnessSnapshot \<Rightarrow> RouteContext \<Rightarrow> RouteContext" where
  "on_goodness env g c =
     push_journal ''goodness'' (''g='' @ ren_f32 env (gds_g g) @ '' delta='' @ ren_f32 env (gds_delta_g g))
       (c\<lparr>rc_goodness := Some (gds_g g), rc_delta_g := Some (gds_delta_g g),
          rc_objective_trend_state := record_goodness (gds_g g) (gds_delta_g g) (rc_objective_trend_state c)\<rparr>)"

fun update_from_event :: "RouteEnv \<Rightarrow> RuntimeEvent \<Rightarrow> RouteContext \<Rightarrow> RouteContext option" where
  "update_from_event env (EvRustcGraphArtifactWritten w) c = Some (on_capture_written w c)"
| "update_from_event env (EvRustcCaptureCompleted w) c =
     Some (push_journal ''observe''
       (''rustc_capture_completed crate='' @ rcc_crate_name w @ '' artifact_id='' @ rcc_artifact_id w) c)"
| "update_from_event env (EvRustcCaptureFailed w) c =
     Some (push_journal ''observe''
       (''rustc_capture_failed crate='' @ rcf_crate_name w @ '' message='' @ rcf_message w) (c\<lparr>rc_context_ready := True\<rparr>))"
| "update_from_event env (EvLoopObserved ob) c = Some (on_observed ob c)"
| "update_from_event env (EvLoopPlanned p) c = Some (on_planned p c)"
| "update_from_event env (EvLoopActed a) c = Some (on_acted a c)"
| "update_from_event env (EvLoopVerified v) c = Some (on_verified env v c)"
| "update_from_event env (EvVerifierPolicyUpdated u) c = Some (on_policy_updated u c)"
| "update_from_event env (EvLoopRewarded r) c = Some (on_rewarded r c)"
| "update_from_event env (EvSubTaskResult r) c = Some (on_sub_task_result r c)"
| "update_from_event env (EvErrorOccurred e) c = Some (on_error e c)"
| "update_from_event env (EvPlanningCompleted pc) c = Some (on_planning_completed pc c)"
| "update_from_event env (EvDebug d) c = Some (on_debug d c)"
| "update_from_event env (EvToolCall tc) c = Some (on_tool_call tc c)"
| "update_from_event env (EvToolResult tr) c = on_tool_result env tr c"
| "update_from_event env (EvRuntimeStateUpdated u) c = Some (on_state_updated (rsu_payload u) c)"
| "update_from_event env (EvGoodnessSnapshot g) c = Some (on_goodness env g c)"
| "update_from_event env _ c = Some c"

end
