(* ===== verification/Route_Executor.thy ===== *)
theory Route_Executor
  imports Route_Context
begin

text \<open>
  The router, of \<^verbatim>\<open>canon-utils/canon-route/src/executor.rs\<close> with the decision of \<^verbatim>\<open>decision.rs\<close> and the emit policy of
  \<^verbatim>\<open>policy.rs\<close>: a consumer that keeps the route context and answers an observation with the selected
  route.

  The payload of the decision trace holds a printed structure and is a parameter. The counter of
  trace identifiers, a static of the source, is part of the state. Emitting is synchronous, but
  the executor is borrowed while it emits, so no event reaches it in between. Trace output is
  left out.
\<close>

section \<open>Decision\<close>

fun route_debug :: "RouteKind \<Rightarrow> string" where
  "route_debug Observe = ''Observe''"
| "route_debug Plan = ''Plan''"
| "route_debug Act = ''Act''"
| "route_debug Verify = ''Verify''"
| "route_debug Conclude = ''Conclude''"
| "route_debug Decompose = ''Decompose''"

record RouteDecision =
  rd_lane :: RouteKind
  rd_suggested_route :: RouteKind
  rd_rationale :: string
  rd_confidence :: "f32 option"
  rd_changed :: bool
  rd_note :: string
  rd_gate_rules_fired :: "string list"
  rd_should_stop :: bool
  rd_prompt :: string

text \<open>The chain of conditions of the source, in its order.\<close>

definition semantic_route :: "SemanticStateSummary \<Rightarrow> RouteKind" where
  "semantic_route s =
     (if ss_complete s then Observe
      else if ss_cargo_project s \<or> 0 < or_else (ss_rust_file_count s) 0 then Act
      else if ss_path_exists s then Act
      else if \<not> ss_path_exists s then Plan
      else if ss_repo_initialized s then Act
      else if ss_validation_blocked_by_preconditions s \<and> ss_planning_preconditions s \<noteq> [] \<and>
              \<not> ss_repo_initialized s \<and> \<not> ss_path_exists s then Plan
      else if 1 < ss_version s then (if ss_repo_initialized s \<or> ss_cargo_project s then Act else Observe)
      else if \<not> ss_path_exists s \<and> ss_target_root s = None then Plan
      else if ss_compiler_repair_required s then Act
      else if ss_cargo_project s then Act
      else if ss_path_exists s \<and> ss_repo_initialized s \<and> \<not> ss_complete s then Act
      else if ss_path_exists s \<and> \<not> ss_repo_initialized s then Plan
      else if \<not> ss_path_exists s then Plan
      else if ss_target_root s = None then Plan
      else Plan)"

definition decide_from_json :: "SemanticStateSummary \<Rightarrow> string \<Rightarrow> RouteDecision" where
  "decide_from_json s prompt =
     (if ss_version s = 0
      then \<lparr> rd_lane = Plan, rd_suggested_route = Plan, rd_rationale = ''semantic_state_uninitialized::Plan'',
             rd_confidence = Some f32_0_5, rd_changed = True, rd_note = ''semantic_state_uninitialized'',
             rd_gate_rules_fired = [''semantic_state_required''], rd_should_stop = False, rd_prompt = prompt \<rparr>
      else
        let route = semantic_route s
        in \<lparr> rd_lane = route, rd_suggested_route = route,
             rd_rationale = ''semantic_state_routing::'' @ route_debug route, rd_confidence = Some f32_0_9,
             rd_changed = False, rd_note = ''semantic_state_routing'', rd_gate_rules_fired = [], rd_should_stop = False,
             rd_prompt = prompt \<rparr>)"

section \<open>Policy\<close>

datatype RouteEmitRule = RouteEmitAllowed | DuplicateEmitBeforeSuccessor | IllegalControlReentry | IllegalControlEmit

record RouteEmitEvaluation =
  ree_allowed :: bool
  ree_rule :: RouteEmitRule

definition evaluate_route_emit :: "string option \<Rightarrow> string option \<Rightarrow> RouteEmitEvaluation" where
  "evaluate_route_emit last_control_kind pending = \<lparr> ree_allowed = True, ree_rule = RouteEmitAllowed \<rparr>"

section \<open>The executor\<close>

record RouteExecutor =
  re_ctx :: RouteContext
  re_emitter :: bool
  re_pending_request_id :: "string option"
  re_pending_prompt :: "string option"
  re_dispatch_in_progress :: bool
  re_reroute_requested :: bool
  re_current_trigger :: "EventId option"
  re_last_decision_trace_id :: "u64 option"
  re_last_routed_tick :: "u64 option"
  re_trace_counter :: u64

definition new_route_executor :: RouteExecutor where
  "new_route_executor =
     \<lparr> re_ctx = new_route_context, re_emitter = False, re_pending_request_id = None, re_pending_prompt = None,
       re_dispatch_in_progress = False, re_reroute_requested = False, re_current_trigger = None,
       re_last_decision_trace_id = None, re_last_routed_tick = None, re_trace_counter = 1 \<rparr>"

definition set_emitter :: "RouteExecutor \<Rightarrow> RouteExecutor" where
  "set_emitter x = x\<lparr>re_emitter := True\<rparr>"

text \<open>File and line of an emission are those of the call in the source.\<close>

definition emission :: "RuntimeEvent \<Rightarrow> u32 \<Rightarrow> EventId list \<Rightarrow> LocatedEvent" where
  "emission e line parents =
     \<lparr> le_event = e, le_file = ''canon-utils/canon-route/src/executor.rs'', le_line = line, le_parent_ids = parents \<rparr>"

fun verifier_step :: "RuntimeEvent \<Rightarrow> VerifierSequenceStep option" where
  "verifier_step (EvLoopVerified _) = Some Step_LoopVerified"
| "verifier_step (EvVerifierPolicyUpdated _) = Some Step_VerifierPolicyUpdated"
| "verifier_step (EvLoopRewarded _) = Some Step_LoopRewarded"
| "verifier_step _ = None"

fun verifier_step_as_str :: "VerifierSequenceStep \<Rightarrow> string" where
  "verifier_step_as_str Step_LoopVerified = ''loop_verified''"
| "verifier_step_as_str Step_VerifierPolicyUpdated = ''verifier_policy_updated''"
| "verifier_step_as_str Step_LoopRewarded = ''loop_rewarded''"

definition should_reject_verifier_sequence :: "RuntimeEvent \<Rightarrow> RouteExecutor \<Rightarrow> (string \<times> string \<times> json) option" where
  "should_reject_verifier_sequence e x =
     (case verifier_step e of None \<Rightarrow> None
      | Some step \<Rightarrow>
          (case verifier_sequence_contract step None None (rc_verify_seen (re_ctx x)) of
             None \<Rightarrow> None
           | Some reason \<Rightarrow>
               Some (''meta_invariant_verifier_sequence_contract'', reason,
                 JObject [(''event_kind'', JString (event_kind_str e)), (''sequence_step'', JString (verifier_step_as_str step)),
                   (''last_control_kind'', JString ''removed''), (''pending_required_successor'', JString ''removed''),
                   (''verify_seen'', JBool (rc_verify_seen (re_ctx x)))])))"

definition emit_invariant_violation :: "string \<Rightarrow> EventId \<Rightarrow> string \<Rightarrow> string \<Rightarrow> json \<Rightarrow> RouteExecutor \<Rightarrow> LocatedEvent list" where
  "emit_invariant_violation uuid trigger feature reason context x =
     (if re_emitter x
      then [emission (EvInvariantDiscovered \<lparr> ivd_feature = feature, ivd_confidence = Finite 1, ivd_support = 1 \<rparr>) 201 [trigger],
            emission (EvErrorOccurred (new_error_occurred uuid ''verifier_sequence_invariant_violation'' ''route_executor''
              (''verifier sequence invariant violated: '' @ reason) ''warning''
              (JObject [(''feature'', JString feature), (''reason'', JString reason), (''context'', context)]) None)) 218 [trigger]]
      else [])"

definition route_selected_event :: "u64 \<Rightarrow> RouteDecision \<Rightarrow> RuntimeEvent" where
  "route_selected_event tick d =
     EvRouteSelected \<lparr> rsel_tick = tick, rsel_suggested_route = route_debug (rd_lane d), rsel_prompt = rd_prompt d,
       rsel_approved_route = route_debug (rd_lane d), rsel_rationale = rd_rationale d, rsel_confidence = rd_confidence d,
       rsel_gate_note = rd_note d, rsel_gate_rules_fired = rd_gate_rules_fired d, rsel_gate_changed = rd_changed d,
       rsel_gate_should_stop = rd_should_stop d, rsel_model_json = [] \<rparr>"

text \<open>\<^const>\<open>None\<close> is the panic without a decision trace.\<close>

definition emit_route_selected_from_decision :: "RouteDecision \<Rightarrow> RouteExecutor \<Rightarrow> (RouteExecutor \<times> LocatedEvent list) option" where
  "emit_route_selected_from_decision d x =
     (let tick = rc_scheduler_tick (re_ctx x)
      in if \<not> re_emitter x then Some (x, [])
         else if re_last_routed_tick x = Some tick then Some (x, [])
         else if re_last_decision_trace_id x = None then None
         else
           let x = x\<lparr>re_last_decision_trace_id := None, re_last_routed_tick := Some tick\<rparr>
           in case re_current_trigger x of
                None \<Rightarrow> Some (x, [])
              | Some trigger \<Rightarrow>
                  if \<not> ree_allowed (evaluate_route_emit None None) then Some (x, [])
                  else Some (x\<lparr>re_dispatch_in_progress := False\<rparr>, [emission (route_selected_event tick d) 560 [trigger]]))"

definition try_dispatch_route ::
    "(SemanticStateSummary \<Rightarrow> RouteDecision \<Rightarrow> json) \<Rightarrow> RouteExecutor \<Rightarrow> (RouteExecutor \<times> LocatedEvent list) option" where
  "try_dispatch_route trace_payload x =
     (let tick = rc_scheduler_tick (re_ctx x); s = rc_semantic_summary (re_ctx x);
          x = x\<lparr>re_last_decision_trace_id := Some (re_trace_counter x), re_trace_counter := re_trace_counter x + 1\<rparr>
      in if re_last_routed_tick x = Some tick then Some (x, [])
         else
           let d = decide_from_json s [];
               trace = (case re_current_trigger x of
                          Some trigger \<Rightarrow>
                            if re_emitter x
                            then [emission (EvDebug \<lparr> dbg_source = ''route_executor'', dbg_kind = ''decision_trace'',
                                    dbg_payload = JObject [(''reason'', JString ''route_decision''), (''context'', trace_payload s d)] \<rparr>)
                                    139 [trigger]]
                            else []
                        | None \<Rightarrow> [])
           in map_option (\<lambda>(x, es). (x\<lparr>re_last_routed_tick := Some tick\<rparr>, trace @ es))
                (emit_route_selected_from_decision d x))"

definition settle_batch :: "EventId \<Rightarrow> RouteExecutor \<Rightarrow> RouteExecutor \<times> LocatedEvent list" where
  "settle_batch trigger x =
     (case rc_batch_settled (re_ctx x) of None \<Rightarrow> (x, [])
      | Some (n, failed) \<Rightarrow>
          (x\<lparr>re_ctx := (re_ctx x)\<lparr>rc_batch_settled := None\<rparr>\<rparr>,
           if re_emitter x
           then [emission (EvToolBatchSettled \<lparr> tbs_tick = rc_scheduler_tick (re_ctx x), tbs_result_count = n,
                   tbs_any_failed = failed \<rparr>) 338 [trigger]]
           else []))"

definition set_tick :: "RuntimeEvent \<Rightarrow> RouteExecutor \<Rightarrow> RouteExecutor" where
  "set_tick e x = (case e of EvTick t \<Rightarrow> x\<lparr>re_ctx := (re_ctx x)\<lparr>rc_scheduler_tick := tk_tick t\<rparr>\<rparr> | _ \<Rightarrow> x)"

definition note_planning_completion :: "RuntimeEvent \<Rightarrow> RouteExecutor \<Rightarrow> RouteExecutor" where
  "note_planning_completion e x =
     (case e of
        EvPlanningCompleted pc \<Rightarrow>
          x\<lparr>re_ctx := ctx_record_planning_completion (plc_status pc) (Some (plc_planned_count pc)) (re_ctx x)\<rparr>
      | _ \<Rightarrow> x)"

text \<open>The final match on the event; every arm only answers, except for the completion of a pending
  request and of a plan.\<close>

definition finish_event :: "RuntimeEvent \<Rightarrow> RouteExecutor \<Rightarrow> EventOutcome \<times> RouteExecutor" where
  "finish_event e x =
     (case e of
        EvCapabilityRequested _ \<Rightarrow> (NoOp ''route_executor_capability_requested'', x)
      | EvCapabilityCompleted dn \<Rightarrow>
          if Some (cpc_request_id dn) \<noteq> re_pending_request_id x \<or> cpc_capability dn \<noteq> ''llm.call''
          then (NoOp ''route_executor_unrelated_completion'', x)
          else (NoOp ''route_executor_completion'', x\<lparr>re_pending_request_id := None, re_pending_prompt := None\<rparr>)
      | EvCapabilityFailed fl \<Rightarrow>
          if Some (cpf_request_id fl) \<noteq> re_pending_request_id x \<or> cpf_capability fl \<noteq> ''llm.call''
          then (NoOp ''route_executor_unrelated_failure'', x)
          else (NoOp ''route_executor_failure_reroute'', x\<lparr>re_pending_request_id := None, re_pending_prompt := None\<rparr>)
      | EvRouteTick _ \<Rightarrow> (NoOp ''route_executor_route_tick_already_dispatched'', x)
      | EvCode _ \<Rightarrow> (NoOp ''ignored_event_kind'', x)
      | EvDebug _ \<Rightarrow> (NoOp ''ignored_event_kind'', x)
      | EvEdit _ \<Rightarrow> (NoOp ''ignored_event_kind'', x)
      | EvErrorOccurred _ \<Rightarrow> (NoOp ''ignored_event_kind'', x)
      | EvTick _ \<Rightarrow> (NoOp ''ignored_event_kind'', x)
      | EvGoodnessSnapshot _ \<Rightarrow> (NoOp ''ignored_event_kind'', x)
      | EvCargo _ \<Rightarrow> (NoOp ''ignored_event_kind'', x)
      | EvFile _ \<Rightarrow> (NoOp ''ignored_event_kind'', x)
      | EvBash _ \<Rightarrow> (NoOp ''ignored_event_kind'', x)
      | EvLlm _ \<Rightarrow> (NoOp ''ignored_event_kind'', x)
      | EvPlanningCompleted _ \<Rightarrow> (NoOp ''route_executor_noop'', note_planning_completion e x)
      | _ \<Rightarrow> (NoOp ''route_executor_noop'', x))"

definition is_observed :: "RuntimeEvent \<Rightarrow> bool" where
  "is_observed e = (case e of EvLoopObserved _ \<Rightarrow> True | _ \<Rightarrow> False)"

definition is_route_tick :: "RuntimeEvent \<Rightarrow> bool" where
  "is_route_tick e = (case e of EvRouteTick _ \<Rightarrow> True | _ \<Rightarrow> False)"

definition after_dispatch :: "RuntimeEvent \<Rightarrow> EventId \<Rightarrow> RouteExecutor \<Rightarrow> LocatedEvent list \<Rightarrow> (EventOutcome \<times> LocatedEvent list) \<times> RouteExecutor" where
  "after_dispatch e trigger x es =
     (if re_dispatch_in_progress x \<and> \<not> is_route_tick e
      then ((NoOp ''route_executor_deferred_during_emit'', es), x\<lparr>re_reroute_requested := True\<rparr>)
      else
        case settle_batch trigger x of (x, settled) \<Rightarrow>
        case finish_event e (set_tick e x) of (outcome, x) \<Rightarrow> ((outcome, es @ settled), x))"

definition route_on_event ::
    "RouteEnv \<Rightarrow> string \<Rightarrow> (SemanticStateSummary \<Rightarrow> RouteDecision \<Rightarrow> json) \<Rightarrow> RouteExecutor consumer" where
  "route_on_event env uuid trace_payload e trigger x =
     (let x = x\<lparr>re_current_trigger := Some trigger\<rparr>
      in case should_reject_verifier_sequence e x of
           Some (feature, reason, context) \<Rightarrow>
             Some ((NoOp ''verifier_sequence_invariant_violation'', emit_invariant_violation uuid trigger feature reason context x), x)
         | None \<Rightarrow>
             (case update_from_event env e (re_ctx x) of
                None \<Rightarrow> None
              | Some c \<Rightarrow>
                  let x = note_planning_completion e (x\<lparr>re_ctx := c\<rparr>)
                  in if is_route_tick e then Some ((NoOp ''route_tick_opens_observe_cycle'', []), x)
                     else if is_observed e then
                       if ss_version (rc_semantic_summary (re_ctx x)) = 0
                       then Some ((NoOp ''route_executor_waiting_for_semantic_observation'', []), x)
                       else map_option (\<lambda>(x, es). after_dispatch e trigger x es) (try_dispatch_route trace_payload x)
                     else Some (after_dispatch e trigger x [])))"

section \<open>The invariant of the context\<close>

definition has_node :: "CausalGraph \<Rightarrow> string \<Rightarrow> bool" where
  "has_node g k \<longleftrightarrow> k \<in> dom (cg_nodes g)"

definition causal_ok :: "CausalGraph \<Rightarrow> bool" where
  "causal_ok g \<longleftrightarrow> (\<forall>e \<in> set (cg_edges g). has_node g (ce_to e))"

lemma has_node_upsert [simp]: "has_node (upsert_node k v g) k' \<longleftrightarrow> k' = k \<or> has_node g k'"
  by (auto simp: has_node_def upsert_node_def)

lemma edges_upsert_node [simp]: "cg_edges (upsert_node k v g) = cg_edges g"
  by (simp add: upsert_node_def)

lemma push_edge_simps [simp]:
  "has_node (push_edge a b k g) k' = has_node g k'"
  "cg_edges (push_edge a b k g) = cg_edges g @ [\<lparr> ce_from = a, ce_to = b, ce_kind = k \<rparr>]"
  by (simp_all add: push_edge_def has_node_def)

lemma causal_ok_upsert: "causal_ok g \<Longrightarrow> causal_ok (upsert_node k v g)"
  by (auto simp: causal_ok_def)

lemma causal_ok_push: "causal_ok g \<Longrightarrow> has_node g b \<Longrightarrow> causal_ok (push_edge a b k g)"
  by (auto simp: causal_ok_def)

lemma causal_ok_fold_push:
  "causal_ok g \<Longrightarrow> has_node g b \<Longrightarrow> causal_ok (fold (\<lambda>a. push_edge a b k) as g)"
proof (induction as arbitrary: g)
  case (Cons a as)
  then show ?case using Cons.IH [of "push_edge a b k g"] by (simp add: causal_ok_push)
qed simp

lemmas causal_defs = record_planned_def record_acted_def record_tool_call_def record_tool_result_def record_sub_result_def

lemma causal_ok_update: "causal_ok g \<Longrightarrow> causal_ok (update_causal_graph e g)"
  by (cases e)
     (auto simp: causal_defs Let_def intro!: causal_ok_fold_push causal_ok_push causal_ok_upsert split: option.splits)

lemma causal_ok_records:
  assumes "causal_ok g"
  shows "causal_ok (record_planned p g)" "causal_ok (record_acted a g)" "causal_ok (record_tool_call tc g)"
    "causal_ok (record_tool_result tr g)" "causal_ok (record_sub_result d n s g)"
  using causal_ok_update [OF assms, of "EvLoopPlanned p"] causal_ok_update [OF assms, of "EvLoopActed a"]
    causal_ok_update [OF assms, of "EvToolCall tc"] causal_ok_update [OF assms, of "EvToolResult tr"]
  by (simp_all add: assms record_sub_result_def Let_def causal_ok_push causal_ok_upsert)

lemma length_keep_last [simp]: "length (keep_last n xs) \<le> n"
  by (simp add: keep_last_def)

text \<open>The histories are bounded, nothing of a verification has arrived, and every causal edge ends in a
  node that was recorded.\<close>

definition context_ok :: "RouteContext \<Rightarrow> bool" where
  "context_ok c \<longleftrightarrow>
     length (rc_journal c) \<le> 32 \<and> length (rc_recent_execution_results c) \<le> 16 \<and>
     length (rc_recent_tool_results c) \<le> 8 \<and> causal_ok (rc_causal_graph c) \<and>
     \<not> rc_verify_seen c \<and> \<not> rc_finish_ready c \<and> rc_last_verifier_outcome c = None"

lemma context_ok_push_journal [intro]: "context_ok c \<Longrightarrow> context_ok (push_journal lane msg c)"
  by (auto simp: context_ok_def push_journal_def)

lemma context_ok_causal [intro]:
  "context_ok c \<Longrightarrow> context_ok (c\<lparr>rc_causal_graph := update_causal_graph e (rc_causal_graph c)\<rparr>)"
  by (simp add: context_ok_def causal_ok_update)

lemma context_ok_settle [intro]: "context_ok c \<Longrightarrow> context_ok (settle_intents a c)"
  by (auto simp: context_ok_def settle_intents_def Let_def split: option.splits)

lemma context_ok_acted: "context_ok c \<Longrightarrow> context_ok (on_acted a c)"
  unfolding on_acted_def Let_def
  by (intro context_ok_push_journal)
     (use context_ok_settle [of _ a] context_ok_causal [of _ "EvLoopActed a"] in
      \<open>auto simp: context_ok_def apply_bootstrap_def forget_invalid_plans_def settle_intents_def Let_def
         causal_ok_records split: option.splits\<close>)

lemma context_ok_tool_result: "context_ok c \<Longrightarrow> on_tool_result env tr c = Some c' \<Longrightarrow> context_ok c'"
  unfolding on_tool_result_def
  by (auto simp: Let_def case_prod_unfold context_ok_def push_journal_def causal_ok_records)

lemma context_ok_update:
  assumes "context_ok c" and "verifier_step e = None" and "update_from_event env e c = Some c'"
  shows "context_ok c'"
proof (cases e)
  case (EvToolResult tr)
  then show ?thesis using assms context_ok_tool_result by simp
next
  case (EvLoopActed a)
  then show ?thesis using assms context_ok_acted by auto
qed (use assms in \<open>auto simp: on_capture_written_def on_observed_def on_planned_def on_sub_task_result_def on_error_def
       on_planning_completed_def forget_invalid_plans_def on_debug_def on_tool_call_def on_state_updated_def on_goodness_def
       context_ok_def push_journal_def causal_ok_records Let_def split: option.splits if_splits\<close>)

lemma verification_always_rejected:
  assumes "verifier_step e = Some step"
  shows "\<exists>f r j. should_reject_verifier_sequence e x = Some (f, r, j)"
  using assms by (cases step) (simp_all add: should_reject_verifier_sequence_def Let_def)

section \<open>Runs of the router\<close>

definition executor_ok :: "RouteExecutor \<Rightarrow> bool" where
  "executor_ok x \<longleftrightarrow> context_ok (re_ctx x) \<and> \<not> re_dispatch_in_progress x"

lemma dispatch_effect:
  assumes "try_dispatch_route tp x = Some (x', es)"
  shows "re_ctx x' = re_ctx x \<and> re_emitter x' = re_emitter x \<and> re_current_trigger x' = re_current_trigger x \<and>
    re_last_routed_tick x' = Some (rc_scheduler_tick (re_ctx x)) \<and>
    (\<not> re_dispatch_in_progress x \<longrightarrow> \<not> re_dispatch_in_progress x')"
  using assms
  by (auto simp: try_dispatch_route_def emit_route_selected_from_decision_def evaluate_route_emit_def Let_def
      split: if_splits option.splits)

lemma settle_batch_effect:
  assumes "settle_batch trigger x = (x', es)"
  shows "re_ctx x' = (re_ctx x)\<lparr>rc_batch_settled := None\<rparr> \<and> re_dispatch_in_progress x' = re_dispatch_in_progress x \<and>
    re_last_routed_tick x' = re_last_routed_tick x \<and> re_emitter x' = re_emitter x"
  using assms by (cases "rc_batch_settled (re_ctx x)") (auto simp: settle_batch_def split: prod.splits)

lemma note_planning_effect:
  "re_dispatch_in_progress (note_planning_completion e x) = re_dispatch_in_progress x"
  "re_last_routed_tick (note_planning_completion e x) = re_last_routed_tick x"
  "re_emitter (note_planning_completion e x) = re_emitter x"
  "rc_scheduler_tick (re_ctx (note_planning_completion e x)) = rc_scheduler_tick (re_ctx x)"
  "context_ok (re_ctx (note_planning_completion e x)) = context_ok (re_ctx x)"
  by (cases e; simp add: note_planning_completion_def ctx_record_planning_completion_def context_ok_def)+

definition next_tick :: "RuntimeEvent \<Rightarrow> u64 \<Rightarrow> u64" where
  "next_tick e now = (case e of EvTick t \<Rightarrow> tk_tick t | _ \<Rightarrow> now)"

lemma finish_event_effect:
  assumes "finish_event e x = (out, x')"
  shows "re_dispatch_in_progress x' = re_dispatch_in_progress x \<and> re_last_routed_tick x' = re_last_routed_tick x \<and>
    re_emitter x' = re_emitter x \<and> rc_scheduler_tick (re_ctx x') = rc_scheduler_tick (re_ctx x) \<and>
    context_ok (re_ctx x') = context_ok (re_ctx x)"
  using assms by (cases e) (auto simp: finish_event_def note_planning_effect split: if_splits)

lemma set_tick_effect:
  "re_dispatch_in_progress (set_tick e x) = re_dispatch_in_progress x"
  "re_last_routed_tick (set_tick e x) = re_last_routed_tick x"
  "re_emitter (set_tick e x) = re_emitter x"
  "rc_scheduler_tick (re_ctx (set_tick e x)) = next_tick e (rc_scheduler_tick (re_ctx x))"
  "context_ok (re_ctx (set_tick e x)) = context_ok (re_ctx x)"
  by (cases e; simp add: set_tick_def next_tick_def context_ok_def)+

lemma context_ok_settled [simp]: "context_ok (c\<lparr>rc_batch_settled := b\<rparr>) = context_ok c"
  by (simp add: context_ok_def)

lemma after_dispatch_effect:
  assumes "after_dispatch e trigger x es = (r, x')" and "\<not> re_dispatch_in_progress x"
  shows "\<not> re_dispatch_in_progress x' \<and> re_last_routed_tick x' = re_last_routed_tick x \<and>
    re_emitter x' = re_emitter x \<and>
    rc_scheduler_tick (re_ctx x') = next_tick e (rc_scheduler_tick (re_ctx x)) \<and>
    context_ok (re_ctx x') = context_ok (re_ctx x) \<and> (\<exists>settled. snd r = es @ settled \<and> settled = snd (settle_batch trigger x))"
proof -
  obtain x1 settled where s: "settle_batch trigger x = (x1, settled)" by force
  obtain out x2 where f: "finish_event e (set_tick e x1) = (out, x2)" by force
  have "r = (out, es @ settled)" "x' = x2" using assms s f by (simp_all add: after_dispatch_def)
  then show ?thesis
    using finish_event_effect [OF f] settle_batch_effect [OF s] s assms(2) by (simp add: set_tick_effect)
qed

lemma tick_push_journal [simp]: "rc_scheduler_tick (push_journal lane msg c) = rc_scheduler_tick c"
  by (simp add: push_journal_def)

lemma tick_acted_steps [simp]:
  "rc_scheduler_tick (settle_intents a c) = rc_scheduler_tick c"
  "rc_scheduler_tick (apply_bootstrap a c) = rc_scheduler_tick c"
  "rc_scheduler_tick (forget_invalid_plans c) = rc_scheduler_tick c"
  by (simp_all add: settle_intents_def apply_bootstrap_def forget_invalid_plans_def Let_def split: option.split)

lemma tick_handlers [simp]:
  "rc_scheduler_tick (on_capture_written w c) = rc_scheduler_tick c"
  "rc_scheduler_tick (on_observed ob c) = rc_scheduler_tick c"
  "rc_scheduler_tick (on_planned p c) = rc_scheduler_tick c"
  "rc_scheduler_tick (on_verified env v c) = rc_scheduler_tick c"
  "rc_scheduler_tick (on_policy_updated u c) = rc_scheduler_tick c"
  "rc_scheduler_tick (on_rewarded rw c) = rc_scheduler_tick c"
  "rc_scheduler_tick (on_sub_task_result r c) = rc_scheduler_tick c"
  "rc_scheduler_tick (on_error er c) = rc_scheduler_tick c"
  "rc_scheduler_tick (on_planning_completed pc c) = rc_scheduler_tick c"
  "rc_scheduler_tick (on_debug d c) = rc_scheduler_tick c"
  "rc_scheduler_tick (on_tool_call tc c) = rc_scheduler_tick c"
  "rc_scheduler_tick (on_goodness env g c) = rc_scheduler_tick c"
  by (simp_all add: on_capture_written_def on_observed_def on_planned_def on_verified_def on_policy_updated_def
      on_rewarded_def on_sub_task_result_def on_error_def on_planning_completed_def on_debug_def on_tool_call_def
      on_goodness_def Let_def split: option.split)

lemma tick_state_updated [simp]: "rc_scheduler_tick (on_state_updated payload c) = rc_scheduler_tick c"
  by (simp add: on_state_updated_def Let_def split: option.split)

lemma tick_acted [simp]: "rc_scheduler_tick (on_acted a c) = rc_scheduler_tick c"
  by (simp add: on_acted_def Let_def split: option.split)

lemma tick_tool_result: "on_tool_result env tr c = Some c' \<Longrightarrow> rc_scheduler_tick c' = rc_scheduler_tick c"
  by (auto simp: on_tool_result_def Let_def case_prod_unfold)

lemma tick_unchanged: "update_from_event env e c = Some c' \<Longrightarrow> rc_scheduler_tick c' = rc_scheduler_tick c"
  by (cases e) (auto dest: tick_tool_result)

definition route_tick_of :: "LocatedEvent \<Rightarrow> u64 option" where
  "route_tick_of l = (case le_event l of EvRouteSelected r \<Rightarrow> Some (rsel_tick r) | _ \<Rightarrow> None)"

definition route_ticks :: "LocatedEvent list \<Rightarrow> u64 list" where
  "route_ticks ls = List.map_filter route_tick_of ls"

lemma route_ticks_simps [simp]:
  "route_ticks [] = []" "route_ticks (xs @ ys) = route_ticks xs @ route_ticks ys"
  "route_ticks (l # ls) = (case route_tick_of l of None \<Rightarrow> [] | Some t \<Rightarrow> [t]) @ route_ticks ls"
  by (auto simp: route_ticks_def List.map_filter_def split: option.splits)

lemma route_ticks_settled [simp]: "route_ticks (snd (settle_batch trigger x)) = []"
  by (cases "rc_batch_settled (re_ctx x)") (auto simp: settle_batch_def route_tick_of_def emission_def)

lemma dispatch_routes:
  assumes "try_dispatch_route tp x = Some (x', es)"
  shows "route_ticks es = [] \<or>
    (route_ticks es = [rc_scheduler_tick (re_ctx x)] \<and> re_last_routed_tick x \<noteq> Some (rc_scheduler_tick (re_ctx x)))"
  using assms
  by (auto simp: try_dispatch_route_def emit_route_selected_from_decision_def evaluate_route_emit_def Let_def
      route_tick_of_def emission_def route_selected_event_def split: if_splits option.splits)

lemma route_step:
  assumes "route_on_event env uuid tp e trigger x = Some (r, x')" and "executor_ok x"
  shows "executor_ok x'"
    and "rc_scheduler_tick (re_ctx x') = next_tick e (rc_scheduler_tick (re_ctx x))"
    and "route_ticks (snd r) = [] \<and> re_last_routed_tick x' \<in> {re_last_routed_tick x, Some (rc_scheduler_tick (re_ctx x))} \<or>
      (route_ticks (snd r) = [rc_scheduler_tick (re_ctx x)] \<and> re_last_routed_tick x \<noteq> Some (rc_scheduler_tick (re_ctx x)) \<and>
       re_last_routed_tick x' = Some (rc_scheduler_tick (re_ctx x)))"
proof -
  define x0 where "x0 = x\<lparr>re_current_trigger := Some trigger\<rparr>"
  have goal: "executor_ok x' \<and> rc_scheduler_tick (re_ctx x') = next_tick e (rc_scheduler_tick (re_ctx x)) \<and>
    (route_ticks (snd r) = [] \<and> re_last_routed_tick x' \<in> {re_last_routed_tick x, Some (rc_scheduler_tick (re_ctx x))} \<or>
      (route_ticks (snd r) = [rc_scheduler_tick (re_ctx x)] \<and> re_last_routed_tick x \<noteq> Some (rc_scheduler_tick (re_ctx x)) \<and>
       re_last_routed_tick x' = Some (rc_scheduler_tick (re_ctx x))))"
  proof (cases "verifier_step e")
    case (Some step)
    then obtain f rs j where "should_reject_verifier_sequence e x0 = Some (f, rs, j)"
      using verification_always_rejected by blast
    with assms(1) have "x' = x0" "snd r = emit_invariant_violation uuid trigger f rs j x0"
      by (auto simp: route_on_event_def x0_def Let_def)
    moreover have "next_tick e now = now" for now using Some by (cases e) (auto simp: next_tick_def)
    ultimately show ?thesis
      using assms(2) by (auto simp: executor_ok_def x0_def emit_invariant_violation_def route_tick_of_def emission_def)
  next
    case None
    then have "should_reject_verifier_sequence e x0 = None" by (simp add: should_reject_verifier_sequence_def)
    with assms(1) obtain c where c: "update_from_event env e (re_ctx x) = Some c"
      by (auto simp: route_on_event_def x0_def Let_def split: option.splits)
    define x1 where "x1 = note_planning_completion e (x0\<lparr>re_ctx := c\<rparr>)"
    have ok1: "executor_ok x1" and tick1: "rc_scheduler_tick (re_ctx x1) = rc_scheduler_tick (re_ctx x)"
      and last1: "re_last_routed_tick x1 = re_last_routed_tick x"
      using assms(2) context_ok_update [OF _ None c] tick_unchanged [OF c]
      by (simp_all add: x1_def x0_def executor_ok_def note_planning_effect)
    consider (quiet) "x' = x1" "snd r = []" "next_tick e (rc_scheduler_tick (re_ctx x)) = rc_scheduler_tick (re_ctx x)"
      | (dispatch) x2 es where "try_dispatch_route tp x1 = Some (x2, es)" "(r, x') = after_dispatch e trigger x2 es"
      | (other) "(r, x') = after_dispatch e trigger x1 []"
      using assms(1) \<open>should_reject_verifier_sequence e x0 = None\<close> c
      by (cases e) (auto simp: route_on_event_def x0_def x1_def Let_def is_route_tick_def is_observed_def next_tick_def split: if_splits)
    then show ?thesis
    proof cases
      case quiet
      then show ?thesis using ok1 tick1 last1 by simp
    next
      case (dispatch x2 es)
      note d = dispatch_effect [OF dispatch(1)]
      have nd: "\<not> re_dispatch_in_progress x2" using d ok1 by (simp add: executor_ok_def)
      note a = after_dispatch_effect [OF dispatch(2) [symmetric] nd]
      show ?thesis
        using a d nd dispatch_routes [OF dispatch(1)] ok1 tick1 last1 by (auto simp: executor_ok_def)
    next
      case other
      have nd: "\<not> re_dispatch_in_progress x1" using ok1 by (simp add: executor_ok_def)
      note a = after_dispatch_effect [OF other [symmetric] nd]
      show ?thesis using a nd ok1 tick1 last1 by (auto simp: executor_ok_def)
    qed
  qed
  from goal show "executor_ok x'"
    and "rc_scheduler_tick (re_ctx x') = next_tick e (rc_scheduler_tick (re_ctx x))"
    and "route_ticks (snd r) = [] \<and> re_last_routed_tick x' \<in> {re_last_routed_tick x, Some (rc_scheduler_tick (re_ctx x))} \<or>
      (route_ticks (snd r) = [rc_scheduler_tick (re_ctx x)] \<and> re_last_routed_tick x \<noteq> Some (rc_scheduler_tick (re_ctx x)) \<and>
       re_last_routed_tick x' = Some (rc_scheduler_tick (re_ctx x)))" by blast+
qed

interpretation router: event_consumer "route_on_event env uuid tp" executor_ok for env uuid tp
  by unfold_locales (rule route_step(1))

lemma new_executor_ok: "executor_ok (set_emitter new_route_executor)"
  by (simp add: executor_ok_def context_ok_def causal_ok_def set_emitter_def new_route_executor_def new_route_context_def
      empty_causal_graph_def)

text \<open>C19: Whatever events the router is given, it never takes notice of a verification: in every
  state it reaches, no verification was seen, the run is not ready to finish and no outcome of a
  verifier is known, because each of the three verifier events is rejected before it updates
  the context. Its histories stay bounded, and every edge of the causal graph ends in a recorded
  node.\<close>

theorem router_never_sees_verification:
  assumes "consumer_run (route_on_event env uuid trace_payload) es (set_emitter new_route_executor) = Some x"
  shows "\<not> rc_verify_seen (re_ctx x) \<and> \<not> rc_finish_ready (re_ctx x) \<and> rc_last_verifier_outcome (re_ctx x) = None \<and>
    length (rc_journal (re_ctx x)) \<le> 32 \<and> length (rc_recent_execution_results (re_ctx x)) \<le> 16 \<and>
    length (rc_recent_tool_results (re_ctx x)) \<le> 8 \<and>
    (\<forall>edge \<in> set (cg_edges (rc_causal_graph (re_ctx x))). ce_to edge \<in> dom (cg_nodes (rc_causal_graph (re_ctx x))))"
proof -
  have "executor_ok x" by (rule router.run_ok [OF new_executor_ok assms])
  then show ?thesis unfolding executor_ok_def context_ok_def causal_ok_def has_node_def by blast
qed

section \<open>One route per tick\<close>

fun consumer_emitted :: "'s consumer \<Rightarrow> (RuntimeEvent \<times> EventId) list \<Rightarrow> 's \<Rightarrow> LocatedEvent list" where
  "consumer_emitted on_event [] s = []"
| "consumer_emitted on_event ((e, t) # es) s =
     (case on_event e t s of None \<Rightarrow> [] | Some ((_, ls), s') \<Rightarrow> ls @ consumer_emitted on_event es s')"

fun ticks_ascend :: "u64 \<Rightarrow> (RuntimeEvent \<times> EventId) list \<Rightarrow> bool" where
  "ticks_ascend now [] = True"
| "ticks_ascend now ((e, t) # es) \<longleftrightarrow> now \<le> next_tick e now \<and> ticks_ascend (next_tick e now) es"

lemma routes_ascend:
  assumes "executor_ok x" and "ticks_ascend (rc_scheduler_tick (re_ctx x)) es"
    and "\<forall>l. re_last_routed_tick x = Some l \<longrightarrow> l \<le> rc_scheduler_tick (re_ctx x)"
  shows "sorted_wrt (<) (route_ticks (consumer_emitted (route_on_event env uuid tp) es x)) \<and>
    (\<forall>t \<in> set (route_ticks (consumer_emitted (route_on_event env uuid tp) es x)).
       rc_scheduler_tick (re_ctx x) \<le> t \<and> (\<forall>l. re_last_routed_tick x = Some l \<longrightarrow> l < t))"
  using assms
proof (induction es arbitrary: x)
  case (Cons et es)
  obtain e t where et: "et = (e, t)" by force
  show ?case
  proof (cases "route_on_event env uuid tp e t x")
    case None
    then show ?thesis by (simp add: et)
  next
    case (Some res)
    obtain out ls x' where res: "res = ((out, ls), x')" by (metis surj_pair)
    note step = route_step [OF Some [unfolded res] Cons.prems(1)]
    let ?T = "rc_scheduler_tick (re_ctx x)"
    have asc: "?T \<le> next_tick e ?T" "ticks_ascend (rc_scheduler_tick (re_ctx x')) es"
      using Cons.prems(2) step(2) by (simp_all add: et)
    have last: "\<forall>l. re_last_routed_tick x' = Some l \<longrightarrow> l \<le> rc_scheduler_tick (re_ctx x')"
      using step(2,3) asc(1) Cons.prems(3) by auto
    note ih = Cons.IH [OF step(1) asc(2) last]
    show ?thesis
    proof (cases "route_ticks ls = []")
      case True
      then show ?thesis using ih step(2,3) asc(1) Cons.prems(3) Some res et by (force simp: step(2))
    next
      case False
      with step(3) have new: "route_ticks ls = [?T]" "re_last_routed_tick x \<noteq> Some ?T" "re_last_routed_tick x' = Some ?T"
        by auto
      then show ?thesis using ih asc(1) Cons.prems(3) Some res et by (force simp: step(2))
    qed
  qed
qed simp

text \<open>C5: The router selects at most one route per tick: as long as the ticks it is told do not fall,
  the ticks of the routes it emits rise strictly.\<close>

theorem one_route_per_tick:
  assumes "ticks_ascend 0 es"
  shows "sorted_wrt (<) (route_ticks (consumer_emitted (route_on_event env uuid trace_payload) es (set_emitter new_route_executor)))"
proof -
  let ?x = "set_emitter new_route_executor"
  have "rc_scheduler_tick (re_ctx ?x) = 0" "re_last_routed_tick ?x = None"
    by (simp_all add: set_emitter_def new_route_executor_def new_route_context_def)
  then show ?thesis using routes_ascend [OF new_executor_ok, of es env uuid trace_payload] assms by simp
qed

text \<open>Of the long chain of conditions of the decision only four matter.\<close>

lemma semantic_route_chain:
  "semantic_route s =
     (if ss_complete s then Observe
      else if ss_cargo_project s \<or> 0 < or_else (ss_rust_file_count s) 0 \<or> ss_path_exists s then Act
      else Plan)"
  by (simp add: semantic_route_def)

definition selected_route :: "LocatedEvent \<Rightarrow> string option" where
  "selected_route l = (case le_event l of EvRouteSelected r \<Rightarrow> Some (rsel_approved_route r) | _ \<Rightarrow> None)"

lemma settled_selects_nothing: "List.map_filter selected_route (snd (settle_batch trigger x)) = []"
  by (cases "rc_batch_settled (re_ctx x)")
    (auto simp: settle_batch_def selected_route_def emission_def List.map_filter_def)

lemma dispatch_selects:
  assumes "re_emitter x" and "re_last_routed_tick x \<noteq> Some (rc_scheduler_tick (re_ctx x))"
    and "re_current_trigger x = Some trigger"
  shows "\<exists>x' es. try_dispatch_route tp x = Some (x', es) \<and>
    List.map_filter selected_route es = [route_debug (rd_lane (decide_from_json (rc_semantic_summary (re_ctx x)) []))]"
  using assms
  by (simp add: try_dispatch_route_def emit_route_selected_from_decision_def evaluate_route_emit_def Let_def
      selected_route_def emission_def route_selected_event_def List.map_filter_def)

lemma observed_summary: "rc_semantic_summary (on_observed ob c) = lo_semantic_summary ob"
  by (simp add: on_observed_def push_journal_def Let_def split: option.split)

lemma selected_after_dispatch:
  assumes "after_dispatch e trigger x es = (r, x')" and "\<not> re_dispatch_in_progress x"
  shows "List.map_filter selected_route (snd r) = List.map_filter selected_route es"
  using after_dispatch_effect [OF assms] by (auto simp: map_filter_append settled_selects_nothing)

text \<open>C6: The first observation of a tick that carries an initialised summary makes the router select
  exactly one route, and the route is a function of four facts of the summary: a complete
  workspace is observed again, a workspace with a Cargo project, Rust files or an existing path is
  acted on, and any other is planned. No observation leads to a verification, a conclusion or a
  decomposition.\<close>

theorem observation_selects_route:
  assumes "executor_ok x" and "re_emitter x" and "re_last_routed_tick x \<noteq> Some (rc_scheduler_tick (re_ctx x))"
    and "ss_version (lo_semantic_summary ob) \<noteq> 0"
  shows "\<exists>out es x'. route_on_event env uuid trace_payload (EvLoopObserved ob) trigger x = Some ((out, es), x') \<and>
    List.map_filter selected_route es =
      [route_debug
         (if ss_complete (lo_semantic_summary ob) then Observe
          else if ss_cargo_project (lo_semantic_summary ob) \<or> 0 < or_else (ss_rust_file_count (lo_semantic_summary ob)) 0 \<or>
                  ss_path_exists (lo_semantic_summary ob) then Act
          else Plan)]"
proof -
  let ?s = "lo_semantic_summary ob" and ?e = "EvLoopObserved ob"
  define x1 where "x1 = note_planning_completion ?e (x\<lparr>re_current_trigger := Some trigger, re_ctx := on_observed ob (re_ctx x)\<rparr>)"
  have x1: "re_emitter x1" "re_last_routed_tick x1 \<noteq> Some (rc_scheduler_tick (re_ctx x1))" "re_current_trigger x1 = Some trigger"
    "rc_semantic_summary (re_ctx x1) = ?s" "\<not> re_dispatch_in_progress x1"
    using assms by (simp_all add: x1_def note_planning_completion_def executor_ok_def observed_summary)
  obtain x2 es where d: "try_dispatch_route trace_payload x1 = Some (x2, es)"
    and es: "List.map_filter selected_route es = [route_debug (rd_lane (decide_from_json ?s []))]"
    using dispatch_selects [OF x1(1-3), of trace_payload] x1(4) by auto
  obtain out ls x3 where a: "after_dispatch ?e trigger x2 es = ((out, ls), x3)" by (metis surj_pair)
  have step: "route_on_event env uuid trace_payload ?e trigger x = Some ((out, ls), x3)"
    using d a x1(4) assms(4)
    by (simp add: route_on_event_def should_reject_verifier_sequence_def x1_def is_route_tick_def is_observed_def Let_def)
  have "\<not> re_dispatch_in_progress x2" using dispatch_effect [OF d] x1(5) by simp
  from selected_after_dispatch [OF a this] es step assms(4) show ?thesis
    by (simp add: decide_from_json_def Let_def semantic_route_chain)
qed

text \<open>A completed plan is recorded by the early test and again by the final match, so one failed call
  to the planner counts as two.\<close>

lemma failed_planning_counts_twice:
  assumes "\<not> re_dispatch_in_progress x" and "plc_status pc = ''llm_failed''"
  shows "\<exists>r x'. route_on_event env uuid trace_payload (EvPlanningCompleted pc) trigger x = Some (r, x') \<and>
    rc_consecutive_llm_plan_failures (re_ctx x') = rc_consecutive_llm_plan_failures (re_ctx x) + 2"
  using assms
  by (cases "rc_batch_settled (re_ctx x)")
    (auto simp: route_on_event_def should_reject_verifier_sequence_def is_route_tick_def is_observed_def after_dispatch_def
      settle_batch_def finish_event_def set_tick_def note_planning_completion_def ctx_record_planning_completion_def
      on_planning_completed_def forget_invalid_plans_def Let_def)

text \<open>An action that ran a tool is recorded under the identifier of the tool result: the edge from
  the result to the action is a loop, and the node of the result is kept.\<close>

lemma acted_edge_is_a_loop:
  assumes "la_tool_result_id a = Some r" and "cg_nodes g r = Some n"
  shows "\<lparr> ce_from = r, ce_to = r, ce_kind = ''resulted_in'' \<rparr> \<in> set (cg_edges (record_acted a g)) \<and>
    cg_nodes (record_acted a g) r = Some n"
  using assms by (auto simp: record_acted_def Let_def upsert_node_def push_edge_def split: option.splits)

section \<open>Examples\<close>

definition plain_route_env :: RouteEnv where
  "plain_route_env = \<lparr> ren_loc = 0, ren_json = (\<lambda>_. []), ren_f32 = (\<lambda>_. []) \<rparr>"

definition first_observation :: LoopObserved where
  "first_observation =
     \<lparr> lo_tick = 1, lo_error_count = 0, lo_warning_count = 0, lo_compiler_errors = [], lo_goal_text = None,
       lo_semantic_summary = default_summary\<lparr>ss_version := 1, ss_path_exists := True\<rparr>, lo_observe_diagnostics = [] \<rparr>"

definition first_ticks :: "(RuntimeEvent \<times> EventId) list" where
  "first_ticks = [(EvTick \<lparr> tk_tick = 1, tk_emitted = True \<rparr>, ''e1''), (EvLoopObserved first_observation, ''e2''),
     (EvTick \<lparr> tk_tick = 2, tk_emitted = True \<rparr>, ''e3'')]"

theorem one_route_per_tick_witness:
  "ticks_ascend 0 first_ticks \<and>
   sorted_wrt (<) (route_ticks (consumer_emitted (route_on_event plain_route_env [] (\<lambda>_ _. JNull)) first_ticks
     (set_emitter new_route_executor)))"
proof -
  have "ticks_ascend 0 first_ticks" by (simp add: first_ticks_def next_tick_def)
  then show ?thesis using one_route_per_tick by blast
qed

theorem router_never_sees_verification_witness:
  "\<exists>x. consumer_run (route_on_event plain_route_env [] (\<lambda>_ _. JNull)) [(EvTick \<lparr> tk_tick = 1, tk_emitted = True \<rparr>, ''e1'')]
     (set_emitter new_route_executor) = Some x \<and> \<not> rc_verify_seen (re_ctx x)"
proof -
  obtain x where run: "consumer_run (route_on_event plain_route_env [] (\<lambda>_ _. JNull))
      [(EvTick \<lparr> tk_tick = 1, tk_emitted = True \<rparr>, ''e1'')] (set_emitter new_route_executor) = Some x"
    by (simp add: route_on_event_def should_reject_verifier_sequence_def is_route_tick_def is_observed_def after_dispatch_def
        Let_def settle_batch_def finish_event_def set_tick_def note_planning_completion_def set_emitter_def new_route_executor_def
        new_route_context_def)
  then show ?thesis using router_never_sees_verification [OF run] by blast
qed

theorem observation_selects_route_witness:
  "\<exists>out es x'. route_on_event plain_route_env [] (\<lambda>_ _. JNull) (EvLoopObserved first_observation) ''e1''
     (set_emitter new_route_executor) = Some ((out, es), x') \<and> List.map_filter selected_route es = [''Act'']"
proof -
  have "executor_ok (set_emitter new_route_executor)" by (rule new_executor_ok)
  moreover have "re_emitter (set_emitter new_route_executor)"
    "re_last_routed_tick (set_emitter new_route_executor) \<noteq> Some (rc_scheduler_tick (re_ctx (set_emitter new_route_executor)))"
    by (simp_all add: set_emitter_def new_route_executor_def)
  moreover have "ss_version (lo_semantic_summary first_observation) \<noteq> 0" by (simp add: first_observation_def)
  ultimately show ?thesis
    using observation_selects_route [of "set_emitter new_route_executor" first_observation plain_route_env "[]" "\<lambda>_ _. JNull" "''e1''"]
    by (simp add: first_observation_def default_summary_def)
qed

end
