(* ===== verification/Spec2Isabelle.thy ===== *)
theory Spec2Isabelle
  imports Joint_Harness Invariant_Discovery Request_Lifecycle Tlog_Failures Route_Gate Loop_Scheduler Semantic_State Patch_Parser
    Repair_Properties Runtime_Properties Union_Find Merkle_Tree String_Search Sat_Solver Constraint_Propagation Graph_Replay
    Plan_Validation Route_Executor
begin

text \<open>
  \<^bold>\<open>Verification of the canonir runtime.\<close> canonir is an event-sourced agent runtime in Rust. Every
  decision is an event; the runtime checks an event, appends it to a binary log and hands it to
  its consumers, which emit further events. One consumer routes (observe, plan, act, verify,
  conclude), the stages of the loop plan and run actions in a workspace, the compiler reports the
  code graph of the workspace as events, and a constraint engine decides which actions a state
  permits. This root theory imports the whole library; every theory names the file it models, and
  paths below are relative to the root of the repository, with \<^verbatim>\<open>canon-utils/\<close> left out.

  \<^bold>\<open>Conventions.\<close> Structures are records with a prefix per structure, enumerations are datatypes
  with the constructors of the source, and each function of the source is one definition, with
  helpers for closures and loop bodies. Machine integers are words and wrap where the source
  wraps; \<^verbatim>\<open>usize\<close> has 64 bits. Strings are lists of bytes. Errors and panics are values: a sum type or an
  option whose \<^const>\<open>None\<close> is the panic, as each theory says. Hash maps are partial functions, or
  association lists where their order can be observed.

  \<^bold>\<open>Foundations.\<close>
  \<^item> \<open>Canon_Prelude\<close>: words, strings, JSON values, association lists, comparison of \<^verbatim>\<open>f32\<close>, and the
    locale \<open>event_machine\<close>: a step function with an invariant, from which runs keep the invariant. It
    is interpreted on the control harness, the discovery store and the scheduler.
  \<^item> \<open>Float_Rounding\<close>: rounding of rationals as the divisions of \<^verbatim>\<open>f32\<close> and \<^verbatim>\<open>f64\<close> do it.
  \<^item> \<open>Path_Model\<close>: components, order and joining of \<^verbatim>\<open>std::path\<close> values, and when a path stays below a root.

  \<^bold>\<open>The log.\<close>
  \<^item> \<open>Event_Wire\<close> (\<^verbatim>\<open>canon-runtime-events/src/wire.rs\<close>), \<open>Event_Invariants\<close> (\<^verbatim>\<open>invariants.rs\<close>), \<open>Dedup_Cache\<close>,
    \<open>Tlog_Writer\<close> (\<^verbatim>\<open>tlog/binary.rs\<close>) and \<open>Segment_Reader\<close> (\<^verbatim>\<open>canon-storage-eventlog/src/binary_reader.rs\<close>):
    event kinds and their legal successors, the gate in front of a write, segments with rotation,
    retention and index, and the frames read back. The two duplicate filters share the locale
    \<open>bounded_dedup\<close>.
  \<^item> \<open>Tlog_Properties\<close>: the abstract log of a directory is the sequence of events the reader returns.
    A successful append extends it by one event, and whatever is written, the log is legal and
    only grows. \<open>Segment_Reader\<close>: a segment cut anywhere is read as a prefix of its events.
  \<^item> \<open>Tlog_Failures\<close>: what rejections, a reopened directory, the index and the emitter of \<^verbatim>\<open>emit.rs\<close> lose.

  \<^bold>\<open>The runtime.\<close>
  \<^item> \<open>Runtime_Events\<close> (\<^verbatim>\<open>canon-runtime-events/src/events.rs\<close>) and \<open>Event_Shape\<close> (the event macro of
    \<^verbatim>\<open>canon-proc-macros/src/lib.rs\<close>): the typed events and their wire form, which is always well-formed.
    The locale \<open>event_consumer\<close> states what a consumer owes: an invariant kept by every event. It is
    interpreted on the repair controller and on the router.
  \<^item> \<open>Event_Bus\<close> (\<^verbatim>\<open>canon-runtime/src/hooks.rs\<close>, \<^verbatim>\<open>bus.rs\<close>), \<open>Invariant_Engine\<close> (\<^verbatim>\<open>invariants.rs\<close>), \<open>Kernel_Graph\<close>
    (\<^verbatim>\<open>canon-types/src/kernel_types.rs\<close>), \<open>Event_Runtime\<close> (\<^verbatim>\<open>canon-runtime/src/lib.rs\<close>): hooks may veto, the engine learns
    which features precede failures, the kernel keeps the compiler graph, the runtime composes them.
  \<^item> \<open>Runtime_Properties\<close>: for every sequence of public operations, with arbitrary consumers and
    hooks, the log stays legal and only grows, and a halted runtime runs again only after a
    recovery or a reset. The locale \<open>runtime_closure\<close> carries both through the operations. Draining the
    emitted events may go on for ever, since consumers may emit without end; it is bounded by
    fuel, running out of it is the result \<open>RunFuel\<close>, and the theorems hold for every amount.
  \<^item> \<open>Repair_Control\<close>, \<open>Repair_Properties\<close> (\<^verbatim>\<open>canon-runtime/src/consumers/repair_control_consumer.rs\<close>): the
    history of the repair phases is a path of the phase machine, and attempts are bounded.

  \<^bold>\<open>Invariants and harnesses\<close> (\<^verbatim>\<open>canon-invariant/src/\<close>).
  \<^item> \<open>Constraint_Engine\<close>, \<open>Invariant_Discovery\<close> (\<^verbatim>\<open>lib.rs\<close>): the decision on an action with its refusals, and
    the store that promotes an invariant when failures support it, saved and reloaded.
  \<^item> \<open>Control_Harness\<close>, \<open>Joint_Harness\<close>, \<open>Request_Lifecycle\<close>: the synthetic state spaces. The table of the
    product is exactly the set of states reachable within the depth bound.

  \<^bold>\<open>Routing and planning.\<close>
  \<^item> \<open>Route_Gate\<close> (\<^verbatim>\<open>canon-decision\<close>, \<^verbatim>\<open>canon-judgment\<close>): parsing of a chosen route and the gatekeeper.
  \<^item> \<open>Route_Context\<close>, \<open>Route_Executor\<close> (\<^verbatim>\<open>canon-route/src/\<close>, \<^verbatim>\<open>canon-goal/src/lib.rs\<close>): the state of the router, what each event
    adds to it, and the selection of a route: one per tick, a function of four facts of the
    summary, and never informed by a verification.
  \<^item> \<open>Loop_Scheduler\<close> (\<^verbatim>\<open>canon-loop/src/scheduler.rs\<close>): a heap (locale \<open>max_heap\<close>) of actions; the capacity of
    an agent is never exceeded.
  \<^item> \<open>Semantic_State\<close>, \<open>Development_Objectives\<close> (\<^verbatim>\<open>canon-semantic-state/src/lib.rs\<close>): the summary of a
    workspace with its line format, which is read back as it was written, and the trend counters.
  \<^item> \<open>Compiler_Hints\<close>, \<open>Loop_Policy\<close>, \<open>Plan_Preconditions\<close>, \<open>Plan_Validation\<close> (\<^verbatim>\<open>canon-loop/src/\<close>: \<^verbatim>\<open>compiler_hints.rs\<close>,
    \<^verbatim>\<open>policy.rs\<close> and \<^verbatim>\<open>harness_repair.rs\<close>, \<^verbatim>\<open>planning_preconditions.rs\<close> and parts of \<^verbatim>\<open>env_model.rs\<close>, the gate of \<^verbatim>\<open>stage/plan.rs\<close>):
    messages become hints, hints become preconditions and repair intents, and a planned batch is
    accepted only if it is one legal action inside the workspace.
  \<^item> \<open>Patch_Parser\<close> (\<^verbatim>\<open>canon-tools-patch/src/\<close>): the patch format; a printed patch is parsed back.

  \<^bold>\<open>The code graph and the algorithms.\<close>
  \<^item> \<open>Graph_Replay\<close> (\<^verbatim>\<open>canon-storage-eventlog/src/replay.rs\<close>, \<^verbatim>\<open>graph_types.rs\<close>, \<^verbatim>\<open>snapshot.rs\<close>): the numbered graph refines a map
    from symbols to their last definition, and snapshots restore it.
  \<^item> \<open>Union_Find\<close>, \<open>Merkle_Tree\<close>, \<open>String_Search\<close>, \<open>Sat_Solver\<close>, \<open>Constraint_Propagation\<close> (\<^verbatim>\<open>algorithms/src/\<close>):
    each against a reference definition: the equivalence closure, proofs that bind a block to its
    root, the list of occurrences, satisfiability, arc consistency with its termination.

  \<^bold>\<open>Bounds.\<close> Besides the fuel of the runtime, replay assumes fewer than \<open>2^32\<close> events and the theorem on the
  runtime log fewer than \<open>2^64\<close> identifiers drawn, since positions and counters are words of these widths. All other
  recursions terminate and need no bound.

  \<^bold>\<open>Parameters.\<close> What is not in the repository, or depends on the machine, is an argument: the serde
  encoders and decoders, with the law that decoding undoes encoding where a theorem needs it
  (\<open>faithful_writer\<close>); hash functions and SHA-256; the clock and the UUIDs; the printers of \<^verbatim>\<open>f32\<close>, of JSON
  and of debug output; the answer of \<^verbatim>\<open>z3\<close> and of the external patch program; the existence of files.
  Witnesses instantiate them with concrete functions.

  \<^bold>\<open>Not modelled.\<close> The stages of the loop apart from the gate, since they build prompts, call the
  language model and run tools; capability execution, the web-socket relay to the language model,
  supervisor and builder, which are processes, sockets and timers; the capture inside the
  compiler and the editor on syntax trees, which rest on crates that are not in the repository;
  command-line programs, reports and their projections, the policy matrix (a table of test rows)
  and the goodness scores; the GPU variants and the remaining algorithms; the inspection of a
  directory tree in \<^verbatim>\<open>env_model.rs\<close>. Threads are not modelled: the runtime dispatches synchronously.
\<close>

end
